(* ===== verification/Prelude.thy ===== *)
theory Prelude
  imports Main "HOL-Library.AList" "HOL-Library.Multiset" "HOL-Library.Word"
begin

text \<open>
  Shared vocabulary of the development: Python exceptions as values, Python dictionaries as
  association lists that keep insertion order, byte strings, the pseudo random generator, and the
  lemma collections that the component theories extend.

  \<^item> \<open>result_simps\<close>: inversion rules for computations that may raise;
  \<^item> \<open>dict_simps\<close>: lookup, update and deletion in dictionaries;
  \<^item> \<open>end_simps\<close>, \<open>chan_simps\<close>: field-wise behaviour of operations on one side of a channel and on a
    whole channel (filled by the component theories).
\<close>

named_theorems result_simps
named_theorems dict_simps
named_theorems end_simps
named_theorems chan_simps

subsection \<open>Exceptions as values\<close>

text \<open>
  A Python function that may raise returns \<open>py_error + 'a\<close>. The state machine of the node works on
  a deep copy of its state, so a raised exception discards every mutation made before it: no state
  is attached to the error.
\<close>

datatype py_error =
    AssertionError
  | ValueError
  | KeyError
  | IndexError
  | OverflowError
  | ZeroDivisionError
  | NotImplementedError
  | InvalidSignature
  | UndefinedMediationFee
  | RuntimeError
  | AttributeError
  | InvalidSecret

type_synonym 'a result = "py_error + 'a"

definition bind_result :: "'a result \<Rightarrow> ('a \<Rightarrow> 'b result) \<Rightarrow> 'b result" where
  "bind_result m f = (case m of Inl e \<Rightarrow> Inl e | Inr x \<Rightarrow> f x)"

definition py_assert :: "bool \<Rightarrow> 'a result \<Rightarrow> 'a result" where
  "py_assert b m = (if b then m else Inl AssertionError)"

definition raise_if :: "bool \<Rightarrow> py_error \<Rightarrow> 'a result \<Rightarrow> 'a result" where
  "raise_if b e m = (if b then Inl e else m)"

lemma bind_result_Inr [simp]: "bind_result (Inr x) f = f x"
  by (simp add: bind_result_def)

lemma bind_result_Inl [simp]: "bind_result (Inl e) f = Inl e"
  by (simp add: bind_result_def)

lemma bind_result_eq_Inr [result_simps]:
  "bind_result m f = Inr y \<longleftrightarrow> (\<exists>x. m = Inr x \<and> f x = Inr y)"
  by (cases m) auto

lemma bind_result_eq_Inl [result_simps]:
  "bind_result m f = Inl e \<longleftrightarrow> m = Inl e \<or> (\<exists>x. m = Inr x \<and> f x = Inl e)"
  by (cases m) auto

lemma py_assert_True [simp]: "py_assert True m = m"
  by (simp add: py_assert_def)

lemma py_assert_False [simp]: "py_assert False m = Inl AssertionError"
  by (simp add: py_assert_def)

lemma py_assert_eq_Inr [result_simps]: "py_assert b m = Inr y \<longleftrightarrow> b \<and> m = Inr y"
  by (simp add: py_assert_def)

lemma py_assert_eq_Inl [result_simps]:
  "py_assert b m = Inl e \<longleftrightarrow> (\<not> b \<and> e = AssertionError) \<or> (b \<and> m = Inl e)"
  by (auto simp: py_assert_def)

lemma raise_if_False [simp]: "raise_if False e m = m"
  by (simp add: raise_if_def)

lemma raise_if_True [simp]: "raise_if True e m = Inl e"
  by (simp add: raise_if_def)

lemma raise_if_eq_Inr [result_simps]: "raise_if b e m = Inr y \<longleftrightarrow> \<not> b \<and> m = Inr y"
  by (simp add: raise_if_def)

lemma bind_result_cong [fundef_cong]:
  "m = m' \<Longrightarrow> (\<And>x. m' = Inr x \<Longrightarrow> f x = f' x) \<Longrightarrow> bind_result m f = bind_result m' f'"
  by (cases m') auto

text \<open>A comprehension whose element expression may raise, and indexing a list with a natural number.\<close>

fun map_result :: "('a \<Rightarrow> 'b result) \<Rightarrow> 'a list \<Rightarrow> 'b list result" where
  "map_result f [] = Inr []"
| "map_result f (x # xs) =
     bind_result (f x) (\<lambda>y. bind_result (map_result f xs) (\<lambda>ys. Inr (y # ys)))"

definition nth_result :: "'a list \<Rightarrow> nat \<Rightarrow> 'a result" where
  "nth_result xs i = (if i < length xs then Inr (xs ! i) else Inl IndexError)"

lemma map_result_eq_Inr [result_simps]:
  "map_result f xs = Inr ys \<longleftrightarrow> list_all2 (\<lambda>x y. f x = Inr y) xs ys"
  by (induction xs arbitrary: ys) (auto simp: result_simps list_all2_Cons1)

lemma map_result_length: "map_result f xs = Inr ys \<Longrightarrow> length ys = length xs"
  by (simp add: map_result_eq_Inr list_all2_lengthD)

subsection \<open>Dictionaries\<close>

text \<open>
  A Python \<open>dict\<close> iterates in insertion order, and assigning to an existing key keeps its place.
  That is \<^const>\<open>AList.update\<close>; \<open>d.get(k)\<close> is \<^const>\<open>map_of\<close> and \<open>del d[k]\<close> is
  \<^const>\<open>AList.delete\<close> (every use in the source is guarded by a membership test).
\<close>

type_synonym ('k, 'v) dict = "('k \<times> 'v) list"

abbreviation dict_ok :: "('k, 'v) dict \<Rightarrow> bool" where
  "dict_ok d \<equiv> distinct (map fst d)"

definition dict_mem :: "'k \<Rightarrow> ('k, 'v) dict \<Rightarrow> bool" where
  "dict_mem k d \<longleftrightarrow> map_of d k \<noteq> None"

definition dict_values :: "('k, 'v) dict \<Rightarrow> 'v list" where
  "dict_values d = map snd d"

text \<open>
  The interface that the channel code relies on: lookups after writes, and how the collection of
  values changes, since the locked amount of a participant is a sum over dictionary values.
\<close>

locale dict_ops =
  fixes dget :: "'d \<Rightarrow> 'k \<Rightarrow> 'v option"
    and dset :: "'k \<Rightarrow> 'v \<Rightarrow> 'd \<Rightarrow> 'd"
    and ddel :: "'k \<Rightarrow> 'd \<Rightarrow> 'd"
    and dvals :: "'d \<Rightarrow> 'v list"
    and dinv :: "'d \<Rightarrow> bool"
  assumes get_set: "dget (dset k v d) = (dget d)(k \<mapsto> v)"
    and get_del: "dget (ddel k d) = (dget d)(k := None)"
    and inv_set: "dinv d \<Longrightarrow> dinv (dset k v d)"
    and inv_del: "dinv d \<Longrightarrow> dinv (ddel k d)"
    and del_absent: "dget d k = None \<Longrightarrow> ddel k d = d"
    and vals_set_new:
      "dget d k = None \<Longrightarrow> mset (dvals (dset k v d)) = add_mset v (mset (dvals d))"
    and vals_del:
      "dinv d \<Longrightarrow> dget d k = Some v \<Longrightarrow> mset (dvals d) = add_mset v (mset (dvals (ddel k d)))"
    and vals_get: "dinv d \<Longrightarrow> v \<in> set (dvals d) \<longleftrightarrow> (\<exists>k. dget d k = Some v)"
begin

lemma sum_set_new:
  fixes f :: "'v \<Rightarrow> int"
  assumes "dget d k = None"
  shows "(\<Sum>x\<leftarrow>dvals (dset k v d). f x) = f v + (\<Sum>x\<leftarrow>dvals d. f x)"
proof -
  have "sum_mset (image_mset f (mset (dvals (dset k v d))))
      = f v + sum_mset (image_mset f (mset (dvals d)))"
    by (simp add: vals_set_new [OF assms])
  then show ?thesis
    by (simp flip: sum_mset_sum_list mset_map)
qed

lemma sum_del:
  fixes f :: "'v \<Rightarrow> int"
  assumes "dinv d" and "dget d k = Some v"
  shows "(\<Sum>x\<leftarrow>dvals (ddel k d). f x) = (\<Sum>x\<leftarrow>dvals d. f x) - f v"
proof -
  have "sum_mset (image_mset f (mset (dvals d)))
      = f v + sum_mset (image_mset f (mset (dvals (ddel k d))))"
    by (simp add: vals_del [OF assms])
  then show ?thesis
    by (simp flip: sum_mset_sum_list mset_map)
qed

lemma mset_map_del:
  assumes "dinv d" and "dget d k = Some v"
  shows "mset (map g (dvals (ddel k d))) = mset (map g (dvals d)) - {# g v #}"
  using vals_del [OF assms] by simp

lemma mset_map_set_new:
  assumes "dget d k = None"
  shows "mset (map g (dvals (dset k v d))) = add_mset (g v) (mset (map g (dvals d)))"
  using vals_set_new [OF assms] by simp

lemma set_del_same: "dget (ddel k d) k = None"
  by (simp add: get_del)

end

lemma dict_update_new: "map_of d k = None \<Longrightarrow> AList.update k v d = d @ [(k, v)]"
  by (induction d) auto

lemma dict_delete_absent: "map_of d k = None \<Longrightarrow> AList.delete k d = d"
  by (induction d) auto

lemma dict_values_delete:
  "dict_ok d \<Longrightarrow> map_of d k = Some v \<Longrightarrow>
    mset (dict_values d) = add_mset v (mset (dict_values (AList.delete k d)))"
proof (induction d)
  case Nil
  then show ?case by simp
next
  case (Cons p d)
  obtain k' v' where p: "p = (k', v')" by (cases p)
  show ?case
  proof (cases "k' = k")
    case True
    with Cons.prems p have "map_of d k = None" by (auto simp: map_of_eq_None_iff)
    with True p Cons.prems show ?thesis by (simp add: dict_values_def dict_delete_absent)
  next
    case False
    with Cons p show ?thesis by (simp add: dict_values_def)
  qed
qed

lemma dict_ok_delete: "dict_ok d \<Longrightarrow> dict_ok (AList.delete k d)"
  by (simp add: distinct_delete)

lemma dict_ok_update: "dict_ok d \<Longrightarrow> dict_ok (AList.update k v d)"
  by (simp add: distinct_update)

lemma dict_values_iff: "dict_ok d \<Longrightarrow> v \<in> set (dict_values d) \<longleftrightarrow> (\<exists>k. map_of d k = Some v)"
  by (force simp: dict_values_def)

interpretation pydict: dict_ops map_of AList.update AList.delete dict_values dict_ok
proof unfold_locales
  show "map_of (AList.update k v d) = (map_of d)(k \<mapsto> v)"
    for k :: 'a and v :: 'b and d by (rule update_conv')
  show "map_of (AList.delete k d) = (map_of d)(k := None)"
    for k :: 'a and d :: "('a, 'b) dict" by (rule delete_conv')
  show "dict_ok (AList.update k v d)" if "dict_ok d"
    for k :: 'a and v :: 'b and d using that by (rule dict_ok_update)
  show "dict_ok (AList.delete k d)" if "dict_ok d"
    for k :: 'a and d :: "('a, 'b) dict" using that by (rule dict_ok_delete)
  show "AList.delete k d = d" if "map_of d k = None"
    for k :: 'a and d :: "('a, 'b) dict" using that by (rule dict_delete_absent)
  show "mset (dict_values (AList.update k v d)) = add_mset v (mset (dict_values d))"
    if "map_of d k = None" for k :: 'a and v :: 'b and d
    using that by (simp add: dict_update_new dict_values_def)
  show "mset (dict_values d) = add_mset v (mset (dict_values (AList.delete k d)))"
    if "dict_ok d" and "map_of d k = Some v" for k :: 'a and v :: 'b and d
    using that by (rule dict_values_delete)
  show "v \<in> set (dict_values d) \<longleftrightarrow> (\<exists>k. map_of d k = Some v)" if "dict_ok d"
    for v :: 'b and d :: "('a, 'b) dict" using that by (rule dict_values_iff)
qed

lemmas [dict_simps] = pydict.get_set pydict.get_del pydict.set_del_same

lemma dict_mem_update [dict_simps]: "dict_mem k (AList.update k' v d) \<longleftrightarrow> k = k' \<or> dict_mem k d"
  by (simp add: dict_mem_def pydict.get_set)

lemma dict_mem_delete [dict_simps]: "dict_mem k (AList.delete k' d) \<longleftrightarrow> k \<noteq> k' \<and> dict_mem k d"
  by (simp add: dict_mem_def pydict.get_del)

lemma dict_mem_Nil [simp]: "\<not> dict_mem k []"
  by (simp add: dict_mem_def)

lemma dict_values_Nil [simp]: "dict_values [] = []"
  by (simp add: dict_values_def)

lemma dict_memE:
  assumes "dict_mem k d"
  obtains v where "map_of d k = Some v"
  using assms by (auto simp: dict_mem_def)

subsection \<open>Lists\<close>

text \<open>\<open>list.remove(x)\<close> drops the first occurrence: \<^const>\<open>remove1\<close>. \<open>max(d, default=0)\<close>
  over the keys of a dictionary is \<open>max_default\<close>.\<close>

fun max_default :: "int \<Rightarrow> int list \<Rightarrow> int" where
  "max_default z [] = z"
| "max_default z (x # xs) = foldl max x xs"

lemma foldl_max_ge: "x \<le> foldl max x (xs :: int list)"
proof (induction xs arbitrary: x)
  case (Cons y ys)
  from Cons [of "max x y"] show ?case by simp
qed simp

lemma foldl_max_Max: "foldl max x (xs :: int list) = Max (set (x # xs))"
proof (induction xs arbitrary: x)
  case (Cons y ys)
  have "foldl max x (y # ys) = Max (set (max x y # ys))" by (simp add: Cons)
  also have "\<dots> = Max (set (x # y # ys))"
    by (cases ys) (simp_all add: max.assoc)
  finally show ?case .
qed simp

lemma max_default_Max: "xs \<noteq> [] \<Longrightarrow> max_default z xs = Max (set xs)"
  by (cases xs) (simp_all add: foldl_max_Max)

lemma max_default_in: "xs \<noteq> [] \<Longrightarrow> max_default z xs \<in> set xs"
  by (simp add: max_default_Max Max_in)

lemma max_default_ge: "x \<in> set xs \<Longrightarrow> x \<le> max_default z xs"
proof -
  assume "x \<in> set xs"
  moreover from this have "xs \<noteq> []" by auto
  ultimately show ?thesis by (simp add: max_default_Max)
qed

lemma max_default_snoc:
  "(\<forall>x \<in> set xs. x \<le> y) \<Longrightarrow> max_default z (xs @ [y]) = y"
  by (subst max_default_Max) (auto intro!: Max_eqI)

lemma max_default_subset:
  assumes "set xs \<subseteq> set ys" and "\<forall>y \<in> set ys. z \<le> y"
  shows "max_default z xs \<le> max_default z ys"
proof (cases "xs = []")
  case True
  show ?thesis
  proof (cases "ys = []")
    case False
    with assms(2) max_default_in [OF this] True show ?thesis by auto
  qed (simp add: True)
next
  case False
  with assms(1) show ?thesis by (auto intro!: max_default_ge dest: max_default_in [of _ z])
qed

lemma mset_remove1_map:
  "x \<in> set xs \<Longrightarrow> mset xs = add_mset x (mset (remove1 x xs))"
  by simp

subsection \<open>Byte strings and numeric limits\<close>

type_synonym byte = "8 word"
type_synonym bytes = "byte list"

definition UINT256_MAX :: int where
  "UINT256_MAX = 2 ^ 256 - 1"

definition UINT64_MAX :: int where
  "UINT64_MAX = 2 ^ 64 - 1"

lemma UINT_MAX_pos [simp]: "0 < UINT256_MAX" "0 < UINT64_MAX" "0 \<le> UINT256_MAX" "0 \<le> UINT64_MAX"
  by (simp_all add: UINT256_MAX_def UINT64_MAX_def)

subsection \<open>The pseudo random generator\<close>

text \<open>
  \<open>random.Random\<close> is a deterministic stream of draws fixed by its seed. The stream is arbitrary;
  \<open>randint\<close> reduces the next draw into the requested range and advances the generator.
\<close>

record prng =
  prng_draws :: "nat \<Rightarrow> int"
  prng_pos :: nat

definition randint :: "int \<Rightarrow> int \<Rightarrow> prng \<Rightarrow> int \<times> prng" where
  "randint lo hi g =
     (lo + prng_draws g (prng_pos g) mod (hi - lo + 1), g\<lparr>prng_pos := Suc (prng_pos g)\<rparr>)"

lemma randint_range: "lo \<le> hi \<Longrightarrow> randint lo hi g = (x, g') \<Longrightarrow> lo \<le> x \<and> x \<le> hi"
proof -
  assume "lo \<le> hi" and "randint lo hi g = (x, g')"
  moreover have "0 \<le> prng_draws g (prng_pos g) mod (hi - lo + 1)"
    and "prng_draws g (prng_pos g) mod (hi - lo + 1) < hi - lo + 1"
    using \<open>lo \<le> hi\<close> by (simp, intro pos_mod_bound, simp)
  ultimately show ?thesis by (auto simp: randint_def)
qed

end
