(* ===== verification/Encoding.thy ===== *)
theory Encoding
  imports Prelude Complex_Main
begin

text \<open>
  Byte-level encodings: \<open>int.to_bytes\<close> and \<open>int.from_bytes\<close>, the \<open>Lock\<close> structure of
  \<open>messages/transfers.py\<close> and the \<open>HashTimeLockState\<close> built on it, \<open>hash_balance_data\<close>, the
  locksroot, and the signature recovery of \<open>utils/signer.py\<close>. The hash functions, the elliptic
  curve recovery and the packing of the \<open>raiden_contracts\<close> package are third-party code: they are
  the fields of the record \<open>platform\<close>, and every definition that needs one takes the record as its
  first argument.
\<close>

subsection \<open>Third-party functions\<close>

type_synonym address = bytes
type_synonym secret = bytes
type_synonym secrethash = bytes
type_synonym locksroot = bytes
type_synonym signature = bytes
type_synonym block_hash = bytes

text \<open>
  \<open>ecdsa_recover\<close> maps a message hash and 65 signature bytes to the canonical address of the
  recovered key, \<open>None\<close> where \<open>eth_keys\<close> raises \<open>BadSignature\<close> or \<open>ValidationError\<close>.
  \<open>proofs_pack_balance_proof\<close> is \<open>raiden_contracts.utils.proofs.pack_balance_proof\<close> for the message
  type \<open>BALANCE_PROOF\<close>: token network address, chain id, channel id, nonce, balance hash, additional
  hash. \<open>libm_pow\<close> is the C library's \<open>pow\<close> behind Python's float exponentiation, on the rational
  values of doubles; \<open>None\<close> is a range error.
\<close>

record platform =
  keccak :: "bytes \<Rightarrow> bytes"
  sha256 :: "bytes \<Rightarrow> bytes"
  ecdsa_recover :: "bytes \<Rightarrow> signature \<Rightarrow> address option"
  proofs_pack_balance_proof :: "address \<Rightarrow> int \<Rightarrow> int \<Rightarrow> int \<Rightarrow> bytes \<Rightarrow> bytes \<Rightarrow> bytes"
  libm_pow :: "rat \<Rightarrow> rat \<Rightarrow> rat option"

text \<open>Both hash functions produce 32 bytes.\<close>

definition digests_ok :: "platform \<Rightarrow> bool" where
  "digests_ok E \<longleftrightarrow> (\<forall>x. length (keccak E x) = 32) \<and> (\<forall>x. length (sha256 E x) = 32)"

lemma digests_okD [simp]:
  "digests_ok E \<Longrightarrow> length (keccak E x) = 32" "digests_ok E \<Longrightarrow> length (sha256 E x) = 32"
  by (simp_all add: digests_ok_def)

subsection \<open>Big-endian integers\<close>

fun be_bytes :: "nat \<Rightarrow> int \<Rightarrow> bytes" where
  "be_bytes 0 i = []"
| "be_bytes (Suc n) i = be_bytes n (i div 256) @ [word_of_int (i mod 256)]"

text \<open>\<open>i.to_bytes(n, byteorder="big")\<close> raises \<open>OverflowError\<close> outside \<open>[0, 256 ^ n)\<close>.\<close>

definition to_bytes :: "nat \<Rightarrow> int \<Rightarrow> bytes result" where
  "to_bytes n i = (if 0 \<le> i \<and> i < 256 ^ n then Inr (be_bytes n i) else Inl OverflowError)"

definition from_bytes :: "bytes \<Rightarrow> int" where
  "from_bytes bs = foldl (\<lambda>a b. a * 256 + uint b) 0 bs"

lemma length_be_bytes [simp]: "length (be_bytes n i) = n"
  by (induction n arbitrary: i) auto

lemma from_bytes_snoc: "from_bytes (bs @ [b]) = from_bytes bs * 256 + uint b"
  by (simp add: from_bytes_def)

lemma uint_byte_of_int: "uint (word_of_int (i mod 256) :: byte) = i mod 256"
  by (simp add: uint_word_of_int)

lemma from_be_bytes: "from_bytes (be_bytes n i) = i mod 256 ^ n"
proof (induction n arbitrary: i)
  case 0
  show ?case by (simp add: from_bytes_def)
next
  case (Suc n)
  have "from_bytes (be_bytes (Suc n) i) = (i div 256) mod 256 ^ n * 256 + i mod 256"
    by (simp add: from_bytes_snoc Suc uint_byte_of_int)
  also have "\<dots> = i mod (256 * 256 ^ n)"
    by (simp add: zmod_zmult2_eq algebra_simps)
  finally show ?case by simp
qed

lemma from_bytes_bounds: "0 \<le> from_bytes bs \<and> from_bytes bs < 256 ^ length bs"
proof (induction bs rule: rev_induct)
  case Nil
  show ?case by (simp add: from_bytes_def)
next
  case (snoc b bs)
  have "0 \<le> uint b" and "uint b < 256" using uint_range_size [of b] by (simp_all add: word_size)
  with snoc show ?case by (simp add: from_bytes_snoc)
qed

lemma be_from_bytes: "be_bytes (length bs) (from_bytes bs) = bs"
proof (induction bs rule: rev_induct)
  case Nil
  show ?case by simp
next
  case (snoc b bs)
  have b: "0 \<le> uint b" "uint b < 256" using uint_range_size [of b] by (simp_all add: word_size)
  then have "(from_bytes bs * 256 + uint b) div 256 = from_bytes bs"
    and "(from_bytes bs * 256 + uint b) mod 256 = uint b" by simp_all
  with snoc show ?case by (simp add: from_bytes_snoc)
qed

subsection \<open>Codecs\<close>

text \<open>
  A codec decodes every encoding of a valid value; its encoder is then injective on valid values.
  If moreover all encodings have the same positive length, so is the encoding of a list by
  concatenation, which is how the locksroot is computed.
\<close>

locale codec =
  fixes enc :: "'a \<Rightarrow> bytes"
    and dec :: "bytes \<Rightarrow> 'a result"
    and valid :: "'a \<Rightarrow> bool"
  assumes dec_enc: "valid x \<Longrightarrow> dec (enc x) = Inr x"
begin

lemma enc_inj: "valid x \<Longrightarrow> valid y \<Longrightarrow> enc x = enc y \<longleftrightarrow> x = y"
  using dec_enc by (metis sum.inject(2))

end

locale fixed_codec = codec +
  fixes width :: nat
  assumes width_pos: "0 < width"
    and enc_width: "valid x \<Longrightarrow> length (enc x) = width"
begin

lemma concat_inj:
  assumes "\<forall>x\<in>set xs. valid x" and "\<forall>y\<in>set ys. valid y"
    and "concat (map enc xs) = concat (map enc ys)"
  shows "xs = ys"
  using assms
proof (induction xs arbitrary: ys)
  case Nil
  show ?case
  proof (cases ys)
    case (Cons y ys')
    with Nil enc_width [of y] width_pos show ?thesis by auto
  qed simp
next
  case (Cons x xs)
  show ?case
  proof (cases ys)
    case Nil
    with Cons.prems enc_width [of x] width_pos show ?thesis by auto
  next
    case (Cons y ys')
    with Cons.prems enc_width [of x] enc_width [of y]
    have "enc x = enc y" and "concat (map enc xs) = concat (map enc ys')" by auto
    with Cons.IH [of ys'] Cons Cons.prems enc_inj [of x y] show ?thesis by auto
  qed
qed

end

abbreviation is_uint256 :: "int \<Rightarrow> bool" where
  "is_uint256 i \<equiv> 0 \<le> i \<and> i \<le> UINT256_MAX"

lemma uint256_bytes: "is_uint256 i \<Longrightarrow> i mod 256 ^ 32 = i"
  by (simp add: UINT256_MAX_def)

lemma to_bytes_uint256: "is_uint256 i \<Longrightarrow> to_bytes 32 i = Inr (be_bytes 32 i)"
  by (simp add: to_bytes_def UINT256_MAX_def)

interpretation uint256: fixed_codec "be_bytes 32" "\<lambda>bs. Inr (from_bytes bs)" is_uint256 32
  by unfold_locales (simp_all add: from_be_bytes uint256_bytes del: power_numeral)

subsection \<open>Locks\<close>

record lock =
  lk_amount :: int
  lk_expiration :: int
  lk_secrethash :: secrethash

definition ishash :: "bytes \<Rightarrow> bool" where
  "ishash data \<longleftrightarrow> length data = 32"

text \<open>\<open>Lock.__post_init__\<close>.\<close>

definition mk_lock :: "int \<Rightarrow> int \<Rightarrow> secrethash \<Rightarrow> lock result" where
  "mk_lock amount expiration secrethash =
     raise_if (amount < 0) ValueError (
     raise_if (amount > UINT256_MAX) ValueError (
     raise_if (expiration < 0) ValueError (
     raise_if (expiration > UINT256_MAX) ValueError (
     raise_if (\<not> ishash secrethash) ValueError (
     Inr \<lparr>lk_amount = amount, lk_expiration = expiration, lk_secrethash = secrethash\<rparr>)))))"

definition as_bytes :: "lock \<Rightarrow> bytes result" where
  "as_bytes l =
     bind_result (to_bytes 32 (lk_expiration l)) (\<lambda>e.
     bind_result (to_bytes 32 (lk_amount l)) (\<lambda>a.
     Inr (e @ a @ lk_secrethash l)))"

definition lock_from_bytes :: "bytes \<Rightarrow> lock result" where
  "lock_from_bytes serialized =
     mk_lock (from_bytes (take 32 (drop 32 serialized))) (from_bytes (take 32 serialized))
       (drop 64 serialized)"

text \<open>
  \<open>HashTimeLockState\<close> has the fields of a \<open>Lock\<close> and, as \<open>encoded\<close>, its bytes; the constructor runs
  the checks of \<open>Lock\<close>, so every object satisfies \<open>valid_lock\<close> and \<open>encoded\<close> is total on objects.
\<close>

definition valid_lock :: "lock \<Rightarrow> bool" where
  "valid_lock l \<longleftrightarrow> is_uint256 (lk_amount l) \<and> is_uint256 (lk_expiration l) \<and> ishash (lk_secrethash l)"

definition encoded :: "lock \<Rightarrow> bytes" where
  "encoded l = be_bytes 32 (lk_expiration l) @ be_bytes 32 (lk_amount l) @ lk_secrethash l"

definition mk_hash_time_lock :: "int \<Rightarrow> int \<Rightarrow> secrethash \<Rightarrow> lock result" where
  "mk_hash_time_lock amount expiration secrethash =
     bind_result (mk_lock amount expiration secrethash) (\<lambda>l.
     bind_result (as_bytes l) (\<lambda>_. Inr l))"

lemma mk_lock_eq_Inr [result_simps]:
  "mk_lock a e s = Inr l \<longleftrightarrow>
     l = \<lparr>lk_amount = a, lk_expiration = e, lk_secrethash = s\<rparr> \<and> valid_lock l"
  by (auto simp: mk_lock_def valid_lock_def raise_if_def)

lemma mk_lock_valid: "valid_lock l \<Longrightarrow> mk_lock (lk_amount l) (lk_expiration l) (lk_secrethash l) = Inr l"
  by (simp add: mk_lock_eq_Inr)

lemma as_bytes_valid: "valid_lock l \<Longrightarrow> as_bytes l = Inr (encoded l)"
  by (simp add: as_bytes_def encoded_def valid_lock_def to_bytes_uint256)

lemma mk_hash_time_lock_eq_Inr [result_simps]:
  "mk_hash_time_lock a e s = Inr l \<longleftrightarrow>
     l = \<lparr>lk_amount = a, lk_expiration = e, lk_secrethash = s\<rparr> \<and> valid_lock l"
  by (auto simp: mk_hash_time_lock_def result_simps as_bytes_valid)

lemma lock_from_encoded: "valid_lock l \<Longrightarrow> lock_from_bytes (encoded l) = Inr l"
  by (simp add: lock_from_bytes_def encoded_def from_be_bytes mk_lock_eq_Inr valid_lock_def
      uint256_bytes del: power_numeral)

lemma length_encoded: "valid_lock l \<Longrightarrow> length (encoded l) = 96"
  by (simp add: encoded_def valid_lock_def ishash_def)

interpretation lock_codec: fixed_codec encoded lock_from_bytes valid_lock 96
  by unfold_locales (simp_all add: lock_from_encoded length_encoded)

text \<open>Every 96-byte string is the encoding of exactly the lock it decodes to.\<close>

lemma lock_from_bytes_encoded:
  assumes "length bs = 96" and "lock_from_bytes bs = Inr l"
  shows "encoded l = bs"
proof -
  have e: "be_bytes 32 (from_bytes (take 32 bs)) = take 32 bs"
    using be_from_bytes [of "take 32 bs"] assms(1) by simp
  have a: "be_bytes 32 (from_bytes (take 32 (drop 32 bs))) = take 32 (drop 32 bs)"
    using be_from_bytes [of "take 32 (drop 32 bs)"] assms(1) by simp
  have s: "bs = take 32 bs @ take 32 (drop 32 bs) @ drop 64 bs"
    by (metis append_take_drop_id drop_drop numeral_Bit0 add.commute)
  show ?thesis
    using assms(2) e a s by (simp add: lock_from_bytes_def mk_lock_eq_Inr encoded_def)
qed

subsection \<open>Locksroot and balance hash\<close>

text \<open>\<open>pending_locks.locks\<close> is a list of encoded locks, \<open>LOCKSROOT_OF_NO_LOCKS\<close> is \<open>keccak(b"")\<close>.\<close>

definition LOCKSROOT_OF_NO_LOCKS :: "platform \<Rightarrow> locksroot" where
  "LOCKSROOT_OF_NO_LOCKS E = keccak E []"

definition EMPTY_HASH :: bytes where
  "EMPTY_HASH = replicate 32 0"

definition compute_locksroot :: "platform \<Rightarrow> bytes list \<Rightarrow> locksroot" where
  "compute_locksroot E locks = keccak E (concat locks)"

lemma compute_locksroot_Nil [simp]: "compute_locksroot E [] = LOCKSROOT_OF_NO_LOCKS E"
  by (simp add: compute_locksroot_def LOCKSROOT_OF_NO_LOCKS_def)

lemma length_locksroot [simp]:
  "digests_ok E \<Longrightarrow> length (compute_locksroot E ls) = 32"
  "digests_ok E \<Longrightarrow> length (LOCKSROOT_OF_NO_LOCKS E) = 32"
  by (simp_all add: compute_locksroot_def LOCKSROOT_OF_NO_LOCKS_def)

definition hash_balance_data :: "platform \<Rightarrow> int \<Rightarrow> int \<Rightarrow> locksroot \<Rightarrow> bytes result" where
  "hash_balance_data E transferred_amount locked_amount locksroot =
     py_assert (locksroot \<noteq> []) (
     py_assert (length locksroot = 32) (
     if transferred_amount = 0 \<and> locked_amount = 0 \<and> locksroot = LOCKSROOT_OF_NO_LOCKS E
     then Inr EMPTY_HASH
     else
       bind_result (to_bytes 32 transferred_amount) (\<lambda>t.
       bind_result (to_bytes 32 locked_amount) (\<lambda>k.
       Inr (keccak E (t @ k @ locksroot))))))"

lemma hash_balance_data_ok:
  assumes "length locksroot = 32" and "is_uint256 t" and "is_uint256 k"
  shows "\<exists>h. hash_balance_data E t k locksroot = Inr h"
proof -
  have "locksroot \<noteq> []" using assms(1) by auto
  with assms show ?thesis by (simp add: hash_balance_data_def to_bytes_uint256)
qed

subsection \<open>Signatures\<close>

definition eth_sign_prefix :: bytes where
  "eth_sign_prefix = [25, 69, 116, 104, 101, 114, 101, 117, 109, 32, 83, 105, 103, 110, 101, 100,
     32, 77, 101, 115, 115, 97, 103, 101, 58, 10]"

fun decimal_bytes :: "nat \<Rightarrow> bytes" where
  "decimal_bytes n =
     (if n < 10 then [of_nat (48 + n)] else decimal_bytes (n div 10) @ [of_nat (48 + n mod 10)])"

declare decimal_bytes.simps [simp del]

definition eth_sign_sha3 :: "platform \<Rightarrow> bytes \<Rightarrow> bytes" where
  "eth_sign_sha3 E data =
     (if take (length eth_sign_prefix) data = eth_sign_prefix then keccak E data
      else keccak E (eth_sign_prefix @ decimal_bytes (length data) @ data))"

text \<open>
  \<open>get_public_key\<close> followed by \<open>to_canonical_address\<close>: indexing an empty signature raises
  \<open>IndexError\<close>, recovery ids 27 and above are shifted down, a bad signature raises
  \<open>InvalidSignature\<close>.
\<close>

definition normalise_signature :: "signature \<Rightarrow> signature result" where
  "normalise_signature sig =
     raise_if (sig = []) IndexError (
     Inr (if last sig \<ge> 27 then butlast sig @ [last sig - 27] else sig))"

definition recover :: "platform \<Rightarrow> bytes \<Rightarrow> signature \<Rightarrow> address result" where
  "recover E data sig =
     (let hashed_message = eth_sign_sha3 E data in
      bind_result (normalise_signature sig) (\<lambda>s.
      case ecdsa_recover E hashed_message s of
        None \<Rightarrow> Inl InvalidSignature
      | Some a \<Rightarrow> Inr a))"

subsection \<open>Encoding of locks and the locksroot\<close>

lemma uint256_from_bytes: "length bs = 32 \<Longrightarrow> is_uint256 (from_bytes bs)"
  using from_bytes_bounds [of bs] by (simp add: UINT256_MAX_def)

lemma lock_from_bytes_total:
  assumes "length bs = 96"
  shows "\<exists>l. lock_from_bytes bs = Inr l \<and> valid_lock l \<and> encoded l = bs"
proof -
  have "is_uint256 (from_bytes (take 32 bs))" and "is_uint256 (from_bytes (take 32 (drop 32 bs)))"
    by (rule uint256_from_bytes, simp add: assms)+
  then obtain l where "lock_from_bytes bs = Inr l \<and> valid_lock l"
    using assms by (auto simp: lock_from_bytes_def mk_lock_eq_Inr valid_lock_def ishash_def)
  with lock_from_bytes_encoded [OF assms] show ?thesis by blast
qed

text \<open>
  C35. Reading back the 96 bytes of a lock gives the lock: \<open>Lock.from_bytes(lock.as_bytes)\<close> is the lock
  for every amount and expiration below \<open>2 ^ 256\<close> and every 32 byte secrethash, and conversely every
  string of 96 bytes is the encoding of the lock that is read from it.
\<close>

theorem lock_bytes_round_trip:
  "(valid_lock l \<longrightarrow> bind_result (as_bytes l) lock_from_bytes = Inr l)
   \<and> (length bs = 96 \<longrightarrow> bind_result (lock_from_bytes bs) as_bytes = Inr bs)"
proof (intro conjI impI)
  assume "valid_lock l"
  then show "bind_result (as_bytes l) lock_from_bytes = Inr l"
    by (simp add: as_bytes_valid lock_codec.dec_enc)
next
  assume "length bs = 96"
  then obtain l where "lock_from_bytes bs = Inr l" and "valid_lock l" and "encoded l = bs"
    using lock_from_bytes_total by blast
  then show "bind_result (lock_from_bytes bs) as_bytes = Inr bs" by (simp add: as_bytes_valid)
qed

theorem lock_bytes_round_trip_witness:
  "bind_result (as_bytes \<lparr>lk_amount = 4, lk_expiration = 50, lk_secrethash = replicate 32 9\<rparr>) lock_from_bytes
     = Inr \<lparr>lk_amount = 4, lk_expiration = 50, lk_secrethash = replicate 32 9\<rparr>
   \<and> bind_result (lock_from_bytes (replicate 96 1)) as_bytes = Inr (replicate 96 1)"
proof -
  have "valid_lock \<lparr>lk_amount = 4, lk_expiration = 50, lk_secrethash = replicate 32 9\<rparr>" by code_simp
  with lock_bytes_round_trip [of "\<lparr>lk_amount = 4, lk_expiration = 50, lk_secrethash = replicate 32 9\<rparr>"
      "replicate 96 1"]
  show ?thesis by simp
qed

text \<open>
  C34. The locksroot commits to the list of locks: if \<open>keccak\<close> does not collide on the two byte strings
  that are hashed, two lists of valid locks with the same locksroot are equal, including their order.
  The concatenation that is hashed does not lose the boundaries between the locks.
\<close>

theorem locksroot_binds_locks:
  assumes "\<forall>l\<in>set ls. valid_lock l" and "\<forall>l\<in>set ls'. valid_lock l"
    and "inj_on (keccak E) {concat (map encoded ls), concat (map encoded ls')}"
    and "compute_locksroot E (map encoded ls) = compute_locksroot E (map encoded ls')"
  shows "ls = ls'"
  using assms(3,4) lock_codec.concat_inj [OF assms(1,2)]
  by (simp add: compute_locksroot_def inj_on_def)

theorem locksroot_binds_locks_witness:
  "compute_locksroot \<lparr>keccak = (\<lambda>x. x), sha256 = (\<lambda>x. x), ecdsa_recover = (\<lambda>h s. None),
      proofs_pack_balance_proof = (\<lambda>tn chain channel nonce balance_hash additional_hash. []),
      libm_pow = (\<lambda>x y. None)\<rparr>
     (map encoded [\<lparr>lk_amount = 4, lk_expiration = 50, lk_secrethash = replicate 32 9\<rparr>])
   \<noteq> compute_locksroot \<lparr>keccak = (\<lambda>x. x), sha256 = (\<lambda>x. x), ecdsa_recover = (\<lambda>h s. None),
      proofs_pack_balance_proof = (\<lambda>tn chain channel nonce balance_hash additional_hash. []),
      libm_pow = (\<lambda>x y. None)\<rparr>
     (map encoded [\<lparr>lk_amount = 5, lk_expiration = 50, lk_secrethash = replicate 32 9\<rparr>])"
  (is "compute_locksroot ?E (map encoded ?ls) \<noteq> compute_locksroot ?E (map encoded ?ls')")
proof
  assume eq: "compute_locksroot ?E (map encoded ?ls) = compute_locksroot ?E (map encoded ?ls')"
  have 1: "\<forall>l\<in>set ?ls. valid_lock l" and 2: "\<forall>l\<in>set ?ls'. valid_lock l" by code_simp+
  have 3: "inj_on (keccak ?E) {concat (map encoded ?ls), concat (map encoded ?ls')}"
    by (simp add: inj_on_def)
  from locksroot_binds_locks [OF 1 2 3 eq] show False by simp
qed

end
