(* ===== verification/Mediation_Fee.thy ===== *)
theory Mediation_Fee
  imports Encoding
begin

text \<open>
  Model of \<open>transfer/mediated_transfer/mediation_fee.py\<close> and of \<open>MediationFeeConfig\<close> in
  \<open>settings.py\<close>: piecewise linear fee functions over \<open>Fraction\<close> (\<open>rat\<close>), the fee schedule of a
  channel, and the discretised imbalance penalty. The last one computes with Python floats: a double
  is its rational value, \<open>fl\<close> rounds a rational to the nearest double with ties to even, and \<open>pow\<close> is
  the platform's. The values that occur are far from the subnormal range; an integer too large for a
  double raises \<open>OverflowError\<close> as in Python.
\<close>

subsection \<open>Floats\<close>

function bit_length :: "int \<Rightarrow> int" where
  "bit_length n = (if n \<le> 0 then 0 else bit_length (n div 2) + 1)"
  by auto
termination
  by (relation "measure nat") auto

declare bit_length.simps [simp del]

definition pow2 :: "int \<Rightarrow> rat" where
  "pow2 e = (if 0 \<le> e then 2 ^ nat e else 1 / 2 ^ nat (- e))"

text \<open>\<open>round\<close> on a float: nearest integer, ties to even.\<close>

definition round_half_even :: "rat \<Rightarrow> int" where
  "round_half_even q =
     (let f = floor q; r = q - of_int f in
      if r < 1 / 2 then f else if r > 1 / 2 then f + 1 else if even f then f else f + 1)"

definition fl :: "rat \<Rightarrow> rat" where
  "fl q =
     (if q = 0 then 0
      else
        let (n, d) = quotient_of \<bar>q\<bar>;
            e0 = bit_length n - bit_length d - 53;
            e = (if \<bar>q\<bar> / pow2 e0 \<ge> 2 ^ 53 then e0 + 1 else e0);
            m = of_int (round_half_even (\<bar>q\<bar> / pow2 e)) * pow2 e
        in if q < 0 then - m else m)"

text \<open>A result of at least \<open>2 ^ 1024\<close> is an overflow; the code equation needs few multiplications.\<close>

definition FLOAT_OVERFLOW :: rat where
  "FLOAT_OVERFLOW = 2 ^ 1024"

lemma FLOAT_OVERFLOW_code [code]: "FLOAT_OVERFLOW = ((((2 ^ 4) ^ 4) ^ 4) ^ 4) ^ 4"
  by (simp add: FLOAT_OVERFLOW_def flip: power_mult)

definition float_of_int :: "int \<Rightarrow> rat result" where
  "float_of_int i = (let v = fl (of_int i) in raise_if (\<bar>v\<bar> \<ge> FLOAT_OVERFLOW) OverflowError (Inr v))"

definition float_div :: "rat \<Rightarrow> rat \<Rightarrow> rat result" where
  "float_div x y = raise_if (y = 0) ZeroDivisionError (Inr (fl (x / y)))"

text \<open>True division of two integers is correctly rounded.\<close>

definition int_truediv :: "int \<Rightarrow> int \<Rightarrow> rat result" where
  "int_truediv a b =
     raise_if (b = 0) ZeroDivisionError (
     let v = fl (of_int a / of_int b) in raise_if (\<bar>v\<bar> \<ge> FLOAT_OVERFLOW) OverflowError (Inr v))"

definition float_pow :: "platform \<Rightarrow> rat \<Rightarrow> rat \<Rightarrow> rat result" where
  "float_pow E x y = (case libm_pow E x y of None \<Rightarrow> Inl OverflowError | Some v \<Rightarrow> Inr v)"

subsection \<open>Piecewise linear functions\<close>

record interpolate =
  ip_x_list :: "rat list"
  ip_y_list :: "rat list"
  ip_slopes :: "rat list"

definition Interpolate :: "rat list \<Rightarrow> rat list \<Rightarrow> interpolate result" where
  "Interpolate x_list y_list =
     raise_if (list_ex (\<lambda>(x, y). y - x \<le> 0) (zip x_list (tl x_list))) ValueError (
     Inr \<lparr>ip_x_list = x_list, ip_y_list = y_list,
          ip_slopes = map (\<lambda>((x1, x2), (y1, y2)). (y2 - y1) / (x2 - x1))
            (zip (zip x_list (tl x_list)) (zip y_list (tl y_list)))\<rparr>)"

text \<open>\<open>bisect.bisect_right\<close> (alias \<open>bisect\<close>) on an ascending list.\<close>

definition bisect_right :: "rat list \<Rightarrow> rat \<Rightarrow> nat" where
  "bisect_right xs x = length (takeWhile (\<lambda>y. y \<le> x) xs)"

definition interpolate_call :: "interpolate \<Rightarrow> rat \<Rightarrow> rat result" where
  "interpolate_call f x =
     bind_result (nth_result (ip_x_list f) 0) (\<lambda>x_first.
     raise_if (\<not> (x_first \<le> x \<and> x \<le> last (ip_x_list f))) ValueError (
     if x = last (ip_x_list f) then nth_result (ip_y_list f) (length (ip_y_list f) - 1)
     else
       let i = bisect_right (ip_x_list f) x - 1 in
       bind_result (nth_result (ip_y_list f) i) (\<lambda>y.
       bind_result (nth_result (ip_slopes f) i) (\<lambda>slope.
       bind_result (nth_result (ip_x_list f) i) (\<lambda>xi.
       Inr (y + slope * (x - xi)))))))"

definition sign :: "rat \<Rightarrow> int" where
  "sign x = (if x = 0 then 0 else if x > 0 then 1 else - 1)"

definition collect_x_values :: "interpolate \<Rightarrow> interpolate \<Rightarrow> int \<Rightarrow> int \<Rightarrow> int \<Rightarrow> rat list" where
  "collect_x_values penalty_func_in penalty_func_out balance_in balance_out max_x =
     (let all_x_vals = map (\<lambda>x. x - of_int balance_in) (ip_x_list penalty_func_in)
                     @ map (\<lambda>x. of_int balance_out - x) (ip_x_list penalty_func_out);
          limited_x_vals = map (\<lambda>x. max (min (min x (of_int balance_out)) (of_int max_x)) 0) all_x_vals
      in sort (remdups limited_x_vals))"

definition list_insert :: "nat \<Rightarrow> 'a \<Rightarrow> 'a list \<Rightarrow> 'a list" where
  "list_insert i v xs = take i xs @ v # drop i xs"

text \<open>One iteration of the loop of \<open>_cap_fees\<close>; its range is fixed before the lists grow.\<close>

definition cap_fees_step :: "nat \<Rightarrow> rat list \<times> rat list \<Rightarrow> rat list \<times> rat list" where
  "cap_fees_step i xy =
     (let (x_list, y_list) = xy; y1 = y_list ! i; y2 = y_list ! Suc i in
      if sign y1 * sign y2 = - 1
      then
        let x1 = x_list ! i; x2 = x_list ! Suc i;
            new_x = x1 + \<bar>y1\<bar> / \<bar>y2 - y1\<bar> * (x2 - x1);
            new_index = bisect_right x_list new_x
        in (list_insert new_index new_x x_list, list_insert new_index 0 y_list)
      else xy)"

definition cap_fees :: "rat list \<Rightarrow> rat list \<Rightarrow> rat list \<times> rat list" where
  "cap_fees x_list y_list =
     (let (xs, ys) = fold cap_fees_step [0..<length x_list - 1] (x_list, y_list)
      in (xs, map (\<lambda>y. max y 0) ys))"

subsection \<open>Fee schedules\<close>

record fee_schedule =
  fs_cap_fees :: bool
  fs_flat :: int
  fs_proportional :: int
  fs_imbalance_penalty :: "(int \<times> int) list option"
  fs_penalty_func :: "interpolate option"

text \<open>The constructor of \<open>FeeScheduleState\<close>: \<open>__post_init__\<close> builds the penalty function when the
  penalty list is present and not empty.\<close>

definition mk_fee_schedule ::
  "bool \<Rightarrow> int \<Rightarrow> int \<Rightarrow> (int \<times> int) list option \<Rightarrow> fee_schedule result" where
  "mk_fee_schedule cap flat proportional imbalance_penalty =
     (let fs = \<lparr>fs_cap_fees = cap, fs_flat = flat, fs_proportional = proportional,
                fs_imbalance_penalty = imbalance_penalty, fs_penalty_func = None\<rparr> in
      case imbalance_penalty of
        None \<Rightarrow> Inr fs
      | Some [] \<Rightarrow> Inr fs
      | Some (p # ps) \<Rightarrow>
          bind_result (Interpolate (map (of_int \<circ> fst) (p # ps)) (map (of_int \<circ> snd) (p # ps)))
            (\<lambda>f. Inr (fs\<lparr>fs_penalty_func := Some f\<rparr>)))"

text \<open>The conditional expression of \<open>fee\<close> spans the whole sum: without a penalty function the
  result is 0, flat and proportional parts included.\<close>

definition fee :: "fee_schedule \<Rightarrow> int \<Rightarrow> rat \<Rightarrow> rat result" where
  "fee fs balance amount =
     (case fs_penalty_func fs of
        None \<Rightarrow> Inr 0
      | Some f \<Rightarrow>
          bind_result (interpolate_call f (of_int balance + amount)) (\<lambda>after.
          bind_result (interpolate_call f (of_int balance)) (\<lambda>before.
          Inr (of_int (fs_flat fs) + of_int (fs_proportional fs) / 1000000 * \<bar>amount\<bar>
               + (after - before)))))"

definition value_error_to_undefined_fee :: "'a result \<Rightarrow> 'a result" where
  "value_error_to_undefined_fee m =
     (case m of Inl ValueError \<Rightarrow> Inl UndefinedMediationFee | _ \<Rightarrow> m)"

definition with_penalty_func :: "fee_schedule \<Rightarrow> int \<Rightarrow> (fee_schedule \<times> interpolate) result" where
  "with_penalty_func fs stop =
     (case fs_penalty_func fs of
        Some f \<Rightarrow> Inr (fs, f)
      | None \<Rightarrow>
          bind_result (Interpolate [0, of_int stop] [0, 0])
            (\<lambda>f. Inr (fs\<lparr>fs_penalty_func := Some f\<rparr>, f)))"

definition mediation_fee_func_impl ::
  "fee_schedule \<Rightarrow> fee_schedule \<Rightarrow> int \<Rightarrow> int \<Rightarrow> int \<Rightarrow> int option \<Rightarrow> int option \<Rightarrow> bool \<Rightarrow> interpolate result"
where
  "mediation_fee_func_impl schedule_in schedule_out balance_in balance_out receivable
       amount_with_fees amount_without_fees cap =
     py_assert (amount_with_fees = None \<or> amount_without_fees = None) (
     raise_if (balance_out = 0 \<or> receivable = 0) UndefinedMediationFee (
     bind_result (with_penalty_func schedule_in (balance_in + receivable)) (\<lambda>(schedule_in, f_in).
     bind_result (with_penalty_func schedule_out balance_out) (\<lambda>(schedule_out, f_out).
     let x_list = collect_x_values f_in f_out balance_in balance_out
           (if amount_with_fees = None then receivable else balance_out) in
     bind_result (value_error_to_undefined_fee (map_result (\<lambda>x.
         bind_result (fee schedule_in balance_in
           (case amount_with_fees of None \<Rightarrow> x | Some a \<Rightarrow> of_int a)) (\<lambda>fee_in.
         bind_result (fee schedule_out balance_out
           (case amount_without_fees of None \<Rightarrow> - x | Some a \<Rightarrow> - of_int a)) (\<lambda>fee_out.
         Inr (fee_in + fee_out)))) x_list)) (\<lambda>y_list.
     let (xs, ys) = (if cap then cap_fees x_list y_list else (x_list, y_list))
     in Interpolate xs ys)))))"

definition mediation_fee_func ::
  "fee_schedule \<Rightarrow> fee_schedule \<Rightarrow> int \<Rightarrow> int \<Rightarrow> int \<Rightarrow> int \<Rightarrow> bool \<Rightarrow> interpolate result" where
  "mediation_fee_func schedule_in schedule_out balance_in balance_out receivable amount_with_fees cap =
     mediation_fee_func_impl schedule_in schedule_out balance_in balance_out receivable
       (Some amount_with_fees) None cap"

definition mediation_fee_backwards_func ::
  "fee_schedule \<Rightarrow> fee_schedule \<Rightarrow> int \<Rightarrow> int \<Rightarrow> int \<Rightarrow> int \<Rightarrow> bool \<Rightarrow> interpolate result" where
  "mediation_fee_backwards_func schedule_in schedule_out balance_in balance_out receivable
       amount_without_fees cap =
     mediation_fee_func_impl schedule_in schedule_out balance_in balance_out receivable
       None (Some amount_without_fees) cap"

subsection \<open>The imbalance penalty\<close>

definition linspace :: "int \<Rightarrow> int \<Rightarrow> int \<Rightarrow> int list result" where
  "linspace start stop num =
     py_assert (num > 1) (
     py_assert (start \<le> stop) (
     bind_result (int_truediv (stop - start) (num - 1)) (\<lambda>step.
     Inr (map (\<lambda>i. start + round_half_even (fl (fl (of_nat i) * step))) [0..<nat num]))))"

definition NUM_DISCRETISATION_POINTS :: int where
  "NUM_DISCRETISATION_POINTS = 21"

definition calculate_imbalance_fees ::
  "platform \<Rightarrow> int \<Rightarrow> int \<Rightarrow> (int \<times> int) list option result" where
  "calculate_imbalance_fees E channel_capacity proportional_imbalance_fee =
     py_assert (channel_capacity \<ge> 0) (
     py_assert (proportional_imbalance_fee \<ge> 0) (
     if proportional_imbalance_fee = 0 then Inr None
     else if channel_capacity = 0 then Inr None
     else
       let maximum_slope = fl (1 / 10) in
       bind_result (float_of_int (channel_capacity * proportional_imbalance_fee)) (\<lambda>product.
       bind_result (float_div product 1000000) (\<lambda>max_imbalance_fee.
       bind_result (float_of_int proportional_imbalance_fee) (\<lambda>p.
       bind_result (float_div p 1000000) (\<lambda>slope.
       bind_result (float_div maximum_slope 2) (\<lambda>half_slope.
       py_assert (slope \<le> half_slope) (
       bind_result (int_truediv channel_capacity 2) (\<lambda>o'.
       bind_result (float_div (fl (maximum_slope * o')) max_imbalance_fee) (\<lambda>b0.
       let b = min b0 10 in
       bind_result (float_pow E o' b) (\<lambda>o_b.
       bind_result (float_div max_imbalance_fee o_b) (\<lambda>a.
       let num_base_points = min NUM_DISCRETISATION_POINTS (channel_capacity + 1) in
       bind_result (linspace 0 channel_capacity num_base_points) (\<lambda>x_values.
       bind_result (map_result (\<lambda>x.
           bind_result (float_of_int x) (\<lambda>xf.
           bind_result (float_pow E \<bar>fl (xf - o')\<bar> b) (\<lambda>pw.
           Inr (round_half_even (fl (a * pw)))))) x_values) (\<lambda>y_values.
       Inr (Some (zip x_values y_values))))))))))))))))"

subsection \<open>Fee configuration\<close>

record fee_config =
  fc_token_to_flat_fee :: "(address, int) dict"
  fc_token_to_proportional_fee :: "(address, int) dict"
  fc_token_to_proportional_imbalance_fee :: "(address, int) dict"
  fc_cap_mediation_fees :: bool

definition get_flat_fee :: "fee_config \<Rightarrow> address \<Rightarrow> int" where
  "get_flat_fee c token_address =
     (case map_of (fc_token_to_flat_fee c) token_address of None \<Rightarrow> 0 | Some f \<Rightarrow> f)"

definition get_proportional_fee :: "fee_config \<Rightarrow> address \<Rightarrow> int" where
  "get_proportional_fee c token_address =
     (case map_of (fc_token_to_proportional_fee c) token_address of None \<Rightarrow> 4000 | Some f \<Rightarrow> f)"

definition get_proportional_imbalance_fee :: "fee_config \<Rightarrow> address \<Rightarrow> int" where
  "get_proportional_imbalance_fee c token_address =
     (case map_of (fc_token_to_proportional_imbalance_fee c) token_address of
        None \<Rightarrow> 3000 | Some f \<Rightarrow> f)"

end
