(* ===== verification/Channel_State.thy ===== *)
theory Channel_State
  imports Mediation_Fee
begin

text \<open>
  The state of a payment channel: model of the data classes of \<open>transfer/state.py\<close>,
  \<open>transfer/identifiers.py\<close> and the balance proofs of \<open>transfer/architecture.py\<close>. A data class is a
  record (its fields prefixed by the class), an \<open>Enum\<close> is a datatype, and a constructor whose
  \<open>__post_init__\<close> validates is a function \<open>mk_...\<close> that may raise.
\<close>

subsection \<open>Identifiers\<close>

type_synonym address_metadata = "(string, string) dict"

record canonical_identifier =
  ci_chain_identifier :: int
  ci_token_network_address :: address
  ci_channel_identifier :: int

definition ci_valid :: "canonical_identifier \<Rightarrow> bool" where
  "ci_valid ci \<longleftrightarrow> \<not> (ci_channel_identifier ci < 0 \<or> ci_channel_identifier ci > UINT256_MAX)"

record queue_identifier =
  qi_recipient :: address
  qi_canonical_identifier :: canonical_identifier

definition CANONICAL_IDENTIFIER_UNORDERED_QUEUE :: canonical_identifier where
  "CANONICAL_IDENTIFIER_UNORDERED_QUEUE =
     \<lparr>ci_chain_identifier = 0, ci_token_network_address = replicate 20 0,
      ci_channel_identifier = 0\<rparr>"

definition message_identifier_from_prng :: "prng \<Rightarrow> int \<times> prng" where
  "message_identifier_from_prng g = randint 0 UINT64_MAX g"

subsection \<open>Balance proofs\<close>

text \<open>A signed balance proof has the fields of an unsigned one and three more.\<close>

record balance_proof =
  bp_nonce :: int
  bp_transferred_amount :: int
  bp_locked_amount :: int
  bp_locksroot :: locksroot
  bp_canonical_identifier :: canonical_identifier
  bp_balance_hash :: bytes

record signed_balance_proof = balance_proof +
  bp_message_hash :: bytes
  bp_signature :: signature
  bp_sender :: address

datatype balance_proof_state =
    BPUnsigned balance_proof
  | BPSigned signed_balance_proof

text \<open>The fields common to both classes, read by duck typing in the source.\<close>

fun bp_base :: "balance_proof_state \<Rightarrow> balance_proof" where
  "bp_base (BPUnsigned b) = b"
| "bp_base (BPSigned s) = balance_proof.truncate s"

definition mk_balance_proof_unsigned ::
  "platform \<Rightarrow> int \<Rightarrow> int \<Rightarrow> int \<Rightarrow> locksroot \<Rightarrow> canonical_identifier \<Rightarrow> balance_proof result" where
  "mk_balance_proof_unsigned E nonce transferred_amount locked_amount locksroot ci =
     raise_if (nonce \<le> 0) ValueError (
     raise_if (nonce > UINT64_MAX) ValueError (
     raise_if (transferred_amount < 0) ValueError (
     raise_if (transferred_amount > UINT256_MAX) ValueError (
     raise_if (length locksroot \<noteq> 32) ValueError (
     raise_if (\<not> ci_valid ci) ValueError (
     bind_result (hash_balance_data E transferred_amount locked_amount locksroot) (\<lambda>h.
     Inr \<lparr>bp_nonce = nonce, bp_transferred_amount = transferred_amount,
          bp_locked_amount = locked_amount, bp_locksroot = locksroot,
          bp_canonical_identifier = ci, bp_balance_hash = h\<rparr>)))))))"

definition mk_balance_proof_signed ::
  "platform \<Rightarrow> int \<Rightarrow> int \<Rightarrow> int \<Rightarrow> locksroot \<Rightarrow> bytes \<Rightarrow> signature \<Rightarrow> address \<Rightarrow>
   canonical_identifier \<Rightarrow> signed_balance_proof result" where
  "mk_balance_proof_signed E nonce transferred_amount locked_amount locksroot message_hash signature
       sender ci =
     raise_if (nonce \<le> 0) ValueError (
     raise_if (nonce > UINT64_MAX) ValueError (
     raise_if (transferred_amount < 0) ValueError (
     raise_if (transferred_amount > UINT256_MAX) ValueError (
     raise_if (length locksroot \<noteq> 32) ValueError (
     raise_if (length message_hash \<noteq> 32) ValueError (
     raise_if (length signature \<noteq> 65) ValueError (
     raise_if (\<not> ci_valid ci) ValueError (
     bind_result (hash_balance_data E transferred_amount locked_amount locksroot) (\<lambda>h.
     Inr \<lparr>bp_nonce = nonce, bp_transferred_amount = transferred_amount,
          bp_locked_amount = locked_amount, bp_locksroot = locksroot,
          bp_canonical_identifier = ci, bp_balance_hash = h,
          bp_message_hash = message_hash, bp_signature = signature,
          bp_sender = sender\<rparr>)))))))))"

subsection \<open>Transactions and withdraws\<close>

datatype transaction_result = SUCCESS | FAILURE

record transaction_execution_status =
  tx_started_block_number :: "int option"
  tx_finished_block_number :: "int option"
  tx_result :: "transaction_result option"

record successful_transaction =
  stx_finished_block_number :: int
  stx_started_block_number :: "int option"

record transaction_channel_deposit =
  td_participant_address :: address
  td_contract_balance :: int
  td_deposit_block_number :: int

record pending_withdraw =
  pw_total_withdraw :: int
  pw_expiration :: int
  pw_nonce :: int
  pw_recipient_metadata :: "address_metadata option"

record expired_withdraw =
  ew_total_withdraw :: int
  ew_expiration :: int
  ew_nonce :: int
  ew_recipient_metadata :: "address_metadata option"

record coop_settle =
  cs_total_withdraw_initiator :: int
  cs_total_withdraw_partner :: int
  cs_expiration :: int
  cs_partner_signature_request :: "signature option"
  cs_partner_signature_confirmation :: "signature option"
  cs_transaction :: "transaction_execution_status option"

subsection \<open>Channels\<close>

text \<open>\<open>UnlockPartialProofState\<close> copies amount, expiration, secrethash and encoding from its lock.\<close>

record unlock_partial_proof =
  up_lock :: lock
  up_secret :: secret

definition up_amount :: "unlock_partial_proof \<Rightarrow> int" where
  "up_amount u = lk_amount (up_lock u)"

definition up_encoded :: "unlock_partial_proof \<Rightarrow> bytes" where
  "up_encoded u = encoded (up_lock u)"

datatype channel_status =
    STATE_CLOSED | STATE_CLOSING | STATE_OPENED | STATE_SETTLED | STATE_SETTLING | STATE_UNUSABLE

definition CHANNEL_STATES_PRIOR_TO_CLOSED :: "channel_status list" where
  "CHANNEL_STATES_PRIOR_TO_CLOSED = [STATE_OPENED, STATE_CLOSING]"

definition CHANNEL_STATES_UP_TO_CLOSED :: "channel_status list" where
  "CHANNEL_STATES_UP_TO_CLOSED = CHANNEL_STATES_PRIOR_TO_CLOSED @ [STATE_CLOSED]"

definition CHANNEL_AFTER_CLOSE_STATES :: "channel_status list" where
  "CHANNEL_AFTER_CLOSE_STATES = [STATE_CLOSED, STATE_SETTLING, STATE_SETTLED]"

record end_state =
  es_address :: address
  es_contract_balance :: int
  es_onchain_total_withdraw :: int
  es_withdraws_pending :: "(int, pending_withdraw) dict"
  es_initiated_coop_settle :: "coop_settle option"
  es_expired_coop_settles :: "coop_settle list"
  es_withdraws_expired :: "expired_withdraw list"
  es_lockedlocks :: "(secrethash, lock) dict"
  es_unlockedlocks :: "(secrethash, unlock_partial_proof) dict"
  es_onchain_unlockedlocks :: "(secrethash, unlock_partial_proof) dict"
  es_balance_proof :: "balance_proof_state option"
  es_pending_locks :: "bytes list"
  es_onchain_locksroot :: locksroot
  es_nonce :: int

definition NULL_ADDRESS_BYTES :: address where
  "NULL_ADDRESS_BYTES = replicate 20 0"

text \<open>\<open>NettingChannelEndState(address, contract_balance)\<close> with every other field at its default.\<close>

definition mk_end_state :: "platform \<Rightarrow> address \<Rightarrow> int \<Rightarrow> end_state result" where
  "mk_end_state E addr contract_balance =
     raise_if (addr = NULL_ADDRESS_BYTES) ValueError (
     raise_if (contract_balance < 0) ValueError (
     Inr \<lparr>es_address = addr, es_contract_balance = contract_balance,
          es_onchain_total_withdraw = 0, es_withdraws_pending = [],
          es_initiated_coop_settle = None, es_expired_coop_settles = [],
          es_withdraws_expired = [], es_lockedlocks = [], es_unlockedlocks = [],
          es_onchain_unlockedlocks = [], es_balance_proof = None, es_pending_locks = [],
          es_onchain_locksroot = LOCKSROOT_OF_NO_LOCKS E, es_nonce = 0\<rparr>))"

definition offchain_total_withdraw :: "end_state \<Rightarrow> int" where
  "offchain_total_withdraw es = max_default 0 (map fst (es_withdraws_pending es))"

definition total_withdraw :: "end_state \<Rightarrow> int" where
  "total_withdraw es = max (offchain_total_withdraw es) (es_onchain_total_withdraw es)"

definition transferred_amount :: "end_state \<Rightarrow> int" where
  "transferred_amount es =
     (case es_balance_proof es of
        None \<Rightarrow> 0
      | Some bp \<Rightarrow> bp_transferred_amount (bp_base bp))"

record channel =
  ch_canonical_identifier :: canonical_identifier
  ch_token_address :: address
  ch_token_network_registry_address :: address
  ch_reveal_timeout :: int
  ch_settle_timeout :: int
  ch_fee_schedule :: fee_schedule
  ch_our_state :: end_state
  ch_partner_state :: end_state
  ch_open_transaction :: successful_transaction
  ch_close_transaction :: "transaction_execution_status option"
  ch_settle_transaction :: "transaction_execution_status option"
  ch_update_transaction :: "transaction_execution_status option"

text \<open>\<open>NettingChannelState(...)\<close> for a channel without close, settle or update transaction.\<close>

definition mk_channel ::
  "canonical_identifier \<Rightarrow> address \<Rightarrow> address \<Rightarrow> int \<Rightarrow> int \<Rightarrow> fee_schedule \<Rightarrow> end_state \<Rightarrow> end_state \<Rightarrow>
   successful_transaction \<Rightarrow> channel result" where
  "mk_channel ci token_address registry reveal_timeout settle_timeout fees our partner tx =
     raise_if (es_address our = es_address partner) ValueError (
     raise_if (reveal_timeout \<le> 0) ValueError (
     raise_if (settle_timeout \<le> 0) ValueError (
     raise_if (ci_channel_identifier ci < 0 \<or> ci_channel_identifier ci > UINT256_MAX) ValueError (
     Inr \<lparr>ch_canonical_identifier = ci, ch_token_address = token_address,
          ch_token_network_registry_address = registry, ch_reveal_timeout = reveal_timeout,
          ch_settle_timeout = settle_timeout, ch_fee_schedule = fees,
          ch_our_state = our, ch_partner_state = partner, ch_open_transaction = tx,
          ch_close_transaction = None, ch_settle_transaction = None,
          ch_update_transaction = None\<rparr>))))"

definition channel_identifier :: "channel \<Rightarrow> int" where
  "channel_identifier ch = ci_channel_identifier (ch_canonical_identifier ch)"

definition ch_token_network_address :: "channel \<Rightarrow> address" where
  "ch_token_network_address ch = ci_token_network_address (ch_canonical_identifier ch)"

definition our_total_deposit :: "channel \<Rightarrow> int" where
  "our_total_deposit ch = es_contract_balance (ch_our_state ch)"

definition our_total_withdraw :: "channel \<Rightarrow> int" where
  "our_total_withdraw ch = total_withdraw (ch_our_state ch)"

definition partner_total_deposit :: "channel \<Rightarrow> int" where
  "partner_total_deposit ch = es_contract_balance (ch_partner_state ch)"

definition partner_total_withdraw :: "channel \<Rightarrow> int" where
  "partner_total_withdraw ch = total_withdraw (ch_partner_state ch)"

end
