(* ===== verification/Transfer_State.thy ===== *)
theory Transfer_State
  imports Channel_State
begin

text \<open>
  Error texts, routes and locked transfers: model of \<open>SuccessOrError\<close>
  (\<open>transfer/architecture.py\<close>), of \<open>RouteState\<close> and \<open>HopState\<close> (\<open>transfer/state.py\<close>) and of the
  transfer states of \<open>transfer/mediated_transfer/state.py\<close>.
\<close>

subsection \<open>Error texts\<close>

text \<open>
  The source reports errors as formatted strings. A failed check is a constructor carrying the
  values that the format string interpolates; the constructors are grouped by the checks that
  produce them, and the same check made for different message types shares one constructor.
\<close>

datatype message_name = LockedTransferMsg | RefundTransferMsg | LockExpiredMsg | UnlockMsg

datatype balance_proof_error =
    SignatureNotRecovered
  | SignatureAddressMismatch
  | ChannelAlreadyClosed
  | ChannelIdentifierMismatch int int
  | TokenNetworkAddressMismatch address address
  | ChainIdMismatch int int
  | BalanceProofOverflow int
  | NonceNotSequential int int

datatype lock_error =
    LockUnlockedOnChain
  | BlockNotLargerThanThreshold int int
  | LockNotKnown secrethash
  | SameLockHandledTwice
  | PendingLimitExceeded
  | LocksrootMismatch locksroot locksroot
  | TransferredAmountMismatch int int
  | LockedAmountMismatch int int
  | LockLargerThanDistributable int int
  | RefundDoesNotMatch
  | LockEncodingUnknown bytes

datatype withdraw_error =
    WithdrawNotOpened
  | WithdrawDecreased int
  | WithdrawDidNotIncrease int
  | WithdrawInsufficientBalance int int
  | WithdrawOverflow int
  | WithdrawCanonicalIdentifier
  | WithdrawParticipantNotPartner
  | WithdrawSenderNotPartner
  | ConfirmationNotFound int
  | ConfirmationTotalMismatch int int
  | ConfirmationExpirationMismatch int
  | ConfirmationParticipantMismatch address address
  | WithdrawNotYetExpired int
  | WithdrawExpiredAmountMismatch int int
  | WithdrawExpiredUnknown int

datatype coop_settle_error =
    CoopSettleOurLocksPending
  | CoopSettlePartnerLocksPending
  | CoopSettleOurWithdrawsPending
  | CoopSettlePartnerWithdrawsPending
  | PartnerNotMaximumWithdraw int
  | PartnerHasPendingTransfers
  | PartnerExpirationDiffers
  | WeHavePendingTransfers

datatype error_message =
    BalanceProofError balance_proof_error
  | LockError lock_error
  | WithdrawError withdraw_error
  | CoopSettleError coop_settle_error
  | InvalidMessage message_name error_message
  | RevealTimeoutTooLarge
  | UnsafeToWait int int int int
  | Reason string
  | EmptyMessage
  | JoinedMessages "error_message list"

text \<open>A string is falsy exactly when it is empty.\<close>

fun message_truthy :: "error_message \<Rightarrow> bool" where
  "message_truthy EmptyMessage = False"
| "message_truthy (JoinedMessages []) = False"
| "message_truthy (Reason s) = (s \<noteq> [])"
| "message_truthy _ = True"

type_synonym success_or_error = "error_message list"

definition soe_ok :: "success_or_error \<Rightarrow> bool" where
  "soe_ok r \<longleftrightarrow> r = []"

definition as_error_message :: "success_or_error \<Rightarrow> error_message" where
  "as_error_message r = (case r of [m] \<Rightarrow> m | _ \<Rightarrow> JoinedMessages r)"

lemma soe_ok_simps [simp]: "soe_ok []" "\<not> soe_ok (m # ms)"
  by (simp_all add: soe_ok_def)

lemma as_error_message_singleton [simp]: "as_error_message [m] = m"
  by (simp add: as_error_message_def)

subsection \<open>Routes\<close>

datatype json = JNull | JBool bool | JInt int | JString string | JList "json list"
  | JObject "(string \<times> json) list"

record hop_state =
  hop_node_address :: address
  hop_channel_identifier :: int

record route_state =
  rs_route :: "address list"
  rs_address_to_metadata :: "(address, address_metadata) dict"
  rs_swaps :: "(address, address) dict"
  rs_estimated_fee :: int

text \<open>\<open>list.index\<close> finds the first occurrence; a missing address and a last hop both give \<open>None\<close>.\<close>

fun hop_after_list :: "address list \<Rightarrow> address \<Rightarrow> address option" where
  "hop_after_list [] a = None"
| "hop_after_list (x # xs) a =
     (if x = a then (case xs of [] \<Rightarrow> None | y # ys \<Rightarrow> Some y) else hop_after_list xs a)"

definition hop_after :: "route_state \<Rightarrow> address \<Rightarrow> address option" where
  "hop_after rs a = hop_after_list (rs_route rs) a"

fun get_address_metadata :: "address \<Rightarrow> route_state list \<Rightarrow> address_metadata option" where
  "get_address_metadata a [] = None"
| "get_address_metadata a (r # rs) =
     (case map_of (rs_address_to_metadata r) a of
        Some m \<Rightarrow> Some m
      | None \<Rightarrow> get_address_metadata a rs)"

subsection \<open>Locked transfers\<close>

record locked_transfer =
  lt_payment_identifier :: int
  lt_token :: address
  lt_lock :: lock
  lt_initiator :: address
  lt_target :: address
  lt_route_states :: "route_state list"
  lt_metadata :: "json option"
  lt_secret :: "secret option"

record locked_transfer_unsigned = locked_transfer +
  ltu_balance_proof :: balance_proof

record locked_transfer_signed = locked_transfer +
  lts_message_identifier :: int
  lts_balance_proof :: signed_balance_proof

text \<open>Both constructors refuse a balance proof with the locksroot of no locks.\<close>

definition mk_locked_transfer_unsigned ::
  "platform \<Rightarrow> int \<Rightarrow> address \<Rightarrow> lock \<Rightarrow> address \<Rightarrow> address \<Rightarrow> route_state list \<Rightarrow> json option \<Rightarrow>
   secret option \<Rightarrow> balance_proof \<Rightarrow> locked_transfer_unsigned result" where
  "mk_locked_transfer_unsigned E payment_identifier token lock initiator target route_states
       metadata secret bp =
     raise_if (bp_locksroot bp = LOCKSROOT_OF_NO_LOCKS E) ValueError (
     Inr \<lparr>lt_payment_identifier = payment_identifier, lt_token = token, lt_lock = lock,
          lt_initiator = initiator, lt_target = target, lt_route_states = route_states,
          lt_metadata = metadata, lt_secret = secret, ltu_balance_proof = bp\<rparr>)"

definition mk_locked_transfer_signed ::
  "platform \<Rightarrow> int \<Rightarrow> address \<Rightarrow> lock \<Rightarrow> address \<Rightarrow> address \<Rightarrow> route_state list \<Rightarrow> json option \<Rightarrow>
   secret option \<Rightarrow> int \<Rightarrow> signed_balance_proof \<Rightarrow> locked_transfer_signed result" where
  "mk_locked_transfer_signed E payment_identifier token lock initiator target route_states
       metadata secret message_identifier bp =
     raise_if (bp_locksroot bp = LOCKSROOT_OF_NO_LOCKS E) ValueError (
     Inr \<lparr>lt_payment_identifier = payment_identifier, lt_token = token, lt_lock = lock,
          lt_initiator = initiator, lt_target = target, lt_route_states = route_states,
          lt_metadata = metadata, lt_secret = secret,
          lts_message_identifier = message_identifier, lts_balance_proof = bp\<rparr>)"

definition payer_address :: "locked_transfer_signed \<Rightarrow> address" where
  "payer_address t = bp_sender (lts_balance_proof t)"

definition payer_address_metadata :: "locked_transfer_signed \<Rightarrow> address_metadata option" where
  "payer_address_metadata t = get_address_metadata (payer_address t) (lt_route_states t)"

definition initiator_address_metadata ::
  "('a) locked_transfer_scheme \<Rightarrow> address_metadata option" where
  "initiator_address_metadata t = get_address_metadata (lt_initiator t) (lt_route_states t)"

datatype target_state =
    EXPIRED | OFFCHAIN_SECRET_REVEAL | ONCHAIN_SECRET_REVEAL | ONCHAIN_UNLOCK | SECRET_REQUEST

record target_transfer_state =
  tt_from_hop :: hop_state
  tt_transfer :: locked_transfer_signed
  tt_secret :: "secret option"
  tt_state :: target_state
  tt_initiator_address_metadata :: "address_metadata option"

subsection \<open>Payments of the initiator\<close>

definition EMPTY_SECRETHASH :: secrethash where
  "EMPTY_SECRETHASH = replicate 32 0"

definition ABSENT_SECRET :: secret where
  "ABSENT_SECRET = []"

record transfer_description =
  td_token_network_registry_address :: address
  td_payment_identifier :: int
  td_amount :: int
  td_token_network_address :: address
  td_initiator :: address
  td_target :: address
  td_secret :: secret
  td_secrethash :: secrethash
  td_lock_timeout :: "int option"

text \<open>The constructor derives the secrethash when none is given and the secret is present.\<close>

definition mk_transfer_description ::
  "platform \<Rightarrow> address \<Rightarrow> int \<Rightarrow> int \<Rightarrow> address \<Rightarrow> address \<Rightarrow> address \<Rightarrow> secret \<Rightarrow> secrethash \<Rightarrow>
   int option \<Rightarrow> transfer_description" where
  "mk_transfer_description E registry payment_identifier amount token_network initiator target secret
       secrethash lock_timeout =
     \<lparr>td_token_network_registry_address = registry, td_payment_identifier = payment_identifier,
      td_amount = amount, td_token_network_address = token_network, td_initiator = initiator,
      td_target = target, td_secret = secret,
      td_secrethash = (if secrethash = EMPTY_SECRETHASH \<and> secret \<noteq> [] then sha256 E secret
        else secrethash),
      td_lock_timeout = lock_timeout\<rparr>"

text \<open>The states of a transfer are strings in the source; every assignment uses one of these four.\<close>

datatype initiator_status =
    TRANSFER_PENDING | TRANSFER_SECRET_REVEALED | TRANSFER_CANCELLED | TRANSFER_EXPIRED

record initiator_transfer =
  it_route :: route_state
  it_transfer_description :: transfer_description
  it_channel_identifier :: int
  it_transfer :: locked_transfer_unsigned
  it_received_secret_request :: bool
  it_transfer_state :: initiator_status

record initiator_payment =
  pay_routes :: "route_state list"
  pay_initiator_transfers :: "(secrethash, initiator_transfer) dict"
  pay_cancelled_channels :: "int list"

subsection \<open>Transfers of the mediator\<close>

datatype payee_status =
    PAYEE_PENDING | PAYEE_SECRET_REVEALED | PAYEE_CONTRACT_UNLOCK | PAYEE_BALANCE_PROOF
  | PAYEE_EXPIRED

datatype payer_status =
    PAYER_PENDING | PAYER_SECRET_REVEALED | PAYER_WAITING_UNLOCK | PAYER_WAITING_SECRET_REVEAL
  | PAYER_BALANCE_PROOF | PAYER_EXPIRED

record mediation_pair =
  mp_payer_transfer :: locked_transfer_signed
  mp_payee_address :: address
  mp_payee_transfer :: locked_transfer_unsigned
  mp_payer_state :: payer_status
  mp_payee_state :: payee_status

definition mk_mediation_pair ::
  "locked_transfer_signed \<Rightarrow> address \<Rightarrow> locked_transfer_unsigned \<Rightarrow> mediation_pair" where
  "mk_mediation_pair payer_transfer payee_address payee_transfer =
     \<lparr>mp_payer_transfer = payer_transfer, mp_payee_address = payee_address,
      mp_payee_transfer = payee_transfer, mp_payer_state = PAYER_PENDING,
      mp_payee_state = PAYEE_PENDING\<rparr>"

datatype waiting_status = WAITING | WAITING_EXPIRED

record waiting_transfer =
  wt_transfer :: locked_transfer_signed
  wt_state :: waiting_status

record mediator_transfer =
  mt_secrethash :: secrethash
  mt_routes :: "route_state list"
  mt_refunded_channels :: "int list"
  mt_secret :: "secret option"
  mt_transfers_pair :: "mediation_pair list"
  mt_waiting_transfer :: "waiting_transfer option"

end
