(* ===== verification/Events.thy ===== *)
theory Events
  imports Transfer_State
begin

text \<open>
  The events that the state machine hands to the rest of the node: model of \<open>transfer/events.py\<close> and
  \<open>transfer/mediated_transfer/events.py\<close>. The events that the state machine emits are the constructors of
  \<open>event\<close>; a reason that is a text is an \<open>error_message\<close>. A message event carries the fields of
  \<open>SendMessageEvent\<close> in the record \<open>msg_header\<close>; the secrethash of \<open>SendSecretReveal\<close> and \<open>SendUnlock\<close>
  is computed from the secret by the constructor of the class, here by \<open>mk_send_secret_reveal\<close> and
  \<open>mk_send_unlock\<close>.
\<close>

record msg_header =
  mh_recipient :: address
  mh_recipient_metadata :: "address_metadata option"
  mh_canonical_identifier :: canonical_identifier
  mh_message_identifier :: int

definition header ::
  "address \<Rightarrow> address_metadata option \<Rightarrow> canonical_identifier \<Rightarrow> int \<Rightarrow> msg_header" where
  "header recipient recipient_metadata ci message_identifier =
     \<lparr>mh_recipient = recipient, mh_recipient_metadata = recipient_metadata,
      mh_canonical_identifier = ci, mh_message_identifier = message_identifier\<rparr>"

definition queue_identifier_of :: "msg_header \<Rightarrow> queue_identifier" where
  "queue_identifier_of h =
     \<lparr>qi_recipient = mh_recipient h, qi_canonical_identifier = mh_canonical_identifier h\<rparr>"

text \<open>\<open>SendUnlock\<close> and \<open>SendLockExpired\<close> carry the balance proofs that the channel component creates.\<close>

record send_unlock_event =
  su_header :: msg_header
  su_payment_identifier :: int
  su_token_address :: address
  su_balance_proof :: balance_proof
  su_secret :: secret
  su_secrethash :: secrethash

record send_lock_expired_event =
  sle_header :: msg_header
  sle_balance_proof :: balance_proof
  sle_secrethash :: secrethash

record send_locked_transfer_event =
  slt_header :: msg_header
  slt_transfer :: locked_transfer_unsigned

datatype event =
    SendLockedTransfer send_locked_transfer_event
  | SendLockExpired send_lock_expired_event
  | SendUnlock send_unlock_event
  | SendSecretReveal msg_header secret secrethash
  | SendSecretRequest msg_header int int int secrethash
  | SendProcessed msg_header
  | SendWithdrawRequest msg_header int address int int bool
  | SendWithdrawConfirmation msg_header int address int int
  | SendWithdrawExpired msg_header int address int int
  | ContractSendChannelWithdraw block_hash canonical_identifier int int signature
  | ContractSendChannelCoopSettle block_hash canonical_identifier int int int signature signature
  | ContractSendChannelClose block_hash canonical_identifier "signed_balance_proof option"
  | ContractSendChannelSettle block_hash canonical_identifier
  | ContractSendChannelUpdateTransfer block_hash int signed_balance_proof
  | ContractSendChannelBatchUnlock block_hash canonical_identifier address
  | ContractSendSecretReveal block_hash int secret
  | EventPaymentReceivedSuccess address address int int address
  | EventPaymentSentSuccess address address int int address secret "address list"
  | EventPaymentSentFailed address address int address error_message
  | EventRouteFailed secrethash "address list" address
  | EventUnlockSuccess int secrethash
  | EventUnlockFailed int secrethash error_message
  | EventInvalidSecretRequest int int int
  | EventUnexpectedSecretReveal secrethash error_message
  | UpdateServicesAddresses address int
  | EventUnlockClaimSuccess int secrethash
  | EventUnlockClaimFailed int secrethash error_message
  | EventInvalidReceivedTransferRefund int error_message
  | EventInvalidReceivedLockExpired secrethash error_message
  | EventInvalidReceivedLockedTransfer int error_message
  | EventInvalidReceivedUnlock secrethash error_message
  | EventInvalidReceivedWithdrawRequest int error_message
  | EventInvalidReceivedWithdraw int error_message
  | EventInvalidReceivedWithdrawExpired int error_message
  | EventInvalidActionWithdraw int error_message
  | EventInvalidActionCoopSettle int error_message
  | EventInvalidActionSetRevealTimeout int error_message

definition mk_send_secret_reveal ::
  "platform \<Rightarrow> msg_header \<Rightarrow> secret \<Rightarrow> event" where
  "mk_send_secret_reveal E h secret = SendSecretReveal h secret (sha256 E secret)"

definition mk_send_unlock ::
  "platform \<Rightarrow> msg_header \<Rightarrow> int \<Rightarrow> address \<Rightarrow> balance_proof \<Rightarrow> secret \<Rightarrow> send_unlock_event" where
  "mk_send_unlock E h payment_identifier token_address bp secret =
     \<lparr>su_header = h, su_payment_identifier = payment_identifier, su_token_address = token_address,
      su_balance_proof = bp, su_secret = secret, su_secrethash = sha256 E secret\<rparr>"

text \<open>\<open>EventPaymentReceivedSuccess.__post_init__\<close> refuses an amount that is not a uint256.\<close>

definition mk_payment_received_success ::
  "address \<Rightarrow> address \<Rightarrow> int \<Rightarrow> int \<Rightarrow> address \<Rightarrow> event result" where
  "mk_payment_received_success registry token_network ident amount initiator =
     raise_if (amount < 0) ValueError (
     raise_if (amount > UINT256_MAX) ValueError (
     Inr (EventPaymentReceivedSuccess registry token_network ident amount initiator)))"

end
