(* ===== verification/State_Changes.thy ===== *)
theory State_Changes
  imports Events
begin

text \<open>
  The inputs of the state machine: model of \<open>transfer/state_change.py\<close> and
  \<open>transfer/mediated_transfer/state_change.py\<close>. The handlers' arguments are records;
  \<open>channel_state_change\<close> is the union that \<open>channel.state_transition\<close> dispatches on, \<open>state_change\<close> the
  union of all state changes that the payment tasks and the node see.
\<close>

record block =
  blk_block_number :: int
  blk_gas_limit :: int
  blk_block_hash :: block_hash

record action_channel_withdraw =
  aw_canonical_identifier :: canonical_identifier
  aw_total_withdraw :: int
  aw_recipient_metadata :: "address_metadata option"

record action_coop_settle =
  ac_canonical_identifier :: canonical_identifier
  ac_recipient_metadata :: "address_metadata option"

record action_set_reveal_timeout =
  ar_canonical_identifier :: canonical_identifier
  ar_reveal_timeout :: int

record contract_receive =
  cr_transaction_hash :: bytes
  cr_block_number :: int
  cr_block_hash :: block_hash

record contract_receive_closed = contract_receive +
  crc_transaction_from :: address
  crc_canonical_identifier :: canonical_identifier

record contract_receive_deposit = contract_receive +
  crd_canonical_identifier :: canonical_identifier
  crd_deposit_transaction :: transaction_channel_deposit
  crd_fee_config :: fee_config

record contract_receive_withdraw = contract_receive +
  crw_canonical_identifier :: canonical_identifier
  crw_participant :: address
  crw_total_withdraw :: int
  crw_fee_config :: fee_config

record contract_receive_settled = contract_receive +
  crs_canonical_identifier :: canonical_identifier
  crs_our_onchain_locksroot :: locksroot
  crs_our_transferred_amount :: int
  crs_partner_onchain_locksroot :: locksroot
  crs_partner_transferred_amount :: int

record contract_receive_batch_unlock = contract_receive +
  cru_canonical_identifier :: canonical_identifier
  cru_receiver :: address
  cru_sender :: address
  cru_locksroot :: locksroot
  cru_unlocked_amount :: int
  cru_returned_tokens :: int

record contract_receive_update_transfer = contract_receive +
  crt_canonical_identifier :: canonical_identifier
  crt_nonce :: int

record contract_receive_secret_reveal = contract_receive +
  crr_secret_registry_address :: address
  crr_secrethash :: secrethash
  crr_secret :: secret

text \<open>\<open>ReceiveWithdrawRequest\<close> has two fields more than \<open>ReceiveWithdrawConfirmation\<close>; the checks
  common to both read the fields of the record \<open>receive_withdraw\<close>.\<close>

record receive_withdraw =
  rw_sender :: address
  rw_message_identifier :: int
  rw_canonical_identifier :: canonical_identifier
  rw_total_withdraw :: int
  rw_nonce :: int
  rw_expiration :: int
  rw_signature :: signature
  rw_participant :: address

record receive_withdraw_request = receive_withdraw +
  rwr_coop_settle :: bool
  rwr_sender_metadata :: "address_metadata option"

record receive_withdraw_expired =
  rwe_sender :: address
  rwe_message_identifier :: int
  rwe_canonical_identifier :: canonical_identifier
  rwe_total_withdraw :: int
  rwe_expiration :: int
  rwe_nonce :: int
  rwe_participant :: address

record receive_unlock =
  ru_sender :: address
  ru_balance_proof :: signed_balance_proof
  ru_message_identifier :: int
  ru_secret :: secret
  ru_secrethash :: secrethash

record receive_lock_expired =
  rle_sender :: address
  rle_balance_proof :: signed_balance_proof
  rle_secrethash :: secrethash
  rle_message_identifier :: int

record receive_transfer_refund =
  rtr_sender :: address
  rtr_balance_proof :: signed_balance_proof
  rtr_transfer :: locked_transfer_signed

record receive_secret_reveal =
  rsr_sender :: address
  rsr_secret :: secret
  rsr_secrethash :: secrethash

record action_init_target =
  ait_sender :: address
  ait_balance_proof :: signed_balance_proof
  ait_from_hop :: hop_state
  ait_transfer :: locked_transfer_signed
  ait_received_valid_secret :: bool

text \<open>The field \<open>revealsecret\<close> of \<open>ReceiveSecretRequest\<close>, which no code reads, is left out.\<close>

record receive_secret_request =
  rsq_sender :: address
  rsq_payment_identifier :: int
  rsq_amount :: int
  rsq_expiration :: int
  rsq_secrethash :: secrethash

record action_init_initiator =
  aii_transfer :: transfer_description
  aii_routes :: "route_state list"

record action_init_mediator =
  aim_sender :: address
  aim_balance_proof :: signed_balance_proof
  aim_from_hop :: hop_state
  aim_candidate_route_states :: "route_state list"
  aim_from_transfer :: locked_transfer_signed

record action_transfer_reroute =
  atr_sender :: address
  atr_balance_proof :: signed_balance_proof
  atr_transfer :: locked_transfer_signed
  atr_secret :: secret
  atr_secrethash :: secrethash

record receive_transfer_cancel_route =
  rcr_sender :: address
  rcr_balance_proof :: signed_balance_proof
  rcr_transfer :: locked_transfer_signed

text \<open>\<open>ReceiveDelivered\<close> and \<open>ReceiveProcessed\<close> have the same fields.\<close>

record receive_acknowledgement =
  rak_sender :: address
  rak_message_identifier :: int

record contract_receive_channel_new = contract_receive +
  crn_channel_state :: channel

text \<open>The constructors that derive the secrethash from the secret.\<close>

definition mk_action_transfer_reroute ::
  "platform \<Rightarrow> address \<Rightarrow> signed_balance_proof \<Rightarrow> locked_transfer_signed \<Rightarrow> secret \<Rightarrow>
   action_transfer_reroute" where
  "mk_action_transfer_reroute E sender bp transfer secret =
     \<lparr>atr_sender = sender, atr_balance_proof = bp, atr_transfer = transfer, atr_secret = secret,
      atr_secrethash = sha256 E secret\<rparr>"

definition mk_receive_unlock ::
  "platform \<Rightarrow> address \<Rightarrow> signed_balance_proof \<Rightarrow> int \<Rightarrow> secret \<Rightarrow> receive_unlock" where
  "mk_receive_unlock E sender bp message_identifier secret =
     \<lparr>ru_sender = sender, ru_balance_proof = bp, ru_message_identifier = message_identifier,
      ru_secret = secret, ru_secrethash = sha256 E secret\<rparr>"

definition mk_receive_secret_reveal :: "platform \<Rightarrow> address \<Rightarrow> secret \<Rightarrow> receive_secret_reveal" where
  "mk_receive_secret_reveal E sender secret =
     \<lparr>rsr_sender = sender, rsr_secret = secret, rsr_secrethash = sha256 E secret\<rparr>"

definition is_valid_secret_reveal :: "secrethash \<Rightarrow> secrethash \<Rightarrow> bool" where
  "is_valid_secret_reveal revealed_secrethash transfer_secrethash \<longleftrightarrow>
     revealed_secrethash = transfer_secrethash"

datatype channel_state_change =
    Block block
  | ActionChannelClose canonical_identifier
  | ActionChannelCoopSettle action_coop_settle
  | ActionChannelWithdraw action_channel_withdraw
  | ActionChannelSetRevealTimeout action_set_reveal_timeout
  | ReceiveWithdrawRequest receive_withdraw_request
  | ReceiveWithdrawConfirmation receive_withdraw
  | ReceiveWithdrawExpired receive_withdraw_expired
  | ContractReceiveChannelClosed contract_receive_closed
  | ContractReceiveUpdateTransfer contract_receive_update_transfer
  | ContractReceiveChannelSettled contract_receive_settled
  | ContractReceiveChannelDeposit contract_receive_deposit
  | ContractReceiveChannelWithdraw contract_receive_withdraw
  | ContractReceiveChannelBatchUnlock contract_receive_batch_unlock
  | OtherStateChange

datatype state_change =
    ToChannel channel_state_change
  | ActionInitInitiator action_init_initiator
  | ActionInitMediator action_init_mediator
  | ActionInitTarget action_init_target
  | ActionTransferReroute action_transfer_reroute
  | ActionCancelPayment int
  | ReceiveTransferCancelRoute receive_transfer_cancel_route
  | ReceiveTransferRefund receive_transfer_refund
  | ReceiveSecretRequest receive_secret_request
  | ReceiveSecretReveal receive_secret_reveal
  | ReceiveUnlock receive_unlock
  | ReceiveLockExpired receive_lock_expired
  | ReceiveDelivered receive_acknowledgement
  | ReceiveProcessed receive_acknowledgement
  | ContractReceiveSecretReveal contract_receive_secret_reveal
  | ContractReceiveChannelNew contract_receive_channel_new
  | UpdateServicesAddressesStateChange address int

abbreviation BlockChange :: "block \<Rightarrow> state_change" where
  "BlockChange b \<equiv> ToChannel (Block b)"

end
