(* ===== verification/Channel_Queries.thy ===== *)
theory Channel_Queries
  imports State_Changes
begin

text \<open>
  The getters, predicates and small mutators of \<open>transfer/channel.py\<close>: balances, capacity,
  distributable amount, status, lock lookups, the list of pending locks.
\<close>

abbreviation MAXIMUM_PENDING_TRANSFERS :: nat where "MAXIMUM_PENDING_TRANSFERS \<equiv> 160"
abbreviation DEFAULT_NUMBER_OF_BLOCK_CONFIRMATIONS :: int where
  "DEFAULT_NUMBER_OF_BLOCK_CONFIRMATIONS \<equiv> 5"

subsection \<open>Expirations\<close>

text \<open>\<open>if lock_timeout\<close> is false for \<open>None\<close> and for 0.\<close>

definition get_safe_initial_expiration :: "int \<Rightarrow> int \<Rightarrow> int option \<Rightarrow> int" where
  "get_safe_initial_expiration block_number reveal_timeout lock_timeout =
     (let expiration = (case lock_timeout of
          None \<Rightarrow> block_number + reveal_timeout * 2
        | Some t \<Rightarrow> if t \<noteq> 0 then block_number + t else block_number + reveal_timeout * 2)
      in expiration - 1)"

definition get_sender_expiration_threshold :: "int \<Rightarrow> int" where
  "get_sender_expiration_threshold expiration = expiration + DEFAULT_NUMBER_OF_BLOCK_CONFIRMATIONS * 2"

definition get_receiver_expiration_threshold :: "int \<Rightarrow> int" where
  "get_receiver_expiration_threshold expiration = expiration + DEFAULT_NUMBER_OF_BLOCK_CONFIRMATIONS"

definition is_withdraw_expired :: "int \<Rightarrow> int \<Rightarrow> bool" where
  "is_withdraw_expired block_number expiration_threshold \<longleftrightarrow> block_number \<ge> expiration_threshold"

subsection \<open>Locks\<close>

definition is_lock_pending :: "end_state \<Rightarrow> secrethash \<Rightarrow> bool" where
  "is_lock_pending es sh \<longleftrightarrow>
     dict_mem sh (es_lockedlocks es) \<or> dict_mem sh (es_unlockedlocks es) \<or>
     dict_mem sh (es_onchain_unlockedlocks es)"

definition is_lock_locked :: "end_state \<Rightarrow> secrethash \<Rightarrow> bool" where
  "is_lock_locked es sh \<longleftrightarrow> dict_mem sh (es_lockedlocks es)"

definition is_lock_expired :: "end_state \<Rightarrow> lock \<Rightarrow> int \<Rightarrow> int \<Rightarrow> success_or_error" where
  "is_lock_expired es l block_number lock_expiration_threshold =
     (if dict_mem (lk_secrethash l) (es_onchain_unlockedlocks es)
      then [LockError LockUnlockedOnChain]
      else if block_number < lock_expiration_threshold
      then [LockError (BlockNotLargerThanThreshold block_number lock_expiration_threshold)]
      else [])"

definition is_transfer_expired :: "locked_transfer_signed \<Rightarrow> channel \<Rightarrow> int \<Rightarrow> bool" where
  "is_transfer_expired transfer affected_channel block_number =
     soe_ok (is_lock_expired (ch_our_state affected_channel) (lt_lock transfer) block_number
       (get_sender_expiration_threshold (lk_expiration (lt_lock transfer))))"

definition is_secret_known :: "end_state \<Rightarrow> secrethash \<Rightarrow> bool" where
  "is_secret_known es sh \<longleftrightarrow>
     dict_mem sh (es_unlockedlocks es) \<or> dict_mem sh (es_onchain_unlockedlocks es)"

definition is_secret_known_offchain :: "end_state \<Rightarrow> secrethash \<Rightarrow> bool" where
  "is_secret_known_offchain es sh \<longleftrightarrow> dict_mem sh (es_unlockedlocks es)"

definition is_secret_known_onchain :: "end_state \<Rightarrow> secrethash \<Rightarrow> bool" where
  "is_secret_known_onchain es sh \<longleftrightarrow> dict_mem sh (es_onchain_unlockedlocks es)"

definition get_secret :: "end_state \<Rightarrow> secrethash \<Rightarrow> secret option" where
  "get_secret es sh =
     (case map_of (es_unlockedlocks es) sh of
        Some u \<Rightarrow> Some (up_secret u)
      | None \<Rightarrow> (case map_of (es_onchain_unlockedlocks es) sh of
          Some u \<Rightarrow> Some (up_secret u)
        | None \<Rightarrow> None))"

definition get_lock :: "end_state \<Rightarrow> secrethash \<Rightarrow> lock option" where
  "get_lock es sh =
     (case map_of (es_lockedlocks es) sh of
        Some l \<Rightarrow> Some l
      | None \<Rightarrow> (case map_of (es_unlockedlocks es) sh of
          Some u \<Rightarrow> Some (up_lock u)
        | None \<Rightarrow> (case map_of (es_onchain_unlockedlocks es) sh of
            Some u \<Rightarrow> Some (up_lock u)
          | None \<Rightarrow> None)))"

definition lock_exists_in_either_channel_side :: "channel \<Rightarrow> secrethash \<Rightarrow> bool" where
  "lock_exists_in_either_channel_side ch sh =
     (case get_lock (ch_our_state ch) sh of
        Some l \<Rightarrow> True
      | None \<Rightarrow> get_lock (ch_partner_state ch) sh \<noteq> None)"

definition compute_locks_with :: "bytes list \<Rightarrow> lock \<Rightarrow> bytes list option" where
  "compute_locks_with locks l =
     (if encoded l \<notin> set locks then Some (locks @ [encoded l]) else None)"

definition compute_locks_without :: "bytes list \<Rightarrow> bytes \<Rightarrow> bytes list option" where
  "compute_locks_without locks lock_encoded =
     (if lock_encoded \<in> set locks then Some (remove1 lock_encoded locks) else None)"

definition get_number_of_pending_transfers :: "end_state \<Rightarrow> nat" where
  "get_number_of_pending_transfers es = length (es_pending_locks es)"

subsection \<open>Amounts\<close>

definition get_amount_unclaimed_onchain :: "end_state \<Rightarrow> int" where
  "get_amount_unclaimed_onchain es =
     (\<Sum>u\<leftarrow>dict_values (es_onchain_unlockedlocks es). lk_amount (up_lock u))"

definition get_amount_locked :: "end_state \<Rightarrow> int" where
  "get_amount_locked es =
     (let total_pending = (\<Sum>l\<leftarrow>dict_values (es_lockedlocks es). lk_amount l);
          total_unclaimed = (\<Sum>u\<leftarrow>dict_values (es_unlockedlocks es). lk_amount (up_lock u));
          total_unclaimed_onchain = get_amount_unclaimed_onchain es
      in total_pending + total_unclaimed + total_unclaimed_onchain)"

definition get_capacity :: "channel \<Rightarrow> int" where
  "get_capacity ch =
     our_total_deposit ch - our_total_withdraw ch + partner_total_deposit ch
     - partner_total_withdraw ch"

definition get_balance_impl :: "end_state \<Rightarrow> end_state \<Rightarrow> bool \<Rightarrow> int" where
  "get_balance_impl sender receiver subtract_withdraws =
     (let sender_transferred_amount = (case es_balance_proof sender of
            None \<Rightarrow> 0 | Some bp \<Rightarrow> bp_transferred_amount (bp_base bp));
          receiver_transferred_amount = (case es_balance_proof receiver of
            None \<Rightarrow> 0 | Some bp \<Rightarrow> bp_transferred_amount (bp_base bp));
          max_withdraw = max (offchain_total_withdraw sender) (es_onchain_total_withdraw sender);
          withdraw = (if subtract_withdraws then max_withdraw else 0)
      in es_contract_balance sender - withdraw - sender_transferred_amount
         + receiver_transferred_amount)"

definition get_balance :: "end_state \<Rightarrow> end_state \<Rightarrow> int" where
  "get_balance sender receiver = get_balance_impl sender receiver True"

definition get_max_withdraw_amount :: "end_state \<Rightarrow> end_state \<Rightarrow> int" where
  "get_max_withdraw_amount sender receiver = get_balance_impl sender receiver False"

text \<open>Locksroot, nonce, transferred amount and locked amount of the latest balance proof.\<close>

definition get_current_balanceproof ::
  "platform \<Rightarrow> end_state \<Rightarrow> locksroot \<times> int \<times> int \<times> int" where
  "get_current_balanceproof E es =
     (case es_balance_proof es of
        Some bp \<Rightarrow> (bp_locksroot (bp_base bp), es_nonce es, bp_transferred_amount (bp_base bp),
                   get_amount_locked es)
      | None \<Rightarrow> (LOCKSROOT_OF_NO_LOCKS E, 0, 0, 0))"

definition get_current_nonce :: "end_state \<Rightarrow> int" where
  "get_current_nonce es = es_nonce es"

definition get_next_nonce :: "end_state \<Rightarrow> int" where
  "get_next_nonce es = es_nonce es + 1"

definition get_distributable :: "platform \<Rightarrow> end_state \<Rightarrow> end_state \<Rightarrow> int" where
  "get_distributable E sender receiver =
     (let (_, _, transferred, locked) = get_current_balanceproof E sender;
          distributable = get_balance sender receiver - get_amount_locked sender;
          overflow_limit = max (UINT256_MAX - transferred - locked) 0
      in min overflow_limit distributable)"

definition is_valid_amount :: "platform \<Rightarrow> end_state \<Rightarrow> int \<Rightarrow> bool" where
  "is_valid_amount E es amount =
     (let (_, _, current_transferred_amount, current_locked_amount) = get_current_balanceproof E es
      in current_transferred_amount + current_locked_amount + amount \<le> UINT256_MAX)"

definition is_valid_channel_total_withdraw :: "int \<Rightarrow> bool" where
  "is_valid_channel_total_withdraw channel_total_withdraw \<longleftrightarrow> channel_total_withdraw \<le> UINT256_MAX"

definition is_balance_proof_safe_for_onchain_operations :: "signed_balance_proof \<Rightarrow> bool" where
  "is_balance_proof_safe_for_onchain_operations bp \<longleftrightarrow>
     bp_transferred_amount bp + bp_locked_amount bp \<le> UINT256_MAX"

subsection \<open>Status\<close>

definition get_status :: "channel \<Rightarrow> channel_status" where
  "get_status ch =
     (case ch_settle_transaction ch of
        Some tx \<Rightarrow>
          (if tx_result tx = Some SUCCESS then STATE_SETTLED
           else if tx_finished_block_number tx = None then STATE_SETTLING
           else STATE_UNUSABLE)
      | None \<Rightarrow>
          (case ch_close_transaction ch of
             Some tx \<Rightarrow>
               (if tx_result tx = Some SUCCESS then STATE_CLOSED
                else if tx_finished_block_number tx = None then STATE_CLOSING
                else STATE_UNUSABLE)
           | None \<Rightarrow> STATE_OPENED))"

text \<open>The status only depends on the close and settle transactions.\<close>

lemma get_status_update [chan_simps]:
  "get_status (ch\<lparr>ch_our_state := es\<rparr>) = get_status ch"
  "get_status (ch\<lparr>ch_partner_state := es\<rparr>) = get_status ch"
  "get_status (ch\<lparr>ch_update_transaction := tx\<rparr>) = get_status ch"
  "get_status (ch\<lparr>ch_fee_schedule := fs\<rparr>) = get_status ch"
  "get_status (ch\<lparr>ch_reveal_timeout := t\<rparr>) = get_status ch"
  by (simp_all add: get_status_def cong: option.case_cong)

datatype channel_usability =
    USABLE
  | NOT_OPENED
  | INVALID_SETTLE_TIMEOUT
  | CHANNEL_REACHED_PENDING_LIMIT
  | CHANNEL_DOESNT_HAVE_ENOUGH_DISTRIBUTABLE
  | CHANNEL_BALANCE_PROOF_WOULD_OVERFLOW
  | LOCKTIMEOUT_MISMATCH

definition is_channel_usable_for_new_transfer ::
  "platform \<Rightarrow> channel \<Rightarrow> int \<Rightarrow> int option \<Rightarrow> channel_usability" where
  "is_channel_usable_for_new_transfer E ch transfer_amount lock_timeout =
     (let pending_transfers = get_number_of_pending_transfers (ch_our_state ch);
          distributable = get_distributable E (ch_our_state ch) (ch_partner_state ch);
          lock_timeout_valid = (case lock_timeout of
             None \<Rightarrow> True
           | Some t \<Rightarrow> t \<le> ch_settle_timeout ch \<and> t > ch_reveal_timeout ch);
          is_valid_settle_timeout = (ch_settle_timeout ch \<ge> ch_reveal_timeout ch * 2)
      in
      if get_status ch \<noteq> STATE_OPENED then NOT_OPENED
      else if \<not> is_valid_settle_timeout then INVALID_SETTLE_TIMEOUT
      else if pending_transfers \<ge> MAXIMUM_PENDING_TRANSFERS then CHANNEL_REACHED_PENDING_LIMIT
      else if transfer_amount > distributable then CHANNEL_DOESNT_HAVE_ENOUGH_DISTRIBUTABLE
      else if \<not> is_valid_amount E (ch_our_state ch) transfer_amount
        then CHANNEL_BALANCE_PROOF_WOULD_OVERFLOW
      else if \<not> lock_timeout_valid then LOCKTIMEOUT_MISMATCH
      else USABLE)"

definition is_channel_usable_for_mediation :: "platform \<Rightarrow> channel \<Rightarrow> int \<Rightarrow> int \<Rightarrow> bool" where
  "is_channel_usable_for_mediation E ch transfer_amount lock_timeout \<longleftrightarrow>
     is_channel_usable_for_new_transfer E ch transfer_amount (Some lock_timeout) = USABLE"

subsection \<open>Small mutators\<close>

definition del_unclaimed_lock :: "secrethash \<Rightarrow> end_state \<Rightarrow> end_state" where
  "del_unclaimed_lock sh es =
     (let es1 = (if dict_mem sh (es_lockedlocks es)
                 then es\<lparr>es_lockedlocks := AList.delete sh (es_lockedlocks es)\<rparr> else es)
      in if dict_mem sh (es_unlockedlocks es1)
         then es1\<lparr>es_unlockedlocks := AList.delete sh (es_unlockedlocks es1)\<rparr> else es1)"

definition del_lock :: "secrethash \<Rightarrow> end_state \<Rightarrow> end_state result" where
  "del_lock sh es =
     py_assert (is_lock_pending es sh) (
     let es1 = del_unclaimed_lock sh es in
     Inr (if dict_mem sh (es_onchain_unlockedlocks es1)
          then es1\<lparr>es_onchain_unlockedlocks := AList.delete sh (es_onchain_unlockedlocks es1)\<rparr>
          else es1))"

text \<open>\<open>not finished_block_number\<close> holds for \<open>None\<close> and for block 0.\<close>

definition block_number_unset :: "int option \<Rightarrow> bool" where
  "block_number_unset b \<longleftrightarrow> b = None \<or> b = Some 0"

definition finish_transaction ::
  "transaction_execution_status option \<Rightarrow> int \<Rightarrow> transaction_execution_status option" where
  "finish_transaction tx block_number =
     (case tx of
        None \<Rightarrow> Some \<lparr>tx_started_block_number = None, tx_finished_block_number = Some block_number,
                      tx_result = Some SUCCESS\<rparr>
      | Some t \<Rightarrow>
          if block_number_unset (tx_finished_block_number t)
          then Some (t\<lparr>tx_finished_block_number := Some block_number, tx_result := Some SUCCESS\<rparr>)
          else Some t)"

definition set_closed :: "int \<Rightarrow> channel \<Rightarrow> channel" where
  "set_closed block_number ch =
     ch\<lparr>ch_close_transaction := finish_transaction (ch_close_transaction ch) block_number\<rparr>"

definition set_settled :: "int \<Rightarrow> channel \<Rightarrow> channel" where
  "set_settled block_number ch =
     ch\<lparr>ch_settle_transaction := finish_transaction (ch_settle_transaction ch) block_number\<rparr>"

definition set_coop_settled :: "int \<Rightarrow> end_state \<Rightarrow> end_state result" where
  "set_coop_settled block_number es =
     (case es_initiated_coop_settle es of
        None \<Rightarrow> Inl AssertionError
      | Some c \<Rightarrow>
          Inr (es\<lparr>es_initiated_coop_settle :=
            Some (c\<lparr>cs_transaction := finish_transaction (cs_transaction c) block_number\<rparr>)\<rparr>))"

definition update_contract_balance :: "int \<Rightarrow> end_state \<Rightarrow> end_state" where
  "update_contract_balance contract_balance es =
     (if contract_balance > es_contract_balance es
      then es\<lparr>es_contract_balance := contract_balance\<rparr> else es)"

end
