(* ===== verification/Channel_Validation.thy ===== *)
theory Channel_Validation
  imports Channel_Queries
begin

text \<open>
  The validation of received messages in \<open>transfer/channel.py\<close>: signatures and balance proofs,
  locked transfers, refunds, unlocks, lock expirations and withdraws. \<open>PendingLocksStateOrError\<close> is
  the triple of the source: validity flag, error text, new list of pending locks.
\<close>

type_synonym pending_locks_or_error = "bool \<times> error_message option \<times> bytes list option"

definition invalid_pending :: "error_message \<Rightarrow> pending_locks_or_error" where
  "invalid_pending msg = (False, Some msg, None)"

subsection \<open>Signatures\<close>

definition pack_balance_proof ::
  "platform \<Rightarrow> int \<Rightarrow> bytes \<Rightarrow> bytes \<Rightarrow> canonical_identifier \<Rightarrow> bytes" where
  "pack_balance_proof E nonce balance_hash additional_hash ci =
     proofs_pack_balance_proof E (ci_token_network_address ci) (ci_chain_identifier ci)
       (ci_channel_identifier ci) nonce balance_hash additional_hash"

text \<open>The body of \<open>pack_withdraw\<close> is a \<open>raise\<close>; the call that used to be there is commented out.\<close>

definition pack_withdraw :: "canonical_identifier \<Rightarrow> address \<Rightarrow> int \<Rightarrow> int \<Rightarrow> bytes result" where
  "pack_withdraw ci participant total_amount expiration_block = Inl NotImplementedError"

text \<open>Every exception of the recovery is caught.\<close>

definition is_valid_signature :: "platform \<Rightarrow> bytes \<Rightarrow> signature \<Rightarrow> address \<Rightarrow> success_or_error" where
  "is_valid_signature E data sig sender_address =
     (case recover E data sig of
        Inl _ \<Rightarrow> [BalanceProofError SignatureNotRecovered]
      | Inr signer_address \<Rightarrow>
          if sender_address = signer_address then []
          else [BalanceProofError SignatureAddressMismatch])"

definition is_valid_balanceproof_signature ::
  "platform \<Rightarrow> signed_balance_proof \<Rightarrow> address \<Rightarrow> success_or_error result" where
  "is_valid_balanceproof_signature E bp sender_address =
     bind_result (hash_balance_data E (bp_transferred_amount bp) (bp_locked_amount bp)
         (bp_locksroot bp)) (\<lambda>balance_hash.
     Inr (is_valid_signature E
       (pack_balance_proof E (bp_nonce bp) balance_hash (bp_message_hash bp)
          (bp_canonical_identifier bp))
       (bp_signature bp) sender_address))"

definition is_valid_withdraw ::
  "platform \<Rightarrow> 'a receive_withdraw_scheme \<Rightarrow> success_or_error result" where
  "is_valid_withdraw E w =
     bind_result (pack_withdraw (rw_canonical_identifier w) (rw_participant w)
         (rw_total_withdraw w) (rw_expiration w)) (\<lambda>packed.
     Inr (is_valid_signature E packed (rw_signature w) (rw_sender w)))"

subsection \<open>Balance proofs\<close>

definition is_balance_proof_usable_onchain ::
  "platform \<Rightarrow> signed_balance_proof \<Rightarrow> channel \<Rightarrow> end_state \<Rightarrow> success_or_error result" where
  "is_balance_proof_usable_onchain E bp ch sender_state =
     (let expected_nonce = get_next_nonce sender_state;
          ci = ch_canonical_identifier ch;
          bp_ci = bp_canonical_identifier bp
      in
      bind_result (is_valid_balanceproof_signature E bp (es_address sender_state)) (\<lambda>valid_signature.
      Inr (
        if get_status ch \<noteq> STATE_OPENED then [BalanceProofError ChannelAlreadyClosed]
        else if ci_channel_identifier bp_ci \<noteq> ci_channel_identifier ci
        then [BalanceProofError (ChannelIdentifierMismatch (ci_channel_identifier ci)
                (ci_channel_identifier bp_ci))]
        else if ci_token_network_address bp_ci \<noteq> ci_token_network_address ci
        then [BalanceProofError (TokenNetworkAddressMismatch (ci_token_network_address ci)
                (ci_token_network_address bp_ci))]
        else if ci_chain_identifier bp_ci \<noteq> ci_chain_identifier ci
        then [BalanceProofError (ChainIdMismatch (ci_chain_identifier ci) (ci_chain_identifier bp_ci))]
        else if \<not> is_balance_proof_safe_for_onchain_operations bp
        then [BalanceProofError (BalanceProofOverflow (bp_transferred_amount bp + bp_locked_amount bp))]
        else if bp_nonce bp \<noteq> expected_nonce
        then [BalanceProofError (NonceNotSequential expected_nonce (bp_nonce bp))]
        else valid_signature)))"

subsection \<open>Locked transfers and refunds\<close>

definition valid_lockedtransfer_check ::
  "platform \<Rightarrow> channel \<Rightarrow> end_state \<Rightarrow> end_state \<Rightarrow> message_name \<Rightarrow> signed_balance_proof \<Rightarrow> lock \<Rightarrow>
   pending_locks_or_error result" where
  "valid_lockedtransfer_check E ch sender_state receiver_state message_name bp l =
     (let (_, _, current_transferred_amount, current_locked_amount) =
            get_current_balanceproof E sender_state;
          pending_locks = compute_locks_with (es_pending_locks sender_state) l;
          distributable = get_distributable E sender_state receiver_state;
          expected_locked_amount = current_locked_amount + lk_amount l;
          invalid = (\<lambda>m. Inr (invalid_pending (InvalidMessage message_name m)))
      in
      bind_result (is_balance_proof_usable_onchain E bp ch sender_state) (\<lambda>is_valid_balance_proof.
      if \<not> soe_ok is_valid_balance_proof then invalid (as_error_message is_valid_balance_proof)
      else case pending_locks of
        None \<Rightarrow> invalid (LockError SameLockHandledTwice)
      | Some locks \<Rightarrow>
          if length locks > MAXIMUM_PENDING_TRANSFERS then invalid (LockError PendingLimitExceeded)
          else if bp_locksroot bp \<noteq> compute_locksroot E locks
          then invalid (LockError (LocksrootMismatch (compute_locksroot E locks) (bp_locksroot bp)))
          else if bp_transferred_amount bp \<noteq> current_transferred_amount
          then invalid (LockError (TransferredAmountMismatch current_transferred_amount
                 (bp_transferred_amount bp)))
          else if bp_locked_amount bp \<noteq> expected_locked_amount
          then invalid (LockError (LockedAmountMismatch expected_locked_amount (bp_locked_amount bp)))
          else if lk_amount l > distributable
          then invalid (LockError (LockLargerThanDistributable (lk_amount l) distributable))
          else Inr (True, None, Some locks)))"

definition is_valid_lockedtransfer ::
  "platform \<Rightarrow> locked_transfer_signed \<Rightarrow> channel \<Rightarrow> end_state \<Rightarrow> end_state \<Rightarrow>
   pending_locks_or_error result" where
  "is_valid_lockedtransfer E transfer_state ch sender_state receiver_state =
     valid_lockedtransfer_check E ch sender_state receiver_state LockedTransferMsg
       (lts_balance_proof transfer_state) (lt_lock transfer_state)"

definition refund_transfer_matches_transfer ::
  "locked_transfer_signed \<Rightarrow> locked_transfer_unsigned \<Rightarrow> bool" where
  "refund_transfer_matches_transfer refund_transfer transfer =
     (if bp_sender (lts_balance_proof refund_transfer) = lt_target transfer then False
      else
        lt_payment_identifier transfer = lt_payment_identifier refund_transfer
        \<and> lk_amount (lt_lock transfer) = lk_amount (lt_lock refund_transfer)
        \<and> lk_secrethash (lt_lock transfer) = lk_secrethash (lt_lock refund_transfer)
        \<and> lt_target transfer = lt_target refund_transfer
        \<and> lk_expiration (lt_lock transfer) = lk_expiration (lt_lock refund_transfer)
        \<and> lt_token transfer = lt_token refund_transfer)"

definition is_valid_refund ::
  "platform \<Rightarrow> receive_transfer_refund \<Rightarrow> channel \<Rightarrow> end_state \<Rightarrow> end_state \<Rightarrow>
   locked_transfer_unsigned \<Rightarrow> pending_locks_or_error result" where
  "is_valid_refund E refund ch sender_state receiver_state received_transfer =
     bind_result (valid_lockedtransfer_check E ch sender_state receiver_state RefundTransferMsg
         (lts_balance_proof (rtr_transfer refund)) (lt_lock (rtr_transfer refund)))
       (\<lambda>(is_valid_locked_transfer, msg, pending_locks).
     Inr (if \<not> is_valid_locked_transfer then (False, msg, None)
          else if \<not> refund_transfer_matches_transfer (rtr_transfer refund) received_transfer
          then invalid_pending (LockError RefundDoesNotMatch)
          else (True, Some EmptyMessage, pending_locks)))"

subsection \<open>Unlocks and lock expirations\<close>

definition is_valid_unlock ::
  "platform \<Rightarrow> receive_unlock \<Rightarrow> channel \<Rightarrow> end_state \<Rightarrow> pending_locks_or_error result" where
  "is_valid_unlock E unlock ch sender_state =
     (let bp = ru_balance_proof unlock;
          (_, _, current_transferred_amount, current_locked_amount) =
            get_current_balanceproof E sender_state;
          invalid = (\<lambda>m. Inr (invalid_pending (InvalidMessage UnlockMsg m)))
      in
      case get_lock sender_state (ru_secrethash unlock) of
        None \<Rightarrow> invalid (LockError (LockNotKnown (ru_secrethash unlock)))
      | Some l \<Rightarrow>
        (case compute_locks_without (es_pending_locks sender_state) (encoded l) of
          None \<Rightarrow> invalid (LockError (LockEncodingUnknown (encoded l)))
        | Some pending_locks \<Rightarrow>
          let locksroot_without_lock = compute_locksroot E pending_locks;
              expected_transferred_amount = current_transferred_amount + lk_amount l;
              expected_locked_amount = current_locked_amount - lk_amount l
          in
          bind_result (is_balance_proof_usable_onchain E bp ch sender_state)
            (\<lambda>is_valid_balance_proof.
          if \<not> soe_ok is_valid_balance_proof then invalid (as_error_message is_valid_balance_proof)
          else if bp_locksroot bp \<noteq> locksroot_without_lock
          then invalid (LockError (LocksrootMismatch locksroot_without_lock (bp_locksroot bp)))
          else if bp_transferred_amount bp \<noteq> expected_transferred_amount
          then invalid (LockError (TransferredAmountMismatch expected_transferred_amount
                 (bp_transferred_amount bp)))
          else if bp_locked_amount bp \<noteq> expected_locked_amount
          then invalid (LockError (LockedAmountMismatch expected_locked_amount (bp_locked_amount bp)))
          else Inr (True, None, Some pending_locks))))"

text \<open>
  The lock is looked up among the partner's locked and off-chain unlocked locks. The balance proof
  is checked before the result is assembled, so an exception of that check comes first.
\<close>

definition is_valid_lock_expired ::
  "platform \<Rightarrow> receive_lock_expired \<Rightarrow> channel \<Rightarrow> end_state \<Rightarrow> end_state \<Rightarrow> int \<Rightarrow>
   pending_locks_or_error result" where
  "is_valid_lock_expired E state_change ch sender_state receiver_state block_number =
     (let sh = rle_secrethash state_change;
          bp = rle_balance_proof state_change;
          lock_opt = (case map_of (es_lockedlocks (ch_partner_state ch)) sh of
              Some l \<Rightarrow> Some l
            | None \<Rightarrow> (case map_of (es_unlockedlocks (ch_partner_state ch)) sh of
                Some u \<Rightarrow> Some (up_lock u)
              | None \<Rightarrow> None));
          secret_registered_on_chain = dict_mem sh (es_onchain_unlockedlocks (ch_partner_state ch));
          (_, _, current_transferred_amount, current_locked_amount) =
            get_current_balanceproof E sender_state;
          invalid = (\<lambda>m. Inr (invalid_pending (InvalidMessage LockExpiredMsg m)))
      in
      bind_result (is_balance_proof_usable_onchain E bp ch sender_state) (\<lambda>is_valid_balance_proof.
      if secret_registered_on_chain then invalid (LockError LockUnlockedOnChain)
      else case lock_opt of
        None \<Rightarrow> invalid (LockError (LockNotKnown sh))
      | Some l \<Rightarrow>
        let expected_locked_amount = current_locked_amount - lk_amount l in
        if \<not> soe_ok is_valid_balance_proof then invalid (as_error_message is_valid_balance_proof)
        else (case compute_locks_without (es_pending_locks sender_state) (encoded l) of
          None \<Rightarrow> invalid (LockError SameLockHandledTwice)
        | Some pending_locks \<Rightarrow>
          let locksroot_without_lock = compute_locksroot E pending_locks;
              check_lock_expired = is_lock_expired receiver_state l block_number
                (get_receiver_expiration_threshold (lk_expiration l))
          in
          if \<not> soe_ok check_lock_expired then invalid (as_error_message check_lock_expired)
          else if bp_locksroot bp \<noteq> locksroot_without_lock
          then invalid (LockError (LocksrootMismatch locksroot_without_lock (bp_locksroot bp)))
          else if bp_transferred_amount bp \<noteq> current_transferred_amount
          then invalid (LockError (TransferredAmountMismatch current_transferred_amount
                 (bp_transferred_amount bp)))
          else if bp_locked_amount bp \<noteq> expected_locked_amount
          then invalid (LockError (LockedAmountMismatch expected_locked_amount (bp_locked_amount bp)))
          else Inr (True, None, Some pending_locks))))"

subsection \<open>Withdraws\<close>

definition is_valid_total_withdraw :: "channel \<Rightarrow> int \<Rightarrow> bool \<Rightarrow> success_or_error" where
  "is_valid_total_withdraw ch our_total allow_zero =
     (let balance = get_balance (ch_our_state ch) (ch_partner_state ch);
          withdraw_overflow =
            (\<not> is_valid_channel_total_withdraw (our_total + partner_total_withdraw ch));
          withdraw_amount = our_total - our_total_withdraw ch
      in
      if get_status ch \<noteq> STATE_OPENED then [WithdrawError WithdrawNotOpened]
      else if withdraw_amount < 0 then [WithdrawError (WithdrawDecreased our_total)]
      else if \<not> allow_zero \<and> withdraw_amount = 0
      then [WithdrawError (WithdrawDidNotIncrease our_total)]
      else if balance < withdraw_amount
      then [WithdrawError (WithdrawInsufficientBalance balance withdraw_amount)]
      else if withdraw_overflow then [WithdrawError (WithdrawOverflow our_total)]
      else [])"

definition is_valid_action_coopsettle :: "channel \<Rightarrow> int \<Rightarrow> success_or_error" where
  "is_valid_action_coopsettle ch total_amount =
     (let result = is_valid_total_withdraw ch total_amount True in
      if \<not> soe_ok result then result
      else if get_number_of_pending_transfers (ch_our_state ch) > 0
      then [CoopSettleError CoopSettleOurLocksPending]
      else if get_number_of_pending_transfers (ch_partner_state ch) > 0
      then [CoopSettleError CoopSettlePartnerLocksPending]
      else if offchain_total_withdraw (ch_our_state ch) > 0
      then [CoopSettleError CoopSettleOurWithdrawsPending]
      else if offchain_total_withdraw (ch_partner_state ch) > 0
      then [CoopSettleError CoopSettlePartnerWithdrawsPending]
      else [])"

text \<open>The signature check is evaluated before the other fields are compared.\<close>

definition is_valid_withdraw_request ::
  "platform \<Rightarrow> channel \<Rightarrow> receive_withdraw_request \<Rightarrow> success_or_error result" where
  "is_valid_withdraw_request E ch w =
     (let expected_nonce = get_next_nonce (ch_partner_state ch);
          balance = get_balance (ch_partner_state ch) (ch_our_state ch)
      in
      bind_result (is_valid_withdraw E w) (\<lambda>is_valid.
      let withdraw_amount = rw_total_withdraw w - partner_total_withdraw ch;
          withdraw_overflow =
            (\<not> is_valid_channel_total_withdraw (rw_total_withdraw w + our_total_withdraw ch))
      in
      Inr (
        if ch_canonical_identifier ch \<noteq> rw_canonical_identifier w
        then [WithdrawError WithdrawCanonicalIdentifier]
        else if rw_participant w \<noteq> es_address (ch_partner_state ch)
        then [WithdrawError WithdrawParticipantNotPartner]
        else if rw_sender w \<noteq> es_address (ch_partner_state ch)
        then [WithdrawError WithdrawSenderNotPartner]
        else if withdraw_amount < 0 then [WithdrawError (WithdrawDecreased (rw_total_withdraw w))]
        else if balance < withdraw_amount
        then [WithdrawError (WithdrawInsufficientBalance balance withdraw_amount)]
        else if rw_nonce w \<noteq> expected_nonce
        then [BalanceProofError (NonceNotSequential expected_nonce (rw_nonce w))]
        else if withdraw_overflow then [WithdrawError (WithdrawOverflow (rw_total_withdraw w))]
        else is_valid)))"

text \<open>The expiration of the matching pending withdraw or, failing that, of the first matching
  expired one.\<close>

definition find_withdraw_expiration :: "end_state \<Rightarrow> int \<Rightarrow> int option" where
  "find_withdraw_expiration es total_amount =
     (case map_of (es_withdraws_pending es) total_amount of
        Some pw \<Rightarrow> Some (pw_expiration pw)
      | None \<Rightarrow> map_option ew_expiration
          (find (\<lambda>candidate. ew_total_withdraw candidate = total_amount) (es_withdraws_expired es)))"

definition is_valid_withdraw_confirmation ::
  "platform \<Rightarrow> channel \<Rightarrow> receive_withdraw \<Rightarrow> success_or_error result" where
  "is_valid_withdraw_confirmation E ch w =
     (let expected_nonce = get_next_nonce (ch_partner_state ch) in
      case find_withdraw_expiration (ch_our_state ch) (rw_total_withdraw w) of
        None \<Rightarrow> Inr [WithdrawError (ConfirmationNotFound (rw_total_withdraw w))]
      | Some withdraw_expiration \<Rightarrow>
        let withdraw_overflow =
              (\<not> is_valid_channel_total_withdraw (rw_total_withdraw w + partner_total_withdraw ch))
        in
        if ch_canonical_identifier ch \<noteq> rw_canonical_identifier w
        then Inr [WithdrawError WithdrawCanonicalIdentifier]
        else if rw_total_withdraw w \<noteq> our_total_withdraw ch
        then Inr [WithdrawError (ConfirmationTotalMismatch (rw_total_withdraw w) (our_total_withdraw ch))]
        else if rw_nonce w \<noteq> expected_nonce
        then Inr [BalanceProofError (NonceNotSequential expected_nonce (rw_nonce w))]
        else if rw_expiration w \<noteq> withdraw_expiration
        then Inr [WithdrawError (ConfirmationExpirationMismatch (rw_expiration w))]
        else if rw_participant w \<noteq> es_address (ch_our_state ch)
        then Inr [WithdrawError (ConfirmationParticipantMismatch (rw_participant w)
               (es_address (ch_our_state ch)))]
        else if rw_sender w \<noteq> es_address (ch_partner_state ch)
        then Inr [WithdrawError WithdrawSenderNotPartner]
        else if withdraw_overflow then Inr [WithdrawError (WithdrawOverflow (rw_total_withdraw w))]
        else is_valid_withdraw E w)"

definition is_valid_withdraw_expired ::
  "channel \<Rightarrow> receive_withdraw_expired \<Rightarrow> pending_withdraw \<Rightarrow> int \<Rightarrow> success_or_error" where
  "is_valid_withdraw_expired ch state_change withdraw_state block_number =
     (let expected_nonce = get_next_nonce (ch_partner_state ch);
          withdraw_expired = is_withdraw_expired block_number
            (get_receiver_expiration_threshold (pw_expiration withdraw_state))
      in
      if \<not> withdraw_expired
      then [WithdrawError (WithdrawNotYetExpired (rwe_total_withdraw state_change))]
      else if ch_canonical_identifier ch \<noteq> rwe_canonical_identifier state_change
      then [WithdrawError WithdrawCanonicalIdentifier]
      else if rwe_sender state_change \<noteq> es_address (ch_partner_state ch)
      then [WithdrawError WithdrawSenderNotPartner]
      else if rwe_total_withdraw state_change \<noteq> pw_total_withdraw withdraw_state
      then [WithdrawError (WithdrawExpiredAmountMismatch (rwe_total_withdraw state_change)
             (pw_total_withdraw withdraw_state))]
      else if rwe_nonce state_change \<noteq> expected_nonce
      then [BalanceProofError (NonceNotSequential expected_nonce (rwe_nonce state_change))]
      else [])"

end
