(* ===== verification/Channel_Send.thy ===== *)
theory Channel_Send
  imports Channel_Validation
begin

text \<open>
  The operations of \<open>transfer/channel.py\<close> that this node performs on its own side of a channel:
  sending locked transfers, unlocks, lock expirations and withdraw requests, closing, expiring
  withdraws, and registering secrets. A method that mutates \<open>channel_state\<close> returns the new channel;
  a method that draws message identifiers returns the advanced generator.
\<close>

abbreviation map_our_state :: "(end_state \<Rightarrow> end_state) \<Rightarrow> channel \<Rightarrow> channel" where
  "map_our_state f ch \<equiv> ch\<lparr>ch_our_state := f (ch_our_state ch)\<rparr>"

abbreviation map_partner_state :: "(end_state \<Rightarrow> end_state) \<Rightarrow> channel \<Rightarrow> channel" where
  "map_partner_state f ch \<equiv> ch\<lparr>ch_partner_state := f (ch_partner_state ch)\<rparr>"

subsection \<open>Locked transfers\<close>

definition create_sendlockedtransfer ::
  "platform \<Rightarrow> channel \<Rightarrow> address \<Rightarrow> address \<Rightarrow> int \<Rightarrow> int \<Rightarrow> int \<Rightarrow> int \<Rightarrow> secret option \<Rightarrow> secrethash \<Rightarrow>
   route_state list \<Rightarrow> address_metadata option \<Rightarrow> json option \<Rightarrow>
   (send_locked_transfer_event \<times> bytes list) result" where
  "create_sendlockedtransfer E ch initiator target amount message_identifier payment_identifier
       expiration secret secrethash route_states recipient_metadata previous_metadata =
     (let our = ch_our_state ch; partner = ch_partner_state ch in
      py_assert (amount \<le> get_distributable E our partner) (
      py_assert (get_status ch = STATE_OPENED) (
      bind_result (mk_hash_time_lock amount expiration secrethash) (\<lambda>l.
      case compute_locks_with (es_pending_locks our) l of
        None \<Rightarrow> Inl AssertionError
      | Some pending_locks \<Rightarrow>
        let locksroot = compute_locksroot E pending_locks;
            transferred = (case es_balance_proof our of
                None \<Rightarrow> 0 | Some bp \<Rightarrow> bp_transferred_amount (bp_base bp))
        in
        py_assert (transferred + amount \<le> UINT256_MAX) (
        bind_result (mk_balance_proof_unsigned E (get_next_nonce our) transferred
            (get_amount_locked our + amount) locksroot (ch_canonical_identifier ch)) (\<lambda>bp.
        bind_result (mk_locked_transfer_unsigned E payment_identifier (ch_token_address ch) l
            initiator target route_states previous_metadata secret bp) (\<lambda>transfer.
        let recipient = es_address partner;
            metadata = (case recipient_metadata of
                None \<Rightarrow> get_address_metadata recipient route_states | Some m \<Rightarrow> Some m)
        in
        Inr (\<lparr>slt_header = header recipient metadata (ch_canonical_identifier ch) message_identifier,
              slt_transfer = transfer\<rparr>, pending_locks))))))))"

definition send_lockedtransfer ::
  "platform \<Rightarrow> channel \<Rightarrow> address \<Rightarrow> address \<Rightarrow> int \<Rightarrow> int \<Rightarrow> int \<Rightarrow> int \<Rightarrow> secret option \<Rightarrow> secrethash \<Rightarrow>
   route_state list \<Rightarrow> address_metadata option \<Rightarrow> json option \<Rightarrow>
   (channel \<times> send_locked_transfer_event) result" where
  "send_lockedtransfer E ch initiator target amount message_identifier payment_identifier
       expiration secret secrethash route_states recipient_metadata previous_metadata =
     bind_result (create_sendlockedtransfer E ch initiator target amount message_identifier
         payment_identifier expiration secret secrethash route_states recipient_metadata
         previous_metadata) (\<lambda>(event, pending_locks).
     let transfer = slt_transfer event; l = lt_lock transfer; bp = ltu_balance_proof transfer in
     Inr (map_our_state (\<lambda>our. our\<lparr>
            es_balance_proof := Some (BPUnsigned bp),
            es_nonce := bp_nonce bp,
            es_pending_locks := pending_locks,
            es_lockedlocks := AList.update (lk_secrethash l) l (es_lockedlocks our)\<rparr>) ch,
          event))"

subsection \<open>Unlocks\<close>

text \<open>\<open>create_unlock\<close> assigns the new nonce to the channel before it builds the balance proof.\<close>

definition create_unlock ::
  "platform \<Rightarrow> channel \<Rightarrow> int \<Rightarrow> int \<Rightarrow> secret \<Rightarrow> lock \<Rightarrow> int \<Rightarrow> address_metadata option \<Rightarrow>
   (channel \<times> send_unlock_event \<times> bytes list) result" where
  "create_unlock E ch message_identifier payment_identifier secret l block_number
       recipient_metadata =
     (let our = ch_our_state ch;
          expired = is_lock_expired our l block_number (lk_expiration l)
      in
      py_assert (is_lock_pending our (lk_secrethash l)) (
      py_assert (get_status ch = STATE_OPENED) (
      py_assert (\<not> soe_ok expired) (
      case es_balance_proof our of
        None \<Rightarrow> Inl AssertionError
      | Some our_bp \<Rightarrow>
        (let transferred = lk_amount l + bp_transferred_amount (bp_base our_bp) in
        case compute_locks_without (es_pending_locks our) (encoded l) of
          None \<Rightarrow> Inl AssertionError
        | Some pending_locks \<Rightarrow>
          let locksroot = compute_locksroot E pending_locks;
              locked_amount = get_amount_locked our - lk_amount l;
              nonce = get_next_nonce our;
              ch' = map_our_state (\<lambda>our. our\<lparr>es_nonce := nonce\<rparr>) ch
          in
          bind_result (mk_balance_proof_unsigned E nonce transferred locked_amount locksroot
              (ch_canonical_identifier ch)) (\<lambda>bp.
          Inr (ch', mk_send_unlock E
                 (header (es_address (ch_partner_state ch)) recipient_metadata
                    (ch_canonical_identifier ch) message_identifier)
                 payment_identifier (ch_token_address ch) bp secret, pending_locks)))))))"

definition send_unlock ::
  "platform \<Rightarrow> channel \<Rightarrow> int \<Rightarrow> int \<Rightarrow> secret \<Rightarrow> secrethash \<Rightarrow> int \<Rightarrow> address_metadata option \<Rightarrow>
   (channel \<times> send_unlock_event) result" where
  "send_unlock E ch message_identifier payment_identifier secret secrethash block_number
       recipient_metadata =
     (case get_lock (ch_our_state ch) secrethash of
        None \<Rightarrow> Inl AssertionError
      | Some l \<Rightarrow>
        bind_result (create_unlock E ch message_identifier payment_identifier secret l block_number
            recipient_metadata) (\<lambda>(ch1, unlock, pending_locks).
        bind_result (del_lock (lk_secrethash l) ((ch_our_state ch1)\<lparr>
            es_balance_proof := Some (BPUnsigned (su_balance_proof unlock)),
            es_pending_locks := pending_locks\<rparr>)) (\<lambda>our.
        Inr (ch1\<lparr>ch_our_state := our\<rparr>, unlock))))"

subsection \<open>Lock expirations\<close>

definition create_sendexpiredlock ::
  "platform \<Rightarrow> end_state \<Rightarrow> lock \<Rightarrow> prng \<Rightarrow> canonical_identifier \<Rightarrow> address \<Rightarrow> address_metadata option \<Rightarrow>
   ((send_lock_expired_event \<times> bytes list) option \<times> prng) result" where
  "create_sendexpiredlock E es l g ci recipient recipient_metadata =
     (let updated_locked_amount = get_amount_locked es - lk_amount l in
      case es_balance_proof es of
        None \<Rightarrow> Inl AssertionError
      | Some balance_proof \<Rightarrow>
        (case compute_locks_without (es_pending_locks es) (encoded l) of
          None \<Rightarrow> Inr (None, g)
        | Some pending_locks \<Rightarrow>
          bind_result (mk_balance_proof_unsigned E (get_next_nonce es)
              (bp_transferred_amount (bp_base balance_proof)) updated_locked_amount
              (compute_locksroot E pending_locks) ci) (\<lambda>bp.
          let (message_identifier, g') = message_identifier_from_prng g in
          Inr (Some (\<lparr>sle_header = header recipient recipient_metadata
                        (bp_canonical_identifier bp) message_identifier,
                      sle_balance_proof = bp, sle_secrethash = lk_secrethash l\<rparr>, pending_locks),
               g'))))"

definition send_lock_expired ::
  "platform \<Rightarrow> channel \<Rightarrow> lock \<Rightarrow> prng \<Rightarrow> address_metadata option \<Rightarrow>
   (channel \<times> prng \<times> send_lock_expired_event list) result" where
  "send_lock_expired E ch locked_lock g recipient_metadata =
     py_assert (get_status ch = STATE_OPENED) (
     bind_result (create_sendexpiredlock E (ch_our_state ch) locked_lock g
         (ch_canonical_identifier ch) (es_address (ch_partner_state ch)) recipient_metadata)
       (\<lambda>(message, g').
     case message of
       None \<Rightarrow> Inr (ch, g', [])
     | Some (event, pending_locks) \<Rightarrow>
       Inr (map_our_state (\<lambda>our. del_unclaimed_lock (lk_secrethash locked_lock) (our\<lparr>
              es_pending_locks := pending_locks,
              es_balance_proof := Some (BPUnsigned (sle_balance_proof event)),
              es_nonce := bp_nonce (sle_balance_proof event)\<rparr>)) ch,
            g', [event])))"

subsection \<open>Closing\<close>

text \<open>The assertion that the partner's balance proof is signed is a branch of the model.\<close>

definition signed_or_none :: "balance_proof_state option \<Rightarrow> signed_balance_proof option result" where
  "signed_or_none bp =
     (case bp of
        None \<Rightarrow> Inr None
      | Some (BPSigned s) \<Rightarrow> Inr (Some s)
      | Some (BPUnsigned _) \<Rightarrow> Inl AssertionError)"

definition events_for_close :: "channel \<Rightarrow> int \<Rightarrow> block_hash \<Rightarrow> (channel \<times> event list) result" where
  "events_for_close ch block_number block_hash =
     (if get_status ch \<in> set CHANNEL_STATES_PRIOR_TO_CLOSED
      then
        let ch' = ch\<lparr>ch_close_transaction := Some \<lparr>tx_started_block_number = Some block_number,
              tx_finished_block_number = None, tx_result = None\<rparr>\<rparr> in
        bind_result (signed_or_none (es_balance_proof (ch_partner_state ch))) (\<lambda>bp.
        Inr (ch', [ContractSendChannelClose block_hash (ch_canonical_identifier ch) bp]))
      else Inr (ch, []))"

subsection \<open>Withdraws\<close>

definition send_withdraw_request ::
  "channel \<Rightarrow> int \<Rightarrow> int \<Rightarrow> prng \<Rightarrow> address_metadata option \<Rightarrow> bool \<Rightarrow> channel \<times> prng \<times> event list" where
  "send_withdraw_request ch total_amount expiration g recipient_metadata is_coop_settle =
     (if get_status ch \<notin> set CHANNEL_STATES_PRIOR_TO_CLOSED then (ch, g, [])
      else
        let nonce = get_next_nonce (ch_our_state ch);
            withdraw_state = \<lparr>pw_total_withdraw = total_amount, pw_expiration = expiration,
              pw_nonce = nonce, pw_recipient_metadata = recipient_metadata\<rparr>;
            ch' = map_our_state (\<lambda>our. our\<lparr>
              es_nonce := nonce,
              es_withdraws_pending := AList.update (pw_total_withdraw withdraw_state) withdraw_state
                (es_withdraws_pending our)\<rparr>) ch;
            (message_identifier, g') = message_identifier_from_prng g
        in (ch', g', [SendWithdrawRequest
              (header (es_address (ch_partner_state ch)) recipient_metadata
                 (ch_canonical_identifier ch) message_identifier)
              total_amount (es_address (ch_our_state ch)) expiration nonce is_coop_settle]))"

text \<open>One iteration of the loop of \<open>events_for_expired_withdraws\<close> for an expired withdraw.\<close>

definition expire_withdraw ::
  "pending_withdraw \<Rightarrow> channel \<Rightarrow> prng \<Rightarrow> (channel \<times> prng \<times> event) result" where
  "expire_withdraw w ch g =
     (let our = ch_our_state ch;
          nonce = get_next_nonce our;
          coop = (case es_initiated_coop_settle our of
              None \<Rightarrow> None
            | Some c \<Rightarrow>
                if cs_total_withdraw_initiator c = pw_total_withdraw w
                   \<and> cs_expiration c = pw_expiration w
                then None else Some c)
      in
      raise_if (\<not> dict_mem (pw_total_withdraw w) (es_withdraws_pending our)) KeyError (
      let our' = our\<lparr>
            es_nonce := nonce,
            es_initiated_coop_settle := coop,
            es_withdraws_expired := es_withdraws_expired our @
              [\<lparr>ew_total_withdraw = pw_total_withdraw w, ew_expiration = pw_expiration w,
                ew_nonce = pw_nonce w, ew_recipient_metadata = pw_recipient_metadata w\<rparr>],
            es_withdraws_pending := AList.delete (pw_total_withdraw w) (es_withdraws_pending our)\<rparr>;
          (message_identifier, g') = message_identifier_from_prng g
      in Inr (ch\<lparr>ch_our_state := our'\<rparr>, g', SendWithdrawExpired
           (header (es_address (ch_partner_state ch)) (pw_recipient_metadata w)
              (ch_canonical_identifier ch) message_identifier)
           (pw_total_withdraw w) (es_address our) nonce (pw_expiration w))))"

fun expire_withdraws ::
  "int \<Rightarrow> pending_withdraw list \<Rightarrow> channel \<Rightarrow> prng \<Rightarrow> (channel \<times> prng \<times> event list) result" where
  "expire_withdraws block_number [] ch g = Inr (ch, g, [])"
| "expire_withdraws block_number (w # ws) ch g =
     (if \<not> is_withdraw_expired block_number (get_sender_expiration_threshold (pw_expiration w))
      then Inr (ch, g, [])
      else
        bind_result (expire_withdraw w ch g) (\<lambda>(ch1, g1, event).
        bind_result (expire_withdraws block_number ws ch1 g1) (\<lambda>(ch2, g2, events).
        Inr (ch2, g2, event # events))))"

definition events_for_expired_withdraws ::
  "channel \<Rightarrow> int \<Rightarrow> prng \<Rightarrow> (channel \<times> prng \<times> event list) result" where
  "events_for_expired_withdraws ch block_number g =
     expire_withdraws block_number (dict_values (es_withdraws_pending (ch_our_state ch))) ch g"

subsection \<open>Secrets\<close>

definition register_secret_endstate :: "secret \<Rightarrow> secrethash \<Rightarrow> end_state \<Rightarrow> end_state" where
  "register_secret_endstate secret sh es =
     (case map_of (es_lockedlocks es) sh of
        None \<Rightarrow> es
      | Some pending_lock \<Rightarrow>
          es\<lparr>es_lockedlocks := AList.delete sh (es_lockedlocks es),
             es_unlockedlocks := AList.update sh \<lparr>up_lock = pending_lock, up_secret = secret\<rparr>
               (es_unlockedlocks es)\<rparr>)"

definition register_onchain_secret_endstate ::
  "secret \<Rightarrow> secrethash \<Rightarrow> int \<Rightarrow> bool \<Rightarrow> end_state \<Rightarrow> end_state result" where
  "register_onchain_secret_endstate secret sh secret_reveal_block_number delete_lock es =
     (let pending_lock = (case map_of (es_unlockedlocks es) sh of
          Some u \<Rightarrow> Some (up_lock u)
        | None \<Rightarrow> map_of (es_lockedlocks es) sh)
      in
      case pending_lock of
        None \<Rightarrow> Inr es
      | Some l \<Rightarrow>
        if lk_expiration l < secret_reveal_block_number then Inr es
        else
          bind_result (if delete_lock then del_lock sh es else Inr es) (\<lambda>es1.
          Inr (es1\<lparr>es_onchain_unlockedlocks :=
            AList.update sh \<lparr>up_lock = l, up_secret = secret\<rparr> (es_onchain_unlockedlocks es1)\<rparr>)))"

definition register_offchain_secret :: "channel \<Rightarrow> secret \<Rightarrow> secrethash \<Rightarrow> channel" where
  "register_offchain_secret ch secret sh =
     map_partner_state (register_secret_endstate secret sh)
       (map_our_state (register_secret_endstate secret sh) ch)"

definition register_onchain_secret ::
  "channel \<Rightarrow> secret \<Rightarrow> secrethash \<Rightarrow> int \<Rightarrow> bool \<Rightarrow> channel result" where
  "register_onchain_secret ch secret sh secret_reveal_block_number delete_lock =
     bind_result (register_onchain_secret_endstate secret sh secret_reveal_block_number delete_lock
         (ch_our_state ch)) (\<lambda>our.
     bind_result (register_onchain_secret_endstate secret sh secret_reveal_block_number delete_lock
         (ch_partner_state ch)) (\<lambda>partner.
     Inr (ch\<lparr>ch_our_state := our, ch_partner_state := partner\<rparr>)))"

end
