(* ===== verification/Channel_Handlers.thy ===== *)
theory Channel_Handlers
  imports Channel_Send
begin

text \<open>
  The handlers of \<open>transfer/channel.py\<close>: received balance-proof messages, the state changes that
  \<open>handle_state_transitions\<close> dispatches on, \<open>sanity_check\<close> and \<open>state_transition\<close>. A transition
  result is the new channel (\<open>None\<close> when the channel is cleared), the advanced generator and the
  events; handlers that return \<open>EventsOrError\<close> return the mutated channel with the triple.
\<close>

type_synonym channel_transition = "(channel option \<times> prng \<times> event list) result"
type_synonym events_or_error = "bool \<times> event list \<times> error_message option"

subsection \<open>Received balance proofs\<close>

definition processed ::
  "address \<Rightarrow> address_metadata option \<Rightarrow> int \<Rightarrow> event" where
  "processed recipient recipient_metadata message_identifier =
     SendProcessed (header recipient recipient_metadata CANONICAL_IDENTIFIER_UNORDERED_QUEUE
       message_identifier)"

text \<open>The assertion that an error text is present and not empty.\<close>

definition with_error_text :: "error_message option \<Rightarrow> (error_message \<Rightarrow> 'a result) \<Rightarrow> 'a result" where
  "with_error_text msg k =
     (case msg of
        None \<Rightarrow> Inl AssertionError
      | Some m \<Rightarrow> py_assert (message_truthy m) (k m))"

definition handle_receive_lockedtransfer ::
  "platform \<Rightarrow> channel \<Rightarrow> locked_transfer_signed \<Rightarrow> address_metadata option \<Rightarrow>
   (channel \<times> events_or_error) result" where
  "handle_receive_lockedtransfer E ch mediated_transfer recipient_metadata =
     bind_result (is_valid_lockedtransfer E mediated_transfer ch (ch_partner_state ch)
         (ch_our_state ch)) (\<lambda>(is_valid, msg, pending).
     if is_valid then
       (case pending of
          None \<Rightarrow> Inl AssertionError
        | Some pending_locks \<Rightarrow>
          let bp = lts_balance_proof mediated_transfer;
              l = lt_lock mediated_transfer;
              ch' = map_partner_state (\<lambda>partner. partner\<lparr>
                es_balance_proof := Some (BPSigned bp),
                es_nonce := bp_nonce bp,
                es_pending_locks := pending_locks,
                es_lockedlocks := AList.update (lk_secrethash l) l (es_lockedlocks partner)\<rparr>) ch
          in Inr (ch', True, [processed (bp_sender bp) recipient_metadata
                    (lts_message_identifier mediated_transfer)], msg))
     else
       with_error_text msg (\<lambda>m.
       Inr (ch, False, [EventInvalidReceivedLockedTransfer
              (lt_payment_identifier mediated_transfer) m], msg)))"

definition handle_refundtransfer ::
  "platform \<Rightarrow> locked_transfer_unsigned \<Rightarrow> channel \<Rightarrow> receive_transfer_refund \<Rightarrow>
   (channel \<times> events_or_error) result" where
  "handle_refundtransfer E received_transfer ch refund =
     bind_result (is_valid_refund E refund ch (ch_partner_state ch) (ch_our_state ch)
         received_transfer) (\<lambda>(is_valid, msg, pending).
     if is_valid then
       (case pending of
          None \<Rightarrow> Inl AssertionError
        | Some pending_locks \<Rightarrow>
          let transfer = rtr_transfer refund;
              bp = lts_balance_proof transfer;
              l = lt_lock transfer;
              ch' = map_partner_state (\<lambda>partner. partner\<lparr>
                es_balance_proof := Some (BPSigned bp),
                es_nonce := bp_nonce bp,
                es_pending_locks := pending_locks,
                es_lockedlocks := AList.update (lk_secrethash l) l (es_lockedlocks partner)\<rparr>) ch;
              recipient_metadata = get_address_metadata (es_address (ch_partner_state ch))
                (lt_route_states received_transfer)
          in Inr (ch', True, [processed (bp_sender bp) recipient_metadata
                    (lts_message_identifier transfer)], msg))
     else
       with_error_text msg (\<lambda>m.
       Inr (ch, False, [EventInvalidReceivedTransferRefund
              (lt_payment_identifier received_transfer) m], msg)))"

definition handle_receive_lock_expired ::
  "platform \<Rightarrow> channel \<Rightarrow> receive_lock_expired \<Rightarrow> int \<Rightarrow> address_metadata option \<Rightarrow>
   (channel \<times> event list) result" where
  "handle_receive_lock_expired E ch state_change block_number recipient_metadata =
     bind_result (is_valid_lock_expired E state_change ch (ch_partner_state ch) (ch_our_state ch)
         block_number) (\<lambda>(is_valid, msg, pending).
     if is_valid then
       (case pending of
          None \<Rightarrow> Inl AssertionError
        | Some pending_locks \<Rightarrow>
          let bp = rle_balance_proof state_change;
              ch' = map_partner_state (\<lambda>partner. del_unclaimed_lock (rle_secrethash state_change)
                (partner\<lparr>
                  es_balance_proof := Some (BPSigned bp),
                  es_nonce := bp_nonce bp,
                  es_pending_locks := pending_locks\<rparr>)) ch
          in Inr (ch', [processed (bp_sender bp) recipient_metadata
                    (rle_message_identifier state_change)]))
     else
       with_error_text msg (\<lambda>m.
       Inr (ch, [EventInvalidReceivedLockExpired (rle_secrethash state_change) m])))"

definition handle_unlock ::
  "platform \<Rightarrow> channel \<Rightarrow> receive_unlock \<Rightarrow> address_metadata option \<Rightarrow>
   (channel \<times> events_or_error) result" where
  "handle_unlock E ch unlock recipient_metadata =
     bind_result (is_valid_unlock E unlock ch (ch_partner_state ch)) (\<lambda>(is_valid, msg, pending).
     if is_valid then
       (case pending of
          None \<Rightarrow> Inl AssertionError
        | Some unlocked_pending_locks \<Rightarrow>
          let bp = ru_balance_proof unlock in
          bind_result (del_lock (ru_secrethash unlock) ((ch_partner_state ch)\<lparr>
              es_balance_proof := Some (BPSigned bp),
              es_nonce := bp_nonce bp,
              es_pending_locks := unlocked_pending_locks\<rparr>)) (\<lambda>partner.
          Inr (ch\<lparr>ch_partner_state := partner\<rparr>, True,
               [processed (bp_sender bp) recipient_metadata (ru_message_identifier unlock)], msg)))
     else
       with_error_text msg (\<lambda>m.
       Inr (ch, False, [EventInvalidReceivedUnlock (ru_secrethash unlock) m], msg)))"

subsection \<open>User actions\<close>

definition handle_action_close ::
  "canonical_identifier \<Rightarrow> channel \<Rightarrow> int \<Rightarrow> block_hash \<Rightarrow> prng \<Rightarrow> channel_transition" where
  "handle_action_close action_ci ch block_number block_hash g =
     py_assert (channel_identifier ch = ci_channel_identifier action_ci) (
     bind_result (events_for_close ch block_number block_hash) (\<lambda>(ch', events).
     Inr (Some ch', g, events)))"

definition handle_action_coop_settle ::
  "action_coop_settle \<Rightarrow> channel \<Rightarrow> int \<Rightarrow> prng \<Rightarrow> channel_transition" where
  "handle_action_coop_settle action ch block_number g =
     (let our_max_total_withdraw = get_max_withdraw_amount (ch_our_state ch) (ch_partner_state ch);
          partner_max_total_withdraw =
            get_max_withdraw_amount (ch_partner_state ch) (ch_our_state ch);
          valid_coop_settle = is_valid_action_coopsettle ch our_max_total_withdraw
      in
      if soe_ok valid_coop_settle then
        let expiration = get_safe_initial_expiration block_number (ch_reveal_timeout ch) None;
            c = \<lparr>cs_total_withdraw_initiator = our_max_total_withdraw,
                 cs_total_withdraw_partner = partner_max_total_withdraw,
                 cs_expiration = expiration, cs_partner_signature_request = None,
                 cs_partner_signature_confirmation = None, cs_transaction = None\<rparr>;
            (ch', g', events) = send_withdraw_request
              (map_our_state (\<lambda>our. our\<lparr>es_initiated_coop_settle := Some c\<rparr>) ch)
              our_max_total_withdraw expiration g (ac_recipient_metadata action) True
        in Inr (Some ch', g', events)
      else
        with_error_text (Some (as_error_message valid_coop_settle)) (\<lambda>m.
        Inr (Some ch, g, [EventInvalidActionCoopSettle our_max_total_withdraw m])))"

definition handle_action_withdraw ::
  "action_channel_withdraw \<Rightarrow> channel \<Rightarrow> int \<Rightarrow> prng \<Rightarrow> channel_transition" where
  "handle_action_withdraw action ch block_number g =
     (let valid_withdraw = is_valid_total_withdraw ch (aw_total_withdraw action) False in
      if soe_ok valid_withdraw then
        let expiration = get_safe_initial_expiration block_number (ch_reveal_timeout ch) None;
            (ch', g', events) = send_withdraw_request ch (aw_total_withdraw action) expiration g
              (aw_recipient_metadata action) False
        in Inr (Some ch', g', events)
      else
        with_error_text (Some (as_error_message valid_withdraw)) (\<lambda>m.
        Inr (Some ch, g, [EventInvalidActionWithdraw (aw_total_withdraw action) m])))"

definition handle_action_set_reveal_timeout ::
  "action_set_reveal_timeout \<Rightarrow> channel \<Rightarrow> prng \<Rightarrow> channel_transition" where
  "handle_action_set_reveal_timeout action ch g =
     (let is_valid_reveal_timeout =
            (ar_reveal_timeout action \<ge> 7 \<and> ch_settle_timeout ch \<ge> ar_reveal_timeout action * 2)
      in
      if is_valid_reveal_timeout
      then Inr (Some (ch\<lparr>ch_reveal_timeout := ar_reveal_timeout action\<rparr>), g, [])
      else Inr (Some ch, g,
             [EventInvalidActionSetRevealTimeout (ar_reveal_timeout action) RevealTimeoutTooLarge]))"

subsection \<open>Received withdraw messages\<close>

text \<open>
  \<open>coop_settle_state\<close> is always the object stored in \<open>our_state.initiated_coop_settle\<close>; the model
  passes its value after the caller's update.
\<close>

definition events_for_coop_settle ::
  "channel \<Rightarrow> coop_settle \<Rightarrow> int \<Rightarrow> block_hash \<Rightarrow> (channel \<times> event list) result" where
  "events_for_coop_settle ch c block_number block_hash =
     (case (cs_partner_signature_request c, cs_partner_signature_confirmation c) of
        (Some sig_request, Some sig_confirmation) \<Rightarrow>
          (if cs_expiration c \<ge> block_number - ch_reveal_timeout ch then
             (case es_initiated_coop_settle (ch_our_state ch) of
                None \<Rightarrow> Inl AssertionError
              | Some ours \<Rightarrow>
                Inr (map_our_state (\<lambda>our. our\<lparr>es_initiated_coop_settle :=
                       Some (ours\<lparr>cs_transaction := Some \<lparr>tx_started_block_number = Some block_number,
                         tx_finished_block_number = None, tx_result = None\<rparr>\<rparr>)\<rparr>) ch,
                     [ContractSendChannelCoopSettle block_hash (ch_canonical_identifier ch)
                        (cs_total_withdraw_initiator c) (cs_total_withdraw_partner c)
                        (cs_expiration c) sig_confirmation sig_request]))
           else Inr (ch, []))
      | _ \<Rightarrow> Inr (ch, []))"

text \<open>
  The outcome of the coop-settle part of \<open>_handle_receive_withdraw_request\<close>: an early return with
  an invalid event, or the channel and events to continue with.
\<close>

datatype withdraw_request_step =
    WithdrawRequestInvalid channel error_message
  | WithdrawRequestContinue channel prng "event list"

definition withdraw_request_coop_settle ::
  "receive_withdraw_request \<Rightarrow> channel \<Rightarrow> int \<Rightarrow> block_hash \<Rightarrow> prng \<Rightarrow> withdraw_request_step result" where
  "withdraw_request_coop_settle action ch block_number block_hash g =
     (let ours = es_initiated_coop_settle (ch_our_state ch) in
      if ours \<noteq> None \<or> rwr_coop_settle action then
        let partner_max = get_max_withdraw_amount (ch_partner_state ch) (ch_our_state ch) in
        if partner_max \<noteq> rw_total_withdraw action
        then Inr (WithdrawRequestInvalid ch (CoopSettleError (PartnerNotMaximumWithdraw partner_max)))
        else if get_number_of_pending_transfers (ch_partner_state ch) > 0
        then Inr (WithdrawRequestInvalid ch (CoopSettleError PartnerHasPendingTransfers))
        else (case ours of
          Some c \<Rightarrow>
            if cs_expiration c \<noteq> rw_expiration action
            then Inr (WithdrawRequestInvalid ch (CoopSettleError PartnerExpirationDiffers))
            else
              py_assert (cs_total_withdraw_partner c = rw_total_withdraw action) (
              let c' = c\<lparr>cs_partner_signature_request := Some (rw_signature action)\<rparr> in
              bind_result (events_for_coop_settle
                  (map_our_state (\<lambda>our. our\<lparr>es_initiated_coop_settle := Some c'\<rparr>) ch)
                  c' block_number block_hash) (\<lambda>(ch', events).
              Inr (WithdrawRequestContinue ch' g events)))
        | None \<Rightarrow>
            let our_max = get_max_withdraw_amount (ch_our_state ch) (ch_partner_state ch) in
            if get_number_of_pending_transfers (ch_our_state ch) > 0
            then Inr (WithdrawRequestInvalid ch (CoopSettleError WeHavePendingTransfers))
            else
              let c = \<lparr>cs_total_withdraw_initiator = rw_total_withdraw action,
                    cs_total_withdraw_partner = our_max, cs_expiration = rw_expiration action,
                    cs_partner_signature_request = Some (rw_signature action),
                    cs_partner_signature_confirmation = None, cs_transaction = None\<rparr>;
                  (ch', g', events) = send_withdraw_request
                    (map_partner_state (\<lambda>partner. partner\<lparr>es_initiated_coop_settle := Some c\<rparr>) ch)
                    our_max (rw_expiration action) g (rwr_sender_metadata action) False
              in Inr (WithdrawRequestContinue ch' g' (events @ events)))
      else Inr (WithdrawRequestContinue ch g []))"

text \<open>\<open>_handle_receive_withdraw_request\<close> after its validation.\<close>

definition accept_withdraw_request ::
  "receive_withdraw_request \<Rightarrow> channel \<Rightarrow> int \<Rightarrow> block_hash \<Rightarrow> prng \<Rightarrow> channel_transition" where
  "accept_withdraw_request action ch block_number block_hash g =
     (let withdraw_state = \<lparr>pw_total_withdraw = rw_total_withdraw action,
            pw_expiration = rw_expiration action, pw_nonce = rw_nonce action,
            pw_recipient_metadata = rwr_sender_metadata action\<rparr>;
          ch1 = map_partner_state (\<lambda>partner. partner\<lparr>
            es_withdraws_pending := AList.update (pw_total_withdraw withdraw_state) withdraw_state
              (es_withdraws_pending partner),
            es_nonce := rw_nonce action\<rparr>) ch
      in
      bind_result (withdraw_request_coop_settle action ch1 block_number block_hash g) (\<lambda>step.
      case step of
        WithdrawRequestInvalid ch2 m \<Rightarrow>
          with_error_text (Some m) (\<lambda>m.
          Inr (Some ch2, g, [EventInvalidReceivedWithdrawRequest (rw_total_withdraw action) m]))
      | WithdrawRequestContinue ch2 g2 events \<Rightarrow>
          let nonce = get_next_nonce (ch_our_state ch2);
              ch3 = map_our_state (\<lambda>our. our\<lparr>es_nonce := nonce\<rparr>) ch2
          in Inr (Some ch3, g2, events @ [SendWithdrawConfirmation
                (header (es_address (ch_partner_state ch3)) (rwr_sender_metadata action)
                   (ch_canonical_identifier ch3) (rw_message_identifier action))
                (rw_total_withdraw action) (es_address (ch_partner_state ch3))
                (rw_expiration action) nonce])))"

definition handle_receive_withdraw_request ::
  "platform \<Rightarrow> receive_withdraw_request \<Rightarrow> channel \<Rightarrow> int \<Rightarrow> block_hash \<Rightarrow> prng \<Rightarrow> channel_transition"
where
  "handle_receive_withdraw_request E action ch block_number block_hash g =
     bind_result (is_valid_withdraw_request E ch action) (\<lambda>is_valid.
     if \<not> soe_ok is_valid then
       with_error_text (Some (as_error_message is_valid)) (\<lambda>m.
       Inr (Some ch, g, [EventInvalidReceivedWithdrawRequest (rw_total_withdraw action) m]))
     else accept_withdraw_request action ch block_number block_hash g)"

definition handle_receive_withdraw_confirmation ::
  "platform \<Rightarrow> receive_withdraw \<Rightarrow> channel \<Rightarrow> int \<Rightarrow> block_hash \<Rightarrow> prng \<Rightarrow> channel_transition" where
  "handle_receive_withdraw_confirmation E action ch block_number block_hash g =
     bind_result (is_valid_withdraw_confirmation E ch action) (\<lambda>is_valid.
     let recipient_metadata =
           (case map_of (es_withdraws_pending (ch_our_state ch)) (rw_total_withdraw action) of
              None \<Rightarrow> None | Some w \<Rightarrow> pw_recipient_metadata w)
     in
     if soe_ok is_valid then
       let ch1 = map_partner_state (\<lambda>partner. partner\<lparr>es_nonce := rw_nonce action\<rparr>) ch;
           send_processed = processed (es_address (ch_partner_state ch)) recipient_metadata
             (rw_message_identifier action)
       in
       (case es_initiated_coop_settle (ch_our_state ch1) of
          Some c \<Rightarrow>
            py_assert (es_initiated_coop_settle (ch_partner_state ch1) = None) (
            let c' = c\<lparr>cs_partner_signature_confirmation := Some (rw_signature action)\<rparr> in
            bind_result (events_for_coop_settle
                (map_our_state (\<lambda>our. our\<lparr>es_initiated_coop_settle := Some c'\<rparr>) ch1)
                c' block_number block_hash) (\<lambda>(ch2, events).
            Inr (Some ch2, g, send_processed # events)))
        | None \<Rightarrow>
            if es_initiated_coop_settle (ch_partner_state ch1) = None
               \<and> rw_expiration action \<ge> block_number - ch_reveal_timeout ch1
            then Inr (Some ch1, g, [send_processed, ContractSendChannelWithdraw block_hash
                   (rw_canonical_identifier action) (rw_total_withdraw action)
                   (rw_expiration action) (rw_signature action)])
            else Inr (Some ch1, g, [send_processed]))
     else
       with_error_text (Some (as_error_message is_valid)) (\<lambda>m.
       Inr (Some ch, g, [EventInvalidReceivedWithdraw (rw_total_withdraw action) m])))"

definition handle_receive_withdraw_expired ::
  "receive_withdraw_expired \<Rightarrow> channel \<Rightarrow> int \<Rightarrow> prng \<Rightarrow> channel_transition" where
  "handle_receive_withdraw_expired action ch block_number g =
     (case map_of (es_withdraws_pending (ch_partner_state ch)) (rwe_total_withdraw action) of
        None \<Rightarrow>
          Inr (Some ch, g, [EventInvalidReceivedWithdrawExpired (rwe_total_withdraw action)
                 (WithdrawError (WithdrawExpiredUnknown (rwe_total_withdraw action)))])
      | Some w \<Rightarrow>
        let is_valid = is_valid_withdraw_expired ch action w block_number in
        if soe_ok is_valid then
          raise_if (\<not> dict_mem (pw_total_withdraw w) (es_withdraws_pending (ch_partner_state ch)))
            KeyError (
          let ch' = map_partner_state (\<lambda>partner. partner\<lparr>
                es_withdraws_pending :=
                  AList.delete (pw_total_withdraw w) (es_withdraws_pending partner),
                es_nonce := rwe_nonce action,
                es_initiated_coop_settle := (case es_initiated_coop_settle partner of
                    None \<Rightarrow> None
                  | Some c \<Rightarrow>
                      if cs_total_withdraw_initiator c = pw_total_withdraw w
                         \<and> cs_expiration c = pw_expiration w
                      then None else Some c)\<rparr>) ch
          in Inr (Some ch', g, [processed (es_address (ch_partner_state ch))
                (pw_recipient_metadata w) (rwe_message_identifier action)]))
        else
          with_error_text (Some (as_error_message is_valid)) (\<lambda>m.
          Inr (Some ch, g, [EventInvalidReceivedWithdrawExpired (rwe_total_withdraw action) m])))"

subsection \<open>Blocks and on-chain events\<close>

definition handle_block ::
  "block \<Rightarrow> channel \<Rightarrow> int \<Rightarrow> prng \<Rightarrow> channel_transition" where
  "handle_block action ch block_number g =
     py_assert (blk_block_number action = block_number) (
     bind_result (if get_status ch = STATE_OPENED
                  then events_for_expired_withdraws ch block_number g
                  else Inr (ch, g, [])) (\<lambda>(ch1, g1, events).
     if get_status ch1 = STATE_CLOSED then
       (case ch_close_transaction ch1 of
          None \<Rightarrow> Inl AssertionError
        | Some tx \<Rightarrow>
          (case tx_finished_block_number tx of
             None \<Rightarrow> Inl AssertionError
           | Some closed_block_number \<Rightarrow>
             py_assert (closed_block_number \<noteq> 0) (
             let settlement_end = closed_block_number + ch_settle_timeout ch1 in
             if blk_block_number action > settlement_end
             then Inr (Some (ch1\<lparr>ch_settle_transaction := Some
                         \<lparr>tx_started_block_number = Some (blk_block_number action),
                          tx_finished_block_number = None, tx_result = None\<rparr>\<rparr>), g1,
                       events @ [ContractSendChannelSettle (blk_block_hash action)
                         (ch_canonical_identifier ch1)])
             else Inr (Some ch1, g1, events))))
     else Inr (Some ch1, g1, events)))"

definition handle_channel_closed ::
  "contract_receive_closed \<Rightarrow> channel \<Rightarrow> prng \<Rightarrow> channel_transition" where
  "handle_channel_closed action ch g =
     (let just_closed =
            (ci_channel_identifier (crc_canonical_identifier action) = channel_identifier ch
             \<and> get_status ch \<in> set CHANNEL_STATES_PRIOR_TO_CLOSED)
      in
      if just_closed then
        let ch1 = set_closed (cr_block_number action) ch;
            balance_proof = es_balance_proof (ch_partner_state ch1);
            call_update = (crc_transaction_from action \<noteq> es_address (ch_our_state ch1)
              \<and> balance_proof \<noteq> None \<and> ch_update_transaction ch1 = None)
        in
        if call_update then
          let expiration = cr_block_number action + ch_settle_timeout ch1 in
          bind_result (signed_or_none balance_proof) (\<lambda>signed.
          case signed of
            None \<Rightarrow> Inl AssertionError
          | Some bp \<Rightarrow>
            Inr (Some (ch1\<lparr>ch_update_transaction := Some
                   \<lparr>tx_started_block_number = Some (cr_block_number action),
                    tx_finished_block_number = None, tx_result = None\<rparr>\<rparr>), g,
                 [ContractSendChannelUpdateTransfer (cr_block_hash action) expiration bp]))
        else Inr (Some ch1, g, [])
      else Inr (Some ch, g, []))"

definition handle_channel_updated_transfer ::
  "contract_receive_update_transfer \<Rightarrow> channel \<Rightarrow> int \<Rightarrow> prng \<Rightarrow> channel_transition" where
  "handle_channel_updated_transfer action ch block_number g =
     (if ci_channel_identifier (crt_canonical_identifier action) = channel_identifier ch
      then Inr (Some (ch\<lparr>ch_update_transaction := Some \<lparr>tx_started_block_number = None,
             tx_finished_block_number = Some block_number, tx_result = Some SUCCESS\<rparr>\<rparr>), g, [])
      else Inr (Some ch, g, []))"

text \<open>Whether an initiated coop-settle matches the on-chain settlement, seen from its initiator.\<close>

definition coop_settle_matches ::
  "platform \<Rightarrow> coop_settle \<Rightarrow> int \<Rightarrow> locksroot \<Rightarrow> int \<Rightarrow> locksroot \<Rightarrow> bool" where
  "coop_settle_matches E c initiator_amount initiator_locksroot partner_amount partner_locksroot \<longleftrightarrow>
     (cs_total_withdraw_initiator c = initiator_amount
      \<and> initiator_locksroot = LOCKSROOT_OF_NO_LOCKS E)
     \<and> (cs_total_withdraw_partner c = partner_amount
      \<and> partner_locksroot = LOCKSROOT_OF_NO_LOCKS E)"

definition settle_end_state ::
  "platform \<Rightarrow> int \<Rightarrow> int \<Rightarrow> locksroot \<Rightarrow> int \<Rightarrow> locksroot \<Rightarrow> end_state \<Rightarrow> (end_state \<times> bool) result" where
  "settle_end_state E block_number initiator_amount initiator_locksroot partner_amount
       partner_locksroot es =
     (case es_initiated_coop_settle es of
        None \<Rightarrow> Inr (es, False)
      | Some c \<Rightarrow>
        if coop_settle_matches E c initiator_amount initiator_locksroot partner_amount
             partner_locksroot
        then bind_result (set_coop_settled block_number es) (\<lambda>es'. Inr (es', True))
        else Inr (es, False))"

definition handle_channel_settled ::
  "platform \<Rightarrow> contract_receive_settled \<Rightarrow> channel \<Rightarrow> prng \<Rightarrow> channel_transition" where
  "handle_channel_settled E action ch g =
     (if ci_channel_identifier (crs_canonical_identifier action) = channel_identifier ch then
        let ch1 = set_settled (cr_block_number action) ch;
            our_locksroot = crs_our_onchain_locksroot action;
            partner_locksroot = crs_partner_onchain_locksroot action;
            our_amount = crs_our_transferred_amount action;
            partner_amount = crs_partner_transferred_amount action;
            should_clear_channel = (our_locksroot = LOCKSROOT_OF_NO_LOCKS E
              \<and> partner_locksroot = LOCKSROOT_OF_NO_LOCKS E)
        in
        bind_result (settle_end_state E (cr_block_number action) our_amount our_locksroot
            partner_amount partner_locksroot (ch_our_state ch1)) (\<lambda>(our, our_match).
        bind_result (settle_end_state E (cr_block_number action) partner_amount partner_locksroot
            our_amount our_locksroot (ch_partner_state ch1)) (\<lambda>(partner, partner_match).
        let is_coop_settle = (our_match \<or> partner_match);
            partner1 = (if is_coop_settle
              then partner\<lparr>es_onchain_total_withdraw := partner_amount\<rparr> else partner);
            our1 = (if is_coop_settle
              then our\<lparr>es_onchain_total_withdraw := our_amount\<rparr> else our)
        in
        if should_clear_channel then Inr (None, g, [])
        else
          Inr (Some (ch1\<lparr>ch_our_state := our1\<lparr>es_onchain_locksroot := our_locksroot\<rparr>,
                   ch_partner_state := partner1\<lparr>es_onchain_locksroot := partner_locksroot\<rparr>\<rparr>), g,
               [ContractSendChannelBatchUnlock (cr_block_hash action) (ch_canonical_identifier ch)
                  (es_address (ch_partner_state ch))])))
      else Inr (Some ch, g, []))"

definition update_fee_schedule_after_balance_change ::
  "platform \<Rightarrow> channel \<Rightarrow> fee_config \<Rightarrow> channel result" where
  "update_fee_schedule_after_balance_change E ch config =
     (let proportional_imbalance_fee = get_proportional_imbalance_fee config (ch_token_address ch) in
      bind_result (calculate_imbalance_fees E (get_capacity ch) proportional_imbalance_fee)
        (\<lambda>imbalance_penalty.
      bind_result (mk_fee_schedule (fs_cap_fees (ch_fee_schedule ch)) (fs_flat (ch_fee_schedule ch))
          (fs_proportional (ch_fee_schedule ch)) imbalance_penalty) (\<lambda>fees.
      Inr (ch\<lparr>ch_fee_schedule := fees\<rparr>))))"

definition handle_channel_deposit ::
  "platform \<Rightarrow> contract_receive_deposit \<Rightarrow> channel \<Rightarrow> prng \<Rightarrow> channel_transition" where
  "handle_channel_deposit E action ch g =
     (let participant_address = td_participant_address (crd_deposit_transaction action);
          contract_balance = td_contract_balance (crd_deposit_transaction action);
          ch1 = (if participant_address = es_address (ch_our_state ch)
                 then map_our_state (update_contract_balance contract_balance) ch
                 else if participant_address = es_address (ch_partner_state ch)
                 then map_partner_state (update_contract_balance contract_balance) ch
                 else ch)
      in
      bind_result (update_fee_schedule_after_balance_change E ch1 (crd_fee_config action)) (\<lambda>ch2.
      Inr (Some ch2, g, [])))"

definition register_onchain_withdraw :: "int \<Rightarrow> end_state \<Rightarrow> end_state" where
  "register_onchain_withdraw total_amount es =
     (let es1 = (case map_of (es_withdraws_pending es) total_amount of
          None \<Rightarrow> es
        | Some w \<Rightarrow> es\<lparr>es_withdraws_pending := AList.delete total_amount (es_withdraws_pending es)\<rparr>)
      in es1\<lparr>es_onchain_total_withdraw := total_amount\<rparr>)"

definition handle_channel_withdraw ::
  "platform \<Rightarrow> contract_receive_withdraw \<Rightarrow> channel \<Rightarrow> prng \<Rightarrow> channel_transition" where
  "handle_channel_withdraw E action ch g =
     (if crw_participant action \<notin> {es_address (ch_our_state ch), es_address (ch_partner_state ch)}
      then Inr (Some ch, g, [])
      else
        let ch1 = (if crw_participant action = es_address (ch_our_state ch)
                   then map_our_state (register_onchain_withdraw (crw_total_withdraw action)) ch
                   else map_partner_state (register_onchain_withdraw (crw_total_withdraw action)) ch)
        in
        bind_result (update_fee_schedule_after_balance_change E ch1 (crw_fee_config action)) (\<lambda>ch2.
        Inr (Some ch2, g, [])))"

definition handle_channel_batch_unlock ::
  "platform \<Rightarrow> contract_receive_batch_unlock \<Rightarrow> channel \<Rightarrow> prng \<Rightarrow> channel_transition" where
  "handle_channel_batch_unlock E action ch g =
     (if get_status ch = STATE_SETTLED then
        let no_locks = LOCKSROOT_OF_NO_LOCKS E;
            ch1 = (if cru_sender action = es_address (ch_our_state ch)
                   then map_our_state (\<lambda>our. our\<lparr>es_onchain_locksroot := no_locks\<rparr>) ch
                   else if cru_sender action = es_address (ch_partner_state ch)
                   then map_partner_state (\<lambda>partner. partner\<lparr>es_onchain_locksroot := no_locks\<rparr>) ch
                   else ch);
            no_unlock_left_to_do = (es_onchain_locksroot (ch_our_state ch1) = no_locks
              \<and> es_onchain_locksroot (ch_partner_state ch1) = no_locks)
        in if no_unlock_left_to_do then Inr (None, g, []) else Inr (Some ch1, g, [])
      else Inr (Some ch, g, []))"

subsection \<open>Sanity check and dispatch\<close>

fun withdraws_ordered :: "bool \<Rightarrow> int \<Rightarrow> (int, pending_withdraw) dict \<Rightarrow> bool" where
  "withdraws_ordered coop previous [] = True"
| "withdraws_ordered coop previous ((k, w) # ws) =
     ((\<not> coop \<longrightarrow> pw_total_withdraw w > previous) \<and> k = pw_total_withdraw w
      \<and> withdraws_ordered coop (pw_total_withdraw w) ws)"

definition locks_synchronized :: "end_state \<Rightarrow> bool" where
  "locks_synchronized es \<longleftrightarrow>
     (\<forall>l\<in>set (dict_values (es_lockedlocks es)). encoded l \<in> set (es_pending_locks es))
     \<and> (\<forall>u\<in>set (dict_values (es_unlockedlocks es)). up_encoded u \<in> set (es_pending_locks es))
     \<and> (\<forall>u\<in>set (dict_values (es_onchain_unlockedlocks es)). up_encoded u \<in> set (es_pending_locks es))"

definition sanity_check :: "platform \<Rightarrow> channel \<Rightarrow> unit result" where
  "sanity_check E ch =
     (let our = ch_our_state ch;
          partner = ch_partner_state ch;
          coop = (es_initiated_coop_settle our \<noteq> None \<or> es_initiated_coop_settle partner \<noteq> None);
          our_balance = get_balance our partner;
          partner_balance = get_balance partner our;
          our_locked = get_amount_locked our;
          partner_locked = get_amount_locked partner;
          (our_bp_locksroot, _, _, our_bp_locked_amount) = get_current_balanceproof E our;
          (partner_bp_locksroot, _, _, partner_bp_locked_amount) = get_current_balanceproof E partner
      in
      py_assert (withdraws_ordered coop 0 (es_withdraws_pending our)) (
      py_assert (our_balance \<ge> 0) (
      py_assert (partner_balance \<ge> 0) (
      py_assert (our_balance + partner_balance = get_capacity ch) (
      py_assert (partner_locked = partner_bp_locked_amount) (
      py_assert (our_locked = our_bp_locked_amount) (
      py_assert (get_distributable E our partner + our_locked \<le> our_balance) (
      py_assert (get_distributable E partner our + partner_locked \<le> partner_balance) (
      py_assert (compute_locksroot E (es_pending_locks our) = our_bp_locksroot) (
      py_assert (compute_locksroot E (es_pending_locks partner) = partner_bp_locksroot) (
      py_assert (locks_synchronized partner) (
      py_assert (locks_synchronized our) (
      Inr ())))))))))))))"

definition handle_state_transitions ::
  "platform \<Rightarrow> channel_state_change \<Rightarrow> channel \<Rightarrow> int \<Rightarrow> block_hash \<Rightarrow> prng \<Rightarrow> channel_transition" where
  "handle_state_transitions E action ch block_number block_hash g =
     (case action of
        ActionChannelClose ci \<Rightarrow> handle_action_close ci ch block_number block_hash g
      | ActionChannelCoopSettle a \<Rightarrow> handle_action_coop_settle a ch block_number g
      | ActionChannelWithdraw a \<Rightarrow> handle_action_withdraw a ch block_number g
      | ActionChannelSetRevealTimeout a \<Rightarrow> handle_action_set_reveal_timeout a ch g
      | ReceiveWithdrawRequest a \<Rightarrow>
          handle_receive_withdraw_request E a ch block_number block_hash g
      | ReceiveWithdrawConfirmation a \<Rightarrow>
          handle_receive_withdraw_confirmation E a ch block_number block_hash g
      | ReceiveWithdrawExpired a \<Rightarrow> handle_receive_withdraw_expired a ch block_number g
      | Block a \<Rightarrow> handle_block a ch block_number g
      | ContractReceiveChannelClosed a \<Rightarrow> handle_channel_closed a ch g
      | ContractReceiveUpdateTransfer a \<Rightarrow> handle_channel_updated_transfer a ch block_number g
      | ContractReceiveChannelSettled a \<Rightarrow> handle_channel_settled E a ch g
      | ContractReceiveChannelDeposit a \<Rightarrow> handle_channel_deposit E a ch g
      | ContractReceiveChannelWithdraw a \<Rightarrow> handle_channel_withdraw E a ch g
      | ContractReceiveChannelBatchUnlock a \<Rightarrow> handle_channel_batch_unlock E a ch g
      | OtherStateChange \<Rightarrow> Inr (Some ch, g, []))"

definition state_transition ::
  "platform \<Rightarrow> channel \<Rightarrow> channel_state_change \<Rightarrow> int \<Rightarrow> block_hash \<Rightarrow> prng \<Rightarrow> channel_transition" where
  "state_transition E ch state_change block_number block_hash g =
     bind_result (handle_state_transitions E state_change ch block_number block_hash g)
       (\<lambda>(new_state, g', events).
     case new_state of
       None \<Rightarrow> Inr (None, g', events)
     | Some ch' \<Rightarrow> bind_result (sanity_check E ch') (\<lambda>_. Inr (Some ch', g', events)))"

end
