(* ===== verification/Channel_Locks.thy ===== *)
theory Channel_Locks
  imports Channel_Handlers
begin

text \<open>
  The three dictionaries of locks of a participant and its list of encoded locks implement one finite
  map from secrethashes to locks. \<open>lock_assoc\<close> is that map as an association list; this theory
  computes the effect of the mutators of \<open>channel.py\<close> on it. The well-formedness of the four fields,
  \<open>locks_wf\<close>, only depends on the multiset of entries and the multiset of pending locks.
\<close>

definition lock_assoc :: "end_state \<Rightarrow> (secrethash, lock) dict" where
  "lock_assoc es =
     es_lockedlocks es @ map (map_prod id up_lock) (es_unlockedlocks es)
     @ map (map_prod id up_lock) (es_onchain_unlockedlocks es)"

definition entry_ok :: "secrethash \<times> lock \<Rightarrow> bool" where
  "entry_ok e \<longleftrightarrow> lk_secrethash (snd e) = fst e \<and> valid_lock (snd e)"

definition locks_wf :: "end_state \<Rightarrow> bool" where
  "locks_wf es \<longleftrightarrow>
     dict_ok (lock_assoc es) \<and> list_all entry_ok (lock_assoc es)
     \<and> mset (es_pending_locks es) = mset (map (encoded \<circ> snd) (lock_assoc es))"

subsection \<open>Association lists under value maps\<close>

lemma map_of_map_prod_id: "map_of (map (map_prod id f) d) k = map_option f (map_of d k)"
  by (induction d) auto

lemma delete_map_prod_id: "AList.delete k (map (map_prod id f) d) = map (map_prod id f) (AList.delete k d)"
  by (induction d) auto

lemma delete_append: "AList.delete k (xs @ ys) = AList.delete k xs @ AList.delete k ys"
  by (induction xs) auto

lemma keys_map_prod_id [simp]: "map fst (map (map_prod id f) d) = map fst d"
  by (induction d) auto

lemma dict_mem_keys: "dict_mem k d \<longleftrightarrow> k \<in> set (map fst d)"
  by (simp add: dict_mem_def map_of_eq_None_iff)

lemma update_new_mset: "map_of d k = None \<Longrightarrow> mset (AList.update k v d) = add_mset (k, v) (mset d)"
  by (simp add: dict_update_new)

lemma delete_present_mset:
  "dict_ok d \<Longrightarrow> map_of d k = Some v \<Longrightarrow> mset d = add_mset (k, v) (mset (AList.delete k d))"
proof (induction d)
  case (Cons p d)
  obtain k' v' where p: "p = (k', v')" by (cases p)
  show ?case
  proof (cases "k' = k")
    case True
    with Cons.prems p have "map_of d k = None" by (auto simp: map_of_eq_None_iff)
    with True p Cons.prems show ?thesis by (simp add: dict_delete_absent)
  next
    case False
    with Cons p show ?thesis by simp
  qed
qed simp

subsection \<open>Lookups\<close>

lemma get_lock_assoc: "get_lock es sh = map_of (lock_assoc es) sh"
  by (auto simp: get_lock_def lock_assoc_def map_of_map_prod_id map_add_def split: option.splits)

lemma is_lock_pending_assoc: "is_lock_pending es sh \<longleftrightarrow> dict_mem sh (lock_assoc es)"
  by (auto simp: is_lock_pending_def dict_mem_def lock_assoc_def map_of_map_prod_id map_add_def
      split: option.splits)

lemma is_lock_pending_get_lock: "is_lock_pending es sh \<longleftrightarrow> get_lock es sh \<noteq> None"
  by (simp add: is_lock_pending_assoc get_lock_assoc dict_mem_def)

lemma dict_mset_map_of:
  assumes "dict_ok d" and "mset d' = mset d"
  shows "map_of d' = map_of d"
proof -
  have "mset (map fst d') = mset (map fst d)" using assms(2) by simp
  then have "distinct (map fst d')" using assms(1) by (metis distinct_count_atmost_1 set_mset_mset)
  with assms show ?thesis by (simp add: map_of_inject_set) (metis set_mset_mset)
qed

lemma get_amount_locked_assoc: "get_amount_locked es = (\<Sum>l\<leftarrow>dict_values (lock_assoc es). lk_amount l)"
  by (simp add: get_amount_locked_def get_amount_unclaimed_onchain_def lock_assoc_def
      dict_values_def comp_def)

lemma get_amount_locked_mset:
  "get_amount_locked es = sum_mset (image_mset (lk_amount \<circ> snd) (mset (lock_assoc es)))"
  by (simp add: get_amount_locked_assoc dict_values_def sum_mset_sum_list flip: mset_map)

subsection \<open>Consequences of well-formedness\<close>

lemma locks_wf_dict_ok: "locks_wf es \<Longrightarrow> dict_ok (lock_assoc es)"
  by (simp add: locks_wf_def)

lemma locks_wf_get_lock:
  assumes "locks_wf es" and "get_lock es sh = Some l"
  shows "lk_secrethash l = sh" and "valid_lock l" and "encoded l \<in> set (es_pending_locks es)"
proof -
  from assms(2) have *: "(sh, l) \<in> set (lock_assoc es)"
    by (auto simp: get_lock_assoc dest: map_of_SomeD)
  with assms(1) have "entry_ok (sh, l)" by (auto simp: locks_wf_def list_all_iff)
  then show "lk_secrethash l = sh" and "valid_lock l" by (simp_all add: entry_ok_def)
  from assms(1) have "set (es_pending_locks es) = set (map (encoded \<circ> snd) (lock_assoc es))"
    by (simp add: locks_wf_def flip: set_mset_mset)
  with * show "encoded l \<in> set (es_pending_locks es)" by force
qed

lemma locks_wf_pending_lock:
  assumes "locks_wf es" and "valid_lock l" and "encoded l \<in> set (es_pending_locks es)"
  shows "get_lock es (lk_secrethash l) = Some l"
proof -
  from assms(1) have "set (es_pending_locks es) = set (map (encoded \<circ> snd) (lock_assoc es))"
    by (simp add: locks_wf_def flip: set_mset_mset)
  with assms(3) obtain sh l' where e: "(sh, l') \<in> set (lock_assoc es)" and "encoded l' = encoded l"
    by force
  moreover from e assms(1) have "entry_ok (sh, l')" by (auto simp: locks_wf_def list_all_iff)
  ultimately have "l' = l" and "lk_secrethash l = sh"
    using assms(2) lock_codec.enc_inj by (auto simp: entry_ok_def)
  with e assms(1) show ?thesis by (simp add: get_lock_assoc locks_wf_def)
qed

lemma locks_wf_fresh:
  assumes "locks_wf es" and "valid_lock l" and "get_lock es (lk_secrethash l) = None"
  shows "encoded l \<notin> set (es_pending_locks es)"
  using locks_wf_pending_lock [OF assms(1,2)] assms(3) by auto

lemma distinct_append_notin: "distinct (xs @ ys @ zs) \<Longrightarrow> x \<in> set xs \<Longrightarrow> x \<notin> set ys"
  by auto

lemma locks_wf_keys:
  assumes "locks_wf es"
  shows "distinct (map fst (es_lockedlocks es) @ map fst (es_unlockedlocks es)
    @ map fst (es_onchain_unlockedlocks es))"
  using locks_wf_dict_ok [OF assms] by (simp add: lock_assoc_def)

lemma locks_wf_dict_ok_locked: "locks_wf es \<Longrightarrow> dict_ok (es_lockedlocks es)"
  using locks_wf_keys [of es] by (simp only: distinct_append)

lemma locks_wf_disjoint:
  assumes "locks_wf es" and "map_of (es_lockedlocks es) sh = Some l"
  shows "map_of (es_unlockedlocks es) sh = None"
proof -
  from assms(2) have "dict_mem sh (es_lockedlocks es)" by (simp add: dict_mem_def)
  then have "sh \<in> set (map fst (es_lockedlocks es))" by (simp only: dict_mem_keys)
  then have "sh \<notin> set (map fst (es_unlockedlocks es))"
    by (rule distinct_append_notin [OF locks_wf_keys [OF assms(1)]])
  then have "\<not> dict_mem sh (es_unlockedlocks es)" by (simp only: dict_mem_keys not_False_eq_True)
  then show ?thesis by (simp add: dict_mem_def)
qed

lemma amount_locked_nonneg:
  assumes "locks_wf es" shows "0 \<le> get_amount_locked es"
  unfolding get_amount_locked_assoc
  using assms by (auto simp: locks_wf_def list_all_iff entry_ok_def valid_lock_def dict_values_def
      intro!: sum_list_nonneg)

lemma locks_wf_no_pending:
  assumes "locks_wf es" and "es_pending_locks es = []"
  shows "lock_assoc es = []" and "get_amount_locked es = 0"
proof -
  from assms show "lock_assoc es = []" by (simp add: locks_wf_def)
  then show "get_amount_locked es = 0" by (simp add: get_amount_locked_assoc)
qed

lemma locks_wf_length:
  assumes "locks_wf es" shows "length (es_pending_locks es) = length (lock_assoc es)"
proof -
  from assms have "size (mset (es_pending_locks es)) = size (mset (map (encoded \<circ> snd) (lock_assoc es)))"
    by (simp add: locks_wf_def)
  then show ?thesis by simp
qed

lemma distinct_pending_locks:
  assumes "locks_wf es" shows "distinct (es_pending_locks es)"
proof -
  have "inj_on (encoded \<circ> snd) (set (lock_assoc es))"
  proof (rule inj_onI)
    fix p q assume p: "p \<in> set (lock_assoc es)" and q: "q \<in> set (lock_assoc es)"
      and "(encoded \<circ> snd) p = (encoded \<circ> snd) q"
    moreover from p q assms have "entry_ok p" "entry_ok q" by (auto simp: locks_wf_def list_all_iff)
    ultimately show "p = q"
      by (metis comp_apply entry_ok_def lock_codec.enc_inj prod.collapse)
  qed
  with assms have "distinct (map (encoded \<circ> snd) (lock_assoc es))"
    by (simp add: locks_wf_def distinct_map)
  then show ?thesis
    using assms by (metis locks_wf_def mset_eq_imp_distinct_iff)
qed

lemma locks_synchronized_if_wf:
  assumes "locks_wf es" shows "locks_synchronized es"
proof -
  from assms have "set (es_pending_locks es) = set (map (encoded \<circ> snd) (lock_assoc es))"
    by (simp add: locks_wf_def flip: set_mset_mset)
  then show ?thesis
    by (auto simp: locks_synchronized_def lock_assoc_def dict_values_def up_encoded_def image_Un
        image_image)
qed

subsection \<open>Operations on the map of locks\<close>

lemma locks_wf_cong:
  assumes "locks_wf es"
    and "mset (lock_assoc es') = mset (lock_assoc es)"
    and "mset (es_pending_locks es') = mset (es_pending_locks es)"
  shows "locks_wf es'"
proof -
  from assms(2) have "distinct (map fst (lock_assoc es')) = distinct (map fst (lock_assoc es))"
    by (intro mset_eq_imp_distinct_iff) (metis mset_map)
  moreover from assms(2) have "set (lock_assoc es') = set (lock_assoc es)" by (rule mset_eq_setD)
  moreover from assms(2) have "mset (map (encoded \<circ> snd) (lock_assoc es'))
      = mset (map (encoded \<circ> snd) (lock_assoc es))" by (metis mset_map)
  ultimately show ?thesis
    using assms by (simp add: locks_wf_def list_all_iff)
qed

lemma lock_assoc_add:
  assumes "get_lock es sh = None"
  shows "mset (lock_assoc (es\<lparr>es_lockedlocks := AList.update sh l (es_lockedlocks es)\<rparr>))
       = add_mset (sh, l) (mset (lock_assoc es))"
proof -
  from assms have "map_of (es_lockedlocks es) sh = None"
    by (auto simp: get_lock_def split: option.splits)
  then show ?thesis by (simp add: lock_assoc_def dict_update_new)
qed

lemma lock_assoc_del_unclaimed:
  assumes "\<not> dict_mem sh (es_onchain_unlockedlocks es)"
  shows "lock_assoc (del_unclaimed_lock sh es) = AList.delete sh (lock_assoc es)"
  using assms
  by (auto simp: lock_assoc_def del_unclaimed_lock_def delete_append delete_map_prod_id dict_mem_def
      dict_delete_absent Let_def)

lemma lock_assoc_del_lock:
  assumes "del_lock sh es = Inr es'"
  shows "lock_assoc es' = AList.delete sh (lock_assoc es)"
  using assms
  by (auto simp: lock_assoc_def del_lock_def del_unclaimed_lock_def delete_append delete_map_prod_id
      dict_mem_def dict_delete_absent Let_def result_simps split: if_splits)

lemma get_lock_add:
  assumes "get_lock es sh = None"
  shows "get_lock (es\<lparr>es_lockedlocks := AList.update sh l (es_lockedlocks es)\<rparr>)
       = (get_lock es)(sh \<mapsto> l)"
proof
  fix k
  show "get_lock (es\<lparr>es_lockedlocks := AList.update sh l (es_lockedlocks es)\<rparr>) k
      = ((get_lock es)(sh \<mapsto> l)) k"
    using assms by (auto simp: get_lock_def pydict.get_set split: option.splits)
qed

lemma get_lock_del_lock:
  assumes "del_lock sh es = Inr es'"
  shows "get_lock es' = (get_lock es)(sh := None)"
  using lock_assoc_del_lock [OF assms] by (auto simp: get_lock_assoc pydict.get_del)

lemma get_lock_del_unclaimed:
  assumes "\<not> dict_mem sh (es_onchain_unlockedlocks es)"
  shows "get_lock (del_unclaimed_lock sh es) = (get_lock es)(sh := None)"
  using lock_assoc_del_unclaimed [OF assms] by (auto simp: get_lock_assoc pydict.get_del)

text \<open>Field-wise behaviour of the deletions: only the lock dictionaries change.\<close>

lemma del_unclaimed_lock_fields [end_simps]:
  "es_address (del_unclaimed_lock sh es) = es_address es"
  "es_contract_balance (del_unclaimed_lock sh es) = es_contract_balance es"
  "es_onchain_total_withdraw (del_unclaimed_lock sh es) = es_onchain_total_withdraw es"
  "es_withdraws_pending (del_unclaimed_lock sh es) = es_withdraws_pending es"
  "es_initiated_coop_settle (del_unclaimed_lock sh es) = es_initiated_coop_settle es"
  "es_onchain_unlockedlocks (del_unclaimed_lock sh es) = es_onchain_unlockedlocks es"
  "es_balance_proof (del_unclaimed_lock sh es) = es_balance_proof es"
  "es_pending_locks (del_unclaimed_lock sh es) = es_pending_locks es"
  "es_onchain_locksroot (del_unclaimed_lock sh es) = es_onchain_locksroot es"
  "es_nonce (del_unclaimed_lock sh es) = es_nonce es"
  by (simp_all add: del_unclaimed_lock_def Let_def)

lemma del_lock_eq_Inr:
  "del_lock sh es = Inr es' \<longleftrightarrow>
     is_lock_pending es sh \<and>
     es' = (let es1 = del_unclaimed_lock sh es in
            if dict_mem sh (es_onchain_unlockedlocks es1)
            then es1\<lparr>es_onchain_unlockedlocks := AList.delete sh (es_onchain_unlockedlocks es1)\<rparr>
            else es1)"
  by (auto simp: del_lock_def result_simps Let_def)

lemma del_lock_fields:
  assumes "del_lock sh es = Inr es'"
  shows "es_address es' = es_address es"
    and "es_contract_balance es' = es_contract_balance es"
    and "es_onchain_total_withdraw es' = es_onchain_total_withdraw es"
    and "es_withdraws_pending es' = es_withdraws_pending es"
    and "es_initiated_coop_settle es' = es_initiated_coop_settle es"
    and "es_balance_proof es' = es_balance_proof es"
    and "es_pending_locks es' = es_pending_locks es"
    and "es_onchain_locksroot es' = es_onchain_locksroot es"
    and "es_nonce es' = es_nonce es"
  using assms by (auto simp: del_lock_eq_Inr Let_def end_simps)

lemma del_lock_total: "is_lock_pending es sh \<Longrightarrow> \<exists>es'. del_lock sh es = Inr es'"
  by (simp add: del_lock_eq_Inr)

text \<open>Removing a pending lock from the map and its encoding from the list keeps well-formedness.\<close>

lemma locks_wf_remove:
  assumes wf: "locks_wf es" and l: "get_lock es sh = Some l"
    and assoc: "lock_assoc es' = AList.delete sh (lock_assoc es)"
    and pending: "es_pending_locks es' = remove1 (encoded l) (es_pending_locks es)"
  shows "locks_wf es'"
proof -
  from wf l have m: "mset (lock_assoc es) = add_mset (sh, l) (mset (lock_assoc es'))"
    unfolding assoc by (intro delete_present_mset) (simp_all add: locks_wf_def get_lock_assoc)
  from wf have "mset (es_pending_locks es) = image_mset (encoded \<circ> snd) (mset (lock_assoc es))"
    by (simp add: locks_wf_def)
  then have "mset (es_pending_locks es') = mset (map (encoded \<circ> snd) (lock_assoc es'))"
    by (simp add: pending m)
  moreover from wf have "dict_ok (lock_assoc es')" by (simp add: assoc locks_wf_def dict_ok_delete)
  moreover from m have "set (lock_assoc es') \<subseteq> set (lock_assoc es)"
    by (metis set_mset_mset set_mset_add_mset_insert subset_insertI)
  ultimately show ?thesis using wf by (auto simp: locks_wf_def list_all_iff)
qed

lemma amount_locked_remove:
  assumes wf: "locks_wf es" and l: "get_lock es sh = Some l"
    and assoc: "lock_assoc es' = AList.delete sh (lock_assoc es)"
  shows "get_amount_locked es' = get_amount_locked es - lk_amount l"
  unfolding get_amount_locked_assoc assoc
  using wf l by (intro pydict.sum_del) (simp_all add: locks_wf_def get_lock_assoc)

lemma locks_wf_insert:
  assumes wf: "locks_wf es" and fresh: "get_lock es (lk_secrethash l) = None" and "valid_lock l"
    and assoc: "mset (lock_assoc es') = add_mset (lk_secrethash l, l) (mset (lock_assoc es))"
    and pending: "es_pending_locks es' = es_pending_locks es @ [encoded l]"
  shows "locks_wf es'"
proof -
  have set': "set (lock_assoc es') = insert (lk_secrethash l, l) (set (lock_assoc es))"
    using assoc by (metis set_mset_mset set_mset_add_mset_insert)
  have "mset (map fst (lock_assoc es')) = mset (lk_secrethash l # map fst (lock_assoc es))"
    by (simp add: assoc)
  then have "distinct (map fst (lock_assoc es')) = distinct (lk_secrethash l # map fst (lock_assoc es))"
    by (rule mset_eq_imp_distinct_iff)
  with wf fresh have "dict_ok (lock_assoc es')"
    by (simp add: locks_wf_def get_lock_assoc map_of_eq_None_iff)
  moreover have "mset (es_pending_locks es') = mset (map (encoded \<circ> snd) (lock_assoc es'))"
    using wf by (simp add: locks_wf_def pending assoc)
  ultimately show ?thesis
    using wf set' \<open>valid_lock l\<close> by (simp add: locks_wf_def list_all_iff entry_ok_def)
qed

lemma amount_locked_insert:
  assumes "mset (lock_assoc es') = add_mset (sh, l) (mset (lock_assoc es))"
  shows "get_amount_locked es' = get_amount_locked es + lk_amount l"
  by (simp add: get_amount_locked_mset assms)

text \<open>Only the lock fields matter.\<close>

lemma lock_assoc_update [end_simps]:
  "lock_assoc (es\<lparr>es_balance_proof := b\<rparr>) = lock_assoc es"
  "lock_assoc (es\<lparr>es_nonce := n\<rparr>) = lock_assoc es"
  "lock_assoc (es\<lparr>es_pending_locks := p\<rparr>) = lock_assoc es"
  "lock_assoc (es\<lparr>es_withdraws_pending := w\<rparr>) = lock_assoc es"
  "lock_assoc (es\<lparr>es_withdraws_expired := x\<rparr>) = lock_assoc es"
  "lock_assoc (es\<lparr>es_initiated_coop_settle := c\<rparr>) = lock_assoc es"
  "lock_assoc (es\<lparr>es_contract_balance := cb\<rparr>) = lock_assoc es"
  "lock_assoc (es\<lparr>es_onchain_total_withdraw := t\<rparr>) = lock_assoc es"
  "lock_assoc (es\<lparr>es_onchain_locksroot := r\<rparr>) = lock_assoc es"
  by (simp_all add: lock_assoc_def)

lemmas amount_locked_update [end_simps] =
  lock_assoc_update [THEN arg_cong [of _ _ "\<lambda>a. (\<Sum>l\<leftarrow>dict_values a. lk_amount l)"],
    folded get_amount_locked_assoc]

lemmas get_lock_update [end_simps] =
  lock_assoc_update [THEN arg_cong [of _ _ map_of], folded get_lock_assoc]

subsection \<open>Registering secrets\<close>

lemma register_secret_assoc:
  assumes "locks_wf es"
  shows "mset (lock_assoc (register_secret_endstate secret sh es)) = mset (lock_assoc es)"
proof (cases "map_of (es_lockedlocks es) sh")
  case None
  then show ?thesis by (simp add: register_secret_endstate_def)
next
  case (Some l)
  with assms have ok: "dict_ok (es_lockedlocks es)" and "map_of (es_unlockedlocks es) sh = None"
    by (simp_all add: locks_wf_dict_ok_locked locks_wf_disjoint)
  with Some delete_present_mset [OF ok Some] show ?thesis
    by (simp add: register_secret_endstate_def lock_assoc_def dict_update_new)
qed

lemma register_onchain_secret_eq_Inr:
  assumes "locks_wf es"
    and "register_onchain_secret_endstate secret sh n True es = Inr es'"
  shows "mset (lock_assoc es') = mset (lock_assoc es)"
    and "es' = es\<lparr>es_lockedlocks := es_lockedlocks es', es_unlockedlocks := es_unlockedlocks es',
           es_onchain_unlockedlocks := es_onchain_unlockedlocks es'\<rparr>"
proof -
  let ?lock = "case map_of (es_unlockedlocks es) sh of
      Some u \<Rightarrow> Some (up_lock u) | None \<Rightarrow> map_of (es_lockedlocks es) sh"
  have "mset (lock_assoc es') = mset (lock_assoc es) \<and>
    es' = es\<lparr>es_lockedlocks := es_lockedlocks es', es_unlockedlocks := es_unlockedlocks es',
           es_onchain_unlockedlocks := es_onchain_unlockedlocks es'\<rparr>"
  proof (cases "?lock = None \<or> (\<exists>l. ?lock = Some l \<and> lk_expiration l < n)")
    case True
    with assms(2) have "es' = es"
      by (auto simp: register_onchain_secret_endstate_def Let_def split: option.splits)
    then show ?thesis by simp
  next
    case False
    then obtain l where l: "?lock = Some l" and "\<not> lk_expiration l < n" by auto
    with assms(2) obtain es1 where d: "del_lock sh es = Inr es1"
      and es': "es' = es1\<lparr>es_onchain_unlockedlocks :=
         AList.update sh \<lparr>up_lock = l, up_secret = secret\<rparr> (es_onchain_unlockedlocks es1)\<rparr>"
      by (auto simp: register_onchain_secret_endstate_def Let_def result_simps)
    have "lock_assoc es1 = AList.delete sh (lock_assoc es)" by (rule lock_assoc_del_lock [OF d])
    moreover have "map_of (lock_assoc es) sh = Some l"
    proof (cases "map_of (es_lockedlocks es) sh")
      case None
      with l show ?thesis
        by (auto simp: get_lock_def get_lock_assoc [symmetric] split: option.splits)
    next
      case (Some l')
      with assms(1) have "map_of (es_unlockedlocks es) sh = None" by (rule locks_wf_disjoint)
      with l Some show ?thesis by (simp add: get_lock_def get_lock_assoc [symmetric])
    qed
    ultimately have m: "mset (lock_assoc es) = add_mset (sh, l) (mset (lock_assoc es1))"
      using delete_present_mset [OF locks_wf_dict_ok [OF assms(1)]] by simp
    have "map_of (es_onchain_unlockedlocks es1) sh = None"
      using d by (auto simp: del_lock_eq_Inr Let_def dict_mem_def pydict.get_del split: if_splits)
    then have 1: "mset (lock_assoc es') = mset (lock_assoc es)"
      by (simp add: es' m) (simp add: lock_assoc_def dict_update_new)
    have "es1\<lparr>es_onchain_unlockedlocks := x\<rparr> = es\<lparr>es_lockedlocks := es_lockedlocks es1,
        es_unlockedlocks := es_unlockedlocks es1, es_onchain_unlockedlocks := x\<rparr>" for x
      using d by (auto simp: del_lock_eq_Inr del_unclaimed_lock_def Let_def)
    then have 2: "es' = es\<lparr>es_lockedlocks := es_lockedlocks es',
        es_unlockedlocks := es_unlockedlocks es',
        es_onchain_unlockedlocks := es_onchain_unlockedlocks es'\<rparr>"
      unfolding es' by simp
    from 1 2 show ?thesis by (rule conjI)
  qed
  then show "mset (lock_assoc es') = mset (lock_assoc es)"
    and "es' = es\<lparr>es_lockedlocks := es_lockedlocks es', es_unlockedlocks := es_unlockedlocks es',
           es_onchain_unlockedlocks := es_onchain_unlockedlocks es'\<rparr>" by blast+
qed

lemma register_onchain_secret_total:
  "\<exists>es'. register_onchain_secret_endstate secret sh n True es = Inr es'"
proof (cases "is_lock_pending es sh")
  case True
  then obtain es1 where "del_lock sh es = Inr es1" using del_lock_total by blast
  then show ?thesis
    by (simp add: register_onchain_secret_endstate_def Let_def split: option.split)
next
  case False
  then show ?thesis
    by (simp add: register_onchain_secret_endstate_def is_lock_pending_def dict_mem_def)
qed

end
