(* ===== verification/Channel_Ledger.thy ===== *)
theory Channel_Ledger
  imports Channel_Locks
begin

text \<open>
  What one balance-proof message does to the side of the channel it belongs to. Sending and receiving
  a locked transfer both amount to \<open>apply_lock\<close> on the sender's side, an unlock to \<open>apply_unlock\<close> and
  a lock expiration to \<open>apply_expiry\<close>; the inversion lemmas of this theory extract from a successful
  call of the source's functions which of these was applied and which conditions had been checked.
  The abstract ledger at the end is the contract: a finite map of locks, a transferred amount and a
  nonce.
\<close>

subsection \<open>The updates of one side\<close>

definition apply_lock :: "balance_proof_state \<Rightarrow> lock \<Rightarrow> end_state \<Rightarrow> end_state" where
  "apply_lock bp l es = es\<lparr>
     es_balance_proof := Some bp,
     es_nonce := bp_nonce (bp_base bp),
     es_pending_locks := es_pending_locks es @ [encoded l],
     es_lockedlocks := AList.update (lk_secrethash l) l (es_lockedlocks es)\<rparr>"

definition apply_removal :: "balance_proof_state \<Rightarrow> lock \<Rightarrow> end_state \<Rightarrow> end_state" where
  "apply_removal bp l es = es\<lparr>
     es_balance_proof := Some bp,
     es_nonce := bp_nonce (bp_base bp),
     es_pending_locks := remove1 (encoded l) (es_pending_locks es)\<rparr>"

lemma bp_base_truncate [simp]:
  "bp_nonce (balance_proof.truncate s) = bp_nonce s"
  "bp_transferred_amount (balance_proof.truncate s) = bp_transferred_amount s"
  "bp_locked_amount (balance_proof.truncate s) = bp_locked_amount s"
  "bp_locksroot (balance_proof.truncate s) = bp_locksroot s"
  "bp_canonical_identifier (balance_proof.truncate s) = bp_canonical_identifier s"
  "bp_balance_hash (balance_proof.truncate s) = bp_balance_hash s"
  by (simp_all add: balance_proof.truncate_def)

lemma current_balanceproof_wf:
  assumes "locks_wf es" and "es_balance_proof es = None \<Longrightarrow> es_pending_locks es = []"
  shows "\<exists>r n. get_current_balanceproof E es = (r, n, transferred_amount es, get_amount_locked es)"
  using assms locks_wf_no_pending(2)
  by (cases "es_balance_proof es")
     (auto simp: get_current_balanceproof_def transferred_amount_def)

text \<open>The balance proof that a step of the protocol must produce.\<close>

definition bp_continues ::
  "platform \<Rightarrow> end_state \<Rightarrow> balance_proof \<Rightarrow> int \<Rightarrow> int \<Rightarrow> bytes list \<Rightarrow> bool" where
  "bp_continues E es bp transferred locked pending \<longleftrightarrow>
     bp_nonce bp = es_nonce es + 1 \<and> bp_transferred_amount bp = transferred
     \<and> bp_locked_amount bp = locked \<and> bp_locksroot bp = compute_locksroot E pending"

subsection \<open>Balance proofs created by this node\<close>

lemma mk_balance_proof_unsigned_eq_Inr:
  "mk_balance_proof_unsigned E n t k r ci = Inr bp \<longleftrightarrow>
     0 < n \<and> n \<le> UINT64_MAX \<and> 0 \<le> t \<and> t \<le> UINT256_MAX \<and> length r = 32 \<and> ci_valid ci \<and>
     (\<exists>h. hash_balance_data E t k r = Inr h \<and>
       bp = \<lparr>bp_nonce = n, bp_transferred_amount = t, bp_locked_amount = k, bp_locksroot = r,
             bp_canonical_identifier = ci, bp_balance_hash = h\<rparr>)"
  unfolding mk_balance_proof_unsigned_def
  by (simp only: result_simps) (auto simp: not_le not_less)

lemma send_lockedtransferE:
  assumes "send_lockedtransfer E ch initiator target amount mid pid expiration secret sh routes md pmd
    = Inr (ch', ev)"
  obtains l bp where
    "l = \<lparr>lk_amount = amount, lk_expiration = expiration, lk_secrethash = sh\<rparr>" "valid_lock l"
    "amount \<le> get_distributable E (ch_our_state ch) (ch_partner_state ch)"
    "get_status ch = STATE_OPENED"
    "encoded l \<notin> set (es_pending_locks (ch_our_state ch))"
    "transferred_amount (ch_our_state ch) + amount \<le> UINT256_MAX"
    "mk_balance_proof_unsigned E (es_nonce (ch_our_state ch) + 1)
       (transferred_amount (ch_our_state ch)) (get_amount_locked (ch_our_state ch) + amount)
       (compute_locksroot E (es_pending_locks (ch_our_state ch) @ [encoded l]))
       (ch_canonical_identifier ch) = Inr bp"
    "bp_continues E (ch_our_state ch) bp (transferred_amount (ch_our_state ch))
       (get_amount_locked (ch_our_state ch) + amount)
       (es_pending_locks (ch_our_state ch) @ [encoded l])"
    "bp_locksroot bp \<noteq> LOCKSROOT_OF_NO_LOCKS E"
    "ch' = map_our_state (apply_lock (BPUnsigned bp) l) ch"
    "lt_lock (slt_transfer ev) = l" "ltu_balance_proof (slt_transfer ev) = bp"
    "lt_secret (slt_transfer ev) = secret"
    "mh_recipient (slt_header ev) = es_address (ch_partner_state ch)"
    "mh_message_identifier (slt_header ev) = mid"
proof -
  let ?our = "ch_our_state ch"
  from assms obtain ev' p where
    c: "create_sendlockedtransfer E ch initiator target amount mid pid expiration secret sh routes
      md pmd = Inr (ev', p)" and
    ev: "ev = ev'" and ch': "ch' = map_our_state (\<lambda>our. our\<lparr>
        es_balance_proof := Some (BPUnsigned (ltu_balance_proof (slt_transfer ev))),
        es_nonce := bp_nonce (ltu_balance_proof (slt_transfer ev)), es_pending_locks := p,
        es_lockedlocks := AList.update (lk_secrethash (lt_lock (slt_transfer ev)))
          (lt_lock (slt_transfer ev)) (es_lockedlocks our)\<rparr>) ch"
    unfolding send_lockedtransfer_def by (auto simp: result_simps Let_def)
  have t: "(case es_balance_proof ?our of None \<Rightarrow> 0 | Some bp \<Rightarrow> bp_transferred_amount (bp_base bp))
      = transferred_amount ?our"
    by (simp add: transferred_amount_def)
  from c obtain l where l: "mk_hash_time_lock amount expiration sh = Inr l"
    and d: "amount \<le> get_distributable E ?our (ch_partner_state ch)"
    and st: "get_status ch = STATE_OPENED"
    and nin: "encoded l \<notin> set (es_pending_locks ?our)"
    unfolding create_sendlockedtransfer_def compute_locks_with_def
    by (auto simp: result_simps Let_def split: if_splits)
  from c l d st nin obtain bp where
    bp: "mk_balance_proof_unsigned E (get_next_nonce ?our) (transferred_amount ?our)
         (get_amount_locked ?our + amount)
         (compute_locksroot E (es_pending_locks ?our @ [encoded l])) (ch_canonical_identifier ch) = Inr bp"
    and o: "transferred_amount ?our + amount \<le> UINT256_MAX"
    and p: "p = es_pending_locks ?our @ [encoded l]"
    and lr: "bp_locksroot bp \<noteq> LOCKSROOT_OF_NO_LOCKS E"
    and f: "lt_lock (slt_transfer ev) = l" "ltu_balance_proof (slt_transfer ev) = bp"
      "lt_secret (slt_transfer ev) = secret"
      "mh_recipient (slt_header ev) = es_address (ch_partner_state ch)"
      "mh_message_identifier (slt_header ev) = mid"
    unfolding create_sendlockedtransfer_def compute_locks_with_def ev
    by (auto simp: result_simps Let_def mk_locked_transfer_unsigned_def header_def t)
  show thesis
  proof (rule that)
    show "ch' = map_our_state (apply_lock (BPUnsigned bp) l) ch"
      using ch' p f by (simp add: apply_lock_def)
    show "bp_continues E ?our bp (transferred_amount ?our) (get_amount_locked ?our + amount)
       (es_pending_locks ?our @ [encoded l])"
      using bp by (auto simp: bp_continues_def mk_balance_proof_unsigned_eq_Inr get_next_nonce_def)
  qed (use l d st nin o bp f lr in \<open>auto simp: mk_hash_time_lock_eq_Inr get_next_nonce_def\<close>)
qed

lemma send_unlockE:
  assumes "send_unlock E ch mid pid secret sh block_number md = Inr (ch', u)"
  obtains l bp our_bp our' where
    "get_lock (ch_our_state ch) sh = Some l"
    "is_lock_pending (ch_our_state ch) (lk_secrethash l)"
    "get_status ch = STATE_OPENED"
    "\<not> soe_ok (is_lock_expired (ch_our_state ch) l block_number (lk_expiration l))"
    "es_balance_proof (ch_our_state ch) = Some our_bp"
    "encoded l \<in> set (es_pending_locks (ch_our_state ch))"
    "mk_balance_proof_unsigned E (es_nonce (ch_our_state ch) + 1)
       (transferred_amount (ch_our_state ch) + lk_amount l)
       (get_amount_locked (ch_our_state ch) - lk_amount l)
       (compute_locksroot E (remove1 (encoded l) (es_pending_locks (ch_our_state ch))))
       (ch_canonical_identifier ch) = Inr bp"
    "bp_continues E (ch_our_state ch) bp (transferred_amount (ch_our_state ch) + lk_amount l)
       (get_amount_locked (ch_our_state ch) - lk_amount l)
       (remove1 (encoded l) (es_pending_locks (ch_our_state ch)))"
    "del_lock (lk_secrethash l) (apply_removal (BPUnsigned bp) l (ch_our_state ch)) = Inr our'"
    "ch' = ch\<lparr>ch_our_state := our'\<rparr>"
    "su_balance_proof u = bp" "su_secret u = secret" "su_secrethash u = sha256 E secret"
    "su_header u = header (es_address (ch_partner_state ch)) md (ch_canonical_identifier ch) mid"
proof -
  let ?our = "ch_our_state ch"
  from assms obtain l ch1 p our' where l: "get_lock ?our sh = Some l"
    and c: "create_unlock E ch mid pid secret l block_number md = Inr (ch1, u, p)"
    and d: "del_lock (lk_secrethash l) ((ch_our_state ch1)\<lparr>
          es_balance_proof := Some (BPUnsigned (su_balance_proof u)), es_pending_locks := p\<rparr>) = Inr our'"
    and ch': "ch' = ch1\<lparr>ch_our_state := our'\<rparr>"
    unfolding send_unlock_def by (auto simp: result_simps split: option.splits)
  from c obtain our_bp where our_bp: "es_balance_proof ?our = Some our_bp"
    and checks: "is_lock_pending ?our (lk_secrethash l)" "get_status ch = STATE_OPENED"
      "\<not> soe_ok (is_lock_expired ?our l block_number (lk_expiration l))"
      "encoded l \<in> set (es_pending_locks ?our)"
    unfolding create_unlock_def compute_locks_without_def
    by (auto simp: result_simps Let_def split: option.splits if_splits)
  then have t: "lk_amount l + bp_transferred_amount (bp_base our_bp)
      = transferred_amount ?our + lk_amount l"
    by (simp add: transferred_amount_def)
  from c our_bp checks obtain bp where
    bp: "mk_balance_proof_unsigned E (es_nonce ?our + 1) (transferred_amount ?our + lk_amount l)
       (get_amount_locked ?our - lk_amount l)
       (compute_locksroot E (remove1 (encoded l) (es_pending_locks ?our)))
       (ch_canonical_identifier ch) = Inr bp"
    and ch1: "ch1 = map_our_state (\<lambda>our. our\<lparr>es_nonce := get_next_nonce ?our\<rparr>) ch"
    and p: "p = remove1 (encoded l) (es_pending_locks ?our)"
    and u: "u = mk_send_unlock E (header (es_address (ch_partner_state ch)) md
        (ch_canonical_identifier ch) mid) pid (ch_token_address ch) bp secret"
    unfolding create_unlock_def compute_locks_without_def
    by (auto simp: result_simps Let_def t get_next_nonce_def)
  have cont: "bp_continues E ?our bp (transferred_amount ?our + lk_amount l)
       (get_amount_locked ?our - lk_amount l) (remove1 (encoded l) (es_pending_locks ?our))"
    using bp by (auto simp: bp_continues_def mk_balance_proof_unsigned_eq_Inr)
  then have "(ch_our_state ch1)\<lparr>es_balance_proof := Some (BPUnsigned (su_balance_proof u)),
      es_pending_locks := p\<rparr> = apply_removal (BPUnsigned bp) l ?our"
    by (simp add: apply_removal_def ch1 p u mk_send_unlock_def bp_continues_def get_next_nonce_def)
  with d have "del_lock (lk_secrethash l) (apply_removal (BPUnsigned bp) l ?our) = Inr our'" by simp
  moreover have "ch' = ch\<lparr>ch_our_state := our'\<rparr>" by (simp add: ch' ch1)
  ultimately show thesis
    by (rule that [OF l checks(1-3) our_bp checks(4) bp cont]) (simp_all add: u mk_send_unlock_def)
qed

lemma send_lock_expiredE:
  assumes "send_lock_expired E ch l g md = Inr (ch', g', [ev])"
  obtains bp our_bp where
    "get_status ch = STATE_OPENED"
    "es_balance_proof (ch_our_state ch) = Some our_bp"
    "encoded l \<in> set (es_pending_locks (ch_our_state ch))"
    "mk_balance_proof_unsigned E (es_nonce (ch_our_state ch) + 1)
       (transferred_amount (ch_our_state ch)) (get_amount_locked (ch_our_state ch) - lk_amount l)
       (compute_locksroot E (remove1 (encoded l) (es_pending_locks (ch_our_state ch))))
       (ch_canonical_identifier ch) = Inr bp"
    "bp_continues E (ch_our_state ch) bp (transferred_amount (ch_our_state ch))
       (get_amount_locked (ch_our_state ch) - lk_amount l)
       (remove1 (encoded l) (es_pending_locks (ch_our_state ch)))"
    "ch' = map_our_state (\<lambda>our. del_unclaimed_lock (lk_secrethash l)
       (apply_removal (BPUnsigned bp) l our)) ch"
    "sle_balance_proof ev = bp" "sle_secrethash ev = lk_secrethash l"
proof -
  let ?our = "ch_our_state ch"
  from assms obtain p where c: "create_sendexpiredlock E ?our l g (ch_canonical_identifier ch)
        (es_address (ch_partner_state ch)) md = Inr (Some (ev, p), g')"
    and st: "get_status ch = STATE_OPENED"
    and ch': "ch' = map_our_state (\<lambda>our. del_unclaimed_lock (lk_secrethash l) (our\<lparr>
        es_pending_locks := p, es_balance_proof := Some (BPUnsigned (sle_balance_proof ev)),
        es_nonce := bp_nonce (sle_balance_proof ev)\<rparr>)) ch"
    unfolding send_lock_expired_def by (auto simp: result_simps split: option.splits)
  from c obtain our_bp where our_bp: "es_balance_proof ?our = Some our_bp"
    and enc: "encoded l \<in> set (es_pending_locks ?our)"
    unfolding create_sendexpiredlock_def compute_locks_without_def
    by (auto simp: result_simps Let_def split: option.splits if_splits)
  have t: "bp_transferred_amount (bp_base our_bp) = transferred_amount ?our"
    by (simp add: transferred_amount_def our_bp)
  obtain mid g1 where "message_identifier_from_prng g = (mid, g1)" by (cases "message_identifier_from_prng g")
  with c enc our_bp obtain bp where
    bp: "mk_balance_proof_unsigned E (es_nonce ?our + 1) (transferred_amount ?our)
      (get_amount_locked ?our - lk_amount l)
      (compute_locksroot E (remove1 (encoded l) (es_pending_locks ?our))) (ch_canonical_identifier ch)
      = Inr bp"
    and p: "p = remove1 (encoded l) (es_pending_locks ?our)"
    and ev: "sle_balance_proof ev = bp" "sle_secrethash ev = lk_secrethash l"
    unfolding create_sendexpiredlock_def compute_locks_without_def
    by (auto simp: result_simps Let_def t get_next_nonce_def)
  show thesis
  proof (rule that)
    show "bp_continues E ?our bp (transferred_amount ?our) (get_amount_locked ?our - lk_amount l)
       (remove1 (encoded l) (es_pending_locks ?our))"
      using bp by (auto simp: bp_continues_def mk_balance_proof_unsigned_eq_Inr)
    show "ch' = map_our_state (\<lambda>our. del_unclaimed_lock (lk_secrethash l)
       (apply_removal (BPUnsigned bp) l our)) ch"
    proof -
      have c: "our\<lparr>es_pending_locks := q, es_balance_proof := b, es_nonce := n\<rparr>
          = our\<lparr>es_balance_proof := b, es_nonce := n, es_pending_locks := q\<rparr>"
        for our q b n by simp
      show ?thesis unfolding ch' apply_removal_def c by (simp add: p ev)
    qed
  qed (use st our_bp enc bp ev in auto)
qed

subsection \<open>Balance proofs received from the partner\<close>

lemma soe_ok_iff: "soe_ok r \<longleftrightarrow> r = []"
  by (simp add: soe_ok_def)

lemma canonical_identifier_eq:
  "(ci :: canonical_identifier) = ci' \<longleftrightarrow>
     ci_channel_identifier ci = ci_channel_identifier ci'
     \<and> ci_token_network_address ci = ci_token_network_address ci'
     \<and> ci_chain_identifier ci = ci_chain_identifier ci'"
  by (auto intro: canonical_identifier.equality)

lemma usable_onchain_iff:
  "is_balance_proof_usable_onchain E bp ch s = Inr [] \<longleftrightarrow>
     is_valid_balanceproof_signature E bp (es_address s) = Inr []
     \<and> get_status ch = STATE_OPENED
     \<and> bp_canonical_identifier bp = ch_canonical_identifier ch
     \<and> bp_transferred_amount bp + bp_locked_amount bp \<le> UINT256_MAX
     \<and> bp_nonce bp = es_nonce s + 1"
  by (cases "is_valid_balanceproof_signature E bp (es_address s)")
     (auto simp: is_balance_proof_usable_onchain_def Let_def canonical_identifier_eq
       is_balance_proof_safe_for_onchain_operations_def get_next_nonce_def)

text \<open>The validity of a locked transfer, as one equivalence.\<close>

lemma valid_lockedtransfer_check_iff:
  assumes cur: "get_current_balanceproof E s = (r, n, t, k)"
  shows "valid_lockedtransfer_check E ch s rcv name bp l = Inr (True, m, p) \<longleftrightarrow>
    is_balance_proof_usable_onchain E bp ch s = Inr []
    \<and> encoded l \<notin> set (es_pending_locks s)
    \<and> length (es_pending_locks s) < MAXIMUM_PENDING_TRANSFERS
    \<and> bp_locksroot bp = compute_locksroot E (es_pending_locks s @ [encoded l])
    \<and> bp_transferred_amount bp = t
    \<and> bp_locked_amount bp = k + lk_amount l
    \<and> lk_amount l \<le> get_distributable E s rcv
    \<and> m = None \<and> p = Some (es_pending_locks s @ [encoded l])"
proof (cases "is_balance_proof_usable_onchain E bp ch s")
  case (Inl e)
  then show ?thesis by (simp add: valid_lockedtransfer_check_def cur)
next
  case (Inr u)
  show ?thesis
  proof (cases "u = [] \<and> encoded l \<notin> set (es_pending_locks s)")
    case True
    with Inr show ?thesis
      by (auto simp: valid_lockedtransfer_check_def cur compute_locks_with_def invalid_pending_def
          Let_def split: if_splits)
  next
    case False
    with Inr show ?thesis
      by (auto simp: valid_lockedtransfer_check_def cur compute_locks_with_def invalid_pending_def
          soe_ok_iff Let_def)
  qed
qed

lemma handle_receive_lockedtransferE:
  assumes "handle_receive_lockedtransfer E ch t md = Inr (ch', True, evs, m)"
    and cur: "get_current_balanceproof E (ch_partner_state ch) = (r, n, tr, k)"
  obtains
    "is_balance_proof_usable_onchain E (lts_balance_proof t) ch (ch_partner_state ch) = Inr []"
    "encoded (lt_lock t) \<notin> set (es_pending_locks (ch_partner_state ch))"
    "length (es_pending_locks (ch_partner_state ch)) < MAXIMUM_PENDING_TRANSFERS"
    "lk_amount (lt_lock t) \<le> get_distributable E (ch_partner_state ch) (ch_our_state ch)"
    "bp_continues E (ch_partner_state ch) (balance_proof.truncate (lts_balance_proof t)) tr
       (k + lk_amount (lt_lock t)) (es_pending_locks (ch_partner_state ch) @ [encoded (lt_lock t)])"
    "ch' = map_partner_state (apply_lock (BPSigned (lts_balance_proof t)) (lt_lock t)) ch"
    "evs = [processed (bp_sender (lts_balance_proof t)) md (lts_message_identifier t)]" "m = None"
proof -
  let ?bp = "lts_balance_proof t" and ?l = "lt_lock t" and ?s = "ch_partner_state ch"
  from assms(1) obtain p where
    v: "valid_lockedtransfer_check E ch ?s (ch_our_state ch) LockedTransferMsg ?bp ?l
      = Inr (True, m, Some p)"
    and ch': "ch' = map_partner_state (\<lambda>partner. partner\<lparr>
        es_balance_proof := Some (BPSigned ?bp), es_nonce := bp_nonce ?bp, es_pending_locks := p,
        es_lockedlocks := AList.update (lk_secrethash ?l) ?l (es_lockedlocks partner)\<rparr>) ch"
    and evs: "evs = [processed (bp_sender ?bp) md (lts_message_identifier t)]"
    unfolding handle_receive_lockedtransfer_def is_valid_lockedtransfer_def with_error_text_def
    by (auto simp: result_simps Let_def split: if_splits option.splits)
  note v = v [unfolded valid_lockedtransfer_check_iff [OF cur]]
  show thesis
    by (rule that) (use v ch' evs in
        \<open>auto simp: bp_continues_def usable_onchain_iff apply_lock_def\<close>)
qed

lemma handle_refundtransferE:
  assumes "handle_refundtransfer E received ch refund = Inr (ch', True, evs, m)"
    and cur: "get_current_balanceproof E (ch_partner_state ch) = (r, n, tr, k)"
  obtains t where "t = rtr_transfer refund"
    "is_balance_proof_usable_onchain E (lts_balance_proof t) ch (ch_partner_state ch) = Inr []"
    "encoded (lt_lock t) \<notin> set (es_pending_locks (ch_partner_state ch))"
    "refund_transfer_matches_transfer t received"
    "lk_amount (lt_lock t) \<le> get_distributable E (ch_partner_state ch) (ch_our_state ch)"
    "bp_continues E (ch_partner_state ch) (balance_proof.truncate (lts_balance_proof t)) tr
       (k + lk_amount (lt_lock t)) (es_pending_locks (ch_partner_state ch) @ [encoded (lt_lock t)])"
    "ch' = map_partner_state (apply_lock (BPSigned (lts_balance_proof t)) (lt_lock t)) ch"
proof -
  let ?t = "rtr_transfer refund" and ?s = "ch_partner_state ch"
  let ?bp = "lts_balance_proof ?t" and ?l = "lt_lock ?t"
  from assms(1) obtain p m' where
    v: "valid_lockedtransfer_check E ch ?s (ch_our_state ch) RefundTransferMsg ?bp ?l
      = Inr (True, m', Some p)" and
    rm: "refund_transfer_matches_transfer ?t received"
    and ch': "ch' = map_partner_state (\<lambda>partner. partner\<lparr>
        es_balance_proof := Some (BPSigned ?bp), es_nonce := bp_nonce ?bp, es_pending_locks := p,
        es_lockedlocks := AList.update (lk_secrethash ?l) ?l (es_lockedlocks partner)\<rparr>) ch"
    unfolding handle_refundtransfer_def is_valid_refund_def with_error_text_def invalid_pending_def
    by (auto simp: result_simps Let_def split: if_splits option.splits)
  note v = v [unfolded valid_lockedtransfer_check_iff [OF cur]]
  show thesis
    by (rule that [OF refl]) (use v ch' rm in
        \<open>auto simp: bp_continues_def usable_onchain_iff apply_lock_def\<close>)
qed

lemma is_valid_unlock_iff:
  assumes cur: "get_current_balanceproof E s = (r, n, t, k)"
  shows "is_valid_unlock E u ch s = Inr (True, m, p) \<longleftrightarrow>
    (\<exists>l. get_lock s (ru_secrethash u) = Some l \<and> encoded l \<in> set (es_pending_locks s)
      \<and> is_balance_proof_usable_onchain E (ru_balance_proof u) ch s = Inr []
      \<and> bp_locksroot (ru_balance_proof u)
          = compute_locksroot E (remove1 (encoded l) (es_pending_locks s))
      \<and> bp_transferred_amount (ru_balance_proof u) = t + lk_amount l
      \<and> bp_locked_amount (ru_balance_proof u) = k - lk_amount l
      \<and> m = None \<and> p = Some (remove1 (encoded l) (es_pending_locks s)))"
proof (cases "get_lock s (ru_secrethash u)")
  case None
  then show ?thesis by (simp add: is_valid_unlock_def cur invalid_pending_def)
next
  case (Some l)
  then show ?thesis
    by (cases "is_balance_proof_usable_onchain E (ru_balance_proof u) ch s")
       (auto simp: is_valid_unlock_def cur compute_locks_without_def invalid_pending_def soe_ok_iff
         Let_def split: if_splits)
qed

lemma handle_unlockE:
  assumes "handle_unlock E ch u md = Inr (ch', True, evs, m)"
    and cur: "get_current_balanceproof E (ch_partner_state ch) = (r, n, t, k)"
  obtains l partner' where
    "get_lock (ch_partner_state ch) (ru_secrethash u) = Some l"
    "encoded l \<in> set (es_pending_locks (ch_partner_state ch))"
    "is_balance_proof_usable_onchain E (ru_balance_proof u) ch (ch_partner_state ch) = Inr []"
    "bp_continues E (ch_partner_state ch) (balance_proof.truncate (ru_balance_proof u))
       (t + lk_amount l) (k - lk_amount l)
       (remove1 (encoded l) (es_pending_locks (ch_partner_state ch)))"
    "del_lock (ru_secrethash u) (apply_removal (BPSigned (ru_balance_proof u)) l
       (ch_partner_state ch)) = Inr partner'"
    "ch' = ch\<lparr>ch_partner_state := partner'\<rparr>"
    "evs = [processed (bp_sender (ru_balance_proof u)) md (ru_message_identifier u)]" "m = None"
proof -
  let ?s = "ch_partner_state ch" and ?bp = "ru_balance_proof u"
  from assms(1) obtain p partner' where
    v: "is_valid_unlock E u ch ?s = Inr (True, m, Some p)"
    and d: "del_lock (ru_secrethash u) (?s\<lparr>es_balance_proof := Some (BPSigned ?bp),
        es_nonce := bp_nonce ?bp, es_pending_locks := p\<rparr>) = Inr partner'"
    and ch': "ch' = ch\<lparr>ch_partner_state := partner'\<rparr>"
    and evs: "evs = [processed (bp_sender ?bp) md (ru_message_identifier u)]"
    unfolding handle_unlock_def with_error_text_def
    by (auto simp: result_simps Let_def split: if_splits option.splits)
  from v [unfolded is_valid_unlock_iff [OF cur]] obtain l where
    l: "get_lock ?s (ru_secrethash u) = Some l" "encoded l \<in> set (es_pending_locks ?s)"
      "is_balance_proof_usable_onchain E ?bp ch ?s = Inr []"
    and b: "bp_locksroot ?bp = compute_locksroot E (remove1 (encoded l) (es_pending_locks ?s))"
      "bp_transferred_amount ?bp = t + lk_amount l" "bp_locked_amount ?bp = k - lk_amount l"
      "m = None" and p: "p = remove1 (encoded l) (es_pending_locks ?s)"
    by auto
  show thesis
    by (rule that [OF l _ _ ch' evs])
       (use l b d p in \<open>auto simp: bp_continues_def usable_onchain_iff apply_removal_def\<close>)
qed

text \<open>The lock that a \<open>LockExpired\<close> message may remove: locked or unlocked off-chain, not on-chain.\<close>

lemma get_lock_unclaimed:
  assumes "\<not> dict_mem sh (es_onchain_unlockedlocks es)"
  shows "(case map_of (es_lockedlocks es) sh of
      Some l \<Rightarrow> Some l
    | None \<Rightarrow> (case map_of (es_unlockedlocks es) sh of Some u \<Rightarrow> Some (up_lock u) | None \<Rightarrow> None))
    = get_lock es sh"
  using assms by (auto simp: get_lock_def dict_mem_def split: option.splits)

lemma is_valid_lock_expired_iff:
  assumes cur: "get_current_balanceproof E (ch_partner_state ch) = (r, n, t, k)"
  shows "is_valid_lock_expired E sc ch (ch_partner_state ch) rcv bn = Inr (True, m, p) \<longleftrightarrow>
    \<not> dict_mem (rle_secrethash sc) (es_onchain_unlockedlocks (ch_partner_state ch)) \<and>
    (\<exists>l. get_lock (ch_partner_state ch) (rle_secrethash sc) = Some l
      \<and> is_balance_proof_usable_onchain E (rle_balance_proof sc) ch (ch_partner_state ch) = Inr []
      \<and> encoded l \<in> set (es_pending_locks (ch_partner_state ch))
      \<and> is_lock_expired rcv l bn (get_receiver_expiration_threshold (lk_expiration l)) = []
      \<and> bp_locksroot (rle_balance_proof sc)
          = compute_locksroot E (remove1 (encoded l) (es_pending_locks (ch_partner_state ch)))
      \<and> bp_transferred_amount (rle_balance_proof sc) = t
      \<and> bp_locked_amount (rle_balance_proof sc) = k - lk_amount l
      \<and> m = None \<and> p = Some (remove1 (encoded l) (es_pending_locks (ch_partner_state ch))))"
proof (cases "dict_mem (rle_secrethash sc) (es_onchain_unlockedlocks (ch_partner_state ch))")
  case True
  then show ?thesis
    by (auto simp: is_valid_lock_expired_def cur invalid_pending_def Let_def result_simps)
next
  case False
  show ?thesis
  proof (cases "get_lock (ch_partner_state ch) (rle_secrethash sc)")
    case None
    with False show ?thesis
      by (auto simp: is_valid_lock_expired_def cur invalid_pending_def Let_def result_simps
          get_lock_unclaimed [OF False])
  next
    case (Some l)
    with False show ?thesis
      by (cases "is_balance_proof_usable_onchain E (rle_balance_proof sc) ch (ch_partner_state ch)")
         (auto simp: is_valid_lock_expired_def cur compute_locks_without_def invalid_pending_def
           soe_ok_iff get_lock_unclaimed [OF False] Let_def split: if_splits)
  qed
qed

lemma handle_receive_lock_expired_cases:
  assumes "handle_receive_lock_expired E ch sc bn md = Inr (ch', evs)"
    and cur: "get_current_balanceproof E (ch_partner_state ch) = (r, n, t, k)"
  obtains (invalid) m where "ch' = ch" "evs = [EventInvalidReceivedLockExpired (rle_secrethash sc) m]"
  | (valid) l where
    "\<not> dict_mem (rle_secrethash sc) (es_onchain_unlockedlocks (ch_partner_state ch))"
    "get_lock (ch_partner_state ch) (rle_secrethash sc) = Some l"
    "encoded l \<in> set (es_pending_locks (ch_partner_state ch))"
    "is_balance_proof_usable_onchain E (rle_balance_proof sc) ch (ch_partner_state ch) = Inr []"
    "is_lock_expired (ch_our_state ch) l bn (get_receiver_expiration_threshold (lk_expiration l)) = []"
    "bp_continues E (ch_partner_state ch) (balance_proof.truncate (rle_balance_proof sc)) t
       (k - lk_amount l) (remove1 (encoded l) (es_pending_locks (ch_partner_state ch)))"
    "ch' = map_partner_state (\<lambda>partner. del_unclaimed_lock (rle_secrethash sc)
       (apply_removal (BPSigned (rle_balance_proof sc)) l partner)) ch"
    "evs = [processed (bp_sender (rle_balance_proof sc)) md (rle_message_identifier sc)]"
proof -
  let ?s = "ch_partner_state ch" and ?bp = "rle_balance_proof sc"
  from assms(1) obtain v m p where
    v: "is_valid_lock_expired E sc ch ?s (ch_our_state ch) bn = Inr (v, m, p)"
    unfolding handle_receive_lock_expired_def by (auto simp: result_simps)
  show thesis
  proof (cases v)
    case False
    with assms(1) v show thesis
      by (auto simp: handle_receive_lock_expired_def with_error_text_def result_simps
          split: option.splits intro: invalid)
  next
    case True
    from v True have "is_valid_lock_expired E sc ch ?s (ch_our_state ch) bn = Inr (True, m, p)" by simp
    from this [unfolded is_valid_lock_expired_iff [OF cur]] obtain l where
      1: "\<not> dict_mem (rle_secrethash sc) (es_onchain_unlockedlocks ?s)"
        "get_lock ?s (rle_secrethash sc) = Some l" "encoded l \<in> set (es_pending_locks ?s)"
        "is_balance_proof_usable_onchain E ?bp ch ?s = Inr []"
        "is_lock_expired (ch_our_state ch) l bn
          (get_receiver_expiration_threshold (lk_expiration l)) = []"
      and b: "bp_locksroot ?bp = compute_locksroot E (remove1 (encoded l) (es_pending_locks ?s))"
        "bp_transferred_amount ?bp = t" "bp_locked_amount ?bp = k - lk_amount l"
      and p: "p = Some (remove1 (encoded l) (es_pending_locks ?s))"
      by auto
    from assms(1) v True p have
      2: "ch' = map_partner_state (\<lambda>partner. del_unclaimed_lock (rle_secrethash sc)
         (apply_removal (BPSigned ?bp) l partner)) ch"
        "evs = [processed (bp_sender ?bp) md (rle_message_identifier sc)]"
      by (auto simp: handle_receive_lock_expired_def apply_removal_def Let_def)
    show thesis
      by (rule valid [OF 1 _ 2]) (use 1 b in \<open>auto simp: bp_continues_def usable_onchain_iff\<close>)
  qed
qed

text \<open>A message that is not accepted leaves the channel unchanged.\<close>

lemma handle_receive_lockedtransfer_rejected:
  "handle_receive_lockedtransfer E ch t md = Inr (ch', False, evs, m) \<Longrightarrow> ch' = ch"
  by (auto simp: handle_receive_lockedtransfer_def with_error_text_def result_simps Let_def
      split: if_splits option.splits)

lemma handle_refundtransfer_rejected:
  "handle_refundtransfer E received ch refund = Inr (ch', False, evs, m) \<Longrightarrow> ch' = ch"
  by (auto simp: handle_refundtransfer_def with_error_text_def result_simps Let_def
      split: if_splits option.splits)

lemma handle_unlock_rejected:
  "handle_unlock E ch u md = Inr (ch', False, evs, m) \<Longrightarrow> ch' = ch"
  by (auto simp: handle_unlock_def with_error_text_def result_simps Let_def
      split: if_splits option.splits)

subsection \<open>Removing a lock\<close>

definition removal_of :: "end_state \<Rightarrow> balance_proof_state \<Rightarrow> lock \<Rightarrow> end_state \<Rightarrow> bool" where
  "removal_of es b l es' \<longleftrightarrow>
     lock_assoc es' = AList.delete (lk_secrethash l) (lock_assoc es)
     \<and> es_pending_locks es' = remove1 (encoded l) (es_pending_locks es)
     \<and> es_balance_proof es' = Some b \<and> es_nonce es' = bp_nonce (bp_base b)
     \<and> es_address es' = es_address es \<and> es_contract_balance es' = es_contract_balance es
     \<and> es_onchain_total_withdraw es' = es_onchain_total_withdraw es
     \<and> es_withdraws_pending es' = es_withdraws_pending es
     \<and> es_initiated_coop_settle es' = es_initiated_coop_settle es"

lemma lock_assoc_apply_removal [end_simps]: "lock_assoc (apply_removal b l es) = lock_assoc es"
  by (simp add: apply_removal_def lock_assoc_def)

lemma apply_removal_fields [end_simps]:
  "es_onchain_unlockedlocks (apply_removal b l es) = es_onchain_unlockedlocks es"
  "es_pending_locks (apply_removal b l es) = remove1 (encoded l) (es_pending_locks es)"
  "es_balance_proof (apply_removal b l es) = Some b"
  "es_nonce (apply_removal b l es) = bp_nonce (bp_base b)"
  "es_address (apply_removal b l es) = es_address es"
  "es_contract_balance (apply_removal b l es) = es_contract_balance es"
  "es_onchain_total_withdraw (apply_removal b l es) = es_onchain_total_withdraw es"
  "es_withdraws_pending (apply_removal b l es) = es_withdraws_pending es"
  "es_initiated_coop_settle (apply_removal b l es) = es_initiated_coop_settle es"
  by (simp_all add: apply_removal_def)

lemma del_lock_removal:
  assumes "del_lock (lk_secrethash l) (apply_removal b l es) = Inr es'"
  shows "removal_of es b l es'"
  using lock_assoc_del_lock [OF assms] del_lock_fields [OF assms]
  by (simp add: removal_of_def end_simps)

lemma del_unclaimed_removal:
  assumes "\<not> dict_mem (lk_secrethash l) (es_onchain_unlockedlocks es)"
  shows "removal_of es b l (del_unclaimed_lock (lk_secrethash l) (apply_removal b l es))"
  using assms by (simp add: removal_of_def lock_assoc_del_unclaimed end_simps)

lemma apply_lock_fields [end_simps]:
  "es_pending_locks (apply_lock b l es) = es_pending_locks es @ [encoded l]"
  "es_balance_proof (apply_lock b l es) = Some b"
  "es_nonce (apply_lock b l es) = bp_nonce (bp_base b)"
  "es_address (apply_lock b l es) = es_address es"
  "es_contract_balance (apply_lock b l es) = es_contract_balance es"
  "es_onchain_total_withdraw (apply_lock b l es) = es_onchain_total_withdraw es"
  "es_withdraws_pending (apply_lock b l es) = es_withdraws_pending es"
  "es_initiated_coop_settle (apply_lock b l es) = es_initiated_coop_settle es"
  "es_unlockedlocks (apply_lock b l es) = es_unlockedlocks es"
  "es_onchain_unlockedlocks (apply_lock b l es) = es_onchain_unlockedlocks es"
  by (simp_all add: apply_lock_def)

lemma lock_assoc_apply_lock:
  assumes "get_lock es (lk_secrethash l) = None"
  shows "mset (lock_assoc (apply_lock b l es)) = add_mset (lk_secrethash l, l) (mset (lock_assoc es))"
proof -
  have "lock_assoc (apply_lock b l es)
      = lock_assoc (es\<lparr>es_lockedlocks := AList.update (lk_secrethash l) l (es_lockedlocks es)\<rparr>)"
    by (simp add: apply_lock_def lock_assoc_def)
  with lock_assoc_add [OF assms] show ?thesis by simp
qed

subsection \<open>The abstract ledger\<close>

text \<open>
  What a participant's side promises, independently of the three dictionaries, the list of encoded
  locks and the hash: which locks are pending, how much has been transferred, and the last nonce.
\<close>

record ledger =
  lg_locks :: "secrethash \<Rightarrow> lock option"
  lg_transferred :: int
  lg_nonce :: int

definition ledger_of :: "end_state \<Rightarrow> ledger" where
  "ledger_of es = \<lparr>lg_locks = get_lock es, lg_transferred = transferred_amount es,
     lg_nonce = es_nonce es\<rparr>"

definition ledger_lock :: "lock \<Rightarrow> ledger \<Rightarrow> ledger" where
  "ledger_lock l lg = lg\<lparr>lg_locks := (lg_locks lg)(lk_secrethash l \<mapsto> l), lg_nonce := lg_nonce lg + 1\<rparr>"

definition ledger_unlock :: "lock \<Rightarrow> ledger \<Rightarrow> ledger" where
  "ledger_unlock l lg = lg\<lparr>lg_locks := (lg_locks lg)(lk_secrethash l := None),
     lg_transferred := lg_transferred lg + lk_amount l, lg_nonce := lg_nonce lg + 1\<rparr>"

definition ledger_expire :: "lock \<Rightarrow> ledger \<Rightarrow> ledger" where
  "ledger_expire l lg = lg\<lparr>lg_locks := (lg_locks lg)(lk_secrethash l := None),
     lg_nonce := lg_nonce lg + 1\<rparr>"

lemma ledger_apply_lock:
  assumes "get_lock es (lk_secrethash l) = None"
    and "bp_continues E es (bp_base b) (transferred_amount es) k p"
  shows "ledger_of (apply_lock b l es) = ledger_lock l (ledger_of es)"
proof -
  have "get_lock (apply_lock b l es)
      = get_lock (es\<lparr>es_lockedlocks := AList.update (lk_secrethash l) l (es_lockedlocks es)\<rparr>)"
    by (simp add: apply_lock_def get_lock_assoc lock_assoc_def fun_eq_iff)
  with get_lock_add [OF assms(1)] assms(2) show ?thesis
    by (simp add: ledger_of_def ledger_lock_def bp_continues_def transferred_amount_def end_simps)
qed

lemma ledger_removal:
  assumes "removal_of es b l es'"
  shows "lg_locks (ledger_of es') = (lg_locks (ledger_of es))(lk_secrethash l := None)"
    and "lg_transferred (ledger_of es') = bp_transferred_amount (bp_base b)"
    and "lg_nonce (ledger_of es') = bp_nonce (bp_base b)"
  using assms
  by (auto simp: removal_of_def ledger_of_def get_lock_assoc pydict.get_del transferred_amount_def
      fun_eq_iff)

lemma ledger_removal_unlock:
  assumes "removal_of es b l es'"
    and "bp_continues E es (bp_base b) (transferred_amount es + lk_amount l) k p"
  shows "ledger_of es' = ledger_unlock l (ledger_of es)"
  using ledger_removal [OF assms(1)] assms(2)
  by (intro ledger.equality)
     (simp_all add: ledger_unlock_def bp_continues_def ledger_of_def)

lemma ledger_removal_expire:
  assumes "removal_of es b l es'"
    and "bp_continues E es (bp_base b) (transferred_amount es) k p"
  shows "ledger_of es' = ledger_expire l (ledger_of es)"
  using ledger_removal [OF assms(1)] assms(2)
  by (intro ledger.equality)
     (simp_all add: ledger_expire_def bp_continues_def ledger_of_def)

end
