(* ===== verification/Channel_Invariant.thy ===== *)
theory Channel_Invariant
  imports Channel_Ledger
begin

text \<open>
  The invariant of a channel and its preservation by every operation of \<open>transfer/channel.py\<close>.
  \<open>end_inv\<close> ties the balance proof of one side to its locks, \<open>pair_inv\<close> adds that each side's locks
  are covered by its balance (it is symmetric in the two sides, so that an operation is analysed once
  for sending and receiving), \<open>chan_inv\<close> adds the conditions on pending withdraws and on who signed
  which balance proof.
\<close>

subsection \<open>Amounts\<close>

lemma get_balance_eq:
  "get_balance s r = es_contract_balance s - total_withdraw s - transferred_amount s
     + transferred_amount r"
  by (simp add: get_balance_def get_balance_impl_def total_withdraw_def transferred_amount_def
      split: option.splits)

lemma get_max_withdraw_amount_eq:
  "get_max_withdraw_amount s r = es_contract_balance s - transferred_amount s + transferred_amount r"
  by (simp add: get_max_withdraw_amount_def get_balance_impl_def transferred_amount_def
      split: option.splits)

lemma get_capacity_eq:
  "get_capacity ch = get_balance (ch_our_state ch) (ch_partner_state ch)
     + get_balance (ch_partner_state ch) (ch_our_state ch)"
  by (simp add: get_capacity_def get_balance_eq our_total_deposit_def our_total_withdraw_def
      partner_total_deposit_def partner_total_withdraw_def)

lemma distributable_le_balance: "get_distributable E s r \<le> get_balance s r - get_amount_locked s"
  by (simp add: get_distributable_def split: prod.splits)

subsection \<open>One side\<close>

definition bp_inv :: "platform \<Rightarrow> end_state \<Rightarrow> bool" where
  "bp_inv E es \<longleftrightarrow>
     (case es_balance_proof es of
        None \<Rightarrow> es_pending_locks es = []
      | Some b \<Rightarrow>
          bp_locksroot (bp_base b) = compute_locksroot E (es_pending_locks es)
          \<and> bp_locked_amount (bp_base b) = get_amount_locked es
          \<and> 0 < bp_nonce (bp_base b) \<and> bp_nonce (bp_base b) \<le> es_nonce es)
     \<and> 0 \<le> transferred_amount es
     \<and> transferred_amount es + get_amount_locked es \<le> UINT256_MAX
     \<and> 0 \<le> es_nonce es"

definition end_inv :: "platform \<Rightarrow> end_state \<Rightarrow> bool" where
  "end_inv E es \<longleftrightarrow> locks_wf es \<and> bp_inv E es"

lemma end_invD:
  assumes "end_inv E es"
  shows "locks_wf es" and "0 \<le> transferred_amount es" and "0 \<le> es_nonce es"
    and "transferred_amount es + get_amount_locked es \<le> UINT256_MAX"
    and "es_balance_proof es = None \<Longrightarrow> es_pending_locks es = []"
  using assms by (auto simp: end_inv_def bp_inv_def)

lemma end_inv_current_balanceproof:
  assumes "end_inv E es"
  shows "get_current_balanceproof E es
    = (compute_locksroot E (es_pending_locks es),
       (if es_balance_proof es = None then 0 else es_nonce es),
       transferred_amount es, get_amount_locked es)"
  using assms locks_wf_no_pending(2) [of es]
  by (auto simp: end_inv_def bp_inv_def get_current_balanceproof_def transferred_amount_def
      split: option.splits)

lemma end_inv_overflow:
  assumes "end_inv E es" and "a \<le> get_distributable E es r"
  shows "transferred_amount es + get_amount_locked es + a \<le> UINT256_MAX"
  using assms end_invD(4) [OF assms(1)]
  by (auto simp: get_distributable_def end_inv_current_balanceproof)

lemma end_inv_apply_lock:
  assumes inv: "end_inv E es" and v: "valid_lock l" and fresh: "get_lock es (lk_secrethash l) = None"
    and c: "bp_continues E es (bp_base b) (transferred_amount es) (get_amount_locked es + lk_amount l)
      (es_pending_locks es @ [encoded l])"
    and o: "transferred_amount es + get_amount_locked es + lk_amount l \<le> UINT256_MAX"
  shows "end_inv E (apply_lock b l es)"
    and "get_amount_locked (apply_lock b l es) = get_amount_locked es + lk_amount l"
    and "transferred_amount (apply_lock b l es) = transferred_amount es"
proof -
  note m = lock_assoc_apply_lock [OF fresh, of b]
  show k: "get_amount_locked (apply_lock b l es) = get_amount_locked es + lk_amount l"
    by (rule amount_locked_insert [OF m])
  show t: "transferred_amount (apply_lock b l es) = transferred_amount es"
    using c by (simp add: transferred_amount_def bp_continues_def end_simps)
  have "locks_wf (apply_lock b l es)"
    by (rule locks_wf_insert [OF end_invD(1) [OF inv] fresh v m]) (simp add: end_simps)
  then show "end_inv E (apply_lock b l es)"
    using c o k t end_invD(2,3) [OF inv]
    by (simp add: end_inv_def bp_inv_def bp_continues_def end_simps add.assoc)
qed

lemma end_inv_removal:
  assumes inv: "end_inv E es" and l: "get_lock es (lk_secrethash l) = Some l"
    and rem: "removal_of es b l es'"
    and c: "bp_continues E es (bp_base b) t (get_amount_locked es - lk_amount l)
      (remove1 (encoded l) (es_pending_locks es))"
    and t: "transferred_amount es \<le> t" "t \<le> transferred_amount es + lk_amount l"
  shows "end_inv E es'"
    and "get_amount_locked es' = get_amount_locked es - lk_amount l"
    and "transferred_amount es' = t"
proof -
  note wf = end_invD(1) [OF inv]
  have a: "lock_assoc es' = AList.delete (lk_secrethash l) (lock_assoc es)"
    and p: "es_pending_locks es' = remove1 (encoded l) (es_pending_locks es)"
    using rem by (simp_all add: removal_of_def)
  show k: "get_amount_locked es' = get_amount_locked es - lk_amount l"
    by (rule amount_locked_remove [OF wf l a])
  show t': "transferred_amount es' = t"
    using rem c by (simp add: transferred_amount_def removal_of_def bp_continues_def)
  have "locks_wf es'" by (rule locks_wf_remove [OF wf l a p])
  then show "end_inv E es'"
    using c t k t' rem end_invD(2-4) [OF inv]
    by (simp add: end_inv_def bp_inv_def bp_continues_def removal_of_def)
qed

text \<open>A change that only moves entries between the lock dictionaries, raises the nonce or touches
  deposits and withdraws keeps the invariant.\<close>

lemma end_inv_cong:
  assumes inv: "end_inv E es"
    and "mset (lock_assoc es') = mset (lock_assoc es)"
    and "es_pending_locks es' = es_pending_locks es"
    and "es_balance_proof es' = es_balance_proof es"
    and "es_nonce es \<le> es_nonce es'"
  shows "end_inv E es'"
    and "get_amount_locked es' = get_amount_locked es"
    and "transferred_amount es' = transferred_amount es"
proof -
  show k: "get_amount_locked es' = get_amount_locked es"
    using assms(2) by (simp add: get_amount_locked_mset)
  show t: "transferred_amount es' = transferred_amount es"
    using assms(4) by (simp add: transferred_amount_def)
  have "locks_wf es'"
    using locks_wf_cong [OF end_invD(1) [OF inv] assms(2)] assms(3) by simp
  then show "end_inv E es'"
    using inv k t assms(3-5) by (auto simp: end_inv_def bp_inv_def split: option.splits)
qed

subsection \<open>Both sides\<close>

definition solvent :: "end_state \<Rightarrow> end_state \<Rightarrow> bool" where
  "solvent s r \<longleftrightarrow> get_amount_locked s \<le> get_balance s r"

definition pair_inv :: "platform \<Rightarrow> end_state \<Rightarrow> end_state \<Rightarrow> bool" where
  "pair_inv E s r \<longleftrightarrow> end_inv E s \<and> end_inv E r \<and> solvent s r \<and> solvent r s"

lemma pair_inv_sym: "pair_inv E s r \<longleftrightarrow> pair_inv E r s"
  by (auto simp: pair_inv_def)

lemma pair_inv_balance_nonneg: "pair_inv E s r \<Longrightarrow> 0 \<le> get_balance s r"
  using amount_locked_nonneg end_invD(1) by (fastforce simp: pair_inv_def solvent_def)

lemma total_withdraw_cong:
  "es_withdraws_pending es' = es_withdraws_pending es \<Longrightarrow>
   es_onchain_total_withdraw es' = es_onchain_total_withdraw es \<Longrightarrow>
   total_withdraw es' = total_withdraw es"
  by (simp add: total_withdraw_def offchain_total_withdraw_def)

lemma pair_inv_lock:
  assumes inv: "pair_inv E s r" and v: "valid_lock l" and fresh: "get_lock s (lk_secrethash l) = None"
    and d: "lk_amount l \<le> get_distributable E s r"
    and c: "bp_continues E s (bp_base b) (transferred_amount s) (get_amount_locked s + lk_amount l)
      (es_pending_locks s @ [encoded l])"
  shows "pair_inv E (apply_lock b l s) r"
proof -
  from inv have s: "end_inv E s" by (simp add: pair_inv_def)
  note a = end_inv_apply_lock [OF s v fresh c end_inv_overflow [OF s d]]
  have w: "total_withdraw (apply_lock b l s) = total_withdraw s"
    by (rule total_withdraw_cong) (simp_all add: end_simps)
  show ?thesis
    using inv a w d distributable_le_balance [of E s r]
    by (simp add: pair_inv_def solvent_def get_balance_eq end_simps)
qed

lemma pair_inv_unlock:
  assumes inv: "pair_inv E s r" and l: "get_lock s (lk_secrethash l) = Some l"
    and rem: "removal_of s b l s'"
    and c: "bp_continues E s (bp_base b) (transferred_amount s + lk_amount l)
      (get_amount_locked s - lk_amount l) (remove1 (encoded l) (es_pending_locks s))"
  shows "pair_inv E s' r"
proof -
  from inv have s: "end_inv E s" by (simp add: pair_inv_def)
  have pos: "0 \<le> lk_amount l"
    using locks_wf_get_lock(2) [OF end_invD(1) [OF s] l] by (simp add: valid_lock_def)
  have *: "transferred_amount s \<le> transferred_amount s + lk_amount l" using pos by simp
  note a = end_inv_removal [OF s l rem c * order.refl]
  have w: "total_withdraw s' = total_withdraw s"
    using rem by (intro total_withdraw_cong) (simp_all add: removal_of_def)
  show ?thesis
    using inv a w rem pos
    by (simp add: pair_inv_def solvent_def get_balance_eq removal_of_def)
qed

lemma pair_inv_expire:
  assumes inv: "pair_inv E s r" and l: "get_lock s (lk_secrethash l) = Some l"
    and rem: "removal_of s b l s'"
    and c: "bp_continues E s (bp_base b) (transferred_amount s)
      (get_amount_locked s - lk_amount l) (remove1 (encoded l) (es_pending_locks s))"
  shows "pair_inv E s' r"
proof -
  from inv have s: "end_inv E s" by (simp add: pair_inv_def)
  have pos: "0 \<le> lk_amount l"
    using locks_wf_get_lock(2) [OF end_invD(1) [OF s] l] by (simp add: valid_lock_def)
  have *: "transferred_amount s \<le> transferred_amount s + lk_amount l" using pos by simp
  note a = end_inv_removal [OF s l rem c order.refl *]
  have w: "total_withdraw s' = total_withdraw s"
    using rem by (intro total_withdraw_cong) (simp_all add: removal_of_def)
  show ?thesis
    using inv a w rem pos
    by (simp add: pair_inv_def solvent_def get_balance_eq removal_of_def)
qed

text \<open>Moving locks between dictionaries, depositing, and releasing withdraws.\<close>

lemma pair_inv_cong:
  assumes inv: "pair_inv E s r"
    and a: "mset (lock_assoc s') = mset (lock_assoc s)" "es_pending_locks s' = es_pending_locks s"
      "es_balance_proof s' = es_balance_proof s" "es_nonce s \<le> es_nonce s'"
    and b: "es_contract_balance s - total_withdraw s \<le> es_contract_balance s' - total_withdraw s'
      \<or> get_amount_locked s + total_withdraw s' - es_contract_balance s'
          \<le> transferred_amount r - transferred_amount s"
  shows "pair_inv E s' r"
proof -
  from inv have "end_inv E s" by (simp add: pair_inv_def)
  note e = end_inv_cong [OF this a]
  show ?thesis
    using inv e b by (auto simp: pair_inv_def solvent_def get_balance_eq)
qed

end
