(* ===== verification/Channel_Safety.thy ===== *)
theory Channel_Safety
  imports Channel_Invariant
begin

text \<open>
  The channel invariant \<open>chan_inv\<close>, one preservation lemma per operation of \<open>transfer/channel.py\<close>, the
  step relation of a channel with its guards, and the consequence that the assertions of
  \<open>sanity_check\<close> hold in every reachable state.
\<close>

subsection \<open>Pending withdraws\<close>

text \<open>
  Both sides index pending withdraws by their total. Our own are moreover in ascending order, and a
  withdraw of zero tokens is only pending while a coop-settle that we initiated is.
\<close>

definition withdraws_wf :: "end_state \<Rightarrow> bool" where
  "withdraws_wf es \<longleftrightarrow>
     dict_ok (es_withdraws_pending es)
     \<and> list_all (\<lambda>(k, w). k = pw_total_withdraw w \<and> 0 \<le> k) (es_withdraws_pending es)
     \<and> 0 \<le> es_onchain_total_withdraw es"

definition withdraws_inv :: "end_state \<Rightarrow> bool" where
  "withdraws_inv es \<longleftrightarrow>
     withdraws_wf es
     \<and> sorted_wrt (<) (map fst (es_withdraws_pending es))
     \<and> (0 \<in> set (map fst (es_withdraws_pending es)) \<longrightarrow> es_initiated_coop_settle es \<noteq> None)"

lemma withdraws_inv_wf: "withdraws_inv es \<Longrightarrow> withdraws_wf es"
  by (simp add: withdraws_inv_def)

lemma withdraws_wf_cong:
  "withdraws_wf es \<Longrightarrow> es_withdraws_pending es' = es_withdraws_pending es \<Longrightarrow>
   es_onchain_total_withdraw es' = es_onchain_total_withdraw es \<Longrightarrow> withdraws_wf es'"
  by (simp add: withdraws_wf_def)

lemma withdraws_inv_cong:
  "withdraws_inv es \<Longrightarrow> es_withdraws_pending es' = es_withdraws_pending es \<Longrightarrow>
   es_initiated_coop_settle es' = es_initiated_coop_settle es \<Longrightarrow>
   es_onchain_total_withdraw es' = es_onchain_total_withdraw es \<Longrightarrow> withdraws_inv es'"
  by (simp add: withdraws_inv_def withdraws_wf_def)

lemma withdraws_inv_nonneg: "withdraws_wf es \<Longrightarrow> k \<in> set (map fst (es_withdraws_pending es)) \<Longrightarrow> 0 \<le> k"
  by (auto simp: withdraws_wf_def list_all_iff)

lemma offchain_total_withdraw_nonneg: "withdraws_wf es \<Longrightarrow> 0 \<le> offchain_total_withdraw es"
proof (cases "es_withdraws_pending es")
  case (Cons p ps)
  assume inv: "withdraws_wf es"
  have "offchain_total_withdraw es \<in> set (map fst (es_withdraws_pending es))"
    unfolding offchain_total_withdraw_def by (rule max_default_in) (simp add: Cons)
  with inv show ?thesis by (rule withdraws_inv_nonneg)
qed (simp add: offchain_total_withdraw_def)

lemma pending_le_total_withdraw:
  "k \<in> set (map fst (es_withdraws_pending es)) \<Longrightarrow> k \<le> total_withdraw es"
  unfolding total_withdraw_def offchain_total_withdraw_def
  by (rule order.trans [OF max_default_ge max.cobounded1])

lemma withdraws_ordered_if:
  assumes "sorted_wrt (<) (map fst ws)" and "list_all (\<lambda>(k, w). k = pw_total_withdraw w) ws"
    and "\<not> coop \<longrightarrow> (\<forall>k \<in> set (map fst ws). previous < k)"
  shows "withdraws_ordered coop previous ws"
  using assms
proof (induction ws arbitrary: previous)
  case (Cons p ws)
  obtain k w where p: "p = (k, w)" by (cases p)
  with Cons.prems have "withdraws_ordered coop k ws" by (intro Cons.IH) auto
  with Cons.prems p show ?case by auto
qed simp

text \<open>Forgetting a pending withdraw does not raise the total.\<close>

lemma total_withdraw_delete:
  assumes "withdraws_wf es"
  shows "total_withdraw (es\<lparr>es_withdraws_pending := AList.delete k (es_withdraws_pending es)\<rparr>)
    \<le> total_withdraw es"
proof -
  have "max_default 0 (map fst (AList.delete k (es_withdraws_pending es)))
      \<le> max_default 0 (map fst (es_withdraws_pending es))"
    using withdraws_inv_nonneg [OF assms]
    by (intro max_default_subset) (auto simp: delete_keys)
  then show ?thesis by (auto simp: total_withdraw_def offchain_total_withdraw_def)
qed

lemma set_delete_subset: "set (AList.delete k d) \<subseteq> set d"
  by (induction d) auto

lemma sorted_keys_delete:
  "sorted_wrt (<) (map fst ws) \<Longrightarrow> sorted_wrt (<) (map fst (AList.delete (k::int) ws))"
proof (induction ws)
  case (Cons p ws)
  moreover note set_delete_subset [of k ws]
  ultimately show ?case by (cases p) auto
qed simp

lemma sorted_keys_snoc:
  assumes "sorted_wrt (<) (map fst ws)" and "\<forall>k \<in> set (map fst ws). k < (t::int)"
  shows "AList.update t w ws = ws @ [(t, w)]"
    and "sorted_wrt (<) (map fst (AList.update t w ws))"
proof -
  from assms(2) have "map_of ws t = None" by (auto simp: map_of_eq_None_iff)
  then show *: "AList.update t w ws = ws @ [(t, w)]" by (rule dict_update_new)
  show "sorted_wrt (<) (map fst (AList.update t w ws))"
    using assms by (simp add: * sorted_wrt_append)
qed

lemma total_withdraw_snoc:
  assumes "\<forall>k \<in> set (map fst (es_withdraws_pending es)). k < t"
    and "es_onchain_total_withdraw es \<le> t"
    and "es_withdraws_pending es' = es_withdraws_pending es @ [(t, w)]"
    and "es_onchain_total_withdraw es' = es_onchain_total_withdraw es"
  shows "total_withdraw es' = t"
proof -
  have "max_default 0 (map fst (es_withdraws_pending es) @ [t]) = t"
    using assms(1) by (intro max_default_snoc) auto
  with assms show ?thesis
    by (simp add: total_withdraw_def offchain_total_withdraw_def)
qed

subsection \<open>The invariant\<close>

definition partner_signed :: "end_state \<Rightarrow> bool" where
  "partner_signed es \<longleftrightarrow>
     (case es_balance_proof es of Some (BPUnsigned _) \<Rightarrow> False | _ \<Rightarrow> True)"

definition chan_inv :: "platform \<Rightarrow> channel \<Rightarrow> bool" where
  "chan_inv E ch \<longleftrightarrow>
     pair_inv E (ch_our_state ch) (ch_partner_state ch)
     \<and> withdraws_inv (ch_our_state ch) \<and> withdraws_wf (ch_partner_state ch)
     \<and> partner_signed (ch_partner_state ch)"

lemma chan_inv_sides:
  assumes "chan_inv E ch"
  shows "end_inv E (ch_our_state ch)" and "end_inv E (ch_partner_state ch)"
    and "pair_inv E (ch_our_state ch) (ch_partner_state ch)"
    and "pair_inv E (ch_partner_state ch) (ch_our_state ch)"
  using assms pair_inv_sym [of E "ch_our_state ch"] by (auto simp: chan_inv_def pair_inv_def)

text \<open>Every assertion of \<open>sanity_check\<close> follows from the invariant.\<close>

lemma withdraws_inv_ordered:
  assumes "withdraws_inv es" and "es_initiated_coop_settle es \<noteq> None \<Longrightarrow> coop"
  shows "withdraws_ordered coop 0 (es_withdraws_pending es)"
proof (rule withdraws_ordered_if)
  show "\<not> coop \<longrightarrow> (\<forall>k \<in> set (map fst (es_withdraws_pending es)). 0 < k)"
  proof (intro impI ballI)
    fix k assume "\<not> coop" and k: "k \<in> set (map fst (es_withdraws_pending es))"
    with assms have "0 \<notin> set (map fst (es_withdraws_pending es))" by (auto simp: withdraws_inv_def)
    with k have "k \<noteq> 0" by auto
    with withdraws_inv_nonneg [OF withdraws_inv_wf [OF assms(1)] k] show "0 < k" by simp
  qed
qed (use assms(1) in \<open>auto simp: withdraws_inv_def withdraws_wf_def list_all_iff\<close>)

lemma chan_inv_sanity:
  assumes "chan_inv E ch"
  shows "sanity_check E ch = Inr ()"
proof -
  note s = chan_inv_sides [OF assms]
  have "withdraws_ordered coop 0 (es_withdraws_pending (ch_our_state ch))"
    if "es_initiated_coop_settle (ch_our_state ch) \<noteq> None \<Longrightarrow> coop" for coop
    using assms that by (intro withdraws_inv_ordered) (auto simp: chan_inv_def)
  moreover have "0 \<le> get_balance (ch_our_state ch) (ch_partner_state ch)"
    and "0 \<le> get_balance (ch_partner_state ch) (ch_our_state ch)"
    using s(3,4) by (simp_all add: pair_inv_balance_nonneg)
  moreover have "locks_synchronized (ch_our_state ch)" and "locks_synchronized (ch_partner_state ch)"
    using s(1,2) by (simp_all add: locks_synchronized_if_wf end_invD(1))
  moreover have "get_distributable E x y + get_amount_locked x \<le> get_balance x y" for x y
    using distributable_le_balance [of E x y] by simp
  ultimately show ?thesis
    by (simp add: sanity_check_def end_inv_current_balanceproof [OF s(1)]
        end_inv_current_balanceproof [OF s(2)] get_capacity_eq Let_def)
qed

subsection \<open>Balance-proof messages\<close>

lemma chan_inv_our:
  assumes "chan_inv E ch" and "pair_inv E our' (ch_partner_state ch)" and "withdraws_inv our'"
  shows "chan_inv E (ch\<lparr>ch_our_state := our'\<rparr>)"
  using assms by (simp add: chan_inv_def)

lemma chan_inv_partner:
  assumes "chan_inv E ch" and "pair_inv E partner' (ch_our_state ch)" and "withdraws_wf partner'"
    and "partner_signed partner'"
  shows "chan_inv E (ch\<lparr>ch_partner_state := partner'\<rparr>)"
  using assms pair_inv_sym by (simp add: chan_inv_def)

lemma withdraws_inv_apply_lock: "withdraws_inv es \<Longrightarrow> withdraws_inv (apply_lock b l es)"
  by (erule withdraws_inv_cong) (simp_all add: end_simps)

lemma withdraws_wf_apply_lock: "withdraws_wf es \<Longrightarrow> withdraws_wf (apply_lock b l es)"
  by (erule withdraws_wf_cong) (simp_all add: end_simps)

lemma withdraws_wf_removal: "withdraws_wf es \<Longrightarrow> removal_of es b l es' \<Longrightarrow> withdraws_wf es'"
  by (erule withdraws_wf_cong) (simp_all add: removal_of_def)

lemma withdraws_inv_removal: "withdraws_inv es \<Longrightarrow> removal_of es b l es' \<Longrightarrow> withdraws_inv es'"
  by (erule withdraws_inv_cong) (simp_all add: removal_of_def)

lemma send_lockedtransfer_inv:
  assumes inv: "chan_inv E ch"
    and fresh: "get_lock (ch_our_state ch) sh = None"
    and send: "send_lockedtransfer E ch initiator target amount mid pid expiration secret sh routes md pmd
      = Inr (ch', ev)"
  shows "chan_inv E ch'"
  using send
proof (rule send_lockedtransferE)
  fix l bp
  assume a: "l = \<lparr>lk_amount = amount, lk_expiration = expiration, lk_secrethash = sh\<rparr>" "valid_lock l"
    "amount \<le> get_distributable E (ch_our_state ch) (ch_partner_state ch)"
    "bp_continues E (ch_our_state ch) bp (transferred_amount (ch_our_state ch))
       (get_amount_locked (ch_our_state ch) + amount)
       (es_pending_locks (ch_our_state ch) @ [encoded l])"
    "ch' = map_our_state (apply_lock (BPUnsigned bp) l) ch"
  from chan_inv_sides(3) [OF inv] a fresh
  have "pair_inv E (apply_lock (BPUnsigned bp) l (ch_our_state ch)) (ch_partner_state ch)"
    by (intro pair_inv_lock) simp_all
  with inv a(5) show ?thesis
    by (auto intro!: chan_inv_our withdraws_inv_apply_lock simp: chan_inv_def)
qed

lemma send_unlock_inv:
  assumes inv: "chan_inv E ch"
    and send: "send_unlock E ch mid pid secret sh bn md = Inr (ch', u)"
  shows "chan_inv E ch'"
  using send
proof (rule send_unlockE)
  fix l bp our_bp our'
  assume l: "get_lock (ch_our_state ch) sh = Some l"
    and c: "bp_continues E (ch_our_state ch) bp (transferred_amount (ch_our_state ch) + lk_amount l)
       (get_amount_locked (ch_our_state ch) - lk_amount l)
       (remove1 (encoded l) (es_pending_locks (ch_our_state ch)))"
    and d: "del_lock (lk_secrethash l) (apply_removal (BPUnsigned bp) l (ch_our_state ch)) = Inr our'"
    and ch': "ch' = ch\<lparr>ch_our_state := our'\<rparr>"
  note rem = del_lock_removal [OF d]
  have "lk_secrethash l = sh"
    using locks_wf_get_lock(1) [OF end_invD(1) [OF chan_inv_sides(1) [OF inv]] l] .
  with l c have "pair_inv E our' (ch_partner_state ch)"
    by (intro pair_inv_unlock [OF chan_inv_sides(3) [OF inv] _ rem]) simp_all
  then show ?thesis
    unfolding ch' using inv withdraws_inv_removal [OF _ rem]
    by (intro chan_inv_our) (auto simp: chan_inv_def)
qed

lemma send_lock_expired_cases:
  assumes "send_lock_expired E ch l g md = Inr (ch', g', evs)"
  shows "(evs = [] \<and> ch' = ch) \<or> (\<exists>ev. evs = [ev])"
  using assms unfolding send_lock_expired_def
  by (auto simp: result_simps split: option.splits)

lemma send_lock_expired_inv:
  assumes inv: "chan_inv E ch"
    and l: "get_lock (ch_our_state ch) (lk_secrethash l) = Some l"
    and unclaimed: "\<not> dict_mem (lk_secrethash l) (es_onchain_unlockedlocks (ch_our_state ch))"
    and send: "send_lock_expired E ch l g md = Inr (ch', g', evs)"
  shows "chan_inv E ch'"
proof (cases "evs = []")
  case True
  with send_lock_expired_cases [OF send] inv show ?thesis by auto
next
  case False
  with send_lock_expired_cases [OF send] obtain ev where "evs = [ev]" by auto
  with send have "send_lock_expired E ch l g md = Inr (ch', g', [ev])" by simp
  then show ?thesis
  proof (rule send_lock_expiredE)
    fix bp our_bp
    assume c: "bp_continues E (ch_our_state ch) bp (transferred_amount (ch_our_state ch))
        (get_amount_locked (ch_our_state ch) - lk_amount l)
        (remove1 (encoded l) (es_pending_locks (ch_our_state ch)))"
      and ch': "ch' = map_our_state (\<lambda>our. del_unclaimed_lock (lk_secrethash l)
        (apply_removal (BPUnsigned bp) l our)) ch"
    note rem = del_unclaimed_removal [OF unclaimed, of "BPUnsigned bp"]
    from c have "pair_inv E (del_unclaimed_lock (lk_secrethash l)
        (apply_removal (BPUnsigned bp) l (ch_our_state ch))) (ch_partner_state ch)"
      by (intro pair_inv_expire [OF chan_inv_sides(3) [OF inv] l rem]) simp_all
    then show ?thesis
      unfolding ch' using inv withdraws_inv_removal [OF _ rem]
      by (intro chan_inv_our) (auto simp: chan_inv_def)
  qed
qed

lemma partner_lock_inv:
  assumes inv: "chan_inv E ch" and v: "valid_lock l"
    and fresh: "get_lock (ch_partner_state ch) (lk_secrethash l) = None"
    and d: "lk_amount l \<le> get_distributable E (ch_partner_state ch) (ch_our_state ch)"
    and c: "bp_continues E (ch_partner_state ch) (balance_proof.truncate bp)
      (transferred_amount (ch_partner_state ch))
      (get_amount_locked (ch_partner_state ch) + lk_amount l)
      (es_pending_locks (ch_partner_state ch) @ [encoded l])"
  shows "chan_inv E (map_partner_state (apply_lock (BPSigned bp) l) ch)"
proof -
  from c have "pair_inv E (apply_lock (BPSigned bp) l (ch_partner_state ch)) (ch_our_state ch)"
    by (intro pair_inv_lock [OF chan_inv_sides(4) [OF inv] v fresh d]) simp
  with inv show ?thesis
    by (intro chan_inv_partner withdraws_wf_apply_lock)
       (simp_all add: chan_inv_def partner_signed_def end_simps)
qed

lemma handle_receive_lockedtransfer_inv:
  assumes inv: "chan_inv E ch"
    and lock: "valid_lock (lt_lock t)"
      "get_lock (ch_partner_state ch) (lk_secrethash (lt_lock t)) = None"
    and rcv: "handle_receive_lockedtransfer E ch t md = Inr (ch', ok, evs, m)"
  shows "chan_inv E ch'"
proof (cases ok)
  case True
  with rcv have "handle_receive_lockedtransfer E ch t md = Inr (ch', True, evs, m)" by simp
  then show ?thesis
    by (rule handle_receive_lockedtransferE
        [OF _ end_inv_current_balanceproof [OF chan_inv_sides(2) [OF inv]]])
       (use lock inv in \<open>simp add: partner_lock_inv\<close>)
next
  case False
  with rcv have "ch' = ch" by (auto intro: handle_receive_lockedtransfer_rejected)
  with inv show ?thesis by simp
qed

lemma handle_refundtransfer_inv:
  assumes inv: "chan_inv E ch"
    and lock: "valid_lock (lt_lock (rtr_transfer refund))"
      "get_lock (ch_partner_state ch) (lk_secrethash (lt_lock (rtr_transfer refund))) = None"
    and rcv: "handle_refundtransfer E received ch refund = Inr (ch', ok, evs, m)"
  shows "chan_inv E ch'"
proof (cases ok)
  case True
  with rcv have "handle_refundtransfer E received ch refund = Inr (ch', True, evs, m)" by simp
  then show ?thesis
    by (rule handle_refundtransferE
        [OF _ end_inv_current_balanceproof [OF chan_inv_sides(2) [OF inv]]])
       (use lock inv in \<open>simp add: partner_lock_inv\<close>)
next
  case False
  with rcv have "ch' = ch" by (auto intro: handle_refundtransfer_rejected)
  with inv show ?thesis by simp
qed

lemma handle_unlock_inv:
  assumes inv: "chan_inv E ch" and rcv: "handle_unlock E ch u md = Inr (ch', ok, evs, m)"
  shows "chan_inv E ch'"
proof (cases ok)
  case True
  with rcv have "handle_unlock E ch u md = Inr (ch', True, evs, m)" by simp
  then show ?thesis
  proof (rule handle_unlockE [OF _ end_inv_current_balanceproof [OF chan_inv_sides(2) [OF inv]]])
    fix l partner'
    let ?s = "ch_partner_state ch" and ?b = "BPSigned (ru_balance_proof u)"
    assume l: "get_lock ?s (ru_secrethash u) = Some l"
      and c: "bp_continues E ?s (balance_proof.truncate (ru_balance_proof u))
        (transferred_amount ?s + lk_amount l) (get_amount_locked ?s - lk_amount l)
        (remove1 (encoded l) (es_pending_locks ?s))"
      and d: "del_lock (ru_secrethash u) (apply_removal ?b l ?s) = Inr partner'"
      and ch': "ch' = ch\<lparr>ch_partner_state := partner'\<rparr>"
    have sh: "lk_secrethash l = ru_secrethash u"
      using locks_wf_get_lock(1) [OF end_invD(1) [OF chan_inv_sides(2) [OF inv]] l] .
    with d have rem: "removal_of ?s ?b l partner'" by (intro del_lock_removal) simp
    from l c sh have "pair_inv E partner' (ch_our_state ch)"
      by (intro pair_inv_unlock [OF chan_inv_sides(4) [OF inv] _ rem]) simp_all
    then show ?thesis
      unfolding ch' using inv rem withdraws_wf_removal [OF _ rem]
      by (intro chan_inv_partner) (auto simp: chan_inv_def partner_signed_def removal_of_def)
  qed
next
  case False
  with rcv have "ch' = ch" by (auto intro: handle_unlock_rejected)
  with inv show ?thesis by simp
qed

lemma handle_receive_lock_expired_inv:
  assumes inv: "chan_inv E ch"
    and rcv: "handle_receive_lock_expired E ch sc bn md = Inr (ch', evs)"
  shows "chan_inv E ch'"
  using rcv end_inv_current_balanceproof [OF chan_inv_sides(2) [OF inv]]
proof (cases rule: handle_receive_lock_expired_cases)
  case (invalid m)
  with inv show ?thesis by simp
next
  case (valid l)
  let ?s = "ch_partner_state ch" and ?b = "BPSigned (rle_balance_proof sc)"
  have sh: "lk_secrethash l = rle_secrethash sc"
    using locks_wf_get_lock(1) [OF end_invD(1) [OF chan_inv_sides(2) [OF inv]] valid(2)] .
  have rem: "removal_of ?s ?b l (del_unclaimed_lock (rle_secrethash sc) (apply_removal ?b l ?s))"
    using del_unclaimed_removal [of l ?s ?b] valid(1) sh by simp
  from valid sh have "pair_inv E (del_unclaimed_lock (rle_secrethash sc) (apply_removal ?b l ?s))
      (ch_our_state ch)"
    by (intro pair_inv_expire [OF chan_inv_sides(4) [OF inv] _ rem]) simp_all
  then show ?thesis
    unfolding valid(7) using inv rem withdraws_wf_removal [OF _ rem]
    by (intro chan_inv_partner) (auto simp: chan_inv_def partner_signed_def removal_of_def)
qed

subsection \<open>Secrets\<close>

lemma register_secret_fields [end_simps]:
  "es_pending_locks (register_secret_endstate secret sh es) = es_pending_locks es"
  "es_balance_proof (register_secret_endstate secret sh es) = es_balance_proof es"
  "es_nonce (register_secret_endstate secret sh es) = es_nonce es"
  "es_contract_balance (register_secret_endstate secret sh es) = es_contract_balance es"
  "es_onchain_total_withdraw (register_secret_endstate secret sh es) = es_onchain_total_withdraw es"
  "es_withdraws_pending (register_secret_endstate secret sh es) = es_withdraws_pending es"
  "es_initiated_coop_settle (register_secret_endstate secret sh es) = es_initiated_coop_settle es"
  "es_address (register_secret_endstate secret sh es) = es_address es"
  by (simp_all add: register_secret_endstate_def split: option.splits)

lemma pair_inv_register_secret:
  assumes "pair_inv E s r"
  shows "pair_inv E (register_secret_endstate secret sh s) r"
proof -
  have "locks_wf s" using assms end_invD(1) by (auto simp: pair_inv_def)
  then show ?thesis
    by (intro pair_inv_cong [OF assms register_secret_assoc])
       (simp_all add: end_simps total_withdraw_def offchain_total_withdraw_def)
qed

lemma register_offchain_secret_inv:
  assumes inv: "chan_inv E ch"
  shows "chan_inv E (register_offchain_secret ch secret sh)"
proof -
  have "pair_inv E (register_secret_endstate secret sh (ch_our_state ch)) (ch_partner_state ch)"
    by (rule pair_inv_register_secret [OF chan_inv_sides(3) [OF inv]])
  then have "pair_inv E (register_secret_endstate secret sh (ch_our_state ch))
      (register_secret_endstate secret sh (ch_partner_state ch))"
    using pair_inv_register_secret pair_inv_sym by blast
  moreover have "withdraws_inv (register_secret_endstate secret sh (ch_our_state ch))"
    using inv by (auto simp: chan_inv_def end_simps intro: withdraws_inv_cong)
  moreover have "withdraws_wf (register_secret_endstate secret sh (ch_partner_state ch))"
    using inv by (auto simp: chan_inv_def end_simps intro: withdraws_wf_cong)
  ultimately show ?thesis
    using inv by (simp add: chan_inv_def register_offchain_secret_def partner_signed_def end_simps)
qed

lemma register_onchain_fields:
  assumes "locks_wf es" and "register_onchain_secret_endstate secret sh n True es = Inr es'"
  shows "es_pending_locks es' = es_pending_locks es" and "es_balance_proof es' = es_balance_proof es"
    and "es_nonce es' = es_nonce es" and "es_contract_balance es' = es_contract_balance es"
    and "es_onchain_total_withdraw es' = es_onchain_total_withdraw es"
    and "es_withdraws_pending es' = es_withdraws_pending es"
    and "es_initiated_coop_settle es' = es_initiated_coop_settle es"
    and "es_address es' = es_address es"
  by (subst register_onchain_secret_eq_Inr(2) [OF assms], simp)+

lemma pair_inv_register_onchain:
  assumes "pair_inv E s r" and "register_onchain_secret_endstate secret sh n True s = Inr s'"
  shows "pair_inv E s' r"
proof -
  have wf: "locks_wf s" using assms(1) end_invD(1) by (auto simp: pair_inv_def)
  note f = register_onchain_fields [OF wf assms(2)]
  show ?thesis
    by (rule pair_inv_cong [OF assms(1) register_onchain_secret_eq_Inr(1) [OF wf assms(2)]])
       (simp_all add: f total_withdraw_def offchain_total_withdraw_def)
qed

lemma register_onchain_secret_inv:
  assumes inv: "chan_inv E ch" and reg: "register_onchain_secret ch secret sh n True = Inr ch'"
  shows "chan_inv E ch'"
proof -
  from reg obtain our' partner' where
    o: "register_onchain_secret_endstate secret sh n True (ch_our_state ch) = Inr our'" and
    p: "register_onchain_secret_endstate secret sh n True (ch_partner_state ch) = Inr partner'" and
    ch': "ch' = ch\<lparr>ch_our_state := our', ch_partner_state := partner'\<rparr>"
    by (auto simp: register_onchain_secret_def result_simps)
  have wf: "locks_wf (ch_our_state ch)" "locks_wf (ch_partner_state ch)"
    using chan_inv_sides(1,2) [OF inv] by (simp_all add: end_invD(1))
  have "pair_inv E our' (ch_partner_state ch)"
    by (rule pair_inv_register_onchain [OF chan_inv_sides(3) [OF inv] o])
  then have "pair_inv E our' partner'"
    using pair_inv_register_onchain [OF _ p] pair_inv_sym by blast
  moreover have "withdraws_inv our'"
    using inv register_onchain_fields [OF wf(1) o]
    by (auto simp: chan_inv_def intro: withdraws_inv_cong)
  moreover have "withdraws_wf partner'"
    using inv register_onchain_fields [OF wf(2) p]
    by (auto simp: chan_inv_def intro: withdraws_wf_cong)
  ultimately show ?thesis
    using inv register_onchain_fields [OF wf(2) p]
    by (simp add: chan_inv_def ch' partner_signed_def)
qed

subsection \<open>Withdraws\<close>

text \<open>A new withdraw of ours: appended behind the pending ones, or replacing the pending withdraw of
  zero tokens of an earlier coop-settle.\<close>

lemma new_withdraw_inv:
  assumes inv: "chan_inv E ch"
    and our: "es_withdraws_pending our' = es_withdraws_pending (ch_our_state ch) @ [(t, w)]"
      "es_onchain_total_withdraw our' = es_onchain_total_withdraw (ch_our_state ch)"
      "lock_assoc our' = lock_assoc (ch_our_state ch)"
      "es_pending_locks our' = es_pending_locks (ch_our_state ch)"
      "es_balance_proof our' = es_balance_proof (ch_our_state ch)"
      "es_nonce (ch_our_state ch) \<le> es_nonce our'"
      "es_contract_balance our' = es_contract_balance (ch_our_state ch)"
    and w: "pw_total_withdraw w = t"
    and coop: "es_initiated_coop_settle our' \<noteq> None \<or>
      (0 < t \<and> es_initiated_coop_settle our' = es_initiated_coop_settle (ch_our_state ch))"
    and t: "\<forall>k\<in>set (map fst (es_withdraws_pending (ch_our_state ch))). k < t"
      "es_onchain_total_withdraw (ch_our_state ch) \<le> t" "0 \<le> t"
    and funds: "get_amount_locked (ch_our_state ch) + t
      \<le> get_max_withdraw_amount (ch_our_state ch) (ch_partner_state ch)"
  shows "chan_inv E (ch\<lparr>ch_our_state := our'\<rparr>)"
proof (rule chan_inv_our [OF inv])
  have "total_withdraw our' = t" by (rule total_withdraw_snoc [OF t(1,2) our(1,2)])
  with funds show "pair_inv E our' (ch_partner_state ch)"
    by (intro pair_inv_cong [OF chan_inv_sides(3) [OF inv]])
       (simp_all add: our get_max_withdraw_amount_eq)
  have "sorted_wrt (<) (map fst (es_withdraws_pending our'))"
    using inv t(1) by (simp add: our chan_inv_def withdraws_inv_def sorted_wrt_append)
  moreover have "dict_ok (es_withdraws_pending our')"
    using inv t(1) by (auto simp: our chan_inv_def withdraws_inv_def withdraws_wf_def)
  ultimately show "withdraws_inv our'"
    using inv t coop w
    by (auto simp: our chan_inv_def withdraws_inv_def withdraws_wf_def)
qed

lemma send_withdraw_request_prior:
  assumes "get_status ch = STATE_OPENED"
  shows "fst (send_withdraw_request ch t e g md c) = ch\<lparr>ch_our_state := (ch_our_state ch)\<lparr>
      es_nonce := get_next_nonce (ch_our_state ch),
      es_withdraws_pending := AList.update t \<lparr>pw_total_withdraw = t, pw_expiration = e,
          pw_nonce = get_next_nonce (ch_our_state ch), pw_recipient_metadata = md\<rparr>
        (es_withdraws_pending (ch_our_state ch))\<rparr>\<rparr>"
  using assms
  by (simp add: send_withdraw_request_def CHANNEL_STATES_PRIOR_TO_CLOSED_def Let_def
      split: prod.splits)

lemma handle_action_withdraw_inv:
  assumes inv: "chan_inv E ch"
    and guard: "get_amount_locked (ch_our_state ch) + aw_total_withdraw a
      \<le> get_max_withdraw_amount (ch_our_state ch) (ch_partner_state ch)"
    and h: "handle_action_withdraw a ch bn g = Inr (Some ch', g', evs)"
  shows "chan_inv E ch'"
proof (cases "is_valid_total_withdraw ch (aw_total_withdraw a) False = []")
  case False
  with h inv show ?thesis
    by (auto simp: handle_action_withdraw_def Let_def soe_ok_iff with_error_text_def result_simps)
next
  case True
  let ?our = "ch_our_state ch" and ?t = "aw_total_withdraw a"
  have st: "get_status ch = STATE_OPENED" and inc: "total_withdraw ?our < ?t"
    using True by (auto simp: is_valid_total_withdraw_def Let_def our_total_withdraw_def
        split: if_splits)
  have lt: "\<forall>k\<in>set (map fst (es_withdraws_pending ?our)). k < ?t"
    using pending_le_total_withdraw [of _ ?our] inc by fastforce
  have nonneg: "0 \<le> total_withdraw ?our" "es_onchain_total_withdraw ?our \<le> total_withdraw ?our"
    using inv by (auto simp: chan_inv_def withdraws_inv_def withdraws_wf_def total_withdraw_def)
  have new: "map_of (es_withdraws_pending ?our) ?t = None" using lt by (auto simp: map_of_eq_None_iff)
  define w where "w = \<lparr>pw_total_withdraw = ?t,
    pw_expiration = get_safe_initial_expiration bn (ch_reveal_timeout ch) None,
    pw_nonce = get_next_nonce ?our, pw_recipient_metadata = aw_recipient_metadata a\<rparr>"
  from h True have ch': "ch' = ch\<lparr>ch_our_state := ?our\<lparr>es_nonce := get_next_nonce ?our,
      es_withdraws_pending := AList.update ?t w (es_withdraws_pending ?our)\<rparr>\<rparr>"
    using send_withdraw_request_prior [OF st, of ?t
        "get_safe_initial_expiration bn (ch_reveal_timeout ch) None" g "aw_recipient_metadata a" False]
    by (auto simp: handle_action_withdraw_def Let_def w_def soe_ok_iff split: prod.splits)
  show ?thesis
    unfolding ch'
    by (rule new_withdraw_inv [OF inv, where t = ?t and w = w])
       (use nonneg inc lt guard new in
         \<open>auto simp: w_def dict_update_new get_next_nonce_def end_simps\<close>)
qed

lemma no_positive_pending:
  assumes "withdraws_wf es" and "offchain_total_withdraw es \<le> 0"
  shows "es_withdraws_pending es = [] \<or> (\<exists>w. es_withdraws_pending es = [(0, w)])"
proof (cases "es_withdraws_pending es")
  case (Cons p ps)
  have zero: "fst q = 0" if "q \<in> set (es_withdraws_pending es)" for q
  proof -
    from that have "fst q \<in> set (map fst (es_withdraws_pending es))" by simp
    moreover from this have "fst q \<le> offchain_total_withdraw es"
      unfolding offchain_total_withdraw_def by (rule max_default_ge)
    ultimately show ?thesis
      using withdraws_inv_nonneg [OF assms(1), of "fst q"] assms(2) by simp
  qed
  have "ps = []"
  proof (cases ps)
    case (Cons q qs)
    with \<open>es_withdraws_pending es = p # ps\<close> zero [of p] zero [of q] assms(1) show ?thesis
      by (simp add: withdraws_wf_def)
  qed
  with Cons zero [of p] show ?thesis by (cases p) auto
qed simp

lemma handle_action_coop_settle_inv:
  assumes inv: "chan_inv E ch"
    and h: "handle_action_coop_settle a ch bn g = Inr (Some ch', g', evs)"
  shows "chan_inv E ch'"
proof (cases "is_valid_action_coopsettle ch
    (get_max_withdraw_amount (ch_our_state ch) (ch_partner_state ch)) = []")
  case False
  with h inv show ?thesis
    by (auto simp: handle_action_coop_settle_def Let_def soe_ok_iff with_error_text_def result_simps)
next
  case True
  let ?our = "ch_our_state ch" and ?t = "get_max_withdraw_amount (ch_our_state ch) (ch_partner_state ch)"
  have st: "get_status ch = STATE_OPENED" and inc: "total_withdraw ?our \<le> ?t"
    and nolocks: "es_pending_locks ?our = []" and off: "offchain_total_withdraw ?our \<le> 0"
    using True by (auto simp: is_valid_action_coopsettle_def is_valid_total_withdraw_def Let_def
        our_total_withdraw_def get_number_of_pending_transfers_def soe_ok_iff split: if_splits)
  have wf: "withdraws_wf ?our" and winv: "withdraws_inv ?our"
    using inv by (simp_all add: chan_inv_def withdraws_inv_def)
  have nonneg: "0 \<le> es_onchain_total_withdraw ?our" "es_onchain_total_withdraw ?our \<le> ?t" "0 \<le> ?t"
    using wf inc by (auto simp: withdraws_wf_def total_withdraw_def)
  have locked: "get_amount_locked ?our = 0"
    using locks_wf_no_pending(2) [OF end_invD(1) [OF chan_inv_sides(1) [OF inv]] nolocks] .
  define w where "w = \<lparr>pw_total_withdraw = ?t,
    pw_expiration = get_safe_initial_expiration bn (ch_reveal_timeout ch) None,
    pw_nonce = get_next_nonce ?our, pw_recipient_metadata = ac_recipient_metadata a\<rparr>"
  define c where "c = \<lparr>cs_total_withdraw_initiator = ?t,
    cs_total_withdraw_partner = get_max_withdraw_amount (ch_partner_state ch) ?our,
    cs_expiration = get_safe_initial_expiration bn (ch_reveal_timeout ch) None,
    cs_partner_signature_request = None, cs_partner_signature_confirmation = None,
    cs_transaction = None\<rparr>"
  define our' where "our' = ?our\<lparr>es_initiated_coop_settle := Some c, es_nonce := get_next_nonce ?our,
    es_withdraws_pending := AList.update ?t w (es_withdraws_pending ?our)\<rparr>"
  have st': "get_status (map_our_state (\<lambda>our. our\<lparr>es_initiated_coop_settle := Some c\<rparr>) ch) = STATE_OPENED"
    using st by (simp add: chan_simps)
  have ch': "ch' = ch\<lparr>ch_our_state := our'\<rparr>"
    using h True send_withdraw_request_prior [OF st', of ?t
        "get_safe_initial_expiration bn (ch_reveal_timeout ch) None" g "ac_recipient_metadata a" True]
    by (auto simp: handle_action_coop_settle_def Let_def w_def our'_def c_def soe_ok_iff
        get_next_nonce_def split: prod.splits)
  have coop: "es_initiated_coop_settle our' \<noteq> None" by (simp add: our'_def)
  show ?thesis
  proof (cases "map_of (es_withdraws_pending ?our) ?t")
    case None
    have lt: "\<forall>k\<in>set (map fst (es_withdraws_pending ?our)). k < ?t"
      using no_positive_pending [OF wf off] None nonneg(3) by (auto split: if_splits)
    show ?thesis
      unfolding ch'
      by (rule new_withdraw_inv [OF inv, where t = ?t and w = w])
         (use nonneg lt None locked coop in
           \<open>auto simp: our'_def w_def dict_update_new get_next_nonce_def end_simps\<close>)
  next
    case (Some w0)
    with no_positive_pending [OF wf off] have p: "es_withdraws_pending ?our = [(0, w0)]" and "?t = 0"
      by (auto split: if_splits)
    then have p': "es_withdraws_pending our' = [(0, w)]" by (simp add: our'_def)
    have "pair_inv E our' (ch_partner_state ch)"
      by (rule pair_inv_cong [OF chan_inv_sides(3) [OF inv]])
         (use p p' in \<open>simp_all add: our'_def end_simps get_next_nonce_def total_withdraw_def
           offchain_total_withdraw_def\<close>)
    moreover have "withdraws_inv our'"
      using p' coop nonneg \<open>?t = 0\<close>
      by (simp add: withdraws_inv_def withdraws_wf_def) (simp add: our'_def w_def)
    ultimately show ?thesis unfolding ch' by (rule chan_inv_our [OF inv])
  qed
qed

text \<open>Expiring our own withdraws: the loop always meets the head of the pending withdraws.\<close>

lemma expire_withdraw_head:
  assumes inv: "chan_inv E ch" and p: "es_withdraws_pending (ch_our_state ch) = (k, w) # ws"
  obtains ch1 g1 event where "expire_withdraw w ch g = Inr (ch1, g1, event)"
    and "es_withdraws_pending (ch_our_state ch1) = ws" and "chan_inv E ch1"
    and "get_status ch1 = get_status ch"
    and "es_nonce (ch_our_state ch1) = es_nonce (ch_our_state ch) + 1"
proof -
  let ?our = "ch_our_state ch"
  obtain mid g1 where mid: "message_identifier_from_prng g = (mid, g1)"
    by (cases "message_identifier_from_prng g")
  have winv: "withdraws_inv ?our" using inv by (simp add: chan_inv_def)
  then have k: "k = pw_total_withdraw w" "0 \<le> k" and notin: "k \<notin> set (map fst ws)"
    and pos: "\<forall>x\<in>set (map fst ws). k < x"
    using p by (auto simp: withdraws_inv_def withdraws_wf_def)
  have del: "AList.delete (pw_total_withdraw w) (es_withdraws_pending ?our) = ws"
    using k notin by (simp add: p dict_delete_absent map_of_eq_None_iff)
  define coop where "coop = (case es_initiated_coop_settle ?our of
      None \<Rightarrow> None
    | Some c \<Rightarrow> if cs_total_withdraw_initiator c = pw_total_withdraw w
        \<and> cs_expiration c = pw_expiration w then None else Some c)"
  define our' where "our' = ?our\<lparr>es_nonce := get_next_nonce ?our, es_initiated_coop_settle := coop,
    es_withdraws_expired := es_withdraws_expired ?our @
      [\<lparr>ew_total_withdraw = pw_total_withdraw w, ew_expiration = pw_expiration w,
        ew_nonce = pw_nonce w, ew_recipient_metadata = pw_recipient_metadata w\<rparr>],
    es_withdraws_pending := ws\<rparr>"
  have mem: "dict_mem (pw_total_withdraw w) (es_withdraws_pending ?our)"
    by (simp add: dict_mem_def p k)
  have run: "expire_withdraw w ch g = Inr (ch\<lparr>ch_our_state := our'\<rparr>, g1, SendWithdrawExpired
           (header (es_address (ch_partner_state ch)) (pw_recipient_metadata w)
              (ch_canonical_identifier ch) mid)
           (pw_total_withdraw w) (es_address ?our) (get_next_nonce ?our) (pw_expiration w))"
    using mem mid by (simp add: expire_withdraw_def del our'_def coop_def Let_def)
  have "total_withdraw our' \<le> total_withdraw ?our"
    using total_withdraw_delete [OF withdraws_inv_wf [OF winv], of "pw_total_withdraw w"]
    by (simp add: del our'_def total_withdraw_def offchain_total_withdraw_def)
  then have "pair_inv E our' (ch_partner_state ch)"
    by (intro pair_inv_cong [OF chan_inv_sides(3) [OF inv]])
       (simp_all add: our'_def end_simps get_next_nonce_def)
  moreover have "withdraws_inv our'"
    using winv p k pos by (auto simp: withdraws_inv_def withdraws_wf_def our'_def)
  ultimately have "chan_inv E (ch\<lparr>ch_our_state := our'\<rparr>)" by (rule chan_inv_our [OF inv])
  then show thesis
    by (rule that [OF run, rotated]) (simp_all add: our'_def chan_simps get_next_nonce_def)
qed

lemma expire_withdraws_inv:
  assumes "chan_inv E ch" and "ws = dict_values (es_withdraws_pending (ch_our_state ch))"
  shows "\<exists>ch' g' evs. expire_withdraws bn ws ch g = Inr (ch', g', evs) \<and> chan_inv E ch'
    \<and> get_status ch' = get_status ch"
  using assms
proof (induction ws arbitrary: ch g)
  case Nil
  then show ?case by simp
next
  case (Cons w ws)
  then obtain k rest where p: "es_withdraws_pending (ch_our_state ch) = (k, w) # rest"
    and ws: "ws = dict_values rest"
    by (cases "es_withdraws_pending (ch_our_state ch)") (auto simp: dict_values_def)
  from Cons.prems(1) p obtain ch1 g1 event where
    1: "expire_withdraw w ch g = Inr (ch1, g1, event)" "chan_inv E ch1"
      "es_withdraws_pending (ch_our_state ch1) = rest" "get_status ch1 = get_status ch"
    by (rule expire_withdraw_head)
  from Cons.IH [OF 1(2), of g1] ws 1(3) obtain ch2 g2 evs where
    "expire_withdraws bn ws ch1 g1 = Inr (ch2, g2, evs)" "chan_inv E ch2"
    "get_status ch2 = get_status ch1"
    by blast
  with 1 Cons.prems(1) show ?case by auto
qed

lemma chan_inv_states:
  assumes "chan_inv E ch" and "ch_our_state ch' = ch_our_state ch"
    and "ch_partner_state ch' = ch_partner_state ch"
  shows "chan_inv E ch'"
  using assms by (simp add: chan_inv_def)

lemma handle_block_inv:
  assumes inv: "chan_inv E ch" and h: "handle_block b ch bn g = Inr (Some ch', g', evs)"
  shows "chan_inv E ch'"
proof -
  obtain ch1 g1 evs1 where
    run: "(if get_status ch = STATE_OPENED then events_for_expired_withdraws ch bn g
           else Inr (ch, g, [])) = Inr (ch1, g1, evs1)" and inv1: "chan_inv E ch1"
    using expire_withdraws_inv [OF inv refl, of bn g] inv
    unfolding events_for_expired_withdraws_def by (cases "get_status ch = STATE_OPENED") auto
  have "ch_our_state ch' = ch_our_state ch1 \<and> ch_partner_state ch' = ch_partner_state ch1"
    using h unfolding handle_block_def run
    by (auto simp: result_simps Let_def split: if_splits option.splits)
  with inv1 show ?thesis by (auto intro: chan_inv_states)
qed

lemma handle_receive_withdraw_request_raises:
  "handle_receive_withdraw_request E a ch bn bh g = Inl NotImplementedError"
  by (simp add: handle_receive_withdraw_request_def is_valid_withdraw_request_def
      is_valid_withdraw_def pack_withdraw_def Let_def)

lemma confirmation_never_valid: "is_valid_withdraw_confirmation E ch a \<noteq> Inr []"
  by (auto simp: is_valid_withdraw_confirmation_def is_valid_withdraw_def pack_withdraw_def Let_def
      split: option.splits)

lemma handle_receive_withdraw_confirmation_unchanged:
  assumes "handle_receive_withdraw_confirmation E a ch bn bh g = Inr (ch', g', evs)"
  shows "ch' = Some ch"
proof -
  from assms obtain v where v: "is_valid_withdraw_confirmation E ch a = Inr v"
    by (auto simp: handle_receive_withdraw_confirmation_def result_simps)
  with confirmation_never_valid [of E ch a] have "\<not> soe_ok v" by (simp add: soe_ok_iff)
  with assms v show ?thesis
    by (simp add: handle_receive_withdraw_confirmation_def with_error_text_def result_simps Let_def)
qed

lemma withdraws_wf_delete:
  "withdraws_wf es \<Longrightarrow> es_withdraws_pending es' = AList.delete k (es_withdraws_pending es) \<Longrightarrow>
   0 \<le> es_onchain_total_withdraw es' \<Longrightarrow> withdraws_wf es'"
  using set_delete_subset [of k "es_withdraws_pending es"]
  by (auto simp: withdraws_wf_def list_all_iff dict_ok_delete)

lemma handle_receive_withdraw_expired_inv:
  assumes inv: "chan_inv E ch"
    and h: "handle_receive_withdraw_expired a ch bn g = Inr (Some ch', g', evs)"
  shows "chan_inv E ch'"
proof (cases "map_of (es_withdraws_pending (ch_partner_state ch)) (rwe_total_withdraw a)")
  case None
  with h inv show ?thesis by (simp add: handle_receive_withdraw_expired_def)
next
  case (Some w)
  let ?p = "ch_partner_state ch"
  show ?thesis
  proof (cases "is_valid_withdraw_expired ch a w bn = []")
    case False
    with h Some inv show ?thesis
      by (auto simp: handle_receive_withdraw_expired_def with_error_text_def result_simps Let_def
          soe_ok_iff)
  next
    case True
    then have nonce: "rwe_nonce a = es_nonce ?p + 1"
      by (auto simp: is_valid_withdraw_expired_def Let_def get_next_nonce_def split: if_splits)
    define p' where "p' = ch_partner_state ch'"
    have ch': "ch' = ch\<lparr>ch_partner_state := p'\<rparr>"
      and f: "es_withdraws_pending p' = AList.delete (pw_total_withdraw w) (es_withdraws_pending ?p)"
        "es_nonce p' = rwe_nonce a" "lock_assoc p' = lock_assoc ?p"
        "es_pending_locks p' = es_pending_locks ?p" "es_balance_proof p' = es_balance_proof ?p"
        "es_contract_balance p' = es_contract_balance ?p"
        "es_onchain_total_withdraw p' = es_onchain_total_withdraw ?p"
      using h Some True
      by (auto simp: handle_receive_withdraw_expired_def p'_def result_simps Let_def soe_ok_iff
          end_simps)
    have wf: "withdraws_wf ?p" using inv by (simp add: chan_inv_def)
    have "total_withdraw p' \<le> total_withdraw ?p"
      using total_withdraw_delete [OF wf, of "pw_total_withdraw w"] f
      by (simp add: total_withdraw_def offchain_total_withdraw_def)
    then have "pair_inv E p' (ch_our_state ch)"
      by (intro pair_inv_cong [OF chan_inv_sides(4) [OF inv]]) (simp_all add: f nonce)
    moreover have "withdraws_wf p'"
      using wf by (rule withdraws_wf_delete) (use wf f in \<open>simp_all add: withdraws_wf_def\<close>)
    ultimately show ?thesis
      unfolding ch' using inv by (intro chan_inv_partner) (simp_all add: chan_inv_def partner_signed_def f)
  qed
qed

end
