(* ===== verification/Examples.thy ===== *)
theory Examples
  imports Channel_Handlers
begin

text \<open>
  Concrete data on which the theorems of the development are applied: a platform with executable
  stand-ins for the third-party functions, two participants, and a channel in which each of them has
  deposited ten tokens.
\<close>

definition ex_platform :: platform where
  "ex_platform = \<lparr>
     keccak = (\<lambda>x. if x = [] then replicate 32 0 else replicate 32 1),
     sha256 = (\<lambda>x. replicate 32 (if x = [] then 0 else hd x)),
     ecdsa_recover = (\<lambda>h s. Some (replicate 20 (hd s))),
     proofs_pack_balance_proof = (\<lambda>tn chain channel nonce balance_hash additional_hash. balance_hash),
     libm_pow = (\<lambda>x y. Some 1)\<rparr>"

definition ex_alice :: address where "ex_alice = replicate 20 1"
definition ex_bob :: address where "ex_bob = replicate 20 2"
definition ex_secret :: secret where "ex_secret = replicate 32 9"
definition ex_secrethash :: secrethash where "ex_secrethash = replicate 32 9"

definition ex_ci :: canonical_identifier where
  "ex_ci = \<lparr>ci_chain_identifier = 1, ci_token_network_address = replicate 20 3,
            ci_channel_identifier = 1\<rparr>"

definition ex_fees :: fee_schedule where
  "ex_fees = \<lparr>fs_cap_fees = True, fs_flat = 0, fs_proportional = 0, fs_imbalance_penalty = None,
              fs_penalty_func = None\<rparr>"

definition ex_end :: "address \<Rightarrow> end_state" where
  "ex_end a = \<lparr>es_address = a, es_contract_balance = 10, es_onchain_total_withdraw = 0,
     es_withdraws_pending = [], es_initiated_coop_settle = None, es_expired_coop_settles = [],
     es_withdraws_expired = [], es_lockedlocks = [], es_unlockedlocks = [],
     es_onchain_unlockedlocks = [], es_balance_proof = None, es_pending_locks = [],
     es_onchain_locksroot = replicate 32 0, es_nonce = 0\<rparr>"

definition ex_channel :: "address \<Rightarrow> address \<Rightarrow> channel" where
  "ex_channel a b = \<lparr>ch_canonical_identifier = ex_ci, ch_token_address = replicate 20 4,
     ch_token_network_registry_address = replicate 20 5, ch_reveal_timeout = 20,
     ch_settle_timeout = 500, ch_fee_schedule = ex_fees, ch_our_state = ex_end a,
     ch_partner_state = ex_end b,
     ch_open_transaction = \<lparr>stx_finished_block_number = 1, stx_started_block_number = None\<rparr>,
     ch_close_transaction = None, ch_settle_transaction = None, ch_update_transaction = None\<rparr>"

definition ex_lock :: lock where
  "ex_lock = \<lparr>lk_amount = 4, lk_expiration = 50, lk_secrethash = ex_secrethash\<rparr>"

definition ex_prng :: prng where
  "ex_prng = \<lparr>prng_draws = (\<lambda>n. int n), prng_pos = 0\<rparr>"

text \<open>The state part of a successful result.\<close>

definition result_state :: "'s \<Rightarrow> ('s \<times> 'a) result \<Rightarrow> 's" where
  "result_state d m = (case m of Inr (s, x) \<Rightarrow> s | Inl e \<Rightarrow> d)"

lemma result_stateI: "\<not> isl m \<Longrightarrow> \<exists>x. m = Inr (result_state d m, x)"
  by (cases m) (auto simp: result_state_def)

text \<open>Alice locks four tokens for Bob.\<close>

definition ex_send :: "(channel \<times> send_locked_transfer_event) result" where
  "ex_send = send_lockedtransfer ex_platform (ex_channel ex_alice ex_bob) ex_alice ex_bob 4 77 5 50
     (Some ex_secret) ex_secrethash [] None None"

definition ex_locked :: channel where
  "ex_locked = result_state (ex_channel ex_alice ex_bob) ex_send"

lemma ex_send_ok: "\<exists>ev. ex_send = Inr (ex_locked, ev)"
  unfolding ex_locked_def by (rule result_stateI) code_simp

text \<open>The message that carries the transfer: the stand-in for signature recovery only looks at the
  first byte.\<close>

definition ex_sign :: "byte \<Rightarrow> balance_proof \<Rightarrow> signed_balance_proof" where
  "ex_sign n bp = \<lparr>bp_nonce = bp_nonce bp, bp_transferred_amount = bp_transferred_amount bp,
     bp_locked_amount = bp_locked_amount bp, bp_locksroot = bp_locksroot bp,
     bp_canonical_identifier = bp_canonical_identifier bp, bp_balance_hash = bp_balance_hash bp,
     bp_message_hash = replicate 32 7, bp_signature = replicate 65 n, bp_sender = replicate 20 n\<rparr>"

definition ex_signed_transfer :: "byte \<Rightarrow> send_locked_transfer_event \<Rightarrow> locked_transfer_signed" where
  "ex_signed_transfer n ev = (let t = slt_transfer ev in
     \<lparr>lt_payment_identifier = lt_payment_identifier t, lt_token = lt_token t, lt_lock = lt_lock t,
      lt_initiator = lt_initiator t, lt_target = lt_target t, lt_route_states = lt_route_states t,
      lt_metadata = lt_metadata t, lt_secret = None,
      lts_message_identifier = mh_message_identifier (slt_header ev),
      lts_balance_proof = ex_sign n (ltu_balance_proof t)\<rparr>)"

lemma ex_sign_truncate: "balance_proof.truncate (ex_sign n bp) = bp"
  by (simp add: ex_sign_def balance_proof.truncate_def)

lemma ex_sign_valid:
  assumes "hash_balance_data ex_platform (bp_transferred_amount bp) (bp_locked_amount bp)
      (bp_locksroot bp) = Inr h" and "n < 27"
  shows "is_valid_balanceproof_signature ex_platform (ex_sign n bp) (replicate 20 n) = Inr []"
proof -
  have "ecdsa_recover ex_platform x (replicate 65 n) = Some (replicate 20 n)" for x
    by (simp add: ex_platform_def)
  moreover have "\<not> 27 \<le> n" using assms(2) by (simp only: not_le)
  then have "normalise_signature (replicate 65 n) = Inr (replicate 65 n)"
    by (simp add: normalise_signature_def raise_if_def last_replicate)
  ultimately show ?thesis
    using assms(1)
    by (simp add: is_valid_balanceproof_signature_def is_valid_signature_def recover_def Let_def
        ex_sign_def)
qed

text \<open>The transfer as Bob receives it, and Bob's channel afterwards.\<close>

definition ex_bp :: balance_proof where
  "ex_bp = \<lparr>bp_nonce = 1, bp_transferred_amount = 0, bp_locked_amount = 4,
     bp_locksroot = replicate 32 1, bp_canonical_identifier = ex_ci,
     bp_balance_hash = replicate 32 1\<rparr>"

definition ex_transfer :: locked_transfer_signed where
  "ex_transfer = \<lparr>lt_payment_identifier = 5, lt_token = replicate 20 4, lt_lock = ex_lock,
     lt_initiator = ex_alice, lt_target = ex_bob, lt_route_states = [], lt_metadata = None,
     lt_secret = None, lts_message_identifier = 77, lts_balance_proof = ex_sign 1 ex_bp\<rparr>"

definition ex_receive :: "(channel \<times> bool \<times> event list \<times> error_message option) result" where
  "ex_receive = handle_receive_lockedtransfer ex_platform (ex_channel ex_bob ex_alice) ex_transfer None"

definition ex_bob_locked :: channel where
  "ex_bob_locked = result_state (ex_channel ex_bob ex_alice) ex_receive"

definition accepted :: "(channel \<times> bool \<times> event list \<times> error_message option) result \<Rightarrow> bool" where
  "accepted m = (case m of Inr (ch, ok, evs, e) \<Rightarrow> ok \<and> e = None | Inl _ \<Rightarrow> False)"

lemma acceptedI: "accepted m \<Longrightarrow> \<exists>evs. m = Inr (result_state d m, True, evs, None)"
  by (cases m) (auto simp: accepted_def result_state_def split: prod.splits)

lemma ex_receive_ok: "\<exists>evs. ex_receive = Inr (ex_bob_locked, True, evs, None)"
  unfolding ex_bob_locked_def by (rule acceptedI) code_simp

text \<open>Alice unlocks, Bob receives the unlock.\<close>

definition ex_unlock :: "(channel \<times> send_unlock_event) result" where
  "ex_unlock = send_unlock ex_platform ex_locked 78 5 ex_secret ex_secrethash 3 None"

definition ex_unlocked :: channel where
  "ex_unlocked = result_state ex_locked ex_unlock"

lemma ex_unlock_ok: "\<exists>u. ex_unlock = Inr (ex_unlocked, u)"
  unfolding ex_unlocked_def by (rule result_stateI) code_simp

definition ex_unlock_message :: receive_unlock where
  "ex_unlock_message = mk_receive_unlock ex_platform ex_alice (ex_sign 1
     \<lparr>bp_nonce = 2, bp_transferred_amount = 4, bp_locked_amount = 0, bp_locksroot = replicate 32 0,
      bp_canonical_identifier = ex_ci, bp_balance_hash = replicate 32 1\<rparr>) 78 ex_secret"

definition ex_receive_unlock :: "(channel \<times> bool \<times> event list \<times> error_message option) result" where
  "ex_receive_unlock = handle_unlock ex_platform ex_bob_locked ex_unlock_message None"

definition ex_bob_unlocked :: channel where
  "ex_bob_unlocked = result_state ex_bob_locked ex_receive_unlock"

lemma ex_receive_unlock_ok: "\<exists>evs. ex_receive_unlock = Inr (ex_bob_unlocked, True, evs, None)"
  unfolding ex_bob_unlocked_def by (rule acceptedI) code_simp

end
