(* ===== verification/Channel_Runs.thy ===== *)
theory Channel_Runs
  imports Channel_Safety Examples
begin

text \<open>
  Preservation of the channel invariant by the on-chain handlers, the step relation of a channel and
  its reachable states. A step is a call that some component of the node makes on a channel: sending
  or receiving a balance-proof message, registering a secret, or dispatching a state change. The
  guards of the relation are the obligations of the callers and of the smart contract:
  \<^item> a lock is only introduced under a secrethash that is not pending on that side (the node keeps
    one task per secrethash), and a received lock has passed the constructor of its class;
  \<^item> a lock is only expired if it is pending and not unlocked on-chain;
  \<^item> a withdraw that the user asks for leaves the pending locks covered (the code itself compares
    with the balance only);
  \<^item> a withdraw seen on-chain does not exceed the total that was agreed off-chain.
\<close>

subsection \<open>On-chain handlers\<close>

lemma update_fee_schedule_states:
  assumes "update_fee_schedule_after_balance_change E ch config = Inr ch'"
  shows "ch_our_state ch' = ch_our_state ch" and "ch_partner_state ch' = ch_partner_state ch"
    and "get_status ch' = get_status ch"
  using assms
  by (auto simp: update_fee_schedule_after_balance_change_def result_simps Let_def chan_simps)

lemma pair_inv_deposit: "pair_inv E s r \<Longrightarrow> pair_inv E (update_contract_balance b s) r"
  by (auto simp: update_contract_balance_def end_simps total_withdraw_def
      offchain_total_withdraw_def intro: pair_inv_cong)

lemma update_contract_balance_fields [end_simps]:
  "es_withdraws_pending (update_contract_balance b es) = es_withdraws_pending es"
  "es_onchain_total_withdraw (update_contract_balance b es) = es_onchain_total_withdraw es"
  "es_initiated_coop_settle (update_contract_balance b es) = es_initiated_coop_settle es"
  "es_balance_proof (update_contract_balance b es) = es_balance_proof es"
  by (simp_all add: update_contract_balance_def)

lemma chan_inv_map_our:
  assumes "chan_inv E ch" and "\<And>r. pair_inv E (ch_our_state ch) r \<Longrightarrow> pair_inv E (f (ch_our_state ch)) r"
    and "withdraws_inv (ch_our_state ch) \<Longrightarrow> withdraws_inv (f (ch_our_state ch))"
  shows "chan_inv E (map_our_state f ch)"
  using assms by (auto simp: chan_inv_def)

lemma chan_inv_map_partner:
  assumes "chan_inv E ch"
    and "\<And>r. pair_inv E (ch_partner_state ch) r \<Longrightarrow> pair_inv E (f (ch_partner_state ch)) r"
    and "withdraws_wf (ch_partner_state ch) \<Longrightarrow> withdraws_wf (f (ch_partner_state ch))"
    and "es_balance_proof (f (ch_partner_state ch)) = es_balance_proof (ch_partner_state ch)"
  shows "chan_inv E (map_partner_state f ch)"
  using assms chan_inv_sides(4) [OF assms(1)]
  by (intro chan_inv_partner) (auto simp: chan_inv_def partner_signed_def)

lemma handle_channel_deposit_inv:
  assumes inv: "chan_inv E ch" and h: "handle_channel_deposit E a ch g = Inr (Some ch', g', evs)"
  shows "chan_inv E ch'"
proof -
  let ?b = "td_contract_balance (crd_deposit_transaction a)"
  have our: "chan_inv E (map_our_state (update_contract_balance ?b) ch)"
    by (rule chan_inv_map_our [OF inv pair_inv_deposit])
       (auto simp: end_simps intro: withdraws_inv_cong)
  have partner: "chan_inv E (map_partner_state (update_contract_balance ?b) ch)"
    by (rule chan_inv_map_partner [OF inv pair_inv_deposit])
       (auto simp: end_simps intro: withdraws_wf_cong)
  from h inv our partner obtain ch1 where "chan_inv E ch1"
    and "update_fee_schedule_after_balance_change E ch1 (crd_fee_config a) = Inr ch'"
    by (auto simp: handle_channel_deposit_def result_simps Let_def split: if_splits)
  then show ?thesis by (auto intro: chan_inv_states dest: update_fee_schedule_states)
qed

lemma register_onchain_withdraw_fields:
  "es_withdraws_pending (register_onchain_withdraw t es) = AList.delete t (es_withdraws_pending es)"
  "es_onchain_total_withdraw (register_onchain_withdraw t es) = t"
  "lock_assoc (register_onchain_withdraw t es) = lock_assoc es"
  "es_pending_locks (register_onchain_withdraw t es) = es_pending_locks es"
  "es_balance_proof (register_onchain_withdraw t es) = es_balance_proof es"
  "es_nonce (register_onchain_withdraw t es) = es_nonce es"
  "es_contract_balance (register_onchain_withdraw t es) = es_contract_balance es"
  "es_initiated_coop_settle (register_onchain_withdraw t es) = es_initiated_coop_settle es"
  by (simp_all add: register_onchain_withdraw_def dict_delete_absent end_simps split: option.splits)

lemma total_withdraw_onchain:
  assumes "withdraws_wf es" and "t \<le> total_withdraw es"
  shows "total_withdraw (register_onchain_withdraw t es) \<le> total_withdraw es"
  using total_withdraw_delete [OF assms(1), of t] assms(2)
  by (auto simp: total_withdraw_def offchain_total_withdraw_def register_onchain_withdraw_fields)

lemma pair_inv_onchain_withdraw:
  assumes "pair_inv E s r" and "withdraws_wf s" and "t \<le> total_withdraw s"
  shows "pair_inv E (register_onchain_withdraw t s) r"
  using total_withdraw_onchain [OF assms(2,3)]
  by (intro pair_inv_cong [OF assms(1)]) (simp_all add: register_onchain_withdraw_fields)

lemma withdraws_wf_onchain:
  "withdraws_wf es \<Longrightarrow> 0 \<le> t \<Longrightarrow> withdraws_wf (register_onchain_withdraw t es)"
  by (erule withdraws_wf_delete) (simp_all add: register_onchain_withdraw_fields)

lemma withdraws_inv_onchain:
  assumes "withdraws_inv es" and "0 \<le> t"
  shows "withdraws_inv (register_onchain_withdraw t es)"
proof -
  have "set (map fst (AList.delete t (es_withdraws_pending es)))
      \<subseteq> set (map fst (es_withdraws_pending es))"
    using set_delete_subset [of t "es_withdraws_pending es"] by auto
  with assms withdraws_wf_onchain [of es t] show ?thesis
    by (auto simp: withdraws_inv_def register_onchain_withdraw_fields sorted_keys_delete)
qed

lemma handle_channel_withdraw_inv:
  assumes inv: "chan_inv E ch"
    and guard: "0 \<le> crw_total_withdraw a"
      "crw_participant a = es_address (ch_our_state ch) \<Longrightarrow> crw_total_withdraw a \<le> our_total_withdraw ch"
      "crw_participant a = es_address (ch_partner_state ch) \<Longrightarrow>
        crw_total_withdraw a \<le> partner_total_withdraw ch"
    and h: "handle_channel_withdraw E a ch g = Inr (Some ch', g', evs)"
  shows "chan_inv E ch'"
proof -
  let ?t = "crw_total_withdraw a"
  have wf: "withdraws_wf (ch_our_state ch)" "withdraws_wf (ch_partner_state ch)"
    using inv by (auto simp: chan_inv_def withdraws_inv_def)
  have our: "chan_inv E (map_our_state (register_onchain_withdraw ?t) ch)"
    if "crw_participant a = es_address (ch_our_state ch)"
    by (rule chan_inv_map_our [OF inv])
       (use wf guard that in \<open>auto simp: our_total_withdraw_def
         intro: pair_inv_onchain_withdraw withdraws_inv_onchain\<close>)
  have partner: "chan_inv E (map_partner_state (register_onchain_withdraw ?t) ch)"
    if "crw_participant a = es_address (ch_partner_state ch)"
    by (rule chan_inv_map_partner [OF inv])
       (use wf guard that in \<open>auto simp: partner_total_withdraw_def register_onchain_withdraw_fields
         intro: pair_inv_onchain_withdraw withdraws_wf_onchain\<close>)
  from h inv our partner have "ch' = ch \<or> (\<exists>ch1. chan_inv E ch1
      \<and> update_fee_schedule_after_balance_change E ch1 (crw_fee_config a) = Inr ch')"
    by (auto simp: handle_channel_withdraw_def result_simps Let_def split: if_splits)
  with inv show ?thesis by (auto intro: chan_inv_states dest: update_fee_schedule_states)
qed

text \<open>A settlement that matches a coop-settle clears the channel, so a surviving channel only records
  the on-chain locksroots.\<close>

lemma settle_end_state_unmatched:
  assumes "settle_end_state E bn ia il pa pl es = Inr (es', m)"
    and "\<not> (il = LOCKSROOT_OF_NO_LOCKS E \<and> pl = LOCKSROOT_OF_NO_LOCKS E)"
  shows "es' = es \<and> \<not> m"
  using assms
  by (auto simp: settle_end_state_def coop_settle_matches_def split: option.splits if_splits)

lemma handle_channel_settled_states:
  assumes "handle_channel_settled E a ch g = Inr (Some ch', g', evs)"
  shows "\<exists>r1 r2. ch_our_state ch' = (ch_our_state ch)\<lparr>es_onchain_locksroot := r1\<rparr>
    \<and> ch_partner_state ch' = (ch_partner_state ch)\<lparr>es_onchain_locksroot := r2\<rparr>"
proof (cases "ci_channel_identifier (crs_canonical_identifier a) = channel_identifier ch")
  case False
  with assms show ?thesis
    by (intro exI [of _ "es_onchain_locksroot (ch_our_state ch)"]
        exI [of _ "es_onchain_locksroot (ch_partner_state ch)"])
       (simp add: handle_channel_settled_def)
next
  case True
  let ?r = "crs_our_onchain_locksroot a" and ?r' = "crs_partner_onchain_locksroot a"
  have st: "ch_our_state (set_settled n ch) = ch_our_state ch"
    "ch_partner_state (set_settled n ch) = ch_partner_state ch" for n
    by (simp_all add: set_settled_def)
  from assms True obtain our om partner pm where
    1: "settle_end_state E (cr_block_number a) (crs_our_transferred_amount a) ?r
      (crs_partner_transferred_amount a) ?r' (ch_our_state ch) = Inr (our, om)" and
    2: "settle_end_state E (cr_block_number a) (crs_partner_transferred_amount a) ?r'
      (crs_our_transferred_amount a) ?r (ch_partner_state ch) = Inr (partner, pm)" and
    3: "\<not> (?r = LOCKSROOT_OF_NO_LOCKS E \<and> ?r' = LOCKSROOT_OF_NO_LOCKS E)" and
    4: "ch_our_state ch' = (if om \<or> pm then our\<lparr>es_onchain_total_withdraw :=
          crs_our_transferred_amount a\<rparr> else our)\<lparr>es_onchain_locksroot := ?r\<rparr>"
      "ch_partner_state ch' = (if om \<or> pm then partner\<lparr>es_onchain_total_withdraw :=
          crs_partner_transferred_amount a\<rparr> else partner)\<lparr>es_onchain_locksroot := ?r'\<rparr>"
    unfolding handle_channel_settled_def Let_def
    by (auto simp: result_simps st split: if_splits)
  with settle_end_state_unmatched [OF 1 3] settle_end_state_unmatched [OF 2] show ?thesis by auto
qed

lemma pair_inv_onchain_locksroot:
  "pair_inv E s r \<Longrightarrow> pair_inv E (s\<lparr>es_onchain_locksroot := x\<rparr>) r"
  by (erule pair_inv_cong) (simp_all add: end_simps total_withdraw_def offchain_total_withdraw_def)

lemma chan_inv_onchain_locksroots:
  assumes inv: "chan_inv E ch"
    and o: "ch_our_state ch' = (ch_our_state ch)\<lparr>es_onchain_locksroot := r1\<rparr>"
    and p: "ch_partner_state ch' = (ch_partner_state ch)\<lparr>es_onchain_locksroot := r2\<rparr>"
  shows "chan_inv E ch'"
proof -
  have "pair_inv E ((ch_our_state ch)\<lparr>es_onchain_locksroot := r1\<rparr>) (ch_partner_state ch)"
    by (rule pair_inv_onchain_locksroot [OF chan_inv_sides(3) [OF inv]])
  then have "pair_inv E (ch_our_state ch') (ch_partner_state ch')"
    using o p pair_inv_onchain_locksroot pair_inv_sym by metis
  with inv show ?thesis
    by (simp add: chan_inv_def o p withdraws_inv_def withdraws_wf_def partner_signed_def)
qed

lemma handle_channel_batch_unlock_states:
  assumes "handle_channel_batch_unlock E a ch g = Inr (Some ch', g', evs)"
  shows "\<exists>r1 r2. ch_our_state ch' = (ch_our_state ch)\<lparr>es_onchain_locksroot := r1\<rparr>
    \<and> ch_partner_state ch' = (ch_partner_state ch)\<lparr>es_onchain_locksroot := r2\<rparr>"
  by (intro exI [of _ "es_onchain_locksroot (ch_our_state ch')"]
      exI [of _ "es_onchain_locksroot (ch_partner_state ch')"])
     (use assms in \<open>auto simp: handle_channel_batch_unlock_def Let_def split: if_splits\<close>)

lemma unchanged_states:
  "handle_action_close ci ch bn bh g = Inr (Some ch', g', evs) \<Longrightarrow>
     ch_our_state ch' = ch_our_state ch \<and> ch_partner_state ch' = ch_partner_state ch"
  "handle_action_set_reveal_timeout ar ch g = Inr (Some ch', g', evs) \<Longrightarrow>
     ch_our_state ch' = ch_our_state ch \<and> ch_partner_state ch' = ch_partner_state ch"
  "handle_channel_closed ac ch g = Inr (Some ch', g', evs) \<Longrightarrow>
     ch_our_state ch' = ch_our_state ch \<and> ch_partner_state ch' = ch_partner_state ch"
  "handle_channel_updated_transfer au ch bn g = Inr (Some ch', g', evs) \<Longrightarrow>
     ch_our_state ch' = ch_our_state ch \<and> ch_partner_state ch' = ch_partner_state ch"
  by (auto simp: handle_action_close_def events_for_close_def handle_action_set_reveal_timeout_def
      handle_channel_closed_def handle_channel_updated_transfer_def set_closed_def result_simps
      Let_def split: if_splits option.splits)

subsection \<open>State changes\<close>

definition admissible :: "channel \<Rightarrow> channel_state_change \<Rightarrow> bool" where
  "admissible ch sc \<longleftrightarrow>
     (case sc of
        ActionChannelWithdraw a \<Rightarrow>
          get_amount_locked (ch_our_state ch) + aw_total_withdraw a
            \<le> get_max_withdraw_amount (ch_our_state ch) (ch_partner_state ch)
      | ContractReceiveChannelWithdraw a \<Rightarrow>
          0 \<le> crw_total_withdraw a
          \<and> (crw_participant a = es_address (ch_our_state ch) \<longrightarrow>
               crw_total_withdraw a \<le> our_total_withdraw ch)
          \<and> (crw_participant a = es_address (ch_partner_state ch) \<longrightarrow>
               crw_total_withdraw a \<le> partner_total_withdraw ch)
      | _ \<Rightarrow> True)"

lemma handle_state_transitions_inv:
  assumes inv: "chan_inv E ch" and adm: "admissible ch sc"
    and h: "handle_state_transitions E sc ch bn bh g = Inr (Some ch', g', evs)"
  shows "chan_inv E ch'"
proof (cases sc)
  case (ActionChannelWithdraw a)
  with assms show ?thesis
    by (auto simp: handle_state_transitions_def admissible_def intro: handle_action_withdraw_inv)
next
  case (ContractReceiveChannelWithdraw a)
  with assms show ?thesis
    by (auto simp: handle_state_transitions_def admissible_def intro: handle_channel_withdraw_inv)
next
  case (ContractReceiveChannelSettled a)
  with h have "handle_channel_settled E a ch g = Inr (Some ch', g', evs)"
    by (simp add: handle_state_transitions_def)
  from handle_channel_settled_states [OF this] inv show ?thesis
    by (auto intro: chan_inv_onchain_locksroots)
next
  case (ContractReceiveChannelBatchUnlock a)
  with h have "handle_channel_batch_unlock E a ch g = Inr (Some ch', g', evs)"
    by (simp add: handle_state_transitions_def)
  from handle_channel_batch_unlock_states [OF this] inv show ?thesis
    by (auto intro: chan_inv_onchain_locksroots)
next
  case (ReceiveWithdrawConfirmation a)
  with h inv show ?thesis
    by (auto simp: handle_state_transitions_def
        dest: handle_receive_withdraw_confirmation_unchanged)
next
  case (ReceiveWithdrawRequest a)
  with h show ?thesis
    by (simp add: handle_state_transitions_def handle_receive_withdraw_request_raises)
next
  case (ActionChannelCoopSettle a)
  with h show ?thesis
    by (simp add: handle_state_transitions_def handle_action_coop_settle_inv [OF inv])
next
  case (ReceiveWithdrawExpired a)
  with h show ?thesis
    by (simp add: handle_state_transitions_def handle_receive_withdraw_expired_inv [OF inv])
next
  case (Block a)
  with h show ?thesis by (simp add: handle_state_transitions_def handle_block_inv [OF inv])
next
  case (ContractReceiveChannelDeposit a)
  with h show ?thesis by (simp add: handle_state_transitions_def handle_channel_deposit_inv [OF inv])
next
  case (ActionChannelClose a)
  with h have "handle_action_close a ch bn bh g = Inr (Some ch', g', evs)"
    by (simp add: handle_state_transitions_def)
  with inv show ?thesis by (auto dest: unchanged_states(1) intro: chan_inv_states)
next
  case (ActionChannelSetRevealTimeout a)
  with h have "handle_action_set_reveal_timeout a ch g = Inr (Some ch', g', evs)"
    by (simp add: handle_state_transitions_def)
  with inv show ?thesis by (auto dest: unchanged_states(2) intro: chan_inv_states)
next
  case (ContractReceiveChannelClosed a)
  with h have "handle_channel_closed a ch g = Inr (Some ch', g', evs)"
    by (simp add: handle_state_transitions_def)
  with inv show ?thesis by (auto dest: unchanged_states(3) intro: chan_inv_states)
next
  case (ContractReceiveUpdateTransfer a)
  with h have "handle_channel_updated_transfer a ch bn g = Inr (Some ch', g', evs)"
    by (simp add: handle_state_transitions_def)
  with inv show ?thesis by (auto dest: unchanged_states(4) intro: chan_inv_states)
next
  case OtherStateChange
  with h inv show ?thesis by (simp add: handle_state_transitions_def)
qed

subsection \<open>Steps and reachable states\<close>

inductive chan_step :: "platform \<Rightarrow> channel \<Rightarrow> channel \<Rightarrow> bool" for E :: platform where
  step_send_lockedtransfer:
    "get_lock (ch_our_state ch) sh = None \<Longrightarrow>
     send_lockedtransfer E ch initiator target amount mid pid expiration secret sh routes md pmd
       = Inr (ch', ev) \<Longrightarrow> chan_step E ch ch'"
| step_send_unlock:
    "send_unlock E ch mid pid secret sh bn md = Inr (ch', u) \<Longrightarrow> chan_step E ch ch'"
| step_send_lock_expired:
    "get_lock (ch_our_state ch) (lk_secrethash l) = Some l \<Longrightarrow>
     \<not> dict_mem (lk_secrethash l) (es_onchain_unlockedlocks (ch_our_state ch)) \<Longrightarrow>
     send_lock_expired E ch l g md = Inr (ch', g', evs) \<Longrightarrow> chan_step E ch ch'"
| step_receive_lockedtransfer:
    "valid_lock (lt_lock t) \<Longrightarrow>
     get_lock (ch_partner_state ch) (lk_secrethash (lt_lock t)) = None \<Longrightarrow>
     handle_receive_lockedtransfer E ch t md = Inr (ch', ok, evs, m) \<Longrightarrow> chan_step E ch ch'"
| step_receive_refund:
    "valid_lock (lt_lock (rtr_transfer refund)) \<Longrightarrow>
     get_lock (ch_partner_state ch) (lk_secrethash (lt_lock (rtr_transfer refund))) = None \<Longrightarrow>
     handle_refundtransfer E received ch refund = Inr (ch', ok, evs, m) \<Longrightarrow> chan_step E ch ch'"
| step_receive_unlock:
    "handle_unlock E ch u md = Inr (ch', ok, evs, m) \<Longrightarrow> chan_step E ch ch'"
| step_receive_lock_expired:
    "handle_receive_lock_expired E ch sc bn md = Inr (ch', evs) \<Longrightarrow> chan_step E ch ch'"
| step_register_offchain_secret:
    "chan_step E ch (register_offchain_secret ch secret sh)"
| step_register_onchain_secret:
    "register_onchain_secret ch secret sh n True = Inr ch' \<Longrightarrow> chan_step E ch ch'"
| step_state_change:
    "admissible ch sc \<Longrightarrow> handle_state_transitions E sc ch bn bh g = Inr (Some ch', g', evs) \<Longrightarrow>
     chan_step E ch ch'"

inductive chan_reach :: "platform \<Rightarrow> channel \<Rightarrow> channel \<Rightarrow> bool" for E :: platform where
  reach_refl: "chan_reach E ch ch"
| reach_step: "chan_reach E ch ch' \<Longrightarrow> chan_step E ch' ch'' \<Longrightarrow> chan_reach E ch ch''"

lemma chan_step_inv: "chan_step E ch ch' \<Longrightarrow> chan_inv E ch \<Longrightarrow> chan_inv E ch'"
proof (induction rule: chan_step.induct)
  case step_send_lockedtransfer
  then show ?case by (rule send_lockedtransfer_inv [rotated])
next
  case step_send_unlock
  then show ?case by (rule send_unlock_inv [rotated])
next
  case step_send_lock_expired
  then show ?case by (rule send_lock_expired_inv [rotated])
next
  case step_receive_lockedtransfer
  then show ?case by (rule handle_receive_lockedtransfer_inv [rotated])
next
  case step_receive_refund
  then show ?case by (rule handle_refundtransfer_inv [rotated])
next
  case step_receive_unlock
  then show ?case by (rule handle_unlock_inv [rotated])
next
  case step_receive_lock_expired
  then show ?case by (rule handle_receive_lock_expired_inv [rotated])
next
  case step_register_offchain_secret
  then show ?case by (rule register_offchain_secret_inv)
next
  case step_register_onchain_secret
  then show ?case by (rule register_onchain_secret_inv [rotated])
next
  case step_state_change
  then show ?case by (rule handle_state_transitions_inv [rotated])
qed

lemma chan_reach_inv: "chan_reach E ch ch' \<Longrightarrow> chan_inv E ch \<Longrightarrow> chan_inv E ch'"
  by (induction rule: chan_reach.induct) (auto intro: chan_step_inv)

text \<open>A freshly opened channel satisfies the invariant.\<close>

lemma new_end_state_inv:
  assumes "mk_end_state E a b = Inr es"
  shows "end_inv E es" and "withdraws_inv es" and "get_amount_locked es = 0"
    and "total_withdraw es = 0" and "transferred_amount es = 0" and "0 \<le> es_contract_balance es"
    and "es_balance_proof es = None"
proof -
  have "0 \<le> UINT256_MAX" by simp
  with assms show "end_inv E es" and "withdraws_inv es" and "get_amount_locked es = 0"
    and "total_withdraw es = 0" and "transferred_amount es = 0" and "0 \<le> es_contract_balance es"
    and "es_balance_proof es = None"
    by (auto simp: mk_end_state_def result_simps end_inv_def bp_inv_def locks_wf_def lock_assoc_def
        withdraws_inv_def withdraws_wf_def get_amount_locked_assoc total_withdraw_def
        offchain_total_withdraw_def transferred_amount_def)
qed

lemma new_channel_inv:
  assumes "mk_end_state E a1 b1 = Inr our" and "mk_end_state E a2 b2 = Inr partner"
    and "mk_channel ci token registry reveal settle fees our partner tx = Inr ch"
  shows "chan_inv E ch"
proof -
  from assms(3) have "ch_our_state ch = our" and "ch_partner_state ch = partner"
    by (auto simp: mk_channel_def result_simps)
  then show ?thesis
    using new_end_state_inv [OF assms(1)] new_end_state_inv [OF assms(2)]
    by (simp add: chan_inv_def pair_inv_def solvent_def get_balance_eq partner_signed_def
        withdraws_inv_wf)
qed

subsection \<open>Reachable channels are sane\<close>

lemma ex_channel_new:
  "mk_end_state ex_platform ex_alice 10 = Inr (ex_end ex_alice)"
  "mk_end_state ex_platform ex_bob 10 = Inr (ex_end ex_bob)"
  "mk_channel ex_ci (replicate 20 4) (replicate 20 5) 20 500 ex_fees (ex_end ex_alice) (ex_end ex_bob)
     \<lparr>stx_finished_block_number = 1, stx_started_block_number = None\<rparr> = Inr (ex_channel ex_alice ex_bob)"
  by code_simp+

lemma ex_reach: "chan_reach ex_platform (ex_channel ex_alice ex_bob) ex_locked"
proof -
  obtain ev where "ex_send = Inr (ex_locked, ev)" using ex_send_ok by blast
  moreover have "get_lock (ch_our_state (ex_channel ex_alice ex_bob)) ex_secrethash = None" by code_simp
  ultimately have "chan_step ex_platform (ex_channel ex_alice ex_bob) ex_locked"
    unfolding ex_send_def by (rule step_send_lockedtransfer [rotated])
  then show ?thesis by (rule reach_step [OF reach_refl])
qed





end
