(* ===== verification/Channel_Nonce.thy ===== *)
theory Channel_Nonce
  imports Channel_Runs
begin

text \<open>
  Replay protection. A \<open>nonce_gate\<close> is a receiver that only accepts a message whose nonce is the
  successor of the last one and then stores it; whatever it accepts in a row has consecutive nonces,
  and nothing is accepted twice. The handlers of the partner's messages form such a gate.
\<close>

fun accept_all :: "('m \<Rightarrow> 's \<Rightarrow> 's option) \<Rightarrow> 'm list \<Rightarrow> 's \<Rightarrow> 's option" where
  "accept_all accept [] s = Some s"
| "accept_all accept (m # ms) s =
     (case accept m s of None \<Rightarrow> None | Some s' \<Rightarrow> accept_all accept ms s')"

locale nonce_gate =
  fixes accept :: "'m \<Rightarrow> 's \<Rightarrow> 's option"
    and nonce_of :: "'m \<Rightarrow> int"
    and current :: "'s \<Rightarrow> int"
  assumes accept_nonce: "accept m s = Some s' \<Longrightarrow> nonce_of m = current s + 1"
    and accept_current: "accept m s = Some s' \<Longrightarrow> current s' = nonce_of m"
begin

lemma current_after: "accept_all accept ms s = Some s' \<Longrightarrow> current s' = current s + int (length ms)"
proof (induction ms arbitrary: s)
  case (Cons m ms)
  then obtain s1 where s1: "accept m s = Some s1" and "accept_all accept ms s1 = Some s'"
    by (auto split: option.splits)
  with Cons.IH [of s1] accept_nonce [OF s1] accept_current [OF s1] show ?case by simp
qed simp

lemma sequential:
  "accept_all accept ms s = Some s' \<Longrightarrow> i < length ms \<Longrightarrow> nonce_of (ms ! i) = current s + 1 + int i"
proof (induction ms arbitrary: s i)
  case (Cons m ms)
  then obtain s1 where s1: "accept m s = Some s1" and "accept_all accept ms s1 = Some s'"
    by (auto split: option.splits)
  with Cons.IH [of s1 "i - 1"] Cons.prems(2) accept_nonce [OF s1] accept_current [OF s1] show ?case
    by (cases i) auto
qed simp

lemma no_replay:
  assumes "accept_all accept ms s = Some s'" and "m \<in> set ms"
  shows "accept m s' = None"
proof (cases "accept m s'")
  case (Some s'')
  from assms(2) obtain i where "i < length ms" and "ms ! i = m" by (auto simp: in_set_conv_nth)
  with sequential [OF assms(1)] current_after [OF assms(1)] accept_nonce [OF Some]
  show ?thesis by force
qed simp

end

subsection \<open>The gate for the partner's messages\<close>

datatype partner_message =
    MsgLockedTransfer locked_transfer_signed
  | MsgRefundTransfer locked_transfer_unsigned receive_transfer_refund
  | MsgUnlock receive_unlock
  | MsgLockExpired receive_lock_expired
  | MsgWithdrawExpired receive_withdraw_expired

fun message_nonce :: "partner_message \<Rightarrow> int" where
  "message_nonce (MsgLockedTransfer t) = bp_nonce (lts_balance_proof t)"
| "message_nonce (MsgRefundTransfer received r) = bp_nonce (lts_balance_proof (rtr_transfer r))"
| "message_nonce (MsgUnlock u) = bp_nonce (ru_balance_proof u)"
| "message_nonce (MsgLockExpired sc) = bp_nonce (rle_balance_proof sc)"
| "message_nonce (MsgWithdrawExpired w) = rwe_nonce w"

definition is_processed :: "event list \<Rightarrow> bool" where
  "is_processed evs = (case evs of [SendProcessed h] \<Rightarrow> True | _ \<Rightarrow> False)"

text \<open>The channel after a message of the partner that the handler accepts, \<open>None\<close> when it raises or
  answers with an \<open>EventInvalid...\<close>.\<close>

fun accept_message :: "platform \<Rightarrow> int \<Rightarrow> prng \<Rightarrow> partner_message \<Rightarrow> channel \<Rightarrow> channel option" where
  "accept_message E bn g (MsgLockedTransfer t) ch =
     (case handle_receive_lockedtransfer E ch t None of
        Inr (ch', True, evs, m) \<Rightarrow> Some ch' | _ \<Rightarrow> None)"
| "accept_message E bn g (MsgRefundTransfer received r) ch =
     (case handle_refundtransfer E received ch r of
        Inr (ch', True, evs, m) \<Rightarrow> Some ch' | _ \<Rightarrow> None)"
| "accept_message E bn g (MsgUnlock u) ch =
     (case handle_unlock E ch u None of
        Inr (ch', True, evs, m) \<Rightarrow> Some ch' | _ \<Rightarrow> None)"
| "accept_message E bn g (MsgLockExpired sc) ch =
     (case handle_receive_lock_expired E ch sc bn None of
        Inr (ch', evs) \<Rightarrow> if is_processed evs then Some ch' else None | _ \<Rightarrow> None)"
| "accept_message E bn g (MsgWithdrawExpired w) ch =
     (case handle_receive_withdraw_expired w ch bn g of
        Inr (Some ch', g', evs) \<Rightarrow> if is_processed evs then Some ch' else None | _ \<Rightarrow> None)"

lemma withdraw_expired_nonce:
  assumes "handle_receive_withdraw_expired w ch bn g = Inr (Some ch', g', evs)" and "is_processed evs"
  shows "rwe_nonce w = es_nonce (ch_partner_state ch) + 1"
    and "es_nonce (ch_partner_state ch') = rwe_nonce w"
proof -
  from assms obtain pw where
    pw: "map_of (es_withdraws_pending (ch_partner_state ch)) (rwe_total_withdraw w) = Some pw"
    and valid: "is_valid_withdraw_expired ch w pw bn = []"
    by (auto simp: handle_receive_withdraw_expired_def is_processed_def with_error_text_def
        result_simps Let_def soe_ok_iff split: option.splits if_splits)
  then show "rwe_nonce w = es_nonce (ch_partner_state ch) + 1"
    by (auto simp: is_valid_withdraw_expired_def get_next_nonce_def Let_def split: if_splits)
  from assms pw valid show "es_nonce (ch_partner_state ch') = rwe_nonce w"
    by (auto simp: handle_receive_withdraw_expired_def result_simps Let_def soe_ok_iff)
qed

lemma accept_message_nonce:
  assumes "accept_message E bn g m ch = Some ch'"
  shows "message_nonce m = es_nonce (ch_partner_state ch) + 1
    \<and> es_nonce (ch_partner_state ch') = message_nonce m"
proof -
  obtain r n t k where cur: "get_current_balanceproof E (ch_partner_state ch) = (r, n, t, k)"
    by (cases "get_current_balanceproof E (ch_partner_state ch)") auto
  show ?thesis
  proof (cases m)
    case (MsgLockedTransfer x)
    with assms obtain evs msg where
      "handle_receive_lockedtransfer E ch x None = Inr (ch', True, evs, msg)"
      by (auto split: sum.splits prod.splits bool.splits)
    then show ?thesis
      by (rule handle_receive_lockedtransferE [OF _ cur])
         (simp add: MsgLockedTransfer usable_onchain_iff end_simps)
  next
    case (MsgRefundTransfer received x)
    with assms obtain evs msg where
      "handle_refundtransfer E received ch x = Inr (ch', True, evs, msg)"
      by (auto split: sum.splits prod.splits bool.splits)
    then show ?thesis
      by (rule handle_refundtransferE [OF _ cur])
         (simp add: MsgRefundTransfer usable_onchain_iff end_simps)
  next
    case (MsgUnlock x)
    with assms obtain evs msg where "handle_unlock E ch x None = Inr (ch', True, evs, msg)"
      by (auto split: sum.splits prod.splits bool.splits)
    then show ?thesis
    proof (rule handle_unlockE [OF _ cur])
      fix l partner'
      assume u: "is_balance_proof_usable_onchain E (ru_balance_proof x) ch (ch_partner_state ch) = Inr []"
        and d: "del_lock (ru_secrethash x) (apply_removal (BPSigned (ru_balance_proof x)) l
          (ch_partner_state ch)) = Inr partner'" and ch': "ch' = ch\<lparr>ch_partner_state := partner'\<rparr>"
      from del_lock_fields(9) [OF d] u show ?thesis
        by (simp add: MsgUnlock ch' usable_onchain_iff end_simps)
    qed
  next
    case (MsgLockExpired x)
    with assms obtain evs where h: "handle_receive_lock_expired E ch x bn None = Inr (ch', evs)"
      and p: "is_processed evs"
      by (auto split: sum.splits prod.splits if_splits)
    from h cur show ?thesis
    proof (cases rule: handle_receive_lock_expired_cases)
      case (invalid msg)
      with p show ?thesis by (simp add: is_processed_def)
    next
      case (valid l)
      then show ?thesis by (simp add: MsgLockExpired usable_onchain_iff end_simps)
    qed
  next
    case (MsgWithdrawExpired x)
    with assms obtain g' evs where
      "handle_receive_withdraw_expired x ch bn g = Inr (Some ch', g', evs)" and "is_processed evs"
      by (auto split: sum.splits prod.splits option.splits if_splits)
    from withdraw_expired_nonce [OF this] show ?thesis by (simp add: MsgWithdrawExpired)
  qed
qed

interpretation partner_gate: nonce_gate "accept_message E bn g" message_nonce
  "\<lambda>ch. es_nonce (ch_partner_state ch)" for E bn g
  by unfold_locales (use accept_message_nonce in blast)+

subsection \<open>Replay protection\<close>

lemma ex_accepts:
  "accept_all (accept_message ex_platform 2 ex_prng)
     [MsgLockedTransfer ex_transfer, MsgUnlock ex_unlock_message] (ex_channel ex_bob ex_alice)
   = Some ex_bob_unlocked"
proof -
  obtain evs where 1: "ex_receive = Inr (ex_bob_locked, True, evs, None)" using ex_receive_ok by blast
  obtain evs' where 2: "ex_receive_unlock = Inr (ex_bob_unlocked, True, evs', None)"
    using ex_receive_unlock_ok by blast
  from 1 2 show ?thesis by (simp add: ex_receive_def ex_receive_unlock_def)
qed



text \<open>
  The messages that a channel accepts from the partner carry consecutive nonces: the \<open>i\<close>-th
  accepted message has the nonce of the initial partner state plus \<open>i + 1\<close>, and the nonce stored at the
  end counts all of them.
\<close>

theorem accepted_nonces_are_consecutive:
  assumes "accept_all (accept_message E bn g) ms ch = Some ch'"
  shows "map message_nonce ms = [es_nonce (ch_partner_state ch) + 1..es_nonce (ch_partner_state ch')]
    \<and> get_current_nonce (ch_partner_state ch') = get_current_nonce (ch_partner_state ch) + int (length ms)"
proof -
  have n: "es_nonce (ch_partner_state ch') = es_nonce (ch_partner_state ch) + int (length ms)"
    by (rule partner_gate.current_after [OF assms])
  have "map message_nonce ms = [es_nonce (ch_partner_state ch) + 1..es_nonce (ch_partner_state ch')]"
    by (rule nth_equalityI) (simp_all add: n partner_gate.sequential [OF assms] nth_upto)
  with n show ?thesis by (simp add: get_current_nonce_def)
qed

theorem accepted_nonces_are_consecutive_witness:
  "map message_nonce [MsgLockedTransfer ex_transfer, MsgUnlock ex_unlock_message]
    = [es_nonce (ch_partner_state (ex_channel ex_bob ex_alice)) + 1..es_nonce (ch_partner_state ex_bob_unlocked)]"
  using accepted_nonces_are_consecutive [OF ex_accepts] by blast

end
