(* ===== verification/Channel_Network.thy ===== *)
theory Channel_Network
  imports Channel_Nonce
begin

text \<open>
  Two nodes, one channel, asynchronous messages. Each node keeps both sides of the channel, so every
  side exists twice: the owner changes it when it sends a message, the other node when the message
  arrives, and in between the message is in a queue. \<open>side_view\<close> is the part of a side that both
  copies must agree on. \<open>deliverable\<close> and \<open>apply_message\<close> say on views when a message is accepted and
  what it does; the operations of the sender and the handlers of the receiver refine them. The
  network invariant is that the queue, applied to the receiver's copy, gives the sender's copy.

  How an event becomes a signed message is not part of the channel component (see \<open>Node_Messages\<close>): the message carries
  the fields of the event and a signature that recovers to the sender. Deposits and on-chain secret
  registration are outside this network, since the two nodes learn of them at different times.
\<close>

subsection \<open>Views\<close>

record side_view =
  sv_address :: address
  sv_deposit :: int
  sv_withdrawn :: int
  sv_locks :: "secrethash \<Rightarrow> lock option"
  sv_pending :: "bytes list"
  sv_nonce :: int
  sv_transferred :: int
  sv_locked :: int

definition view :: "end_state \<Rightarrow> side_view" where
  "view es = \<lparr>sv_address = es_address es, sv_deposit = es_contract_balance es,
     sv_withdrawn = total_withdraw es, sv_locks = get_lock es, sv_pending = es_pending_locks es,
     sv_nonce = es_nonce es, sv_transferred = transferred_amount es,
     sv_locked = get_amount_locked es\<rparr>"

definition view_lock :: "lock \<Rightarrow> side_view \<Rightarrow> side_view" where
  "view_lock l v = v\<lparr>sv_locks := (sv_locks v)(lk_secrethash l \<mapsto> l),
     sv_pending := sv_pending v @ [encoded l], sv_nonce := sv_nonce v + 1,
     sv_locked := sv_locked v + lk_amount l\<rparr>"

definition view_remove :: "int \<Rightarrow> lock \<Rightarrow> side_view \<Rightarrow> side_view" where
  "view_remove paid l v = v\<lparr>sv_locks := (sv_locks v)(lk_secrethash l := None),
     sv_pending := remove1 (encoded l) (sv_pending v), sv_nonce := sv_nonce v + 1,
     sv_transferred := sv_transferred v + paid, sv_locked := sv_locked v - lk_amount l\<rparr>"

text \<open>A signed balance proof that continues a side with the given amounts and locks.\<close>

definition proof_for ::
  "platform \<Rightarrow> canonical_identifier \<Rightarrow> side_view \<Rightarrow> signed_balance_proof \<Rightarrow> int \<Rightarrow> int \<Rightarrow> bytes list \<Rightarrow> bool"
where
  "proof_for E ci v s t k p \<longleftrightarrow>
     is_valid_balanceproof_signature E s (sv_address v) = Inr []
     \<and> bp_canonical_identifier s = ci \<and> bp_nonce s = sv_nonce v + 1
     \<and> bp_transferred_amount s = t \<and> bp_locked_amount s = k
     \<and> bp_locksroot s = compute_locksroot E p \<and> t + k \<le> UINT256_MAX"

text \<open>
  When a message can be accepted by a receiver that has transferred \<open>received\<close> tokens itself, at block
  \<open>bn\<close>.
\<close>

fun deliverable ::
  "platform \<Rightarrow> canonical_identifier \<Rightarrow> int \<Rightarrow> int \<Rightarrow> partner_message \<Rightarrow> side_view \<Rightarrow> bool" where
  "deliverable E ci bn received (MsgLockedTransfer t) v =
     (let l = lt_lock t in
      valid_lock l \<and> sv_locks v (lk_secrethash l) = None \<and> encoded l \<notin> set (sv_pending v)
      \<and> length (sv_pending v) < MAXIMUM_PENDING_TRANSFERS
      \<and> proof_for E ci v (lts_balance_proof t) (sv_transferred v) (sv_locked v + lk_amount l)
          (sv_pending v @ [encoded l])
      \<and> sv_transferred v + sv_locked v + lk_amount l \<le> sv_deposit v - sv_withdrawn v + received)"
| "deliverable E ci bn received (MsgUnlock u) v =
     (case sv_locks v (ru_secrethash u) of
        None \<Rightarrow> False
      | Some l \<Rightarrow> encoded l \<in> set (sv_pending v) \<and> lk_secrethash l = ru_secrethash u \<and> 0 \<le> lk_amount l
          \<and> proof_for E ci v (ru_balance_proof u) (sv_transferred v + lk_amount l)
              (sv_locked v - lk_amount l) (remove1 (encoded l) (sv_pending v)))"
| "deliverable E ci bn received (MsgLockExpired sc) v =
     (case sv_locks v (rle_secrethash sc) of
        None \<Rightarrow> False
      | Some l \<Rightarrow> encoded l \<in> set (sv_pending v) \<and> lk_secrethash l = rle_secrethash sc
          \<and> get_receiver_expiration_threshold (lk_expiration l) \<le> bn
          \<and> proof_for E ci v (rle_balance_proof sc) (sv_transferred v)
              (sv_locked v - lk_amount l) (remove1 (encoded l) (sv_pending v)))"
| "deliverable E ci bn received (MsgRefundTransfer received_transfer r) v = False"
| "deliverable E ci bn received (MsgWithdrawExpired w) v = False"

fun apply_message :: "partner_message \<Rightarrow> side_view \<Rightarrow> side_view" where
  "apply_message (MsgLockedTransfer t) v = view_lock (lt_lock t) v"
| "apply_message (MsgUnlock u) v =
     (case sv_locks v (ru_secrethash u) of None \<Rightarrow> v | Some l \<Rightarrow> view_remove (lk_amount l) l v)"
| "apply_message (MsgLockExpired sc) v =
     (case sv_locks v (rle_secrethash sc) of None \<Rightarrow> v | Some l \<Rightarrow> view_remove 0 l v)"
| "apply_message m v = v"

fun deliverable_all ::
  "platform \<Rightarrow> canonical_identifier \<Rightarrow> int \<Rightarrow> int \<Rightarrow> partner_message list \<Rightarrow> side_view \<Rightarrow> bool" where
  "deliverable_all E ci bn received [] v = True"
| "deliverable_all E ci bn received (m # ms) v =
     (deliverable E ci bn received m v \<and> deliverable_all E ci bn received ms (apply_message m v))"

lemma deliverable_all_snoc:
  "deliverable_all E ci bn received (ms @ [m]) v \<longleftrightarrow>
     deliverable_all E ci bn received ms v \<and> deliverable E ci bn received m (fold apply_message ms v)"
  by (induction ms arbitrary: v) simp_all

lemma deliverable_mono:
  "deliverable E ci bn received m v \<Longrightarrow> bn \<le> bn' \<Longrightarrow> received \<le> received' \<Longrightarrow>
   deliverable E ci bn' received' m v"
  by (cases m) (auto simp: Let_def split: option.splits)

lemma deliverable_all_mono:
  assumes "bn \<le> bn'" and "received \<le> received'"
  shows "deliverable_all E ci bn received ms v \<Longrightarrow> deliverable_all E ci bn' received' ms v"
  using deliverable_mono [OF _ assms] by (induction ms arbitrary: v) auto

lemma deliverable_transferred:
  "deliverable E ci bn received m v \<Longrightarrow> sv_transferred v \<le> sv_transferred (apply_message m v)"
  by (cases m) (auto simp: view_lock_def view_remove_def split: option.splits)

lemma deliverable_all_transferred:
  "deliverable_all E ci bn received ms v \<Longrightarrow>
   sv_transferred v \<le> sv_transferred (fold apply_message ms v)"
proof (induction ms arbitrary: v)
  case (Cons m ms)
  then have "deliverable E ci bn received m v" by simp
  then have "sv_transferred v \<le> sv_transferred (apply_message m v)" by (rule deliverable_transferred)
  with Cons.IH [of "apply_message m v"] Cons.prems show ?case by simp
qed simp

subsection \<open>Views of the updates of one side\<close>

lemma view_apply_lock:
  assumes "end_inv E es" and "valid_lock l" and "get_lock es (lk_secrethash l) = None"
    and c: "bp_continues E es (bp_base b) (transferred_amount es) (get_amount_locked es + lk_amount l)
      (es_pending_locks es @ [encoded l])"
    and "transferred_amount es + get_amount_locked es + lk_amount l \<le> UINT256_MAX"
  shows "view (apply_lock b l es) = view_lock l (view es)"
proof -
  note a = end_inv_apply_lock [OF assms]
  have "get_lock (apply_lock b l es) = (get_lock es)(lk_secrethash l \<mapsto> l)"
    using ledger_apply_lock [OF assms(3) c] by (simp add: ledger_of_def ledger_lock_def)
  moreover have "total_withdraw (apply_lock b l es) = total_withdraw es"
    by (rule total_withdraw_cong) (simp_all add: end_simps)
  ultimately show ?thesis
    using a c by (simp add: view_def view_lock_def end_simps bp_continues_def)
qed

lemma view_removal:
  assumes "end_inv E es" and "get_lock es (lk_secrethash l) = Some l" and r: "removal_of es b l es'"
    and c: "bp_continues E es (bp_base b) (transferred_amount es + paid)
      (get_amount_locked es - lk_amount l) (remove1 (encoded l) (es_pending_locks es))"
    and "0 \<le> paid" and "paid \<le> lk_amount l"
  shows "view es' = view_remove paid l (view es)"
proof -
  have a: "get_amount_locked es' = get_amount_locked es - lk_amount l"
    "transferred_amount es' = transferred_amount es + paid"
    by (rule end_inv_removal [OF assms(1-4)]; use assms(5,6) in simp)+
  have "get_lock es' = (get_lock es)(lk_secrethash l := None)"
    using ledger_removal(1) [OF r] by (simp add: ledger_of_def)
  moreover have "total_withdraw es' = total_withdraw es"
    using r by (intro total_withdraw_cong) (simp_all add: removal_of_def)
  ultimately show ?thesis
    using a c r by (simp add: view_def view_remove_def removal_of_def bp_continues_def)
qed

lemma proof_for_usable:
  "proof_for E (ch_canonical_identifier ch) (view es) s t k p \<Longrightarrow> get_status ch = STATE_OPENED \<Longrightarrow>
   is_balance_proof_usable_onchain E s ch es = Inr []
   \<and> bp_continues E es (balance_proof.truncate s) t k p"
  by (simp add: proof_for_def usable_onchain_iff bp_continues_def view_def)

lemma proof_for_sent:
  assumes "mk_balance_proof_unsigned E (es_nonce es + 1) t k (compute_locksroot E p) ci = Inr b"
    and "balance_proof.truncate s = b" and "t + k \<le> UINT256_MAX"
    and "is_valid_balanceproof_signature E s (es_address es) = Inr []"
  shows "proof_for E ci (view es) s t k p"
proof -
  have "bp_nonce s = bp_nonce b" "bp_transferred_amount s = bp_transferred_amount b"
    "bp_locked_amount s = bp_locked_amount b" "bp_locksroot s = bp_locksroot b"
    "bp_canonical_identifier s = bp_canonical_identifier b"
    by (simp_all flip: assms(2))
  with assms show ?thesis
    by (auto simp: proof_for_def view_def mk_balance_proof_unsigned_eq_Inr)
qed

subsection \<open>Receiving refines delivery\<close>

text \<open>The node has not seen any secret of this channel on-chain.\<close>

definition no_onchain_secret :: "channel \<Rightarrow> bool" where
  "no_onchain_secret ch \<longleftrightarrow>
     es_onchain_unlockedlocks (ch_our_state ch) = []
     \<and> es_onchain_unlockedlocks (ch_partner_state ch) = []"

text \<open>What receiving leaves alone.\<close>

definition received_ok :: "channel \<Rightarrow> channel \<Rightarrow> bool" where
  "received_ok ch ch' \<longleftrightarrow>
     ch_our_state ch' = ch_our_state ch \<and> get_status ch' = get_status ch
     \<and> ch_canonical_identifier ch' = ch_canonical_identifier ch
     \<and> (no_onchain_secret ch \<longrightarrow> no_onchain_secret ch')"

lemma del_lock_onchain_Nil:
  "del_lock sh es = Inr es' \<Longrightarrow> es_onchain_unlockedlocks es = [] \<Longrightarrow> es_onchain_unlockedlocks es' = []"
  by (simp add: del_lock_eq_Inr Let_def dict_mem_def del_unclaimed_lock_fields)

lemma distributable_ge:
  assumes "end_inv E s" and "transferred_amount s + (get_amount_locked s + a) \<le> UINT256_MAX"
    and "get_amount_locked s + a \<le> get_balance s r"
  shows "a \<le> get_distributable E s r"
  using assms by (auto simp: get_distributable_def end_inv_current_balanceproof)

lemma receive_lockedtransfer:
  assumes inv: "chan_inv E R" and opened: "get_status R = STATE_OPENED"
    and d: "deliverable E (ch_canonical_identifier R) bn (transferred_amount (ch_our_state R))
      (MsgLockedTransfer t) (view (ch_partner_state R))"
  shows "\<exists>R'. accept_message E bn g (MsgLockedTransfer t) R = Some R' \<and> received_ok R R'
    \<and> view (ch_partner_state R') = apply_message (MsgLockedTransfer t) (view (ch_partner_state R))"
proof -
  let ?p = "ch_partner_state R" and ?l = "lt_lock t" and ?s = "lts_balance_proof t"
  note p = chan_inv_sides(2) [OF inv]
  from d have v: "valid_lock ?l" "get_lock ?p (lk_secrethash ?l) = None"
      "encoded ?l \<notin> set (es_pending_locks ?p)"
      "length (es_pending_locks ?p) < MAXIMUM_PENDING_TRANSFERS"
    and pf: "proof_for E (ch_canonical_identifier R) (view ?p) ?s (transferred_amount ?p)
      (get_amount_locked ?p + lk_amount ?l) (es_pending_locks ?p @ [encoded ?l])"
    and b: "transferred_amount ?p + get_amount_locked ?p + lk_amount ?l
      \<le> es_contract_balance ?p - total_withdraw ?p + transferred_amount (ch_our_state R)"
    by (simp_all add: Let_def view_def)
  have o: "transferred_amount ?p + (get_amount_locked ?p + lk_amount ?l) \<le> UINT256_MAX"
    using pf by (simp add: proof_for_def)
  have "lk_amount ?l \<le> get_distributable E ?p (ch_our_state R)"
    by (rule distributable_ge [OF p o]) (use b in \<open>simp add: get_balance_eq\<close>)
  moreover note u = proof_for_usable [OF pf opened]
  ultimately have "valid_lockedtransfer_check E R ?p (ch_our_state R) LockedTransferMsg ?s ?l
      = Inr (True, None, Some (es_pending_locks ?p @ [encoded ?l]))"
    using v by (subst valid_lockedtransfer_check_iff [OF end_inv_current_balanceproof [OF p]])
       (simp add: bp_continues_def)
  then have "accept_message E bn g (MsgLockedTransfer t) R
      = Some (map_partner_state (apply_lock (BPSigned ?s) ?l) R)"
    by (simp add: handle_receive_lockedtransfer_def is_valid_lockedtransfer_def Let_def apply_lock_def)
  moreover have "view (apply_lock (BPSigned ?s) ?l ?p) = view_lock ?l (view ?p)"
    by (rule view_apply_lock [OF p v(1,2)]) (use u o in simp_all)
  ultimately show ?thesis
    by (simp add: received_ok_def no_onchain_secret_def end_simps chan_simps)
qed

lemma receive_unlock:
  assumes inv: "chan_inv E R" and opened: "get_status R = STATE_OPENED"
    and d: "deliverable E (ch_canonical_identifier R) bn received (MsgUnlock u)
      (view (ch_partner_state R))"
  shows "\<exists>R'. accept_message E bn g (MsgUnlock u) R = Some R' \<and> received_ok R R'
    \<and> view (ch_partner_state R') = apply_message (MsgUnlock u) (view (ch_partner_state R))"
proof -
  let ?p = "ch_partner_state R" and ?s = "ru_balance_proof u"
  note p = chan_inv_sides(2) [OF inv]
  from d obtain l where l: "get_lock ?p (ru_secrethash u) = Some l" "lk_secrethash l = ru_secrethash u"
      "encoded l \<in> set (es_pending_locks ?p)" "0 \<le> lk_amount l"
    and pf: "proof_for E (ch_canonical_identifier R) (view ?p) ?s (transferred_amount ?p + lk_amount l)
      (get_amount_locked ?p - lk_amount l) (remove1 (encoded l) (es_pending_locks ?p))"
    by (auto simp: view_def split: option.splits)
  note us = proof_for_usable [OF pf opened]
  then have "is_valid_unlock E u R ?p
      = Inr (True, None, Some (remove1 (encoded l) (es_pending_locks ?p)))"
    using l by (subst is_valid_unlock_iff [OF end_inv_current_balanceproof [OF p]])
       (simp add: bp_continues_def)
  moreover have "is_lock_pending (apply_removal (BPSigned ?s) l ?p) (lk_secrethash l)"
    using l by (simp add: is_lock_pending_assoc get_lock_assoc dict_mem_def end_simps)
  then obtain p' where del: "del_lock (lk_secrethash l) (apply_removal (BPSigned ?s) l ?p) = Inr p'"
    using del_lock_total by blast
  ultimately have "accept_message E bn g (MsgUnlock u) R = Some (R\<lparr>ch_partner_state := p'\<rparr>)"
    using l(2) by (simp add: handle_unlock_def Let_def apply_removal_def)
  moreover have "view p' = view_remove (lk_amount l) l (view ?p)"
    by (rule view_removal [OF p _ del_lock_removal [OF del]]) (use l us in simp_all)
  ultimately show ?thesis
    using l(1) del_lock_onchain_Nil [OF del]
    by (simp add: received_ok_def no_onchain_secret_def apply_removal_fields chan_simps)
       (simp add: view_def)
qed

lemma receive_lock_expired:
  assumes inv: "chan_inv E R" and opened: "get_status R = STATE_OPENED" and n: "no_onchain_secret R"
    and d: "deliverable E (ch_canonical_identifier R) bn received (MsgLockExpired sc)
      (view (ch_partner_state R))"
  shows "\<exists>R'. accept_message E bn g (MsgLockExpired sc) R = Some R' \<and> received_ok R R'
    \<and> view (ch_partner_state R') = apply_message (MsgLockExpired sc) (view (ch_partner_state R))"
proof -
  let ?p = "ch_partner_state R" and ?s = "rle_balance_proof sc"
  note p = chan_inv_sides(2) [OF inv]
  from d obtain l where l: "get_lock ?p (rle_secrethash sc) = Some l" "lk_secrethash l = rle_secrethash sc"
      "encoded l \<in> set (es_pending_locks ?p)"
    and late: "get_receiver_expiration_threshold (lk_expiration l) \<le> bn"
    and pf: "proof_for E (ch_canonical_identifier R) (view ?p) ?s (transferred_amount ?p)
      (get_amount_locked ?p - lk_amount l) (remove1 (encoded l) (es_pending_locks ?p))"
    by (auto simp: view_def split: option.splits)
  note us = proof_for_usable [OF pf opened]
  have no: "\<not> dict_mem sh (es_onchain_unlockedlocks ?p)"
    "\<not> dict_mem sh (es_onchain_unlockedlocks (ch_our_state R))" for sh
    using n by (simp_all add: no_onchain_secret_def dict_mem_def)
  then have "is_lock_expired (ch_our_state R) l bn
      (get_receiver_expiration_threshold (lk_expiration l)) = []"
    using late by (simp add: is_lock_expired_def)
  then have "is_valid_lock_expired E sc R ?p (ch_our_state R) bn
      = Inr (True, None, Some (remove1 (encoded l) (es_pending_locks ?p)))"
    using l us no by (subst is_valid_lock_expired_iff [OF end_inv_current_balanceproof [OF p]])
       (simp add: bp_continues_def)
  then have "accept_message E bn g (MsgLockExpired sc) R = Some (map_partner_state
      (\<lambda>p. del_unclaimed_lock (lk_secrethash l) (apply_removal (BPSigned ?s) l p)) R)"
    using l(2)
    by (simp add: handle_receive_lock_expired_def Let_def apply_removal_def is_processed_def
        processed_def)
  moreover have "view (del_unclaimed_lock (lk_secrethash l) (apply_removal (BPSigned ?s) l ?p))
      = view_remove 0 l (view ?p)"
    by (rule view_removal [OF p _ del_unclaimed_removal [OF no(1)]])
       (use l us locks_wf_get_lock(2) [OF end_invD(1) [OF p] l(1)] in \<open>simp_all add: valid_lock_def\<close>)
  ultimately show ?thesis
    using l(1) by (simp add: received_ok_def no_onchain_secret_def end_simps chan_simps)
      (simp add: view_def)
qed

lemma receive_deliverable:
  assumes "chan_inv E R" and "get_status R = STATE_OPENED" and "no_onchain_secret R"
    and d: "deliverable E (ch_canonical_identifier R) bn (transferred_amount (ch_our_state R)) m
      (view (ch_partner_state R))"
  shows "\<exists>R'. accept_message E bn g m R = Some R' \<and> received_ok R R'
    \<and> view (ch_partner_state R') = apply_message m (view (ch_partner_state R))"
  using assms receive_lockedtransfer receive_unlock receive_lock_expired by (cases m) auto

subsection \<open>Sending refines delivery\<close>

text \<open>
  A node sends a message at block \<open>bn\<close>. The guards are those of the callers: a new secrethash and room
  for another lock (\<open>is_channel_usable_for_new_transfer\<close>), a secret that matches its hash, a lock past
  the sender's expiration threshold.
\<close>

inductive sends :: "platform \<Rightarrow> int \<Rightarrow> channel \<Rightarrow> channel \<Rightarrow> partner_message \<Rightarrow> bool"
  for E :: platform and bn :: int where
  sends_lockedtransfer:
    "get_lock (ch_our_state S) sh = None \<Longrightarrow>
     length (es_pending_locks (ch_our_state S)) < MAXIMUM_PENDING_TRANSFERS \<Longrightarrow>
     send_lockedtransfer E S initiator target amount mid pid expiration secret sh routes md pmd
       = Inr (S', ev) \<Longrightarrow>
     lt_lock t = lt_lock (slt_transfer ev) \<Longrightarrow>
     balance_proof.truncate (lts_balance_proof t) = ltu_balance_proof (slt_transfer ev) \<Longrightarrow>
     is_valid_balanceproof_signature E (lts_balance_proof t) (es_address (ch_our_state S)) = Inr [] \<Longrightarrow>
     sends E bn S S' (MsgLockedTransfer t)"
| sends_unlock:
    "sha256 E secret = sh \<Longrightarrow>
     send_unlock E S mid pid secret sh bn md = Inr (S', ev) \<Longrightarrow>
     balance_proof.truncate s = su_balance_proof ev \<Longrightarrow>
     is_valid_balanceproof_signature E s (es_address (ch_our_state S)) = Inr [] \<Longrightarrow>
     sends E bn S S' (MsgUnlock (mk_receive_unlock E sender s mid secret))"
| sends_lock_expired:
    "get_lock (ch_our_state S) (lk_secrethash l) = Some l \<Longrightarrow>
     get_sender_expiration_threshold (lk_expiration l) \<le> bn \<Longrightarrow>
     send_lock_expired E S l g md = Inr (S', g', [ev]) \<Longrightarrow>
     balance_proof.truncate (rle_balance_proof sc) = sle_balance_proof ev \<Longrightarrow>
     rle_secrethash sc = sle_secrethash ev \<Longrightarrow>
     is_valid_balanceproof_signature E (rle_balance_proof sc) (es_address (ch_our_state S)) = Inr [] \<Longrightarrow>
     sends E bn S S' (MsgLockExpired sc)"

text \<open>What sending leaves alone.\<close>

definition sent_ok :: "channel \<Rightarrow> channel \<Rightarrow> bool" where
  "sent_ok ch ch' \<longleftrightarrow>
     ch_partner_state ch' = ch_partner_state ch \<and> get_status ch' = get_status ch
     \<and> ch_canonical_identifier ch' = ch_canonical_identifier ch
     \<and> (no_onchain_secret ch \<longrightarrow> no_onchain_secret ch')"

text \<open>The sender's waiting time before it removes a lock is longer than the receiver's.\<close>

lemma receiver_threshold_le_sender:
  "get_receiver_expiration_threshold e \<le> get_sender_expiration_threshold e"
  by (simp add: get_receiver_expiration_threshold_def get_sender_expiration_threshold_def)

lemma sends_lockedtransfer_deliverable:
  assumes inv: "chan_inv E S" and fresh: "get_lock (ch_our_state S) sh = None"
    and room: "length (es_pending_locks (ch_our_state S)) < MAXIMUM_PENDING_TRANSFERS"
    and send: "send_lockedtransfer E S initiator target amount mid pid expiration secret sh routes md pmd
      = Inr (S', ev)"
    and t: "lt_lock t = lt_lock (slt_transfer ev)"
      "balance_proof.truncate (lts_balance_proof t) = ltu_balance_proof (slt_transfer ev)"
    and sig: "is_valid_balanceproof_signature E (lts_balance_proof t) (es_address (ch_our_state S)) = Inr []"
  shows "deliverable E (ch_canonical_identifier S) bn (transferred_amount (ch_partner_state S))
      (MsgLockedTransfer t) (view (ch_our_state S))"
    and "view (ch_our_state S') = apply_message (MsgLockedTransfer t) (view (ch_our_state S))"
    and "sent_ok S S'"
proof -
  let ?o = "ch_our_state S"
  note o = chan_inv_sides(1) [OF inv]
  from send obtain l b where
    l: "l = \<lparr>lk_amount = amount, lk_expiration = expiration, lk_secrethash = sh\<rparr>" "valid_lock l"
    and d: "amount \<le> get_distributable E ?o (ch_partner_state S)"
    and notin: "encoded l \<notin> set (es_pending_locks ?o)"
    and mk: "mk_balance_proof_unsigned E (es_nonce ?o + 1) (transferred_amount ?o)
       (get_amount_locked ?o + amount) (compute_locksroot E (es_pending_locks ?o @ [encoded l]))
       (ch_canonical_identifier S) = Inr b"
    and c: "bp_continues E ?o b (transferred_amount ?o) (get_amount_locked ?o + amount)
       (es_pending_locks ?o @ [encoded l])"
    and S': "S' = map_our_state (apply_lock (BPUnsigned b) l) S"
    and ev: "lt_lock (slt_transfer ev) = l" "ltu_balance_proof (slt_transfer ev) = b"
    by (rule send_lockedtransferE)
  note ov = end_inv_overflow [OF o d]
  have a: "lk_amount l = amount" "lk_secrethash l = sh" using l(1) by simp_all
  have pf: "proof_for E (ch_canonical_identifier S) (view ?o) (lts_balance_proof t)
      (transferred_amount ?o) (get_amount_locked ?o + amount) (es_pending_locks ?o @ [encoded l])"
    by (rule proof_for_sent [OF mk _ _ sig]) (use t ev ov in simp_all)
  show "deliverable E (ch_canonical_identifier S) bn (transferred_amount (ch_partner_state S))
      (MsgLockedTransfer t) (view ?o)"
    using l(2) fresh room notin pf t(1) ev(1) a d distributable_le_balance [of E ?o "ch_partner_state S"]
    by (simp add: Let_def get_balance_eq) (simp add: view_def)
  have "view (apply_lock (BPUnsigned b) l ?o) = view_lock l (view ?o)"
    by (rule view_apply_lock [OF o l(2)]) (use fresh a c ov in simp_all)
  then show "view (ch_our_state S') = apply_message (MsgLockedTransfer t) (view ?o)"
    using S' t(1) ev(1) by simp
  show "sent_ok S S'"
    using S' by (simp add: sent_ok_def no_onchain_secret_def end_simps chan_simps)
qed

lemma sends_unlock_deliverable:
  assumes inv: "chan_inv E S" and secret: "sha256 E secret = sh"
    and send: "send_unlock E S mid pid secret sh bn md = Inr (S', ev)"
    and s: "balance_proof.truncate s = su_balance_proof ev"
    and sig: "is_valid_balanceproof_signature E s (es_address (ch_our_state S)) = Inr []"
    and m: "m = MsgUnlock (mk_receive_unlock E sender s mid secret)"
  shows "deliverable E (ch_canonical_identifier S) bn received m (view (ch_our_state S))"
    and "view (ch_our_state S') = apply_message m (view (ch_our_state S))"
    and "sent_ok S S'"
proof -
  let ?o = "ch_our_state S"
  note o = chan_inv_sides(1) [OF inv]
  from send obtain l b our' where l: "get_lock ?o sh = Some l"
    and enc: "encoded l \<in> set (es_pending_locks ?o)"
    and mk: "mk_balance_proof_unsigned E (es_nonce ?o + 1) (transferred_amount ?o + lk_amount l)
       (get_amount_locked ?o - lk_amount l)
       (compute_locksroot E (remove1 (encoded l) (es_pending_locks ?o)))
       (ch_canonical_identifier S) = Inr b"
    and c: "bp_continues E ?o b (transferred_amount ?o + lk_amount l)
       (get_amount_locked ?o - lk_amount l) (remove1 (encoded l) (es_pending_locks ?o))"
    and del: "del_lock (lk_secrethash l) (apply_removal (BPUnsigned b) l ?o) = Inr our'"
    and S': "S' = S\<lparr>ch_our_state := our'\<rparr>" and ub: "su_balance_proof ev = b"
    by (rule send_unlockE)
  have sh: "lk_secrethash l = sh" and pos: "0 \<le> lk_amount l"
    using locks_wf_get_lock [OF end_invD(1) [OF o] l] by (simp_all add: valid_lock_def)
  have pf: "proof_for E (ch_canonical_identifier S) (view ?o) s (transferred_amount ?o + lk_amount l)
      (get_amount_locked ?o - lk_amount l) (remove1 (encoded l) (es_pending_locks ?o))"
    by (rule proof_for_sent [OF mk _ _ sig]) (use s ub end_invD(4) [OF o] in simp_all)
  show "deliverable E (ch_canonical_identifier S) bn received m (view ?o)"
    using l sh enc pf pos by (simp add: m mk_receive_unlock_def secret) (simp add: view_def)
  have "view our' = view_remove (lk_amount l) l (view ?o)"
    by (rule view_removal [OF o _ del_lock_removal [OF del]]) (use l sh c pos in simp_all)
  then show "view (ch_our_state S') = apply_message m (view ?o)"
    using l by (simp add: S' m mk_receive_unlock_def secret) (simp add: view_def)
  show "sent_ok S S'"
    using del_lock_onchain_Nil [OF del]
    by (simp add: S' sent_ok_def no_onchain_secret_def apply_removal_fields chan_simps)
qed

lemma sends_lock_expired_deliverable:
  assumes inv: "chan_inv E S" and n: "no_onchain_secret S"
    and l: "get_lock (ch_our_state S) (lk_secrethash l) = Some l"
    and late: "get_sender_expiration_threshold (lk_expiration l) \<le> bn"
    and send: "send_lock_expired E S l g md = Inr (S', g', [ev])"
    and s: "balance_proof.truncate (rle_balance_proof sc) = sle_balance_proof ev"
      "rle_secrethash sc = sle_secrethash ev"
    and sig: "is_valid_balanceproof_signature E (rle_balance_proof sc) (es_address (ch_our_state S)) = Inr []"
  shows "deliverable E (ch_canonical_identifier S) bn received (MsgLockExpired sc) (view (ch_our_state S))"
    and "view (ch_our_state S') = apply_message (MsgLockExpired sc) (view (ch_our_state S))"
    and "sent_ok S S'"
proof -
  let ?o = "ch_our_state S"
  note o = chan_inv_sides(1) [OF inv]
  from send obtain b where enc: "encoded l \<in> set (es_pending_locks ?o)"
    and mk: "mk_balance_proof_unsigned E (es_nonce ?o + 1) (transferred_amount ?o)
       (get_amount_locked ?o - lk_amount l)
       (compute_locksroot E (remove1 (encoded l) (es_pending_locks ?o)))
       (ch_canonical_identifier S) = Inr b"
    and c: "bp_continues E ?o b (transferred_amount ?o)
       (get_amount_locked ?o - lk_amount l) (remove1 (encoded l) (es_pending_locks ?o))"
    and S': "S' = map_our_state (\<lambda>our. del_unclaimed_lock (lk_secrethash l)
       (apply_removal (BPUnsigned b) l our)) S"
    and ub: "sle_balance_proof ev = b" "sle_secrethash ev = lk_secrethash l"
    by (rule send_lock_expiredE)
  have sc: "rle_secrethash sc = lk_secrethash l" using s(2) ub(2) by simp
  have no: "\<not> dict_mem (lk_secrethash l) (es_onchain_unlockedlocks ?o)"
    using n by (simp add: no_onchain_secret_def dict_mem_def)
  have pos: "0 \<le> lk_amount l"
    using locks_wf_get_lock(2) [OF end_invD(1) [OF o] l] by (simp add: valid_lock_def)
  have pf: "proof_for E (ch_canonical_identifier S) (view ?o) (rle_balance_proof sc)
      (transferred_amount ?o) (get_amount_locked ?o - lk_amount l)
      (remove1 (encoded l) (es_pending_locks ?o))"
    by (rule proof_for_sent [OF mk _ _ sig]) (use s ub pos end_invD(4) [OF o] in simp_all)
  show "deliverable E (ch_canonical_identifier S) bn received (MsgLockExpired sc) (view ?o)"
    using l enc pf late receiver_threshold_le_sender [of "lk_expiration l"]
    by (simp add: sc) (simp add: view_def sc)
  have "view (del_unclaimed_lock (lk_secrethash l) (apply_removal (BPUnsigned b) l ?o))
      = view_remove 0 l (view ?o)"
    by (rule view_removal [OF o l del_unclaimed_removal [OF no]]) (use c pos in simp_all)
  then show "view (ch_our_state S') = apply_message (MsgLockExpired sc) (view ?o)"
    using l by (simp add: S' sc) (simp add: view_def)
  show "sent_ok S S'"
    by (simp add: S' sent_ok_def no_onchain_secret_def end_simps chan_simps)
qed

lemma sends_deliverable:
  assumes "sends E bn S S' m" and "chan_inv E S" and "no_onchain_secret S"
  shows "deliverable E (ch_canonical_identifier S) bn (transferred_amount (ch_partner_state S)) m
      (view (ch_our_state S))
    \<and> view (ch_our_state S') = apply_message m (view (ch_our_state S)) \<and> sent_ok S S'"
  using assms
proof (induction rule: sends.induct)
  case sends_lockedtransfer
  then show ?case by - (intro conjI; rule sends_lockedtransfer_deliverable; assumption)
next
  case sends_unlock
  then show ?case by - (intro conjI; rule sends_unlock_deliverable [OF _ _ _ _ _ refl]; assumption)
next
  case sends_lock_expired
  then show ?case by - (intro conjI; rule sends_lock_expired_deliverable; assumption)
qed

subsection \<open>The network\<close>

record network =
  net_a :: channel
  net_b :: channel
  net_ab :: "partner_message list"
  net_ba :: "partner_message list"
  net_block :: int

inductive net_step :: "platform \<Rightarrow> network \<Rightarrow> network \<Rightarrow> bool" for E :: platform where
  a_sends: "sends E (net_block N) (net_a N) A' m \<Longrightarrow>
     net_step E N (N\<lparr>net_a := A', net_ab := net_ab N @ [m]\<rparr>)"
| b_sends: "sends E (net_block N) (net_b N) B' m \<Longrightarrow>
     net_step E N (N\<lparr>net_b := B', net_ba := net_ba N @ [m]\<rparr>)"
| b_receives: "net_ab N = m # q \<Longrightarrow> accept_message E (net_block N) g m (net_b N) = Some B' \<Longrightarrow>
     net_step E N (N\<lparr>net_b := B', net_ab := q\<rparr>)"
| a_receives: "net_ba N = m # q \<Longrightarrow> accept_message E (net_block N) g m (net_a N) = Some A' \<Longrightarrow>
     net_step E N (N\<lparr>net_a := A', net_ba := q\<rparr>)"
| a_learns: "net_step E N (N\<lparr>net_a := register_offchain_secret (net_a N) secret sh\<rparr>)"
| b_learns: "net_step E N (N\<lparr>net_b := register_offchain_secret (net_b N) secret sh\<rparr>)"
| new_block: "net_block N \<le> bn \<Longrightarrow> net_step E N (N\<lparr>net_block := bn\<rparr>)"

inductive net_reach :: "platform \<Rightarrow> network \<Rightarrow> network \<Rightarrow> bool" for E :: platform where
  net_refl: "net_reach E N N"
| net_trans: "net_reach E N N' \<Longrightarrow> net_step E N' N'' \<Longrightarrow> net_reach E N N''"

text \<open>One direction: applied to the receiver's copy, the queue is accepted and gives the sender's
  copy.\<close>

definition in_flight :: "platform \<Rightarrow> int \<Rightarrow> channel \<Rightarrow> partner_message list \<Rightarrow> channel \<Rightarrow> bool" where
  "in_flight E bn S q R \<longleftrightarrow>
     deliverable_all E (ch_canonical_identifier R) bn (transferred_amount (ch_our_state R)) q
       (view (ch_partner_state R))
     \<and> fold apply_message q (view (ch_partner_state R)) = view (ch_our_state S)"

definition node_ok :: "platform \<Rightarrow> channel \<Rightarrow> bool" where
  "node_ok E ch \<longleftrightarrow> chan_inv E ch \<and> get_status ch = STATE_OPENED \<and> no_onchain_secret ch"

definition net_inv :: "platform \<Rightarrow> network \<Rightarrow> bool" where
  "net_inv E N \<longleftrightarrow>
     node_ok E (net_a N) \<and> node_ok E (net_b N)
     \<and> ch_canonical_identifier (net_a N) = ch_canonical_identifier (net_b N)
     \<and> in_flight E (net_block N) (net_a N) (net_ab N) (net_b N)
     \<and> in_flight E (net_block N) (net_b N) (net_ba N) (net_a N)"

text \<open>The network with the two nodes exchanged: every fact about one direction holds for the other.\<close>

definition net_swap :: "network \<Rightarrow> network" where
  "net_swap N = \<lparr>net_a = net_b N, net_b = net_a N, net_ab = net_ba N, net_ba = net_ab N,
     net_block = net_block N\<rparr>"

lemma net_inv_swap: "net_inv E (net_swap N) \<longleftrightarrow> net_inv E N"
  by (auto simp: net_inv_def net_swap_def)

lemma in_flight_transferred:
  assumes "in_flight E bn S q R"
  shows "transferred_amount (ch_partner_state R) \<le> transferred_amount (ch_our_state S)"
proof -
  have "sv_transferred (view (ch_partner_state R)) \<le> sv_transferred (view (ch_our_state S))"
    using assms deliverable_all_transferred unfolding in_flight_def by metis
  then show ?thesis by (simp add: view_def)
qed

lemma sends_node_ok:
  assumes "sends E bn S S' m" and "node_ok E S"
  shows "node_ok E S'"
proof -
  from assms(2) have i: "chan_inv E S" and n: "no_onchain_secret S" by (simp_all add: node_ok_def)
  from n have no: "\<not> dict_mem sh (es_onchain_unlockedlocks (ch_our_state S))" for sh
    by (simp add: no_onchain_secret_def dict_mem_def)
  from assms(1) have "chan_step E S S'"
  proof (cases rule: sends.cases)
    case sends_lockedtransfer
    then show ?thesis by - (rule step_send_lockedtransfer)
  next
    case sends_unlock
    then show ?thesis by - (rule step_send_unlock)
  next
    case sends_lock_expired
    with no show ?thesis by - (rule step_send_lock_expired)
  qed
  then have "chan_inv E S'" using i by (rule chan_step_inv)
  with sends_deliverable [OF assms(1) i n] assms(2) show ?thesis
    by (simp add: node_ok_def sent_ok_def)
qed

lemma receive_node_ok:
  assumes ok: "node_ok E R"
    and d: "deliverable E (ch_canonical_identifier R) bn (transferred_amount (ch_our_state R)) m
      (view (ch_partner_state R))"
    and acc: "accept_message E bn g m R = Some R'"
  shows "node_ok E R'" and "received_ok R R'"
    and "view (ch_partner_state R') = apply_message m (view (ch_partner_state R))"
proof -
  from ok have i: "chan_inv E R" and st: "get_status R = STATE_OPENED" and n: "no_onchain_secret R"
    by (simp_all add: node_ok_def)
  show r: "received_ok R R'"
    and "view (ch_partner_state R') = apply_message m (view (ch_partner_state R))"
    using receive_deliverable [OF i st n d, of g] acc by auto
  have "chan_step E R R'"
  proof (cases m)
    case (MsgLockedTransfer t)
    with d have "valid_lock (lt_lock t)"
      "get_lock (ch_partner_state R) (lk_secrethash (lt_lock t)) = None"
      by (simp_all add: Let_def view_def)
    moreover from MsgLockedTransfer acc obtain evs e where
      "handle_receive_lockedtransfer E R t None = Inr (R', True, evs, e)"
      by (auto split: sum.splits prod.splits bool.splits)
    ultimately show ?thesis by (rule step_receive_lockedtransfer)
  next
    case (MsgUnlock u)
    with acc obtain evs e where "handle_unlock E R u None = Inr (R', True, evs, e)"
      by (auto split: sum.splits prod.splits bool.splits)
    then show ?thesis by (rule step_receive_unlock)
  next
    case (MsgLockExpired sc)
    with acc obtain evs where "handle_receive_lock_expired E R sc bn None = Inr (R', evs)"
      by (auto split: sum.splits prod.splits if_splits)
    then show ?thesis by (rule step_receive_lock_expired)
  qed (use d in simp_all)
  then have "chan_inv E R'" using i by (rule chan_step_inv)
  with r st n show "node_ok E R'" by (simp add: node_ok_def received_ok_def)
qed

lemma send_in_flight:
  assumes s: "sends E bn S S' m" and ok: "node_ok E S"
    and ci: "ch_canonical_identifier S = ch_canonical_identifier R"
    and f: "in_flight E bn S q R" and f': "in_flight E bn R q' S"
  shows "in_flight E bn S' (q @ [m]) R" and "in_flight E bn R q' S'" and "node_ok E S'"
    and "ch_canonical_identifier S' = ch_canonical_identifier R"
proof -
  from ok have "chan_inv E S" and "no_onchain_secret S" by (simp_all add: node_ok_def)
  from sends_deliverable [OF s this] have
    d: "deliverable E (ch_canonical_identifier S) bn (transferred_amount (ch_partner_state S)) m
      (view (ch_our_state S))"
    and v: "view (ch_our_state S') = apply_message m (view (ch_our_state S))" and so: "sent_ok S S'"
    by simp_all
  have "deliverable E (ch_canonical_identifier R) bn (transferred_amount (ch_our_state R)) m
      (view (ch_our_state S))"
    using deliverable_mono [OF d order.refl in_flight_transferred [OF f']] ci by simp
  with f v show "in_flight E bn S' (q @ [m]) R"
    by (simp add: in_flight_def deliverable_all_snoc)
  have "sv_transferred (view (ch_our_state S)) \<le> sv_transferred (view (ch_our_state S'))"
    using deliverable_transferred [OF d] v by simp
  then have "transferred_amount (ch_our_state S) \<le> transferred_amount (ch_our_state S')"
    by (simp add: view_def)
  from deliverable_all_mono [OF order.refl this] f' so show "in_flight E bn R q' S'"
    by (simp add: in_flight_def sent_ok_def)
  show "node_ok E S'" by (rule sends_node_ok [OF s ok])
  show "ch_canonical_identifier S' = ch_canonical_identifier R" using so ci by (simp add: sent_ok_def)
qed

lemma receive_in_flight:
  assumes acc: "accept_message E bn g m R = Some R'" and ok: "node_ok E R"
    and f: "in_flight E bn S (m # q) R" and f': "in_flight E bn R q' S"
  shows "in_flight E bn S q R'" and "in_flight E bn R' q' S" and "node_ok E R'"
    and "ch_canonical_identifier R' = ch_canonical_identifier R"
proof -
  from f have d: "deliverable E (ch_canonical_identifier R) bn (transferred_amount (ch_our_state R)) m
      (view (ch_partner_state R))"
    by (simp add: in_flight_def)
  note r = receive_node_ok [OF ok d acc]
  show "node_ok E R'" by (rule r)
  show "ch_canonical_identifier R' = ch_canonical_identifier R" using r(2) by (simp add: received_ok_def)
  show "in_flight E bn S q R'" using f r(2,3) by (simp add: in_flight_def received_ok_def)
  show "in_flight E bn R' q' S" using f' r(2) by (simp add: in_flight_def received_ok_def)
qed

lemma view_register_secret:
  assumes "locks_wf es"
  shows "view (register_secret_endstate secret sh es) = view es"
    and "es_onchain_unlockedlocks (register_secret_endstate secret sh es) = es_onchain_unlockedlocks es"
proof -
  let ?r = "register_secret_endstate secret sh es"
  have m: "mset (lock_assoc ?r) = mset (lock_assoc es)" by (rule register_secret_assoc [OF assms])
  have "map_of (lock_assoc ?r) = map_of (lock_assoc es)"
    using m assms by (intro dict_mset_map_of) (simp_all add: locks_wf_def)
  then have "get_lock ?r = get_lock es" by (simp add: get_lock_assoc fun_eq_iff)
  moreover have "get_amount_locked ?r = get_amount_locked es" using m by (simp add: get_amount_locked_mset)
  moreover have "total_withdraw ?r = total_withdraw es"
    by (rule total_withdraw_cong) (simp_all add: end_simps)
  moreover have "transferred_amount ?r = transferred_amount es"
    by (simp add: transferred_amount_def end_simps)
  ultimately show "view ?r = view es" by (simp add: view_def end_simps)
  show "es_onchain_unlockedlocks ?r = es_onchain_unlockedlocks es"
    by (simp add: register_secret_endstate_def split: option.splits)
qed

lemma learn_ok:
  fixes ch secret sh defines "ch' \<equiv> register_offchain_secret ch secret sh"
  assumes "node_ok E ch"
  shows "node_ok E ch'" and "view (ch_our_state ch') = view (ch_our_state ch)"
    and "view (ch_partner_state ch') = view (ch_partner_state ch)"
    and "ch_canonical_identifier ch' = ch_canonical_identifier ch"
proof -
  from assms(2) have i: "chan_inv E ch" by (simp add: node_ok_def)
  note wf = end_invD(1) [OF chan_inv_sides(1) [OF i]] end_invD(1) [OF chan_inv_sides(2) [OF i]]
  show "view (ch_our_state ch') = view (ch_our_state ch)"
    and "view (ch_partner_state ch') = view (ch_partner_state ch)"
    and "ch_canonical_identifier ch' = ch_canonical_identifier ch"
    using view_register_secret(1) [OF wf(1)] view_register_secret(1) [OF wf(2)]
    by (simp_all add: ch'_def register_offchain_secret_def)
  show "node_ok E ch'"
    using assms(2) register_offchain_secret_inv [OF i] view_register_secret(2) [OF wf(1)]
      view_register_secret(2) [OF wf(2)]
    by (simp add: ch'_def node_ok_def no_onchain_secret_def register_offchain_secret_def chan_simps)
qed

lemma in_flight_cong:
  assumes "in_flight E bn S q R" and "view (ch_our_state S') = view (ch_our_state S)"
    and "view (ch_our_state R') = view (ch_our_state R)"
    and "view (ch_partner_state R') = view (ch_partner_state R)"
    and "ch_canonical_identifier R' = ch_canonical_identifier R"
  shows "in_flight E bn S' q R'"
proof -
  have "transferred_amount (ch_our_state R') = transferred_amount (ch_our_state R)"
    using arg_cong [OF assms(3), of sv_transferred] by (simp add: view_def)
  with assms show ?thesis by (simp add: in_flight_def)
qed

lemma net_step_inv: "net_step E N N' \<Longrightarrow> net_inv E N \<Longrightarrow> net_inv E N'"
proof (induction rule: net_step.induct)
  case (a_sends N A' m)
  then show ?case
    using send_in_flight [of E "net_block N" "net_a N" A' m "net_b N" "net_ab N" "net_ba N"]
    by (simp add: net_inv_def)
next
  case (b_sends N B' m)
  then show ?case
    using send_in_flight [of E "net_block N" "net_b N" B' m "net_a N" "net_ba N" "net_ab N"]
    by (simp add: net_inv_def)
next
  case (b_receives N m q g B')
  then show ?case
    using receive_in_flight [of E "net_block N" g m "net_b N" B' "net_a N" q "net_ba N"]
    by (simp add: net_inv_def)
next
  case (a_receives N m q g A')
  then show ?case
    using receive_in_flight [of E "net_block N" g m "net_a N" A' "net_b N" q "net_ab N"]
    by (simp add: net_inv_def)
next
  case (a_learns N secret sh)
  then show ?case
    using learn_ok [of E "net_a N" secret sh] by (auto simp: net_inv_def intro: in_flight_cong)
next
  case (b_learns N secret sh)
  then show ?case
    using learn_ok [of E "net_b N" secret sh] by (auto simp: net_inv_def intro: in_flight_cong)
next
  case (new_block N bn)
  then show ?case
    using deliverable_all_mono [OF new_block(1) order.refl] by (auto simp: net_inv_def in_flight_def)
qed

lemma net_reach_inv: "net_reach E N N' \<Longrightarrow> net_inv E N \<Longrightarrow> net_inv E N'"
  by (induction rule: net_reach.induct) (auto intro: net_step_inv)

text \<open>Both nodes open the channel from the same on-chain event.\<close>

definition opened_by :: "channel \<Rightarrow> channel \<Rightarrow> int \<Rightarrow> network" where
  "opened_by A B bn = \<lparr>net_a = A, net_b = B, net_ab = [], net_ba = [], net_block = bn\<rparr>"

definition freshly_opened ::
  "platform \<Rightarrow> canonical_identifier \<Rightarrow> (address \<times> int) \<Rightarrow> (address \<times> int) \<Rightarrow> channel \<Rightarrow> bool" where
  "freshly_opened E ci our partner ch \<longleftrightarrow>
     (\<exists>token registry reveal_timeout settle_timeout fees tx es es'.
        mk_end_state E (fst our) (snd our) = Inr es \<and> mk_end_state E (fst partner) (snd partner) = Inr es'
        \<and> mk_channel ci token registry reveal_timeout settle_timeout fees es es' tx = Inr ch)"

lemma freshly_opened_node_ok:
  assumes "freshly_opened E ci our partner ch"
  shows "node_ok E ch" and "ch_canonical_identifier ch = ci"
    and "mk_end_state E (fst our) (snd our) = Inr (ch_our_state ch)"
    and "mk_end_state E (fst partner) (snd partner) = Inr (ch_partner_state ch)"
proof -
  from assms obtain token registry reveal_timeout settle_timeout fees tx es es' where
    e: "mk_end_state E (fst our) (snd our) = Inr es" "mk_end_state E (fst partner) (snd partner) = Inr es'"
      "mk_channel ci token registry reveal_timeout settle_timeout fees es es' tx = Inr ch"
    by (auto simp: freshly_opened_def)
  from e(3) have f: "ch_our_state ch = es" "ch_partner_state ch = es'"
      "ch_close_transaction ch = None" "ch_settle_transaction ch = None"
    and "ch_canonical_identifier ch = ci"
    by (auto simp: mk_channel_def result_simps)
  then show "ch_canonical_identifier ch = ci"
    and "mk_end_state E (fst our) (snd our) = Inr (ch_our_state ch)"
    and "mk_end_state E (fst partner) (snd partner) = Inr (ch_partner_state ch)"
    using e by simp_all
  have "es_onchain_unlockedlocks es = []" and "es_onchain_unlockedlocks es' = []"
    using e(1,2) by (auto simp: mk_end_state_def result_simps)
  with f show "node_ok E ch"
    using new_channel_inv [OF e] by (simp add: node_ok_def no_onchain_secret_def get_status_def)
qed

lemma opened_inv:
  assumes "freshly_opened E ci a b A" and "freshly_opened E ci b a B"
  shows "net_inv E (opened_by A B bn)"
proof -
  note A = freshly_opened_node_ok [OF assms(1)] and B = freshly_opened_node_ok [OF assms(2)]
  from A B have "ch_our_state A = ch_partner_state B" and "ch_partner_state A = ch_our_state B"
    by simp_all
  with A B show ?thesis by (simp add: net_inv_def opened_by_def in_flight_def)
qed

subsection \<open>Delivery and agreement\<close>

text \<open>A run: Alice locks four tokens, the message is on its way to Bob.\<close>

lemma ex_freshly_opened:
  "freshly_opened ex_platform ex_ci (ex_alice, 10) (ex_bob, 10) (ex_channel ex_alice ex_bob)"
  "freshly_opened ex_platform ex_ci (ex_bob, 10) (ex_alice, 10) (ex_channel ex_bob ex_alice)"
  unfolding freshly_opened_def
  by (rule exI [of _ "replicate 20 4"], rule exI [of _ "replicate 20 5"], rule exI [of _ 20],
      rule exI [of _ 500], rule exI [of _ ex_fees],
      rule exI [of _ "\<lparr>stx_finished_block_number = 1, stx_started_block_number = None\<rparr>"],
      rule exI [of _ "ex_end ex_alice"] exI [of _ "ex_end ex_bob"],
      rule exI [of _ "ex_end ex_bob"] exI [of _ "ex_end ex_alice"], code_simp)+

lemma ex_net:
  "\<exists>m N. net_reach ex_platform (opened_by (ex_channel ex_alice ex_bob) (ex_channel ex_bob ex_alice) 2) N
    \<and> net_ab N = [m] \<and> net_ba N = [] \<and> net_a N = ex_locked"
proof -
  let ?A = "ex_channel ex_alice ex_bob" and ?B = "ex_channel ex_bob ex_alice"
  obtain ev where ev: "ex_send = Inr (ex_locked, ev)" using ex_send_ok by blast
  let ?bp = "ltu_balance_proof (slt_transfer ev)" and ?t = "ex_signed_transfer 1 ev"
  from ev have "\<exists>h. hash_balance_data ex_platform (bp_transferred_amount ?bp) (bp_locked_amount ?bp)
      (bp_locksroot ?bp) = Inr h"
    unfolding ex_send_def
    by (rule send_lockedtransferE) (auto simp: mk_balance_proof_unsigned_eq_Inr)
  then have sig: "is_valid_balanceproof_signature ex_platform (lts_balance_proof ?t) ex_alice = Inr []"
    using ex_sign_valid [of ?bp _ 1] by (auto simp: ex_signed_transfer_def ex_alice_def Let_def)
  have "sends ex_platform 2 ?A ex_locked (MsgLockedTransfer ?t)"
  proof (rule sends_lockedtransfer)
    show "get_lock (ch_our_state ?A) ex_secrethash = None" by code_simp
    show "length (es_pending_locks (ch_our_state ?A)) < MAXIMUM_PENDING_TRANSFERS" by code_simp
    show "send_lockedtransfer ex_platform ?A ex_alice ex_bob 4 77 5 50 (Some ex_secret) ex_secrethash
        [] None None = Inr (ex_locked, ev)" using ev by (simp add: ex_send_def)
    show "is_valid_balanceproof_signature ex_platform (lts_balance_proof ?t)
        (es_address (ch_our_state ?A)) = Inr []"
      using sig by (simp add: ex_channel_def ex_end_def)
  qed (simp_all add: ex_signed_transfer_def Let_def ex_sign_truncate)
  then have "net_step ex_platform (opened_by ?A ?B 2)
      ((opened_by ?A ?B 2)\<lparr>net_a := ex_locked, net_ab := net_ab (opened_by ?A ?B 2) @ [MsgLockedTransfer ?t]\<rparr>)"
    by (intro a_sends) (simp add: opened_by_def)
  from net_trans [OF net_refl this] show ?thesis by (force simp: opened_by_def)
qed

lemma ex_net_delivered:
  "\<exists>N. net_reach ex_platform (opened_by (ex_channel ex_alice ex_bob) (ex_channel ex_bob ex_alice) 2) N
    \<and> net_ab N = [] \<and> net_ba N = [] \<and> net_a N = ex_locked"
proof -
  from ex_net obtain m N where
    N: "net_reach ex_platform (opened_by (ex_channel ex_alice ex_bob) (ex_channel ex_bob ex_alice) 2) N"
      "net_ab N = [m]" "net_ba N = []" "net_a N = ex_locked" by blast
  have i: "net_inv ex_platform N" by (rule net_reach_inv [OF N(1) opened_inv [OF ex_freshly_opened]])
  then obtain B' where "accept_message ex_platform (net_block N) ex_prng m (net_b N) = Some B'"
    using receive_deliverable [of ex_platform "net_b N" "net_block N" m ex_prng] N(2)
    by (auto simp: net_inv_def node_ok_def in_flight_def)
  then have "net_step ex_platform N (N\<lparr>net_b := B', net_ab := []\<rparr>)" by (rule b_receives [OF N(2)])
  from net_trans [OF N(1) this] N show ?thesis by fastforce
qed



text \<open>
  C3. In every reachable state of this network in which the queue from the first node to the second
  is empty, both nodes agree on the first node's side of the channel: deposit, locks, encoded locks,
  nonce, transferred and locked amount. When both queues are empty they agree on what each of them
  can still spend.
\<close>

theorem network_agrees:
  assumes "freshly_opened E ci a b A" and "freshly_opened E ci b a B"
    and "net_reach E (opened_by A B bn) N" and "net_ab N = []"
  shows "view (ch_our_state (net_a N)) = view (ch_partner_state (net_b N))
    \<and> (net_ba N = [] \<longrightarrow>
        view (ch_partner_state (net_a N)) = view (ch_our_state (net_b N))
        \<and> get_balance (ch_our_state (net_a N)) (ch_partner_state (net_a N))
          = get_balance (ch_partner_state (net_b N)) (ch_our_state (net_b N)))"
proof -
  from net_reach_inv [OF assms(3) opened_inv [OF assms(1,2)]] assms(4)
  have f: "in_flight E (net_block N) (net_a N) [] (net_b N)"
    "in_flight E (net_block N) (net_b N) (net_ba N) (net_a N)"
    by (auto simp: net_inv_def)
  then show ?thesis by (auto simp: in_flight_def get_balance_eq view_def)
qed

theorem network_agrees_witness:
  "\<exists>N. net_reach ex_platform (opened_by (ex_channel ex_alice ex_bob) (ex_channel ex_bob ex_alice) 2) N
    \<and> get_amount_locked (ch_our_state (net_a N)) = 4
    \<and> view (ch_our_state (net_a N)) = view (ch_partner_state (net_b N))
    \<and> view (ch_partner_state (net_a N)) = view (ch_our_state (net_b N))"
proof -
  from ex_net_delivered obtain N where
    N: "net_reach ex_platform (opened_by (ex_channel ex_alice ex_bob) (ex_channel ex_bob ex_alice) 2) N"
      "net_ab N = []" "net_ba N = []" "net_a N = ex_locked" by blast
  have "get_amount_locked (ch_our_state ex_locked) = 4" by code_simp
  with N network_agrees [OF ex_freshly_opened N(1,2)] show ?thesis by auto
qed

end
