(* ===== verification/Channel_Payments.thy ===== *)
theory Channel_Payments
  imports Channel_Runs
begin

text \<open>
  What the payment messages of a channel do, stated on whole operations: when sending returns, what
  an accepted message guarantees, what an unlock pays, what a rejected message changes, and that
  sending and receiving implement the abstract ledger.
\<close>

subsection \<open>Creating balance proofs\<close>

lemma mk_balance_proof_unsigned_total:
  assumes "0 \<le> n" and "n < UINT64_MAX" and "0 \<le> t" and "0 \<le> k" and "t + k \<le> UINT256_MAX"
    and "length r = 32" and "ci_valid ci"
  shows "\<exists>bp. mk_balance_proof_unsigned E (n + 1) t k r ci = Inr bp"
proof -
  have "is_uint256 t" and "is_uint256 k" using assms(3-5) by auto
  from hash_balance_data_ok [OF assms(6) this] obtain h where "hash_balance_data E t k r = Inr h"
    by blast
  with assms show ?thesis by (auto simp: mk_balance_proof_unsigned_eq_Inr)
qed

lemma chan_inv_pending_bp:
  assumes "chan_inv E ch" and "get_lock (ch_our_state ch) sh = Some l"
  shows "\<exists>bp. es_balance_proof (ch_our_state ch) = Some bp"
proof -
  note o = chan_inv_sides(1) [OF assms(1)]
  have "encoded l \<in> set (es_pending_locks (ch_our_state ch))"
    by (rule locks_wf_get_lock(3) [OF end_invD(1) [OF o] assms(2)])
  with end_invD(5) [OF o] show ?thesis by (cases "es_balance_proof (ch_our_state ch)") auto
qed

lemma locked_le:
  assumes "end_inv E es" and "get_lock es sh = Some l"
  shows "0 \<le> lk_amount l" and "lk_amount l \<le> get_amount_locked es" and "0 \<le> get_amount_locked es"
proof -
  note wf = end_invD(1) [OF assms(1)]
  from locks_wf_get_lock(2) [OF wf assms(2)] show "0 \<le> lk_amount l" by (simp add: valid_lock_def)
  show "0 \<le> get_amount_locked es" by (rule amount_locked_nonneg [OF wf])
  have sh: "lk_secrethash l = sh" by (rule locks_wf_get_lock(1) [OF wf assms(2)])
  have "is_lock_pending (apply_removal b l es) (lk_secrethash l)" for b
    using assms(2) sh by (simp add: is_lock_pending_assoc get_lock_assoc dict_mem_def end_simps)
  then obtain b es' where "del_lock (lk_secrethash l) (apply_removal b l es) = Inr es'"
    using del_lock_total by blast
  then have "removal_of es b l es'" by (rule del_lock_removal)
  then have r: "lock_assoc es' = AList.delete sh (lock_assoc es)"
      "es_pending_locks es' = remove1 (encoded l) (es_pending_locks es)"
    by (simp_all add: removal_of_def sh)
  have "0 \<le> get_amount_locked es'"
    by (rule amount_locked_nonneg [OF locks_wf_remove [OF wf assms(2) r]])
  with amount_locked_remove [OF wf assms(2) r(1)] show "lk_amount l \<le> get_amount_locked es" by simp
qed

subsection \<open>Sending returns\<close>

lemma ex_platform_digests: "digests_ok ex_platform"
  by (simp add: digests_ok_def ex_platform_def)

lemma ex_channel_inv: "chan_inv ex_platform (ex_channel ex_alice ex_bob)"
  by (rule new_channel_inv [OF ex_channel_new])

lemma ex_locked_inv: "chan_inv ex_platform ex_locked"
  by (rule chan_reach_inv [OF ex_reach ex_channel_inv])

lemma send_lockedtransfer_total:
  assumes inv: "chan_inv E ch" and st: "get_status ch = STATE_OPENED"
    and d: "amount \<le> get_distributable E (ch_our_state ch) (ch_partner_state ch)"
    and lock: "valid_lock \<lparr>lk_amount = amount, lk_expiration = expiration, lk_secrethash = sh\<rparr>"
    and fresh: "get_lock (ch_our_state ch) sh = None"
    and env: "digests_ok E" "ci_valid (ch_canonical_identifier ch)" "es_nonce (ch_our_state ch) < UINT64_MAX"
      "\<And>l. compute_locksroot E (es_pending_locks (ch_our_state ch) @ [encoded l]) \<noteq> LOCKSROOT_OF_NO_LOCKS E"
  shows "\<exists>ch' ev. send_lockedtransfer E ch initiator target amount mid pid expiration secret sh routes
    md pmd = Inr (ch', ev)"
proof -
  let ?o = "ch_our_state ch"
    and ?l = "\<lparr>lk_amount = amount, lk_expiration = expiration, lk_secrethash = sh\<rparr>"
  note o = chan_inv_sides(1) [OF inv]
  have pos: "0 \<le> amount" using lock by (simp add: valid_lock_def)
  note ov = end_inv_overflow [OF o d]
  have k: "0 \<le> get_amount_locked ?o" by (rule amount_locked_nonneg [OF end_invD(1) [OF o]])
  have notin: "encoded ?l \<notin> set (es_pending_locks ?o)"
    by (rule locks_wf_fresh [OF end_invD(1) [OF o] lock]) (simp add: fresh)
  obtain bp where bp: "mk_balance_proof_unsigned E (es_nonce ?o + 1) (transferred_amount ?o)
      (get_amount_locked ?o + amount) (compute_locksroot E (es_pending_locks ?o @ [encoded ?l]))
      (ch_canonical_identifier ch) = Inr bp"
    using mk_balance_proof_unsigned_total [OF end_invD(3) [OF o] env(3) end_invD(2) [OF o] _ _ _ env(2),
        of "get_amount_locked ?o + amount"] ov pos k env(1) by (force simp: add.assoc)
  have t: "(case es_balance_proof ?o of None \<Rightarrow> 0 | Some b \<Rightarrow> bp_transferred_amount (bp_base b))
      = transferred_amount ?o" by (simp add: transferred_amount_def)
  have mk: "mk_hash_time_lock amount expiration sh = Inr ?l"
    using lock by (simp add: mk_hash_time_lock_eq_Inr)
  have "bp_locksroot bp \<noteq> LOCKSROOT_OF_NO_LOCKS E"
    using bp env(4) by (auto simp: mk_balance_proof_unsigned_eq_Inr)
  then show ?thesis
    using d st notin bp ov k
    by (simp add: send_lockedtransfer_def create_sendlockedtransfer_def compute_locks_with_def mk
        Let_def py_assert_def t get_next_nonce_def mk_locked_transfer_unsigned_def raise_if_def)
qed

lemma send_lockedtransfer_effect:
  assumes inv: "chan_inv E ch" and fresh: "get_lock (ch_our_state ch) sh = None"
    and send: "send_lockedtransfer E ch initiator target amount mid pid expiration secret sh routes
      md pmd = Inr (ch', ev)"
  shows "get_lock (ch_our_state ch') sh
      = Some \<lparr>lk_amount = amount, lk_expiration = expiration, lk_secrethash = sh\<rparr>"
    and "get_amount_locked (ch_our_state ch') = get_amount_locked (ch_our_state ch) + amount"
    and "get_balance (ch_our_state ch') (ch_partner_state ch')
      = get_balance (ch_our_state ch) (ch_partner_state ch)"
    and "ledger_of (ch_our_state ch') = ledger_lock (lt_lock (slt_transfer ev)) (ledger_of (ch_our_state ch))"
proof -
  let ?o = "ch_our_state ch"
  note o = chan_inv_sides(1) [OF inv]
  from send obtain l b where
    l: "l = \<lparr>lk_amount = amount, lk_expiration = expiration, lk_secrethash = sh\<rparr>" "valid_lock l"
    and d: "amount \<le> get_distributable E ?o (ch_partner_state ch)"
    and c: "bp_continues E ?o b (transferred_amount ?o) (get_amount_locked ?o + amount)
        (es_pending_locks ?o @ [encoded l])"
    and ch': "ch' = map_our_state (apply_lock (BPUnsigned b) l) ch"
    and ev: "lt_lock (slt_transfer ev) = l"
    by (rule send_lockedtransferE)
  have f: "get_lock ?o (lk_secrethash l) = None" "lk_amount l = amount" "lk_secrethash l = sh"
    using l(1) fresh by simp_all
  have a: "get_amount_locked (apply_lock (BPUnsigned b) l ?o) = get_amount_locked ?o + amount"
    "transferred_amount (apply_lock (BPUnsigned b) l ?o) = transferred_amount ?o"
    using end_inv_apply_lock(2,3) [OF o l(2) f(1), of "BPUnsigned b"] c f(2) end_inv_overflow [OF o d]
    by simp_all
  have g: "ledger_of (apply_lock (BPUnsigned b) l ?o) = ledger_lock l (ledger_of ?o)"
    by (rule ledger_apply_lock [OF f(1)]) (use c in simp)
  have w: "total_withdraw (apply_lock (BPUnsigned b) l ?o) = total_withdraw ?o"
    by (rule total_withdraw_cong) (simp_all add: end_simps)
  show "get_lock (ch_our_state ch') sh
      = Some \<lparr>lk_amount = amount, lk_expiration = expiration, lk_secrethash = sh\<rparr>"
    using g f(3) l(1) by (simp add: ch' ledger_of_def ledger_lock_def)
  show "get_amount_locked (ch_our_state ch') = get_amount_locked ?o + amount" using a by (simp add: ch')
  show "get_balance (ch_our_state ch') (ch_partner_state ch') = get_balance ?o (ch_partner_state ch)"
    using a w by (simp add: ch' get_balance_eq end_simps)
  show "ledger_of (ch_our_state ch') = ledger_lock (lt_lock (slt_transfer ev)) (ledger_of ?o)"
    using g ev by (simp add: ch')
qed



lemma send_unlock_total:
  assumes inv: "chan_inv E ch" and st: "get_status ch = STATE_OPENED"
    and l: "get_lock (ch_our_state ch) sh = Some l"
    and live: "bn < lk_expiration l \<or> dict_mem sh (es_onchain_unlockedlocks (ch_our_state ch))"
    and env: "digests_ok E" "ci_valid (ch_canonical_identifier ch)" "es_nonce (ch_our_state ch) < UINT64_MAX"
  shows "\<exists>ch' u. send_unlock E ch mid pid secret sh bn md = Inr (ch', u)"
proof -
  let ?o = "ch_our_state ch"
  note o = chan_inv_sides(1) [OF inv] and wf = locks_wf_get_lock [OF end_invD(1) [OF chan_inv_sides(1) [OF inv]] l]
  obtain our_bp where our_bp: "es_balance_proof ?o = Some our_bp" using chan_inv_pending_bp [OF inv l] by blast
  have t: "lk_amount l + bp_transferred_amount (bp_base our_bp) = transferred_amount ?o + lk_amount l"
    by (simp add: transferred_amount_def our_bp)
  note k = locked_le [OF o l] and tr = end_invD(2,4) [OF o]
  have "\<exists>bp. mk_balance_proof_unsigned E (es_nonce ?o + 1) (transferred_amount ?o + lk_amount l)
      (get_amount_locked ?o - lk_amount l)
      (compute_locksroot E (remove1 (encoded l) (es_pending_locks ?o))) (ch_canonical_identifier ch) = Inr bp"
    by (rule mk_balance_proof_unsigned_total [OF end_invD(3) [OF o] env(3) _ _ _ _ env(2)])
       (use k tr env(1) in simp_all)
  then obtain bp where bp: "mk_balance_proof_unsigned E (es_nonce ?o + 1)
      (transferred_amount ?o + lk_amount l) (get_amount_locked ?o - lk_amount l)
      (compute_locksroot E (remove1 (encoded l) (es_pending_locks ?o))) (ch_canonical_identifier ch) = Inr bp"
    by blast
  have p: "is_lock_pending ?o sh" using l by (simp add: is_lock_pending_get_lock)
  have nexp: "\<not> soe_ok (is_lock_expired ?o l bn (lk_expiration l))"
    using live wf(1) by (auto simp: is_lock_expired_def soe_ok_iff)
  have create: "create_unlock E ch mid pid secret l bn md
      = Inr (map_our_state (\<lambda>our. our\<lparr>es_nonce := es_nonce ?o + 1\<rparr>) ch,
         mk_send_unlock E (header (es_address (ch_partner_state ch)) md (ch_canonical_identifier ch) mid)
           pid (ch_token_address ch) bp secret, remove1 (encoded l) (es_pending_locks ?o))"
    using p nexp st wf our_bp bp
    by (simp add: create_unlock_def py_assert_def compute_locks_without_def Let_def t get_next_nonce_def)
  have "is_lock_pending (?o\<lparr>es_nonce := es_nonce ?o + 1, es_balance_proof := Some (BPUnsigned bp),
      es_pending_locks := remove1 (encoded l) (es_pending_locks ?o)\<rparr>) (lk_secrethash l)"
    using p wf(1) by (simp add: is_lock_pending_def)
  from del_lock_total [OF this] show ?thesis
    by (auto simp: send_unlock_def l create mk_send_unlock_def)
qed

lemma send_unlock_effect:
  assumes inv: "chan_inv E ch" and send: "send_unlock E ch mid pid secret sh bn md = Inr (ch', u)"
  shows "\<exists>l. get_lock (ch_our_state ch) sh = Some l \<and> get_lock (ch_our_state ch') sh = None
    \<and> get_balance (ch_our_state ch') (ch_partner_state ch')
        = get_balance (ch_our_state ch) (ch_partner_state ch) - lk_amount l
    \<and> get_balance (ch_partner_state ch') (ch_our_state ch')
        = get_balance (ch_partner_state ch) (ch_our_state ch) + lk_amount l
    \<and> ledger_of (ch_our_state ch') = ledger_unlock l (ledger_of (ch_our_state ch))"
  using send
proof (rule send_unlockE)
  fix l b our_bp our'
  let ?o = "ch_our_state ch"
  assume l: "get_lock ?o sh = Some l"
    and c: "bp_continues E ?o b (transferred_amount ?o + lk_amount l)
       (get_amount_locked ?o - lk_amount l) (remove1 (encoded l) (es_pending_locks ?o))"
    and del: "del_lock (lk_secrethash l) (apply_removal (BPUnsigned b) l ?o) = Inr our'"
    and ch': "ch' = ch\<lparr>ch_our_state := our'\<rparr>"
  note o = chan_inv_sides(1) [OF inv]
  have sh: "lk_secrethash l = sh" by (rule locks_wf_get_lock(1) [OF end_invD(1) [OF o] l])
  note rem = del_lock_removal [OF del]
  have g: "ledger_of our' = ledger_unlock l (ledger_of ?o)"
    by (rule ledger_removal_unlock [OF rem]) (use c in simp)
  have "total_withdraw our' = total_withdraw ?o"
    using rem by (intro total_withdraw_cong) (simp_all add: removal_of_def)
  moreover have "transferred_amount our' = transferred_amount ?o + lk_amount l"
    "get_lock our' sh = None"
    using arg_cong [OF g, of lg_transferred] arg_cong [OF g, of lg_locks] sh
    by (simp_all add: ledger_of_def ledger_unlock_def)
  ultimately show ?thesis
    using l g rem by (simp add: ch' get_balance_eq removal_of_def)
qed

text \<open>
  If a lock is pending on our side of an open channel that satisfies the invariant, and it has not
  expired or its secret was registered on-chain, then \<open>send_unlock\<close> does not raise. It removes the lock
  and moves exactly its amount from our balance to the partner's.
\<close>

theorem unlock_is_sent:
  assumes "chan_inv E ch" and "get_status ch = STATE_OPENED"
    and "get_lock (ch_our_state ch) sh = Some l"
    and "bn < lk_expiration l \<or> dict_mem sh (es_onchain_unlockedlocks (ch_our_state ch))"
    and "digests_ok E" and "ci_valid (ch_canonical_identifier ch)"
    and "es_nonce (ch_our_state ch) < UINT64_MAX"
  shows "\<exists>ch' u. send_unlock E ch mid pid secret sh bn md = Inr (ch', u)
    \<and> get_lock (ch_our_state ch') sh = None
    \<and> get_balance (ch_our_state ch') (ch_partner_state ch')
        = get_balance (ch_our_state ch) (ch_partner_state ch) - lk_amount l
    \<and> get_balance (ch_partner_state ch') (ch_our_state ch')
        = get_balance (ch_partner_state ch) (ch_our_state ch) + lk_amount l"
  using send_unlock_total [OF assms] send_unlock_effect [OF assms(1)] assms(3) by fastforce

theorem unlock_is_sent_witness:
  "\<exists>ch' u. send_unlock ex_platform ex_locked 78 5 ex_secret ex_secrethash 3 None = Inr (ch', u)
    \<and> get_balance (ch_our_state ch') (ch_partner_state ch') = 6"
proof -
  have 1: "get_status ex_locked = STATE_OPENED" and 2: "get_lock (ch_our_state ex_locked) ex_secrethash = Some ex_lock"
    and 3: "(3::int) < lk_expiration ex_lock \<or> dict_mem ex_secrethash (es_onchain_unlockedlocks (ch_our_state ex_locked))"
    and 4: "ci_valid (ch_canonical_identifier ex_locked)" "es_nonce (ch_our_state ex_locked) < UINT64_MAX"
    and 5: "get_balance (ch_our_state ex_locked) (ch_partner_state ex_locked) - lk_amount ex_lock = 6"
    by code_simp+
  from unlock_is_sent [OF ex_locked_inv 1 2 3 ex_platform_digests 4, of 78 5 ex_secret None] 5
  show ?thesis by auto
qed

subsection \<open>Accepted messages\<close>

lemma ex_bob_inv: "chan_inv ex_platform (ex_channel ex_bob ex_alice)"
proof (rule new_channel_inv)
  show "mk_end_state ex_platform ex_bob 10 = Inr (ex_end ex_bob)" by code_simp
  show "mk_end_state ex_platform ex_alice 10 = Inr (ex_end ex_alice)" by code_simp
  show "mk_channel ex_ci (replicate 20 4) (replicate 20 5) 20 500 ex_fees (ex_end ex_bob) (ex_end ex_alice)
     \<lparr>stx_finished_block_number = 1, stx_started_block_number = None\<rparr> = Inr (ex_channel ex_bob ex_alice)"
    by code_simp
qed

lemma ex_receive_step:
  "valid_lock (lt_lock ex_transfer)"
  "get_lock (ch_partner_state (ex_channel ex_bob ex_alice)) (lk_secrethash (lt_lock ex_transfer)) = None"
  by code_simp+

lemma ex_bob_locked_inv: "chan_inv ex_platform ex_bob_locked"
proof -
  from ex_receive_ok obtain evs where "ex_receive = Inr (ex_bob_locked, True, evs, None)" by blast
  then have "chan_step ex_platform (ex_channel ex_bob ex_alice) ex_bob_locked"
    unfolding ex_receive_def by (rule step_receive_lockedtransfer [OF ex_receive_step])
  then show ?thesis using ex_bob_inv by (rule chan_step_inv)
qed

text \<open>
  C26. A locked transfer that \<open>handle_receive_lockedtransfer\<close> accepts is signed by the partner, carries
  the next nonce and the amounts that follow from the current state, was received on an open channel
  with fewer than 160 pending transfers, and locks no more than the partner can spend. It changes
  neither balance, and the partner's locked amount grows by the amount of the lock.
\<close>

theorem accepted_transfer_is_covered:
  assumes inv: "chan_inv E ch" and new: "valid_lock (lt_lock t)"
      "get_lock (ch_partner_state ch) (lk_secrethash (lt_lock t)) = None"
    and rcv: "handle_receive_lockedtransfer E ch t md = Inr (ch', True, evs, m)"
  shows "is_valid_balanceproof_signature E (lts_balance_proof t) (es_address (ch_partner_state ch)) = Inr []
    \<and> get_status ch = STATE_OPENED
    \<and> bp_nonce (lts_balance_proof t) = es_nonce (ch_partner_state ch) + 1
    \<and> get_number_of_pending_transfers (ch_partner_state ch) < MAXIMUM_PENDING_TRANSFERS
    \<and> lk_amount (lt_lock t) \<le> get_distributable E (ch_partner_state ch) (ch_our_state ch)
    \<and> get_amount_locked (ch_partner_state ch')
        = get_amount_locked (ch_partner_state ch) + lk_amount (lt_lock t)
    \<and> get_balance (ch_partner_state ch') (ch_our_state ch')
        = get_balance (ch_partner_state ch) (ch_our_state ch)
    \<and> get_amount_locked (ch_partner_state ch') \<le> get_balance (ch_partner_state ch') (ch_our_state ch')"
proof -
  let ?p = "ch_partner_state ch" and ?b = "BPSigned (lts_balance_proof t)"
  note p = chan_inv_sides(2) [OF inv]
  from rcv obtain
    u: "is_balance_proof_usable_onchain E (lts_balance_proof t) ch ?p = Inr []"
    and n: "length (es_pending_locks ?p) < MAXIMUM_PENDING_TRANSFERS"
    and d: "lk_amount (lt_lock t) \<le> get_distributable E ?p (ch_our_state ch)"
    and c: "bp_continues E ?p (balance_proof.truncate (lts_balance_proof t)) (transferred_amount ?p)
       (get_amount_locked ?p + lk_amount (lt_lock t)) (es_pending_locks ?p @ [encoded (lt_lock t)])"
    and ch': "ch' = map_partner_state (apply_lock ?b (lt_lock t)) ch"
    by (rule handle_receive_lockedtransferE [OF _ end_inv_current_balanceproof [OF p]])
  have a: "get_amount_locked (apply_lock ?b (lt_lock t) ?p) = get_amount_locked ?p + lk_amount (lt_lock t)"
    "transferred_amount (apply_lock ?b (lt_lock t) ?p) = transferred_amount ?p"
    using end_inv_apply_lock(2,3) [OF p new, of ?b] c end_inv_overflow [OF p d] by simp_all
  have w: "total_withdraw (apply_lock ?b (lt_lock t) ?p) = total_withdraw ?p"
    by (rule total_withdraw_cong) (simp_all add: end_simps)
  have "chan_inv E ch'" by (rule handle_receive_lockedtransfer_inv [OF inv new rcv])
  then have "get_amount_locked (ch_partner_state ch') \<le> get_balance (ch_partner_state ch') (ch_our_state ch')"
    by (simp add: chan_inv_def pair_inv_def solvent_def)
  with u n d a w show ?thesis
    by (simp add: ch' usable_onchain_iff get_number_of_pending_transfers_def get_balance_eq end_simps)
qed

theorem accepted_transfer_is_covered_witness:
  "get_amount_locked (ch_partner_state ex_bob_locked)
     = get_amount_locked (ch_partner_state (ex_channel ex_bob ex_alice)) + lk_amount (lt_lock ex_transfer)"
proof -
  obtain evs where "ex_receive = Inr (ex_bob_locked, True, evs, None)" using ex_receive_ok by blast
  from accepted_transfer_is_covered [OF ex_bob_inv ex_receive_step this [unfolded ex_receive_def]]
  show ?thesis by simp
qed

lemma handle_unlock_effect:
  assumes inv: "chan_inv E ch" and rcv: "handle_unlock E ch u md = Inr (ch', True, evs, m)"
  shows "\<exists>l. get_lock (ch_partner_state ch) (ru_secrethash u) = Some l
    \<and> get_lock (ch_partner_state ch') (ru_secrethash u) = None
    \<and> get_amount_locked (ch_partner_state ch') = get_amount_locked (ch_partner_state ch) - lk_amount l
    \<and> get_balance (ch_our_state ch') (ch_partner_state ch')
        = get_balance (ch_our_state ch) (ch_partner_state ch) + lk_amount l
    \<and> get_balance (ch_partner_state ch') (ch_our_state ch')
        = get_balance (ch_partner_state ch) (ch_our_state ch) - lk_amount l
    \<and> get_capacity ch' = get_capacity ch"
  using rcv
proof (rule handle_unlockE [OF _ end_inv_current_balanceproof [OF chan_inv_sides(2) [OF inv]]])
  fix l p'
  let ?p = "ch_partner_state ch" and ?b = "BPSigned (ru_balance_proof u)"
  assume l: "get_lock ?p (ru_secrethash u) = Some l"
    and c: "bp_continues E ?p (balance_proof.truncate (ru_balance_proof u))
      (transferred_amount ?p + lk_amount l) (get_amount_locked ?p - lk_amount l)
      (remove1 (encoded l) (es_pending_locks ?p))"
    and del: "del_lock (ru_secrethash u) (apply_removal ?b l ?p) = Inr p'"
    and ch': "ch' = ch\<lparr>ch_partner_state := p'\<rparr>"
  note p = chan_inv_sides(2) [OF inv]
  have sh: "lk_secrethash l = ru_secrethash u" by (rule locks_wf_get_lock(1) [OF end_invD(1) [OF p] l])
  with del have rem: "removal_of ?p ?b l p'" by (intro del_lock_removal) simp
  have a: "get_amount_locked p' = get_amount_locked ?p - lk_amount l"
    "transferred_amount p' = transferred_amount ?p + lk_amount l"
    using end_inv_removal(2,3) [OF p _ rem, where t = "transferred_amount ?p + lk_amount l"] l sh c
      locked_le(1) [OF p l] by simp_all
  have "get_lock p' (ru_secrethash u) = None"
    using ledger_removal(1) [OF rem] sh by (simp add: ledger_of_def)
  moreover have "total_withdraw p' = total_withdraw ?p"
    using rem by (intro total_withdraw_cong) (simp_all add: removal_of_def)
  ultimately show ?thesis
    using l a rem by (simp add: ch' get_capacity_eq get_balance_eq removal_of_def)
qed

text \<open>
  C25. An unlock that \<open>handle_unlock\<close> accepts reveals the secret of a lock that is pending on the
  partner's side. It removes this lock and raises our balance by exactly its amount at the partner's
  expense; the capacity of the channel stays the same.
\<close>

theorem accepted_unlock_pays:
  assumes inv: "chan_inv E ch" and rcv: "handle_unlock E ch u md = Inr (ch', True, evs, m)"
  shows "\<exists>l. get_lock (ch_partner_state ch) (ru_secrethash u) = Some l
    \<and> get_lock (ch_partner_state ch') (ru_secrethash u) = None
    \<and> get_amount_locked (ch_partner_state ch') = get_amount_locked (ch_partner_state ch) - lk_amount l
    \<and> get_balance (ch_our_state ch') (ch_partner_state ch')
        = get_balance (ch_our_state ch) (ch_partner_state ch) + lk_amount l
    \<and> get_balance (ch_partner_state ch') (ch_our_state ch')
        = get_balance (ch_partner_state ch) (ch_our_state ch) - lk_amount l
    \<and> get_capacity ch' = get_capacity ch"
  by (rule handle_unlock_effect [OF inv rcv])

theorem accepted_unlock_pays_witness:
  "get_balance (ch_our_state ex_bob_unlocked) (ch_partner_state ex_bob_unlocked) = 14"
proof -
  have 1: "get_lock (ch_partner_state ex_bob_locked) (ru_secrethash ex_unlock_message) = Some ex_lock"
    and 2: "get_balance (ch_our_state ex_bob_locked) (ch_partner_state ex_bob_locked) + lk_amount ex_lock = 14"
    by code_simp+
  obtain evs where "ex_receive_unlock = Inr (ex_bob_unlocked, True, evs, None)"
    using ex_receive_unlock_ok by blast
  from accepted_unlock_pays [OF ex_bob_locked_inv this [unfolded ex_receive_unlock_def]] 1 2
  show ?thesis by auto
qed

subsection \<open>Rejected messages\<close>

text \<open>
  A payment message that is not accepted changes nothing: the channel is the one from before and
  the only event reports the message as invalid.
\<close>

theorem rejected_message_is_inert:
  "(handle_receive_lockedtransfer E ch t md = Inr (ch', False, evs, m) \<longrightarrow>
      ch' = ch \<and> (\<exists>e. evs = [EventInvalidReceivedLockedTransfer (lt_payment_identifier t) e]))
   \<and> (handle_refundtransfer E received ch refund = Inr (ch', False, evs, m) \<longrightarrow>
      ch' = ch \<and> (\<exists>e. evs = [EventInvalidReceivedTransferRefund (lt_payment_identifier received) e]))
   \<and> (handle_unlock E ch u md = Inr (ch', False, evs, m) \<longrightarrow>
      ch' = ch \<and> (\<exists>e. evs = [EventInvalidReceivedUnlock (ru_secrethash u) e]))
   \<and> (handle_receive_lock_expired E ch sc bn md = Inr (ch', evs) \<longrightarrow>
      (\<exists>h. evs = [SendProcessed h])
      \<or> ch' = ch \<and> (\<exists>e. evs = [EventInvalidReceivedLockExpired (rle_secrethash sc) e]))"
proof (intro conjI impI)
  assume "handle_receive_lock_expired E ch sc bn md = Inr (ch', evs)"
  then show "(\<exists>h. evs = [SendProcessed h])
      \<or> ch' = ch \<and> (\<exists>e. evs = [EventInvalidReceivedLockExpired (rle_secrethash sc) e])"
    by (cases "get_current_balanceproof E (ch_partner_state ch)")
       (auto elim!: handle_receive_lock_expired_cases simp: processed_def)
qed (auto simp: handle_receive_lockedtransfer_def handle_refundtransfer_def handle_unlock_def
      with_error_text_def result_simps Let_def split: if_splits option.splits)

theorem rejected_message_is_inert_witness:
  "\<exists>e evs m. handle_receive_lockedtransfer ex_platform ex_bob_locked ex_transfer None
     = Inr (ex_bob_locked, False, evs, m) \<and> evs = [EventInvalidReceivedLockedTransfer 5 e]"
proof -
  have "\<not> isl (handle_receive_lockedtransfer ex_platform ex_bob_locked ex_transfer None)
    \<and> \<not> fst (snd (projr (handle_receive_lockedtransfer ex_platform ex_bob_locked ex_transfer None)))"
    by code_simp
  then obtain ch' evs m where
    "handle_receive_lockedtransfer ex_platform ex_bob_locked ex_transfer None = Inr (ch', False, evs, m)"
    by (cases "handle_receive_lockedtransfer ex_platform ex_bob_locked ex_transfer None") auto
  with rejected_message_is_inert [of ex_platform ex_bob_locked ex_transfer None ch' evs m]
  show ?thesis by (auto simp: ex_transfer_def)
qed

subsection \<open>The ledger contract\<close>

lemma handle_receive_lockedtransfer_ledger:
  assumes inv: "chan_inv E ch" and fresh: "get_lock (ch_partner_state ch) (lk_secrethash (lt_lock t)) = None"
    and rcv: "handle_receive_lockedtransfer E ch t md = Inr (ch', True, evs, m)"
  shows "ledger_of (ch_partner_state ch') = ledger_lock (lt_lock t) (ledger_of (ch_partner_state ch))"
  using rcv
  by (rule handle_receive_lockedtransferE [OF _ end_inv_current_balanceproof [OF chan_inv_sides(2) [OF inv]]])
     (use fresh in \<open>simp add: ledger_apply_lock\<close>)

lemma handle_unlock_ledger:
  assumes inv: "chan_inv E ch" and l: "get_lock (ch_partner_state ch) (ru_secrethash u) = Some l"
    and rcv: "handle_unlock E ch u md = Inr (ch', True, evs, m)"
  shows "ledger_of (ch_partner_state ch') = ledger_unlock l (ledger_of (ch_partner_state ch))"
  using rcv
proof (rule handle_unlockE [OF _ end_inv_current_balanceproof [OF chan_inv_sides(2) [OF inv]]])
  fix l' p'
  let ?p = "ch_partner_state ch" and ?b = "BPSigned (ru_balance_proof u)"
  assume "get_lock ?p (ru_secrethash u) = Some l'"
    and c: "bp_continues E ?p (balance_proof.truncate (ru_balance_proof u))
      (transferred_amount ?p + lk_amount l') (get_amount_locked ?p - lk_amount l')
      (remove1 (encoded l') (es_pending_locks ?p))"
    and del: "del_lock (ru_secrethash u) (apply_removal ?b l' ?p) = Inr p'"
    and ch': "ch' = ch\<lparr>ch_partner_state := p'\<rparr>"
  with l have l': "l' = l" by simp
  have "lk_secrethash l = ru_secrethash u"
    by (rule locks_wf_get_lock(1) [OF end_invD(1) [OF chan_inv_sides(2) [OF inv]] l])
  with del l' have rem: "removal_of ?p ?b l p'" by (intro del_lock_removal) simp
  from c l' show ?thesis by (simp add: ch' ledger_removal_unlock [OF rem])
qed

lemma send_lock_expired_ledger:
  assumes "\<not> dict_mem (lk_secrethash l) (es_onchain_unlockedlocks (ch_our_state ch))"
    and "send_lock_expired E ch l g md = Inr (ch', g', [ev])"
  shows "ledger_of (ch_our_state ch') = ledger_expire l (ledger_of (ch_our_state ch))"
  using assms(2)
  by (rule send_lock_expiredE) (simp add: ledger_removal_expire [OF del_unclaimed_removal [OF assms(1)]])

lemma handle_receive_lock_expired_ledger:
  assumes inv: "chan_inv E ch"
    and l: "get_lock (ch_partner_state ch) (rle_secrethash sc) = Some l"
    and rcv: "handle_receive_lock_expired E ch sc bn md = Inr (ch', [SendProcessed h])"
  shows "ledger_of (ch_partner_state ch') = ledger_expire l (ledger_of (ch_partner_state ch))"
  using rcv
proof (rule handle_receive_lock_expired_cases
    [OF _ end_inv_current_balanceproof [OF chan_inv_sides(2) [OF inv]]])
  fix l'
  let ?p = "ch_partner_state ch"
  assume n: "\<not> dict_mem (rle_secrethash sc) (es_onchain_unlockedlocks ?p)"
    and "get_lock ?p (rle_secrethash sc) = Some l'"
    and c: "bp_continues E ?p (balance_proof.truncate (rle_balance_proof sc)) (transferred_amount ?p)
       (get_amount_locked ?p - lk_amount l') (remove1 (encoded l') (es_pending_locks ?p))"
    and ch': "ch' = map_partner_state (\<lambda>partner. del_unclaimed_lock (rle_secrethash sc)
       (apply_removal (BPSigned (rle_balance_proof sc)) l' partner)) ch"
  with l have l': "l' = l" by simp
  have sh: "lk_secrethash l = rle_secrethash sc"
    by (rule locks_wf_get_lock(1) [OF end_invD(1) [OF chan_inv_sides(2) [OF inv]] l])
  with n have n': "\<not> dict_mem (lk_secrethash l) (es_onchain_unlockedlocks ?p)" by simp
  from c l' show ?thesis
    using ledger_removal_expire [OF del_unclaimed_removal [OF n'], of E "BPSigned (rle_balance_proof sc)"]
    by (simp add: ch' sh)
qed simp

text \<open>
  C28. On the side that a payment message belongs to, sending it and accepting it both implement the
  same step of the abstract ledger, whose state is the map of pending locks, the transferred amount
  and the nonce: a transfer adds its lock, an unlock removes the lock and pays its amount, an
  expiration removes the lock and pays nothing, and each of them counts the nonce up by one.
\<close>

theorem messages_refine_ledger:
  assumes "chan_inv E ch"
  shows "(get_lock (ch_our_state ch) sh = None \<longrightarrow>
      send_lockedtransfer E ch initiator target amount mid pid expiration secret sh routes md pmd
        = Inr (ch', ev) \<longrightarrow>
      ledger_of (ch_our_state ch') = ledger_lock (lt_lock (slt_transfer ev)) (ledger_of (ch_our_state ch)))
   \<and> (get_lock (ch_partner_state ch) (lk_secrethash (lt_lock t)) = None \<longrightarrow>
      handle_receive_lockedtransfer E ch t md = Inr (ch', True, evs, m) \<longrightarrow>
      ledger_of (ch_partner_state ch') = ledger_lock (lt_lock t) (ledger_of (ch_partner_state ch)))
   \<and> (get_lock (ch_our_state ch) sh = Some l \<longrightarrow>
      send_unlock E ch mid pid the_secret sh bn md = Inr (ch', su) \<longrightarrow>
      ledger_of (ch_our_state ch') = ledger_unlock l (ledger_of (ch_our_state ch)))
   \<and> (get_lock (ch_partner_state ch) (ru_secrethash u) = Some l \<longrightarrow>
      handle_unlock E ch u md = Inr (ch', True, evs, m) \<longrightarrow>
      ledger_of (ch_partner_state ch') = ledger_unlock l (ledger_of (ch_partner_state ch)))
   \<and> (\<not> dict_mem (lk_secrethash l) (es_onchain_unlockedlocks (ch_our_state ch)) \<longrightarrow>
      send_lock_expired E ch l g md = Inr (ch', g', [sle]) \<longrightarrow>
      ledger_of (ch_our_state ch') = ledger_expire l (ledger_of (ch_our_state ch)))
   \<and> (get_lock (ch_partner_state ch) (rle_secrethash sc) = Some l \<longrightarrow>
      handle_receive_lock_expired E ch sc bn md = Inr (ch', [SendProcessed h]) \<longrightarrow>
      ledger_of (ch_partner_state ch') = ledger_expire l (ledger_of (ch_partner_state ch)))"
  using send_lockedtransfer_effect(4) [OF assms] handle_receive_lockedtransfer_ledger [OF assms]
    send_unlock_effect [OF assms] handle_unlock_ledger [OF assms] send_lock_expired_ledger
    handle_receive_lock_expired_ledger [OF assms]
  by (metis (no_types, lifting) option.inject)

theorem messages_refine_ledger_witness:
  "ledger_of (ch_partner_state ex_bob_locked)
     = ledger_lock ex_lock (ledger_of (ch_partner_state (ex_channel ex_bob ex_alice)))"
proof -
  obtain evs where "ex_receive = Inr (ex_bob_locked, True, evs, None)" using ex_receive_ok by blast
  moreover have "lt_lock ex_transfer = ex_lock" by (simp add: ex_transfer_def)
  ultimately show ?thesis
    using messages_refine_ledger [OF ex_bob_inv] ex_receive_step(2) unfolding ex_receive_def by metis
qed

end
