(* ===== verification/Channel_Status.thy ===== *)
theory Channel_Status
  imports Channel_Runs
begin

text \<open>
  The life cycle of a channel: opened, waiting for close, closed, waiting for settle, settled. No
  operation moves a channel backwards, and the status \<open>STATE_UNUSABLE\<close> does not occur, since a
  finished transaction is always recorded as a success.
\<close>

fun status_rank :: "channel_status \<Rightarrow> nat" where
  "status_rank STATE_OPENED = 0"
| "status_rank STATE_CLOSING = 1"
| "status_rank STATE_CLOSED = 2"
| "status_rank STATE_SETTLING = 3"
| "status_rank STATE_SETTLED = 4"
| "status_rank STATE_UNUSABLE = 5"

definition transaction_ok :: "transaction_execution_status option \<Rightarrow> bool" where
  "transaction_ok tx \<longleftrightarrow>
     (case tx of None \<Rightarrow> True
      | Some t \<Rightarrow> tx_finished_block_number t \<noteq> None \<longrightarrow> tx_result t = Some SUCCESS)"

definition transactions_ok :: "channel \<Rightarrow> bool" where
  "transactions_ok ch \<longleftrightarrow>
     transaction_ok (ch_close_transaction ch) \<and> transaction_ok (ch_settle_transaction ch)"

text \<open>Progress: the transactions stay well-formed and the rank does not decrease.\<close>

definition progress :: "channel \<Rightarrow> channel \<Rightarrow> bool" where
  "progress ch ch' \<longleftrightarrow>
     (transactions_ok ch \<longrightarrow>
       transactions_ok ch' \<and> status_rank (get_status ch) \<le> status_rank (get_status ch'))"

lemma progress_same:
  "ch_close_transaction ch' = ch_close_transaction ch \<Longrightarrow>
   ch_settle_transaction ch' = ch_settle_transaction ch \<Longrightarrow> progress ch ch'"
  by (simp add: progress_def transactions_ok_def get_status_def cong: option.case_cong)

lemma progress_trans: "progress ch ch' \<Longrightarrow> progress ch' ch'' \<Longrightarrow> progress ch ch''"
  by (auto simp: progress_def)

lemma finish_transaction_ok: "transaction_ok tx \<Longrightarrow> transaction_ok (finish_transaction tx n)"
  by (auto simp: finish_transaction_def transaction_ok_def split: option.splits)

lemma finish_transaction_success:
  assumes "transaction_ok tx"
  shows "\<exists>t. finish_transaction tx n = Some t \<and> tx_result t = Some SUCCESS"
  using assms
  by (cases tx) (auto simp: finish_transaction_def transaction_ok_def block_number_unset_def)

lemma status_settled_max: "transactions_ok ch \<Longrightarrow> status_rank (get_status ch) \<le> 4"
  by (auto simp: transactions_ok_def transaction_ok_def get_status_def split: option.splits)

lemma progress_set_settled: "progress ch (set_settled n ch)"
proof -
  have "get_status (set_settled n ch) = STATE_SETTLED" if "transactions_ok ch"
    using that finish_transaction_success [of "ch_settle_transaction ch" n]
    by (auto simp: transactions_ok_def get_status_def set_settled_def)
  with status_settled_max [of ch] show ?thesis
    by (auto simp: progress_def transactions_ok_def set_settled_def finish_transaction_ok)
qed

lemma status_prior:
  assumes "get_status ch \<in> set CHANNEL_STATES_PRIOR_TO_CLOSED"
  shows "ch_settle_transaction ch = None" and "status_rank (get_status ch) \<le> 1"
  using assms
  by (auto simp: CHANNEL_STATES_PRIOR_TO_CLOSED_def get_status_def split: option.splits if_splits)

lemma progress_set_closed:
  assumes "get_status ch \<in> set CHANNEL_STATES_PRIOR_TO_CLOSED"
  shows "progress ch (set_closed n ch)"
proof -
  have "get_status (set_closed n ch) = STATE_CLOSED" if "transactions_ok ch"
    using that finish_transaction_success [of "ch_close_transaction ch" n] status_prior(1) [OF assms]
    by (auto simp: transactions_ok_def get_status_def set_closed_def)
  with status_prior(2) [OF assms] show ?thesis
    by (auto simp: progress_def transactions_ok_def set_closed_def finish_transaction_ok)
qed

lemma handle_channel_closed_progress:
  assumes "handle_channel_closed a ch g = Inr (Some ch', g', evs)"
  shows "progress ch ch'"
proof (cases "get_status ch \<in> set CHANNEL_STATES_PRIOR_TO_CLOSED")
  case True
  have "ch' = ch \<or> (ch_close_transaction ch' = ch_close_transaction (set_closed (cr_block_number a) ch)
      \<and> ch_settle_transaction ch' = ch_settle_transaction (set_closed (cr_block_number a) ch))"
    using assms by (auto simp: handle_channel_closed_def result_simps Let_def split: if_splits option.splits)
  with progress_set_closed [OF True, of "cr_block_number a"] show ?thesis
    by (auto intro: progress_same progress_trans)
next
  case False
  with assms show ?thesis by (simp add: handle_channel_closed_def progress_same)
qed

lemma handle_action_close_progress:
  assumes "handle_action_close ci ch bn bh g = Inr (Some ch', g', evs)"
  shows "progress ch ch'"
proof (cases "get_status ch \<in> set CHANNEL_STATES_PRIOR_TO_CLOSED")
  case True
  with assms have "ch_close_transaction ch' = Some \<lparr>tx_started_block_number = Some bn,
      tx_finished_block_number = None, tx_result = None\<rparr>"
    and "ch_settle_transaction ch' = None"
    using status_prior(1) [OF True]
    by (auto simp: handle_action_close_def events_for_close_def result_simps Let_def)
  with status_prior(2) [OF True] show ?thesis
    by (simp add: progress_def transactions_ok_def transaction_ok_def get_status_def)
next
  case False
  with assms have "ch' = ch"
    by (auto simp: handle_action_close_def events_for_close_def result_simps)
  then show ?thesis by (simp add: progress_same)
qed

lemma expire_withdraws_transactions:
  "expire_withdraws bn ws ch g = Inr (ch', g', evs) \<Longrightarrow>
     ch_close_transaction ch' = ch_close_transaction ch
     \<and> ch_settle_transaction ch' = ch_settle_transaction ch"
proof (induction ws arbitrary: ch g ch' g' evs)
  case (Cons w ws)
  show ?case
  proof (cases "is_withdraw_expired bn (get_sender_expiration_threshold (pw_expiration w))")
    case True
    with Cons.prems obtain ch1 g1 ev g2 evs' where
      1: "expire_withdraw w ch g = Inr (ch1, g1, ev)" and
      2: "expire_withdraws bn ws ch1 g1 = Inr (ch', g2, evs')"
      by (auto simp: result_simps)
    from 1 have "ch_close_transaction ch1 = ch_close_transaction ch
        \<and> ch_settle_transaction ch1 = ch_settle_transaction ch"
      by (auto simp: expire_withdraw_def result_simps Let_def split: prod.splits)
    with Cons.IH [OF 2] show ?thesis by simp
  qed (use Cons.prems in simp)
qed simp

lemma handle_block_progress:
  assumes "handle_block b ch bn g = Inr (Some ch', g', evs)"
  shows "progress ch ch'"
proof -
  from assms obtain ch1 g1 evs1 where
    run: "(if get_status ch = STATE_OPENED then events_for_expired_withdraws ch bn g
           else Inr (ch, g, [])) = Inr (ch1, g1, evs1)"
    by (auto simp: handle_block_def result_simps)
  have "ch_close_transaction ch1 = ch_close_transaction ch
      \<and> ch_settle_transaction ch1 = ch_settle_transaction ch"
    using run expire_withdraws_transactions
    by (auto simp: events_for_expired_withdraws_def split: if_splits)
  then have "progress ch ch1" by (simp add: progress_same)
  moreover have "progress ch1 ch'"
  proof (cases "get_status ch1 = STATE_CLOSED")
    case True
    then obtain tx where "ch_settle_transaction ch1 = None" and "ch_close_transaction ch1 = Some tx"
      by (auto simp: get_status_def split: option.splits if_splits)
    moreover have "ch' = ch1 \<or> ch' = ch1\<lparr>ch_settle_transaction := Some
        \<lparr>tx_started_block_number = Some (blk_block_number b), tx_finished_block_number = None,
         tx_result = None\<rparr>\<rparr>"
      using assms True unfolding handle_block_def run
      by (auto simp: result_simps Let_def split: if_splits option.splits)
    ultimately show ?thesis
      using True by (auto simp: progress_def transactions_ok_def transaction_ok_def get_status_def)
  next
    case False
    with assms have "ch' = ch1" unfolding handle_block_def run by (auto simp: result_simps)
    then show ?thesis by (simp add: progress_same)
  qed
  ultimately show ?thesis by (rule progress_trans)
qed

lemma handle_channel_settled_progress:
  assumes "handle_channel_settled E a ch g = Inr (Some ch', g', evs)"
  shows "progress ch ch'"
proof -
  have "ch' = ch \<or> (ch_close_transaction ch' = ch_close_transaction (set_settled (cr_block_number a) ch)
      \<and> ch_settle_transaction ch' = ch_settle_transaction (set_settled (cr_block_number a) ch))"
    using assms unfolding handle_channel_settled_def Let_def
    by (auto simp: result_simps split: if_splits)
  with progress_set_settled [of ch "cr_block_number a"] show ?thesis
    by (auto intro: progress_same progress_trans)
qed

subsection \<open>All steps\<close>

lemma message_progress:
  "send_lockedtransfer E ch initiator target amount mid pid expiration secret sh routes md pmd
     = Inr (ch', slt) \<Longrightarrow> progress ch ch'"
  "send_unlock E ch mid pid sec sh bn md = Inr (ch', su) \<Longrightarrow> progress ch ch'"
  "send_lock_expired E ch l g md = Inr (ch', g', sles) \<Longrightarrow> progress ch ch'"
  "handle_receive_lockedtransfer E ch t md = Inr (ch', ok, evs, m) \<Longrightarrow> progress ch ch'"
  "handle_refundtransfer E received ch refund = Inr (ch', ok, evs, m) \<Longrightarrow> progress ch ch'"
  "handle_unlock E ch u md = Inr (ch', ok, evs, m) \<Longrightarrow> progress ch ch'"
  "handle_receive_lock_expired E ch rle bn md = Inr (ch', evs) \<Longrightarrow> progress ch ch'"
  "register_onchain_secret ch sec sh n True = Inr ch' \<Longrightarrow> progress ch ch'"
  by (rule progress_same;
      auto simp: send_lockedtransfer_def send_unlock_def create_unlock_def send_lock_expired_def
        handle_receive_lockedtransfer_def handle_refundtransfer_def handle_unlock_def
        handle_receive_lock_expired_def register_onchain_secret_def with_error_text_def
        result_simps Let_def split: option.splits if_splits)+

lemma send_withdraw_request_transactions:
  "send_withdraw_request ch t e g md c = (ch', g', evs) \<Longrightarrow>
     ch_close_transaction ch' = ch_close_transaction ch
     \<and> ch_settle_transaction ch' = ch_settle_transaction ch"
  by (auto simp: send_withdraw_request_def Let_def split: if_splits prod.splits)

lemma action_progress:
  "handle_action_withdraw aw ch bn g = Inr (Some ch', g', evs) \<Longrightarrow> progress ch ch'"
  "handle_action_coop_settle ac ch bn g = Inr (Some ch', g', evs) \<Longrightarrow> progress ch ch'"
  "handle_action_set_reveal_timeout ar ch g = Inr (Some ch', g', evs) \<Longrightarrow> progress ch ch'"
  "handle_receive_withdraw_expired rwe ch bn g = Inr (Some ch', g', evs) \<Longrightarrow> progress ch ch'"
  "handle_channel_updated_transfer crt ch bn g = Inr (Some ch', g', evs) \<Longrightarrow> progress ch ch'"
  "handle_channel_batch_unlock E cru ch g = Inr (Some ch', g', evs) \<Longrightarrow> progress ch ch'"
  by (rule progress_same;
      auto simp: handle_action_withdraw_def handle_action_coop_settle_def
        handle_action_set_reveal_timeout_def handle_receive_withdraw_expired_def
        handle_channel_updated_transfer_def handle_channel_batch_unlock_def with_error_text_def
        result_simps Let_def split: option.splits if_splits prod.splits
        dest: send_withdraw_request_transactions)+

lemma fee_progress: "update_fee_schedule_after_balance_change E ch c = Inr ch' \<Longrightarrow>
    ch_close_transaction ch' = ch_close_transaction ch
    \<and> ch_settle_transaction ch' = ch_settle_transaction ch"
  by (auto simp: update_fee_schedule_after_balance_change_def result_simps Let_def)

lemma balance_change_progress:
  "handle_channel_deposit E crd ch g = Inr (Some ch', g', evs) \<Longrightarrow> progress ch ch'"
  "handle_channel_withdraw E crw ch g = Inr (Some ch', g', evs) \<Longrightarrow> progress ch ch'"
  by (rule progress_same;
      auto simp: handle_channel_deposit_def handle_channel_withdraw_def result_simps Let_def
        split: if_splits dest!: fee_progress)+

lemma state_change_progress:
  assumes "handle_state_transitions E sc ch bn bh g = Inr (Some ch', g', evs)"
  shows "progress ch ch'"
proof (cases sc)
  case (ReceiveWithdrawRequest a)
  with assms show ?thesis
    by (simp add: handle_state_transitions_def handle_receive_withdraw_request_raises)
next
  case (ReceiveWithdrawConfirmation a)
  with assms show ?thesis
    by (auto simp: handle_state_transitions_def progress_same
        dest: handle_receive_withdraw_confirmation_unchanged)
qed (use assms in \<open>simp_all add: handle_state_transitions_def progress_same handle_block_progress
  handle_action_close_progress handle_channel_closed_progress handle_channel_settled_progress
  action_progress balance_change_progress\<close>)

lemma chan_step_progress: "chan_step E ch ch' \<Longrightarrow> progress ch ch'"
  by (induction rule: chan_step.induct)
     (simp_all add: message_progress state_change_progress progress_same register_offchain_secret_def)

lemma chan_reach_progress: "chan_reach E ch ch' \<Longrightarrow> progress ch ch'"
proof (induction rule: chan_reach.induct)
  case (reach_refl ch)
  show ?case by (simp add: progress_def)
next
  case (reach_step ch ch' ch'')
  from reach_step.IH chan_step_progress [OF reach_step.hyps(2)] show ?case by (rule progress_trans)
qed

subsection \<open>The life cycle is monotone\<close>

lemma new_channel_status:
  "mk_channel ci token registry reveal_timeout settle_timeout fees our partner tx = Inr ch \<Longrightarrow>
   transactions_ok ch \<and> get_status ch = STATE_OPENED"
  by (auto simp: mk_channel_def result_simps transactions_ok_def transaction_ok_def get_status_def)

text \<open>
  C31. Along every run of a channel the status never goes back in the order opened, waiting for close,
  closed, waiting for settle, settled, and the status \<open>STATE_UNUSABLE\<close> is never reached.
\<close>

theorem status_never_goes_back:
  assumes "mk_channel ci token registry reveal_timeout settle_timeout fees our partner tx = Inr ch"
    and "chan_reach E ch ch'" and "chan_reach E ch' ch''"
  shows "status_rank (get_status ch') \<le> status_rank (get_status ch'')
    \<and> get_status ch'' \<noteq> STATE_UNUSABLE"
proof -
  have "transactions_ok ch'"
    using chan_reach_progress [OF assms(2)] new_channel_status [OF assms(1)] by (simp add: progress_def)
  with chan_reach_progress [OF assms(3)] have "transactions_ok ch''"
    and r: "status_rank (get_status ch') \<le> status_rank (get_status ch'')" by (simp_all add: progress_def)
  from status_settled_max [OF this(1)] have "get_status ch'' \<noteq> STATE_UNUSABLE" by auto
  with r show ?thesis by simp
qed

theorem status_never_goes_back_witness:
  "status_rank (get_status (ex_channel ex_alice ex_bob)) \<le> status_rank (get_status ex_locked)
    \<and> get_status ex_locked \<noteq> STATE_UNUSABLE"
  by (rule status_never_goes_back [OF ex_channel_new(3) reach_refl ex_reach])

end
