(* ===== verification/Channel_Closing.thy ===== *)
theory Channel_Closing
  imports Channel_Payments
begin

text \<open>
  The end of a channel's life: withdraws and their expiration, cooperative settlement, closing with
  the partner's last balance proof, settling after the settlement window, and secrets that are
  registered on-chain.
\<close>

subsection \<open>Expiring withdraws\<close>

text \<open>The pending withdraws that the loop of \<open>events_for_expired_withdraws\<close> takes: it stops at the
  first one that has not expired.\<close>

definition expired_prefix :: "int \<Rightarrow> (int, pending_withdraw) dict \<Rightarrow> (int, pending_withdraw) dict" where
  "expired_prefix bn ws = takeWhile (\<lambda>(k, w).
     is_withdraw_expired bn (get_sender_expiration_threshold (pw_expiration w))) ws"

lemma expire_withdraws_run:
  assumes "chan_inv E ch" and "es_withdraws_pending (ch_our_state ch) = ws"
  shows "\<exists>ch' g' evs. expire_withdraws bn (dict_values ws) ch g = Inr (ch', g', evs)
    \<and> es_withdraws_pending (ch_our_state ch') = drop (length evs) ws
    \<and> length evs = length (expired_prefix bn ws)
    \<and> es_nonce (ch_our_state ch') = es_nonce (ch_our_state ch) + int (length evs)"
  using assms
proof (induction ws arbitrary: ch g)
  case Nil
  then show ?case by (simp add: dict_values_def expired_prefix_def)
next
  case (Cons p ws)
  obtain k w where p: "p = (k, w)" by (cases p)
  show ?case
  proof (cases "is_withdraw_expired bn (get_sender_expiration_threshold (pw_expiration w))")
    case False
    with Cons.prems p show ?thesis by (simp add: dict_values_def expired_prefix_def)
  next
    case True
    from Cons.prems(1) Cons.prems(2) [unfolded p] obtain ch1 g1 ev where
      1: "expire_withdraw w ch g = Inr (ch1, g1, ev)" "chan_inv E ch1"
        "es_withdraws_pending (ch_our_state ch1) = ws"
        "es_nonce (ch_our_state ch1) = es_nonce (ch_our_state ch) + 1"
      by (rule expire_withdraw_head)
    from Cons.IH [OF 1(2,3), of g1] obtain ch2 g2 evs where
      2: "expire_withdraws bn (dict_values ws) ch1 g1 = Inr (ch2, g2, evs)"
      "es_withdraws_pending (ch_our_state ch2) = drop (length evs) ws"
      "length evs = length (expired_prefix bn ws)"
      "es_nonce (ch_our_state ch2) = es_nonce (ch_our_state ch1) + int (length evs)"
      by blast
    have "expire_withdraws bn (dict_values (p # ws)) ch g = Inr (ch2, g2, ev # evs)"
      using True 1(1) 2(1) by (simp add: p dict_values_def)
    moreover have "length (ev # evs) = length (expired_prefix bn (p # ws))"
      using True 2(3) by (simp add: p expired_prefix_def)
    moreover have "es_withdraws_pending (ch_our_state ch2) = drop (length (ev # evs)) (p # ws)"
      and "es_nonce (ch_our_state ch2) = es_nonce (ch_our_state ch) + int (length (ev # evs))"
      using 1(4) 2(2,4) by simp_all
    ultimately show ?thesis by blast
  qed
qed


definition ex_withdraw_action :: "int \<Rightarrow> action_channel_withdraw" where
  "ex_withdraw_action n = \<lparr>aw_canonical_identifier = ex_ci, aw_total_withdraw = n,
     aw_recipient_metadata = None\<rparr>"

definition ex_withdrawing :: channel where
  "ex_withdrawing = (case state_transition ex_platform (ex_channel ex_alice ex_bob)
       (ActionChannelWithdraw (ex_withdraw_action 3)) 3 (replicate 32 0) ex_prng of
     Inr (Some ch, g, evs) \<Rightarrow> ch | _ \<Rightarrow> ex_channel ex_alice ex_bob)"

lemma ex_withdrawing_inv: "chan_inv ex_platform ex_withdrawing"
proof (cases "state_transition ex_platform (ex_channel ex_alice ex_bob)
       (ActionChannelWithdraw (ex_withdraw_action 3)) 3 (replicate 32 0) ex_prng")
  case (Inl e)
  then show ?thesis by (simp add: ex_withdrawing_def ex_channel_inv)
next
  case (Inr r)
  have adm: "admissible (ex_channel ex_alice ex_bob) (ActionChannelWithdraw (ex_withdraw_action 3))"
    by code_simp
  obtain c g evs where r: "r = (c, g, evs)" by (cases r) auto
  show ?thesis
  proof (cases c)
    case None
    with Inr r show ?thesis by (simp add: ex_withdrawing_def ex_channel_inv)
  next
    case (Some ch)
    with Inr r have "handle_state_transitions ex_platform (ActionChannelWithdraw (ex_withdraw_action 3))
        (ex_channel ex_alice ex_bob) 3 (replicate 32 0) ex_prng = Inr (Some ch, g, evs)"
      by (auto simp: state_transition_def result_simps split: option.splits)
    from handle_state_transitions_inv [OF ex_channel_inv adm this] show ?thesis
      by (simp add: ex_withdrawing_def Inr r Some)
  qed
qed


subsection \<open>Withdraw messages of the partner\<close>

text \<open>
  C37. No withdraw message of the partner is ever processed: \<open>pack_withdraw\<close> raises
  \<open>NotImplementedError\<close>, so every withdraw request raises it, and every withdraw confirmation either
  raises it or is answered as invalid without changing the channel.
\<close>

theorem withdraw_messages_never_processed:
  "state_transition E ch (ReceiveWithdrawRequest r) bn bh g = Inl NotImplementedError
   \<and> (case state_transition E ch (ReceiveWithdrawConfirmation c) bn bh g of
       Inl e \<Rightarrow> True
     | Inr (ch', g', evs) \<Rightarrow> ch' = Some ch \<and>
         (\<exists>m. evs = [EventInvalidReceivedWithdraw (rw_total_withdraw c) m]))"
proof
  show "state_transition E ch (ReceiveWithdrawRequest r) bn bh g = Inl NotImplementedError"
    by (simp add: state_transition_def handle_state_transitions_def handle_receive_withdraw_request_raises)
  have n: "\<not> soe_ok v" if "is_valid_withdraw_confirmation E ch c = Inr v" for v
    using that confirmation_never_valid [of E ch c] by (auto simp: soe_ok_iff)
  show "case state_transition E ch (ReceiveWithdrawConfirmation c) bn bh g of
       Inl e \<Rightarrow> True
     | Inr (ch', g', evs) \<Rightarrow> ch' = Some ch \<and>
         (\<exists>m. evs = [EventInvalidReceivedWithdraw (rw_total_withdraw c) m])"
  proof (cases "is_valid_withdraw_confirmation E ch c")
    case (Inl e)
    then show ?thesis
      by (simp add: state_transition_def handle_state_transitions_def
          handle_receive_withdraw_confirmation_def)
  next
    case (Inr v)
    with n [OF Inr] show ?thesis
      by (cases "sanity_check E ch")
         (auto simp: state_transition_def handle_state_transitions_def with_error_text_def Let_def
           handle_receive_withdraw_confirmation_def py_assert_def split: sum.splits if_splits)
  qed
qed

subsection \<open>Withdrawing locked tokens\<close>

definition ex_overdrawn :: "(channel \<times> send_unlock_event) result" where
  "ex_overdrawn =
     bind_result (state_transition ex_platform ex_locked (ActionChannelWithdraw (ex_withdraw_action 10))
         3 (replicate 32 0) ex_prng) (\<lambda>(c, g, evs).
     case c of
       None \<Rightarrow> Inl AssertionError
     | Some ch \<Rightarrow> send_unlock ex_platform ch 78 5 ex_secret ex_secrethash 4 None)"

definition raises :: "py_error \<Rightarrow> 'a result \<Rightarrow> bool" where
  "raises e m = (case m of Inl e' \<Rightarrow> e' = e | Inr x \<Rightarrow> False)"

lemma raises_iff: "raises e m \<longleftrightarrow> m = Inl e"
  by (auto simp: raises_def split: sum.splits)


subsection \<open>Cooperative settlement\<close>

text \<open>
  When the user's cooperative settlement is accepted, the channel was open and no transfer was
  pending on either side. The two totals that the participants will withdraw add up to the two
  deposits: nothing is lost and nothing is created. A withdraw request for our total is sent.
\<close>

theorem coop_settle_splits_deposits:
  assumes "chan_inv E ch"
    and "handle_action_coop_settle a ch bn g = Inr (Some ch', g', [SendWithdrawRequest h amount p nonce expiration coop])"
  shows "get_status ch = STATE_OPENED
    \<and> es_pending_locks (ch_our_state ch) = [] \<and> es_pending_locks (ch_partner_state ch) = []
    \<and> (\<exists>c. es_initiated_coop_settle (ch_our_state ch') = Some c
        \<and> cs_total_withdraw_initiator c = amount
        \<and> cs_total_withdraw_initiator c + cs_total_withdraw_partner c
            = our_total_deposit ch + partner_total_deposit ch
        \<and> 0 \<le> cs_total_withdraw_partner c)
    \<and> es_nonce (ch_our_state ch') = es_nonce (ch_our_state ch) + 1"
proof -
  let ?max = "get_max_withdraw_amount (ch_our_state ch) (ch_partner_state ch)"
  have nonneg: "0 \<le> get_max_withdraw_amount (ch_partner_state ch) (ch_our_state ch)"
    using pair_inv_balance_nonneg [OF chan_inv_sides(4) [OF assms(1)]] assms(1)
      offchain_total_withdraw_nonneg [of "ch_partner_state ch"]
    by (simp add: chan_inv_def get_balance_eq get_max_withdraw_amount_eq total_withdraw_def)
  have ok: "is_valid_action_coopsettle ch ?max = []"
    using assms(2)
    by (auto simp: handle_action_coop_settle_def with_error_text_def result_simps soe_ok_iff Let_def
        split: if_splits)
  then have st: "get_status ch = STATE_OPENED"
    and "get_number_of_pending_transfers (ch_our_state ch) = 0"
    and "get_number_of_pending_transfers (ch_partner_state ch) = 0"
    by (auto simp: is_valid_action_coopsettle_def is_valid_total_withdraw_def Let_def soe_ok_iff
        split: if_splits)
  then have p: "es_pending_locks (ch_our_state ch) = []" "es_pending_locks (ch_partner_state ch) = []"
    by (simp_all add: get_number_of_pending_transfers_def)
  show ?thesis
    using assms(2) ok st p nonneg
    by (auto simp: handle_action_coop_settle_def send_withdraw_request_def soe_ok_iff Let_def
        CHANNEL_STATES_PRIOR_TO_CLOSED_def chan_simps get_max_withdraw_amount_eq get_next_nonce_def
        our_total_deposit_def partner_total_deposit_def split: prod.splits)
qed

theorem coop_settle_splits_deposits_witness:
  "\<exists>ch' g' c. handle_action_coop_settle \<lparr>ac_canonical_identifier = ex_ci, ac_recipient_metadata = None\<rparr>
      ex_unlocked 4 ex_prng = Inr (Some ch', g', [c])
    \<and> (\<exists>s. es_initiated_coop_settle (ch_our_state ch') = Some s
        \<and> cs_total_withdraw_initiator s + cs_total_withdraw_partner s = 20)"
proof -
  let ?run = "handle_action_coop_settle \<lparr>ac_canonical_identifier = ex_ci, ac_recipient_metadata = None\<rparr>
      ex_unlocked 4 ex_prng"
  obtain u where "ex_unlock = Inr (ex_unlocked, u)" using ex_unlock_ok by blast
  then have inv: "chan_inv ex_platform ex_unlocked"
    unfolding ex_unlock_def by (rule send_unlock_inv [OF ex_locked_inv])
  have "case ?run of Inr (Some ch', g', [SendWithdrawRequest h amount p nonce expiration coop]) \<Rightarrow> True | _ \<Rightarrow> False"
    by code_simp
  then obtain ch' g' h amount p nonce expiration coop where
    r: "?run = Inr (Some ch', g', [SendWithdrawRequest h amount p nonce expiration coop])"
    by (auto split: sum.splits prod.splits option.splits list.splits event.splits)
  have "our_total_deposit ex_unlocked + partner_total_deposit ex_unlocked = 20" by code_simp
  with r coop_settle_splits_deposits [OF inv r] show ?thesis by auto
qed

subsection \<open>Closing and settling\<close>

lemma chan_inv_signed:
  assumes "chan_inv E ch"
  shows "\<exists>bp. signed_or_none (es_balance_proof (ch_partner_state ch)) = Inr bp
    \<and> es_balance_proof (ch_partner_state ch) = map_option BPSigned bp"
  using assms
  by (auto simp: chan_inv_def partner_signed_def signed_or_none_def split: option.splits
      balance_proof_state.splits)

text \<open>
  Closing an open channel never raises. The transaction that is sent carries the last balance
  proof that the partner signed, or none when there is none, and the channel waits for the close. A
  channel that is closed already is left alone.
\<close>

theorem close_uses_last_balance_proof:
  assumes "chan_inv E ch" and "ci_channel_identifier ci = channel_identifier ch"
  shows "if get_status ch \<in> {STATE_OPENED, STATE_CLOSING}
    then \<exists>ch' bp. handle_action_close ci ch bn bh g
          = Inr (Some ch', g, [ContractSendChannelClose bh (ch_canonical_identifier ch) bp])
        \<and> es_balance_proof (ch_partner_state ch) = map_option BPSigned bp
        \<and> (get_status ch = STATE_OPENED \<longrightarrow> get_status ch' = STATE_CLOSING)
    else handle_action_close ci ch bn bh g = Inr (Some ch, g, [])"
proof -
  obtain bp where bp: "signed_or_none (es_balance_proof (ch_partner_state ch)) = Inr bp"
    "es_balance_proof (ch_partner_state ch) = map_option BPSigned bp"
    using chan_inv_signed [OF assms(1)] by blast
  show ?thesis
    using assms(2) bp
    by (auto simp: handle_action_close_def events_for_close_def py_assert_def Let_def get_status_def
        CHANNEL_STATES_PRIOR_TO_CLOSED_def split: option.splits if_splits)
qed

theorem close_uses_last_balance_proof_witness:
  "\<exists>ch' bp. handle_action_close ex_ci ex_bob_locked 3 (replicate 32 0) ex_prng
      = Inr (Some ch', ex_prng, [ContractSendChannelClose (replicate 32 0) (ch_canonical_identifier ex_bob_locked) bp])
    \<and> es_balance_proof (ch_partner_state ex_bob_locked) = map_option BPSigned bp"
proof -
  have 1: "ci_channel_identifier ex_ci = channel_identifier ex_bob_locked"
    and 2: "get_status ex_bob_locked \<in> {STATE_OPENED, STATE_CLOSING}" by code_simp+
  from close_uses_last_balance_proof [OF ex_bob_locked_inv 1, of 3 "replicate 32 0" ex_prng] 2
  show ?thesis by auto
qed

text \<open>
  When the partner closed an open channel, this node answers with the last balance proof that the
  partner signed, if there is one and no update was sent before; the transaction is valid until the
  settlement window ends. When this node closed the channel itself nothing is sent.
\<close>

theorem closed_channel_is_updated:
  assumes "chan_inv E ch" and "get_status ch \<in> {STATE_OPENED, STATE_CLOSING}"
    and "ci_channel_identifier (crc_canonical_identifier a) = channel_identifier ch"
  shows "\<exists>ch' evs. handle_channel_closed a ch g = Inr (Some ch', g, evs)
    \<and> (case es_balance_proof (ch_partner_state ch) of
         Some (BPSigned bp) \<Rightarrow>
           evs = (if crc_transaction_from a \<noteq> es_address (ch_our_state ch) \<and> ch_update_transaction ch = None
             then [ContractSendChannelUpdateTransfer (cr_block_hash a)
               (cr_block_number a + ch_settle_timeout ch) bp] else [])
       | _ \<Rightarrow> evs = [])"
proof -
  obtain bp where bp: "signed_or_none (es_balance_proof (ch_partner_state ch)) = Inr bp"
    "es_balance_proof (ch_partner_state ch) = map_option BPSigned bp"
    using chan_inv_signed [OF assms(1)] by blast
  show ?thesis
    using assms(2,3) bp
    by (cases bp) (auto simp: handle_channel_closed_def set_closed_def Let_def
        CHANNEL_STATES_PRIOR_TO_CLOSED_def)
qed

definition ex_closed :: contract_receive_closed where
  "ex_closed = \<lparr>cr_transaction_hash = replicate 32 3, cr_block_number = 7, cr_block_hash = replicate 32 0,
     crc_transaction_from = ex_alice, crc_canonical_identifier = ex_ci\<rparr>"

theorem closed_channel_is_updated_witness:
  "\<exists>ch' bp. handle_channel_closed ex_closed ex_bob_locked ex_prng
    = Inr (Some ch', ex_prng, [ContractSendChannelUpdateTransfer (replicate 32 0) 507 bp])"
proof -
  have 1: "get_status ex_bob_locked \<in> {STATE_OPENED, STATE_CLOSING}"
    and 2: "ci_channel_identifier (crc_canonical_identifier ex_closed) = channel_identifier ex_bob_locked"
    and 3: "es_balance_proof (ch_partner_state ex_bob_locked) = Some (BPSigned (ex_sign 1 ex_bp))"
    and 4: "crc_transaction_from ex_closed \<noteq> es_address (ch_our_state ex_bob_locked)"
      "ch_update_transaction ex_bob_locked = None"
      "cr_block_hash ex_closed = replicate 32 0" "cr_block_number ex_closed + ch_settle_timeout ex_bob_locked = 507"
    by code_simp+
  from closed_channel_is_updated [OF ex_bob_locked_inv 1 2, of ex_prng] 3 4 show ?thesis by auto
qed

text \<open>
  A closed channel is settled by the first block after the settlement window: at every block of the
  window nothing is sent, after it the settle transaction is sent and the channel waits for it.
\<close>

theorem settle_after_window:
  assumes "get_status ch = STATE_CLOSED" and "ch_close_transaction ch = Some tx"
    and "tx_finished_block_number tx = Some closed_at" and "closed_at \<noteq> 0"
    and "blk_block_number b = bn"
  shows "\<exists>ch'. handle_block b ch bn g = Inr (Some ch', g,
      if closed_at + ch_settle_timeout ch < bn
      then [ContractSendChannelSettle (blk_block_hash b) (ch_canonical_identifier ch)] else [])
    \<and> get_status ch' = (if closed_at + ch_settle_timeout ch < bn then STATE_SETTLING else STATE_CLOSED)"
  using assms by (auto simp: handle_block_def py_assert_def Let_def get_status_def split: if_splits)

definition ex_bob_closed :: channel where
  "ex_bob_closed = set_closed 7 (ex_channel ex_bob ex_alice)"

definition ex_block :: "int \<Rightarrow> block" where
  "ex_block n = \<lparr>blk_block_number = n, blk_gas_limit = 8000000, blk_block_hash = replicate 32 0\<rparr>"

theorem settle_after_window_witness:
  "\<exists>ch'. handle_block (ex_block 508) ex_bob_closed 508 ex_prng
    = Inr (Some ch', ex_prng, [ContractSendChannelSettle (replicate 32 0) ex_ci])"
proof -
  let ?tx = "\<lparr>tx_started_block_number = None, tx_finished_block_number = Some 7, tx_result = Some SUCCESS\<rparr>"
  have 1: "get_status ex_bob_closed = STATE_CLOSED" and 2: "ch_close_transaction ex_bob_closed = Some ?tx"
    and 3: "tx_finished_block_number ?tx = Some 7" and 4: "(7::int) \<noteq> 0"
    and 5: "blk_block_number (ex_block 508) = 508"
    and 6: "7 + ch_settle_timeout ex_bob_closed < 508" "blk_block_hash (ex_block 508) = replicate 32 0"
      "ch_canonical_identifier ex_bob_closed = ex_ci"
    by code_simp+
  from settle_after_window [OF 1 2 3 4 5, of ex_prng] 6 show ?thesis by auto
qed

subsection \<open>Secrets registered on-chain\<close>

lemma register_onchain_in_time:
  assumes wf: "locks_wf es" and l: "get_lock es sh = Some l" and n: "n \<le> lk_expiration l"
    and reg: "register_onchain_secret_endstate secret sh n True es = Inr es'"
  shows "get_lock es' sh = Some l" and "is_secret_known_onchain es' sh"
proof -
  have "map_of (lock_assoc es') = map_of (lock_assoc es)"
    by (rule dict_mset_map_of [OF locks_wf_dict_ok [OF wf] register_onchain_secret_eq_Inr(1) [OF wf reg]])
  with l show "get_lock es' sh = Some l" by (simp add: get_lock_assoc)
  show "is_secret_known_onchain es' sh"
  proof (cases "map_of (es_unlockedlocks es) sh = None \<and> map_of (es_lockedlocks es) sh = None")
    case True
    with l reg show ?thesis
      by (auto simp: register_onchain_secret_endstate_def get_lock_def is_secret_known_onchain_def
          dict_mem_def Let_def split: option.splits)
  next
    case False
    with l locks_wf_disjoint [OF wf, of sh]
    have "(case map_of (es_unlockedlocks es) sh of Some u \<Rightarrow> Some (up_lock u)
        | None \<Rightarrow> map_of (es_lockedlocks es) sh) = Some l"
      by (auto simp: get_lock_def split: option.splits)
    with n reg show ?thesis
      by (auto simp: register_onchain_secret_endstate_def is_secret_known_onchain_def dict_mem_def
          Let_def result_simps pydict.get_set)
  qed
qed

lemma register_onchain_late:
  assumes "get_lock es sh = Some l" and "lk_expiration l < n" and "locks_wf es"
    and "register_onchain_secret_endstate secret sh n True es = Inr es'"
  shows "es' = es"
  using assms(1,2,4) locks_wf_disjoint [OF assms(3), of sh]
  by (auto simp: register_onchain_secret_endstate_def get_lock_def Let_def split: option.splits)

text \<open>
  C32. Registering a secret on-chain never raises. If it happened no later than the expiration of the
  partner's lock, the lock stays pending, its secret is known on-chain and the lock counts as expired
  at no block and for no threshold. If it happened after the expiration, the partner's side is
  unchanged.
\<close>

theorem onchain_secret_protects_lock:
  assumes "chan_inv E ch" and "get_lock (ch_partner_state ch) sh = Some l"
  shows "\<exists>ch'. register_onchain_secret ch secret sh n True = Inr ch'
    \<and> get_lock (ch_partner_state ch') sh = Some l
    \<and> (if n \<le> lk_expiration l
       then is_secret_known_onchain (ch_partner_state ch') sh
         \<and> (\<forall>bn threshold. \<not> soe_ok (is_lock_expired (ch_partner_state ch') l bn threshold))
       else ch_partner_state ch' = ch_partner_state ch)"
proof -
  note wf = end_invD(1) [OF chan_inv_sides(2) [OF assms(1)]]
  obtain our' partner' where o: "register_onchain_secret_endstate secret sh n True (ch_our_state ch) = Inr our'"
    and p: "register_onchain_secret_endstate secret sh n True (ch_partner_state ch) = Inr partner'"
    using register_onchain_secret_total by metis
  have sh: "lk_secrethash l = sh" by (rule locks_wf_get_lock(1) [OF wf assms(2)])
  from o p have "register_onchain_secret ch secret sh n True
      = Inr (ch\<lparr>ch_our_state := our', ch_partner_state := partner'\<rparr>)"
    by (simp add: register_onchain_secret_def)
  then show ?thesis
    using register_onchain_in_time [OF wf assms(2) _ p] register_onchain_late [OF assms(2) _ wf p] assms(2) sh
    by (auto simp: is_lock_expired_def is_secret_known_onchain_def soe_ok_iff not_le)
qed

theorem onchain_secret_protects_lock_witness:
  "\<exists>ch'. register_onchain_secret ex_bob_locked ex_secret ex_secrethash 40 True = Inr ch'
    \<and> is_secret_known_onchain (ch_partner_state ch') ex_secrethash"
proof -
  have 1: "get_lock (ch_partner_state ex_bob_locked) ex_secrethash = Some ex_lock"
    and 2: "40 \<le> lk_expiration ex_lock" by code_simp+
  from onchain_secret_protects_lock [OF ex_bob_locked_inv 1, of ex_secret 40] 2 show ?thesis by auto
qed

end
