(* ===== verification/Mediation_Fee_Laws.thy ===== *)
theory Mediation_Fee_Laws
  imports Mediation_Fee
begin

text \<open>
  Laws of the fee functions: interpolation passes through its points and is linear between them,
  capping keeps the points ascending and removes negative fees at the points, and the computation of
  a mediation fee function either succeeds or raises \<open>UndefinedMediationFee\<close>. Three theorems record
  where the code differs from its documentation.
\<close>

subsection \<open>Interpolation\<close>

abbreviation ascending :: "rat list \<Rightarrow> bool" where
  "ascending \<equiv> sorted_wrt (<)"

lemma ascending_iff: "ascending xs \<longleftrightarrow> \<not> list_ex (\<lambda>(x, y). y - x \<le> 0) (zip xs (tl xs))"
proof (induction xs)
  case (Cons x xs)
  then show ?case by (cases xs) (auto intro: less_trans)
qed simp

lemma Interpolate_eq_Inr:
  "Interpolate xs ys = Inr f \<longleftrightarrow> ascending xs \<and>
     f = \<lparr>ip_x_list = xs, ip_y_list = ys,
          ip_slopes = map (\<lambda>((x1, x2), (y1, y2)). (y2 - y1) / (x2 - x1))
            (zip (zip xs (tl xs)) (zip ys (tl ys)))\<rparr>"
  unfolding Interpolate_def ascending_iff by (auto simp: raise_if_def)

lemma Interpolate_total: "ascending xs \<Longrightarrow> \<exists>f. Interpolate xs ys = Inr f"
  by (simp add: Interpolate_eq_Inr)

lemma ascending_nth: "ascending xs \<Longrightarrow> i < j \<Longrightarrow> j < length xs \<Longrightarrow> xs ! i < xs ! j"
  by (rule sorted_wrt_nth_less)

lemma bisect_right_between:
  assumes "ascending xs" and "Suc i < length xs" and "xs ! i \<le> x" and "x < xs ! Suc i"
  shows "bisect_right xs x = Suc i"
proof -
  have "takeWhile (\<lambda>y. y \<le> x) xs = take (Suc i) xs"
  proof (rule takeWhile_eq_take_P_nth)
    fix j assume "j < Suc i" "j < length xs"
    then show "xs ! j \<le> x"
      using ascending_nth [OF assms(1), of j i] assms(2,3) by (cases "j = i") auto
  qed (use assms in auto)
  with assms(2) show ?thesis by (simp add: bisect_right_def)
qed

lemma ascending_nth_le: "ascending xs \<Longrightarrow> i \<le> j \<Longrightarrow> j < length xs \<Longrightarrow> xs ! i \<le> xs ! j"
  using ascending_nth [of xs i j] by (cases "i = j") auto

lemma ascending_last: "ascending xs \<Longrightarrow> i < length xs \<Longrightarrow> xs ! i \<le> last xs"
  using ascending_nth_le [of xs i "length xs - 1"] by (cases xs) (auto simp: last_conv_nth)

definition line :: "rat list \<Rightarrow> rat list \<Rightarrow> nat \<Rightarrow> rat \<Rightarrow> rat" where
  "line xs ys i x = ys ! i + (ys ! Suc i - ys ! i) / (xs ! Suc i - xs ! i) * (x - xs ! i)"

lemma interpolate_call_below:
  assumes f: "Interpolate xs ys = Inr f" and len: "length ys = length xs"
    and i: "Suc i < length xs" and x: "xs ! i \<le> x" "x < xs ! Suc i"
  shows "interpolate_call f x = Inr (line xs ys i x)"
proof -
  from f have asc: "ascending xs" and f': "ip_x_list f = xs" "ip_y_list f = ys"
    "ip_slopes f = map (\<lambda>((x1, x2), (y1, y2)). (y2 - y1) / (x2 - x1))
            (zip (zip xs (tl xs)) (zip ys (tl ys)))"
    by (auto simp: Interpolate_eq_Inr)
  have ne: "xs \<noteq> []" using i by auto
  have lo: "xs ! 0 \<le> x" using ascending_nth_le [OF asc, of 0 i] i x(1) by simp
  have hi: "x < last xs" using ascending_last [OF asc i] x(2) by simp
  have slope: "i < length (ip_slopes f)" "ip_slopes f ! i = (ys ! Suc i - ys ! i) / (xs ! Suc i - xs ! i)"
    using i len by (simp_all add: f' nth_tl)
  show ?thesis
    using lo hi ne i len slope bisect_right_between [OF asc i x]
    by (simp add: interpolate_call_def f'(1,2) nth_result_def raise_if_def Let_def line_def)
qed

lemma interpolate_call_point:
  assumes f: "Interpolate xs ys = Inr f" and len: "length ys = length xs" and i: "i < length xs"
  shows "interpolate_call f (xs ! i) = Inr (ys ! i)"
proof (cases "Suc i < length xs")
  case True
  from f have "ascending xs" by (auto simp: Interpolate_eq_Inr)
  from ascending_nth [OF this, of i "Suc i"] True show ?thesis
    by (simp add: interpolate_call_below [OF f len True] line_def)
next
  case False
  from f have asc: "ascending xs" and f': "ip_x_list f = xs" "ip_y_list f = ys"
    by (auto simp: Interpolate_eq_Inr)
  from False i have e: "length xs - 1 = i" by simp
  have ne: "xs \<noteq> []" using i by auto
  with e have l: "last xs = xs ! i" by (simp add: last_conv_nth)
  with e ne i len ascending_nth_le [OF asc, of 0 i] show ?thesis
    by (simp add: interpolate_call_def f' nth_result_def raise_if_def)
qed

lemma interpolate_call_between:
  assumes f: "Interpolate xs ys = Inr f" and len: "length ys = length xs"
    and i: "Suc i < length xs" and x: "xs ! i \<le> x" "x \<le> xs ! Suc i"
  shows "interpolate_call f x = Inr (line xs ys i x)"
proof (cases "x = xs ! Suc i")
  case True
  from f have "ascending xs" by (auto simp: Interpolate_eq_Inr)
  from ascending_nth [OF this, of i "Suc i"] i interpolate_call_point [OF f len i] True show ?thesis
    by (simp add: line_def)
qed (use interpolate_call_below [OF f len i x(1)] x(2) in simp)

lemma interpolate_call_outside:
  assumes f: "Interpolate xs ys = Inr f" and "xs \<noteq> []" and "x < hd xs \<or> last xs < x"
  shows "interpolate_call f x = Inl ValueError"
proof -
  from f have "ip_x_list f = xs" by (auto simp: Interpolate_eq_Inr)
  with assms(2,3) show ?thesis
    by (auto simp: interpolate_call_def nth_result_def raise_if_def hd_conv_nth)
qed

lemma ascending_interval:
  assumes "ascending xs" and "xs \<noteq> []" and "hd xs \<le> x" and "x \<le> last xs" and "2 \<le> length xs"
  shows "\<exists>i. Suc i < length xs \<and> xs ! i \<le> x \<and> x \<le> xs ! Suc i"
proof -
  let ?P = "\<lambda>j. j < length xs \<and> x \<le> xs ! j"
  have "?P (length xs - 1)" using assms by (simp add: last_conv_nth)
  define j where "j = (LEAST j. ?P j)"
  have j: "?P j" unfolding j_def by (rule LeastI) (fact \<open>?P (length xs - 1)\<close>)
  have least: "\<not> ?P k" if "k < j" for k using that not_less_Least unfolding j_def by blast
  show ?thesis
  proof (cases j)
    case 0
    with j assms show ?thesis
      by (intro exI [of _ 0]) (auto simp: hd_conv_nth intro: order_trans [OF _ less_imp_le [OF ascending_nth]])
  next
    case (Suc i)
    with j least [of i] show ?thesis by (intro exI [of _ i]) auto
  qed
qed

text \<open>
  An \<open>Interpolate\<close> object built from at least two ascending points evaluates without raising on the
  whole interval between its first and last point. The value at a point is the value given for it, the
  value between two neighbouring points lies on the line through them, and outside the interval a
  \<open>ValueError\<close> is raised.
\<close>

theorem interpolation_is_piecewise_linear:
  assumes "Interpolate xs ys = Inr f" and "length ys = length xs" and "2 \<le> length xs"
  shows "(\<forall>i < length xs. interpolate_call f (xs ! i) = Inr (ys ! i))
    \<and> (if hd xs \<le> x \<and> x \<le> last xs
       then \<exists>i. Suc i < length xs \<and> xs ! i \<le> x \<and> x \<le> xs ! Suc i
         \<and> interpolate_call f x
             = Inr (ys ! i + (ys ! Suc i - ys ! i) / (xs ! Suc i - xs ! i) * (x - xs ! i))
       else interpolate_call f x = Inl ValueError)"
proof -
  have ne: "xs \<noteq> []" and asc: "ascending xs" using assms(1,3) by (auto simp: Interpolate_eq_Inr)
  show ?thesis
    using interpolate_call_point [OF assms(1,2)] interpolate_call_outside [OF assms(1) ne]
      ascending_interval [OF asc ne _ _ assms(3)] interpolate_call_between [OF assms(1,2)]
    unfolding line_def by (auto simp: not_le) blast
qed

theorem interpolation_is_piecewise_linear_witness:
  "\<exists>f. Interpolate [0, 10, 20] [0, 5, 0] = Inr f \<and> interpolate_call f 10 = Inr 5"
proof -
  obtain f where f: "Interpolate [0, 10, 20] [0, 5, 0] = Inr f"
    using Interpolate_total [of "[0, 10, 20]"] by auto
  from interpolation_is_piecewise_linear [OF f] have "interpolate_call f ([0, 10, 20] ! 1) = Inr ([0, 5, 0] ! 1)"
    by force
  with f show ?thesis by simp
qed

subsection \<open>Capping\<close>

lemma bisect_right_le: "bisect_right xs x \<le> length xs"
  by (simp add: bisect_right_def length_takeWhile_le)

lemma takeWhile_bisect:
  "take (bisect_right xs x) xs = takeWhile (\<lambda>y. y \<le> x) xs"
  "drop (bisect_right xs x) xs = dropWhile (\<lambda>y. y \<le> x) xs"
  by (simp_all add: bisect_right_def takeWhile_eq_take [symmetric] dropWhile_eq_drop [symmetric])

lemma dropWhile_ascending:
  assumes "ascending xs" and "y \<in> set (dropWhile (\<lambda>y. y \<le> x) xs)"
  shows "x < y"
  using assms by (induction xs) (auto split: if_splits)

lemma ascending_insert:
  assumes "ascending xs" and "x \<notin> set xs"
  shows "ascending (list_insert (bisect_right xs x) x xs)"
proof -
  let ?t = "takeWhile (\<lambda>y. y \<le> x) xs" and ?d = "dropWhile (\<lambda>y. y \<le> x) xs"
  have "ascending (?t @ ?d)" using assms(1) by simp
  moreover have "\<forall>y \<in> set ?t. y < x"
    using assms(2) set_takeWhileD by (fastforce simp: order.order_iff_strict)
  moreover have "\<forall>y \<in> set ?d. x < y" using dropWhile_ascending [OF assms(1)] by blast
  ultimately show ?thesis
    unfolding list_insert_def takeWhile_bisect sorted_wrt_append
    by (simp del: takeWhile_dropWhile_id)
qed

text \<open>What the loop of \<open>_cap_fees\<close> keeps: ascending points, as many values as points, and every
  original point with its value.\<close>

definition extends :: "rat list \<times> rat list \<Rightarrow> rat list \<times> rat list \<Rightarrow> bool" where
  "extends xy xy' \<longleftrightarrow>
     ascending (fst xy') \<and> length (snd xy') = length (fst xy')
     \<and> set (zip (fst xy) (snd xy)) \<subseteq> set (zip (fst xy') (snd xy')) \<and> length (fst xy) \<le> length (fst xy')"

lemma list_insert_zip:
  assumes "length ys = length xs" and "n \<le> length xs"
  shows "zip (list_insert n x xs) (list_insert n y ys) = list_insert n (x, y) (zip xs ys)"
  using assms by (simp add: list_insert_def zip_append take_zip drop_zip)

lemma set_list_insert: "set (list_insert n x xs) = insert x (set xs)"
  by (metis Un_insert_right append_take_drop_id list.simps(15) list_insert_def set_append)

lemma crossing_between:
  fixes x1 x2 y1 y2 :: rat
  assumes "sign y1 * sign y2 = - 1" and "x1 < x2"
  shows "x1 < x1 + \<bar>y1\<bar> / \<bar>y2 - y1\<bar> * (x2 - x1)" and "x1 + \<bar>y1\<bar> / \<bar>y2 - y1\<bar> * (x2 - x1) < x2"
proof -
  have y: "y1 < 0 \<and> 0 < y2 \<or> 0 < y1 \<and> y2 < 0"
    using assms(1) by (auto simp: sign_def split: if_splits)
  then have q: "0 < \<bar>y1\<bar> / \<bar>y2 - y1\<bar>" "\<bar>y1\<bar> / \<bar>y2 - y1\<bar> < 1" by (auto simp: field_simps)
  with assms(2) show "x1 < x1 + \<bar>y1\<bar> / \<bar>y2 - y1\<bar> * (x2 - x1)"
    by (simp del: times_divide_eq_left)
  have "\<bar>y1\<bar> / \<bar>y2 - y1\<bar> * (x2 - x1) < 1 * (x2 - x1)"
    using q assms(2) by (intro mult_strict_right_mono) simp_all
  then show "x1 + \<bar>y1\<bar> / \<bar>y2 - y1\<bar> * (x2 - x1) < x2" by simp
qed

lemma between_notin:
  assumes "ascending xs" and "Suc i < length xs" and "xs ! i < x" and "x < xs ! Suc i"
  shows "x \<notin> set xs"
proof
  assume "x \<in> set xs"
  then obtain j where j: "j < length xs" "xs ! j = x" by (auto simp: in_set_conv_nth)
  show False
    using ascending_nth_le [OF assms(1), of j i] ascending_nth_le [OF assms(1), of "Suc i" j] j assms(2-4)
    by (cases "j \<le> i") auto
qed

lemma cap_fees_step_extends:
  assumes "extends xy0 xy" and "Suc i < length (fst xy0)"
  shows "extends xy0 (cap_fees_step i xy)"
proof -
  obtain xs ys where xy: "xy = (xs, ys)" by (cases xy)
  from assms xy have e: "ascending xs" "length ys = length xs" "set (zip (fst xy0) (snd xy0)) \<subseteq> set (zip xs ys)"
    "length (fst xy0) \<le> length xs" and i: "Suc i < length xs"
    by (auto simp: extends_def)
  let ?x = "xs ! i + \<bar>ys ! i\<bar> / \<bar>ys ! Suc i - ys ! i\<bar> * (xs ! Suc i - xs ! i)"
  let ?n = "bisect_right xs ?x"
  show ?thesis
  proof (cases "sign (ys ! i) * sign (ys ! Suc i) = - 1")
    case True
    have "?x \<notin> set xs"
      by (rule between_notin [OF e(1) i]; rule crossing_between [OF True])
         (use ascending_nth [OF e(1), of i "Suc i"] i in simp_all)
    then have asc: "ascending (list_insert ?n ?x xs)" by (rule ascending_insert [OF e(1)])
    have "cap_fees_step i xy = (list_insert ?n ?x xs, list_insert ?n 0 ys)"
      using True by (simp add: cap_fees_step_def xy Let_def)
    moreover have "length (list_insert ?n z zs) = Suc (length zs)" if "length zs = length xs" for z and zs :: "rat list"
      using that bisect_right_le [of xs ?x] by (simp add: list_insert_def)
    moreover have "set (zip xs ys) \<subseteq> set (zip (list_insert ?n ?x xs) (list_insert ?n 0 ys))"
      using list_insert_zip [OF e(2) bisect_right_le, of ?x ?x 0] by (auto simp: set_list_insert)
    ultimately show ?thesis using asc e by (auto simp: extends_def)
  next
    case False
    with assms(1) show ?thesis by (simp add: cap_fees_step_def xy Let_def)
  qed
qed

lemma cap_fees_loop_extends:
  assumes "extends xy0 xy" and "\<forall>i\<in>set is. Suc i < length (fst xy0)"
  shows "extends xy0 (fold cap_fees_step is xy)"
  using assms
proof (induction "is" arbitrary: xy)
  case (Cons i js)
  then have "extends xy0 (cap_fees_step i xy)" by (intro cap_fees_step_extends) simp_all
  with Cons show ?case by simp
qed simp

lemma capped_points_ascending:
  assumes "ascending xs" and "length ys = length xs" and "cap_fees xs ys = (xs', ys')"
  shows "ascending xs' \<and> length ys' = length xs' \<and> (\<forall>y\<in>set ys'. 0 \<le> y)
    \<and> (\<forall>i < length xs. (xs ! i, max (ys ! i) 0) \<in> set (zip xs' ys'))
    \<and> (\<exists>f. Interpolate xs' ys' = Inr f)"
proof -
  obtain xs1 ys1 where r: "fold cap_fees_step [0..<length xs - 1] (xs, ys) = (xs1, ys1)"
    by (cases "fold cap_fees_step [0..<length xs - 1] (xs, ys)")
  with assms(3) have e: "xs' = xs1" "ys' = map (\<lambda>y. max y 0) ys1" by (auto simp: cap_fees_def)
  have "extends (xs, ys) (fold cap_fees_step [0..<length xs - 1] (xs, ys))"
    by (rule cap_fees_loop_extends) (use assms(1,2) in \<open>auto simp: extends_def\<close>)
  then have x: "ascending xs1" "length ys1 = length xs1" "set (zip xs ys) \<subseteq> set (zip xs1 ys1)"
    by (simp_all add: extends_def r del: One_nat_def)
  have "(xs ! i, max (ys ! i) 0) \<in> set (zip xs' ys')" if "i < length xs" for i
  proof -
    have "(xs ! i, ys ! i) \<in> set (zip xs1 ys1)"
      using x(3) that assms(2) by (force simp: set_zip)
    then show ?thesis by (force simp: e zip_map2)
  qed
  with x e Interpolate_total [OF x(1)] show ?thesis by auto
qed

text \<open>
  Capping a fee function given by ascending points returns points that are again strictly
  ascending, so that building the interpolation never raises. Every original point is kept, with its
  value when it is positive and with zero otherwise, and no value is negative.
\<close>

theorem capped_points_are_ascending:
  assumes "ascending xs" and "length ys = length xs" and "cap_fees xs ys = (xs', ys')"
  shows "ascending xs' \<and> length ys' = length xs' \<and> (\<forall>y\<in>set ys'. 0 \<le> y)
    \<and> (\<forall>i < length xs. (xs ! i, max (ys ! i) 0) \<in> set (zip xs' ys'))
    \<and> (\<exists>f. Interpolate xs' ys' = Inr f)"
  using assms by (rule capped_points_ascending)

theorem capped_points_are_ascending_witness:
  "\<exists>xs' ys'. cap_fees [0, 1, 2] [1, - 1, - 2] = (xs', ys') \<and> ascending xs' \<and> (\<exists>f. Interpolate xs' ys' = Inr f)"
proof -
  obtain xs' ys' where c: "cap_fees [0, 1, 2] [1, - 1, - 2] = (xs', ys')"
    by (cases "cap_fees [0, 1, 2] [1, - 1, - 2]")
  from capped_points_are_ascending [OF _ _ c] c show ?thesis by auto
qed

subsection \<open>Fee functions\<close>

definition points_ok :: "interpolate \<Rightarrow> bool" where
  "points_ok f \<longleftrightarrow>
     (\<exists>xs ys. Interpolate xs ys = Inr f \<and> length ys = length xs \<and> xs \<noteq> [])"

definition schedule_ok :: "fee_schedule \<Rightarrow> bool" where
  "schedule_ok fs \<longleftrightarrow> (case fs_penalty_func fs of None \<Rightarrow> True | Some f \<Rightarrow> points_ok f)"

lemma mk_fee_schedule_ok: "mk_fee_schedule cap flat proportional penalty = Inr fs \<Longrightarrow> schedule_ok fs"
  by (auto simp: mk_fee_schedule_def schedule_ok_def points_ok_def result_simps Let_def
      split: option.splits list.splits) force

lemma interpolate_call_error:
  assumes "points_ok f" and "interpolate_call f x = Inl e"
  shows "e = ValueError"
proof -
  from assms(1) obtain xs ys where f: "Interpolate xs ys = Inr f" "length ys = length xs" "xs \<noteq> []"
    by (auto simp: points_ok_def)
  then have asc: "ascending xs" by (auto simp: Interpolate_eq_Inr)
  show ?thesis
  proof (cases "hd xs \<le> x \<and> x \<le> last xs")
    case False
    with interpolate_call_outside [OF f(1,3)] assms(2) show ?thesis by (auto simp: not_le)
  next
    case True
    have "\<exists>y. interpolate_call f x = Inr y"
    proof (cases "2 \<le> length xs")
      case two: True
      with ascending_interval [OF asc f(3) _ _ two] True interpolate_call_between [OF f(1,2)]
      show ?thesis by blast
    next
      case False
      then obtain z where "xs = [z]" using f(3) by (cases xs) (auto simp: Suc_le_eq)
      with True have "x = xs ! 0" "0 < length xs" by simp_all
      with interpolate_call_point [OF f(1,2)] show ?thesis by blast
    qed
    with assms(2) show ?thesis by simp
  qed
qed

lemma fee_error:
  assumes "schedule_ok fs" and "fee fs balance amount = Inl e"
  shows "e = ValueError"
  using assms interpolate_call_error
  by (auto simp: schedule_ok_def fee_def result_simps split: option.splits)

lemma map_result_error: "map_result f xs = Inl e \<Longrightarrow> \<exists>x\<in>set xs. f x = Inl e"
  by (induction xs) (auto simp: result_simps)

lemma with_penalty_func_ok:
  assumes "schedule_ok fs" and "0 < stop"
  shows "\<exists>fs' f. with_penalty_func fs stop = Inr (fs', f) \<and> schedule_ok fs'"
proof (cases "fs_penalty_func fs")
  case None
  have "ascending [0, of_int stop]" using assms(2) by simp
  from Interpolate_total [OF this, of "[0, 0]"] obtain f where f: "Interpolate [0, of_int stop] [0, 0] = Inr f"
    by blast
  moreover have "points_ok f"
    unfolding points_ok_def by (rule exI [of _ "[0, of_int stop]"], rule exI [of _ "[0, 0]"]) (simp add: f)
  ultimately show ?thesis by (simp add: with_penalty_func_def None schedule_ok_def)
qed (use assms(1) in \<open>simp add: with_penalty_func_def\<close>)

lemma collect_x_values_ascending: "ascending (collect_x_values f f' b b' m)"
  unfolding collect_x_values_def Let_def strict_sorted_iff by simp

lemma mediation_fee_func_impl_total:
  assumes ok: "schedule_ok si" "schedule_ok so" and pos: "0 \<le> bi" "0 \<le> bo" "0 \<le> r"
    and one: "a = None \<or> a' = None"
  shows "mediation_fee_func_impl si so bi bo r a a' cap = Inl UndefinedMediationFee
    \<or> (\<exists>f. mediation_fee_func_impl si so bi bo r a a' cap = Inr f
        \<and> (cap \<longrightarrow> (\<forall>y\<in>set (ip_y_list f). 0 \<le> y)))"
proof (cases "bo = 0 \<or> r = 0")
  case True
  with one show ?thesis by (simp add: mediation_fee_func_impl_def py_assert_def raise_if_def)
next
  case False
  with pos have "0 < bi + r" and "0 < bo" by auto
  then obtain si' fi so' fo where
    w: "with_penalty_func si (bi + r) = Inr (si', fi)" "with_penalty_func so bo = Inr (so', fo)"
    and ok': "schedule_ok si'" "schedule_ok so'"
    using with_penalty_func_ok [OF ok(1)] with_penalty_func_ok [OF ok(2)] by metis
  define xs where "xs = collect_x_values fi fo bi bo (if a = None then r else bo)"
  define F where "F = (\<lambda>x.
         bind_result (fee si' bi (case a of None \<Rightarrow> x | Some n \<Rightarrow> of_int n)) (\<lambda>fee_in.
         bind_result (fee so' bo (case a' of None \<Rightarrow> - x | Some n \<Rightarrow> - of_int n)) (\<lambda>fee_out.
         Inr (fee_in + fee_out))))"
  have impl: "mediation_fee_func_impl si so bi bo r a a' cap
      = bind_result (value_error_to_undefined_fee (map_result F xs)) (\<lambda>ys.
          let (xs', ys') = (if cap then cap_fees xs ys else (xs, ys)) in Interpolate xs' ys')"
    using False one w unfolding mediation_fee_func_impl_def xs_def F_def
    by (simp add: py_assert_def raise_if_def Let_def split del: if_split)
  show ?thesis
  proof (cases "map_result F xs")
    case (Inl e)
    then obtain x where "F x = Inl e" using map_result_error by blast
    then have "e = ValueError"
      using fee_error [OF ok'(1)] fee_error [OF ok'(2)] by (auto simp: F_def result_simps)
    with Inl show ?thesis by (simp add: impl value_error_to_undefined_fee_def)
  next
    case (Inr ys)
    have asc: "ascending xs" unfolding xs_def by (rule collect_x_values_ascending)
    have len: "length ys = length xs" by (rule map_result_length [OF Inr])
    obtain xs' ys' where c: "cap_fees xs ys = (xs', ys')" by (cases "cap_fees xs ys")
    have run: "mediation_fee_func_impl si so bi bo r a a' cap
        = (if cap then Interpolate xs' ys' else Interpolate xs ys)"
      by (simp add: impl Inr value_error_to_undefined_fee_def c)
    show ?thesis
      using Interpolate_total [OF asc, of ys] capped_points_ascending [OF asc len c]
      unfolding run by (cases cap) (auto simp: Interpolate_eq_Inr)
  qed
qed

definition ex_schedule :: fee_schedule where
  "ex_schedule = \<lparr>fs_cap_fees = True, fs_flat = 100, fs_proportional = 0,
     fs_imbalance_penalty = Some [(0, 10), (20, 0)],
     fs_penalty_func = Some \<lparr>ip_x_list = [0, 20], ip_y_list = [10, 0], ip_slopes = [- 1 / 2]\<rparr>\<rparr>"

text \<open>
  For two fee schedules built by their constructor and non-negative balances, computing the fee
  function of a mediation, forwards or backwards, has only two outcomes: the function, whose values at
  the points are non-negative when fees are capped, or \<open>UndefinedMediationFee\<close>. No other error escapes.
\<close>

theorem mediation_fee_func_is_defined_or_undefined:
  assumes "mk_fee_schedule c1 flat1 prop1 penalty1 = Inr schedule_in"
    and "mk_fee_schedule c2 flat2 prop2 penalty2 = Inr schedule_out"
    and "0 \<le> balance_in" and "0 \<le> balance_out" and "0 \<le> receivable"
    and "m \<in> {mediation_fee_func schedule_in schedule_out balance_in balance_out receivable amount cap,
      mediation_fee_backwards_func schedule_in schedule_out balance_in balance_out receivable amount cap}"
  shows "m = Inl UndefinedMediationFee
    \<or> (\<exists>f. m = Inr f \<and> (cap \<longrightarrow> (\<forall>y\<in>set (ip_y_list f). 0 \<le> y)))"
  using mediation_fee_func_impl_total [OF mk_fee_schedule_ok [OF assms(1)] mk_fee_schedule_ok [OF assms(2)]
      assms(3-5)] assms(6)
  by (auto simp: mediation_fee_func_def mediation_fee_backwards_func_def)

theorem mediation_fee_func_is_defined_or_undefined_witness:
  "\<exists>f. mediation_fee_func ex_schedule ex_schedule 10 10 10 5 True = Inr f \<and> list_all (\<lambda>y. 0 \<le> y) (ip_y_list f)"
proof -
  have 1: "mk_fee_schedule True 100 0 (Some [(0, 10), (20, 0)]) = Inr ex_schedule" by code_simp
  have 2: "\<not> isl (mediation_fee_func ex_schedule ex_schedule 10 10 10 5 True)" by code_simp
  from mediation_fee_func_is_defined_or_undefined [OF 1 1, of 10 10 10
      "mediation_fee_func ex_schedule ex_schedule 10 10 10 5 True" 5 True] 2
  show ?thesis by (auto simp: list_all_iff)
qed

subsection \<open>Deviations\<close>

text \<open>
  A channel without imbalance penalty asks for no fee at all: the conditional expression in
  \<open>FeeScheduleState.fee\<close> covers the whole sum, so the configured flat and proportional fees are
  ignored whenever there is no penalty function.
\<close>

theorem fee_without_penalty_is_zero:
  assumes "mk_fee_schedule cap flat proportional penalty = Inr fs" and "penalty \<in> {None, Some []}"
  shows "fee fs balance amount = Inr 0"
  using assms by (auto simp: mk_fee_schedule_def fee_def)

theorem fee_without_penalty_is_zero_witness:
  "\<exists>fs. mk_fee_schedule True 100 4000 None = Inr fs \<and> fs_flat fs = 100 \<and> fee fs 50 1000 = Inr 0"
proof -
  obtain fs where fs: "mk_fee_schedule True 100 4000 None = Inr fs" and "fs_flat fs = 100"
    by (simp add: mk_fee_schedule_def)
  with fee_without_penalty_is_zero [OF fs] show ?thesis by auto
qed

text \<open>
  Capping inserts a point where the fee function crosses zero, but the loop runs over the positions
  of the original list: after one insertion the last interval is not looked at. For the points
  \<open>(0, 1), (1, -1), (2, 1)\<close> the second crossing, at \<open>3/2\<close>, is missing and the capped function is
  positive at \<open>5/4\<close>, where the fee is negative.
\<close>

theorem capping_misses_second_crossing:
  "cap_fees [0, 1, 2] [1, - 1, 1] = ([0, 1 / 2, 1, 2], [1, 0, 0, 1])
   \<and> bind_result (Interpolate [0, 1, 2] [1, - 1, 1]) (\<lambda>f. interpolate_call f (5 / 4)) = Inr (- 1 / 2)
   \<and> bind_result (Interpolate [0, 1 / 2, 1, 2] [1, 0, 0, 1]) (\<lambda>f. interpolate_call f (5 / 4)) = Inr (1 / 4)"
  by code_simp

text \<open>
  The points of the imbalance penalty are computed with floats: \<open>linspace\<close> is documented to include
  its last argument, but for a capacity of \<open>2 ^ 53 + 1\<close> the last point is one token short, so the
  penalty function is undefined for the full balance.
\<close>

theorem linspace_misses_its_end:
  "\<exists>xs. linspace 0 (2 ^ 53 + 1) NUM_DISCRETISATION_POINTS = Inr xs
    \<and> length xs = 21 \<and> hd xs = 0 \<and> last xs = 2 ^ 53"
proof -
  let ?step = "7205759403792794 / 16 :: rat"
  have fl_step: "fl (9007199254740993 / 20) = ?step"
    and end_point: "round_half_even (fl (fl 20 * ?step)) = 9007199254740992" by code_simp+
  have step: "int_truediv 9007199254740993 20 = Inr ?step"
    by (simp add: int_truediv_def raise_if_def fl_step FLOAT_OVERFLOW_def)
  have start_point: "round_half_even (fl (fl 0 * ?step)) = 0"
    by (simp add: fl_def round_half_even_def)
  have upt: "[0..<21] = 0 # [1..<20] @ [20]" by (simp add: upt_rec)
  have "linspace 0 9007199254740993 21
      = Inr (map (\<lambda>i. 0 + round_half_even (fl (fl (of_nat i) * ?step))) (0 # [1..<20] @ [20]))"
    by (simp add: linspace_def py_assert_def step upt del: upt_rec_numeral upt_Suc)
  with start_point end_point show ?thesis
    by (simp add: NUM_DISCRETISATION_POINTS_def del: upt_rec_numeral upt_Suc)
qed

end
