(* ===== verification/Secret_Reveal.thy ===== *)
theory Secret_Reveal
  imports Channel_Handlers
begin

text \<open>
  When a payment task has to register a secret on-chain: \<open>is_lock_valid\<close> and \<open>is_safe_to_wait\<close> of
  \<open>transfer/mediated_transfer/mediator.py\<close>, which the target uses too, and
  \<open>transfer/secret_registry.py\<close>. The three assertions of \<open>is_safe_to_wait\<close> are branches of the model.
\<close>

definition is_lock_valid :: "int \<Rightarrow> int \<Rightarrow> bool" where
  "is_lock_valid expiration block_number \<longleftrightarrow> block_number \<le> expiration"

definition is_safe_to_wait :: "int \<Rightarrow> int \<Rightarrow> int \<Rightarrow> success_or_error result" where
  "is_safe_to_wait lock_expiration reveal_timeout block_number =
     py_assert (block_number > 0) (
     py_assert (reveal_timeout > 0) (
     py_assert (lock_expiration > reveal_timeout) (
     let lock_timeout = lock_expiration - block_number in
     if lock_timeout > reveal_timeout then Inr []
     else Inr [UnsafeToWait reveal_timeout lock_timeout lock_expiration block_number])))"

definition secret_registry_events_for_onchain_secretreveal ::
  "channel \<Rightarrow> secret \<Rightarrow> int \<Rightarrow> block_hash \<Rightarrow> event list" where
  "secret_registry_events_for_onchain_secretreveal ch secret expiration block_hash =
     (if get_status ch \<in> set CHANNEL_STATES_UP_TO_CLOSED
      then [ContractSendSecretReveal block_hash expiration secret] else [])"

text \<open>Where the assertions hold, waiting is safe exactly before the danger zone of the lock.\<close>

definition timing_ok :: "int \<Rightarrow> int \<Rightarrow> int \<Rightarrow> bool" where
  "timing_ok lock_expiration reveal_timeout block_number \<longleftrightarrow>
     0 < block_number \<and> 0 < reveal_timeout \<and> reveal_timeout < lock_expiration"

lemma is_safe_to_wait_Inr:
  "is_safe_to_wait expiration reveal_timeout bn = Inr r \<longleftrightarrow>
     timing_ok expiration reveal_timeout bn
     \<and> r = (if reveal_timeout < expiration - bn then []
            else [UnsafeToWait reveal_timeout (expiration - bn) expiration bn])"
  by (auto simp: timing_ok_def is_safe_to_wait_def result_simps Let_def)

end
