(* ===== verification/Target.thy ===== *)
theory Target
  imports Secret_Reveal
begin

text \<open>
  The task of the target of a payment: model of \<open>transfer/mediated_transfer/target.py\<close>. A transition
  result is the new task (\<open>None\<close> when it ends), the channel as the handler left it, the generator and
  the events; the channel operations are those of the channel component.
\<close>

type_synonym target_transition =
  "(target_transfer_state option \<times> channel \<times> prng \<times> event list) result"

definition target_sanity_check ::
  "target_transfer_state option \<Rightarrow> target_transfer_state option \<Rightarrow> channel \<Rightarrow> unit result" where
  "target_sanity_check old_state new_state ch =
     (case new_state of
        None \<Rightarrow>
          (case old_state of
             None \<Rightarrow> Inr ()
           | Some old \<Rightarrow>
               py_assert (get_lock (ch_partner_state ch) (lk_secrethash (lt_lock (tt_transfer old)))
                 = None) (Inr ()))
      | Some new \<Rightarrow>
          py_assert (get_lock (ch_partner_state ch) (lk_secrethash (lt_lock (tt_transfer new)))
            \<noteq> None) (Inr ()))"

text \<open>The target's state is mutated before the secret is asserted to be present and not empty.\<close>

definition target_events_for_onchain_secretreveal ::
  "target_transfer_state \<Rightarrow> channel \<Rightarrow> int \<Rightarrow> block_hash \<Rightarrow>
   (target_transfer_state \<times> event list) result" where
  "target_events_for_onchain_secretreveal target ch block_number block_hash =
     (let transfer = tt_transfer target;
          expiration = lk_expiration (lt_lock transfer);
          sh = lk_secrethash (lt_lock transfer)
      in
      bind_result (is_safe_to_wait expiration (ch_reveal_timeout ch) block_number) (\<lambda>safe_to_wait.
      let secret_known_offchain = is_secret_known_offchain (ch_partner_state ch) sh;
          has_onchain_reveal_started = (tt_state target = ONCHAIN_SECRET_REVEAL)
      in
      if \<not> soe_ok safe_to_wait \<and> secret_known_offchain \<and> \<not> has_onchain_reveal_started
      then
        (case get_secret (ch_partner_state ch) sh of
           None \<Rightarrow> Inl AssertionError
         | Some secret \<Rightarrow>
             py_assert (secret \<noteq> []) (
             Inr (target\<lparr>tt_state := ONCHAIN_SECRET_REVEAL\<rparr>,
                  secret_registry_events_for_onchain_secretreveal ch secret expiration block_hash)))
      else Inr (target, [])))"

definition handle_inittarget ::
  "platform \<Rightarrow> action_init_target \<Rightarrow> channel \<Rightarrow> prng \<Rightarrow> int \<Rightarrow> target_transition" where
  "handle_inittarget E state_change ch g block_number =
     (let transfer = ait_transfer state_change in
      py_assert (channel_identifier ch
          = ci_channel_identifier (bp_canonical_identifier (lts_balance_proof transfer))) (
      bind_result (handle_receive_lockedtransfer E ch transfer (payer_address_metadata transfer))
        (\<lambda>(ch', is_valid, channel_events, errormsg).
      if is_valid then
        let target = \<lparr>tt_from_hop = ait_from_hop state_change, tt_transfer = transfer,
              tt_secret = None, tt_state = SECRET_REQUEST, tt_initiator_address_metadata = None\<rparr>
        in
        if ait_received_valid_secret state_change then Inr (Some target, ch', g, channel_events)
        else
          bind_result (is_safe_to_wait (lk_expiration (lt_lock transfer)) (ch_reveal_timeout ch')
              block_number) (\<lambda>safe_to_wait.
          if soe_ok safe_to_wait then
            let (message_identifier, g') = message_identifier_from_prng g;
                secret_request = SendSecretRequest
                  (header (lt_initiator transfer) (initiator_address_metadata transfer)
                     CANONICAL_IDENTIFIER_UNORDERED_QUEUE message_identifier)
                  (lt_payment_identifier transfer) (lk_amount (lt_lock transfer))
                  (lk_expiration (lt_lock transfer)) (lk_secrethash (lt_lock transfer))
            in Inr (Some target, ch', g', channel_events @ [secret_request])
          else Inr (Some target, ch', g, channel_events))
      else
        with_error_text errormsg (\<lambda>reason.
        Inr (None, ch', g, channel_events @ [EventUnlockClaimFailed (lt_payment_identifier transfer)
               (lk_secrethash (lt_lock transfer)) reason])))))"

definition target_handle_offchain_secretreveal ::
  "platform \<Rightarrow> target_transfer_state \<Rightarrow> receive_secret_reveal \<Rightarrow> channel \<Rightarrow> prng \<Rightarrow> int \<Rightarrow>
   target_transition" where
  "target_handle_offchain_secretreveal E target state_change ch g block_number =
     (let transfer = tt_transfer target;
          valid_secret = is_valid_secret_reveal (rsr_secrethash state_change)
            (lk_secrethash (lt_lock transfer));
          has_transfer_expired = is_transfer_expired transfer ch block_number
      in
      if valid_secret \<and> \<not> has_transfer_expired then
        let ch' = register_offchain_secret ch (rsr_secret state_change) (rsr_secrethash state_change);
            (message_identifier, g') = message_identifier_from_prng g;
            target' = target\<lparr>tt_state := OFFCHAIN_SECRET_REVEAL,
              tt_secret := Some (rsr_secret state_change)\<rparr>;
            reveal = mk_send_secret_reveal E
              (header (hop_node_address (tt_from_hop target)) (payer_address_metadata transfer)
                 CANONICAL_IDENTIFIER_UNORDERED_QUEUE message_identifier) (rsr_secret state_change)
        in Inr (Some target', ch', g', [reveal])
      else Inr (Some target, ch, g, []))"

definition target_handle_onchain_secretreveal ::
  "target_transfer_state \<Rightarrow> contract_receive_secret_reveal \<Rightarrow> channel \<Rightarrow> prng \<Rightarrow> target_transition" where
  "target_handle_onchain_secretreveal target state_change ch g =
     (if is_valid_secret_reveal (crr_secrethash state_change)
           (lk_secrethash (lt_lock (tt_transfer target)))
      then
        bind_result (register_onchain_secret ch (crr_secret state_change) (crr_secrethash state_change)
            (cr_block_number state_change) True) (\<lambda>ch'.
        Inr (Some (target\<lparr>tt_state := ONCHAIN_UNLOCK, tt_secret := Some (crr_secret state_change)\<rparr>),
             ch', g, []))
      else Inr (Some target, ch, g, []))"

definition target_handle_unlock ::
  "platform \<Rightarrow> target_transfer_state \<Rightarrow> receive_unlock \<Rightarrow> channel \<Rightarrow> prng \<Rightarrow> target_transition" where
  "target_handle_unlock E target state_change ch g =
     (let transfer = tt_transfer target in
      bind_result (handle_unlock E ch state_change (payer_address_metadata transfer))
        (\<lambda>(ch', is_valid, events, _).
      if is_valid then
        bind_result (mk_payment_received_success (ch_token_network_registry_address ch')
            (ch_token_network_address ch') (lt_payment_identifier transfer)
            (lk_amount (lt_lock transfer)) (lt_initiator transfer)) (\<lambda>payment_received_success.
        Inr (None, ch', g, events @ [payment_received_success,
          EventUnlockClaimSuccess (lt_payment_identifier transfer) (lk_secrethash (lt_lock transfer))]))
      else Inr (Some target, ch', g, events)))"

definition target_handle_block ::
  "target_transfer_state \<Rightarrow> channel \<Rightarrow> int \<Rightarrow> block_hash \<Rightarrow> prng \<Rightarrow> target_transition" where
  "target_handle_block target ch block_number block_hash g =
     (let transfer = tt_transfer target;
          l = lt_lock transfer;
          secret_known = is_secret_known (ch_partner_state ch) (lk_secrethash l);
          lock_has_expired = is_lock_expired (ch_our_state ch) l block_number
            (get_receiver_expiration_threshold (lk_expiration l))
      in
      if soe_ok lock_has_expired \<and> tt_state target \<noteq> EXPIRED then
        Inr (Some (target\<lparr>tt_state := EXPIRED\<rparr>), ch, g,
             [EventUnlockClaimFailed (lt_payment_identifier transfer) (lk_secrethash l)
                (Reason ''lock expired'')])
      else if secret_known then
        bind_result (target_events_for_onchain_secretreveal target ch block_number block_hash)
          (\<lambda>(target', events). Inr (Some target', ch, g, events))
      else Inr (Some target, ch, g, []))"

definition target_handle_lock_expired ::
  "platform \<Rightarrow> target_transfer_state \<Rightarrow> receive_lock_expired \<Rightarrow> channel \<Rightarrow> int \<Rightarrow> prng \<Rightarrow>
   target_transition" where
  "target_handle_lock_expired E target state_change ch block_number g =
     (let transfer = tt_transfer target in
      bind_result (handle_receive_lock_expired E ch state_change block_number
          (payer_address_metadata transfer)) (\<lambda>(ch', events).
      if get_lock (ch_partner_state ch') (lk_secrethash (lt_lock transfer)) = None then
        Inr (None, ch', g, events @ [EventUnlockClaimFailed (lt_payment_identifier transfer)
               (lk_secrethash (lt_lock transfer)) (Reason ''Lock expired'')])
      else Inr (Some target, ch', g, events)))"

text \<open>The assertion that a task exists, which every state change but the first needs.\<close>

definition with_task :: "'t option \<Rightarrow> ('t \<Rightarrow> 'a result) \<Rightarrow> 'a result" where
  "with_task task k = (case task of None \<Rightarrow> Inl AssertionError | Some t \<Rightarrow> k t)"

definition target_dispatch ::
  "platform \<Rightarrow> target_transfer_state option \<Rightarrow> state_change \<Rightarrow> channel \<Rightarrow> prng \<Rightarrow> int \<Rightarrow>
   target_transition" where
  "target_dispatch E target state_change ch g block_number =
     (case state_change of
        ActionInitTarget a \<Rightarrow>
          (if target = None then handle_inittarget E a ch g block_number
           else Inr (target, ch, g, []))
      | ToChannel (Block b) \<Rightarrow>
          py_assert (blk_block_number b = block_number) (
          with_task target (\<lambda>t. target_handle_block t ch (blk_block_number b) (blk_block_hash b) g))
      | ReceiveSecretReveal r \<Rightarrow>
          with_task target (\<lambda>t. target_handle_offchain_secretreveal E t r ch g block_number)
      | ContractReceiveSecretReveal r \<Rightarrow>
          with_task target (\<lambda>t. target_handle_onchain_secretreveal t r ch g)
      | ReceiveUnlock u \<Rightarrow> with_task target (\<lambda>t. target_handle_unlock E t u ch g)
      | ReceiveLockExpired r \<Rightarrow>
          with_task target (\<lambda>t. target_handle_lock_expired E t r ch block_number g)
      | _ \<Rightarrow> Inr (target, ch, g, []))"

definition target_state_transition ::
  "platform \<Rightarrow> target_transfer_state option \<Rightarrow> state_change \<Rightarrow> channel \<Rightarrow> prng \<Rightarrow> int \<Rightarrow>
   target_transition" where
  "target_state_transition E target state_change ch g block_number =
     bind_result (target_dispatch E target state_change ch g block_number)
       (\<lambda>(new_state, ch', g', events).
     bind_result (target_sanity_check target new_state ch') (\<lambda>_.
     Inr (new_state, ch', g', events)))"

end
