(* ===== verification/Channel_Effects.thy ===== *)
theory Channel_Effects
  imports Channel_Payments
begin

text \<open>
  What a payment task relies on when it calls the channel: for every operation that a task may
  perform, its effect on the pending locks of both sides, on the balances and on the parameters of
  the channel. The payment tasks are verified on top of these facts.
\<close>

abbreviation our_balance :: "channel \<Rightarrow> int" where
  "our_balance ch \<equiv> get_balance (ch_our_state ch) (ch_partner_state ch)"

text \<open>The parts of a channel that no operation of a payment task changes.\<close>

definition same_setup :: "channel \<Rightarrow> channel \<Rightarrow> bool" where
  "same_setup ch ch' \<longleftrightarrow>
     ch_canonical_identifier ch' = ch_canonical_identifier ch
     \<and> ch_token_address ch' = ch_token_address ch
     \<and> ch_reveal_timeout ch' = ch_reveal_timeout ch \<and> ch_settle_timeout ch' = ch_settle_timeout ch
     \<and> get_status ch' = get_status ch
     \<and> es_address (ch_our_state ch') = es_address (ch_our_state ch)
     \<and> es_address (ch_partner_state ch') = es_address (ch_partner_state ch)"

lemma same_setup_refl [simp]: "same_setup ch ch"
  by (simp add: same_setup_def)

lemma same_setup_trans: "same_setup ch ch' \<Longrightarrow> same_setup ch' ch'' \<Longrightarrow> same_setup ch ch''"
  by (simp add: same_setup_def)

subsection \<open>Locked transfers\<close>

lemma receive_lockedtransfer_effect:
  assumes inv: "chan_inv E ch" and new: "valid_lock (lt_lock t)"
      "get_lock (ch_partner_state ch) (lk_secrethash (lt_lock t)) = None"
    and rcv: "handle_receive_lockedtransfer E ch t md = Inr (ch', True, evs, m)"
  shows "chan_inv E ch'"
    and "get_lock (ch_partner_state ch')
      = (get_lock (ch_partner_state ch))(lk_secrethash (lt_lock t) \<mapsto> lt_lock t)"
    and "ch_our_state ch' = ch_our_state ch" and "our_balance ch' = our_balance ch"
    and "same_setup ch ch'" and "\<exists>h. evs = [SendProcessed h]"
proof -
  let ?p = "ch_partner_state ch" and ?b = "BPSigned (lts_balance_proof t)"
  note p = chan_inv_sides(2) [OF inv]
  from rcv obtain d: "lk_amount (lt_lock t) \<le> get_distributable E ?p (ch_our_state ch)"
    and c: "bp_continues E ?p (balance_proof.truncate (lts_balance_proof t)) (transferred_amount ?p)
       (get_amount_locked ?p + lk_amount (lt_lock t)) (es_pending_locks ?p @ [encoded (lt_lock t)])"
    and ch': "ch' = map_partner_state (apply_lock ?b (lt_lock t)) ch"
    by (rule handle_receive_lockedtransferE [OF _ end_inv_current_balanceproof [OF p]])
  show "chan_inv E ch'" by (rule handle_receive_lockedtransfer_inv [OF inv new rcv])
  show "get_lock (ch_partner_state ch')
      = (get_lock (ch_partner_state ch))(lk_secrethash (lt_lock t) \<mapsto> lt_lock t)"
    using handle_receive_lockedtransfer_ledger [OF inv new(2) rcv]
    by (simp add: ledger_of_def ledger_lock_def)
  have "transferred_amount (apply_lock ?b (lt_lock t) ?p) = transferred_amount ?p"
    using end_inv_apply_lock(3) [OF p new, of ?b] c end_inv_overflow [OF p d] by simp
  then show "our_balance ch' = our_balance ch" by (simp add: ch' get_balance_eq)
  show "ch_our_state ch' = ch_our_state ch" by (simp add: ch')
  show "same_setup ch ch'" by (simp add: ch' same_setup_def chan_simps end_simps)
  show "\<exists>h. evs = [SendProcessed h]"
    using rcv by (auto simp: handle_receive_lockedtransfer_def result_simps with_error_text_def processed_def
        Let_def split: if_splits option.splits)
qed

subsection \<open>Unlocks and expirations received\<close>

lemma receive_unlock_effect:
  assumes inv: "chan_inv E ch" and rcv: "handle_unlock E ch u md = Inr (ch', True, evs, m)"
  obtains l h where "get_lock (ch_partner_state ch) (ru_secrethash u) = Some l"
    "get_lock (ch_partner_state ch') = (get_lock (ch_partner_state ch))(ru_secrethash u := None)"
    "our_balance ch' = our_balance ch + lk_amount l" "ch_our_state ch' = ch_our_state ch"
    "same_setup ch ch'" "evs = [SendProcessed h]"
proof -
  from handle_unlock_effect [OF inv rcv] obtain l where
    l: "get_lock (ch_partner_state ch) (ru_secrethash u) = Some l"
    and b: "our_balance ch' = our_balance ch + lk_amount l" by blast
  have sh: "lk_secrethash l = ru_secrethash u"
    by (rule locks_wf_get_lock(1) [OF end_invD(1) [OF chan_inv_sides(2) [OF inv]] l])
  have g: "get_lock (ch_partner_state ch') = (get_lock (ch_partner_state ch))(ru_secrethash u := None)"
    using handle_unlock_ledger [OF inv l rcv] sh by (simp add: ledger_of_def ledger_unlock_def)
  have "ch_our_state ch' = ch_our_state ch \<and> same_setup ch ch'"
    using rcv
  proof (rule handle_unlockE [OF _ end_inv_current_balanceproof [OF chan_inv_sides(2) [OF inv]]])
    fix l p'
    assume del: "del_lock (ru_secrethash u) (apply_removal (BPSigned (ru_balance_proof u)) l
      (ch_partner_state ch)) = Inr p'" and ch': "ch' = ch\<lparr>ch_partner_state := p'\<rparr>"
    from del_lock_fields(1) [OF del] show ?thesis
      by (simp add: ch' same_setup_def chan_simps end_simps)
  qed
  moreover from rcv have "\<exists>h. evs = [SendProcessed h]"
    by (auto simp: handle_unlock_def result_simps with_error_text_def processed_def Let_def
        split: if_splits option.splits)
  ultimately show thesis using that l b g by blast
qed

lemma receive_lock_expired_effect:
  assumes inv: "chan_inv E ch" and rcv: "handle_receive_lock_expired E ch sc bn md = Inr (ch', evs)"
  shows "get_lock (ch_partner_state ch')
      \<in> {get_lock (ch_partner_state ch), (get_lock (ch_partner_state ch))(rle_secrethash sc := None)}"
    and "our_balance ch' = our_balance ch" and "ch_our_state ch' = ch_our_state ch"
    and "same_setup ch ch'"
    and "(\<exists>h. evs = [SendProcessed h]) \<or> (\<exists>m. evs = [EventInvalidReceivedLockExpired (rle_secrethash sc) m])"
proof -
  have "get_lock (ch_partner_state ch')
      \<in> {get_lock (ch_partner_state ch), (get_lock (ch_partner_state ch))(rle_secrethash sc := None)}
    \<and> our_balance ch' = our_balance ch \<and> ch_our_state ch' = ch_our_state ch \<and> same_setup ch ch'"
    using rcv
  proof (rule handle_receive_lock_expired_cases
      [OF _ end_inv_current_balanceproof [OF chan_inv_sides(2) [OF inv]]])
    fix l
    let ?p = "ch_partner_state ch" and ?b = "BPSigned (rle_balance_proof sc)"
    assume n: "\<not> dict_mem (rle_secrethash sc) (es_onchain_unlockedlocks ?p)"
      and l: "get_lock ?p (rle_secrethash sc) = Some l"
      and c: "bp_continues E ?p (balance_proof.truncate (rle_balance_proof sc)) (transferred_amount ?p)
         (get_amount_locked ?p - lk_amount l) (remove1 (encoded l) (es_pending_locks ?p))"
      and ch': "ch' = map_partner_state (\<lambda>partner. del_unclaimed_lock (rle_secrethash sc)
         (apply_removal ?b l partner)) ch"
    have "transferred_amount (ch_partner_state ch') = transferred_amount ?p"
      using c by (simp add: ch' transferred_amount_def end_simps bp_continues_def)
    moreover have "get_lock (apply_removal ?b l ?p) = get_lock ?p"
      by (rule ext) (simp add: get_lock_assoc apply_removal_def end_simps)
    ultimately show ?thesis
      using n by (simp add: ch' get_balance_eq same_setup_def chan_simps end_simps get_lock_del_unclaimed)
  qed simp
  then show "get_lock (ch_partner_state ch')
      \<in> {get_lock (ch_partner_state ch), (get_lock (ch_partner_state ch))(rle_secrethash sc := None)}"
    "our_balance ch' = our_balance ch" "ch_our_state ch' = ch_our_state ch" "same_setup ch ch'"
    by blast+
  show "(\<exists>h. evs = [SendProcessed h]) \<or> (\<exists>m. evs = [EventInvalidReceivedLockExpired (rle_secrethash sc) m])"
    using rcv by (auto simp: handle_receive_lock_expired_def result_simps with_error_text_def processed_def
        Let_def split: if_splits option.splits)
qed

subsection \<open>Secrets\<close>

lemma same_locks:
  assumes "locks_wf es" and "mset (lock_assoc es') = mset (lock_assoc es)"
  shows "get_lock es' = get_lock es"
  using dict_mset_map_of [OF locks_wf_dict_ok [OF assms(1)] assms(2)] by (auto simp: get_lock_assoc)

lemma register_offchain_secret_effect:
  assumes inv: "chan_inv E ch" and ch': "ch' = register_offchain_secret ch secret sh"
  shows "get_lock (ch_partner_state ch') = get_lock (ch_partner_state ch)"
    and "get_lock (ch_our_state ch') = get_lock (ch_our_state ch)"
    and "our_balance ch' = our_balance ch" and "same_setup ch ch'"
proof -
  note wf = chan_inv_sides(1,2) [OF inv, THEN end_invD(1)]
  show "get_lock (ch_partner_state ch') = get_lock (ch_partner_state ch)"
    "get_lock (ch_our_state ch') = get_lock (ch_our_state ch)"
    using same_locks [OF _ register_secret_assoc] wf by (simp_all add: ch' register_offchain_secret_def)
  show "our_balance ch' = our_balance ch" "same_setup ch ch'"
    by (simp_all add: ch' register_offchain_secret_def get_balance_eq same_setup_def end_simps chan_simps
        transferred_amount_def total_withdraw_def offchain_total_withdraw_def)
qed

lemma register_onchain_secret_effect:
  assumes inv: "chan_inv E ch" and reg: "register_onchain_secret ch secret sh n True = Inr ch'"
  shows "get_lock (ch_partner_state ch') = get_lock (ch_partner_state ch)"
    and "get_lock (ch_our_state ch') = get_lock (ch_our_state ch)"
    and "our_balance ch' = our_balance ch" and "same_setup ch ch'"
proof -
  from reg obtain our' partner' where
    o: "register_onchain_secret_endstate secret sh n True (ch_our_state ch) = Inr our'" and
    p: "register_onchain_secret_endstate secret sh n True (ch_partner_state ch) = Inr partner'" and
    ch': "ch' = ch\<lparr>ch_our_state := our', ch_partner_state := partner'\<rparr>"
    by (auto simp: register_onchain_secret_def result_simps)
  note wf = chan_inv_sides(1,2) [OF inv, THEN end_invD(1)]
  show "get_lock (ch_partner_state ch') = get_lock (ch_partner_state ch)"
    "get_lock (ch_our_state ch') = get_lock (ch_our_state ch)"
    using same_locks [OF wf(1) register_onchain_secret_eq_Inr(1) [OF wf(1) o]]
      same_locks [OF wf(2) register_onchain_secret_eq_Inr(1) [OF wf(2) p]] by (simp_all add: ch')
  note f = register_onchain_fields [OF wf(1) o] register_onchain_fields [OF wf(2) p]
  show "our_balance ch' = our_balance ch" "same_setup ch ch'"
    by (simp_all add: ch' get_balance_eq same_setup_def f transferred_amount_def total_withdraw_def
        offchain_total_withdraw_def chan_simps)
qed

subsection \<open>Sending\<close>

lemma send_unlock_task_effect:
  assumes inv: "chan_inv E ch" and send: "send_unlock E ch mid pid secret sh bn md = Inr (ch', u)"
  obtains l where "get_lock (ch_our_state ch) sh = Some l"
    and "get_lock (ch_our_state ch') = (get_lock (ch_our_state ch))(sh := None)"
    and "our_balance ch' = our_balance ch - lk_amount l"
    and "ch_partner_state ch' = ch_partner_state ch" and "same_setup ch ch'" and "chan_inv E ch'"
proof -
  from send_unlock_effect [OF inv send] obtain l where
    l: "get_lock (ch_our_state ch) sh = Some l" "our_balance ch' = our_balance ch - lk_amount l"
      "ledger_of (ch_our_state ch') = ledger_unlock l (ledger_of (ch_our_state ch))" by blast
  have sh: "lk_secrethash l = sh"
    by (rule locks_wf_get_lock(1) [OF end_invD(1) [OF chan_inv_sides(1) [OF inv]] l(1)])
  from send obtain b l' our' where del: "del_lock (lk_secrethash l') (apply_removal b l' (ch_our_state ch)) = Inr our'"
    and ch': "ch' = ch\<lparr>ch_our_state := our'\<rparr>"
    by (rule send_unlockE) blast
  from del_lock_removal [OF del] have "same_setup ch ch'"
    by (simp add: ch' same_setup_def removal_of_def chan_simps)
  moreover have "get_lock (ch_our_state ch') = (get_lock (ch_our_state ch))(sh := None)"
    using arg_cong [OF l(3), of lg_locks] sh by (simp add: ledger_of_def ledger_unlock_def)
  ultimately show thesis
    using that [OF l(1)] l(2) send_unlock_inv [OF inv send] by (simp add: ch')
qed

lemma send_lock_expired_task_effect:
  assumes inv: "chan_inv E ch" and l: "get_lock (ch_our_state ch) (lk_secrethash l) = Some l"
    and unclaimed: "\<not> dict_mem (lk_secrethash l) (es_onchain_unlockedlocks (ch_our_state ch))"
    and send: "send_lock_expired E ch l g md = Inr (ch', g', evs)"
  shows "get_lock (ch_our_state ch') = (if evs = [] then get_lock (ch_our_state ch)
      else (get_lock (ch_our_state ch))(lk_secrethash l := None))"
    and "our_balance ch' = our_balance ch" and "ch_partner_state ch' = ch_partner_state ch"
    and "same_setup ch ch'" and "chan_inv E ch'"
proof -
  let ?o = "ch_our_state ch"
  have *: "get_lock (ch_our_state ch') = (if evs = [] then get_lock ?o else (get_lock ?o)(lk_secrethash l := None))
    \<and> our_balance ch' = our_balance ch \<and> ch_partner_state ch' = ch_partner_state ch \<and> same_setup ch ch'"
  proof (cases "evs = []")
    case True
    with send_lock_expired_cases [OF send] show ?thesis by auto
  next
    case False
    with send_lock_expired_cases [OF send] obtain ev where evs: "evs = [ev]" by auto
    with send have s: "send_lock_expired E ch l g md = Inr (ch', g', [ev])" by simp
    then obtain b where ch': "ch' = map_our_state (\<lambda>our. del_unclaimed_lock (lk_secrethash l)
        (apply_removal (BPUnsigned b) l our)) ch"
      by (rule send_lock_expiredE)
    note rem = del_unclaimed_removal [OF unclaimed, of "BPUnsigned b"]
    note g = send_lock_expired_ledger [OF unclaimed s]
    have "total_withdraw (ch_our_state ch') = total_withdraw ?o"
      unfolding ch' using rem by (intro total_withdraw_cong) (simp_all add: removal_of_def)
    moreover have "transferred_amount (ch_our_state ch') = transferred_amount ?o"
      "get_lock (ch_our_state ch') = (get_lock ?o)(lk_secrethash l := None)"
      using arg_cong [OF g, of lg_transferred] arg_cong [OF g, of lg_locks]
      by (simp_all add: ledger_of_def ledger_expire_def)
    ultimately show ?thesis
      using rem by (simp add: evs ch' get_balance_eq removal_of_def same_setup_def chan_simps)
  qed
  then show "get_lock (ch_our_state ch') = (if evs = [] then get_lock ?o else (get_lock ?o)(lk_secrethash l := None))"
    "our_balance ch' = our_balance ch" "ch_partner_state ch' = ch_partner_state ch" "same_setup ch ch'"
    by blast+
  show "chan_inv E ch'" by (rule send_lock_expired_inv [OF inv l unclaimed send])
qed

end
