(* ===== verification/Payment_Task.thy ===== *)
theory Payment_Task
  imports Channel_Effects
begin

text \<open>
  The contract between a payment task and the channel it works on. A task makes transitions on a
  channel; every transition keeps the invariant of the task and changes the node's balance by exactly
  what its events account for. From this the whole life of a task is accounted for. The target and the
  initiator of a payment are instances.
\<close>

type_synonym 't task_transition = "('t option \<times> channel \<times> prng \<times> event list) result"

text \<open>A sequence of inputs, each handled in the state that the previous one left.\<close>

fun task_run ::
  "('t option \<Rightarrow> 'i \<Rightarrow> channel \<Rightarrow> prng \<Rightarrow> 't task_transition) \<Rightarrow> 't option \<Rightarrow> channel \<Rightarrow> prng \<Rightarrow> 'i list \<Rightarrow>
   't task_transition" where
  "task_run step task ch g [] = Inr (task, ch, g, [])"
| "task_run step task ch g (i # is) =
     bind_result (step task i ch g) (\<lambda>(task1, ch1, g1, events1).
     bind_result (task_run step task1 ch1 g1 is) (\<lambda>(task2, ch2, g2, events2).
     Inr (task2, ch2, g2, events1 @ events2)))"

text \<open>Every input of the sequence is admissible in the state in which it arrives.\<close>

fun run_admissible ::
  "('t option \<Rightarrow> 'i \<Rightarrow> channel \<Rightarrow> prng \<Rightarrow> 't task_transition) \<Rightarrow> ('t option \<Rightarrow> channel \<Rightarrow> 'i \<Rightarrow> bool) \<Rightarrow>
   't option \<Rightarrow> channel \<Rightarrow> prng \<Rightarrow> 'i list \<Rightarrow> bool" where
  "run_admissible step allowed task ch g [] = True"
| "run_admissible step allowed task ch g (i # is) =
     (allowed task ch i \<and>
      (case step task i ch g of
         Inl e \<Rightarrow> True
       | Inr (task1, ch1, g1, events1) \<Rightarrow> run_admissible step allowed task1 ch1 g1 is))"

lemma transition_parts: "\<not> isl m \<Longrightarrow> \<exists>a b c d. m = Inr (a, b, c, d) \<and> projr m = (a, b, c, d)"
  by (cases m) auto

lemma task_run_Cons_Inr:
  assumes "task_run step task ch g (i # is) = Inr (task', ch', g', evs)"
  obtains task1 ch1 g1 evs1 evs2 where "step task i ch g = Inr (task1, ch1, g1, evs1)"
    and "task_run step task1 ch1 g1 is = Inr (task', ch', g', evs2)" and "evs = evs1 @ evs2"
  using assms by (auto simp: result_simps)

locale payment_task =
  fixes step :: "'t option \<Rightarrow> 'i \<Rightarrow> channel \<Rightarrow> prng \<Rightarrow> 't task_transition"
    and inv :: "'t option \<Rightarrow> channel \<Rightarrow> bool"
    and allowed :: "'t option \<Rightarrow> channel \<Rightarrow> 'i \<Rightarrow> bool"
    and account :: "event \<Rightarrow> int"
  assumes step_keeps: "inv task ch \<Longrightarrow> allowed task ch i \<Longrightarrow>
      step task i ch g = Inr (task', ch', g', evs) \<Longrightarrow> inv task' ch'"
    and step_accounts: "inv task ch \<Longrightarrow> allowed task ch i \<Longrightarrow>
      step task i ch g = Inr (task', ch', g', evs) \<Longrightarrow> our_balance ch' = our_balance ch + (\<Sum>e\<leftarrow>evs. account e)"
    and step_setup: "inv task ch \<Longrightarrow> allowed task ch i \<Longrightarrow>
      step task i ch g = Inr (task', ch', g', evs) \<Longrightarrow> same_setup ch ch'"
begin

lemma run_accounts:
  assumes "inv task ch" and "run_admissible step allowed task ch g is"
    and "task_run step task ch g is = Inr (task', ch', g', evs)"
  shows "inv task' ch' \<and> our_balance ch' = our_balance ch + (\<Sum>e\<leftarrow>evs. account e) \<and> same_setup ch ch'"
  using assms
proof (induction "is" arbitrary: task ch g evs)
  case Nil
  then show ?case by simp
next
  case (Cons i "is")
  from Cons.prems(3) obtain task1 ch1 g1 evs1 evs2 where
    s: "step task i ch g = Inr (task1, ch1, g1, evs1)"
    and r: "task_run step task1 ch1 g1 is = Inr (task', ch', g', evs2)" and e: "evs = evs1 @ evs2"
    by (rule task_run_Cons_Inr)
  from Cons.prems(2) s have a: "allowed task ch i" "run_admissible step allowed task1 ch1 g1 is"
    by simp_all
  note st = step_keeps [OF Cons.prems(1) a(1) s] step_accounts [OF Cons.prems(1) a(1) s]
    step_setup [OF Cons.prems(1) a(1) s]
  from Cons.IH [OF st(1) a(2) r] st(2,3) show ?case
    by (auto simp: e intro: same_setup_trans)
qed

end

text \<open>Inputs for example runs: the secret is registered on-chain at block 40; a block.\<close>

definition ex_reveal :: contract_receive_secret_reveal where
  "ex_reveal = \<lparr>cr_transaction_hash = [], cr_block_number = 40, cr_block_hash = replicate 32 8,
     crr_secret_registry_address = [], crr_secrethash = ex_secrethash, crr_secret = ex_secret\<rparr>"

definition ex_target_block :: "int \<Rightarrow> block" where
  "ex_target_block n = \<lparr>blk_block_number = n, blk_gas_limit = 0, blk_block_hash = replicate 32 8\<rparr>"

end
