(* ===== verification/Target_Laws.thy ===== *)
theory Target_Laws
  imports Target Payment_Task Channel_Closing
begin

text \<open>
  Correctness of the target task on top of the channel's contract: while the task runs, its lock is
  pending on the partner's side of the channel; the payments it reports are exactly what the node's
  balance gains; it goes on-chain with a secret in time.
\<close>

subsection \<open>The invariant of the task\<close>

definition target_inv :: "channel \<Rightarrow> target_transfer_state \<Rightarrow> bool" where
  "target_inv ch t \<longleftrightarrow>
     get_lock (ch_partner_state ch) (lk_secrethash (lt_lock (tt_transfer t))) = Some (lt_lock (tt_transfer t))"

definition task_inv :: "channel \<Rightarrow> target_transfer_state option \<Rightarrow> bool" where
  "task_inv ch task \<longleftrightarrow> (case task of None \<Rightarrow> True | Some t \<Rightarrow> target_inv ch t)"

text \<open>
  What the node guarantees when it dispatches to the task: messages about a lock go to the task of
  this secrethash, and a new task is started for a well-formed lock that is not pending yet.
\<close>

definition target_admissible ::
  "target_transfer_state option \<Rightarrow> channel \<Rightarrow> state_change \<Rightarrow> bool" where
  "target_admissible task ch sc \<longleftrightarrow>
     (case task of
        None \<Rightarrow>
          (case sc of
             ActionInitTarget a \<Rightarrow> valid_lock (lt_lock (ait_transfer a))
               \<and> get_lock (ch_partner_state ch) (lk_secrethash (lt_lock (ait_transfer a))) = None
           | _ \<Rightarrow> True)
      | Some t \<Rightarrow>
          (case sc of
             ReceiveUnlock u \<Rightarrow> ru_secrethash u = lk_secrethash (lt_lock (tt_transfer t))
           | ReceiveLockExpired r \<Rightarrow> rle_secrethash r = lk_secrethash (lt_lock (tt_transfer t))
           | _ \<Rightarrow> True))"

text \<open>The tokens that a list of events reports as received.\<close>

definition received :: "event list \<Rightarrow> int" where
  "received evs =
     (\<Sum>e\<leftarrow>evs. case e of EventPaymentReceivedSuccess registry network payment amount initiator \<Rightarrow> amount
       | _ \<Rightarrow> 0)"

lemma received_simps [simp]:
  "received [] = 0"
  "received (EventPaymentReceivedSuccess registry network payment amount initiator # evs)
     = amount + received evs"
  "received (SendProcessed h # evs) = received evs"
  "received (SendSecretRequest h pid a x sh # evs) = received evs"
  "received (SendSecretReveal h secret sh # evs) = received evs"
  "received (EventUnlockClaimFailed pid sh m # evs) = received evs"
  "received (EventUnlockClaimSuccess pid sh # evs) = received evs"
  "received (EventInvalidReceivedLockExpired sh m # evs) = received evs"
  "received (EventInvalidReceivedUnlock sh m # evs) = received evs"
  "received (EventInvalidReceivedLockedTransfer pid m # evs) = received evs"
  "received (ContractSendSecretReveal bh x secret # evs) = received evs"
  by (simp_all add: received_def)

text \<open>One transition keeps the invariants and passes the check at its end.\<close>

definition target_step_ok ::
  "platform \<Rightarrow> target_transfer_state option \<Rightarrow> channel \<Rightarrow>
   target_transfer_state option \<times> channel \<times> prng \<times> event list \<Rightarrow> bool" where
  "target_step_ok E task ch r \<longleftrightarrow>
     (case r of (task', ch', g', evs) \<Rightarrow>
        chan_inv E ch' \<and> task_inv ch' task' \<and> target_sanity_check task task' ch' = Inr ()
        \<and> our_balance ch' = our_balance ch + received evs \<and> same_setup ch ch')"

lemma target_step_running:
  assumes "chan_inv E ch'" "target_inv ch' t'" "our_balance ch' = our_balance ch + received evs"
    "same_setup ch ch'"
  shows "target_step_ok E task ch (Some t', ch', g', evs)"
  using assms by (simp add: target_step_ok_def task_inv_def target_sanity_check_def target_inv_def)

lemma handle_inittarget_ok:
  assumes inv: "chan_inv E ch" and adm: "target_admissible None ch (ActionInitTarget a)"
    and h: "handle_inittarget E a ch g bn = Inr r"
  shows "target_step_ok E None ch r"
proof -
  let ?t = "ait_transfer a"
  from adm have new: "valid_lock (lt_lock ?t)"
    "get_lock (ch_partner_state ch) (lk_secrethash (lt_lock ?t)) = None"
    by (simp_all add: target_admissible_def)
  from h obtain ch' ok evs m where
    rcv: "handle_receive_lockedtransfer E ch ?t (payer_address_metadata ?t) = Inr (ch', ok, evs, m)"
    by (auto simp: handle_inittarget_def result_simps Let_def)
  show ?thesis
  proof (cases ok)
    case True
    with rcv have acc: "handle_receive_lockedtransfer E ch ?t (payer_address_metadata ?t)
      = Inr (ch', True, evs, m)" by simp
    note eff = receive_lockedtransfer_effect [OF inv new acc]
    from eff(6) obtain p where evs: "evs = [SendProcessed p]" by blast
    from h obtain t' g' evs' where r: "r = (Some t', ch', g', evs')"
      and t': "tt_transfer t' = ?t" and evs': "received evs' = 0"
      by (auto simp: handle_inittarget_def acc evs result_simps Let_def split: if_splits prod.splits)
    from eff t' evs' show ?thesis
      unfolding r by (intro target_step_running) (simp_all add: target_inv_def)
  next
    case False
    with rcv have rej: "handle_receive_lockedtransfer E ch ?t (payer_address_metadata ?t)
      = Inr (ch', False, evs, m)" by simp
    have ch': "ch' = ch" by (rule handle_receive_lockedtransfer_rejected [OF rej])
    have evs: "received evs = 0"
      using rej by (auto simp: handle_receive_lockedtransfer_def result_simps with_error_text_def Let_def
          split: if_splits option.splits)
    from h obtain m' where "r = (None, ch, g, evs @ [EventUnlockClaimFailed (lt_payment_identifier ?t)
        (lk_secrethash (lt_lock ?t)) m'])"
      by (auto simp: handle_inittarget_def rej ch' result_simps with_error_text_def Let_def
          split: option.splits)
    then show ?thesis
      using inv evs by (simp add: target_step_ok_def task_inv_def target_sanity_check_def received_def)
  qed
qed

lemma target_handle_offchain_secretreveal_ok:
  assumes inv: "chan_inv E ch" and t: "target_inv ch t"
    and h: "target_handle_offchain_secretreveal E t sc ch g bn = Inr r"
  shows "target_step_ok E (Some t) ch r"
proof -
  let ?ch = "register_offchain_secret ch (rsr_secret sc) (rsr_secrethash sc)"
  note eff = register_offchain_secret_effect [OF inv refl, of "rsr_secret sc" "rsr_secrethash sc"]
  have inv': "chan_inv E ?ch" by (rule register_offchain_secret_inv [OF inv])
  show ?thesis
    using h inv inv' t eff
    by (auto simp: target_handle_offchain_secretreveal_def Let_def mk_send_secret_reveal_def target_inv_def
        intro!: target_step_running split: if_splits prod.splits)
qed

lemma target_handle_onchain_secretreveal_ok:
  assumes inv: "chan_inv E ch" and t: "target_inv ch t"
    and h: "target_handle_onchain_secretreveal t sc ch g = Inr r"
  shows "target_step_ok E (Some t) ch r"
  using h inv t register_onchain_secret_effect [OF inv] register_onchain_secret_inv [OF inv]
  by (auto simp: target_handle_onchain_secretreveal_def result_simps target_inv_def
      intro!: target_step_running split: if_splits)

lemma target_handle_unlock_ok:
  assumes inv: "chan_inv E ch" and t: "target_inv ch t"
    and sh: "ru_secrethash u = lk_secrethash (lt_lock (tt_transfer t))"
    and h: "target_handle_unlock E t u ch g = Inr r"
  shows "target_step_ok E (Some t) ch r"
proof -
  let ?md = "payer_address_metadata (tt_transfer t)"
  from h obtain ch' ok evs m where rcv: "handle_unlock E ch u ?md = Inr (ch', ok, evs, m)"
    by (auto simp: target_handle_unlock_def result_simps Let_def)
  show ?thesis
  proof (cases ok)
    case True
    with rcv have acc: "handle_unlock E ch u ?md = Inr (ch', True, evs, m)" by simp
    have inv': "chan_inv E ch'" by (rule handle_unlock_inv [OF inv acc])
    from inv acc obtain l p where l: "get_lock (ch_partner_state ch) (ru_secrethash u) = Some l"
      and g': "get_lock (ch_partner_state ch') = (get_lock (ch_partner_state ch))(ru_secrethash u := None)"
      and b: "our_balance ch' = our_balance ch + lk_amount l" and s: "same_setup ch ch'"
      and evs: "evs = [SendProcessed p]"
      by (rule receive_unlock_effect)
    from l t sh have l': "l = lt_lock (tt_transfer t)" by (simp add: target_inv_def)
    from h inv' g' b s l' sh show ?thesis
      by (auto simp: target_handle_unlock_def acc evs result_simps mk_payment_received_success_def
          target_step_ok_def task_inv_def target_sanity_check_def Let_def)
  next
    case False
    with rcv have rej: "handle_unlock E ch u ?md = Inr (ch', False, evs, m)" by simp
    have ch': "ch' = ch" by (rule handle_unlock_rejected [OF rej])
    have "received evs = 0"
      using rej by (auto simp: handle_unlock_def result_simps with_error_text_def Let_def
          split: if_splits option.splits)
    with h inv t show ?thesis
      by (auto simp: target_handle_unlock_def rej ch' Let_def intro!: target_step_running)
  qed
qed

lemma target_reveal_events_cases:
  assumes "target_events_for_onchain_secretreveal t ch bn bh = Inr (t', evs)"
  shows "tt_transfer t' = tt_transfer t" and "received evs = 0"
  using assms
  by (auto simp: target_events_for_onchain_secretreveal_def result_simps Let_def
      secret_registry_events_for_onchain_secretreveal_def split: if_splits option.splits)

lemma target_handle_block_ok:
  assumes inv: "chan_inv E ch" and t: "target_inv ch t"
    and h: "target_handle_block t ch bn bh g = Inr r"
  shows "target_step_ok E (Some t) ch r"
  using h inv t target_reveal_events_cases
  by (fastforce simp: target_handle_block_def result_simps Let_def target_inv_def
      intro!: target_step_running split: if_splits)

lemma target_handle_lock_expired_ok:
  assumes inv: "chan_inv E ch" and t: "target_inv ch t"
    and h: "target_handle_lock_expired E t sc ch bn g = Inr r"
  shows "target_step_ok E (Some t) ch r"
proof -
  let ?tr = "tt_transfer t" and ?sh = "lk_secrethash (lt_lock (tt_transfer t))"
  from h obtain ch' evs where
    rcv: "handle_receive_lock_expired E ch sc bn (payer_address_metadata ?tr) = Inr (ch', evs)"
    by (auto simp: target_handle_lock_expired_def result_simps Let_def)
  have inv': "chan_inv E ch'" by (rule handle_receive_lock_expired_inv [OF inv rcv])
  note eff = receive_lock_expired_effect [OF inv rcv]
  have evs: "received (evs @ e) = received e" for e using eff(5) by (auto simp: received_def)
  from evs [of "[]"] have evs0: "received evs = 0" by simp
  show ?thesis
  proof (cases "get_lock (ch_partner_state ch') ?sh")
    case None
    with h eff inv' evs show ?thesis
      by (auto simp: target_handle_lock_expired_def rcv Let_def target_step_ok_def task_inv_def
          target_sanity_check_def)
  next
    case (Some l)
    with eff(1) t have "target_inv ch' t" by (auto simp: target_inv_def split: if_splits)
    with Some h inv' eff evs0 show ?thesis
      by (auto simp: target_handle_lock_expired_def rcv Let_def intro!: target_step_running)
  qed
qed

lemma target_dispatch_ok:
  assumes inv: "chan_inv E ch" and t: "task_inv ch task" and adm: "target_admissible task ch sc"
    and h: "target_dispatch E task sc ch g bn = Inr r"
  shows "target_step_ok E task ch r"
proof (cases task)
  case None
  with h adm inv handle_inittarget_ok [OF inv] show ?thesis
    by (cases sc) (auto simp: target_dispatch_def with_task_def target_step_ok_def task_inv_def
        target_sanity_check_def result_simps split: channel_state_change.splits)
next
  case (Some t')
  with t have t': "target_inv ch t'" by (simp add: task_inv_def)
  then have same: "target_step_ok E (Some t') ch (Some t', ch, g, [])"
    using inv by (intro target_step_running) simp_all
  from h adm same t' Some show ?thesis
    using target_handle_block_ok [OF inv t'] target_handle_offchain_secretreveal_ok [OF inv t']
      target_handle_onchain_secretreveal_ok [OF inv t'] target_handle_unlock_ok [OF inv t']
      target_handle_lock_expired_ok [OF inv t']
    by (cases sc; cases r) (auto simp: target_dispatch_def with_task_def target_admissible_def result_simps
        split: channel_state_change.splits)
qed

text \<open>Bob received the transfer of the example and learned its secret off-chain.\<close>

definition ex_target :: "target_state \<Rightarrow> target_transfer_state" where
  "ex_target st = \<lparr>tt_from_hop = \<lparr>hop_node_address = ex_alice, hop_channel_identifier = 1\<rparr>,
     tt_transfer = ex_transfer, tt_secret = Some ex_secret, tt_state = st,
     tt_initiator_address_metadata = None\<rparr>"

definition ex_bob_knows :: channel where
  "ex_bob_knows = register_offchain_secret ex_bob_locked ex_secret ex_secrethash"

lemma ex_target_task:
  "chan_inv ex_platform ex_bob_knows" "task_inv ex_bob_knows (Some (ex_target st))"
  "target_admissible (Some (ex_target st)) ex_bob_knows (ReceiveUnlock ex_unlock_message)"
proof -
  show "chan_inv ex_platform ex_bob_knows"
    unfolding ex_bob_knows_def by (rule register_offchain_secret_inv [OF ex_bob_locked_inv])
  have "get_lock (ch_partner_state ex_bob_knows) ex_secrethash = Some ex_lock"
    and "ru_secrethash ex_unlock_message = ex_secrethash" by code_simp+
  then show "task_inv ex_bob_knows (Some (ex_target st))"
    "target_admissible (Some (ex_target st)) ex_bob_knows (ReceiveUnlock ex_unlock_message)"
    by (simp_all add: task_inv_def target_inv_def target_admissible_def ex_target_def ex_transfer_def
        ex_lock_def)
qed

lemma ex_bob_task: "task_inv ex_bob_locked (Some (ex_target st))"
proof -
  have "get_lock (ch_partner_state ex_bob_locked) ex_secrethash = Some ex_lock" by code_simp
  then show ?thesis
    by (simp add: task_inv_def target_inv_def ex_target_def ex_transfer_def ex_lock_def)
qed

definition ex_target_unlock :: target_transition where
  "ex_target_unlock = target_state_transition ex_platform (Some (ex_target OFFCHAIN_SECRET_REVEAL))
     (ReceiveUnlock ex_unlock_message) ex_bob_knows ex_prng 40"

lemma ex_target_unlock_ok:
  "\<exists>task' ch' g' evs. ex_target_unlock = Inr (task', ch', g', evs) \<and> received evs = 4
    \<and> projr ex_target_unlock = (task', ch', g', evs)"
proof -
  have 1: "\<not> isl ex_target_unlock" and 2: "received (snd (snd (snd (projr ex_target_unlock)))) = 4"
    by code_simp+
  from transition_parts [OF 1] 2 show ?thesis by auto
qed

text \<open>
  C17. While the target task of a payment runs, its lock is pending on the partner's side of the channel,
  and the task ends exactly when the lock is gone: the assertions of \<open>sanity_check\<close> at the end of
  \<open>state_transition\<close> never raise, and the invariants of channel and task hold again after every
  transition.
\<close>

theorem target_task_lives_with_its_lock:
  assumes "chan_inv E ch" and "task_inv ch task" and "target_admissible task ch sc"
  shows "target_state_transition E task sc ch g bn = target_dispatch E task sc ch g bn
    \<and> (\<forall>task' ch' g' evs. target_state_transition E task sc ch g bn = Inr (task', ch', g', evs) \<longrightarrow>
        chan_inv E ch' \<and> task_inv ch' task')"
proof (cases "target_dispatch E task sc ch g bn")
  case (Inl e)
  then show ?thesis by (simp add: target_state_transition_def)
next
  case (Inr r)
  obtain task' ch' g' evs where r: "r = (task', ch', g', evs)" by (cases r)
  from target_dispatch_ok [OF assms Inr] Inr show ?thesis
    by (auto simp: r target_state_transition_def target_step_ok_def)
qed

theorem target_task_lives_with_its_lock_witness:
  "\<exists>task' ch'. fst (projr ex_target_unlock) = task' \<and> fst (snd (projr ex_target_unlock)) = ch'
    \<and> chan_inv ex_platform ch' \<and> task_inv ch' task'"
proof -
  from ex_target_unlock_ok obtain task' ch' g' evs where "ex_target_unlock = Inr (task', ch', g', evs)"
    "projr ex_target_unlock = (task', ch', g', evs)" by blast
  with target_task_lives_with_its_lock [OF ex_target_task, of OFFCHAIN_SECRET_REVEAL ex_prng 40]
  show ?thesis by (simp add: ex_target_unlock_def)
qed

text \<open>The life of a target task is accounted for: an instance of the contract of payment tasks.\<close>

definition target_step ::
  "platform \<Rightarrow> target_transfer_state option \<Rightarrow> state_change \<times> int \<Rightarrow> channel \<Rightarrow> prng \<Rightarrow>
   target_transfer_state task_transition" where
  "target_step E task i ch g = target_state_transition E task (fst i) ch g (snd i)"

lemma received_sum: "(\<Sum>e\<leftarrow>evs. received [e]) = received evs"
  by (simp add: received_def)

interpretation target_task: payment_task "target_step E" "\<lambda>task ch. chan_inv E ch \<and> task_inv ch task"
  "\<lambda>task ch i. target_admissible task ch (fst i)" "\<lambda>e. received [e]"
proof unfold_locales
  fix task :: "target_transfer_state option" and i :: "state_change \<times> int" and ch ch' :: channel
    and g g' :: prng and task' evs
  assume "chan_inv E ch \<and> task_inv ch task" and adm: "target_admissible task ch (fst i)"
    and "target_step E task i ch g = Inr (task', ch', g', evs)"
  then have inv: "chan_inv E ch" "task_inv ch task"
    and step: "target_dispatch E task (fst i) ch g (snd i) = Inr (task', ch', g', evs)"
    by (auto simp: target_step_def target_state_transition_def result_simps)
  from target_dispatch_ok [OF inv adm step]
  show "chan_inv E ch' \<and> task_inv ch' task'" and "our_balance ch' = our_balance ch + (\<Sum>e\<leftarrow>evs. received [e])"
    and "same_setup ch ch'"
    by (simp_all add: target_step_ok_def received_sum)
qed

text \<open>
  C16. The payments that the target reports are backed by the channel: over the whole life of a task, in
  whatever order locked transfers, secrets, unlocks, expirations and blocks arrive, the node's balance
  grows by exactly the amounts of the \<open>EventPaymentReceivedSuccess\<close> events. A payment is reported if and
  only if its tokens arrived, and with the right amount.
\<close>

theorem target_reports_what_it_received:
  assumes "chan_inv E ch" and "task_inv ch task"
    and "run_admissible (target_step E) (\<lambda>task ch i. target_admissible task ch (fst i)) task ch g is"
    and "task_run (target_step E) task ch g is = Inr (task', ch', g', evs)"
  shows "get_balance (ch_our_state ch') (ch_partner_state ch')
    = get_balance (ch_our_state ch) (ch_partner_state ch) + received evs"
  using target_task.run_accounts [OF conjI [OF assms(1,2)] assms(3,4)] by (simp add: received_sum)

definition ex_target_inputs :: "(state_change \<times> int) list" where
  "ex_target_inputs = [(ReceiveSecretReveal (mk_receive_secret_reveal ex_platform ex_alice ex_secret), 39),
     (ReceiveUnlock ex_unlock_message, 40)]"

definition ex_target_run :: "target_transfer_state task_transition" where
  "ex_target_run = task_run (target_step ex_platform) (Some (ex_target SECRET_REQUEST)) ex_bob_locked ex_prng
     ex_target_inputs"

theorem target_reports_what_it_received_witness:
  "our_balance (fst (snd (projr ex_target_run))) = our_balance ex_bob_locked + 4"
proof -
  have 1: "\<not> isl ex_target_run" and 2: "received (snd (snd (snd (projr ex_target_run)))) = 4"
    and 3: "run_admissible (target_step ex_platform) (\<lambda>task ch i. target_admissible task ch (fst i))
      (Some (ex_target SECRET_REQUEST)) ex_bob_locked ex_prng ex_target_inputs"
    by code_simp+
  from transition_parts [OF 1] obtain task' ch' g' evs where r: "ex_target_run = Inr (task', ch', g', evs)"
    and p: "projr ex_target_run = (task', ch', g', evs)" by blast
  from target_reports_what_it_received [OF ex_bob_locked_inv ex_bob_task 3 r [unfolded ex_target_run_def]] 2
  show ?thesis by (simp add: p)
qed

subsection \<open>Blocks\<close>

text \<open>The task sees a sequence of blocks.\<close>

fun target_run ::
  "platform \<Rightarrow> target_transfer_state option \<Rightarrow> channel \<Rightarrow> prng \<Rightarrow> block list \<Rightarrow> target_transition" where
  "target_run E task ch g [] = Inr (task, ch, g, [])"
| "target_run E task ch g (b # bs) =
     bind_result (target_state_transition E task (BlockChange b) ch g (blk_block_number b))
       (\<lambda>(task1, ch1, g1, events1).
     bind_result (target_run E task1 ch1 g1 bs) (\<lambda>(task2, ch2, g2, events2).
     Inr (task2, ch2, g2, events1 @ events2)))"

text \<open>The secret of the task's lock is known off-chain; the timing assertions hold at every block.\<close>

definition reveals_secret :: "channel \<Rightarrow> target_transfer_state \<Rightarrow> secret \<Rightarrow> bool" where
  "reveals_secret ch t secret \<longleftrightarrow>
     get_secret (ch_partner_state ch) (lk_secrethash (lt_lock (tt_transfer t))) = Some secret
     \<and> is_secret_known_offchain (ch_partner_state ch) (lk_secrethash (lt_lock (tt_transfer t)))
     \<and> secret \<noteq> [] \<and> get_status ch \<in> set CHANNEL_STATES_UP_TO_CLOSED
     \<and> \<not> dict_mem (lk_secrethash (lt_lock (tt_transfer t))) (es_onchain_unlockedlocks (ch_our_state ch))
     \<and> 0 < ch_reveal_timeout ch \<and> ch_reveal_timeout ch < lk_expiration (lt_lock (tt_transfer t))"

definition in_danger_zone :: "channel \<Rightarrow> target_transfer_state \<Rightarrow> block \<Rightarrow> bool" where
  "in_danger_zone ch t b \<longleftrightarrow>
     lk_expiration (lt_lock (tt_transfer t)) - blk_block_number b \<le> ch_reveal_timeout ch"

lemma target_block_sanity:
  assumes "target_inv ch t" and "target_handle_block t ch (blk_block_number b) (blk_block_hash b) g
      = Inr (Some t', ch, g, evs)" and "tt_transfer t' = tt_transfer t"
  shows "target_state_transition E (Some t) (BlockChange b) ch g (blk_block_number b)
    = Inr (Some t', ch, g, evs)"
  using assms
  by (simp add: target_state_transition_def target_dispatch_def with_task_def target_sanity_check_def
      target_inv_def)

lemma target_block_before_expiration:
  assumes t: "target_inv ch t" and s: "reveals_secret ch t secret"
    and b: "0 < blk_block_number b"
      "blk_block_number b < get_receiver_expiration_threshold (lk_expiration (lt_lock (tt_transfer t)))"
  shows "target_state_transition E (Some t) (BlockChange b) ch g (blk_block_number b)
    = (if in_danger_zone ch t b \<and> tt_state t \<noteq> ONCHAIN_SECRET_REVEAL
       then Inr (Some (t\<lparr>tt_state := ONCHAIN_SECRET_REVEAL\<rparr>), ch, g,
         [ContractSendSecretReveal (blk_block_hash b) (lk_expiration (lt_lock (tt_transfer t))) secret])
       else Inr (Some t, ch, g, []))"
proof -
  let ?l = "lt_lock (tt_transfer t)"
  have w: "is_safe_to_wait (lk_expiration ?l) (ch_reveal_timeout ch) (blk_block_number b)
      = Inr (if in_danger_zone ch t b
        then [UnsafeToWait (ch_reveal_timeout ch) (lk_expiration ?l - blk_block_number b)
                (lk_expiration ?l) (blk_block_number b)] else [])"
    using s b by (simp add: is_safe_to_wait_Inr timing_ok_def reveals_secret_def in_danger_zone_def)
  have "target_handle_block t ch (blk_block_number b) (blk_block_hash b) g
    = (if in_danger_zone ch t b \<and> tt_state t \<noteq> ONCHAIN_SECRET_REVEAL
       then Inr (Some (t\<lparr>tt_state := ONCHAIN_SECRET_REVEAL\<rparr>), ch, g,
         [ContractSendSecretReveal (blk_block_hash b) (lk_expiration ?l) secret])
       else Inr (Some t, ch, g, []))"
    using s b w
    by (auto simp: target_handle_block_def target_events_for_onchain_secretreveal_def
        reveals_secret_def is_secret_known_def is_secret_known_offchain_def is_lock_expired_def
        secret_registry_events_for_onchain_secretreveal_def Let_def)
  then show ?thesis
    by (auto intro: target_block_sanity [OF t])
qed

lemma reveals_secret_state [simp]:
  "reveals_secret ch (t\<lparr>tt_state := x\<rparr>) secret = reveals_secret ch t secret"
  "target_inv ch (t\<lparr>tt_state := x\<rparr>) = target_inv ch t"
  "in_danger_zone ch (t\<lparr>tt_state := x\<rparr>) b = in_danger_zone ch t b"
  by (simp_all add: reveals_secret_def target_inv_def in_danger_zone_def)

lemma target_run_revealed:
  assumes "target_inv ch t" and "reveals_secret ch t secret" and "tt_state t = ONCHAIN_SECRET_REVEAL"
    and "\<forall>b\<in>set bs. 0 < blk_block_number b \<and> blk_block_number b
      < get_receiver_expiration_threshold (lk_expiration (lt_lock (tt_transfer t)))"
  shows "target_run E (Some t) ch g bs = Inr (Some t, ch, g, [])"
  using assms(4) by (induction bs)
    (simp_all add: target_block_before_expiration [where secret = secret] assms(1-3))


lemma ex_target_ok:
  "target_inv ex_bob_knows (ex_target st)" "reveals_secret ex_bob_knows (ex_target st) ex_secret"
  "lk_expiration (lt_lock (tt_transfer (ex_target st))) = 50"
  "ch_reveal_timeout ex_bob_knows = 20" "tt_state (ex_target st) = st"
proof -
  have "get_lock (ch_partner_state ex_bob_knows) ex_secrethash = Some ex_lock"
    "get_secret (ch_partner_state ex_bob_knows) ex_secrethash = Some ex_secret"
    "is_secret_known_offchain (ch_partner_state ex_bob_knows) ex_secrethash" "ex_secret \<noteq> []"
    "get_status ex_bob_knows \<in> set CHANNEL_STATES_UP_TO_CLOSED" "lk_secrethash ex_lock = ex_secrethash"
    "\<not> dict_mem ex_secrethash (es_onchain_unlockedlocks (ch_our_state ex_bob_knows))"
    "ch_reveal_timeout ex_bob_knows = 20" "lk_expiration ex_lock = 50"
    by code_simp+
  then show "target_inv ex_bob_knows (ex_target st)" "reveals_secret ex_bob_knows (ex_target st) ex_secret"
    "lk_expiration (lt_lock (tt_transfer (ex_target st))) = 50"
    "ch_reveal_timeout ex_bob_knows = 20" "tt_state (ex_target st) = st"
    by (simp_all add: target_inv_def reveals_secret_def ex_target_def ex_transfer_def)
qed


lemma target_block_after_expiration:
  assumes t: "target_inv ch t" and s: "reveals_secret ch t secret"
    and b: "get_receiver_expiration_threshold (lk_expiration (lt_lock (tt_transfer t))) \<le> blk_block_number b"
  shows "target_state_transition E (Some t) (BlockChange b) ch g (blk_block_number b)
    = (if tt_state t = EXPIRED
       then Inr (Some (t\<lparr>tt_state := ONCHAIN_SECRET_REVEAL\<rparr>), ch, g,
         [ContractSendSecretReveal (blk_block_hash b) (lk_expiration (lt_lock (tt_transfer t))) secret])
       else Inr (Some (t\<lparr>tt_state := EXPIRED\<rparr>), ch, g,
         [EventUnlockClaimFailed (lt_payment_identifier (tt_transfer t))
            (lk_secrethash (lt_lock (tt_transfer t))) (Reason ''lock expired'')]))"
proof -
  let ?l = "lt_lock (tt_transfer t)"
  have w: "\<exists>m. is_safe_to_wait (lk_expiration ?l) (ch_reveal_timeout ch) (blk_block_number b) = Inr [m]"
    using s b by (simp add: is_safe_to_wait_Inr timing_ok_def reveals_secret_def
        get_receiver_expiration_threshold_def)
  have "target_handle_block t ch (blk_block_number b) (blk_block_hash b) g
    = (if tt_state t = EXPIRED
       then Inr (Some (t\<lparr>tt_state := ONCHAIN_SECRET_REVEAL\<rparr>), ch, g,
         [ContractSendSecretReveal (blk_block_hash b) (lk_expiration ?l) secret])
       else Inr (Some (t\<lparr>tt_state := EXPIRED\<rparr>), ch, g,
         [EventUnlockClaimFailed (lt_payment_identifier (tt_transfer t)) (lk_secrethash ?l)
            (Reason ''lock expired'')]))"
    using s b w
    by (auto simp: target_handle_block_def target_events_for_onchain_secretreveal_def
        reveals_secret_def is_secret_known_def is_secret_known_offchain_def is_lock_expired_def
        secret_registry_events_for_onchain_secretreveal_def Let_def)
  then show ?thesis
    by (auto intro: target_block_sanity [OF t])
qed

text \<open>
  After the expiration threshold the task alternates: once it has reported the expired lock, the
  next block makes it send the transaction that registers the secret, the block after that reports the
  expiration again, and so on. Over \<open>2 n\<close> blocks \<open>n\<close> useless transactions and \<open>n\<close> failure events are
  produced, as long as the partner does not remove the lock.
\<close>

theorem expired_target_repeats_reveal:
  assumes "target_inv ch t" and "reveals_secret ch t secret" and "tt_state t = EXPIRED"
    and "length bs = 2 * n"
    and "\<forall>b\<in>set bs. get_receiver_expiration_threshold (lk_expiration (lt_lock (tt_transfer t)))
      \<le> blk_block_number b"
  shows "\<exists>evs. target_run E (Some t) ch g bs = Inr (Some t, ch, g, evs)
    \<and> length (filter (\<lambda>e. \<exists>bh. e = ContractSendSecretReveal bh (lk_expiration (lt_lock (tt_transfer t))) secret) evs) = n
    \<and> length (filter (\<lambda>e. e = EventUnlockClaimFailed (lt_payment_identifier (tt_transfer t))
        (lk_secrethash (lt_lock (tt_transfer t))) (Reason ''lock expired'')) evs) = n"
  using assms(4,5)
proof (induction n arbitrary: bs)
  case 0
  then show ?case by simp
next
  case (Suc n)
  then obtain b1 b2 bs' where bs: "bs = b1 # b2 # bs'" by (cases bs; cases "tl bs") auto
  from Suc.IH [of bs'] Suc.prems obtain evs where
    run: "target_run E (Some t) ch g bs' = Inr (Some t, ch, g, evs)"
    and n: "length (filter (\<lambda>e. \<exists>bh. e = ContractSendSecretReveal bh (lk_expiration (lt_lock (tt_transfer t))) secret) evs) = n"
      "length (filter (\<lambda>e. e = EventUnlockClaimFailed (lt_payment_identifier (tt_transfer t))
        (lk_secrethash (lt_lock (tt_transfer t))) (Reason ''lock expired'')) evs) = n"
    by (auto simp: bs)
  have "t\<lparr>tt_state := EXPIRED\<rparr> = t" using assms(3) by (cases t) simp
  with run have "target_run E (Some (t\<lparr>tt_state := EXPIRED\<rparr>)) ch g bs' = Inr (Some t, ch, g, evs)"
    by (simp only:)
  with n Suc.prems show ?case
    by (simp add: bs target_block_after_expiration [where secret = secret] assms(1-3))
qed

theorem expired_target_repeats_reveal_witness:
  "\<exists>evs. target_run ex_platform (Some (ex_target EXPIRED)) ex_bob_knows ex_prng
      (map ex_target_block [55, 56, 57, 58]) = Inr (Some (ex_target EXPIRED), ex_bob_knows, ex_prng, evs)
    \<and> length (filter (\<lambda>e. \<exists>bh. e = ContractSendSecretReveal bh 50 ex_secret) evs) = 2"
proof -
  let ?t = "ex_target EXPIRED" and ?bs = "map ex_target_block [55, 56, 57, 58]"
  have 1: "length ?bs = 2 * 2" by simp
  have 2: "\<forall>b\<in>set ?bs. get_receiver_expiration_threshold (lk_expiration (lt_lock (tt_transfer ?t)))
      \<le> blk_block_number b"
    by (simp add: ex_target_ok ex_target_block_def get_receiver_expiration_threshold_def)
  from expired_target_repeats_reveal [OF ex_target_ok(1,2) ex_target_ok(5) 1 2] show ?thesis
    unfolding ex_target_ok(3) by blast
qed

text \<open>
  A secret that is registered on-chain in time makes the partner's lock safe, but the block handler
  of the target looks for it on its own side of the channel: the payment is nevertheless reported as
  failed with the reason that the lock expired.
\<close>

theorem secured_payment_is_reported_as_expired:
  assumes "chan_inv E ch" and "target_inv ch t" and "sh = lk_secrethash (lt_lock (tt_transfer t))"
    and "get_lock (ch_our_state ch) sh = None" and "tt_state t \<noteq> EXPIRED"
    and "crr_secrethash r = sh" and "cr_block_number r \<le> lk_expiration (lt_lock (tt_transfer t))"
    and "get_receiver_expiration_threshold (lk_expiration (lt_lock (tt_transfer t))) \<le> blk_block_number b"
  shows "\<exists>t' ch' t''. target_state_transition E (Some t) (ContractReceiveSecretReveal r) ch g bn
        = Inr (Some t', ch', g, [])
      \<and> is_secret_known_onchain (ch_partner_state ch') sh
      \<and> target_state_transition E (Some t') (BlockChange b) ch' g (blk_block_number b)
        = Inr (Some t'', ch', g, [EventUnlockClaimFailed (lt_payment_identifier (tt_transfer t)) sh
            (Reason ''lock expired'')])"
proof -
  let ?l = "lt_lock (tt_transfer t)"
  note wf = chan_inv_sides(1,2) [OF assms(1), THEN end_invD(1)]
  from assms(2,3) have l: "get_lock (ch_partner_state ch) sh = Some ?l" by (simp add: target_inv_def)
  obtain our' partner' where
    o: "register_onchain_secret_endstate (crr_secret r) sh (cr_block_number r) True (ch_our_state ch) = Inr our'"
    and p: "register_onchain_secret_endstate (crr_secret r) sh (cr_block_number r) True (ch_partner_state ch)
      = Inr partner'"
    using register_onchain_secret_total by metis
  let ?ch = "ch\<lparr>ch_our_state := our', ch_partner_state := partner'\<rparr>"
  let ?t = "t\<lparr>tt_state := ONCHAIN_UNLOCK, tt_secret := Some (crr_secret r)\<rparr>"
  have reg: "register_onchain_secret ch (crr_secret r) sh (cr_block_number r) True = Inr ?ch"
    by (simp add: register_onchain_secret_def o p)
  note known = register_onchain_in_time [OF wf(2) l assms(7) p]
  have our: "\<not> dict_mem sh (es_onchain_unlockedlocks our')"
  proof -
    have "get_lock our' sh = None"
      using register_onchain_secret_effect(2) [OF assms(1) reg] assms(4) by simp
    then show ?thesis by (auto simp: get_lock_def dict_mem_def split: option.splits)
  qed
  have t': "target_inv ?ch ?t" using known(1) assms(3) by (simp add: target_inv_def)
  have "target_state_transition E (Some t) (ContractReceiveSecretReveal r) ch g bn = Inr (Some ?t, ?ch, g, [])"
    using reg assms(3,6) t'
    by (simp add: target_state_transition_def target_dispatch_def with_task_def target_sanity_check_def
        target_handle_onchain_secretreveal_def is_valid_secret_reveal_def target_inv_def)
  moreover have "target_state_transition E (Some ?t) (BlockChange b) ?ch g (blk_block_number b)
      = Inr (Some (?t\<lparr>tt_state := EXPIRED\<rparr>), ?ch, g, [EventUnlockClaimFailed
          (lt_payment_identifier (tt_transfer t)) sh (Reason ''lock expired'')])"
    using our assms(3,8)
    by (intro target_block_sanity [OF t'])
       (simp_all add: target_handle_block_def is_lock_expired_def Let_def)
  ultimately show ?thesis using known(2) by auto
qed

theorem secured_payment_is_reported_as_expired_witness:
  "\<exists>t' ch' t''. target_state_transition ex_platform (Some (ex_target SECRET_REQUEST))
        (ContractReceiveSecretReveal ex_reveal) ex_bob_locked ex_prng 40 = Inr (Some t', ch', ex_prng, [])
      \<and> target_state_transition ex_platform (Some t') (BlockChange (ex_target_block 55)) ch' ex_prng 55
        = Inr (Some t'', ch', ex_prng, [EventUnlockClaimFailed 5 ex_secrethash (Reason ''lock expired'')])"
proof -
  let ?t = "ex_target SECRET_REQUEST"
  have g: "get_lock (ch_partner_state ex_bob_locked) ex_secrethash = Some ex_lock"
    and 4: "get_lock (ch_our_state ex_bob_locked) ex_secrethash = None" by code_simp+
  have l: "lt_lock (tt_transfer ?t) = ex_lock" "lt_payment_identifier (tt_transfer ?t) = 5"
    by (simp_all add: ex_target_def ex_transfer_def)
  have 2: "target_inv ex_bob_locked ?t" and 3: "ex_secrethash = lk_secrethash (lt_lock (tt_transfer ?t))"
    using g by (simp_all add: target_inv_def l ex_lock_def)
  have 5: "tt_state ?t \<noteq> EXPIRED" by (simp add: ex_target_def)
  have 6: "crr_secrethash ex_reveal = ex_secrethash" by (simp add: ex_reveal_def)
  have 7: "cr_block_number ex_reveal \<le> lk_expiration (lt_lock (tt_transfer ?t))"
    "get_receiver_expiration_threshold (lk_expiration (lt_lock (tt_transfer ?t)))
      \<le> blk_block_number (ex_target_block 55)"
    by (simp_all add: l ex_reveal_def ex_lock_def get_receiver_expiration_threshold_def ex_target_block_def)
  from secured_payment_is_reported_as_expired [OF ex_bob_locked_inv 2 3 4 5 6 7, of ex_prng 40]
  show ?thesis by (simp add: l ex_target_block_def) blast
qed

end
