(* ===== verification/Token_Network.thy ===== *)
theory Token_Network
  imports Channel_Handlers
begin

text \<open>
  The token network component: model of \<open>transfer/token_network.py\<close> and of \<open>TokenNetworkState\<close> in
  \<open>transfer/state.py\<close>. It owns the channels of one token and an index from partner addresses to channel
  identifiers, and dispatches state changes to the channel they name. A channel object is mutated in
  place, so the model writes the channel that the channel component returns back to the dictionary.
\<close>

record token_network =
  tn_address :: address
  tn_token_address :: address
  tn_channels :: "(int, channel) dict"
  tn_partner_channels :: "(address, int list) dict"

text \<open>\<open>partneraddresses_to_channelidentifiers\<close> is a \<open>defaultdict(list)\<close>: reading a missing key inserts
  the empty list. \<open>list.remove\<close> raises when the element is missing.\<close>

definition defaultdict_touch :: "'k \<Rightarrow> ('k, 'v list) dict \<Rightarrow> ('k, 'v list) dict" where
  "defaultdict_touch k d = (if dict_mem k d then d else AList.update k [] d)"

definition defaultdict_get :: "'k \<Rightarrow> ('k, 'v list) dict \<Rightarrow> 'v list" where
  "defaultdict_get k d = (case map_of d k of None \<Rightarrow> [] | Some v \<Rightarrow> v)"

definition list_remove :: "'a \<Rightarrow> 'a list \<Rightarrow> 'a list result" where
  "list_remove x xs = (if x \<in> set xs then Inr (remove1 x xs) else Inl ValueError)"

definition dict_del :: "'k \<Rightarrow> ('k, 'v) dict \<Rightarrow> ('k, 'v) dict result" where
  "dict_del k d = (if dict_mem k d then Inr (AList.delete k d) else Inl KeyError)"

type_synonym token_network_transition = "(token_network \<times> prng \<times> event list) result"

text \<open>The channel that a state change is about.\<close>

definition sc_channel_identifier :: "channel_state_change \<Rightarrow> int" where
  "sc_channel_identifier sc =
     (case sc of
        ActionChannelClose ci \<Rightarrow> ci_channel_identifier ci
      | ActionChannelCoopSettle a \<Rightarrow> ci_channel_identifier (ac_canonical_identifier a)
      | ActionChannelWithdraw a \<Rightarrow> ci_channel_identifier (aw_canonical_identifier a)
      | ActionChannelSetRevealTimeout a \<Rightarrow> ci_channel_identifier (ar_canonical_identifier a)
      | ReceiveWithdrawRequest a \<Rightarrow> ci_channel_identifier (rw_canonical_identifier a)
      | ReceiveWithdrawConfirmation a \<Rightarrow> ci_channel_identifier (rw_canonical_identifier a)
      | ReceiveWithdrawExpired a \<Rightarrow> ci_channel_identifier (rwe_canonical_identifier a)
      | ContractReceiveChannelClosed a \<Rightarrow> ci_channel_identifier (crc_canonical_identifier a)
      | ContractReceiveUpdateTransfer a \<Rightarrow> ci_channel_identifier (crt_canonical_identifier a)
      | ContractReceiveChannelSettled a \<Rightarrow> ci_channel_identifier (crs_canonical_identifier a)
      | ContractReceiveChannelDeposit a \<Rightarrow> ci_channel_identifier (crd_canonical_identifier a)
      | ContractReceiveChannelWithdraw a \<Rightarrow> ci_channel_identifier (crw_canonical_identifier a)
      | ContractReceiveChannelBatchUnlock a \<Rightarrow> ci_channel_identifier (cru_canonical_identifier a)
      | Block b \<Rightarrow> 0
      | OtherStateChange \<Rightarrow> 0)"

definition subdispatch_to_channel_by_id ::
  "platform \<Rightarrow> token_network \<Rightarrow> channel_state_change \<Rightarrow> int \<Rightarrow> block_hash \<Rightarrow> prng \<Rightarrow>
   token_network_transition" where
  "subdispatch_to_channel_by_id E tn sc block_number block_hash g =
     (let cid = sc_channel_identifier sc in
      case map_of (tn_channels tn) cid of
        None \<Rightarrow> Inr (tn, g, [])
      | Some ch \<Rightarrow>
        bind_result (state_transition E ch sc block_number block_hash g) (\<lambda>(new_state, g', events).
        let partner = es_address (ch_partner_state ch);
            index = defaultdict_touch partner (tn_partner_channels tn)
        in
        case new_state of
          None \<Rightarrow>
            bind_result (list_remove cid (defaultdict_get partner index)) (\<lambda>ids.
            Inr (tn\<lparr>tn_channels := AList.delete cid (tn_channels tn),
                    tn_partner_channels := AList.update partner ids index\<rparr>, g', events))
        | Some ch' \<Rightarrow>
            Inr (tn\<lparr>tn_channels := AList.update cid ch' (tn_channels tn),
                    tn_partner_channels := index\<rparr>, g', events)))"

definition tn_handle_channel_close ::
  "platform \<Rightarrow> token_network \<Rightarrow> canonical_identifier \<Rightarrow> int \<Rightarrow> block_hash \<Rightarrow> prng \<Rightarrow>
   token_network_transition" where
  "tn_handle_channel_close E tn a block_number block_hash g =
     subdispatch_to_channel_by_id E tn (ActionChannelClose a) block_number block_hash g"

definition tn_handle_channel_withdraw ::
  "platform \<Rightarrow> token_network \<Rightarrow> action_channel_withdraw \<Rightarrow> int \<Rightarrow> block_hash \<Rightarrow> prng \<Rightarrow>
   token_network_transition" where
  "tn_handle_channel_withdraw E tn a block_number block_hash g =
     subdispatch_to_channel_by_id E tn (ActionChannelWithdraw a) block_number block_hash g"

definition tn_handle_channel_coop_settle ::
  "platform \<Rightarrow> token_network \<Rightarrow> action_coop_settle \<Rightarrow> int \<Rightarrow> block_hash \<Rightarrow> prng \<Rightarrow>
   token_network_transition" where
  "tn_handle_channel_coop_settle E tn a block_number block_hash g =
     subdispatch_to_channel_by_id E tn (ActionChannelCoopSettle a) block_number block_hash g"

definition tn_handle_channel_set_reveal_timeout ::
  "platform \<Rightarrow> token_network \<Rightarrow> action_set_reveal_timeout \<Rightarrow> int \<Rightarrow> block_hash \<Rightarrow> prng \<Rightarrow>
   token_network_transition" where
  "tn_handle_channel_set_reveal_timeout E tn a block_number block_hash g =
     subdispatch_to_channel_by_id E tn (ActionChannelSetRevealTimeout a) block_number block_hash g"

definition handle_channelnew ::
  "token_network \<Rightarrow> contract_receive_channel_new \<Rightarrow> prng \<Rightarrow> token_network_transition" where
  "handle_channelnew tn sc g =
     (let ch = crn_channel_state sc;
          cid = channel_identifier ch;
          partner = es_address (ch_partner_state ch)
      in
      if \<not> dict_mem cid (tn_channels tn) then
        Inr (tn\<lparr>tn_channels := AList.update cid ch (tn_channels tn),
               tn_partner_channels := AList.update partner
                 (defaultdict_get partner (tn_partner_channels tn) @ [cid]) (tn_partner_channels tn)\<rparr>,
             g, [])
      else Inr (tn, g, []))"

definition tn_handle_balance ::
  "platform \<Rightarrow> token_network \<Rightarrow> contract_receive_deposit \<Rightarrow> int \<Rightarrow> block_hash \<Rightarrow> prng \<Rightarrow>
   token_network_transition" where
  "tn_handle_balance E tn a block_number block_hash g =
     subdispatch_to_channel_by_id E tn (ContractReceiveChannelDeposit a) block_number block_hash g"

definition tn_handle_withdraw ::
  "platform \<Rightarrow> token_network \<Rightarrow> contract_receive_withdraw \<Rightarrow> int \<Rightarrow> block_hash \<Rightarrow> prng \<Rightarrow>
   token_network_transition" where
  "tn_handle_withdraw E tn a block_number block_hash g =
     subdispatch_to_channel_by_id E tn (ContractReceiveChannelWithdraw a) block_number block_hash g"

definition tn_handle_closed ::
  "platform \<Rightarrow> token_network \<Rightarrow> contract_receive_closed \<Rightarrow> int \<Rightarrow> block_hash \<Rightarrow> prng \<Rightarrow>
   token_network_transition" where
  "tn_handle_closed E tn a block_number block_hash g =
     subdispatch_to_channel_by_id E tn (ContractReceiveChannelClosed a) block_number block_hash g"

definition tn_handle_settled ::
  "platform \<Rightarrow> token_network \<Rightarrow> contract_receive_settled \<Rightarrow> int \<Rightarrow> block_hash \<Rightarrow> prng \<Rightarrow>
   token_network_transition" where
  "tn_handle_settled E tn a block_number block_hash g =
     subdispatch_to_channel_by_id E tn (ContractReceiveChannelSettled a) block_number block_hash g"

definition tn_handle_updated_transfer ::
  "platform \<Rightarrow> token_network \<Rightarrow> contract_receive_update_transfer \<Rightarrow> int \<Rightarrow> block_hash \<Rightarrow> prng \<Rightarrow>
   token_network_transition" where
  "tn_handle_updated_transfer E tn a block_number block_hash g =
     subdispatch_to_channel_by_id E tn (ContractReceiveUpdateTransfer a) block_number block_hash g"

text \<open>A batch unlock removes the entry of the index before it deletes the channel.\<close>

definition tn_handle_batch_unlock ::
  "platform \<Rightarrow> token_network \<Rightarrow> contract_receive_batch_unlock \<Rightarrow> int \<Rightarrow> block_hash \<Rightarrow> prng \<Rightarrow>
   token_network_transition" where
  "tn_handle_batch_unlock E tn a block_number block_hash g =
     (let cid = ci_channel_identifier (cru_canonical_identifier a) in
      case map_of (tn_channels tn) cid of
        None \<Rightarrow> Inr (tn, g, [])
      | Some ch \<Rightarrow>
        bind_result (state_transition E ch (ContractReceiveChannelBatchUnlock a) block_number block_hash g)
          (\<lambda>(new_state, g', events).
        case new_state of
          Some ch' \<Rightarrow> Inr (tn\<lparr>tn_channels := AList.update cid ch' (tn_channels tn)\<rparr>, g', events)
        | None \<Rightarrow>
            let partner = es_address (ch_partner_state ch) in
            bind_result (list_remove (channel_identifier ch)
                (defaultdict_get partner (tn_partner_channels tn))) (\<lambda>ids.
            bind_result (dict_del (channel_identifier ch) (tn_channels tn)) (\<lambda>channels.
            Inr (tn\<lparr>tn_channels := channels,
                    tn_partner_channels := AList.update partner ids (tn_partner_channels tn)\<rparr>,
                 g', events)))))"

definition tn_handle_receive_channel_withdraw_request ::
  "platform \<Rightarrow> token_network \<Rightarrow> receive_withdraw_request \<Rightarrow> int \<Rightarrow> block_hash \<Rightarrow> prng \<Rightarrow>
   token_network_transition" where
  "tn_handle_receive_channel_withdraw_request E tn a block_number block_hash g =
     subdispatch_to_channel_by_id E tn (ReceiveWithdrawRequest a) block_number block_hash g"

definition tn_handle_receive_channel_withdraw ::
  "platform \<Rightarrow> token_network \<Rightarrow> receive_withdraw \<Rightarrow> int \<Rightarrow> block_hash \<Rightarrow> prng \<Rightarrow>
   token_network_transition" where
  "tn_handle_receive_channel_withdraw E tn a block_number block_hash g =
     subdispatch_to_channel_by_id E tn (ReceiveWithdrawConfirmation a) block_number block_hash g"

definition tn_handle_receive_channel_withdraw_expired ::
  "platform \<Rightarrow> token_network \<Rightarrow> receive_withdraw_expired \<Rightarrow> int \<Rightarrow> block_hash \<Rightarrow> prng \<Rightarrow>
   token_network_transition" where
  "tn_handle_receive_channel_withdraw_expired E tn a block_number block_hash g =
     subdispatch_to_channel_by_id E tn (ReceiveWithdrawExpired a) block_number block_hash g"

definition tn_channel_transition ::
  "platform \<Rightarrow> token_network \<Rightarrow> channel_state_change \<Rightarrow> int \<Rightarrow> block_hash \<Rightarrow> prng \<Rightarrow>
   token_network_transition" where
  "tn_channel_transition E tn state_change block_number block_hash g =
     (case state_change of
        ActionChannelClose a \<Rightarrow> tn_handle_channel_close E tn a block_number block_hash g
      | ActionChannelWithdraw a \<Rightarrow> tn_handle_channel_withdraw E tn a block_number block_hash g
      | ActionChannelCoopSettle a \<Rightarrow> tn_handle_channel_coop_settle E tn a block_number block_hash g
      | ActionChannelSetRevealTimeout a \<Rightarrow>
          tn_handle_channel_set_reveal_timeout E tn a block_number block_hash g
      | ContractReceiveChannelDeposit a \<Rightarrow> tn_handle_balance E tn a block_number block_hash g
      | ContractReceiveChannelWithdraw a \<Rightarrow> tn_handle_withdraw E tn a block_number block_hash g
      | ContractReceiveChannelClosed a \<Rightarrow> tn_handle_closed E tn a block_number block_hash g
      | ContractReceiveChannelSettled a \<Rightarrow> tn_handle_settled E tn a block_number block_hash g
      | ContractReceiveUpdateTransfer a \<Rightarrow>
          tn_handle_updated_transfer E tn a block_number block_hash g
      | ContractReceiveChannelBatchUnlock a \<Rightarrow>
          tn_handle_batch_unlock E tn a block_number block_hash g
      | ReceiveWithdrawRequest a \<Rightarrow>
          tn_handle_receive_channel_withdraw_request E tn a block_number block_hash g
      | ReceiveWithdrawConfirmation a \<Rightarrow>
          tn_handle_receive_channel_withdraw E tn a block_number block_hash g
      | ReceiveWithdrawExpired a \<Rightarrow>
          tn_handle_receive_channel_withdraw_expired E tn a block_number block_hash g
      | Block b \<Rightarrow> Inr (tn, g, [])
      | OtherStateChange \<Rightarrow> Inr (tn, g, []))"

definition tn_state_transition ::
  "platform \<Rightarrow> token_network \<Rightarrow> state_change \<Rightarrow> int \<Rightarrow> block_hash \<Rightarrow> prng \<Rightarrow>
   token_network_transition" where
  "tn_state_transition E tn state_change block_number block_hash g =
     (case state_change of
        ToChannel sc \<Rightarrow> tn_channel_transition E tn sc block_number block_hash g
      | ContractReceiveChannelNew a \<Rightarrow> handle_channelnew tn a g
      | _ \<Rightarrow> Inr (tn, g, []))"

end
