(* ===== verification/Token_Network_Laws.thy ===== *)
theory Token_Network_Laws
  imports Token_Network Channel_Status Channel_Payments
begin

text \<open>
  Correctness of the token network: the index from partners to channels always agrees with the
  channels, its bookkeeping never raises, every channel keeps its invariant, and a channel is only
  removed when nothing is left to settle or unlock.
\<close>

subsection \<open>The identity of a channel\<close>

definition same_identity :: "channel \<Rightarrow> channel \<Rightarrow> bool" where
  "same_identity ch ch' \<longleftrightarrow>
     ch_canonical_identifier ch' = ch_canonical_identifier ch
     \<and> es_address (ch_our_state ch') = es_address (ch_our_state ch)
     \<and> es_address (ch_partner_state ch') = es_address (ch_partner_state ch)"

lemma same_identity_refl [simp]: "same_identity ch ch"
  by (simp add: same_identity_def)

lemma expire_withdraws_identity:
  "expire_withdraws bn ws ch g = Inr (ch', g', evs) \<Longrightarrow> same_identity ch ch'"
proof (induction ws arbitrary: ch g ch' g' evs)
  case (Cons w ws)
  show ?case
  proof (cases "is_withdraw_expired bn (get_sender_expiration_threshold (pw_expiration w))")
    case True
    with Cons.prems obtain ch1 g1 ev g2 evs' where
      1: "expire_withdraw w ch g = Inr (ch1, g1, ev)" and
      2: "expire_withdraws bn ws ch1 g1 = Inr (ch', g2, evs')"
      by (auto simp: result_simps)
    from 1 have "same_identity ch ch1"
      by (auto simp: expire_withdraw_def result_simps Let_def same_identity_def split: prod.splits)
    with Cons.IH [OF 2] show ?thesis by (simp add: same_identity_def)
  qed (use Cons.prems in simp)
qed simp

lemma handle_block_identity:
  assumes "handle_block b ch bn g = Inr (Some ch', g', evs)"
  shows "same_identity ch ch'"
proof -
  from assms obtain ch1 g1 evs1 where
    run: "(if get_status ch = STATE_OPENED then events_for_expired_withdraws ch bn g
           else Inr (ch, g, [])) = Inr (ch1, g1, evs1)"
    by (auto simp: handle_block_def result_simps)
  have "same_identity ch ch1"
    using run expire_withdraws_identity by (auto simp: events_for_expired_withdraws_def split: if_splits)
  moreover have "same_identity ch1 ch'"
    using assms unfolding handle_block_def run
    by (auto simp: result_simps Let_def same_identity_def split: if_splits option.splits)
  ultimately show ?thesis by (simp add: same_identity_def)
qed

lemma settle_end_state_address:
  "settle_end_state E bn ia il pa pl es = Inr (es', m) \<Longrightarrow> es_address es' = es_address es"
  by (auto simp: settle_end_state_def set_coop_settled_def result_simps Let_def split: if_splits option.splits)

lemma handle_channel_settled_identity:
  assumes "handle_channel_settled E a ch g = Inr (Some ch', g', evs)"
  shows "same_identity ch ch'"
  using assms unfolding handle_channel_settled_def Let_def
  by (auto simp: result_simps same_identity_def set_settled_def dest!: settle_end_state_address
      split: if_splits)

lemma fee_identity: "update_fee_schedule_after_balance_change E ch c = Inr ch' \<Longrightarrow> same_identity ch ch'"
  by (auto simp: update_fee_schedule_after_balance_change_def result_simps Let_def same_identity_def)

lemma balance_change_identity:
  "handle_channel_deposit E crd ch g = Inr (Some ch', g', evs) \<Longrightarrow> same_identity ch ch'"
  "handle_channel_withdraw E crw ch g = Inr (Some ch', g', evs) \<Longrightarrow> same_identity ch ch'"
  by (auto simp: handle_channel_deposit_def handle_channel_withdraw_def result_simps Let_def
      same_identity_def update_contract_balance_def register_onchain_withdraw_def
      split: if_splits option.splits dest!: fee_identity)

lemma send_withdraw_request_identity:
  "send_withdraw_request ch t e g md c = (ch', g', evs) \<Longrightarrow> same_identity ch ch'"
  by (auto simp: send_withdraw_request_def Let_def same_identity_def split: if_splits prod.splits)

lemma action_identity:
  "handle_action_close ci ch bn bh g = Inr (Some ch', g', evs) \<Longrightarrow> same_identity ch ch'"
  "handle_action_withdraw aw ch bn g = Inr (Some ch', g', evs) \<Longrightarrow> same_identity ch ch'"
  "handle_action_coop_settle ac ch bn g = Inr (Some ch', g', evs) \<Longrightarrow> same_identity ch ch'"
  "handle_action_set_reveal_timeout ar ch g = Inr (Some ch', g', evs) \<Longrightarrow> same_identity ch ch'"
  "handle_receive_withdraw_expired rwe ch bn g = Inr (Some ch', g', evs) \<Longrightarrow> same_identity ch ch'"
  "handle_channel_updated_transfer crt ch bn g = Inr (Some ch', g', evs) \<Longrightarrow> same_identity ch ch'"
  "handle_channel_batch_unlock E cru ch g = Inr (Some ch', g', evs) \<Longrightarrow> same_identity ch ch'"
  "handle_channel_closed crc ch g = Inr (Some ch', g', evs) \<Longrightarrow> same_identity ch ch'"
  by (auto simp: handle_action_close_def events_for_close_def handle_action_withdraw_def
      handle_action_coop_settle_def handle_action_set_reveal_timeout_def handle_receive_withdraw_expired_def
      handle_channel_updated_transfer_def handle_channel_batch_unlock_def handle_channel_closed_def
      with_error_text_def set_closed_def result_simps Let_def same_identity_def
      split: option.splits if_splits prod.splits dest!: send_withdraw_request_identity)

lemma state_change_identity:
  assumes "handle_state_transitions E sc ch bn bh g = Inr (Some ch', g', evs)"
  shows "same_identity ch ch'"
proof (cases sc)
  case (ReceiveWithdrawRequest a)
  with assms show ?thesis
    by (simp add: handle_state_transitions_def handle_receive_withdraw_request_raises)
next
  case (ReceiveWithdrawConfirmation a)
  with assms show ?thesis
    by (auto simp: handle_state_transitions_def dest: handle_receive_withdraw_confirmation_unchanged)
qed (use assms in \<open>simp_all add: handle_state_transitions_def handle_block_identity
  handle_channel_settled_identity action_identity balance_change_identity\<close>)

lemma state_transition_identity:
  "state_transition E ch sc bn bh g = Inr (Some ch', g', evs) \<Longrightarrow> same_identity ch ch'"
  by (auto simp: state_transition_def result_simps split: option.splits dest: state_change_identity)

subsection \<open>The index\<close>

definition tn_indexed :: "token_network \<Rightarrow> bool" where
  "tn_indexed tn \<longleftrightarrow>
     (\<forall>cid ch. map_of (tn_channels tn) cid = Some ch \<longrightarrow> channel_identifier ch = cid)
     \<and> (\<forall>a. distinct (defaultdict_get a (tn_partner_channels tn)))
     \<and> (\<forall>a cid. cid \<in> set (defaultdict_get a (tn_partner_channels tn)) \<longleftrightarrow>
          (\<exists>ch. map_of (tn_channels tn) cid = Some ch \<and> es_address (ch_partner_state ch) = a))"

lemma tn_indexedD:
  assumes "tn_indexed tn" and "map_of (tn_channels tn) cid = Some ch"
  shows "channel_identifier ch = cid"
    and "cid \<in> set (defaultdict_get (es_address (ch_partner_state ch)) (tn_partner_channels tn))"
  using assms by (auto simp: tn_indexed_def)

lemma defaultdict_get_simps [simp]:
  "defaultdict_get a (defaultdict_touch k d) = defaultdict_get a d"
  "defaultdict_get a (AList.update k v d) = (if a = k then v else defaultdict_get a d)"
  by (auto simp: defaultdict_get_def defaultdict_touch_def dict_mem_def update_conv' split: option.splits)

lemma tn_indexed_update:
  assumes "tn_indexed tn" and "map_of (tn_channels tn) cid = Some ch" and "same_identity ch ch'"
  shows "tn_indexed (tn\<lparr>tn_channels := AList.update cid ch' (tn_channels tn)\<rparr>)"
    and "tn_indexed (tn\<lparr>tn_channels := AList.update cid ch' (tn_channels tn),
      tn_partner_channels := defaultdict_touch k (tn_partner_channels tn)\<rparr>)"
  using assms by (auto simp: tn_indexed_def same_identity_def channel_identifier_def update_conv')

lemma tn_indexed_delete:
  assumes "tn_indexed tn" and "map_of (tn_channels tn) cid = Some ch"
    and "a = es_address (ch_partner_state ch)"
    and "\<And>k. defaultdict_get k d = defaultdict_get k (tn_partner_channels tn)"
  shows "tn_indexed (tn\<lparr>tn_channels := AList.delete cid (tn_channels tn),
    tn_partner_channels := AList.update a (remove1 cid (defaultdict_get a (tn_partner_channels tn))) d\<rparr>)"
  using assms by (auto simp: tn_indexed_def delete_conv' split: if_splits)

lemma tn_indexed_new:
  assumes "tn_indexed tn" and "map_of (tn_channels tn) (channel_identifier ch) = None"
    and "a = es_address (ch_partner_state ch)"
  shows "tn_indexed (tn\<lparr>tn_channels := AList.update (channel_identifier ch) ch (tn_channels tn),
    tn_partner_channels := AList.update a
      (defaultdict_get a (tn_partner_channels tn) @ [channel_identifier ch]) (tn_partner_channels tn)\<rparr>)"
proof -
  have "channel_identifier ch \<notin> set (defaultdict_get k (tn_partner_channels tn))" for k
    using assms(1,2) by (auto simp: tn_indexed_def)
  with assms show ?thesis by (auto simp: tn_indexed_def update_conv' split: if_splits)
qed

subsection \<open>Transitions\<close>

definition tn_inv :: "platform \<Rightarrow> token_network \<Rightarrow> bool" where
  "tn_inv E tn \<longleftrightarrow>
     tn_indexed tn \<and> (\<forall>cid ch. map_of (tn_channels tn) cid = Some ch \<longrightarrow> chan_inv E ch)"

text \<open>The obligations of the channel component apply to the channel that the state change names; a new
  channel satisfies the channel invariant.\<close>

definition tn_admissible :: "platform \<Rightarrow> token_network \<Rightarrow> state_change \<Rightarrow> bool" where
  "tn_admissible E tn sc \<longleftrightarrow>
     (case sc of
        ToChannel csc \<Rightarrow>
          (case map_of (tn_channels tn) (sc_channel_identifier csc) of
             None \<Rightarrow> True | Some ch \<Rightarrow> admissible ch csc)
      | ContractReceiveChannelNew a \<Rightarrow> chan_inv E (crn_channel_state a)
      | _ \<Rightarrow> True)"

text \<open>The state changes that reach a channel: the handlers of the token network agree on them.\<close>

lemma tn_channel_transition_cases:
  "tn_channel_transition E tn sc bn bh g
   = (case sc of
        ContractReceiveChannelBatchUnlock a \<Rightarrow> tn_handle_batch_unlock E tn a bn bh g
      | Block b \<Rightarrow> Inr (tn, g, [])
      | OtherStateChange \<Rightarrow> Inr (tn, g, [])
      | _ \<Rightarrow> subdispatch_to_channel_by_id E tn sc bn bh g)"
  by (cases sc) (simp_all add: tn_channel_transition_def tn_handle_channel_close_def
      tn_handle_channel_withdraw_def tn_handle_channel_coop_settle_def
      tn_handle_channel_set_reveal_timeout_def tn_handle_balance_def tn_handle_withdraw_def
      tn_handle_closed_def tn_handle_settled_def tn_handle_updated_transfer_def
      tn_handle_receive_channel_withdraw_request_def tn_handle_receive_channel_withdraw_def
      tn_handle_receive_channel_withdraw_expired_def)

text \<open>What happened to the network, given the answer of the channel.\<close>

definition tn_after :: "token_network \<Rightarrow> int \<Rightarrow> channel option \<Rightarrow> token_network \<Rightarrow> bool" where
  "tn_after tn cid new_state tn' \<longleftrightarrow>
     tn_indexed tn' \<and> tn_channels tn' =
       (case new_state of None \<Rightarrow> AList.delete cid (tn_channels tn)
        | Some ch' \<Rightarrow> AList.update cid ch' (tn_channels tn))"

definition tn_follows ::
  "token_network \<Rightarrow> int \<Rightarrow> channel_transition \<Rightarrow> token_network_transition \<Rightarrow> bool" where
  "tn_follows tn cid answer res \<longleftrightarrow>
     (case answer of
        Inl e \<Rightarrow> res = Inl e
      | Inr (new_state, g', evs) \<Rightarrow> (\<exists>tn'. res = Inr (tn', g', evs) \<and> tn_after tn cid new_state tn'))"

lemma subdispatch_after:
  assumes idx: "tn_indexed tn" and ch: "map_of (tn_channels tn) (sc_channel_identifier sc) = Some ch"
  shows "tn_follows tn (sc_channel_identifier sc) (state_transition E ch sc bn bh g)
    (subdispatch_to_channel_by_id E tn sc bn bh g)"
proof (cases "state_transition E ch sc bn bh g")
  case (Inl e)
  with ch show ?thesis by (simp add: subdispatch_to_channel_by_id_def tn_follows_def)
next
  case (Inr r)
  obtain new_state g' evs where r: "r = (new_state, g', evs)" by (cases r)
  show ?thesis
  proof (cases new_state)
    case None
    with Inr r ch tn_indexedD [OF idx ch] tn_indexed_delete [OF idx ch refl]
    show ?thesis by (simp add: subdispatch_to_channel_by_id_def list_remove_def tn_after_def
        tn_follows_def Let_def)
  next
    case (Some ch')
    have "same_identity ch ch'"
      by (rule state_transition_identity [OF Inr [unfolded r Some]])
    from tn_indexed_update [OF idx ch this] Inr r ch Some show ?thesis
      by (simp add: subdispatch_to_channel_by_id_def tn_after_def tn_follows_def)
  qed
qed

lemma batch_unlock_after:
  assumes idx: "tn_indexed tn"
    and ch: "map_of (tn_channels tn) (ci_channel_identifier (cru_canonical_identifier a)) = Some ch"
  shows "tn_follows tn (ci_channel_identifier (cru_canonical_identifier a))
    (state_transition E ch (ContractReceiveChannelBatchUnlock a) bn bh g)
    (tn_handle_batch_unlock E tn a bn bh g)"
proof (cases "state_transition E ch (ContractReceiveChannelBatchUnlock a) bn bh g")
  case (Inl e)
  with ch show ?thesis by (simp add: tn_handle_batch_unlock_def tn_follows_def)
next
  case (Inr r)
  obtain new_state g' evs where r: "r = (new_state, g', evs)" by (cases r)
  show ?thesis
  proof (cases new_state)
    case None
    with Inr r ch tn_indexedD [OF idx ch] tn_indexed_delete [OF idx ch refl refl]
    show ?thesis by (simp add: tn_handle_batch_unlock_def list_remove_def dict_del_def dict_mem_def
        tn_after_def tn_follows_def Let_def)
  next
    case (Some ch')
    have "same_identity ch ch'"
      by (rule state_transition_identity [OF Inr [unfolded r Some]])
    from tn_indexed_update(1) [OF idx ch this] Inr r ch Some show ?thesis
      by (simp add: tn_handle_batch_unlock_def tn_after_def tn_follows_def)
  qed
qed

text \<open>Both dispatchers together.\<close>

lemma tn_channel_transition_after:
  assumes idx: "tn_indexed tn"
  shows "tn_channel_transition E tn sc bn bh g = Inr (tn, g, [])
    \<or> (\<exists>ch. map_of (tn_channels tn) (sc_channel_identifier sc) = Some ch
        \<and> tn_follows tn (sc_channel_identifier sc) (state_transition E ch sc bn bh g)
            (tn_channel_transition E tn sc bn bh g))"
proof (cases "map_of (tn_channels tn) (sc_channel_identifier sc)")
  case None
  then have "tn_channel_transition E tn sc bn bh g = Inr (tn, g, [])"
    by (cases sc) (simp_all add: tn_channel_transition_cases subdispatch_to_channel_by_id_def
        tn_handle_batch_unlock_def sc_channel_identifier_def)
  then show ?thesis by simp
next
  case (Some ch)
  show ?thesis
  proof (cases sc)
    case (ContractReceiveChannelBatchUnlock a)
    with batch_unlock_after [OF idx, of a ch E bn bh g] Some show ?thesis
      by (simp add: tn_channel_transition_cases sc_channel_identifier_def)
  qed (use subdispatch_after [OF idx Some, of E bn bh g] Some in \<open>simp_all add: tn_channel_transition_cases\<close>)
qed

text \<open>
  C19. A token network keeps its books straight: the index from partner addresses to channel identifiers
  lists exactly the existing channels with that partner, each once, and every channel satisfies its
  invariant; both hold again after every transition. The bookkeeping itself never raises: an error
  can only come from the channel that the state change names.
\<close>

theorem token_network_books_are_consistent:
  assumes "tn_inv E tn" and "tn_admissible E tn sc"
  shows "case tn_state_transition E tn sc bn bh g of
      Inr (tn', g', evs) \<Rightarrow> tn_inv E tn'
    | Inl e \<Rightarrow> (\<exists>csc ch. sc = ToChannel csc \<and> map_of (tn_channels tn) (sc_channel_identifier csc) = Some ch
        \<and> state_transition E ch csc bn bh g = Inl e)"
proof -
  from assms(1) have idx: "tn_indexed tn"
    and inv: "\<And>cid ch. map_of (tn_channels tn) cid = Some ch \<Longrightarrow> chan_inv E ch"
    by (auto simp: tn_inv_def)
  show ?thesis
  proof (cases sc)
    case (ToChannel csc)
    from tn_channel_transition_after [OF idx, of E csc bn bh g] show ?thesis
    proof (elim disjE exE conjE)
      assume "tn_channel_transition E tn csc bn bh g = Inr (tn, g, [])"
      with ToChannel assms(1) show ?thesis by (simp add: tn_state_transition_def)
    next
      fix ch
      assume ch: "map_of (tn_channels tn) (sc_channel_identifier csc) = Some ch"
        and res: "tn_follows tn (sc_channel_identifier csc) (state_transition E ch csc bn bh g)
          (tn_channel_transition E tn csc bn bh g)"
      from assms(2) ToChannel ch have adm: "admissible ch csc" by (simp add: tn_admissible_def)
      have ch': "chan_inv E ch'" if "state_transition E ch csc bn bh g = Inr (Some ch', g', evs)" for ch' g' evs
        using that handle_state_transitions_inv [OF inv [OF ch] adm]
        by (auto simp: state_transition_def result_simps split: option.splits)
      from res ch ch' inv ToChannel show ?thesis
        by (auto simp: tn_state_transition_def tn_follows_def tn_after_def tn_inv_def update_conv' delete_conv'
            split: sum.splits prod.splits option.splits if_splits)
    qed
  next
    case (ContractReceiveChannelNew a)
    with assms inv tn_indexed_new [OF idx _ refl, of "crn_channel_state a"] show ?thesis
      by (auto simp: tn_state_transition_def handle_channelnew_def tn_inv_def tn_admissible_def
          dict_mem_def update_conv' Let_def)
  qed (use assms(1) in \<open>simp_all add: tn_state_transition_def\<close>)
qed

definition ex_network :: token_network where
  "ex_network = \<lparr>tn_address = replicate 20 3, tn_token_address = replicate 20 4,
     tn_channels = [(1, ex_channel ex_alice ex_bob)], tn_partner_channels = [(ex_bob, [1])]\<rparr>"

lemma ex_network_inv: "tn_inv ex_platform ex_network"
proof -
  have "es_address (ch_partner_state (ex_channel ex_alice ex_bob)) = ex_bob"
    "channel_identifier (ex_channel ex_alice ex_bob) = 1" by code_simp+
  then show ?thesis
    using ex_channel_inv by (auto simp: tn_inv_def tn_indexed_def ex_network_def defaultdict_get_def)
qed

theorem token_network_books_are_consistent_witness:
  "tn_inv ex_platform (fst (projr (tn_state_transition ex_platform ex_network
     (ToChannel (ActionChannelClose ex_ci)) 3 (replicate 32 0) ex_prng)))"
proof -
  let ?r = "tn_state_transition ex_platform ex_network (ToChannel (ActionChannelClose ex_ci)) 3
    (replicate 32 0) ex_prng"
  have 1: "tn_admissible ex_platform ex_network (ToChannel (ActionChannelClose ex_ci))"
    by (simp add: tn_admissible_def admissible_def split: option.splits)
  have 2: "\<not> isl ?r" by code_simp
  obtain r where r: "?r = r" by blast
  from token_network_books_are_consistent [OF ex_network_inv 1, of 3 "replicate 32 0" ex_prng] 2
  show ?thesis unfolding r by (cases r) auto
qed

subsection \<open>Removal of channels\<close>

lemma expired_withdraws_keep_channel:
  "handle_block b ch bn g = Inr (new_state, g', evs) \<Longrightarrow> new_state \<noteq> None"
  by (auto simp: handle_block_def result_simps Let_def split: if_splits option.splits)

lemma cleared_channel_cases:
  assumes "handle_state_transitions E sc ch bn bh g = Inr (None, g', evs)"
  shows "(\<exists>a. sc = ContractReceiveChannelSettled a
      \<and> crs_our_onchain_locksroot a = LOCKSROOT_OF_NO_LOCKS E
      \<and> crs_partner_onchain_locksroot a = LOCKSROOT_OF_NO_LOCKS E)
    \<or> (\<exists>a. sc = ContractReceiveChannelBatchUnlock a \<and> get_status ch = STATE_SETTLED)"
proof (cases sc)
  case (ContractReceiveChannelSettled a)
  with assms show ?thesis
    by (auto simp: handle_state_transitions_def handle_channel_settled_def result_simps Let_def
        split: if_splits)
next
  case (ContractReceiveChannelBatchUnlock a)
  with assms show ?thesis
    by (auto simp: handle_state_transitions_def handle_channel_batch_unlock_def split: if_splits)
next
  case (ReceiveWithdrawRequest a)
  with assms show ?thesis
    by (simp add: handle_state_transitions_def handle_receive_withdraw_request_raises)
next
  case (ReceiveWithdrawConfirmation a)
  with assms show ?thesis
    by (auto simp: handle_state_transitions_def dest: handle_receive_withdraw_confirmation_unchanged)
qed (use assms in \<open>auto simp: handle_state_transitions_def handle_action_close_def handle_action_withdraw_def
    handle_action_coop_settle_def handle_action_set_reveal_timeout_def handle_receive_withdraw_expired_def
    handle_channel_updated_transfer_def handle_channel_closed_def handle_channel_deposit_def
    handle_channel_withdraw_def with_error_text_def result_simps Let_def
    split: if_splits option.splits prod.splits dest: expired_withdraws_keep_channel\<close>)

text \<open>
  C20. A channel disappears from its token network only when the chain says that nothing is left to do:
  it was settled without pending locks on either side, or the last batch unlock of a settled channel
  was mined. No other state change loses a channel.
\<close>

theorem channel_is_removed_only_when_settled:
  assumes "tn_indexed tn" and "tn_state_transition E tn sc bn bh g = Inr (tn', g', evs)"
    and "map_of (tn_channels tn) cid = Some ch" and "map_of (tn_channels tn') cid = None"
  shows "(\<exists>a. sc = ToChannel (ContractReceiveChannelSettled a)
        \<and> ci_channel_identifier (crs_canonical_identifier a) = cid
        \<and> crs_our_onchain_locksroot a = LOCKSROOT_OF_NO_LOCKS E
        \<and> crs_partner_onchain_locksroot a = LOCKSROOT_OF_NO_LOCKS E)
    \<or> (\<exists>a. sc = ToChannel (ContractReceiveChannelBatchUnlock a)
        \<and> ci_channel_identifier (cru_canonical_identifier a) = cid \<and> get_status ch = STATE_SETTLED)"
proof (cases sc)
  case (ToChannel csc)
  with assms(2) have res: "tn_channel_transition E tn csc bn bh g = Inr (tn', g', evs)"
    by (simp add: tn_state_transition_def)
  from tn_channel_transition_after [OF assms(1), of E csc bn bh g] res assms(3,4)
  obtain ch0 where ch0: "map_of (tn_channels tn) (sc_channel_identifier csc) = Some ch0"
    and f: "tn_follows tn (sc_channel_identifier csc) (state_transition E ch0 csc bn bh g)
      (Inr (tn', g', evs))" by auto
  then obtain new_state where st: "state_transition E ch0 csc bn bh g = Inr (new_state, g', evs)"
    and after: "tn_after tn (sc_channel_identifier csc) new_state tn'"
    by (auto simp: tn_follows_def split: sum.splits prod.splits)
  from after assms(3,4) have new: "new_state = None" and cid: "cid = sc_channel_identifier csc"
    by (auto simp: tn_after_def update_conv' delete_conv' split: option.splits if_splits)
  from st new have "handle_state_transitions E csc ch0 bn bh g = Inr (None, g', evs)"
    by (auto simp: state_transition_def result_simps split: option.splits)
  from cleared_channel_cases [OF this] ch0 assms(3) cid ToChannel show ?thesis
    by (auto simp: sc_channel_identifier_def)
next
  case (ContractReceiveChannelNew a)
  with assms(2-4) show ?thesis
    by (auto simp: tn_state_transition_def handle_channelnew_def update_conv' Let_def split: if_splits)
qed (use assms in \<open>simp_all add: tn_state_transition_def\<close>)

definition ex_settled_change :: contract_receive_settled where
  "ex_settled_change = \<lparr>cr_transaction_hash = [], cr_block_number = 600, cr_block_hash = replicate 32 0,
     crs_canonical_identifier = ex_ci, crs_our_onchain_locksroot = replicate 32 0,
     crs_our_transferred_amount = 0, crs_partner_onchain_locksroot = replicate 32 0,
     crs_partner_transferred_amount = 0\<rparr>"

theorem channel_is_removed_only_when_settled_witness:
  "\<exists>tn' g' evs. tn_state_transition ex_platform ex_network (ToChannel (ContractReceiveChannelSettled ex_settled_change))
      600 (replicate 32 0) ex_prng = Inr (tn', g', evs)
    \<and> map_of (tn_channels tn') 1 = None
    \<and> crs_our_onchain_locksroot ex_settled_change = LOCKSROOT_OF_NO_LOCKS ex_platform"
proof -
  let ?r = "tn_state_transition ex_platform ex_network
    (ToChannel (ContractReceiveChannelSettled ex_settled_change)) 600 (replicate 32 0) ex_prng"
  have 1: "\<not> isl ?r" and 2: "tn_channels (fst (projr ?r)) = []" by code_simp+
  obtain r where r: "?r = r" by blast
  from 1 2 obtain tn' g' evs where res: "?r = Inr (tn', g', evs)" and tn': "tn_channels tn' = []"
    unfolding r by (cases r) auto
  have ch: "map_of (tn_channels ex_network) 1 = Some (ex_channel ex_alice ex_bob)"
    by (simp add: ex_network_def)
  have "tn_indexed ex_network" using ex_network_inv by (simp add: tn_inv_def)
  from channel_is_removed_only_when_settled [OF this res ch] tn' res show ?thesis by auto
qed

end
