(* ===== verification/Routes.thy ===== *)
theory Routes
  imports Secret_Reveal
begin

text \<open>
  The channels as the payment tasks see them, and the route filter of \<open>transfer/routes.py\<close>.

  A payment task gets two dictionaries that share channel objects: \<open>channelidentifiers_to_channels\<close> of
  one token network, and \<open>addresses_to_channel\<close>, keyed by token network and partner. The model has one
  store of channels under references (token network address and channel identifier); the second
  dictionary holds references, and a mutation of a channel is a write to the store.
\<close>

type_synonym chan_ref = "address \<times> int"
type_synonym chan_store = "(chan_ref, channel) dict"
type_synonym partner_index = "(address \<times> address, chan_ref) dict"

text \<open>\<open>channelidentifiers_to_channels.get(cid)\<close> for the map of the token network \<open>tn\<close>.\<close>

definition channel_by_id :: "chan_store \<Rightarrow> address \<Rightarrow> int \<Rightarrow> channel option" where
  "channel_by_id S tn cid = map_of S (tn, cid)"

definition set_channel :: "address \<Rightarrow> int \<Rightarrow> channel \<Rightarrow> chan_store \<Rightarrow> chan_store" where
  "set_channel tn cid ch S = AList.update (tn, cid) ch S"

text \<open>\<open>addresses_to_channel.get((tn, a))\<close>, with the reference of the channel.\<close>

definition channel_by_partner ::
  "partner_index \<Rightarrow> chan_store \<Rightarrow> address \<Rightarrow> address \<Rightarrow> (chan_ref \<times> channel) option" where
  "channel_by_partner A S tn a =
     (case map_of A (tn, a) of
        None \<Rightarrow> None
      | Some r \<Rightarrow> (case map_of S r of None \<Rightarrow> None | Some ch \<Rightarrow> Some (r, ch)))"

text \<open>\<open>next_hop = route.hop_after(our_address)\<close> followed by \<open>if not next_hop: continue\<close>.\<close>

definition next_hop :: "route_state \<Rightarrow> address \<Rightarrow> address option" where
  "next_hop route our_address =
     (case hop_after route our_address of
        None \<Rightarrow> None | Some a \<Rightarrow> if a = [] then None else Some a)"

datatype network_state = UNKNOWN | UNREACHABLE | REACHABLE

definition filter_reachable_routes ::
  "route_state list \<Rightarrow> (address, network_state) dict \<Rightarrow> address \<Rightarrow> route_state list" where
  "filter_reachable_routes route_states networkstates our_address =
     filter (\<lambda>route.
       case next_hop route our_address of
         None \<Rightarrow> False
       | Some a \<Rightarrow> map_of networkstates a = Some REACHABLE) route_states"

definition filter_acceptable_routes ::
  "route_state list \<Rightarrow> int list \<Rightarrow> partner_index \<Rightarrow> chan_store \<Rightarrow> address \<Rightarrow> address \<Rightarrow>
   route_state list" where
  "filter_acceptable_routes route_states blacklisted_channel_ids A S token_network our_address =
     filter (\<lambda>route.
       case next_hop route our_address of
         None \<Rightarrow> False
       | Some a \<Rightarrow>
           (case channel_by_partner A S token_network a of
              None \<Rightarrow> False
            | Some (r, ch) \<Rightarrow> channel_identifier ch \<notin> set blacklisted_channel_ids)) route_states"

end
