(* ===== verification/Initiator.thy ===== *)
theory Initiator
  imports Routes
begin

text \<open>
  One transfer of a payment that this node initiates: model of
  \<open>transfer/mediated_transfer/initiator.py\<close>. The fee margins are computed with floats. A transition
  result is the new transfer (\<open>None\<close> when it is finished), the channel, the generator and the events;
  \<open>try_new_route\<close> works on the store of channels.
\<close>

type_synonym initiator_transition =
  "(initiator_transfer option \<times> channel \<times> prng \<times> event list) result"

subsection \<open>Amounts with fees\<close>

abbreviation DEFAULT_WAIT_BEFORE_LOCK_REMOVAL :: int where
  "DEFAULT_WAIT_BEFORE_LOCK_REMOVAL \<equiv> 2 * DEFAULT_NUMBER_OF_BLOCK_CONFIRMATIONS"

text \<open>The literals \<open>0.03\<close>, \<open>0.0005\<close> and \<open>0.2\<close> are the nearest doubles.\<close>

definition DEFAULT_MEDIATION_FEE_MARGIN :: rat where
  "DEFAULT_MEDIATION_FEE_MARGIN = fl (3 / 100)"

definition PAYMENT_AMOUNT_BASED_FEE_MARGIN :: rat where
  "PAYMENT_AMOUNT_BASED_FEE_MARGIN = fl (1 / 2000)"

definition MAX_MEDIATION_FEE_PERC :: rat where
  "MAX_MEDIATION_FEE_PERC = fl (1 / 5)"

definition calculate_fee_margin :: "int \<Rightarrow> int \<Rightarrow> int result" where
  "calculate_fee_margin payment_amount estimated_fee =
     (if estimated_fee = 0 then Inr 0
      else
        bind_result (float_of_int \<bar>estimated_fee\<bar>) (\<lambda>fee.
        bind_result (float_of_int payment_amount) (\<lambda>amount.
        Inr \<lceil>fl (fl (fee * DEFAULT_MEDIATION_FEE_MARGIN)
                + fl (amount * PAYMENT_AMOUNT_BASED_FEE_MARGIN))\<rceil>)))"

definition calculate_safe_amount_with_fee :: "int \<Rightarrow> int \<Rightarrow> int result" where
  "calculate_safe_amount_with_fee payment_amount estimated_fee =
     bind_result (calculate_fee_margin payment_amount estimated_fee) (\<lambda>margin.
     Inr (payment_amount + estimated_fee + margin))"

text \<open>\<open>int(x)\<close> of a float truncates towards zero.\<close>

definition trunc :: "rat \<Rightarrow> int" where
  "trunc q = (if 0 \<le> q then \<lfloor>q\<rfloor> else \<lceil>q\<rceil>)"

definition max_amount_limit :: "int \<Rightarrow> int result" where
  "max_amount_limit amount =
     bind_result (float_of_int amount) (\<lambda>a. Inr (amount + trunc (fl (a * MAX_MEDIATION_FEE_PERC))))"

subsection \<open>Unlocking\<close>

definition events_for_unlock_lock ::
  "platform \<Rightarrow> initiator_transfer \<Rightarrow> channel \<Rightarrow> secret \<Rightarrow> secrethash \<Rightarrow> prng \<Rightarrow> int \<Rightarrow>
   (channel \<times> prng \<times> event list) result" where
  "events_for_unlock_lock E it ch secret secrethash g block_number =
     (let td = it_transfer_description it;
          (message_identifier, g') = message_identifier_from_prng g;
          recipient_metadata = get_address_metadata (es_address (ch_partner_state ch)) [it_route it]
      in
      bind_result (send_unlock E ch message_identifier (td_payment_identifier td) secret secrethash
          block_number recipient_metadata) (\<lambda>(ch', unlock_lock).
      Inr (ch', g',
           [SendUnlock unlock_lock,
            EventPaymentSentSuccess (ch_token_network_registry_address ch')
              (ch_token_network_address ch') (td_payment_identifier td) (td_amount td)
              (td_target td) secret (rs_route (it_route it)),
            EventUnlockSuccess (td_payment_identifier td) (td_secrethash td)])))"

subsection \<open>Blocks\<close>

definition initiator_handle_block ::
  "platform \<Rightarrow> initiator_transfer \<Rightarrow> block \<Rightarrow> channel \<Rightarrow> prng \<Rightarrow> initiator_transition" where
  "initiator_handle_block E it state_change ch g =
     (let secrethash = lk_secrethash (lt_lock (it_transfer it)) in
      case map_of (es_lockedlocks (ch_our_state ch)) secrethash of
        None \<Rightarrow>
          (if dict_mem secrethash (es_lockedlocks (ch_partner_state ch))
           then Inr (Some it, ch, g, [])
           else Inr (None, ch, g, []))
      | Some locked_lock \<Rightarrow>
          let lock_has_expired = is_lock_expired (ch_our_state ch) locked_lock
                (blk_block_number state_change)
                (lk_expiration locked_lock + DEFAULT_WAIT_BEFORE_LOCK_REMOVAL)
          in
          if soe_ok lock_has_expired \<and> it_transfer_state it \<noteq> TRANSFER_EXPIRED then
            bind_result
              (if get_status ch = STATE_OPENED
               then send_lock_expired E ch locked_lock g
                 (get_address_metadata (es_address (ch_partner_state ch)) [it_route it])
               else Inr (ch, g, [])) (\<lambda>(ch', g', expired_lock_events).
            let reason = (if it_received_secret_request it
                  then Reason ''lock expired, despite receiving secret request''
                  else Reason ''lock expired'');
                td = it_transfer_description it;
                lock_exists = lock_exists_in_either_channel_side ch' secrethash
            in
            Inr (if lock_exists then Some (it\<lparr>it_transfer_state := TRANSFER_EXPIRED\<rparr>) else None, ch', g',
                 map SendLockExpired expired_lock_events @
                 [EventPaymentSentFailed (td_token_network_registry_address td)
                    (td_token_network_address td) (td_payment_identifier td) (td_target td) reason,
                  EventRouteFailed secrethash (rs_route (it_route it)) (td_token_network_address td),
                  EventUnlockFailed (td_payment_identifier td) (td_secrethash td) reason]))
          else Inr (Some it, ch, g, []))"

subsection \<open>Sending\<close>

definition initiator_send_lockedtransfer ::
  "platform \<Rightarrow> transfer_description \<Rightarrow> channel \<Rightarrow> int \<Rightarrow> int \<Rightarrow> route_state \<Rightarrow> route_state list \<Rightarrow>
   (channel \<times> send_locked_transfer_event) result" where
  "initiator_send_lockedtransfer E td ch message_identifier block_number route_state route_states =
     py_assert (ch_token_network_address ch = td_token_network_address td) (
     let lock_expiration = get_safe_initial_expiration block_number (ch_reveal_timeout ch)
           (td_lock_timeout td)
     in
     bind_result (calculate_safe_amount_with_fee (td_amount td) (rs_estimated_fee route_state))
       (\<lambda>total_amount.
     send_lockedtransfer E ch (td_initiator td) (td_target td) total_amount message_identifier
       (td_payment_identifier td) lock_expiration (Some (td_secret td)) (td_secrethash td)
       route_states (get_address_metadata (es_address (ch_partner_state ch)) route_states) None))"

text \<open>The loop over the candidate routes: the first usable route with its channel, and whether a route
  was skipped because of its fee.\<close>

fun choose_route ::
  "platform \<Rightarrow> partner_index \<Rightarrow> chan_store \<Rightarrow> transfer_description \<Rightarrow> address \<Rightarrow> route_state list \<Rightarrow> bool \<Rightarrow>
   ((route_state \<times> chan_ref \<times> channel) option \<times> bool) result" where
  "choose_route E A S td our_address [] exceeds = Inr (None, exceeds)"
| "choose_route E A S td our_address (route # routes) exceeds =
     (case next_hop route our_address of
        None \<Rightarrow> choose_route E A S td our_address routes exceeds
      | Some a \<Rightarrow>
        (case channel_by_partner A S (td_token_network_address td) a of
           None \<Rightarrow> choose_route E A S td our_address routes exceeds
         | Some (r, ch) \<Rightarrow>
           bind_result (calculate_safe_amount_with_fee (td_amount td) (rs_estimated_fee route))
             (\<lambda>amount_with_fee.
           bind_result (max_amount_limit (td_amount td)) (\<lambda>limit.
           if amount_with_fee > limit then choose_route E A S td our_address routes True
           else if is_channel_usable_for_new_transfer E ch amount_with_fee (td_lock_timeout td) = USABLE
           then Inr (Some (route, r, ch), exceeds)
           else choose_route E A S td our_address routes exceeds))))"

definition try_new_route ::
  "platform \<Rightarrow> partner_index \<Rightarrow> chan_store \<Rightarrow> route_state list \<Rightarrow> transfer_description \<Rightarrow> prng \<Rightarrow> int \<Rightarrow>
   (initiator_transfer option \<times> chan_store \<times> prng \<times> event list) result" where
  "try_new_route E A S candidate_route_states td g block_number =
     bind_result
       (case A of
          [] \<Rightarrow> Inr (None, False)
        | (_, r) # _ \<Rightarrow>
          (case map_of S r of
             None \<Rightarrow> Inl KeyError
           | Some any_channel \<Rightarrow>
               choose_route E A S td (es_address (ch_our_state any_channel)) candidate_route_states False))
       (\<lambda>(chosen, route_fee_exceeds_max).
     case chosen of
       None \<Rightarrow>
         Inr (None, S, g,
              [EventPaymentSentFailed (td_token_network_registry_address td) (td_token_network_address td)
                 (td_payment_identifier td) (td_target td)
                 (if route_fee_exceeds_max
                  then Reason ''None of the available routes could be used and at least one of them exceeded the maximum fee limit (see https://raiden-network.readthedocs.io/en/stable/using-raiden-on-mainnet/overview.html#frequently-asked-questions)''
                  else Reason ''None of the available routes could be used'')])
     | Some (chosen_route_state, r, ch) \<Rightarrow>
         let (message_identifier, g') = message_identifier_from_prng g in
         bind_result (initiator_send_lockedtransfer E td ch message_identifier block_number
             chosen_route_state candidate_route_states) (\<lambda>(ch', lockedtransfer_event).
         Inr (Some \<lparr>it_route = chosen_route_state, it_transfer_description = td,
                it_channel_identifier = channel_identifier ch',
                it_transfer = slt_transfer lockedtransfer_event,
                it_received_secret_request = False, it_transfer_state = TRANSFER_PENDING\<rparr>,
              AList.update r ch' S, g', [SendLockedTransfer lockedtransfer_event])))"

subsection \<open>Secrets\<close>

definition initiator_handle_secretrequest ::
  "platform \<Rightarrow> initiator_transfer \<Rightarrow> receive_secret_request \<Rightarrow> channel \<Rightarrow> prng \<Rightarrow>
   initiator_transition" where
  "initiator_handle_secretrequest E it state_change ch g =
     (let td = it_transfer_description it;
          is_message_from_target = (rsq_sender state_change = td_target td
            \<and> rsq_secrethash state_change = td_secrethash td
            \<and> rsq_payment_identifier state_change = td_payment_identifier td)
      in
      if \<not> is_message_from_target then Inr (Some it, ch, g, [])
      else
        case get_lock (ch_our_state ch) (td_secrethash td) of
          None \<Rightarrow> Inl AssertionError
        | Some l \<Rightarrow>
          if it_received_secret_request it then Inr (Some it, ch, g, [])
          else
            let is_valid_secretrequest = (rsq_amount state_change \<ge> td_amount td
                  \<and> rsq_expiration state_change = lk_expiration l
                  \<and> td_secret td \<noteq> ABSENT_SECRET)
            in
            if is_valid_secretrequest then
              let (message_identifier, g') = message_identifier_from_prng g;
                  revealsecret = mk_send_secret_reveal E
                    (header (td_target td) (get_address_metadata (td_target td) [it_route it])
                       CANONICAL_IDENTIFIER_UNORDERED_QUEUE message_identifier) (td_secret td)
              in Inr (Some (it\<lparr>it_transfer_state := TRANSFER_SECRET_REVEALED,
                          it_received_secret_request := True\<rparr>), ch, g', [revealsecret])
            else
              Inr (Some (it\<lparr>it_received_secret_request := True\<rparr>), ch, g,
                   [EventInvalidSecretRequest (rsq_payment_identifier state_change) (td_amount td)
                      (rsq_amount state_change)]))"

definition initiator_handle_offchain_secretreveal ::
  "platform \<Rightarrow> initiator_transfer \<Rightarrow> receive_secret_reveal \<Rightarrow> channel \<Rightarrow> prng \<Rightarrow> int \<Rightarrow>
   initiator_transition" where
  "initiator_handle_offchain_secretreveal E it state_change ch g block_number =
     (let valid_reveal = is_valid_secret_reveal (rsr_secrethash state_change)
            (td_secrethash (it_transfer_description it));
          sent_by_partner = (rsr_sender state_change = es_address (ch_partner_state ch));
          is_channel_open = (get_status ch = STATE_OPENED);
          l = lt_lock (it_transfer it);
          expired = is_lock_expired (ch_our_state ch) l block_number (lk_expiration l)
      in
      if valid_reveal \<and> is_channel_open \<and> sent_by_partner \<and> \<not> soe_ok expired then
        bind_result (events_for_unlock_lock E it ch (rsr_secret state_change)
            (rsr_secrethash state_change) g block_number) (\<lambda>(ch', g', events).
        Inr (None, ch', g', events))
      else Inr (Some it, ch, g, []))"

definition initiator_handle_onchain_secretreveal ::
  "platform \<Rightarrow> initiator_transfer \<Rightarrow> contract_receive_secret_reveal \<Rightarrow> channel \<Rightarrow> prng \<Rightarrow> int \<Rightarrow>
   initiator_transition" where
  "initiator_handle_onchain_secretreveal E it state_change ch g block_number =
     (let secret = crr_secret state_change;
          secrethash = td_secrethash (it_transfer_description it);
          is_valid_secret = is_valid_secret_reveal (crr_secrethash state_change) secrethash;
          is_channel_open = (get_status ch = STATE_OPENED);
          l = lt_lock (it_transfer it);
          lock_is_expired = (cr_block_number state_change > lk_expiration l);
          is_lock_unlocked = (is_valid_secret \<and> \<not> lock_is_expired)
      in
      bind_result
        (if is_lock_unlocked
         then register_onchain_secret ch secret secrethash (cr_block_number state_change) True
         else Inr ch) (\<lambda>ch1.
      let expired = is_lock_expired (ch_our_state ch1) l block_number (lk_expiration l) in
      if is_lock_unlocked \<and> is_channel_open \<and> \<not> soe_ok expired then
        bind_result (events_for_unlock_lock E it ch1 (crr_secret state_change)
            (crr_secrethash state_change) g block_number) (\<lambda>(ch', g', events).
        Inr (None, ch', g', events))
      else Inr (Some it, ch1, g, [])))"

definition initiator_state_transition ::
  "platform \<Rightarrow> initiator_transfer \<Rightarrow> state_change \<Rightarrow> channel \<Rightarrow> prng \<Rightarrow> int \<Rightarrow> initiator_transition" where
  "initiator_state_transition E it state_change ch g block_number =
     (case state_change of
        ToChannel (Block b) \<Rightarrow> initiator_handle_block E it b ch g
      | ReceiveSecretRequest r \<Rightarrow> initiator_handle_secretrequest E it r ch g
      | ReceiveSecretReveal r \<Rightarrow> initiator_handle_offchain_secretreveal E it r ch g block_number
      | ContractReceiveSecretReveal r \<Rightarrow>
          initiator_handle_onchain_secretreveal E it r ch g block_number
      | _ \<Rightarrow> Inr (Some it, ch, g, []))"

end
