(* ===== verification/Initiator_Manager.thy ===== *)
theory Initiator_Manager
  imports Initiator
begin

text \<open>
  The payment of an initiator with all its transfers: model of
  \<open>transfer/mediated_transfer/initiator_manager.py\<close>. The initiator transfers are objects inside the
  dictionary of the payment; a transition of one of them writes its new value back under its key. The
  channels of the token network \<open>tn\<close> are looked up in the store.
\<close>

type_synonym manager_transition =
  "(initiator_payment option \<times> chan_store \<times> prng \<times> event list) result"
type_synonym running_transition = "(initiator_payment \<times> chan_store \<times> prng \<times> event list) result"

definition manager_clear_if_finalized :: "manager_transition \<Rightarrow> manager_transition" where
  "manager_clear_if_finalized m =
     bind_result m (\<lambda>(state, S, g, events).
     case state of
       None \<Rightarrow> Inr (None, S, g, events)
     | Some p \<Rightarrow>
         if length (pay_initiator_transfers p) = 0 then Inr (None, S, g, events)
         else Inr (Some p, S, g, events))"

definition transfer_exists :: "initiator_payment \<Rightarrow> secrethash \<Rightarrow> bool" where
  "transfer_exists p secrethash = dict_mem secrethash (pay_initiator_transfers p)"

definition cancel_other_transfers :: "initiator_payment \<Rightarrow> initiator_payment" where
  "cancel_other_transfers p =
     p\<lparr>pay_initiator_transfers :=
       map (map_prod id (\<lambda>it. it\<lparr>it_transfer_state := TRANSFER_CANCELLED\<rparr>)) (pay_initiator_transfers p)\<rparr>"

definition can_cancel :: "initiator_transfer \<Rightarrow> bool" where
  "can_cancel it \<longleftrightarrow> it_transfer_state it \<noteq> TRANSFER_SECRET_REVEALED"

definition events_for_cancel_current_route :: "route_state \<Rightarrow> transfer_description \<Rightarrow> event list" where
  "events_for_cancel_current_route route td =
     [EventUnlockFailed (td_payment_identifier td) (td_secrethash td) (Reason ''route was canceled''),
      EventRouteFailed (td_secrethash td) (rs_route route) (td_token_network_address td)]"

definition cancel_current_route ::
  "initiator_payment \<Rightarrow> initiator_transfer \<Rightarrow> (initiator_payment \<times> event list) result" where
  "cancel_current_route p it =
     py_assert (can_cancel it) (
     Inr (p\<lparr>pay_cancelled_channels := pay_cancelled_channels p @ [it_channel_identifier it]\<rparr>,
          events_for_cancel_current_route (it_route it) (it_transfer_description it)))"

subsection \<open>Dispatch to the transfers\<close>

text \<open>\<open>key\<close> is the key of the dictionary under which the transfer was found.\<close>

definition subdispatch_to_initiatortransfer ::
  "platform \<Rightarrow> initiator_payment \<Rightarrow> secrethash \<Rightarrow> initiator_transfer \<Rightarrow> state_change \<Rightarrow> address \<Rightarrow>
   chan_store \<Rightarrow> prng \<Rightarrow> int \<Rightarrow> running_transition" where
  "subdispatch_to_initiatortransfer E p key it state_change tn S g block_number =
     (let cid = it_channel_identifier it in
      case channel_by_id S tn cid of
        None \<Rightarrow> Inr (p, S, g, [])
      | Some ch \<Rightarrow>
        bind_result (initiator_state_transition E it state_change ch g block_number)
          (\<lambda>(new_state, ch', g', events).
        let S' = set_channel tn cid ch' S in
        case new_state of
          None \<Rightarrow>
            let sh = lk_secrethash (lt_lock (it_transfer it)) in
            raise_if (\<not> dict_mem sh (pay_initiator_transfers p)) KeyError (
            Inr (p\<lparr>pay_initiator_transfers := AList.delete sh (pay_initiator_transfers p)\<rparr>, S', g', events))
        | Some it' \<Rightarrow>
            Inr (p\<lparr>pay_initiator_transfers := AList.update key it' (pay_initiator_transfers p)\<rparr>, S', g', events)))"

fun subdispatch_to_keys ::
  "platform \<Rightarrow> initiator_payment \<Rightarrow> secrethash list \<Rightarrow> state_change \<Rightarrow> address \<Rightarrow> chan_store \<Rightarrow> prng \<Rightarrow>
   int \<Rightarrow> running_transition" where
  "subdispatch_to_keys E p [] state_change tn S g block_number = Inr (p, S, g, [])"
| "subdispatch_to_keys E p (key # keys) state_change tn S g block_number =
     (case map_of (pay_initiator_transfers p) key of
        None \<Rightarrow> Inl KeyError
      | Some it \<Rightarrow>
        bind_result (subdispatch_to_initiatortransfer E p key it state_change tn S g block_number)
          (\<lambda>(p1, S1, g1, events1).
        bind_result (subdispatch_to_keys E p1 keys state_change tn S1 g1 block_number)
          (\<lambda>(p2, S2, g2, events2).
        Inr (p2, S2, g2, events1 @ events2))))"

definition subdispatch_to_all_initiatortransfer ::
  "platform \<Rightarrow> initiator_payment \<Rightarrow> state_change \<Rightarrow> address \<Rightarrow> chan_store \<Rightarrow> prng \<Rightarrow> int \<Rightarrow>
   running_transition" where
  "subdispatch_to_all_initiatortransfer E p state_change tn S g block_number =
     subdispatch_to_keys E p (map fst (pay_initiator_transfers p)) state_change tn S g block_number"

definition manager_handle_block ::
  "platform \<Rightarrow> initiator_payment \<Rightarrow> block \<Rightarrow> address \<Rightarrow> chan_store \<Rightarrow> prng \<Rightarrow> int \<Rightarrow>
   running_transition" where
  "manager_handle_block E p b tn S g block_number =
     subdispatch_to_all_initiatortransfer E p (BlockChange b) tn S g block_number"

definition manager_handle_init ::
  "platform \<Rightarrow> initiator_payment option \<Rightarrow> action_init_initiator \<Rightarrow> partner_index \<Rightarrow> chan_store \<Rightarrow> prng \<Rightarrow>
   int \<Rightarrow> manager_transition" where
  "manager_handle_init E payment_state state_change A S g block_number =
     (case payment_state of
        Some p \<Rightarrow> Inr (Some p, S, g, [])
      | None \<Rightarrow>
        bind_result (try_new_route E A S (aii_routes state_change) (aii_transfer state_change) g
            block_number) (\<lambda>(new_state, S', g', events).
        Inr (case new_state of
               None \<Rightarrow> None
             | Some it \<Rightarrow> Some \<lparr>pay_routes = aii_routes state_change,
                 pay_initiator_transfers = [(lk_secrethash (lt_lock (it_transfer it)), it)],
                 pay_cancelled_channels = []\<rparr>,
             S', g', events)))"

subsection \<open>Cancelling\<close>

text \<open>The loop over the transfers of the payment, given by their keys.\<close>

fun cancel_transfers ::
  "initiator_payment \<Rightarrow> secrethash list \<Rightarrow> address \<Rightarrow> chan_store \<Rightarrow>
   (initiator_payment \<times> event list) result" where
  "cancel_transfers p [] tn S = Inr (p, [])"
| "cancel_transfers p (key # keys) tn S =
     (case map_of (pay_initiator_transfers p) key of
        None \<Rightarrow> cancel_transfers p keys tn S
      | Some it \<Rightarrow>
        (case channel_by_id S tn (it_channel_identifier it) of
           None \<Rightarrow> cancel_transfers p keys tn S
         | Some ch \<Rightarrow>
           if can_cancel it then
             bind_result (cancel_current_route p it) (\<lambda>(p1, cancel_events).
             let td = it_transfer_description it;
                 p2 = p1\<lparr>pay_initiator_transfers := AList.update key
                   (it\<lparr>it_transfer_state := TRANSFER_CANCELLED\<rparr>) (pay_initiator_transfers p1)\<rparr>;
                 cancel = EventPaymentSentFailed (ch_token_network_registry_address ch)
                   (ch_token_network_address ch) (td_payment_identifier td) (td_target td)
                   (Reason ''user canceled payment'')
             in
             bind_result (cancel_transfers p2 keys tn S) (\<lambda>(p3, events).
             Inr (p3, cancel_events @ [cancel] @ events)))
           else cancel_transfers p keys tn S))"

definition handle_cancelpayment ::
  "initiator_payment \<Rightarrow> address \<Rightarrow> chan_store \<Rightarrow> (initiator_payment \<times> event list) result" where
  "handle_cancelpayment p tn S = cancel_transfers p (map fst (pay_initiator_transfers p)) tn S"

definition handle_failroute ::
  "initiator_payment \<Rightarrow> receive_transfer_cancel_route \<Rightarrow> (initiator_payment \<times> event list) result" where
  "handle_failroute p state_change =
     (case map_of (pay_initiator_transfers p) (lk_secrethash (lt_lock (rcr_transfer state_change))) of
        None \<Rightarrow> Inr (p, [])
      | Some it \<Rightarrow> if can_cancel it then cancel_current_route p it else Inr (p, []))"

subsection \<open>Refunds\<close>

text \<open>\<open>channel.handle_receive_lockedtransfer\<close> is called, and changes the channel, before the result of the
  other two checks is looked at.\<close>

definition handle_transferreroute ::
  "platform \<Rightarrow> initiator_payment \<Rightarrow> action_transfer_reroute \<Rightarrow> address \<Rightarrow> partner_index \<Rightarrow> chan_store \<Rightarrow>
   prng \<Rightarrow> int \<Rightarrow> running_transition" where
  "handle_transferreroute E p state_change tn A S g block_number =
     (case map_of (pay_initiator_transfers p) (lk_secrethash (lt_lock (atr_transfer state_change))) of
        None \<Rightarrow> Inr (p, S, g, [])
      | Some it \<Rightarrow>
        (case channel_by_id S tn (it_channel_identifier it) of
           None \<Rightarrow> Inr (p, S, g, [])
         | Some ch \<Rightarrow>
           let refund_transfer = atr_transfer state_change;
               original_transfer = it_transfer it;
               is_valid_lock =
                 (lk_secrethash (lt_lock refund_transfer) = lk_secrethash (lt_lock original_transfer)
                  \<and> lk_amount (lt_lock refund_transfer) = lk_amount (lt_lock original_transfer)
                  \<and> lk_expiration (lt_lock refund_transfer) = lk_expiration (lt_lock original_transfer));
               is_valid_refund = refund_transfer_matches_transfer refund_transfer original_transfer;
               recipient_metadata = get_address_metadata (es_address (ch_partner_state ch)) (pay_routes p)
           in
           bind_result (handle_receive_lockedtransfer E ch refund_transfer recipient_metadata)
             (\<lambda>(ch', is_valid, channel_events, _).
           let S1 = set_channel tn (it_channel_identifier it) ch' S in
           if \<not> is_valid_lock \<or> \<not> is_valid_refund \<or> \<not> is_valid then Inr (p, S1, g, [])
           else
             let old_description = it_transfer_description it;
                 filtered_route_states = filter_acceptable_routes (pay_routes p)
                   (pay_cancelled_channels p) A S1 (td_token_network_address old_description)
                   (es_address (ch_our_state ch'));
                 td = mk_transfer_description E (td_token_network_registry_address old_description)
                   (td_payment_identifier old_description) (td_amount old_description)
                   (td_token_network_address old_description) (td_initiator old_description)
                   (td_target old_description) (atr_secret state_change) (atr_secrethash state_change) None
             in
             bind_result (try_new_route E A S1 filtered_route_states td g block_number)
               (\<lambda>(new_state, S2, g2, route_events).
             let events = channel_events @ route_events in
             case new_state of
               None \<Rightarrow> Inr (p, S2, g2, events)
             | Some new_it \<Rightarrow>
                 Inr (p\<lparr>pay_initiator_transfers := AList.update (lk_secrethash (lt_lock (it_transfer new_it)))
                          new_it (pay_initiator_transfers p)\<rparr>, S2, g2, events)))))"

definition manager_handle_lock_expired ::
  "platform \<Rightarrow> initiator_payment \<Rightarrow> receive_lock_expired \<Rightarrow> address \<Rightarrow> chan_store \<Rightarrow> prng \<Rightarrow> int \<Rightarrow>
   running_transition" where
  "manager_handle_lock_expired E p state_change tn S g block_number =
     (case map_of (pay_initiator_transfers p) (rle_secrethash state_change) of
        None \<Rightarrow> Inr (p, S, g, [])
      | Some it \<Rightarrow>
        (case channel_by_id S tn (it_channel_identifier it) of
           None \<Rightarrow> Inr (p, S, g, [])
         | Some ch \<Rightarrow>
           let transfer = it_transfer it;
               secrethash = lk_secrethash (lt_lock transfer);
               recipient_metadata = get_address_metadata (es_address (ch_partner_state ch)) (pay_routes p)
           in
           bind_result (handle_receive_lock_expired E ch state_change block_number recipient_metadata)
             (\<lambda>(ch', events).
           Inr (p, set_channel tn (it_channel_identifier it) ch' S, g,
                events @ (if get_lock (ch_partner_state ch') secrethash = None
                  then [EventUnlockClaimFailed (lt_payment_identifier transfer) secrethash
                          (Reason ''Lock expired'')] else [])))))"

subsection \<open>Secrets\<close>

text \<open>Off-chain and on-chain reveals are dispatched in the same way: the assertion that the transfer was
  not cancelled, the transition of the transfer, and the cancellation of the others.\<close>

definition manager_handle_reveal ::
  "platform \<Rightarrow> initiator_payment \<Rightarrow> secrethash \<Rightarrow> state_change \<Rightarrow> address \<Rightarrow> chan_store \<Rightarrow> prng \<Rightarrow> int \<Rightarrow>
   running_transition" where
  "manager_handle_reveal E p secrethash state_change tn S g block_number =
     (case map_of (pay_initiator_transfers p) secrethash of
        None \<Rightarrow> Inr (p, S, g, [])
      | Some it \<Rightarrow>
        py_assert (it_transfer_state it \<noteq> TRANSFER_CANCELLED) (
        bind_result (subdispatch_to_initiatortransfer E p secrethash it state_change tn S g block_number)
          (\<lambda>(p1, S1, g1, events).
        Inr (if \<not> transfer_exists p1 secrethash then cancel_other_transfers p1 else p1, S1, g1, events))))"

definition manager_handle_offchain_secretreveal ::
  "platform \<Rightarrow> initiator_payment \<Rightarrow> receive_secret_reveal \<Rightarrow> address \<Rightarrow> chan_store \<Rightarrow> prng \<Rightarrow> int \<Rightarrow>
   running_transition" where
  "manager_handle_offchain_secretreveal E p r tn S g block_number =
     manager_handle_reveal E p (rsr_secrethash r) (ReceiveSecretReveal r) tn S g block_number"

definition manager_handle_onchain_secretreveal ::
  "platform \<Rightarrow> initiator_payment \<Rightarrow> contract_receive_secret_reveal \<Rightarrow> address \<Rightarrow> chan_store \<Rightarrow> prng \<Rightarrow> int \<Rightarrow>
   running_transition" where
  "manager_handle_onchain_secretreveal E p r tn S g block_number =
     manager_handle_reveal E p (crr_secrethash r) (ContractReceiveSecretReveal r) tn S g block_number"

definition manager_handle_secretrequest ::
  "platform \<Rightarrow> initiator_payment \<Rightarrow> receive_secret_request \<Rightarrow> address \<Rightarrow> chan_store \<Rightarrow> prng \<Rightarrow> int \<Rightarrow>
   running_transition" where
  "manager_handle_secretrequest E p r tn S g block_number =
     (case map_of (pay_initiator_transfers p) (rsq_secrethash r) of
        None \<Rightarrow> Inr (p, S, g, [])
      | Some it \<Rightarrow>
        if it_transfer_state it = TRANSFER_CANCELLED then Inr (p, S, g, [])
        else subdispatch_to_initiatortransfer E p (rsq_secrethash r) it (ReceiveSecretRequest r) tn S g
          block_number)"

subsection \<open>State transition\<close>

definition with_payment :: "initiator_payment option \<Rightarrow> (initiator_payment \<Rightarrow> running_transition) \<Rightarrow> manager_transition" where
  "with_payment payment_state k =
     (case payment_state of
        None \<Rightarrow> Inl AssertionError
      | Some p \<Rightarrow> bind_result (k p) (\<lambda>(p', S, g, events). Inr (Some p', S, g, events)))"

definition keep_channels :: "chan_store \<Rightarrow> prng \<Rightarrow> (initiator_payment \<times> event list) result \<Rightarrow> running_transition" where
  "keep_channels S g m = bind_result m (\<lambda>(p, events). Inr (p, S, g, events))"

definition manager_dispatch ::
  "platform \<Rightarrow> initiator_payment option \<Rightarrow> state_change \<Rightarrow> address \<Rightarrow> partner_index \<Rightarrow> chan_store \<Rightarrow> prng \<Rightarrow>
   int \<Rightarrow> manager_transition" where
  "manager_dispatch E payment_state state_change tn A S g block_number =
     (case state_change of
        ToChannel (Block b) \<Rightarrow>
          with_payment payment_state (\<lambda>p. manager_handle_block E p b tn S g block_number)
      | ActionInitInitiator a \<Rightarrow> manager_handle_init E payment_state a A S g block_number
      | ReceiveTransferCancelRoute r \<Rightarrow>
          with_payment payment_state (\<lambda>p. keep_channels S g (handle_failroute p r))
      | ActionTransferReroute a \<Rightarrow>
          with_payment payment_state (\<lambda>p. handle_transferreroute E p a tn A S g block_number)
      | ReceiveSecretRequest r \<Rightarrow>
          with_payment payment_state (\<lambda>p. manager_handle_secretrequest E p r tn S g block_number)
      | ActionCancelPayment payment_identifier \<Rightarrow>
          with_payment payment_state (\<lambda>p. keep_channels S g (handle_cancelpayment p tn S))
      | ReceiveSecretReveal r \<Rightarrow>
          with_payment payment_state (\<lambda>p. manager_handle_offchain_secretreveal E p r tn S g block_number)
      | ReceiveLockExpired r \<Rightarrow>
          with_payment payment_state (\<lambda>p. manager_handle_lock_expired E p r tn S g block_number)
      | ContractReceiveSecretReveal r \<Rightarrow>
          with_payment payment_state (\<lambda>p. manager_handle_onchain_secretreveal E p r tn S g block_number)
      | _ \<Rightarrow> Inr (payment_state, S, g, []))"

definition manager_state_transition ::
  "platform \<Rightarrow> initiator_payment option \<Rightarrow> state_change \<Rightarrow> address \<Rightarrow> partner_index \<Rightarrow> chan_store \<Rightarrow> prng \<Rightarrow>
   int \<Rightarrow> manager_transition" where
  "manager_state_transition E payment_state state_change tn A S g block_number =
     manager_clear_if_finalized (manager_dispatch E payment_state state_change tn A S g block_number)"

end
