(* ===== verification/Initiator_Laws.thy ===== *)
theory Initiator_Laws
  imports Initiator_Manager Payment_Task Channel_Closing
begin

text \<open>
  Correctness of one transfer of an initiator on top of the channel's contract: the three outcomes of a
  transition, the transfer as an instance of the payment task contract, and what holds over its whole
  life: it is paid at most once and its secret is revealed at most once, to the target.
\<close>

subsection \<open>One transfer\<close>

definition initiator_inv :: "initiator_transfer \<Rightarrow> channel \<Rightarrow> bool" where
  "initiator_inv it ch \<longleftrightarrow>
     td_secrethash (it_transfer_description it) = lk_secrethash (lt_lock (it_transfer it))
     \<and> get_lock (ch_our_state ch) (lk_secrethash (lt_lock (it_transfer it)))
         \<in> {None, Some (lt_lock (it_transfer it))}"

text \<open>The manager hands inputs to a transfer while it is in the payment, and none afterwards.\<close>

fun initiator_step ::
  "platform \<Rightarrow> initiator_transfer option \<Rightarrow> state_change \<times> int \<Rightarrow> channel \<Rightarrow> prng \<Rightarrow>
   initiator_transfer task_transition" where
  "initiator_step E None i ch g = Inr (None, ch, g, [])"
| "initiator_step E (Some it) (sc, bn) ch g = initiator_state_transition E it sc ch g bn"

definition same_transfer :: "initiator_transfer \<Rightarrow> initiator_transfer \<Rightarrow> bool" where
  "same_transfer it it' \<longleftrightarrow>
     it_transfer it' = it_transfer it \<and> it_transfer_description it' = it_transfer_description it
     \<and> it_route it' = it_route it \<and> it_channel_identifier it' = it_channel_identifier it"

definition is_success :: "event \<Rightarrow> bool" where
  "is_success e \<longleftrightarrow> (case e of EventPaymentSentSuccess a b c d t s r \<Rightarrow> True | _ \<Rightarrow> False)"

definition is_unlock :: "event \<Rightarrow> bool" where
  "is_unlock e \<longleftrightarrow> (case e of SendUnlock u \<Rightarrow> True | _ \<Rightarrow> False)"

definition is_reveal :: "event \<Rightarrow> bool" where
  "is_reveal e \<longleftrightarrow> (case e of SendSecretReveal h s sh \<Rightarrow> True | _ \<Rightarrow> False)"

text \<open>A request that entitles the target to the secret.\<close>

definition valid_request :: "initiator_transfer \<Rightarrow> state_change \<Rightarrow> bool" where
  "valid_request it sc \<longleftrightarrow>
     (case sc of
        ReceiveSecretRequest r \<Rightarrow>
          rsq_sender r = td_target (it_transfer_description it)
          \<and> rsq_secrethash r = td_secrethash (it_transfer_description it)
          \<and> rsq_payment_identifier r = td_payment_identifier (it_transfer_description it)
          \<and> td_amount (it_transfer_description it) \<le> rsq_amount r
          \<and> rsq_expiration r = lk_expiration (lt_lock (it_transfer it))
      | _ \<Rightarrow> False)"

text \<open>The three outcomes of a transition: nothing is paid and the transfer goes on or ends; the secret is
  revealed; the lock is paid and the transfer ends.\<close>

definition quiet :: "event list \<Rightarrow> bool" where
  "quiet evs \<longleftrightarrow> list_all (\<lambda>e. \<not> is_success e \<and> \<not> is_unlock e \<and> \<not> is_reveal e) evs"

definition step_waits :: "initiator_transfer \<Rightarrow> channel \<Rightarrow> initiator_transfer option \<Rightarrow> channel \<Rightarrow> event list \<Rightarrow> bool" where
  "step_waits it ch task' ch' evs \<longleftrightarrow>
     quiet evs \<and> our_balance ch' = our_balance ch
     \<and> (case task' of None \<Rightarrow> True
        | Some it' \<Rightarrow> same_transfer it it'
          \<and> (it_received_secret_request it \<longrightarrow> it_received_secret_request it'))"

definition step_reveals ::
  "platform \<Rightarrow> initiator_transfer \<Rightarrow> state_change \<Rightarrow> channel \<Rightarrow> initiator_transfer option \<Rightarrow> channel \<Rightarrow> event list \<Rightarrow> bool" where
  "step_reveals E it sc ch task' ch' evs \<longleftrightarrow>
     valid_request it sc \<and> \<not> it_received_secret_request it \<and> ch' = ch
     \<and> (\<exists>h it'. evs = [SendSecretReveal h (td_secret (it_transfer_description it))
            (sha256 E (td_secret (it_transfer_description it)))]
          \<and> mh_recipient h = td_target (it_transfer_description it)
          \<and> task' = Some it' \<and> same_transfer it it' \<and> it_received_secret_request it')"

definition step_pays :: "initiator_transfer \<Rightarrow> channel \<Rightarrow> initiator_transfer option \<Rightarrow> channel \<Rightarrow> event list \<Rightarrow> bool" where
  "step_pays it ch task' ch' evs \<longleftrightarrow>
     task' = None \<and> our_balance ch' = our_balance ch - lk_amount (lt_lock (it_transfer it))
     \<and> filter is_success evs = [evs ! 1] \<and> filter is_unlock evs = [evs ! 0] \<and> filter is_reveal evs = []"

lemma event_kinds [simp]:
  "\<not> is_success (SendLockExpired u1)" "\<not> is_unlock (SendLockExpired u1)" "\<not> is_reveal (SendLockExpired u1)"
  "\<not> is_success (EventPaymentSentFailed a b c d m)" "\<not> is_unlock (EventPaymentSentFailed a b c d m)"
  "\<not> is_reveal (EventPaymentSentFailed a b c d m)"
  "\<not> is_success (EventRouteFailed a1 b1 c1)" "\<not> is_unlock (EventRouteFailed a1 b1 c1)" "\<not> is_reveal (EventRouteFailed a1 b1 c1)"
  "\<not> is_success (EventUnlockFailed a2 b2 c2)" "\<not> is_unlock (EventUnlockFailed a2 b2 c2)" "\<not> is_reveal (EventUnlockFailed a2 b2 c2)"
  "\<not> is_success (EventUnlockSuccess a3 b3)" "\<not> is_unlock (EventUnlockSuccess a3 b3)" "\<not> is_reveal (EventUnlockSuccess a3 b3)"
  "\<not> is_success (EventInvalidSecretRequest a4 b4 c4)" "\<not> is_unlock (EventInvalidSecretRequest a4 b4 c4)"
  "\<not> is_reveal (EventInvalidSecretRequest a4 b4 c4)"
  "\<not> is_success (SendSecretReveal h s sh)" "\<not> is_unlock (SendSecretReveal h s sh)" "is_reveal (SendSecretReveal h s sh)"
  "\<not> is_success (SendUnlock u)" "is_unlock (SendUnlock u)" "\<not> is_reveal (SendUnlock u)"
  "is_success (EventPaymentSentSuccess a5 b5 c5 d5 t5 s5 r5)" "\<not> is_unlock (EventPaymentSentSuccess a5 b5 c5 d5 t5 s5 r5)"
  "\<not> is_reveal (EventPaymentSentSuccess a5 b5 c5 d5 t5 s5 r5)"
  by (simp_all add: is_success_def is_unlock_def is_reveal_def)

lemma same_transfer_refl [simp]: "same_transfer it it"
  by (simp add: same_transfer_def)

lemma same_transfer_trans: "same_transfer it it' \<Longrightarrow> same_transfer it' it'' \<Longrightarrow> same_transfer it it''"
  by (simp add: same_transfer_def)

lemma initiator_inv_same:
  "initiator_inv it ch \<Longrightarrow> same_transfer it it' \<Longrightarrow>
    get_lock (ch_our_state ch') sh \<in> {None, get_lock (ch_our_state ch) sh} \<Longrightarrow>
    sh = lk_secrethash (lt_lock (it_transfer it)) \<Longrightarrow> initiator_inv it' ch'"
  by (auto simp: initiator_inv_def same_transfer_def split: option.splits)

text \<open>One transition of a transfer: its invariant, the setup of the channel, and its outcome.\<close>

definition initiator_step_ok ::
  "platform \<Rightarrow> initiator_transfer \<Rightarrow> state_change \<Rightarrow> channel \<Rightarrow>
   initiator_transfer option \<times> channel \<times> prng \<times> event list \<Rightarrow> bool" where
  "initiator_step_ok E it sc ch r \<longleftrightarrow>
     (case r of (task', ch', g', evs) \<Rightarrow>
        chan_inv E ch' \<and> (case task' of None \<Rightarrow> True | Some it' \<Rightarrow> initiator_inv it' ch') \<and> same_setup ch ch'
        \<and> (step_waits it ch task' ch' evs \<or> step_reveals E it sc ch task' ch' evs
           \<or> step_pays it ch task' ch' evs))"

lemma initiator_unchanged:
  assumes "chan_inv E ch" and "initiator_inv it ch"
  shows "initiator_step_ok E it sc ch (Some it, ch, g, [])"
  using assms by (simp add: initiator_step_ok_def step_waits_def quiet_def)

lemma events_for_unlock_lock_ok:
  assumes inv: "chan_inv E ch" and it: "initiator_inv it ch" and base: "same_setup ch0 ch"
      "our_balance ch = our_balance ch0"
    and sh: "sh = lk_secrethash (lt_lock (it_transfer it))"
    and u: "events_for_unlock_lock E it ch secret sh g bn = Inr (ch', g', evs)"
  shows "initiator_step_ok E it sc ch0 (None, ch', g', evs)"
proof -
  from u obtain mid md u' reg tn where send: "send_unlock E ch mid
      (td_payment_identifier (it_transfer_description it)) secret sh bn md = Inr (ch', u')"
    and evs: "evs = [SendUnlock u', EventPaymentSentSuccess reg tn
        (td_payment_identifier (it_transfer_description it)) (td_amount (it_transfer_description it))
        (td_target (it_transfer_description it)) secret (rs_route (it_route it)),
      EventUnlockSuccess (td_payment_identifier (it_transfer_description it))
        (td_secrethash (it_transfer_description it))]"
    by (auto simp: events_for_unlock_lock_def result_simps Let_def split: prod.splits)
  from inv send obtain l where l: "get_lock (ch_our_state ch) sh = Some l"
    and b: "our_balance ch' = our_balance ch - lk_amount l" and s: "same_setup ch ch'" and inv': "chan_inv E ch'"
    by (rule send_unlock_task_effect)
  from l it sh have "l = lt_lock (it_transfer it)" by (simp add: initiator_inv_def)
  with b s inv' base show ?thesis
    by (auto simp: initiator_step_ok_def step_pays_def evs intro: same_setup_trans)
qed

lemma initiator_handle_secretrequest_ok:
  assumes inv: "chan_inv E ch" and it: "initiator_inv it ch"
    and h: "initiator_handle_secretrequest E it r ch g = Inr res"
  shows "initiator_step_ok E it (ReceiveSecretRequest r) ch res"
proof -
  let ?td = "it_transfer_description it"
  from it have sh: "td_secrethash ?td = lk_secrethash (lt_lock (it_transfer it))"
    and l: "\<And>l. get_lock (ch_our_state ch) (td_secrethash ?td) = Some l \<Longrightarrow> l = lt_lock (it_transfer it)"
    by (auto simp: initiator_inv_def)
  have it': "initiator_inv (it\<lparr>it_received_secret_request := True\<rparr>) ch"
    "initiator_inv (it\<lparr>it_transfer_state := TRANSFER_SECRET_REVEALED, it_received_secret_request := True\<rparr>) ch"
    using it by (simp_all add: initiator_inv_def)
  show ?thesis
    using h inv it it' l initiator_unchanged [OF inv it]
    by (auto simp: initiator_handle_secretrequest_def Let_def mk_send_secret_reveal_def initiator_step_ok_def
        step_waits_def step_reveals_def quiet_def same_transfer_def valid_request_def header_def
        split: if_splits option.splits prod.splits)
qed

lemma initiator_handle_offchain_secretreveal_ok:
  assumes inv: "chan_inv E ch" and it: "initiator_inv it ch"
    and h: "initiator_handle_offchain_secretreveal E it r ch g bn = Inr res"
  shows "initiator_step_ok E it sc ch res"
  using h it initiator_unchanged [OF inv it] events_for_unlock_lock_ok [OF inv it same_setup_refl refl]
  by (auto simp: initiator_handle_offchain_secretreveal_def result_simps is_valid_secret_reveal_def
      initiator_inv_def Let_def split: if_splits)

lemma initiator_handle_onchain_secretreveal_ok:
  assumes inv: "chan_inv E ch" and it: "initiator_inv it ch"
    and h: "initiator_handle_onchain_secretreveal E it r ch g bn = Inr res"
  shows "initiator_step_ok E it sc ch res"
proof -
  let ?sh = "td_secrethash (it_transfer_description it)"
  let ?unlocked = "is_valid_secret_reveal (crr_secrethash r) ?sh
    \<and> \<not> cr_block_number r > lk_expiration (lt_lock (it_transfer it))"
  from h obtain ch1 where ch1: "(if ?unlocked
      then register_onchain_secret ch (crr_secret r) ?sh (cr_block_number r) True else Inr ch) = Inr ch1"
    by (auto simp: initiator_handle_onchain_secretreveal_def result_simps Let_def)
  have inv1: "chan_inv E ch1" and eff: "get_lock (ch_our_state ch1) = get_lock (ch_our_state ch)"
    "our_balance ch1 = our_balance ch" "same_setup ch ch1"
    using ch1 inv register_onchain_secret_inv [OF inv] register_onchain_secret_effect [OF inv]
    by (auto split: if_splits)
  from it eff(1) have it1: "initiator_inv it ch1" by (simp add: initiator_inv_def)
  have same: "initiator_step_ok E it sc ch (Some it, ch1, g, [])"
    using inv1 eff it1 by (simp add: initiator_step_ok_def step_waits_def quiet_def)
  have "is_valid_secret_reveal (crr_secrethash r) ?sh \<Longrightarrow> crr_secrethash r = lk_secrethash (lt_lock (it_transfer it))"
    using it by (simp add: is_valid_secret_reveal_def initiator_inv_def)
  with h ch1 same show ?thesis
    by (auto simp: initiator_handle_onchain_secretreveal_def result_simps Let_def
        intro: events_for_unlock_lock_ok [OF inv1 it1 eff(3,2)] split: if_splits)
qed

lemma initiator_handle_block_ok:
  assumes inv: "chan_inv E ch" and it: "initiator_inv it ch"
    and h: "initiator_handle_block E it b ch g = Inr res"
  shows "initiator_step_ok E it sc ch res"
proof (cases "map_of (es_lockedlocks (ch_our_state ch)) (lk_secrethash (lt_lock (it_transfer it)))")
  case None
  with h initiator_unchanged [OF inv it] inv show ?thesis
    by (auto simp: initiator_handle_block_def initiator_step_ok_def step_waits_def quiet_def split: if_splits)
next
  case (Some l)
  let ?sh = "lk_secrethash (lt_lock (it_transfer it))"
  have "get_lock (ch_our_state ch) ?sh = Some l"
    using Some by (simp add: get_lock_def)
  moreover from this it have "l = lt_lock (it_transfer it)" by (simp add: initiator_inv_def)
  ultimately have l: "get_lock (ch_our_state ch) (lk_secrethash l) = Some l" and
    lit: "l = lt_lock (it_transfer it)" by simp_all
  show ?thesis
  proof (cases "soe_ok (is_lock_expired (ch_our_state ch) l (blk_block_number b)
        (lk_expiration l + DEFAULT_WAIT_BEFORE_LOCK_REMOVAL)) \<and> it_transfer_state it \<noteq> TRANSFER_EXPIRED")
    case False
    with h Some initiator_unchanged [OF inv it] show ?thesis
      by (auto simp: initiator_handle_block_def Let_def)
  next
    case True
    then have unclaimed: "\<not> dict_mem (lk_secrethash l) (es_onchain_unlockedlocks (ch_our_state ch))"
      by (auto simp: is_lock_expired_def split: if_splits)
    from h True Some obtain ch' g' les md where
      send: "(if get_status ch = STATE_OPENED then send_lock_expired E ch l g md else Inr (ch, g, []))
        = Inr (ch', g', les)"
      and res: "\<exists>reason. res = (if lock_exists_in_either_channel_side ch' ?sh
           then Some (it\<lparr>it_transfer_state := TRANSFER_EXPIRED\<rparr>) else None, ch', g',
          map SendLockExpired les @
          [EventPaymentSentFailed (td_token_network_registry_address (it_transfer_description it))
             (td_token_network_address (it_transfer_description it))
             (td_payment_identifier (it_transfer_description it)) (td_target (it_transfer_description it)) reason,
           EventRouteFailed ?sh (rs_route (it_route it)) (td_token_network_address (it_transfer_description it)),
           EventUnlockFailed (td_payment_identifier (it_transfer_description it))
             (td_secrethash (it_transfer_description it)) reason])"
      by (auto simp: initiator_handle_block_def result_simps Let_def split: if_splits)
    have eff: "chan_inv E ch'" "our_balance ch' = our_balance ch" "same_setup ch ch'"
      "get_lock (ch_our_state ch') ?sh \<in> {None, get_lock (ch_our_state ch) ?sh}"
      using send inv send_lock_expired_task_effect [OF inv l unclaimed]
      by (auto simp: lit split: if_splits)
    have "initiator_inv (it\<lparr>it_transfer_state := TRANSFER_EXPIRED\<rparr>) ch'"
      by (rule initiator_inv_same [OF it _ eff(4) refl]) (simp add: same_transfer_def)
    with eff res show ?thesis
      by (auto simp: initiator_step_ok_def step_waits_def quiet_def same_transfer_def list.pred_map list_all_iff)
  qed
qed

lemma initiator_state_transition_ok:
  assumes inv: "chan_inv E ch" and it: "initiator_inv it ch"
    and h: "initiator_state_transition E it sc ch g bn = Inr res"
  shows "initiator_step_ok E it sc ch res"
  using h initiator_unchanged [OF inv it, of sc g] initiator_handle_block_ok [OF inv it]
    initiator_handle_secretrequest_ok [OF inv it] initiator_handle_offchain_secretreveal_ok [OF inv it]
    initiator_handle_onchain_secretreveal_ok [OF inv it]
  by (auto simp: initiator_state_transition_def split: state_change.splits channel_state_change.splits)

text \<open>The life of a transfer is accounted for: an instance of the contract of payment tasks.\<close>

definition initiator_task_inv :: "platform \<Rightarrow> initiator_transfer \<Rightarrow> initiator_transfer option \<Rightarrow> channel \<Rightarrow> bool" where
  "initiator_task_inv E it0 task ch \<longleftrightarrow>
     chan_inv E ch
     \<and> (case task of None \<Rightarrow> True | Some it \<Rightarrow> same_transfer it0 it \<and> initiator_inv it ch)"

definition spent :: "initiator_transfer \<Rightarrow> event \<Rightarrow> int" where
  "spent it e = (if is_success e then - lk_amount (lt_lock (it_transfer it)) else 0)"

lemma spent_filter: "(\<Sum>e\<leftarrow>evs. spent it e) = - lk_amount (lt_lock (it_transfer it)) * int (length (filter is_success evs))"
  by (induction evs) (simp_all add: spent_def algebra_simps)

lemma quiet_filter:
  "quiet evs \<Longrightarrow> filter is_success evs = [] \<and> filter is_unlock evs = [] \<and> filter is_reveal evs = []"
  by (auto simp: quiet_def filter_empty_conv list_all_iff)

lemma initiator_step_keeps:
  assumes inv: "initiator_task_inv E it0 task ch" and step: "initiator_step E task i ch g = Inr (task', ch', g', evs)"
  shows "initiator_task_inv E it0 task' ch'"
    and "our_balance ch' = our_balance ch + (\<Sum>e\<leftarrow>evs. spent it0 e)" and "same_setup ch ch'"
proof -
  have "initiator_task_inv E it0 task' ch' \<and> our_balance ch' = our_balance ch + (\<Sum>e\<leftarrow>evs. spent it0 e)
    \<and> same_setup ch ch'"
  proof (cases task)
    case None
    with assms show ?thesis by auto
  next
    case (Some it)
    obtain sc bn where i: "i = (sc, bn)" by (cases i)
    from inv Some have it: "chan_inv E ch" "same_transfer it0 it" "initiator_inv it ch"
      by (simp_all add: initiator_task_inv_def)
    from initiator_state_transition_ok [OF it(1,3)] step Some i
    have ok: "initiator_step_ok E it sc ch (task', ch', g', evs)" by simp
    from it(2) have lock: "it_transfer it0 = it_transfer it" by (simp add: same_transfer_def)
    from ok have "our_balance ch' = our_balance ch + (\<Sum>e\<leftarrow>evs. spent it0 e)"
      unfolding spent_filter lock
      by (auto simp: initiator_step_ok_def step_waits_def step_reveals_def step_pays_def quiet_filter)
    moreover from ok it(2) have "initiator_task_inv E it0 task' ch'"
      by (auto simp: initiator_step_ok_def step_waits_def step_reveals_def step_pays_def
          initiator_task_inv_def split: option.splits intro: same_transfer_trans)
    ultimately show ?thesis using ok by (simp add: initiator_step_ok_def)
  qed
  then show "initiator_task_inv E it0 task' ch'" "our_balance ch' = our_balance ch + (\<Sum>e\<leftarrow>evs. spent it0 e)"
    "same_setup ch ch'" by blast+
qed

interpretation initiator_task: payment_task "initiator_step E" "initiator_task_inv E it0" "\<lambda>task ch i. True" "spent it0"
  by unfold_locales (rule initiator_step_keeps; assumption)+

lemma run_admissible_True [simp]: "run_admissible step (\<lambda>task ch i. True) task ch g is"
  by (induction "is" arbitrary: task ch g) (simp_all split: sum.splits prod.splits)

lemma finished_run: "task_run (initiator_step E) None ch g is = Inr (None, ch, g, [])"
  by (induction "is") simp_all

lemma run_pays_once:
  assumes "initiator_task_inv E it0 task ch"
    and "task_run (initiator_step E) task ch g is = Inr (task', ch', g', evs)"
  shows "length (filter is_unlock evs) = length (filter is_success evs)
    \<and> (length (filter is_success evs) = 0 \<or> length (filter is_success evs) = 1 \<and> task' = None)"
  using assms
proof (induction "is" arbitrary: task ch g evs)
  case Nil
  then show ?case by simp
next
  case (Cons i "is")
  from Cons.prems(2) obtain task1 ch1 g1 evs1 evs2 where
    s: "initiator_step E task i ch g = Inr (task1, ch1, g1, evs1)"
    and r: "task_run (initiator_step E) task1 ch1 g1 is = Inr (task', ch', g', evs2)" and e: "evs = evs1 @ evs2"
    by (rule task_run_Cons_Inr)
  note IH = Cons.IH [OF initiator_step_keeps(1) [OF Cons.prems(1) s] r]
  show ?case
  proof (cases task)
    case None
    with s IH e show ?thesis by simp
  next
    case (Some it)
    with Cons.prems(1) s initiator_state_transition_ok
    have "initiator_step_ok E it (fst i) ch (task1, ch1, g1, evs1)"
      by (cases i) (auto simp: initiator_task_inv_def)
    then consider "quiet evs1 \<or> (\<exists>h s sh. evs1 = [SendSecretReveal h s sh])"
      | "task1 = None" "length (filter is_success evs1) = 1" "length (filter is_unlock evs1) = 1"
      by (fastforce simp: initiator_step_ok_def step_waits_def step_reveals_def step_pays_def)
    then show ?thesis
      using IH r by cases (auto simp: e quiet_filter finished_run)
  qed
qed

subsection \<open>An example run\<close>

text \<open>Alice locked four tokens for Bob, who is the target: Bob asks for the secret, gets it, and sends it
  back as the partner of the channel.\<close>

definition ex_route :: route_state where
  "ex_route = \<lparr>rs_route = [ex_alice, ex_bob], rs_address_to_metadata = [], rs_swaps = [], rs_estimated_fee = 0\<rparr>"

definition ex_description :: transfer_description where
  "ex_description = \<lparr>td_token_network_registry_address = replicate 20 7, td_payment_identifier = 5, td_amount = 4,
     td_token_network_address = ci_token_network_address ex_ci, td_initiator = ex_alice, td_target = ex_bob,
     td_secret = ex_secret, td_secrethash = ex_secrethash, td_lock_timeout = Some 47\<rparr>"

definition ex_initiated :: initiator_transfer where
  "ex_initiated = \<lparr>it_route = ex_route, it_transfer_description = ex_description, it_channel_identifier = 1,
     it_transfer = slt_transfer (snd (projr ex_send)), it_received_secret_request = False,
     it_transfer_state = TRANSFER_PENDING\<rparr>"

definition ex_request :: receive_secret_request where
  "ex_request = \<lparr>rsq_sender = ex_bob, rsq_payment_identifier = 5, rsq_amount = 4, rsq_expiration = 50,
     rsq_secrethash = ex_secrethash\<rparr>"

definition ex_initiator_inputs :: "(state_change \<times> int) list" where
  "ex_initiator_inputs = [(ReceiveSecretRequest ex_request, 3), (ReceiveSecretRequest ex_request, 3),
     (ReceiveSecretReveal (mk_receive_secret_reveal ex_platform ex_bob ex_secret), 4)]"

definition ex_initiator_run :: "initiator_transfer task_transition" where
  "ex_initiator_run = task_run (initiator_step ex_platform) (Some ex_initiated) ex_locked ex_prng ex_initiator_inputs"

lemma ex_initiated_inv: "initiator_inv ex_initiated ex_locked"
proof -
  have "td_secrethash ex_description = lk_secrethash (lt_lock (slt_transfer (snd (projr ex_send))))"
    "get_lock (ch_our_state ex_locked) (lk_secrethash (lt_lock (slt_transfer (snd (projr ex_send)))))
      = Some (lt_lock (slt_transfer (snd (projr ex_send))))"
    by code_simp+
  then show ?thesis by (simp add: initiator_inv_def ex_initiated_def)
qed

lemma ex_initiator_run_ok:
  "\<exists>task' ch' g' evs. ex_initiator_run = Inr (task', ch', g', evs)
    \<and> length (filter is_success evs) = 1 \<and> length (filter is_reveal evs) = 1
    \<and> lk_amount (lt_lock (it_transfer ex_initiated)) = 4"
proof -
  have 1: "\<not> isl ex_initiator_run"
    and 2: "length (filter is_success (snd (snd (snd (projr ex_initiator_run))))) = 1"
      "length (filter is_reveal (snd (snd (snd (projr ex_initiator_run))))) = 1"
    and 3: "lk_amount (lt_lock (it_transfer ex_initiated)) = 4" by code_simp+
  from transition_parts [OF 1] obtain a b c d where r: "ex_initiator_run = Inr (a, b, c, d)"
    and p: "projr ex_initiator_run = (a, b, c, d)" by blast
  from 2 3 p have "length (filter is_success d) = 1 \<and> length (filter is_reveal d) = 1
    \<and> lk_amount (lt_lock (it_transfer ex_initiated)) = 4" by simp
  with r show ?thesis by blast
qed

text \<open>
  C10. A transfer is paid at most once. Whatever sequence of blocks, secret requests and secret reveals
  it handles: either no success is reported, no unlock is sent and the node's balance is unchanged, or
  exactly one success is reported, exactly one unlock is sent, the balance has dropped by exactly the
  amount of the lock and the transfer has ended.
\<close>

theorem initiator_pays_at_most_once:
  assumes "chan_inv E ch" and "initiator_inv it ch"
    and "task_run (initiator_step E) (Some it) ch g is = Inr (task', ch', g', evs)"
  shows "(filter is_success evs = [] \<and> filter is_unlock evs = [] \<and> our_balance ch' = our_balance ch)
    \<or> (length (filter is_success evs) = 1 \<and> length (filter is_unlock evs) = 1 \<and> task' = None
        \<and> our_balance ch' = our_balance ch - lk_amount (lt_lock (it_transfer it)))"
proof -
  from assms have inv: "initiator_task_inv E it (Some it) ch" by (simp add: initiator_task_inv_def)
  from initiator_task.run_accounts [OF inv run_admissible_True assms(3)] run_pays_once [OF inv assms(3)]
  show ?thesis by (auto simp: spent_filter)
qed

theorem initiator_pays_at_most_once_witness:
  "\<exists>task' ch' g' evs. ex_initiator_run = Inr (task', ch', g', evs)
    \<and> length (filter is_unlock evs) = 1 \<and> our_balance ch' = our_balance ex_locked - 4"
proof -
  from ex_initiator_run_ok obtain task' ch' g' evs where r: "ex_initiator_run = Inr (task', ch', g', evs)"
    and 1: "length (filter is_success evs) = 1" "lk_amount (lt_lock (it_transfer ex_initiated)) = 4" by blast
  from initiator_pays_at_most_once [OF ex_locked_inv ex_initiated_inv r [unfolded ex_initiator_run_def]] r 1
  show ?thesis by auto
qed

lemma run_reveals_once:
  assumes "initiator_task_inv E it0 task ch"
    and "task_run (initiator_step E) task ch g is = Inr (task', ch', g', evs)"
  shows "(\<forall>it. task = Some it \<and> it_received_secret_request it \<longrightarrow> filter is_reveal evs = [])
    \<and> (filter is_reveal evs = [] \<or> (\<exists>h. filter is_reveal evs
          = [SendSecretReveal h (td_secret (it_transfer_description it0))
              (sha256 E (td_secret (it_transfer_description it0)))]
          \<and> mh_recipient h = td_target (it_transfer_description it0)
          \<and> (\<exists>i\<in>set is. valid_request it0 (fst i))))"
  using assms
proof (induction "is" arbitrary: task ch g evs)
  case Nil
  then show ?case by simp
next
  case (Cons i "is")
  from Cons.prems(2) obtain task1 ch1 g1 evs1 evs2 where
    s: "initiator_step E task i ch g = Inr (task1, ch1, g1, evs1)"
    and r: "task_run (initiator_step E) task1 ch1 g1 is = Inr (task', ch', g', evs2)" and e: "evs = evs1 @ evs2"
    by (rule task_run_Cons_Inr)
  note IH = Cons.IH [OF initiator_step_keeps(1) [OF Cons.prems(1) s] r]
  show ?case
  proof (cases task)
    case None
    with s r e show ?thesis by (simp add: finished_run)
  next
    case (Some it)
    with Cons.prems(1) s initiator_state_transition_ok
    have ok: "initiator_step_ok E it (fst i) ch (task1, ch1, g1, evs1)" and it: "same_transfer it0 it"
      by (cases i; auto simp: initiator_task_inv_def)+
    from it have td: "it_transfer_description it = it_transfer_description it0"
      "valid_request it = valid_request it0"
      by (simp_all add: same_transfer_def valid_request_def fun_eq_iff split: state_change.split)
    from ok consider (waits) "step_waits it ch task1 ch1 evs1" | (reveals) "step_reveals E it (fst i) ch task1 ch1 evs1"
      | (pays) "step_pays it ch task1 ch1 evs1" by (auto simp: initiator_step_ok_def)
    then show ?thesis
    proof cases
      case waits
      then have "filter is_reveal evs1 = []"
        and flag: "\<forall>it1. task1 = Some it1 \<and> it_received_secret_request it \<longrightarrow> it_received_secret_request it1"
        by (auto simp: step_waits_def quiet_filter)
      with IH r Some show ?thesis by (cases task1) (auto simp: e finished_run)
    next
      case reveals
      with IH Some td show ?thesis by (auto simp: step_reveals_def e)
    next
      case pays
      with r show ?thesis by (simp add: step_pays_def e finished_run)
    qed
  qed
qed

text \<open>
  C11. The secret of a payment leaves the initiator at most once in the life of a transfer, only towards
  the target, and only after the target asked for it with the payment's identifier and secrethash, the
  expiration of the lock and at least the amount of the payment.
\<close>

theorem secret_is_revealed_once_to_the_target:
  assumes "chan_inv E ch" and "initiator_inv it ch"
    and "task_run (initiator_step E) (Some it) ch g is = Inr (task', ch', g', evs)"
  shows "filter is_reveal evs = [] \<or> (\<exists>h. filter is_reveal evs
          = [SendSecretReveal h (td_secret (it_transfer_description it))
              (sha256 E (td_secret (it_transfer_description it)))]
          \<and> mh_recipient h = td_target (it_transfer_description it)
          \<and> (\<exists>i\<in>set is. valid_request it (fst i)))"
proof -
  from assms have inv: "initiator_task_inv E it (Some it) ch" by (simp add: initiator_task_inv_def)
  from run_reveals_once [OF inv assms(3)] show ?thesis by blast
qed

theorem secret_is_revealed_once_to_the_target_witness:
  "\<exists>task' ch' g' evs h. ex_initiator_run = Inr (task', ch', g', evs)
    \<and> filter is_reveal evs = [SendSecretReveal h ex_secret (sha256 ex_platform ex_secret)] \<and> mh_recipient h = ex_bob"
proof -
  from ex_initiator_run_ok obtain task' ch' g' evs where r: "ex_initiator_run = Inr (task', ch', g', evs)"
    and 1: "length (filter is_reveal evs) = 1" by blast
  from secret_is_revealed_once_to_the_target [OF ex_locked_inv ex_initiated_inv r [unfolded ex_initiator_run_def]] 1
  obtain h where "filter is_reveal evs = [SendSecretReveal h ex_secret (sha256 ex_platform ex_secret)]"
    "mh_recipient h = ex_bob" by (force simp: ex_initiated_def ex_description_def)
  with r show ?thesis by blast
qed

end
