(* ===== verification/Payment_Laws.thy ===== *)
theory Payment_Laws
  imports Initiator_Laws
begin

text \<open>
  Correctness of a payment with its routes and transfers: the choice of a route, the dictionary of
  transfers, and what happens to the other transfers when one of them is paid.
\<close>

subsection \<open>Choosing a route\<close>

text \<open>A route can be used when its first hop is the partner of a channel of the right token network that
  is usable for the amount with fees, and the amount with fees is within the limit.\<close>

definition usable_route ::
  "platform \<Rightarrow> partner_index \<Rightarrow> chan_store \<Rightarrow> transfer_description \<Rightarrow> address \<Rightarrow> route_state \<Rightarrow> bool" where
  "usable_route E A S td our_address route \<longleftrightarrow>
     (case next_hop route our_address of
        None \<Rightarrow> False
      | Some a \<Rightarrow>
        (case channel_by_partner A S (td_token_network_address td) a of
           None \<Rightarrow> False
         | Some (r, ch) \<Rightarrow>
           (case (calculate_safe_amount_with_fee (td_amount td) (rs_estimated_fee route),
                  max_amount_limit (td_amount td)) of
              (Inr amount, Inr limit) \<Rightarrow> amount \<le> limit
                \<and> is_channel_usable_for_new_transfer E ch amount (td_lock_timeout td) = USABLE
            | _ \<Rightarrow> False)))"

lemma choose_route_find:
  assumes "choose_route E A S td our routes exceeds = Inr (chosen, exceeds')"
  shows "find (usable_route E A S td our) routes = map_option fst chosen"
    and "chosen = Some (route, r, ch) \<Longrightarrow>
      \<exists>a. next_hop route our = Some a \<and> channel_by_partner A S (td_token_network_address td) a = Some (r, ch)"
  using assms
  by (induction routes arbitrary: exceeds)
     (auto simp: usable_route_def result_simps split: option.splits if_splits)

lemma usable_route_amount:
  assumes "usable_route E A S td our route" and "next_hop route our = Some a"
    and "channel_by_partner A S (td_token_network_address td) a = Some (r, ch)"
  obtains amount limit where
    "calculate_safe_amount_with_fee (td_amount td) (rs_estimated_fee route) = Inr amount"
    "max_amount_limit (td_amount td) = Inr limit" "amount \<le> limit"
    "is_channel_usable_for_new_transfer E ch amount (td_lock_timeout td) = USABLE"
  using assms by (auto simp: usable_route_def split: sum.splits)

text \<open>The address of the node, taken from the first channel of the index.\<close>

definition index_owner :: "partner_index \<Rightarrow> chan_store \<Rightarrow> address" where
  "index_owner A S =
     (case A of [] \<Rightarrow> [] | (_, r) # _ \<Rightarrow> (case map_of S r of None \<Rightarrow> [] | Some ch \<Rightarrow> es_address (ch_our_state ch)))"

lemma no_channels_no_route: "find (usable_route E [] S td our) routes = None"
  by (induction routes) (simp_all add: usable_route_def channel_by_partner_def split: option.splits)

lemma chosen_route:
  assumes "(case A of
      [] \<Rightarrow> Inr (None, False)
    | (_, r) # _ \<Rightarrow>
      (case map_of S r of
         None \<Rightarrow> Inl KeyError
       | Some any_channel \<Rightarrow> choose_route E A S td (es_address (ch_our_state any_channel)) routes False))
    = Inr (chosen, exceeds)"
  shows "find (usable_route E A S td (index_owner A S)) routes = map_option fst chosen"
    and "chosen = Some (route, r, ch) \<Longrightarrow> \<exists>a. next_hop route (index_owner A S) = Some a
      \<and> channel_by_partner A S (td_token_network_address td) a = Some (r, ch)"
  using assms choose_route_find [of E A S td _ routes False chosen exceeds]
  by (auto simp: index_owner_def no_channels_no_route split: list.splits option.splits)

lemma try_new_route_None:
  assumes "try_new_route E A S routes td g bn = Inr (None, S', g', evs)"
  shows "S' = S" and "g' = g" and "find (usable_route E A S td (index_owner A S)) routes = None"
    and "\<exists>reason. evs = [EventPaymentSentFailed (td_token_network_registry_address td)
       (td_token_network_address td) (td_payment_identifier td) (td_target td) reason]"
  using assms chosen_route(1) [where chosen = None]
  by (cases "message_identifier_from_prng g"; auto simp: try_new_route_def result_simps Let_def split: option.splits)+

lemma try_new_route_Some:
  assumes "try_new_route E A S routes td g bn = Inr (Some it, S', g', evs)"
  obtains a r ch ch' ev mid where
    "find (usable_route E A S td (index_owner A S)) routes = Some (it_route it)"
    "next_hop (it_route it) (index_owner A S) = Some a"
    "channel_by_partner A S (td_token_network_address td) a = Some (r, ch)"
    "initiator_send_lockedtransfer E td ch mid bn (it_route it) routes = Inr (ch', ev)"
    "it_transfer it = slt_transfer ev" "it_transfer_description it = td"
    "it_channel_identifier it = channel_identifier ch'"
    "S' = AList.update r ch' S" "evs = [SendLockedTransfer ev]"
proof -
  from assms obtain route r ch exceeds mid ch' ev where
    c: "(case A of
      [] \<Rightarrow> Inr (None, False)
    | (_, r) # _ \<Rightarrow>
      (case map_of S r of
         None \<Rightarrow> Inl KeyError
       | Some any_channel \<Rightarrow> choose_route E A S td (es_address (ch_our_state any_channel)) routes False))
    = Inr (Some (route, r, ch), exceeds)"
    and send: "initiator_send_lockedtransfer E td ch mid bn route routes = Inr (ch', ev)"
    and it: "it = \<lparr>it_route = route, it_transfer_description = td,
                it_channel_identifier = channel_identifier ch', it_transfer = slt_transfer ev,
                it_received_secret_request = False, it_transfer_state = TRANSFER_PENDING\<rparr>"
      "S' = AList.update r ch' S" "evs = [SendLockedTransfer ev]"
    unfolding try_new_route_def
    by (cases "message_identifier_from_prng g") (auto simp: result_simps Let_def split: option.splits)
  from chosen_route(2) [OF c refl] obtain a where "next_hop route (index_owner A S) = Some a"
    "channel_by_partner A S (td_token_network_address td) a = Some (r, ch)" by blast
  with chosen_route(1) [OF c] send it show thesis by (intro that [of a r ch mid ch' ev]) simp_all
qed

lemma initiator_send_lockedtransfer_effect:
  assumes inv: "chan_inv E ch" and fresh: "get_lock (ch_our_state ch) (td_secrethash td) = None"
    and send: "initiator_send_lockedtransfer E td ch mid bn route routes = Inr (ch', ev)"
    and amount: "calculate_safe_amount_with_fee (td_amount td) (rs_estimated_fee route) = Inr amount"
  shows "chan_inv E ch'" and "our_balance ch' = our_balance ch"
    and "get_lock (ch_our_state ch') (td_secrethash td) = Some (lt_lock (slt_transfer ev))"
    and "lk_amount (lt_lock (slt_transfer ev)) = amount"
    and "lk_secrethash (lt_lock (slt_transfer ev)) = td_secrethash td"
proof -
  from send amount obtain expiration md where s: "send_lockedtransfer E ch (td_initiator td) (td_target td) amount mid
       (td_payment_identifier td) expiration (Some (td_secret td)) (td_secrethash td) routes md None = Inr (ch', ev)"
    by (auto simp: initiator_send_lockedtransfer_def result_simps py_assert_def Let_def split: if_splits)
  show "chan_inv E ch'" by (rule send_lockedtransfer_inv [OF inv fresh s])
  note eff = send_lockedtransfer_effect [OF inv fresh s]
  show "our_balance ch' = our_balance ch" by (fact eff(3))
  from s have "lt_lock (slt_transfer ev) = \<lparr>lk_amount = amount, lk_expiration = expiration, lk_secrethash = td_secrethash td\<rparr>"
    by (rule send_lockedtransferE) simp
  with eff(1) show "get_lock (ch_our_state ch') (td_secrethash td) = Some (lt_lock (slt_transfer ev))"
    "lk_amount (lt_lock (slt_transfer ev)) = amount"
    "lk_secrethash (lt_lock (slt_transfer ev)) = td_secrethash td" by simp_all
qed


definition ex_store :: chan_store where
  "ex_store = [((ci_token_network_address ex_ci, 1), ex_channel ex_alice ex_bob)]"

definition ex_index :: partner_index where
  "ex_index = [((ci_token_network_address ex_ci, ex_bob), (ci_token_network_address ex_ci, 1))]"

definition ex_new_route :: "(initiator_transfer option \<times> chan_store \<times> prng \<times> event list) result" where
  "ex_new_route = try_new_route ex_platform ex_index ex_store [ex_route] ex_description ex_prng 3"


subsection \<open>A secret that is registered on-chain\<close>

lemma known_onchain_not_locked:
  assumes "locks_wf es" and "is_secret_known_onchain es sh"
  shows "map_of (es_lockedlocks es) sh = None"
proof -
  have "map fst (map (map_prod id f) d) = map fst d" for f and d :: "('k \<times> 'v) list"
    by (induction d) auto
  with locks_wf_dict_ok [OF assms(1)]
  have "set (map fst (es_lockedlocks es)) \<inter> set (map fst (es_onchain_unlockedlocks es)) = {}"
    by (auto simp: lock_assoc_def)
  with assms(2) show ?thesis
    by (auto simp: is_secret_known_onchain_def dict_mem_def map_of_eq_None_iff)
qed

text \<open>
  When the channel is no longer open, a payment whose secret is registered on-chain in time ends
  without a trace: the lock is claimable by the partner, the next block removes the transfer, and neither
  a success nor a failure of the payment is ever reported.
\<close>

theorem onchain_payment_ends_silently:
  assumes "chan_inv E ch" and "initiator_inv it ch" and "get_status ch \<noteq> STATE_OPENED"
    and "sh = lk_secrethash (lt_lock (it_transfer it))"
    and "get_lock (ch_our_state ch) sh = Some (lt_lock (it_transfer it))"
    and "get_lock (ch_partner_state ch) sh = None"
    and "crr_secrethash r = sh" and "cr_block_number r \<le> lk_expiration (lt_lock (it_transfer it))"
  shows "\<exists>ch'. task_run (initiator_step E) (Some it) ch g [(ContractReceiveSecretReveal r, bn), (BlockChange b, bn')]
      = Inr (None, ch', g, []) \<and> is_secret_known_onchain (ch_our_state ch') sh"
proof -
  note wf = chan_inv_sides(1) [OF assms(1), THEN end_invD(1)]
  obtain our' partner' where
    o: "register_onchain_secret_endstate (crr_secret r) sh (cr_block_number r) True (ch_our_state ch) = Inr our'"
    and p: "register_onchain_secret_endstate (crr_secret r) sh (cr_block_number r) True (ch_partner_state ch)
      = Inr partner'"
    using register_onchain_secret_total by metis
  let ?ch = "ch\<lparr>ch_our_state := our', ch_partner_state := partner'\<rparr>"
  have reg: "register_onchain_secret ch (crr_secret r) sh (cr_block_number r) True = Inr ?ch"
    using o p by (simp add: register_onchain_secret_def)
  note known = register_onchain_in_time(2) [OF wf assms(5,8) o]
  have inv': "chan_inv E ?ch" by (rule register_onchain_secret_inv [OF assms(1) reg])
  have our: "map_of (es_lockedlocks our') sh = None"
    using known_onchain_not_locked [OF _ known] chan_inv_sides(1) [OF inv', THEN end_invD(1)] by simp
  have partner: "map_of (es_lockedlocks partner') sh = None"
    using fun_cong [OF register_onchain_secret_effect(1) [OF assms(1) reg], of sh] assms(6)
    by (auto simp: get_lock_def split: option.splits)
  have sh: "td_secrethash (it_transfer_description it) = sh" using assms(2,4) by (simp add: initiator_inv_def)
  have "initiator_state_transition E it (ContractReceiveSecretReveal r) ch g bn = Inr (Some it, ?ch, g, [])"
    using assms(3,7,8) by (simp add: initiator_state_transition_def initiator_handle_onchain_secretreveal_def
        is_valid_secret_reveal_def sh reg)
  moreover have "initiator_state_transition E it (BlockChange b) ?ch g bn' = Inr (None, ?ch, g, [])"
    using our partner assms(4)
    by (simp add: initiator_state_transition_def initiator_handle_block_def dict_mem_def)
  ultimately show ?thesis using known by simp
qed

definition ex_locked_closed :: channel where
  "ex_locked_closed = set_closed 30 ex_locked"

theorem onchain_payment_ends_silently_witness:
  "\<exists>ch'. task_run (initiator_step ex_platform) (Some ex_initiated) ex_locked_closed ex_prng
      [(ContractReceiveSecretReveal ex_reveal, 40), (BlockChange (ex_target_block 41), 41)]
    = Inr (None, ch', ex_prng, [])"
proof -
  let ?l = "lt_lock (it_transfer ex_initiated)"
  have inv: "chan_inv ex_platform ex_locked_closed"
    using ex_locked_inv by (simp add: chan_inv_def ex_locked_closed_def set_closed_def)
  have it: "initiator_inv ex_initiated ex_locked_closed"
    using ex_initiated_inv by (simp add: initiator_inv_def ex_locked_closed_def set_closed_def)
  have 1: "get_status ex_locked_closed \<noteq> STATE_OPENED"
    and 2: "get_lock (ch_our_state ex_locked_closed) (lk_secrethash ?l) = Some ?l"
    and 3: "get_lock (ch_partner_state ex_locked_closed) (lk_secrethash ?l) = None"
    and 4: "crr_secrethash ex_reveal = lk_secrethash ?l" "cr_block_number ex_reveal \<le> lk_expiration ?l"
    by code_simp+
  from onchain_payment_ends_silently [OF inv it 1 refl 2 3 4, of ex_prng 40 "ex_target_block 41" 41]
  show ?thesis by blast
qed

subsection \<open>The transfers of a payment\<close>

text \<open>The dictionary of transfers is indexed by the secrethashes of their locks.\<close>

definition transfer_entry_ok :: "secrethash \<times> initiator_transfer \<Rightarrow> bool" where
  "transfer_entry_ok e \<longleftrightarrow>
     lk_secrethash (lt_lock (it_transfer (snd e))) = fst e
     \<and> td_secrethash (it_transfer_description (snd e)) = fst e"

definition payment_ok :: "initiator_payment \<Rightarrow> bool" where
  "payment_ok p \<longleftrightarrow> dict_ok (pay_initiator_transfers p) \<and> list_all transfer_entry_ok (pay_initiator_transfers p)"

lemma payment_ok_lookup:
  "payment_ok p \<Longrightarrow> map_of (pay_initiator_transfers p) sh = Some it \<Longrightarrow>
    lk_secrethash (lt_lock (it_transfer it)) = sh \<and> td_secrethash (it_transfer_description it) = sh"
  by (fastforce simp: payment_ok_def transfer_entry_ok_def list_all_iff dest: map_of_SomeD)

lemma list_all_update: "list_all P d \<Longrightarrow> P (k, v) \<Longrightarrow> list_all P (AList.update k v d)"
  by (induction d) auto

lemma list_all_delete: "list_all P d \<Longrightarrow> list_all P (AList.delete k d)"
  by (induction d) auto

lemma payment_ok_update:
  "payment_ok p \<Longrightarrow> transfer_entry_ok (sh, it) \<Longrightarrow>
    payment_ok (p\<lparr>pay_initiator_transfers := AList.update sh it (pay_initiator_transfers p)\<rparr>)"
  by (simp add: payment_ok_def list_all_update distinct_update)

lemma payment_ok_delete:
  "payment_ok p \<Longrightarrow> payment_ok (p\<lparr>pay_initiator_transfers := AList.delete sh (pay_initiator_transfers p)\<rparr>)"
  by (simp add: payment_ok_def list_all_delete distinct_delete)

lemma payment_ok_cancel: "payment_ok p \<Longrightarrow> payment_ok (cancel_other_transfers p)"
proof -
  have "list_all transfer_entry_ok d \<Longrightarrow> list_all transfer_entry_ok
      (map (map_prod id (\<lambda>it. it\<lparr>it_transfer_state := TRANSFER_CANCELLED\<rparr>)) d)" for d
    by (induction d) (auto simp: transfer_entry_ok_def)
  then show "payment_ok p \<Longrightarrow> payment_ok (cancel_other_transfers p)"
    by (simp add: payment_ok_def cancel_other_transfers_def comp_def)
qed

lemma initiator_handle_block_same:
  "initiator_handle_block E it b ch g = Inr (Some it', ch', g', evs) \<Longrightarrow> same_transfer it it'"
  by (auto simp: initiator_handle_block_def result_simps same_transfer_def Let_def
      split: option.splits if_split_asm)

lemma initiator_handle_secretrequest_same:
  "initiator_handle_secretrequest E it r ch g = Inr (Some it', ch', g', evs) \<Longrightarrow> same_transfer it it'"
  by (auto simp: initiator_handle_secretrequest_def same_transfer_def Let_def
      split: option.splits if_split_asm prod.splits)

lemma initiator_reveals_same:
  "initiator_handle_offchain_secretreveal E it r ch g bn = Inr (Some it', ch', g', evs) \<Longrightarrow> it' = it \<and> evs = []"
  "initiator_handle_onchain_secretreveal E it r' ch g bn = Inr (Some it', ch', g', evs) \<Longrightarrow> it' = it \<and> evs = []"
  by (auto simp: initiator_handle_offchain_secretreveal_def initiator_handle_onchain_secretreveal_def
      result_simps Let_def split: if_split_asm)

lemma initiator_state_transition_same:
  assumes "initiator_state_transition E it sc ch g bn = Inr (Some it', ch', g', evs)"
  shows "same_transfer it it'"
  using assms
  by (auto simp: initiator_state_transition_def dest: initiator_handle_block_same
      initiator_handle_secretrequest_same initiator_reveals_same
      split: state_change.splits channel_state_change.splits)

lemma subdispatch_ok:
  assumes "payment_ok p" and "map_of (pay_initiator_transfers p) key = Some it"
    and "subdispatch_to_initiatortransfer E p key it sc tn S g bn = Inr (p', S', g', evs)"
  shows "payment_ok p'"
  using assms payment_ok_delete [OF assms(1)] payment_ok_lookup [OF assms(1,2)]
  by (auto simp: subdispatch_to_initiatortransfer_def result_simps Let_def same_transfer_def transfer_entry_ok_def
      split: option.splits dest!: initiator_state_transition_same intro!: payment_ok_update)

lemma subdispatch_to_keys_ok:
  assumes "payment_ok p" and "subdispatch_to_keys E p keys sc tn S g bn = Inr (p', S', g', evs)"
  shows "payment_ok p'"
  using assms
  by (induction keys arbitrary: p S g evs) (auto simp: result_simps split: option.splits dest: subdispatch_ok)

lemma cancel_transfers_ok:
  "payment_ok p \<Longrightarrow> cancel_transfers p keys tn S = Inr (p', evs) \<Longrightarrow> payment_ok p'"
proof (induction keys arbitrary: p evs)
  case Nil
  then show ?case by simp
next
  case (Cons key keys)
  have upd: "map_of (pay_initiator_transfers p) key = Some it \<Longrightarrow> payment_ok (p\<lparr>
      pay_cancelled_channels := c,
      pay_initiator_transfers := AList.update key (it\<lparr>it_transfer_state := TRANSFER_CANCELLED\<rparr>)
        (pay_initiator_transfers p)\<rparr>)" for it c
    using payment_ok_lookup [OF Cons.prems(1)] Cons.prems(1)
    by (simp add: payment_ok_def list_all_update distinct_update transfer_entry_ok_def)
  from Cons.prems Cons.IH show ?case
    by (auto simp: cancel_current_route_def py_assert_def result_simps Let_def
        split: option.splits if_splits intro: Cons.IH [OF upd])
qed

lemma try_new_route_entry:
  assumes "try_new_route E A S routes td g bn = Inr (Some it, S', g', evs)"
  shows "transfer_entry_ok (lk_secrethash (lt_lock (it_transfer it)), it)"
  using assms
proof (rule try_new_route_Some)
  fix r ch ch' ev mid
  assume send: "initiator_send_lockedtransfer E td ch mid bn (it_route it) routes = Inr (ch', ev)"
    and it: "it_transfer it = slt_transfer ev" "it_transfer_description it = td"
  from send obtain amount expiration md where "send_lockedtransfer E ch (td_initiator td) (td_target td) amount mid
       (td_payment_identifier td) expiration (Some (td_secret td)) (td_secrethash td) routes md None = Inr (ch', ev)"
    by (auto simp: initiator_send_lockedtransfer_def result_simps py_assert_def Let_def split: if_splits)
  then have "lk_secrethash (lt_lock (slt_transfer ev)) = td_secrethash td"
    by (rule send_lockedtransferE) simp
  with it show ?thesis by (simp add: transfer_entry_ok_def)
qed

lemma handle_transferreroute_ok:
  "payment_ok p \<Longrightarrow> handle_transferreroute E p a tn A S g bn = Inr (p', S', g', evs) \<Longrightarrow> payment_ok p'"
  by (auto simp: handle_transferreroute_def result_simps Let_def split: option.splits if_splits
      intro!: payment_ok_update dest!: try_new_route_entry)

lemma manager_handle_reveal_ok:
  assumes p: "payment_ok p" and h: "manager_handle_reveal E p sh sc tn S g bn = Inr (p', S', g', evs)"
  shows "payment_ok p'"
proof (cases "map_of (pay_initiator_transfers p) sh")
  case None
  with h p show ?thesis by (simp add: manager_handle_reveal_def)
next
  case (Some it)
  with h obtain p1 where s: "subdispatch_to_initiatortransfer E p sh it sc tn S g bn = Inr (p1, S', g', evs)"
    and p': "p' = (if \<not> transfer_exists p1 sh then cancel_other_transfers p1 else p1)"
    by (cases "it_transfer_state it = TRANSFER_CANCELLED")
       (auto simp: manager_handle_reveal_def result_simps py_assert_def)
  from subdispatch_ok [OF p Some s] show ?thesis by (simp add: p' payment_ok_cancel)
qed

lemma handle_failroute_ok: "payment_ok p \<Longrightarrow> handle_failroute p r = Inr (p', evs) \<Longrightarrow> payment_ok p'"
  by (auto simp: handle_failroute_def cancel_current_route_def py_assert_def payment_ok_def
      split: option.splits if_splits)

lemma manager_handle_secretrequest_ok:
  assumes p: "payment_ok p" and h: "manager_handle_secretrequest E p r tn S g bn = Inr (p', S', g', evs)"
  shows "payment_ok p'"
  using h p subdispatch_ok [OF p]
  by (cases "map_of (pay_initiator_transfers p) (rsq_secrethash r)")
     (auto simp: manager_handle_secretrequest_def split: if_split_asm)

lemma manager_handle_lock_expired_ok:
  "payment_ok p \<Longrightarrow> manager_handle_lock_expired E p r tn S g bn = Inr (p', S', g', evs) \<Longrightarrow> payment_ok p'"
  by (auto simp: manager_handle_lock_expired_def result_simps Let_def split: option.splits)

lemma manager_handle_block_ok:
  "payment_ok p \<Longrightarrow> manager_handle_block E p b tn S g bn = Inr (p', S', g', evs) \<Longrightarrow> payment_ok p'"
  by (auto simp: manager_handle_block_def subdispatch_to_all_initiatortransfer_def dest: subdispatch_to_keys_ok)

lemma handle_cancelpayment_ok: "payment_ok p \<Longrightarrow> handle_cancelpayment p tn S = Inr (p', evs) \<Longrightarrow> payment_ok p'"
  by (auto simp: handle_cancelpayment_def dest: cancel_transfers_ok)

lemmas payment_handlers_ok = manager_handle_block_ok handle_failroute_ok handle_transferreroute_ok
  manager_handle_secretrequest_ok handle_cancelpayment_ok manager_handle_lock_expired_ok
  manager_handle_reveal_ok [where sc = "ReceiveSecretReveal r" and sh = "rsr_secrethash r" for r,
    folded manager_handle_offchain_secretreveal_def]
  manager_handle_reveal_ok [where sc = "ContractReceiveSecretReveal r" and sh = "crr_secrethash r" for r,
    folded manager_handle_onchain_secretreveal_def]

text \<open>
  C22. Whatever a payment task handles, the transfers of the payment stay indexed by the secrethashes of
  their locks and descriptions, without duplicates, so that deleting a finished transfer always finds
  it; and a payment without transfers is never kept.
\<close>

theorem payment_stays_indexed:
  assumes "case_option True payment_ok payment"
    and "manager_state_transition E payment sc tn A S g bn = Inr (Some p', S', g', evs)"
  shows "payment_ok p' \<and> pay_initiator_transfers p' \<noteq> []"
proof -
  from assms(2) have d: "manager_dispatch E payment sc tn A S g bn = Inr (Some p', S', g', evs)"
    and ne: "pay_initiator_transfers p' \<noteq> []"
    by (auto simp: manager_state_transition_def manager_clear_if_finalized_def result_simps
        split: option.splits if_splits)
  have "payment_ok p'"
  proof (cases payment)
    case None
    with d show ?thesis
      by (auto simp: manager_dispatch_def with_payment_def manager_handle_init_def result_simps payment_ok_def
          split: state_change.splits channel_state_change.splits option.splits dest!: try_new_route_entry)
  next
    case (Some p)
    with assms(1) have p: "payment_ok p" by simp
    from d p show ?thesis
      unfolding manager_dispatch_def Some
      by (cases sc) (auto simp: with_payment_def keep_channels_def result_simps manager_handle_init_def
          split: channel_state_change.splits dest: payment_handlers_ok)
  qed
  with ne show ?thesis by simp
qed

definition ex_payment :: initiator_payment where
  "ex_payment = \<lparr>pay_routes = [ex_route], pay_initiator_transfers = [(ex_secrethash, ex_initiated)],
     pay_cancelled_channels = []\<rparr>"

definition ex_locked_store :: chan_store where
  "ex_locked_store = [((ci_token_network_address ex_ci, 1), ex_locked)]"

lemma ex_payment_ok: "payment_ok ex_payment"
  by code_simp

theorem payment_stays_indexed_witness:
  "\<exists>p' S' g' evs. manager_state_transition ex_platform (Some ex_payment) (ReceiveSecretRequest ex_request)
      (ci_token_network_address ex_ci) ex_index ex_locked_store ex_prng 3 = Inr (Some p', S', g', evs) \<and> payment_ok p'"
proof -
  let ?m = "manager_state_transition ex_platform (Some ex_payment) (ReceiveSecretRequest ex_request)
      (ci_token_network_address ex_ci) ex_index ex_locked_store ex_prng 3"
  have "case ?m of Inr (Some p', r) \<Rightarrow> True | _ \<Rightarrow> False" by code_simp
  then obtain p' S' g' evs where r: "?m = Inr (Some p', S', g', evs)" by (auto split: sum.splits option.splits)
  with payment_stays_indexed [OF _ r] ex_payment_ok show ?thesis by simp
qed

text \<open>
  Once one transfer of a payment is paid, every other transfer of the payment counts as cancelled:
  a secret request for one of them is ignored, so at most one secret reaches the target from then on.
  But a secret reveal for one of them, whose secret may have been given to the target before, does not
  get past the assertion of the handler.
\<close>

theorem paid_payment_cancels_the_rest:
  assumes "payment_ok p"
    and "manager_state_transition E (Some p) (ReceiveSecretReveal r) tn A S g bn = Inr (Some p', S', g', evs)"
    and "evs \<noteq> []" and "transfer_exists p' sh" and "rsq_secrethash q = sh" and "rsr_secrethash r' = sh"
  shows "manager_state_transition E (Some p') (ReceiveSecretRequest q) tn A S'' g'' bn'' = Inr (Some p', S'', g'', [])
    \<and> manager_state_transition E (Some p') (ReceiveSecretReveal r') tn A S'' g'' bn'' = Inl AssertionError"
proof -
  let ?sh = "rsr_secrethash r"
  from assms(2) have h: "manager_handle_offchain_secretreveal E p r tn S g bn = Inr (p', S', g', evs)"
    and ne: "pay_initiator_transfers p' \<noteq> []"
    by (auto simp: manager_state_transition_def manager_dispatch_def with_payment_def
        manager_clear_if_finalized_def result_simps split: if_split_asm)
  from h assms(3) obtain it where it: "map_of (pay_initiator_transfers p) ?sh = Some it"
    by (cases "map_of (pay_initiator_transfers p) ?sh")
       (auto simp: manager_handle_offchain_secretreveal_def manager_handle_reveal_def)
  with h obtain p1 where s: "subdispatch_to_initiatortransfer E p ?sh it (ReceiveSecretReveal r) tn S g bn
      = Inr (p1, S', g', evs)"
    and p': "p' = (if \<not> transfer_exists p1 ?sh then cancel_other_transfers p1 else p1)"
    by (cases "it_transfer_state it = TRANSFER_CANCELLED")
       (auto simp: manager_handle_offchain_secretreveal_def manager_handle_reveal_def result_simps py_assert_def)
  have key: "lk_secrethash (lt_lock (it_transfer it)) = ?sh" using payment_ok_lookup [OF assms(1) it] by simp
  from s assms(3) have "pay_initiator_transfers p1 = AList.delete ?sh (pay_initiator_transfers p)"
    using initiator_reveals_same(1)
    by (fastforce simp: subdispatch_to_initiatortransfer_def initiator_state_transition_def result_simps key Let_def
        split: option.splits)
  then have "\<not> transfer_exists p1 ?sh" by (simp add: transfer_exists_def dict_mem_def delete_conv')
  with p' have p'': "pay_initiator_transfers p' = map (map_prod id (\<lambda>it. it\<lparr>it_transfer_state := TRANSFER_CANCELLED\<rparr>))
      (pay_initiator_transfers p1)" by (simp add: cancel_other_transfers_def)
  with assms(4) obtain it' where it': "map_of (pay_initiator_transfers p') sh = Some it'"
    "it_transfer_state it' = TRANSFER_CANCELLED"
    by (auto simp: transfer_exists_def dict_mem_def map_of_map_prod_id)
  with ne assms(5,6) show ?thesis
    by (simp add: manager_state_transition_def manager_dispatch_def with_payment_def manager_clear_if_finalized_def
        manager_handle_secretrequest_def manager_handle_offchain_secretreveal_def manager_handle_reveal_def
        py_assert_def)
qed

text \<open>A second transfer of the example payment, with its own secrethash.\<close>

definition ex_second :: initiator_transfer where
  "ex_second = ex_initiated\<lparr>
     it_transfer := (it_transfer ex_initiated)\<lparr>lt_lock := ex_lock\<lparr>lk_secrethash := replicate 32 8\<rparr>\<rparr>,
     it_transfer_description := ex_description\<lparr>td_secrethash := replicate 32 8\<rparr>,
     it_transfer_state := TRANSFER_SECRET_REVEALED\<rparr>"

definition ex_two_transfers :: initiator_payment where
  "ex_two_transfers = ex_payment\<lparr>pay_initiator_transfers :=
     [(ex_secrethash, ex_initiated), (replicate 32 8, ex_second)]\<rparr>"

theorem paid_payment_cancels_the_rest_witness:
  "\<exists>p' S' g' evs. manager_state_transition ex_platform (Some ex_two_transfers)
      (ReceiveSecretReveal (mk_receive_secret_reveal ex_platform ex_bob ex_secret))
      (ci_token_network_address ex_ci) ex_index ex_locked_store ex_prng 4 = Inr (Some p', S', g', evs)
    \<and> manager_state_transition ex_platform (Some p')
        (ReceiveSecretReveal \<lparr>rsr_sender = ex_bob, rsr_secret = [], rsr_secrethash = replicate 32 8\<rparr>)
        (ci_token_network_address ex_ci) ex_index S' g' 5 = Inl AssertionError"
proof -
  let ?m = "manager_state_transition ex_platform (Some ex_two_transfers)
      (ReceiveSecretReveal (mk_receive_secret_reveal ex_platform ex_bob ex_secret))
      (ci_token_network_address ex_ci) ex_index ex_locked_store ex_prng 4"
  let ?q = "ex_request\<lparr>rsq_secrethash := replicate 32 8\<rparr>"
    and ?r = "\<lparr>rsr_sender = ex_bob, rsr_secret = [], rsr_secrethash = replicate 32 8\<rparr>"
  have "case ?m of Inr (Some p', S', g', evs) \<Rightarrow> transfer_exists p' (replicate 32 8) \<and> evs \<noteq> [] | _ \<Rightarrow> False"
    by code_simp
  then obtain p' S' g' evs where m: "?m = Inr (Some p', S', g', evs)"
    and t: "evs \<noteq> []" "transfer_exists p' (replicate 32 8)" by (auto split: sum.splits option.splits)
  have "payment_ok ex_two_transfers" "rsq_secrethash ?q = replicate 32 8" "rsr_secrethash ?r = replicate 32 8"
    by code_simp+
  from paid_payment_cancels_the_rest [OF this(1) m t this(2,3)] m show ?thesis by blast
qed

end
