(* ===== verification/Mediation_Amount.thy ===== *)
theory Mediation_Amount
  imports Channel_Queries
begin

text \<open>
  The amount that a mediator forwards: \<open>find_intersection\<close> and \<open>get_amount_without_fees\<close> of
  \<open>transfer/mediated_transfer/mediator.py\<close>. An index of a Python list may be negative: \<open>xs[-1]\<close> is the
  last element.
\<close>

definition py_nth :: "'a list \<Rightarrow> int \<Rightarrow> 'a result" where
  "py_nth xs i =
     (if 0 \<le> i then nth_result xs (nat i)
      else if - i \<le> int (length xs) then Inr (xs ! (length xs - nat (- i))) else Inl IndexError)"

text \<open>The loop: \<open>i\<close> is the current index and \<open>y\<close> the value of the fee function there. The result is
  \<open>None\<close> at the end of the list.\<close>

function find_section ::
  "(rat \<Rightarrow> rat \<Rightarrow> bool) \<Rightarrow> interpolate \<Rightarrow> (int \<Rightarrow> rat result) \<Rightarrow> nat \<Rightarrow> rat \<Rightarrow> nat option result" where
  "find_section compare fee_func line i y =
     bind_result (line (int i)) (\<lambda>l.
     if compare y l then
       if Suc i = length (ip_x_list fee_func) then Inr None
       else if Suc i < length (ip_y_list fee_func)
       then find_section compare fee_func line (Suc i) (ip_y_list fee_func ! Suc i)
       else Inl IndexError
     else Inr (Some i))"
  by auto
termination
  by (relation "measure (\<lambda>(compare, fee_func, line, i, y). length (ip_y_list fee_func) - i)") auto

declare find_section.simps [simp del]

definition find_intersection :: "interpolate \<Rightarrow> (int \<Rightarrow> rat result) \<Rightarrow> rat option result" where
  "find_intersection fee_func line =
     bind_result (py_nth (ip_y_list fee_func) 0) (\<lambda>y.
     bind_result (line 0) (\<lambda>l.
     let compare = (if y < l then (<) else (>)) in
     bind_result (find_section compare fee_func line 0 y) (\<lambda>section.
     case section of
       None \<Rightarrow> Inr None
     | Some n \<Rightarrow>
         let i = int n in
         bind_result (py_nth (ip_x_list fee_func) (i - 1)) (\<lambda>x1.
         bind_result (py_nth (ip_x_list fee_func) i) (\<lambda>x2.
         bind_result (py_nth (ip_y_list fee_func) (i - 1)) (\<lambda>yf1.
         bind_result (py_nth (ip_y_list fee_func) i) (\<lambda>yf2.
         bind_result (line (i - 1)) (\<lambda>yl1.
         bind_result (line i) (\<lambda>yl2.
         raise_if ((yf2 - yf1) - (yl2 - yl1) = 0) ZeroDivisionError (
         Inr (Some ((yl1 - yf1) * (x2 - x1) / ((yf2 - yf1) - (yl2 - yl1)) + x1))))))))))))"

text \<open>The line through the amount: \<open>lambda i: amount_with_fees - fee_func.x_list[i]\<close>.\<close>

definition amount_line :: "interpolate \<Rightarrow> int \<Rightarrow> int \<Rightarrow> rat result" where
  "amount_line fee_func amount_with_fees i =
     bind_result (py_nth (ip_x_list fee_func) i) (\<lambda>x. Inr (of_int amount_with_fees - x))"

text \<open>\<open>UndefinedMediationFee\<close> of either call is caught.\<close>

definition get_amount_without_fees :: "int \<Rightarrow> channel \<Rightarrow> channel \<Rightarrow> int option result" where
  "get_amount_without_fees amount_with_fees channel_in channel_out =
     (let balance_in = get_balance (ch_our_state channel_in) (ch_partner_state channel_in);
          balance_out = get_balance (ch_our_state channel_out) (ch_partner_state channel_out);
          receivable = our_total_deposit channel_in + partner_total_deposit channel_in - balance_in
      in
      py_assert (fs_cap_fees (ch_fee_schedule channel_in) = fs_cap_fees (ch_fee_schedule channel_out)) (
      case bind_result (mediation_fee_func (ch_fee_schedule channel_in) (ch_fee_schedule channel_out)
             balance_in balance_out receivable amount_with_fees (fs_cap_fees (ch_fee_schedule channel_in)))
             (\<lambda>fee_func. find_intersection fee_func (amount_line fee_func amount_with_fees)) of
        Inl e \<Rightarrow> if e = UndefinedMediationFee then Inr None else Inl e
      | Inr None \<Rightarrow> Inr None
      | Inr (Some amount_without_fees) \<Rightarrow>
          if amount_without_fees \<le> 0 then Inr None
          else Inr (Some (round_half_even amount_without_fees))))"

end
