(* ===== verification/Mediator.thy ===== *)
theory Mediator
  imports Routes Mediation_Amount
begin

text \<open>
  The mediator of a payment: model of \<open>transfer/mediated_transfer/mediator.py\<close>. The channels are in the
  store of \<open>Routes\<close>; \<open>channelidentifiers_to_channels\<close> is the part of it that belongs to the token network
  \<open>tn\<close>. The pairs of a mediator are objects in a list; a loop that mutates them returns the new list.
\<close>

type_synonym mediator_transition =
  "(mediator_transfer option \<times> chan_store \<times> prng \<times> event list) result"
type_synonym mediating_transition = "(mediator_transfer \<times> chan_store \<times> prng \<times> event list) result"

subsection \<open>States of the pairs\<close>

definition payee_secret_known :: "payee_status \<Rightarrow> bool" where
  "payee_secret_known s \<longleftrightarrow> s \<in> {PAYEE_SECRET_REVEALED, PAYEE_CONTRACT_UNLOCK, PAYEE_BALANCE_PROOF}"

definition payer_secret_known :: "payer_status \<Rightarrow> bool" where
  "payer_secret_known s \<longleftrightarrow> s \<in> {PAYER_SECRET_REVEALED, PAYER_WAITING_UNLOCK, PAYER_BALANCE_PROOF}"

definition payee_transfer_paid :: "payee_status \<Rightarrow> bool" where
  "payee_transfer_paid s \<longleftrightarrow> s \<in> {PAYEE_CONTRACT_UNLOCK, PAYEE_BALANCE_PROOF}"

definition payer_transfer_paid :: "payer_status \<Rightarrow> bool" where
  "payer_transfer_paid s \<longleftrightarrow> s = PAYER_BALANCE_PROOF"

definition payee_transfer_final :: "payee_status \<Rightarrow> bool" where
  "payee_transfer_final s \<longleftrightarrow> s \<in> {PAYEE_CONTRACT_UNLOCK, PAYEE_BALANCE_PROOF, PAYEE_EXPIRED}"

definition payer_transfer_final :: "payer_status \<Rightarrow> bool" where
  "payer_transfer_final s \<longleftrightarrow> s \<in> {PAYER_BALANCE_PROOF, PAYER_EXPIRED}"

definition is_send_transfer_almost_equal :: "locked_transfer_unsigned \<Rightarrow> locked_transfer_signed \<Rightarrow> bool" where
  "is_send_transfer_almost_equal send received \<longleftrightarrow>
     lt_payment_identifier send = lt_payment_identifier received
     \<and> lt_token send = lt_token received
     \<and> lk_expiration (lt_lock send) = lk_expiration (lt_lock received)
     \<and> lk_secrethash (lt_lock send) = lk_secrethash (lt_lock received)
     \<and> lt_initiator send = lt_initiator received
     \<and> lt_target send = lt_target received"

definition has_secret_registration_started ::
  "channel list \<Rightarrow> mediation_pair list \<Rightarrow> secrethash \<Rightarrow> bool" where
  "has_secret_registration_started channel_states transfers_pair secrethash \<longleftrightarrow>
     list_ex (\<lambda>ch. is_secret_known_onchain (ch_partner_state ch) secrethash) channel_states
     \<or> list_ex (\<lambda>pair. mp_payer_state pair = PAYER_WAITING_SECRET_REVEAL) transfers_pair"

text \<open>The channel identifiers in the balance proofs of the two transfers of a pair.\<close>

definition payee_channel_id :: "mediation_pair \<Rightarrow> int" where
  "payee_channel_id pair =
     ci_channel_identifier (bp_canonical_identifier (ltu_balance_proof (mp_payee_transfer pair)))"

definition payer_channel_id :: "mediation_pair \<Rightarrow> int" where
  "payer_channel_id pair =
     ci_channel_identifier (bp_canonical_identifier (lts_balance_proof (mp_payer_transfer pair)))"

definition get_payee_channel :: "chan_store \<Rightarrow> address \<Rightarrow> mediation_pair \<Rightarrow> channel option" where
  "get_payee_channel S tn pair = channel_by_id S tn (payee_channel_id pair)"

definition get_payer_channel :: "chan_store \<Rightarrow> address \<Rightarrow> mediation_pair \<Rightarrow> channel option" where
  "get_payer_channel S tn pair = channel_by_id S tn (payer_channel_id pair)"

definition is_pending_pair :: "mediation_pair \<Rightarrow> bool" where
  "is_pending_pair pair \<longleftrightarrow>
     \<not> payee_transfer_final (mp_payee_state pair) \<or> \<not> payer_transfer_final (mp_payer_state pair)"

definition get_pending_transfer_pairs :: "mediation_pair list \<Rightarrow> mediation_pair list" where
  "get_pending_transfer_pairs transfers_pair = filter is_pending_pair transfers_pair"

subsection \<open>The check at the end of a transition\<close>

text \<open>The membership of the states in the valid states is given by their types.\<close>

fun check_pairs :: "chan_store \<Rightarrow> address \<Rightarrow> mediation_pair list \<Rightarrow> unit result" where
  "check_pairs S tn [] = Inr ()"
| "check_pairs S tn (pair # pairs) =
     (case get_payee_channel S tn pair of
        None \<Rightarrow> check_pairs S tn pairs
      | Some ch \<Rightarrow>
          py_assert (is_send_transfer_almost_equal (mp_payee_transfer pair) (mp_payer_transfer pair)) (
          check_pairs S tn pairs))"

fun check_refunds :: "chan_store \<Rightarrow> address \<Rightarrow> (mediation_pair \<times> mediation_pair) list \<Rightarrow> unit result" where
  "check_refunds S tn [] = Inr ()"
| "check_refunds S tn ((original, refund) # pairs) =
     py_assert (mp_payee_address original = payer_address (mp_payer_transfer refund)) (
     case get_payer_channel S tn refund of
       None \<Rightarrow> check_refunds S tn pairs
     | Some ch \<Rightarrow>
         py_assert (is_send_transfer_almost_equal (mp_payee_transfer original) (mp_payer_transfer refund)) (
         check_refunds S tn pairs))"

definition mediator_sanity_check :: "mediator_transfer \<Rightarrow> chan_store \<Rightarrow> address \<Rightarrow> unit result" where
  "mediator_sanity_check state S tn =
     (let pairs = mt_transfers_pair state in
      py_assert (list_ex (\<lambda>pair. payee_transfer_paid (mp_payee_state pair)
          \<or> payer_transfer_paid (mp_payer_state pair)) pairs \<longrightarrow> mt_secret state \<noteq> None) (
      py_assert (case pairs of
          [] \<Rightarrow> True
        | first_pair # _ \<Rightarrow> mt_secrethash state = lk_secrethash (lt_lock (mp_payer_transfer first_pair))) (
      bind_result (check_pairs S tn pairs) (\<lambda>_.
      bind_result (check_refunds S tn (zip (butlast pairs) (tl pairs))) (\<lambda>_.
      case mt_waiting_transfer state of
        None \<Rightarrow> Inr ()
      | Some waiting \<Rightarrow>
          if pairs = [] then Inr ()
          else
            case get_payee_channel S tn (last pairs) of
              None \<Rightarrow> Inr ()
            | Some ch \<Rightarrow>
                py_assert (is_send_transfer_almost_equal (mp_payee_transfer (last pairs)) (wt_transfer waiting))
                  (Inr ()))))))"

definition waiting_channel :: "chan_store \<Rightarrow> address \<Rightarrow> waiting_transfer \<Rightarrow> channel option" where
  "waiting_channel S tn waiting = channel_by_id S tn
     (ci_channel_identifier (bp_canonical_identifier (lts_balance_proof (wt_transfer waiting))))"

text \<open>The mediator task may go when no channel has the lock any more.\<close>

definition mediator_is_finalized :: "mediator_transfer \<Rightarrow> chan_store \<Rightarrow> address \<Rightarrow> bool" where
  "mediator_is_finalized state S tn \<longleftrightarrow>
     list_all (\<lambda>pair.
       (case get_payer_channel S tn pair of None \<Rightarrow> True
        | Some ch \<Rightarrow> \<not> is_lock_pending (ch_partner_state ch) (mt_secrethash state))
       \<and> (case get_payee_channel S tn pair of None \<Rightarrow> True
        | Some ch \<Rightarrow> \<not> is_lock_pending (ch_our_state ch) (mt_secrethash state))) (mt_transfers_pair state)
     \<and> (case mt_waiting_transfer state of None \<Rightarrow> True
        | Some waiting \<Rightarrow>
          (case waiting_channel S tn waiting of None \<Rightarrow> True
           | Some ch \<Rightarrow> \<not> is_lock_pending (ch_partner_state ch) (mt_secrethash state)))"

definition mediator_clear_if_finalized :: "address \<Rightarrow> mediator_transition \<Rightarrow> mediator_transition" where
  "mediator_clear_if_finalized tn m =
     bind_result m (\<lambda>(state, S, g, events).
     case state of
       None \<Rightarrow> Inr (None, S, g, events)
     | Some s \<Rightarrow> Inr (if mediator_is_finalized s S tn then None else Some s, S, g, events))"

subsection \<open>Forwarding\<close>

text \<open>The two channels are given by reference, since they may be the same object.\<close>

definition forward_transfer_pair ::
  "platform \<Rightarrow> locked_transfer_signed \<Rightarrow> channel \<Rightarrow> chan_ref \<Rightarrow> channel \<Rightarrow> chan_store \<Rightarrow> prng \<Rightarrow> int \<Rightarrow>
   (mediation_pair option \<times> chan_store \<times> prng \<times> event list) result" where
  "forward_transfer_pair E payer_transfer payer_channel r payee_channel S g block_number =
     bind_result (get_amount_without_fees (lk_amount (lt_lock payer_transfer)) payer_channel payee_channel)
       (\<lambda>amount_after_fees.
     case amount_after_fees of
       None \<Rightarrow> Inr (None, S, g, [])
     | Some amount \<Rightarrow>
         if amount = 0 then Inr (None, S, g, [])
         else
           let lock_timeout = lk_expiration (lt_lock payer_transfer) - block_number in
           if \<not> is_channel_usable_for_mediation E payee_channel amount lock_timeout
           then Inr (None, S, g, [])
           else
             py_assert (ch_settle_timeout payee_channel \<ge> lock_timeout) (
             let (message_identifier, g') = message_identifier_from_prng g;
                 recipient_metadata = get_address_metadata (es_address (ch_partner_state payee_channel))
                   (lt_route_states payer_transfer)
             in
             bind_result (send_lockedtransfer E payee_channel (lt_initiator payer_transfer)
                 (lt_target payer_transfer) amount message_identifier (lt_payment_identifier payer_transfer)
                 (lk_expiration (lt_lock payer_transfer)) (lt_secret payer_transfer)
                 (lk_secrethash (lt_lock payer_transfer)) (lt_route_states payer_transfer)
                 recipient_metadata (lt_metadata payer_transfer)) (\<lambda>(payee_channel', lockedtransfer_event).
             Inr (Some (mk_mediation_pair payer_transfer (es_address (ch_partner_state payee_channel'))
                    (slt_transfer lockedtransfer_event)),
                  AList.update r payee_channel' S, g', [SendLockedTransfer lockedtransfer_event]))))"

text \<open>The loop over the candidate routes.\<close>

fun mediate_routes ::
  "platform \<Rightarrow> channel \<Rightarrow> partner_index \<Rightarrow> locked_transfer_signed \<Rightarrow> int \<Rightarrow> route_state list \<Rightarrow> chan_store \<Rightarrow>
   prng \<Rightarrow> (mediation_pair option \<times> chan_store \<times> prng \<times> event list) result" where
  "mediate_routes E payer_channel A payer_transfer block_number [] S g = Inr (None, S, g, [])"
| "mediate_routes E payer_channel A payer_transfer block_number (route # routes) S g =
     (let our_address = es_address (ch_our_state payer_channel) in
      case next_hop route our_address of
        None \<Rightarrow> mediate_routes E payer_channel A payer_transfer block_number routes S g
      | Some a \<Rightarrow>
        let target_token_network = (case map_of (rs_swaps route) our_address of
              None \<Rightarrow> ch_token_network_address payer_channel | Some t \<Rightarrow> t)
        in
        case channel_by_partner A S target_token_network a of
          None \<Rightarrow> mediate_routes E payer_channel A payer_transfer block_number routes S g
        | Some (r, payee_channel) \<Rightarrow>
          bind_result (forward_transfer_pair E payer_transfer payer_channel r payee_channel S g block_number)
            (\<lambda>(pair, S', g', events).
          case pair of
            Some p \<Rightarrow> Inr (Some p, S', g', events)
          | None \<Rightarrow> mediate_routes E payer_channel A payer_transfer block_number routes S' g'))"

definition mediate_transfer ::
  "platform \<Rightarrow> mediator_transfer \<Rightarrow> channel \<Rightarrow> partner_index \<Rightarrow> chan_store \<Rightarrow> prng \<Rightarrow>
   locked_transfer_signed \<Rightarrow> int \<Rightarrow> mediating_transition" where
  "mediate_transfer E state payer_channel A S g payer_transfer block_number =
     py_assert (es_address (ch_partner_state payer_channel) = bp_sender (lts_balance_proof payer_transfer)) (
     let candidate_route_states = filter_acceptable_routes (mt_routes state) (mt_refunded_channels state)
           A S (ch_token_network_address payer_channel) (es_address (ch_our_state payer_channel))
     in
     bind_result (mediate_routes E payer_channel A payer_transfer block_number candidate_route_states S g)
       (\<lambda>(pair, S', g', events).
     case pair of
       Some p \<Rightarrow> Inr (state\<lparr>mt_transfers_pair := mt_transfers_pair state @ [p]\<rparr>, S', g', events)
     | None \<Rightarrow> Inr (state\<lparr>mt_waiting_transfer :=
         Some \<lparr>wt_transfer = payer_transfer, wt_state = WAITING\<rparr>\<rparr>, S', g', [])))"

subsection \<open>Secrets\<close>

text \<open>\<open>if channel: register_...(channel)\<close>, for one channel of the token network.\<close>

definition at_channel ::
  "address \<Rightarrow> int \<Rightarrow> (channel \<Rightarrow> channel result) \<Rightarrow> chan_store \<Rightarrow> chan_store result" where
  "at_channel tn cid f S =
     (case channel_by_id S tn cid of
        None \<Rightarrow> Inr S
      | Some ch \<Rightarrow> bind_result (f ch) (\<lambda>ch'. Inr (set_channel tn cid ch' S)))"

fun at_pair_channels ::
  "address \<Rightarrow> (channel \<Rightarrow> channel result) \<Rightarrow> mediation_pair list \<Rightarrow> chan_store \<Rightarrow> chan_store result" where
  "at_pair_channels tn f [] S = Inr S"
| "at_pair_channels tn f (pair # pairs) S =
     bind_result (at_channel tn (payer_channel_id pair) f S) (\<lambda>S1.
     bind_result (at_channel tn (payee_channel_id pair) f S1) (\<lambda>S2.
     at_pair_channels tn f pairs S2))"

definition set_secret ::
  "mediator_transfer \<Rightarrow> chan_store \<Rightarrow> address \<Rightarrow> (channel \<Rightarrow> channel result) \<Rightarrow> secret \<Rightarrow> secrethash \<Rightarrow>
   (mediator_transfer \<times> chan_store \<times> event list) result" where
  "set_secret state S tn register secret secrethash =
     bind_result (at_pair_channels tn register (mt_transfers_pair state) S) (\<lambda>S1.
     let state' = state\<lparr>mt_secret := Some secret\<rparr> in
     case mt_waiting_transfer state of
       None \<Rightarrow> Inr (state', S1, [])
     | Some waiting \<Rightarrow>
         bind_result (at_channel tn (ci_channel_identifier (bp_canonical_identifier
             (lts_balance_proof (wt_transfer waiting)))) register S1) (\<lambda>S2.
         Inr (state', S2, [EventUnexpectedSecretReveal secrethash
           (Reason ''The mediator has a waiting transfer.'')])))"

definition set_offchain_secret ::
  "mediator_transfer \<Rightarrow> chan_store \<Rightarrow> address \<Rightarrow> secret \<Rightarrow> secrethash \<Rightarrow>
   (mediator_transfer \<times> chan_store \<times> event list) result" where
  "set_offchain_secret state S tn secret secrethash =
     set_secret state S tn (\<lambda>ch. Inr (register_offchain_secret ch secret secrethash)) secret secrethash"

definition set_onchain_secret ::
  "mediator_transfer \<Rightarrow> chan_store \<Rightarrow> address \<Rightarrow> secret \<Rightarrow> secrethash \<Rightarrow> int \<Rightarrow>
   (mediator_transfer \<times> chan_store \<times> event list) result" where
  "set_onchain_secret state S tn secret secrethash block_number =
     set_secret state S tn (\<lambda>ch. register_onchain_secret ch secret secrethash block_number True) secret
       secrethash"

definition set_offchain_reveal_state :: "mediation_pair list \<Rightarrow> address \<Rightarrow> mediation_pair list" where
  "set_offchain_reveal_state transfers_pair payee_address =
     map (\<lambda>pair. if mp_payee_address pair = payee_address
       then pair\<lparr>mp_payee_state := PAYEE_SECRET_REVEALED\<rparr> else pair) transfers_pair"

subsection \<open>Events\<close>

text \<open>One iteration of the loop over the pending pairs; a pair that is not pending is left alone.\<close>

definition expire_pair ::
  "chan_store \<Rightarrow> address \<Rightarrow> int \<Rightarrow> mediation_pair \<Rightarrow> mediation_pair \<times> event list" where
  "expire_pair S tn block_number pair =
     (if is_pending_pair pair then
        (case get_payer_channel S tn pair of
           None \<Rightarrow> (pair, [])
         | Some payer_channel \<Rightarrow>
           if is_transfer_expired (mp_payer_transfer pair) payer_channel block_number
           then (pair\<lparr>mp_payer_state := PAYER_EXPIRED\<rparr>,
                 [EventUnlockClaimFailed (lt_payment_identifier (mp_payer_transfer pair))
                    (lk_secrethash (lt_lock (mp_payer_transfer pair))) (Reason ''lock expired'')])
           else (pair, []))
      else (pair, []))"

definition expire_waiting :: "int \<Rightarrow> waiting_transfer \<Rightarrow> waiting_transfer \<times> event list" where
  "expire_waiting block_number waiting =
     (let transfer = wt_transfer waiting;
          expiration_threshold = get_receiver_expiration_threshold (lk_expiration (lt_lock transfer))
      in
      if wt_state waiting \<noteq> WAITING_EXPIRED \<and> expiration_threshold \<le> block_number
      then (waiting\<lparr>wt_state := WAITING_EXPIRED\<rparr>,
            [EventUnlockClaimFailed (lt_payment_identifier transfer) (lk_secrethash (lt_lock transfer))
               (Reason ''lock expired'')])
      else (waiting, []))"

definition events_for_expired_pairs ::
  "chan_store \<Rightarrow> address \<Rightarrow> mediation_pair list \<Rightarrow> waiting_transfer option \<Rightarrow> int \<Rightarrow>
   mediation_pair list \<times> waiting_transfer option \<times> event list" where
  "events_for_expired_pairs S tn transfers_pair waiting block_number =
     (let pairs = map (expire_pair S tn block_number) transfers_pair;
          events = concat (map snd pairs)
      in
      case waiting of
        None \<Rightarrow> (map fst pairs, None, events)
      | Some w \<Rightarrow>
          let (w', waiting_events) = expire_waiting block_number w
          in (map fst pairs, Some w', events @ waiting_events))"

text \<open>The two loops over the reversed list of pairs.\<close>

fun events_for_secretreveal ::
  "platform \<Rightarrow> mediation_pair list \<Rightarrow> secret \<Rightarrow> prng \<Rightarrow> mediation_pair list \<times> prng \<times> event list" where
  "events_for_secretreveal E [] secret g = ([], g, [])"
| "events_for_secretreveal E (pair # pairs) secret g =
     (let (pairs', g1, events) = events_for_secretreveal E pairs secret g;
          should_send_secret = (payee_secret_known (mp_payee_state pair)
            \<and> \<not> payer_secret_known (mp_payer_state pair) \<and> mp_payer_state pair = PAYER_PENDING)
      in
      if should_send_secret then
        let (message_identifier, g2) = message_identifier_from_prng g1;
            payer_transfer = mp_payer_transfer pair
        in (pair\<lparr>mp_payer_state := PAYER_SECRET_REVEALED\<rparr> # pairs', g2,
            events @ [mk_send_secret_reveal E (header (bp_sender (lts_balance_proof payer_transfer))
              (payer_address_metadata payer_transfer) CANONICAL_IDENTIFIER_UNORDERED_QUEUE
              message_identifier) secret])
      else (pair # pairs', g1, events))"

fun events_for_balanceproof ::
  "platform \<Rightarrow> address \<Rightarrow> mediation_pair list \<Rightarrow> int \<Rightarrow> secret \<Rightarrow> secrethash \<Rightarrow> chan_store \<Rightarrow> prng \<Rightarrow>
   (mediation_pair list \<times> chan_store \<times> prng \<times> event list) result" where
  "events_for_balanceproof E tn [] block_number secret secrethash S g = Inr ([], S, g, [])"
| "events_for_balanceproof E tn (pair # pairs) block_number secret secrethash S g =
     bind_result (events_for_balanceproof E tn pairs block_number secret secrethash S g)
       (\<lambda>(pairs', S1, g1, events).
     let payee_knows_secret = payee_secret_known (mp_payee_state pair);
         payee_payed = payee_transfer_paid (mp_payee_state pair)
     in
     bind_result
       (case get_payer_channel S1 tn pair of
          None \<Rightarrow> Inr False
        | Some payer_channel \<Rightarrow>
            bind_result (is_safe_to_wait (lk_expiration (lt_lock (mp_payer_transfer pair)))
              (ch_reveal_timeout payer_channel) block_number) (\<lambda>safe. Inr (soe_ok safe)))
       (\<lambda>is_safe_to_send_balanceproof.
     case get_payee_channel S1 tn pair of
       None \<Rightarrow> Inr (pair # pairs', S1, g1, events)
     | Some payee_channel \<Rightarrow>
       if get_status payee_channel = STATE_OPENED \<and> payee_knows_secret \<and> \<not> payee_payed
          \<and> is_safe_to_send_balanceproof
       then
         let (message_identifier, g2) = message_identifier_from_prng g1 in
         bind_result (send_unlock E payee_channel message_identifier
             (lt_payment_identifier (mp_payee_transfer pair)) secret secrethash block_number
             (get_address_metadata (mp_payee_address pair) (lt_route_states (mp_payee_transfer pair))))
           (\<lambda>(payee_channel', unlock_lock).
         Inr (pair\<lparr>mp_payee_state := PAYEE_BALANCE_PROOF\<rparr> # pairs',
              set_channel tn (payee_channel_id pair) payee_channel' S1, g2,
              events @ [SendUnlock unlock_lock,
                EventUnlockSuccess (lt_payment_identifier (mp_payer_transfer pair))
                  (lk_secrethash (lt_lock (mp_payer_transfer pair)))]))
       else Inr (pair # pairs', S1, g1, events)))"

definition payer_channels :: "chan_store \<Rightarrow> address \<Rightarrow> mediation_pair list \<Rightarrow> channel list" where
  "payer_channels S tn transfers_pair = List.map_filter (get_payer_channel S tn) transfers_pair"

fun dangerzone_loop ::
  "chan_store \<Rightarrow> address \<Rightarrow> int \<Rightarrow> block_hash \<Rightarrow> bool \<Rightarrow> mediation_pair list \<Rightarrow>
   (mediation_pair list \<times> event list) result" where
  "dangerzone_loop S tn block_number block_hash transaction_sent [] = Inr ([], [])"
| "dangerzone_loop S tn block_number block_hash transaction_sent (pair # pairs) =
     (case (if is_pending_pair pair then get_payer_channel S tn pair else None) of
        None \<Rightarrow>
          bind_result (dangerzone_loop S tn block_number block_hash transaction_sent pairs)
            (\<lambda>(pairs', events). Inr (pair # pairs', events))
      | Some payer_channel \<Rightarrow>
          let l = lt_lock (mp_payer_transfer pair) in
          bind_result (is_safe_to_wait (lk_expiration l) (ch_reveal_timeout payer_channel) block_number)
            (\<lambda>safe_to_wait.
          if \<not> soe_ok safe_to_wait \<and> is_secret_known (ch_partner_state payer_channel) (lk_secrethash l) then
            bind_result
              (if transaction_sent then Inr []
               else
                 case get_secret (ch_partner_state payer_channel) (lk_secrethash l) of
                   None \<Rightarrow> Inl AssertionError
                 | Some secret \<Rightarrow>
                     py_assert (secret \<noteq> []) (
                     Inr (secret_registry_events_for_onchain_secretreveal payer_channel secret
                       (lk_expiration l) block_hash)))
              (\<lambda>reveal_events.
            bind_result (dangerzone_loop S tn block_number block_hash True pairs) (\<lambda>(pairs', events).
            Inr (pair\<lparr>mp_payer_state := PAYER_WAITING_SECRET_REVEAL\<rparr> # pairs', reveal_events @ events)))
          else
            bind_result (dangerzone_loop S tn block_number block_hash transaction_sent pairs)
              (\<lambda>(pairs', events). Inr (pair # pairs', events))))"

definition events_for_onchain_secretreveal_if_dangerzone ::
  "chan_store \<Rightarrow> address \<Rightarrow> secrethash \<Rightarrow> mediation_pair list \<Rightarrow> int \<Rightarrow> block_hash \<Rightarrow>
   (mediation_pair list \<times> event list) result" where
  "events_for_onchain_secretreveal_if_dangerzone S tn secrethash transfers_pair block_number block_hash =
     dangerzone_loop S tn block_number block_hash
       (has_secret_registration_started (payer_channels S tn transfers_pair) transfers_pair secrethash)
       transfers_pair"

fun closed_loop ::
  "chan_store \<Rightarrow> address \<Rightarrow> secret \<Rightarrow> secrethash \<Rightarrow> block_hash \<Rightarrow> bool \<Rightarrow> mediation_pair list \<Rightarrow>
   mediation_pair list \<times> event list" where
  "closed_loop S tn secret secrethash block_hash transaction_sent [] = ([], [])"
| "closed_loop S tn secret secrethash block_hash transaction_sent (pair # pairs) =
     (case (if is_pending_pair pair then get_payer_channel S tn pair else None) of
        None \<Rightarrow>
          let (pairs', events) = closed_loop S tn secret secrethash block_hash transaction_sent pairs
          in (pair # pairs', events)
      | Some payer_channel \<Rightarrow>
          if get_status payer_channel = STATE_CLOSED then
            let (reveal_events, sent) =
                  (case (if transaction_sent then None else get_lock (ch_partner_state payer_channel) secrethash) of
                     None \<Rightarrow> ([], transaction_sent)
                   | Some l \<Rightarrow> (secret_registry_events_for_onchain_secretreveal payer_channel secret
                       (lk_expiration l) block_hash, True));
                (pairs', events) = closed_loop S tn secret secrethash block_hash sent pairs
            in (pair\<lparr>mp_payer_state := PAYER_WAITING_SECRET_REVEAL\<rparr> # pairs', reveal_events @ events)
          else
            let (pairs', events) = closed_loop S tn secret secrethash block_hash transaction_sent pairs
            in (pair # pairs', events))"

definition events_for_onchain_secretreveal_if_closed ::
  "chan_store \<Rightarrow> address \<Rightarrow> mediation_pair list \<Rightarrow> secret \<Rightarrow> secrethash \<Rightarrow> block_hash \<Rightarrow>
   mediation_pair list \<times> event list" where
  "events_for_onchain_secretreveal_if_closed S tn transfers_pair secret secrethash block_hash =
     closed_loop S tn secret secrethash block_hash
       (has_secret_registration_started (payer_channels S tn transfers_pair) transfers_pair secrethash)
       transfers_pair"

text \<open>One iteration of the loop of \<open>events_to_remove_expired_locks\<close>: \<open>routes\<close> are those of the first
  payer transfer.\<close>

definition remove_expired_lock ::
  "platform \<Rightarrow> address \<Rightarrow> secrethash \<Rightarrow> route_state list \<Rightarrow> int \<Rightarrow> mediation_pair \<Rightarrow> chan_store \<Rightarrow> prng \<Rightarrow>
   (mediation_pair \<times> chan_store \<times> prng \<times> event list) result" where
  "remove_expired_lock E tn secrethash routes block_number pair S g =
     (case get_payee_channel S tn pair of
        None \<Rightarrow> Inr (pair, S, g, [])
      | Some ch \<Rightarrow>
        let our = ch_our_state ch in
        bind_result
          (if dict_mem secrethash (es_lockedlocks our) then
             py_assert (\<not> dict_mem secrethash (es_unlockedlocks our)) (
             Inr (map_of (es_lockedlocks our) secrethash))
           else Inr (map_option up_lock (map_of (es_unlockedlocks our) secrethash)))
          (\<lambda>lock.
        case lock of
          None \<Rightarrow> Inr (pair, S, g, [])
        | Some l \<Rightarrow>
          let has_lock_expired = is_lock_expired our l block_number
                (get_sender_expiration_threshold (lk_expiration l));
              payee_address_metadata = get_address_metadata (mp_payee_address pair) routes
          in
          if soe_ok has_lock_expired \<and> get_status ch = STATE_OPENED then
            bind_result (send_lock_expired E ch l g payee_address_metadata)
              (\<lambda>(ch', g', expired_lock_events).
            Inr (pair\<lparr>mp_payee_state := PAYEE_EXPIRED\<rparr>, set_channel tn (payee_channel_id pair) ch' S, g',
                 map SendLockExpired expired_lock_events @
                 [EventUnlockFailed (lt_payment_identifier (mp_payee_transfer pair))
                    (lk_secrethash (lt_lock (mp_payee_transfer pair))) (Reason ''lock expired'')]))
          else Inr (pair, S, g, [])))"

fun remove_expired_locks ::
  "platform \<Rightarrow> address \<Rightarrow> secrethash \<Rightarrow> route_state list \<Rightarrow> int \<Rightarrow> mediation_pair list \<Rightarrow> chan_store \<Rightarrow> prng \<Rightarrow>
   (mediation_pair list \<times> chan_store \<times> prng \<times> event list) result" where
  "remove_expired_locks E tn secrethash routes block_number [] S g = Inr ([], S, g, [])"
| "remove_expired_locks E tn secrethash routes block_number (pair # pairs) S g =
     bind_result (remove_expired_lock E tn secrethash routes block_number pair S g)
       (\<lambda>(pair', S1, g1, events1).
     bind_result (remove_expired_locks E tn secrethash routes block_number pairs S1 g1)
       (\<lambda>(pairs', S2, g2, events2).
     Inr (pair' # pairs', S2, g2, events1 @ events2)))"

definition events_to_remove_expired_locks ::
  "platform \<Rightarrow> mediator_transfer \<Rightarrow> address \<Rightarrow> int \<Rightarrow> chan_store \<Rightarrow> prng \<Rightarrow> mediating_transition" where
  "events_to_remove_expired_locks E state tn block_number S g =
     (case mt_transfers_pair state of
        [] \<Rightarrow> Inr (state, S, g, [])
      | first # _ \<Rightarrow>
        bind_result (remove_expired_locks E tn (mt_secrethash state)
            (lt_route_states (mp_payer_transfer first)) block_number (mt_transfers_pair state) S g)
          (\<lambda>(pairs, S', g', events).
        Inr (state\<lparr>mt_transfers_pair := pairs\<rparr>, S', g', events)))"

definition secret_learned ::
  "platform \<Rightarrow> mediator_transfer \<Rightarrow> address \<Rightarrow> chan_store \<Rightarrow> prng \<Rightarrow> int \<Rightarrow> block_hash \<Rightarrow> secret \<Rightarrow> secrethash \<Rightarrow>
   address \<Rightarrow> mediating_transition" where
  "secret_learned E state tn S g block_number block_hash secret secrethash payee_address =
     bind_result (set_offchain_secret state S tn secret secrethash) (\<lambda>(state1, S1, secret_reveal_events).
     let pairs1 = set_offchain_reveal_state (mt_transfers_pair state1) payee_address;
         (pairs2, onchain_secret_reveal) =
           events_for_onchain_secretreveal_if_closed S1 tn pairs1 secret secrethash block_hash;
         (pairs3, g1, offchain_secret_reveal) = events_for_secretreveal E pairs2 secret g
     in
     bind_result (events_for_balanceproof E tn pairs3 block_number secret secrethash S1 g1)
       (\<lambda>(pairs4, S2, g2, balance_proof).
     Inr (state1\<lparr>mt_transfers_pair := pairs4\<rparr>, S2, g2,
          secret_reveal_events @ offchain_secret_reveal @ balance_proof @ onchain_secret_reveal)))"

subsection \<open>Handlers\<close>

definition mediator_handle_init ::
  "platform \<Rightarrow> action_init_mediator \<Rightarrow> address \<Rightarrow> partner_index \<Rightarrow> chan_store \<Rightarrow> prng \<Rightarrow> int \<Rightarrow>
   mediator_transition" where
  "mediator_handle_init E state_change tn A S g block_number =
     (let cid = hop_channel_identifier (aim_from_hop state_change);
          from_transfer = aim_from_transfer state_change
      in
      case channel_by_id S tn cid of
        None \<Rightarrow> Inr (None, S, g, [])
      | Some payer_channel \<Rightarrow>
        let state = \<lparr>mt_secrethash = lk_secrethash (lt_lock from_transfer),
              mt_routes = aim_candidate_route_states state_change, mt_refunded_channels = [],
              mt_secret = None, mt_transfers_pair = [], mt_waiting_transfer = None\<rparr>
        in
        bind_result (handle_receive_lockedtransfer E payer_channel from_transfer
            (payer_address_metadata from_transfer)) (\<lambda>(payer_channel', is_valid, events, _).
        let S1 = set_channel tn cid payer_channel' S in
        if \<not> is_valid then Inr (None, S1, g, events)
        else
          bind_result (mediate_transfer E state payer_channel' A S1 g from_transfer block_number)
            (\<lambda>(state', S2, g2, mediate_events).
          Inr (Some state', S2, g2, events @ mediate_events))))"

text \<open>The first part of \<open>handle_block\<close>: a waiting transfer is tried again.\<close>

definition retry_waiting_transfer ::
  "platform \<Rightarrow> mediator_transfer \<Rightarrow> address \<Rightarrow> partner_index \<Rightarrow> chan_store \<Rightarrow> prng \<Rightarrow> int \<Rightarrow>
   mediating_transition" where
  "retry_waiting_transfer E state tn A S g block_number =
     (case mt_waiting_transfer state of
        None \<Rightarrow> Inr (state, S, g, [])
      | Some waiting \<Rightarrow>
        (case waiting_channel S tn waiting of
           None \<Rightarrow> Inr (state, S, g, [])
         | Some payer_channel \<Rightarrow>
           bind_result (mediate_transfer E state payer_channel A S g (wt_transfer waiting) block_number)
             (\<lambda>(state', S', g', events).
           let mediation_happened = list_ex (\<lambda>e.
                 case e of
                   SendLockedTransfer t \<Rightarrow> lk_secrethash (lt_lock (slt_transfer t))
                     = lk_secrethash (lt_lock (wt_transfer waiting))
                 | _ \<Rightarrow> False) events
           in Inr (if mediation_happened then state'\<lparr>mt_waiting_transfer := None\<rparr> else state', S', g', events))))"

definition mediator_handle_block ::
  "platform \<Rightarrow> mediator_transfer \<Rightarrow> block \<Rightarrow> address \<Rightarrow> partner_index \<Rightarrow> chan_store \<Rightarrow> prng \<Rightarrow>
   mediating_transition" where
  "mediator_handle_block E state b tn A S g =
     bind_result (retry_waiting_transfer E state tn A S g (blk_block_number b))
       (\<lambda>(state1, S1, g1, mediate_events).
     bind_result (events_to_remove_expired_locks E state1 tn (blk_block_number b) S1 g1)
       (\<lambda>(state2, S2, g2, expired_locks_events).
     bind_result (events_for_onchain_secretreveal_if_dangerzone S2 tn (mt_secrethash state2)
         (mt_transfers_pair state2) (blk_block_number b) (blk_block_hash b)) (\<lambda>(pairs3, secret_reveal_events).
     let (pairs4, waiting, unlock_fail_events) =
           events_for_expired_pairs S2 tn pairs3 (mt_waiting_transfer state2) (blk_block_number b)
     in Inr (state2\<lparr>mt_transfers_pair := pairs4, mt_waiting_transfer := waiting\<rparr>, S2, g2,
             mediate_events @ unlock_fail_events @ secret_reveal_events @ expired_locks_events))))"

text \<open>\<open>transfers_pair[-1]\<close> of an empty list raises.\<close>

definition mediator_handle_refundtransfer ::
  "platform \<Rightarrow> mediator_transfer \<Rightarrow> receive_transfer_refund \<Rightarrow> address \<Rightarrow> partner_index \<Rightarrow> chan_store \<Rightarrow>
   prng \<Rightarrow> int \<Rightarrow> mediating_transition" where
  "mediator_handle_refundtransfer E state r tn A S g block_number =
     (if mt_secret state \<noteq> None then Inr (state, S, g, [])
      else
        bind_result (py_nth (mt_transfers_pair state) (- 1)) (\<lambda>transfer_pair.
        let payer_transfer = rtr_transfer r;
            cid = ci_channel_identifier (bp_canonical_identifier (lts_balance_proof payer_transfer))
        in
        case channel_by_id S tn cid of
          None \<Rightarrow> Inr (state, S, g, [])
        | Some payer_channel \<Rightarrow>
          bind_result (handle_refundtransfer E (mp_payee_transfer transfer_pair) payer_channel r)
            (\<lambda>(payer_channel', is_valid, channel_events, _).
          let S1 = set_channel tn cid payer_channel' S in
          if \<not> is_valid then Inr (state, S1, g, channel_events)
          else
            bind_result (mediate_transfer E
                (state\<lparr>mt_refunded_channels := mt_refunded_channels state @ [channel_identifier payer_channel']\<rparr>)
                payer_channel' A S1 g payer_transfer block_number) (\<lambda>(state', S2, g2, events).
            Inr (state', S2, g2, channel_events @ events)))))"

definition mediator_handle_offchain_secretreveal ::
  "platform \<Rightarrow> mediator_transfer \<Rightarrow> receive_secret_reveal \<Rightarrow> address \<Rightarrow> chan_store \<Rightarrow> prng \<Rightarrow> int \<Rightarrow>
   block_hash \<Rightarrow> mediating_transition" where
  "mediator_handle_offchain_secretreveal E state r tn S g block_number block_hash =
     (let is_valid_reveal = is_valid_secret_reveal (rsr_secrethash r) (mt_secrethash state);
          is_secret_unknown = (mt_secret state = None)
      in
      if mt_transfers_pair state = [] then Inr (state, S, g, [])
      else
        let transfer_pair = last (mt_transfers_pair state) in
        case get_payer_channel S tn transfer_pair of
          None \<Rightarrow> Inr (state, S, g, [])
        | Some payer_channel \<Rightarrow>
          if is_secret_unknown \<and> is_valid_reveal
             \<and> \<not> is_transfer_expired (mp_payer_transfer transfer_pair) payer_channel block_number
          then secret_learned E state tn S g block_number block_hash (rsr_secret r) (rsr_secrethash r)
                 (rsr_sender r)
          else Inr (state, S, g, []))"

definition mediator_handle_onchain_secretreveal ::
  "platform \<Rightarrow> mediator_transfer \<Rightarrow> contract_receive_secret_reveal \<Rightarrow> address \<Rightarrow> chan_store \<Rightarrow> prng \<Rightarrow>
   mediating_transition" where
  "mediator_handle_onchain_secretreveal E state r tn S g =
     (if is_valid_secret_reveal (crr_secrethash r) (mt_secrethash state) then
        bind_result (set_onchain_secret state S tn (crr_secret r) (crr_secrethash r) (cr_block_number r))
          (\<lambda>(state1, S1, secret_reveal).
        bind_result (events_for_balanceproof E tn (mt_transfers_pair state1) (cr_block_number r)
            (crr_secret r) (crr_secrethash r) S1 g) (\<lambda>(pairs, S2, g2, balance_proof).
        Inr (state1\<lparr>mt_transfers_pair := pairs\<rparr>, S2, g2, secret_reveal @ balance_proof)))
      else Inr (state, S, g, []))"

fun unlock_pairs ::
  "platform \<Rightarrow> receive_unlock \<Rightarrow> address \<Rightarrow> route_state list \<Rightarrow> mediation_pair list \<Rightarrow> chan_store \<Rightarrow>
   (mediation_pair list \<times> chan_store \<times> event list) result" where
  "unlock_pairs E u tn routes [] S = Inr ([], S, [])"
| "unlock_pairs E u tn routes (pair # pairs) S =
     (let sender = bp_sender (ru_balance_proof u);
          cid = ci_channel_identifier (bp_canonical_identifier (ru_balance_proof u))
      in
      case (if payer_address (mp_payer_transfer pair) = sender then channel_by_id S tn cid else None) of
        None \<Rightarrow>
          bind_result (unlock_pairs E u tn routes pairs S) (\<lambda>(pairs', S', events).
          Inr (pair # pairs', S', events))
      | Some ch \<Rightarrow>
          bind_result (handle_unlock E ch u (get_address_metadata sender routes))
            (\<lambda>(ch', is_valid, channel_events, _).
          bind_result (unlock_pairs E u tn routes pairs (set_channel tn cid ch' S)) (\<lambda>(pairs', S', events).
          if is_valid
          then Inr (pair\<lparr>mp_payer_state := PAYER_BALANCE_PROOF\<rparr> # pairs', S', channel_events
                 @ [EventUnlockClaimSuccess (lt_payment_identifier (mp_payee_transfer pair))
                      (lk_secrethash (lt_lock (mp_payee_transfer pair)))] @ events)
          else Inr (pair # pairs', S', channel_events @ events))))"

definition mediator_handle_unlock ::
  "platform \<Rightarrow> mediator_transfer \<Rightarrow> receive_unlock \<Rightarrow> address \<Rightarrow> chan_store \<Rightarrow> prng \<Rightarrow>
   mediating_transition" where
  "mediator_handle_unlock E state u tn S g =
     bind_result (unlock_pairs E u tn (mt_routes state) (mt_transfers_pair state) S)
       (\<lambda>(pairs, S', events).
     Inr (state\<lparr>mt_transfers_pair := pairs\<rparr>, S', g, events))"

text \<open>The loop of \<open>handle_lock_expired\<close>. When a channel is missing the handler returns at once, without
  the events so far: the events of the result are \<open>None\<close> then.\<close>

fun lock_expired_pairs ::
  "platform \<Rightarrow> receive_lock_expired \<Rightarrow> address \<Rightarrow> int \<Rightarrow> route_state list \<Rightarrow> secrethash \<Rightarrow> mediation_pair list \<Rightarrow>
   chan_store \<Rightarrow> (mediation_pair list \<times> chan_store \<times> event list option) result" where
  "lock_expired_pairs E r tn block_number routes secrethash [] S = Inr ([], S, Some [])"
| "lock_expired_pairs E r tn block_number routes secrethash (pair # pairs) S =
     (case get_payer_channel S tn pair of
        None \<Rightarrow> Inr (pair # pairs, S, None)
      | Some ch \<Rightarrow>
        bind_result (handle_receive_lock_expired E ch r block_number
            (get_address_metadata (es_address (ch_partner_state ch)) routes)) (\<lambda>(ch', events1).
        let pair' = (if get_lock (ch_partner_state ch') secrethash = None
              then pair\<lparr>mp_payer_state := PAYER_EXPIRED\<rparr> else pair)
        in
        bind_result (lock_expired_pairs E r tn block_number routes secrethash pairs
            (set_channel tn (payer_channel_id pair) ch' S)) (\<lambda>(pairs', S', events2).
        Inr (pair' # pairs', S', map_option ((@) events1) events2))))"

definition mediator_handle_lock_expired ::
  "platform \<Rightarrow> mediator_transfer \<Rightarrow> receive_lock_expired \<Rightarrow> address \<Rightarrow> chan_store \<Rightarrow> prng \<Rightarrow> int \<Rightarrow>
   mediating_transition" where
  "mediator_handle_lock_expired E state r tn S g block_number =
     bind_result (lock_expired_pairs E r tn block_number (mt_routes state) (mt_secrethash state)
         (mt_transfers_pair state) S) (\<lambda>(pairs, S1, events).
     let state1 = state\<lparr>mt_transfers_pair := pairs\<rparr> in
     case events of
       None \<Rightarrow> Inr (state1, S1, g, [])
     | Some events1 \<Rightarrow>
       (case mt_waiting_transfer state of
          None \<Rightarrow> Inr (state1, S1, g, events1)
        | Some waiting \<Rightarrow>
          (case waiting_channel S1 tn waiting of
             None \<Rightarrow> Inr (state1, S1, g, events1)
           | Some ch \<Rightarrow>
             bind_result (handle_receive_lock_expired E ch r block_number
                 (get_address_metadata (es_address (ch_partner_state ch)) (mt_routes state)))
               (\<lambda>(ch', events2).
             Inr (state1, set_channel tn (ci_channel_identifier (bp_canonical_identifier
                    (lts_balance_proof (wt_transfer waiting)))) ch' S1, g, events1 @ events2)))))"

subsection \<open>State transition\<close>

definition with_mediator ::
  "mediator_transfer option \<Rightarrow> (mediator_transfer \<Rightarrow> mediating_transition) \<Rightarrow> mediator_transition" where
  "with_mediator mediator_state k =
     (case mediator_state of
        None \<Rightarrow> Inl AssertionError
      | Some state \<Rightarrow> bind_result (k state) (\<lambda>(state', S, g, events). Inr (Some state', S, g, events)))"

definition mediator_dispatch ::
  "platform \<Rightarrow> mediator_transfer option \<Rightarrow> state_change \<Rightarrow> address \<Rightarrow> partner_index \<Rightarrow> chan_store \<Rightarrow> prng \<Rightarrow>
   int \<Rightarrow> block_hash \<Rightarrow> mediator_transition" where
  "mediator_dispatch E mediator_state state_change tn A S g block_number block_hash =
     (case state_change of
        ActionInitMediator a \<Rightarrow>
          (case mediator_state of
             None \<Rightarrow> mediator_handle_init E a tn A S g block_number
           | Some state \<Rightarrow> Inr (Some state, S, g, []))
      | ToChannel (Block b) \<Rightarrow>
          with_mediator mediator_state (\<lambda>state. mediator_handle_block E state b tn A S g)
      | ReceiveTransferRefund r \<Rightarrow>
          with_mediator mediator_state (\<lambda>state.
            mediator_handle_refundtransfer E state r tn A S g block_number)
      | ReceiveSecretReveal r \<Rightarrow>
          with_mediator mediator_state (\<lambda>state.
            mediator_handle_offchain_secretreveal E state r tn S g block_number block_hash)
      | ContractReceiveSecretReveal r \<Rightarrow>
          with_mediator mediator_state (\<lambda>state.
            mediator_handle_onchain_secretreveal E state r tn S g)
      | ReceiveUnlock u \<Rightarrow>
          with_mediator mediator_state (\<lambda>state. mediator_handle_unlock E state u tn S g)
      | ReceiveLockExpired r \<Rightarrow>
          with_mediator mediator_state (\<lambda>state.
            mediator_handle_lock_expired E state r tn S g block_number)
      | _ \<Rightarrow> Inr (mediator_state, S, g, []))"

definition mediator_state_transition ::
  "platform \<Rightarrow> mediator_transfer option \<Rightarrow> state_change \<Rightarrow> address \<Rightarrow> partner_index \<Rightarrow> chan_store \<Rightarrow> prng \<Rightarrow>
   int \<Rightarrow> block_hash \<Rightarrow> mediator_transition" where
  "mediator_state_transition E mediator_state state_change tn A S g block_number block_hash =
     mediator_clear_if_finalized tn (
     bind_result (mediator_dispatch E mediator_state state_change tn A S g block_number block_hash)
       (\<lambda>(state, S', g', events).
     case state of
       None \<Rightarrow> Inr (None, S', g', events)
     | Some s \<Rightarrow> bind_result (mediator_sanity_check s S' tn) (\<lambda>_. Inr (Some s, S', g', events))))"

end
