(* ===== verification/Chain_State.thy ===== *)
theory Chain_State
  imports Token_Network Initiator_Manager Mediator Target
begin

text \<open>
  The state of a node: model of \<open>ChainState\<close>, \<open>TokenNetworkRegistryState\<close> and \<open>PaymentMappingState\<close> in
  \<open>transfer/state.py\<close> and of the tasks in \<open>transfer/mediated_transfer/tasks.py\<close>.

  Python shares the objects of token networks and channels between several dictionaries. In the model a
  token network object is identified by its address, which is a contract address: \<open>cs_token_networks\<close>
  holds the objects, a registry holds addresses. The channels are in the token networks; the payment
  tasks get them as the store of \<open>Routes\<close> and the store is written back.
\<close>

datatype transfer_role = INITIATOR | MEDIATOR | TARGET

datatype transfer_task =
    InitiatorTask address initiator_payment
  | MediatorTask address mediator_transfer
  | TargetTask canonical_identifier target_transfer_state

fun task_role :: "transfer_task \<Rightarrow> transfer_role" where
  "task_role (InitiatorTask tn p) = INITIATOR"
| "task_role (MediatorTask tn m) = MEDIATOR"
| "task_role (TargetTask ci t) = TARGET"

fun task_token_network_address :: "transfer_task \<Rightarrow> address" where
  "task_token_network_address (InitiatorTask tn p) = tn"
| "task_token_network_address (MediatorTask tn m) = tn"
| "task_token_network_address (TargetTask ci t) = ci_token_network_address ci"

record registry_state =
  trs_address :: address
  trs_token_network_list :: "address list"
  trs_token_networks :: "address list"
  trs_token_addresses :: "(address, address) dict"

text \<open>\<open>trs_token_networks\<close> are the keys of \<open>tokennetworkaddresses_to_tokennetworks\<close>: assigning to an
  existing key keeps its place.\<close>

definition add_token_network :: "token_network \<Rightarrow> registry_state \<Rightarrow> registry_state" where
  "add_token_network tn reg =
     reg\<lparr>trs_token_network_list := trs_token_network_list reg @ [tn_address tn],
         trs_token_networks := (if tn_address tn \<in> set (trs_token_networks reg) then trs_token_networks reg
           else trs_token_networks reg @ [tn_address tn]),
         trs_token_addresses := AList.update (tn_token_address tn) (tn_address tn) (trs_token_addresses reg)\<rparr>"

definition mk_registry_state :: "address \<Rightarrow> token_network list \<Rightarrow> token_network list option \<Rightarrow> registry_state" where
  "mk_registry_state a token_network_list tokennetworkaddresses_to_tokennetworks =
     fold add_token_network
       (if token_network_list = [] then
          (case tokennetworkaddresses_to_tokennetworks of None \<Rightarrow> [] | Some tns \<Rightarrow> tns)
        else token_network_list)
       \<lparr>trs_address = a, trs_token_network_list = [], trs_token_networks = [], trs_token_addresses = []\<rparr>"

record chain_state =
  cs_prng :: prng
  cs_block_number :: int
  cs_block_hash :: block_hash
  cs_our_address :: address
  cs_chain_id :: int
  cs_registries :: "(address, registry_state) dict"
  cs_token_networks :: "(address, token_network) dict"
  cs_payment_mapping :: "(secrethash, transfer_task) dict"
  cs_pending_transactions :: "event list"
  cs_queues :: "(queue_identifier, event list) dict"
  cs_tn_to_registry :: "(address, address) dict"

text \<open>Writing objects: token networks, and one channel of a token network.\<close>

definition put_token_network :: "address \<Rightarrow> token_network \<Rightarrow> chain_state \<Rightarrow> chain_state" where
  "put_token_network a tn cs = cs\<lparr>cs_token_networks := AList.update a tn (cs_token_networks cs)\<rparr>"

definition put_token_networks :: "token_network list \<Rightarrow> chain_state \<Rightarrow> chain_state" where
  "put_token_networks tns cs = fold (\<lambda>tn. put_token_network (tn_address tn) tn) tns cs"

definition lookup_channel :: "chain_state \<Rightarrow> chan_ref \<Rightarrow> channel option" where
  "lookup_channel cs r =
     (case map_of (cs_token_networks cs) (fst r) of
        None \<Rightarrow> None | Some tn \<Rightarrow> map_of (tn_channels tn) (snd r))"

definition put_channel :: "chan_ref \<Rightarrow> channel \<Rightarrow> chain_state \<Rightarrow> chain_state" where
  "put_channel r ch cs =
     (case map_of (cs_token_networks cs) (fst r) of
        None \<Rightarrow> cs
      | Some tn \<Rightarrow> put_token_network (fst r) (tn\<lparr>tn_channels := AList.update (snd r) ch (tn_channels tn)\<rparr>) cs)"

text \<open>The channels of all token networks as the store that the payment tasks use.\<close>

definition channel_store :: "chain_state \<Rightarrow> chan_store" where
  "channel_store cs = concat (map (\<lambda>(a, tn). map (\<lambda>(cid, ch). ((a, cid), ch)) (tn_channels tn))
     (cs_token_networks cs))"

definition write_channels :: "chan_store \<Rightarrow> chain_state \<Rightarrow> chain_state" where
  "write_channels S cs = cs\<lparr>cs_token_networks := map (\<lambda>(a, tn).
     (a, tn\<lparr>tn_channels := map (\<lambda>(cid, ch).
        (cid, case map_of S (a, cid) of None \<Rightarrow> ch | Some ch' \<Rightarrow> ch')) (tn_channels tn)\<rparr>)) (cs_token_networks cs)\<rparr>"

text \<open>The references of the channels in the order in which the nested loops over registries, token networks
  and channels visit them.\<close>

definition network_refs :: "chain_state \<Rightarrow> address \<Rightarrow> chan_ref list" where
  "network_refs cs a =
     (case map_of (cs_token_networks cs) a of
        None \<Rightarrow> [] | Some tn \<Rightarrow> map (\<lambda>(cid, ch). (a, cid)) (tn_channels tn))"

definition all_channel_refs :: "chain_state \<Rightarrow> chan_ref list" where
  "all_channel_refs cs = concat (map (\<lambda>(r, reg). concat (map (network_refs cs) (trs_token_networks reg)))
     (cs_registries cs))"

text \<open>\<open>addresses_to_channel\<close> goes through \<open>token_network_list\<close>; a later channel replaces an earlier one with the
  same partner.\<close>

definition addresses_to_channel :: "chain_state \<Rightarrow> partner_index" where
  "addresses_to_channel cs =
     fold (\<lambda>r A. case lookup_channel cs r of
         None \<Rightarrow> A
       | Some ch \<Rightarrow> AList.update (fst r, es_address (ch_partner_state ch)) r A)
       (concat (map (\<lambda>(r, reg). concat (map (network_refs cs) (trs_token_network_list reg)))
         (cs_registries cs))) []"

end
