(* ===== verification/Views.thy ===== *)
theory Views
  imports Chain_State
begin

text \<open>
  Queries of the node state: model of \<open>transfer/views.py\<close>. Two of them read
  \<open>partneraddresses_to_channelidentifiers\<close>, a \<open>defaultdict\<close>, by subscript and thereby insert an empty list
  for an unknown partner; they return the changed state.
\<close>

subsection \<open>Token networks\<close>

definition all_neighbour_nodes :: "chain_state \<Rightarrow> address set" where
  "all_neighbour_nodes cs =
     set (List.map_filter (\<lambda>r. map_option (\<lambda>ch. es_address (ch_partner_state ch)) (lookup_channel cs r))
       (all_channel_refs cs))"

definition get_token_network_registry_address :: "chain_state \<Rightarrow> address list" where
  "get_token_network_registry_address cs = map fst (cs_registries cs)"

definition get_token_network_registry_by_token_network_address ::
  "chain_state \<Rightarrow> address \<Rightarrow> registry_state option" where
  "get_token_network_registry_by_token_network_address cs a =
     find (\<lambda>reg. a \<in> set (trs_token_networks reg)) (map snd (cs_registries cs))"

text \<open>\<open>tokennetworkaddresses_to_tokennetworks.get(a)\<close> of a registry. An empty address is falsy.\<close>

definition registry_get :: "chain_state \<Rightarrow> registry_state \<Rightarrow> address \<Rightarrow> token_network option" where
  "registry_get cs reg a = (if a \<in> set (trs_token_networks reg) then map_of (cs_token_networks cs) a else None)"

definition get_token_network_by_token_address ::
  "chain_state \<Rightarrow> address \<Rightarrow> address \<Rightarrow> token_network option" where
  "get_token_network_by_token_address cs registry_address token_address =
     (case map_of (cs_registries cs) registry_address of
        None \<Rightarrow> None
      | Some reg \<Rightarrow>
          (case map_of (trs_token_addresses reg) token_address of
             None \<Rightarrow> None
           | Some a \<Rightarrow> if a = [] then None else registry_get cs reg a))"

definition get_token_network_address_by_token_address ::
  "chain_state \<Rightarrow> address \<Rightarrow> address \<Rightarrow> address option" where
  "get_token_network_address_by_token_address cs registry_address token_address =
     map_option tn_address (get_token_network_by_token_address cs registry_address token_address)"

definition get_token_network_addresses :: "chain_state \<Rightarrow> address \<Rightarrow> address list" where
  "get_token_network_addresses cs registry_address =
     (case map_of (cs_registries cs) registry_address of
        None \<Rightarrow> []
      | Some reg \<Rightarrow> List.map_filter (\<lambda>a. map_option tn_address (registry_get cs reg a)) (trs_token_networks reg))"

definition get_token_identifiers :: "chain_state \<Rightarrow> address \<Rightarrow> address list" where
  "get_token_identifiers cs registry_address =
     (case map_of (cs_registries cs) registry_address of
        None \<Rightarrow> [] | Some reg \<Rightarrow> map fst (trs_token_addresses reg))"

definition total_token_network_channels :: "chain_state \<Rightarrow> address \<Rightarrow> address \<Rightarrow> int" where
  "total_token_network_channels cs registry_address token_address =
     (case get_token_network_by_token_address cs registry_address token_address of
        None \<Rightarrow> 0 | Some tn \<Rightarrow> int (length (tn_channels tn)))"

fun find_token_network :: "chain_state \<Rightarrow> registry_state list \<Rightarrow> address \<Rightarrow> token_network option" where
  "find_token_network cs [] a = None"
| "find_token_network cs (reg # regs) a =
     (case registry_get cs reg a of Some tn \<Rightarrow> Some tn | None \<Rightarrow> find_token_network cs regs a)"

definition views_get_token_network_by_address :: "chain_state \<Rightarrow> address \<Rightarrow> token_network option" where
  "views_get_token_network_by_address cs a = find_token_network cs (map snd (cs_registries cs)) a"

definition get_networks ::
  "chain_state \<Rightarrow> address \<Rightarrow> address \<Rightarrow> registry_state option \<times> token_network option" where
  "get_networks cs registry_address token_address =
     (map_of (cs_registries cs) registry_address,
      get_token_network_by_token_address cs registry_address token_address)"

subsection \<open>Channels\<close>

definition filter_channels_by_status :: "channel list \<Rightarrow> channel_status list option \<Rightarrow> channel list" where
  "filter_channels_by_status channel_states exclude_states =
     (let excluded = (case exclude_states of None \<Rightarrow> [] | Some l \<Rightarrow> l) in
      filter (\<lambda>ch. get_status ch \<notin> set excluded) channel_states)"

text \<open>\<open>[token_network.channelidentifiers_to_channels[c] for c in ...[partner]]\<close>, and the last channel that is
  not unusable.\<close>

definition partner_channels :: "token_network \<Rightarrow> address \<Rightarrow> (token_network \<times> channel option) result" where
  "partner_channels tn partner =
     (let index = defaultdict_touch partner (tn_partner_channels tn) in
      bind_result (map_result (\<lambda>cid. case map_of (tn_channels tn) cid of
          None \<Rightarrow> Inl KeyError | Some ch \<Rightarrow> Inr ch) (defaultdict_get partner index)) (\<lambda>channels.
      let states = filter_channels_by_status channels (Some [STATE_UNUSABLE]) in
      Inr (tn\<lparr>tn_partner_channels := index\<rparr>, if states = [] then None else Some (last states))))"

definition get_channelstate_for ::
  "chain_state \<Rightarrow> address \<Rightarrow> address \<Rightarrow> address \<Rightarrow> (chain_state \<times> channel option) result" where
  "get_channelstate_for cs registry_address token_address partner =
     (case get_token_network_by_token_address cs registry_address token_address of
        None \<Rightarrow> Inr (cs, None)
      | Some tn \<Rightarrow>
          bind_result (partner_channels tn partner) (\<lambda>(tn', ch).
          Inr (put_token_network (tn_address tn) tn' cs, ch)))"

definition get_channelstate_by_token_network_and_partner ::
  "chain_state \<Rightarrow> address \<Rightarrow> address \<Rightarrow> (chain_state \<times> channel option) result" where
  "get_channelstate_by_token_network_and_partner cs token_network_address partner =
     (case views_get_token_network_by_address cs token_network_address of
        None \<Rightarrow> Inr (cs, None)
      | Some tn \<Rightarrow>
          bind_result (partner_channels tn partner) (\<lambda>(tn', ch).
          Inr (put_token_network token_network_address tn' cs, ch)))"

definition get_channelstate_by_canonical_identifier :: "chain_state \<Rightarrow> canonical_identifier \<Rightarrow> channel option" where
  "get_channelstate_by_canonical_identifier cs ci =
     (case views_get_token_network_by_address cs (ci_token_network_address ci) of
        None \<Rightarrow> None
      | Some tn \<Rightarrow> map_of (tn_channels tn) (ci_channel_identifier ci))"

definition get_channelstate_filter ::
  "chain_state \<Rightarrow> address \<Rightarrow> address \<Rightarrow> (channel \<Rightarrow> bool) \<Rightarrow> channel list" where
  "get_channelstate_filter cs registry_address token_address filter_fn =
     (case get_token_network_by_token_address cs registry_address token_address of
        None \<Rightarrow> [] | Some tn \<Rightarrow> filter filter_fn (map snd (tn_channels tn)))"

definition get_channelstate_open :: "chain_state \<Rightarrow> address \<Rightarrow> address \<Rightarrow> channel list" where
  "get_channelstate_open cs registry_address token_address =
     get_channelstate_filter cs registry_address token_address (\<lambda>ch. get_status ch = STATE_OPENED)"

definition get_channelstate_closing :: "chain_state \<Rightarrow> address \<Rightarrow> address \<Rightarrow> channel list" where
  "get_channelstate_closing cs registry_address token_address =
     get_channelstate_filter cs registry_address token_address (\<lambda>ch. get_status ch = STATE_CLOSING)"

definition get_channelstate_closed :: "chain_state \<Rightarrow> address \<Rightarrow> address \<Rightarrow> channel list" where
  "get_channelstate_closed cs registry_address token_address =
     get_channelstate_filter cs registry_address token_address (\<lambda>ch. get_status ch = STATE_CLOSED)"

definition get_channelstate_settling :: "chain_state \<Rightarrow> address \<Rightarrow> address \<Rightarrow> channel list" where
  "get_channelstate_settling cs registry_address token_address =
     get_channelstate_filter cs registry_address token_address (\<lambda>ch. get_status ch = STATE_SETTLING)"

definition get_channelstate_settled :: "chain_state \<Rightarrow> address \<Rightarrow> address \<Rightarrow> channel list" where
  "get_channelstate_settled cs registry_address token_address =
     get_channelstate_filter cs registry_address token_address (\<lambda>ch. get_status ch = STATE_SETTLED)"

definition get_participants_addresses :: "chain_state \<Rightarrow> address \<Rightarrow> address \<Rightarrow> address set" where
  "get_participants_addresses cs registry_address token_address =
     (case get_token_network_by_token_address cs registry_address token_address of
        None \<Rightarrow> {}
      | Some tn \<Rightarrow> set (concat (map (\<lambda>(cid, ch).
          [es_address (ch_partner_state ch), es_address (ch_our_state ch)]) (tn_channels tn))))"

definition get_our_deposits_for_token_network :: "chain_state \<Rightarrow> address \<Rightarrow> address \<Rightarrow> int" where
  "get_our_deposits_for_token_network cs registry_address token_address =
     (\<Sum>ch\<leftarrow>get_channelstate_open cs registry_address token_address. es_contract_balance (ch_our_state ch))"

definition list_channelstate_for_tokennetwork :: "chain_state \<Rightarrow> address \<Rightarrow> address \<Rightarrow> channel list" where
  "list_channelstate_for_tokennetwork cs registry_address token_address =
     (case get_token_network_by_token_address cs registry_address token_address of
        None \<Rightarrow> [] | Some tn \<Rightarrow> map snd (tn_channels tn))"

definition list_all_channelstate :: "chain_state \<Rightarrow> channel list" where
  "list_all_channelstate cs = List.map_filter (lookup_channel cs) (all_channel_refs cs)"

fun last_channels_of ::
  "token_network \<Rightarrow> address list \<Rightarrow> (token_network \<times> channel list) result" where
  "last_channels_of tn [] = Inr (tn, [])"
| "last_channels_of tn (partner # partners) =
     bind_result (partner_channels tn partner) (\<lambda>(tn1, ch).
     bind_result (last_channels_of tn1 partners) (\<lambda>(tn2, chs).
     Inr (tn2, case ch of None \<Rightarrow> chs | Some c \<Rightarrow> c # chs)))"

definition filter_channels_by_partneraddress ::
  "chain_state \<Rightarrow> address \<Rightarrow> address \<Rightarrow> address list \<Rightarrow> (chain_state \<times> channel list) result" where
  "filter_channels_by_partneraddress cs registry_address token_address partner_addresses =
     (case get_token_network_by_token_address cs registry_address token_address of
        None \<Rightarrow> Inr (cs, [])
      | Some tn \<Rightarrow>
          bind_result (last_channels_of tn partner_addresses) (\<lambda>(tn', chs).
          Inr (put_token_network (tn_address tn) tn' cs, chs)))"

subsection \<open>Payment tasks\<close>

definition secret_from_transfer_task :: "transfer_task \<Rightarrow> secrethash \<Rightarrow> secret option result" where
  "secret_from_transfer_task task secrethash =
     (case task of
        InitiatorTask tn p \<Rightarrow> Inr (map_option (\<lambda>t. td_secret (it_transfer_description t))
          (map_of (pay_initiator_transfers p) secrethash))
      | _ \<Rightarrow> Inl AssertionError)"

definition get_transfer_role :: "chain_state \<Rightarrow> secrethash \<Rightarrow> transfer_role option" where
  "get_transfer_role cs secrethash = map_option task_role (map_of (cs_payment_mapping cs) secrethash)"

definition get_transfer_secret :: "chain_state \<Rightarrow> secrethash \<Rightarrow> secret option result" where
  "get_transfer_secret cs secrethash =
     (case map_of (cs_payment_mapping cs) secrethash of
        None \<Rightarrow> Inr None
      | Some task \<Rightarrow> secret_from_transfer_task task secrethash)"

end
