(* ===== verification/Node.thy ===== *)
theory Node
  imports Views
begin

text \<open>
  The node: model of \<open>transfer/node.py\<close>. A state change is dispatched to the channels and payment tasks it
  concerns; the events of the transition are appended to the message queues and to the pending
  transactions. The state is mutated in place in Python and threaded here, together with the random
  generator that it contains.
\<close>

type_synonym node_transition = "(chain_state \<times> event list) result"

record contract_receive_new_token_network_registry = contract_receive +
  cnr_address :: address
  cnr_token_networks :: "token_network list"

record contract_receive_new_token_network = contract_receive +
  cnt_token_network_registry_address :: address
  cnt_token_network :: token_network

record contract_receive_route_new = contract_receive +
  rn_canonical_identifier :: canonical_identifier
  rn_participant1 :: address
  rn_participant2 :: address

datatype node_state_change =
    Common state_change
  | ContractReceiveNewTokenNetworkRegistry contract_receive_new_token_network_registry
  | ContractReceiveNewTokenNetwork contract_receive_new_token_network
  | ContractReceiveRouteNew contract_receive_route_new

definition get_token_network_by_address :: "chain_state \<Rightarrow> address \<Rightarrow> token_network option" where
  "get_token_network_by_address cs a =
     (case map_of (cs_tn_to_registry cs) a of
        None \<Rightarrow> None
      | Some registry_address \<Rightarrow>
          if registry_address = [] then None
          else
            (case map_of (cs_registries cs) registry_address of
               None \<Rightarrow> None
             | Some reg \<Rightarrow> registry_get cs reg a))"

subsection \<open>Dispatch to channels\<close>

fun block_channels ::
  "platform \<Rightarrow> channel_state_change \<Rightarrow> int \<Rightarrow> block_hash \<Rightarrow> chan_ref list \<Rightarrow> chain_state \<Rightarrow> node_transition" where
  "block_channels E sc block_number block_hash [] cs = Inr (cs, [])"
| "block_channels E sc block_number block_hash (r # rs) cs =
     (case lookup_channel cs r of
        None \<Rightarrow> block_channels E sc block_number block_hash rs cs
      | Some ch \<Rightarrow>
        bind_result (state_transition E ch sc block_number block_hash (cs_prng cs))
          (\<lambda>(new_state, g, events1).
        let cs1 = (case new_state of None \<Rightarrow> cs | Some ch' \<Rightarrow> put_channel r ch' cs) in
        bind_result (block_channels E sc block_number block_hash rs (cs1\<lparr>cs_prng := g\<rparr>))
          (\<lambda>(cs2, events2).
        Inr (cs2, events1 @ events2))))"

definition subdispatch_to_all_channels ::
  "platform \<Rightarrow> chain_state \<Rightarrow> channel_state_change \<Rightarrow> int \<Rightarrow> block_hash \<Rightarrow> node_transition" where
  "subdispatch_to_all_channels E cs sc block_number block_hash =
     block_channels E sc block_number block_hash (all_channel_refs cs) cs"

definition subdispatch_to_token_network ::
  "platform \<Rightarrow> chain_state \<Rightarrow> state_change \<Rightarrow> address \<Rightarrow> node_transition" where
  "subdispatch_to_token_network E cs sc a =
     (case get_token_network_by_address cs a of
        None \<Rightarrow> Inr (cs, [])
      | Some tn \<Rightarrow>
          bind_result (tn_state_transition E tn sc (cs_block_number cs) (cs_block_hash cs) (cs_prng cs))
            (\<lambda>(tn', g, events).
          Inr ((put_token_network a tn' cs)\<lparr>cs_prng := g\<rparr>, events)))"

definition subdispatch_by_canonical_id ::
  "platform \<Rightarrow> chain_state \<Rightarrow> state_change \<Rightarrow> canonical_identifier \<Rightarrow> node_transition" where
  "subdispatch_by_canonical_id E cs sc ci =
     subdispatch_to_token_network E cs sc (ci_token_network_address ci)"

definition handle_token_network_action ::
  "platform \<Rightarrow> chain_state \<Rightarrow> state_change \<Rightarrow> address \<Rightarrow> node_transition" where
  "handle_token_network_action E cs sc token_network_address =
     subdispatch_to_token_network E cs sc token_network_address"

subsection \<open>Dispatch to payment tasks\<close>

definition set_task :: "secrethash \<Rightarrow> transfer_task option \<Rightarrow> chain_state \<Rightarrow> chain_state" where
  "set_task secrethash task cs =
     cs\<lparr>cs_payment_mapping := (case task of
        None \<Rightarrow> AList.delete secrethash (cs_payment_mapping cs)
      | Some t \<Rightarrow> AList.update secrethash t (cs_payment_mapping cs))\<rparr>"

text \<open>The end of a task transition: the channels, the random generator and the task.\<close>

definition finish_task ::
  "secrethash \<Rightarrow> ('t \<Rightarrow> transfer_task) \<Rightarrow> chain_state \<Rightarrow> ('t option \<times> chan_store \<times> prng \<times> event list) result \<Rightarrow>
   node_transition" where
  "finish_task secrethash task cs m =
     bind_result m (\<lambda>(new_state, S, g, events).
     Inr (set_task secrethash (map_option task new_state) ((write_channels S cs)\<lparr>cs_prng := g\<rparr>), events))"

definition run_initiator ::
  "platform \<Rightarrow> chain_state \<Rightarrow> state_change \<Rightarrow> address \<Rightarrow> secrethash \<Rightarrow> initiator_payment option \<Rightarrow>
   node_transition" where
  "run_initiator E cs sc tn secrethash payment_state =
     finish_task secrethash (InitiatorTask tn) cs
       (manager_state_transition E payment_state sc tn (addresses_to_channel cs) (channel_store cs)
         (cs_prng cs) (cs_block_number cs))"

definition run_mediator ::
  "platform \<Rightarrow> chain_state \<Rightarrow> state_change \<Rightarrow> address \<Rightarrow> secrethash \<Rightarrow> mediator_transfer option \<Rightarrow>
   node_transition" where
  "run_mediator E cs sc tn secrethash mediator_state =
     finish_task secrethash (MediatorTask tn) cs
       (mediator_state_transition E mediator_state sc tn (addresses_to_channel cs) (channel_store cs)
         (cs_prng cs) (cs_block_number cs) (cs_block_hash cs))"

text \<open>A target works on one channel, which it gets directly; \<open>ci\<close> is the identifier of the task.\<close>

definition run_target ::
  "platform \<Rightarrow> chain_state \<Rightarrow> state_change \<Rightarrow> chan_ref \<Rightarrow> canonical_identifier \<Rightarrow> channel \<Rightarrow> secrethash \<Rightarrow>
   target_transfer_state option \<Rightarrow> node_transition" where
  "run_target E cs sc r ci ch secrethash target_state =
     bind_result (target_state_transition E target_state sc ch (cs_prng cs) (cs_block_number cs))
       (\<lambda>(new_state, ch', g, events).
     Inr (set_task secrethash (map_option (TargetTask ci) new_state) ((put_channel r ch' cs)\<lparr>cs_prng := g\<rparr>),
          events))"

definition subdispatch_to_paymenttask ::
  "platform \<Rightarrow> chain_state \<Rightarrow> state_change \<Rightarrow> secrethash \<Rightarrow> node_transition" where
  "subdispatch_to_paymenttask E cs sc secrethash =
     (case map_of (cs_payment_mapping cs) secrethash of
        None \<Rightarrow> Inr (cs, [])
      | Some (InitiatorTask tn manager_state) \<Rightarrow>
          (case get_token_network_by_address cs tn of
             None \<Rightarrow> Inr (cs, [])
           | Some _ \<Rightarrow> run_initiator E cs sc tn secrethash (Some manager_state))
      | Some (MediatorTask tn mediator_state) \<Rightarrow>
          (case get_token_network_by_address cs tn of
             None \<Rightarrow> Inr (cs, [])
           | Some _ \<Rightarrow> run_mediator E cs sc tn secrethash (Some mediator_state))
      | Some (TargetTask ci target_state) \<Rightarrow>
          (case get_channelstate_by_canonical_identifier cs ci of
             None \<Rightarrow> Inr (cs, [])
           | Some ch \<Rightarrow> run_target E cs sc (ci_token_network_address ci, ci_channel_identifier ci) ci ch
               secrethash (Some target_state)))"

fun subdispatch_to_tasks ::
  "platform \<Rightarrow> state_change \<Rightarrow> secrethash list \<Rightarrow> chain_state \<Rightarrow> node_transition" where
  "subdispatch_to_tasks E sc [] cs = Inr (cs, [])"
| "subdispatch_to_tasks E sc (secrethash # secrethashes) cs =
     bind_result (subdispatch_to_paymenttask E cs sc secrethash) (\<lambda>(cs1, events1).
     bind_result (subdispatch_to_tasks E sc secrethashes cs1) (\<lambda>(cs2, events2).
     Inr (cs2, events1 @ events2)))"

definition subdispatch_to_all_lockedtransfers :: "platform \<Rightarrow> chain_state \<Rightarrow> state_change \<Rightarrow> node_transition" where
  "subdispatch_to_all_lockedtransfers E cs sc = subdispatch_to_tasks E sc (map fst (cs_payment_mapping cs)) cs"

definition subdispatch_initiatortask ::
  "platform \<Rightarrow> chain_state \<Rightarrow> state_change \<Rightarrow> address \<Rightarrow> secrethash \<Rightarrow> node_transition" where
  "subdispatch_initiatortask E cs sc tn secrethash =
     (case get_token_network_by_address cs tn of
        None \<Rightarrow> Inr (cs, [])
      | Some _ \<Rightarrow>
          (case map_of (cs_payment_mapping cs) secrethash of
             None \<Rightarrow> run_initiator E cs sc tn secrethash None
           | Some (InitiatorTask tn' manager_state) \<Rightarrow>
               if tn' = tn then run_initiator E cs sc tn secrethash (Some manager_state) else Inr (cs, [])
           | Some _ \<Rightarrow> Inr (cs, [])))"

definition subdispatch_mediatortask ::
  "platform \<Rightarrow> chain_state \<Rightarrow> state_change \<Rightarrow> address \<Rightarrow> secrethash \<Rightarrow> node_transition" where
  "subdispatch_mediatortask E cs sc tn secrethash =
     (let run = (\<lambda>mediator_state.
            case get_token_network_by_address cs tn of
              None \<Rightarrow> Inr (cs, [])
            | Some _ \<Rightarrow> run_mediator E cs sc tn secrethash mediator_state)
      in
      case map_of (cs_payment_mapping cs) secrethash of
        None \<Rightarrow> run None
      | Some (MediatorTask tn' mediator_state) \<Rightarrow> if tn' = tn then run (Some mediator_state) else Inr (cs, [])
      | Some _ \<Rightarrow> Inr (cs, []))"

definition subdispatch_targettask ::
  "platform \<Rightarrow> chain_state \<Rightarrow> state_change \<Rightarrow> address \<Rightarrow> int \<Rightarrow> secrethash \<Rightarrow> node_transition" where
  "subdispatch_targettask E cs sc tn cid secrethash =
     (let run = (\<lambda>target_state.
            case get_channelstate_by_canonical_identifier cs
              \<lparr>ci_chain_identifier = cs_chain_id cs, ci_token_network_address = tn, ci_channel_identifier = cid\<rparr> of
              None \<Rightarrow> Inr (cs, [])
            | Some ch \<Rightarrow> run_target E cs sc (tn, cid) (ch_canonical_identifier ch) ch secrethash target_state)
      in
      case map_of (cs_payment_mapping cs) secrethash of
        None \<Rightarrow> run None
      | Some (TargetTask ci target_state) \<Rightarrow>
          if ci_token_network_address ci = tn then run (Some target_state) else Inr (cs, [])
      | Some _ \<Rightarrow> Inr (cs, []))"

subsection \<open>Registries\<close>

text \<open>A new registry is created with the token network, which is then added a second time.\<close>

definition maybe_add_tokennetwork :: "chain_state \<Rightarrow> address \<Rightarrow> token_network \<Rightarrow> chain_state" where
  "maybe_add_tokennetwork cs registry_address tn =
     (let (registry, previous) = get_networks cs registry_address (tn_token_address tn);
          reg = (case registry of None \<Rightarrow> mk_registry_state registry_address [tn] None | Some r \<Rightarrow> r);
          reg' = (if previous = None then add_token_network tn reg else reg);
          cs1 = cs\<lparr>cs_registries := AList.update registry_address reg' (cs_registries cs)\<rparr>
      in
      if previous = None
      then (put_token_network (tn_address tn) tn cs1)\<lparr>cs_tn_to_registry :=
             AList.update (tn_address tn) registry_address (cs_tn_to_registry cs1)\<rparr>
      else cs1)"

subsection \<open>Message queues\<close>

definition message_header :: "event \<Rightarrow> msg_header option" where
  "message_header e =
     (case e of
        SendLockedTransfer s \<Rightarrow> Some (slt_header s)
      | SendLockExpired s \<Rightarrow> Some (sle_header s)
      | SendUnlock s \<Rightarrow> Some (su_header s)
      | SendSecretReveal h s sh \<Rightarrow> Some h
      | SendSecretRequest h a b c sh \<Rightarrow> Some h
      | SendProcessed h \<Rightarrow> Some h
      | SendWithdrawRequest h a b c d x \<Rightarrow> Some h
      | SendWithdrawConfirmation h a b c d \<Rightarrow> Some h
      | SendWithdrawExpired h a b c d \<Rightarrow> Some h
      | _ \<Rightarrow> None)"

definition is_withdraw_request :: "event \<Rightarrow> bool" where
  "is_withdraw_request e \<longleftrightarrow> (case e of SendWithdrawRequest h a b c d x \<Rightarrow> True | _ \<Rightarrow> False)"

text \<open>What the three acknowledging state changes have in common.\<close>

record acknowledgement =
  ack_sender :: address
  ack_message_identifier :: int
  ack_is_withdraw_confirmation :: bool

definition message_found :: "acknowledgement \<Rightarrow> event \<Rightarrow> bool" where
  "message_found ack message \<longleftrightarrow>
     (is_withdraw_request message \<longrightarrow> ack_is_withdraw_confirmation ack)
     \<and> (case message_header message of
          None \<Rightarrow> False
        | Some h \<Rightarrow> mh_message_identifier h = ack_message_identifier ack \<and> mh_recipient h = ack_sender ack)"

text \<open>The loop goes over a copy of the queue; \<open>remove\<close> takes out the first element that is equal.\<close>

definition inplace_delete_message :: "event list \<Rightarrow> acknowledgement \<Rightarrow> event list" where
  "inplace_delete_message message_queue ack =
     fold (\<lambda>message queue. if message_found ack message then remove1 message queue else queue)
       message_queue message_queue"

definition inplace_delete_message_queue :: "chain_state \<Rightarrow> acknowledgement \<Rightarrow> queue_identifier \<Rightarrow> chain_state" where
  "inplace_delete_message_queue cs ack queueid =
     (case map_of (cs_queues cs) queueid of
        None \<Rightarrow> cs
      | Some queue \<Rightarrow>
          if queue = [] then cs\<lparr>cs_queues := AList.delete queueid (cs_queues cs)\<rparr>
          else
            let queue' = inplace_delete_message queue ack in
            if queue' = [] then cs\<lparr>cs_queues := AList.delete queueid (cs_queues cs)\<rparr>
            else cs\<lparr>cs_queues := AList.update queueid queue' (cs_queues cs)\<rparr>)"

definition delete_from_all_queues :: "chain_state \<Rightarrow> acknowledgement \<Rightarrow> chain_state" where
  "delete_from_all_queues cs ack =
     fold (\<lambda>queueid cs. inplace_delete_message_queue cs ack queueid) (map fst (cs_queues cs)) cs"

subsection \<open>Handlers\<close>

definition node_handle_block :: "platform \<Rightarrow> chain_state \<Rightarrow> block \<Rightarrow> node_transition" where
  "node_handle_block E cs b =
     (let cs1 = cs\<lparr>cs_block_number := blk_block_number b, cs_block_hash := blk_block_hash b\<rparr> in
      bind_result (subdispatch_to_all_channels E cs1 (Block b) (blk_block_number b) (blk_block_hash b))
        (\<lambda>(cs2, channel_events).
      bind_result (subdispatch_to_all_lockedtransfers E cs2 (BlockChange b)) (\<lambda>(cs3, transfer_events).
      Inr (cs3, channel_events @ transfer_events))))"

definition handle_contract_receive_channel_closed ::
  "platform \<Rightarrow> chain_state \<Rightarrow> contract_receive_closed \<Rightarrow> node_transition" where
  "handle_contract_receive_channel_closed E cs a =
     (let tn = ci_token_network_address (crc_canonical_identifier a);
          ci = \<lparr>ci_chain_identifier = cs_chain_id cs, ci_token_network_address = tn,
                ci_channel_identifier = ci_channel_identifier (crc_canonical_identifier a)\<rparr>;
          cs1 = (case get_channelstate_by_canonical_identifier cs ci of
             None \<Rightarrow> cs
           | Some ch \<Rightarrow> cs\<lparr>cs_queues := AList.delete
               \<lparr>qi_recipient = es_address (ch_partner_state ch), qi_canonical_identifier = ci\<rparr> (cs_queues cs)\<rparr>)
      in handle_token_network_action E cs1 (ToChannel (ContractReceiveChannelClosed a)) tn)"

definition handle_receive_delivered :: "chain_state \<Rightarrow> receive_acknowledgement \<Rightarrow> node_transition" where
  "handle_receive_delivered cs r =
     Inr (inplace_delete_message_queue cs
       \<lparr>ack_sender = rak_sender r, ack_message_identifier = rak_message_identifier r,
        ack_is_withdraw_confirmation = False\<rparr>
       \<lparr>qi_recipient = rak_sender r, qi_canonical_identifier = CANONICAL_IDENTIFIER_UNORDERED_QUEUE\<rparr>, [])"

definition handle_receive_processed :: "chain_state \<Rightarrow> receive_acknowledgement \<Rightarrow> node_transition" where
  "handle_receive_processed cs r =
     Inr (delete_from_all_queues cs
       \<lparr>ack_sender = rak_sender r, ack_message_identifier = rak_message_identifier r,
        ack_is_withdraw_confirmation = False\<rparr>, [])"

definition node_handle_receive_withdraw_confirmation ::
  "platform \<Rightarrow> chain_state \<Rightarrow> receive_withdraw \<Rightarrow> node_transition" where
  "node_handle_receive_withdraw_confirmation E cs r =
     bind_result (subdispatch_by_canonical_id E cs (ToChannel (ReceiveWithdrawConfirmation r))
       (rw_canonical_identifier r)) (\<lambda>(cs1, events).
     Inr (delete_from_all_queues cs1
       \<lparr>ack_sender = rw_sender r, ack_message_identifier = rw_message_identifier r,
        ack_is_withdraw_confirmation = True\<rparr>, events))"

definition handle_contract_receive_new_token_network_registry ::
  "chain_state \<Rightarrow> contract_receive_new_token_network_registry \<Rightarrow> node_transition" where
  "handle_contract_receive_new_token_network_registry cs a =
     Inr (if dict_mem (cnr_address a) (cs_registries cs) then cs
          else (put_token_networks (cnr_token_networks a) cs)\<lparr>cs_registries :=
            AList.update (cnr_address a) (mk_registry_state (cnr_address a) (cnr_token_networks a) None)
              (cs_registries cs)\<rparr>, [])"

definition handle_contract_receive_new_token_network ::
  "chain_state \<Rightarrow> contract_receive_new_token_network \<Rightarrow> node_transition" where
  "handle_contract_receive_new_token_network cs a =
     Inr (maybe_add_tokennetwork cs (cnt_token_network_registry_address a) (cnt_token_network a), [])"

definition handle_action_init_initiator ::
  "platform \<Rightarrow> chain_state \<Rightarrow> action_init_initiator \<Rightarrow> node_transition" where
  "handle_action_init_initiator E cs a =
     subdispatch_initiatortask E cs (ActionInitInitiator a) (td_token_network_address (aii_transfer a))
       (td_secrethash (aii_transfer a))"

definition handle_action_init_mediator ::
  "platform \<Rightarrow> chain_state \<Rightarrow> action_init_mediator \<Rightarrow> node_transition" where
  "handle_action_init_mediator E cs a =
     subdispatch_mediatortask E cs (ActionInitMediator a)
       (ci_token_network_address (bp_canonical_identifier (lts_balance_proof (aim_from_transfer a))))
       (lk_secrethash (lt_lock (aim_from_transfer a)))"

definition handle_action_init_target ::
  "platform \<Rightarrow> chain_state \<Rightarrow> action_init_target \<Rightarrow> node_transition" where
  "handle_action_init_target E cs a =
     (let ci = bp_canonical_identifier (lts_balance_proof (ait_transfer a)) in
      subdispatch_targettask E cs (ActionInitTarget a) (ci_token_network_address ci) (ci_channel_identifier ci)
        (lk_secrethash (lt_lock (ait_transfer a))))"

text \<open>The task of the refunded transfer is copied under the new secrethash.\<close>

definition handle_action_transfer_reroute ::
  "platform \<Rightarrow> chain_state \<Rightarrow> action_transfer_reroute \<Rightarrow> node_transition" where
  "handle_action_transfer_reroute E cs a =
     (case map_of (cs_payment_mapping cs) (lk_secrethash (lt_lock (atr_transfer a))) of
        None \<Rightarrow> Inl KeyError
      | Some task \<Rightarrow> subdispatch_to_paymenttask E (set_task (atr_secrethash a) (Some task) cs)
          (ActionTransferReroute a) (atr_secrethash a))"

subsection \<open>Dispatch\<close>

definition handle_channel_state_change ::
  "platform \<Rightarrow> chain_state \<Rightarrow> channel_state_change \<Rightarrow> node_transition" where
  "handle_channel_state_change E cs sc =
     (case sc of
        Block b \<Rightarrow> node_handle_block E cs b
      | ActionChannelClose ci \<Rightarrow> handle_token_network_action E cs (ToChannel sc) (ci_token_network_address ci)
      | ActionChannelSetRevealTimeout a \<Rightarrow>
          subdispatch_by_canonical_id E cs (ToChannel sc) (ar_canonical_identifier a)
      | ActionChannelWithdraw a \<Rightarrow> subdispatch_by_canonical_id E cs (ToChannel sc) (aw_canonical_identifier a)
      | ActionChannelCoopSettle a \<Rightarrow> subdispatch_by_canonical_id E cs (ToChannel sc) (ac_canonical_identifier a)
      | ContractReceiveChannelBatchUnlock a \<Rightarrow>
          handle_token_network_action E cs (ToChannel sc) (ci_token_network_address (cru_canonical_identifier a))
      | ContractReceiveChannelWithdraw a \<Rightarrow>
          handle_token_network_action E cs (ToChannel sc) (ci_token_network_address (crw_canonical_identifier a))
      | ContractReceiveChannelClosed a \<Rightarrow> handle_contract_receive_channel_closed E cs a
      | ContractReceiveChannelDeposit a \<Rightarrow>
          handle_token_network_action E cs (ToChannel sc) (ci_token_network_address (crd_canonical_identifier a))
      | ContractReceiveChannelSettled a \<Rightarrow>
          handle_token_network_action E cs (ToChannel sc) (ci_token_network_address (crs_canonical_identifier a))
      | ContractReceiveUpdateTransfer a \<Rightarrow>
          handle_token_network_action E cs (ToChannel sc) (ci_token_network_address (crt_canonical_identifier a))
      | ReceiveWithdrawRequest a \<Rightarrow> subdispatch_by_canonical_id E cs (ToChannel sc) (rw_canonical_identifier a)
      | ReceiveWithdrawConfirmation a \<Rightarrow> node_handle_receive_withdraw_confirmation E cs a
      | ReceiveWithdrawExpired a \<Rightarrow> subdispatch_by_canonical_id E cs (ToChannel sc) (rwe_canonical_identifier a)
      | OtherStateChange \<Rightarrow> Inr (cs, []))"

definition handle_state_change :: "platform \<Rightarrow> chain_state \<Rightarrow> node_state_change \<Rightarrow> node_transition" where
  "handle_state_change E cs nsc =
     (case nsc of
        ContractReceiveNewTokenNetworkRegistry a \<Rightarrow> handle_contract_receive_new_token_network_registry cs a
      | ContractReceiveNewTokenNetwork a \<Rightarrow> handle_contract_receive_new_token_network cs a
      | ContractReceiveRouteNew a \<Rightarrow> Inr (cs, [])
      | Common sc \<Rightarrow>
        (case sc of
           ToChannel c \<Rightarrow> handle_channel_state_change E cs c
         | ActionInitInitiator a \<Rightarrow> handle_action_init_initiator E cs a
         | ActionInitMediator a \<Rightarrow> handle_action_init_mediator E cs a
         | ActionInitTarget a \<Rightarrow> handle_action_init_target E cs a
         | ReceiveTransferCancelRoute r \<Rightarrow>
             subdispatch_to_paymenttask E cs sc (lk_secrethash (lt_lock (rcr_transfer r)))
         | ActionTransferReroute a \<Rightarrow> handle_action_transfer_reroute E cs a
         | ContractReceiveChannelNew a \<Rightarrow> handle_token_network_action E cs sc
             (ch_token_network_address (crn_channel_state a))
         | ContractReceiveSecretReveal r \<Rightarrow> subdispatch_to_paymenttask E cs sc (crr_secrethash r)
         | ReceiveDelivered r \<Rightarrow> handle_receive_delivered cs r
         | ReceiveSecretReveal r \<Rightarrow> subdispatch_to_paymenttask E cs sc (rsr_secrethash r)
         | ReceiveTransferRefund r \<Rightarrow>
             subdispatch_to_paymenttask E cs sc (lk_secrethash (lt_lock (rtr_transfer r)))
         | ReceiveSecretRequest r \<Rightarrow> subdispatch_to_paymenttask E cs sc (rsq_secrethash r)
         | ReceiveProcessed r \<Rightarrow> handle_receive_processed cs r
         | ReceiveUnlock r \<Rightarrow> subdispatch_to_paymenttask E cs sc (ru_secrethash r)
         | ReceiveLockExpired r \<Rightarrow> subdispatch_to_paymenttask E cs sc (rle_secrethash r)
         | UpdateServicesAddressesStateChange service valid_till \<Rightarrow>
             Inr (cs, [UpdateServicesAddresses service valid_till])
         | ActionCancelPayment i \<Rightarrow> Inr (cs, [])))"

subsection \<open>Pending transactions\<close>

definition is_contract_send :: "event \<Rightarrow> bool" where
  "is_contract_send e \<longleftrightarrow>
     (case e of
        ContractSendChannelWithdraw h ci a b s \<Rightarrow> True
      | ContractSendChannelCoopSettle h ci a b c s t \<Rightarrow> True
      | ContractSendChannelClose h ci b \<Rightarrow> True
      | ContractSendChannelSettle h ci \<Rightarrow> True
      | ContractSendChannelUpdateTransfer h x b \<Rightarrow> True
      | ContractSendChannelBatchUnlock h ci a \<Rightarrow> True
      | ContractSendSecretReveal h x s \<Rightarrow> True
      | _ \<Rightarrow> False)"

definition is_contract_receive :: "node_state_change \<Rightarrow> bool" where
  "is_contract_receive nsc \<longleftrightarrow>
     (case nsc of
        ContractReceiveNewTokenNetworkRegistry a \<Rightarrow> True
      | ContractReceiveNewTokenNetwork a \<Rightarrow> True
      | ContractReceiveRouteNew a \<Rightarrow> True
      | Common sc \<Rightarrow>
        (case sc of
           ContractReceiveSecretReveal r \<Rightarrow> True
         | ContractReceiveChannelNew a \<Rightarrow> True
         | ToChannel c \<Rightarrow>
           (case c of
              ContractReceiveChannelClosed a \<Rightarrow> True
            | ContractReceiveUpdateTransfer a \<Rightarrow> True
            | ContractReceiveChannelSettled a \<Rightarrow> True
            | ContractReceiveChannelDeposit a \<Rightarrow> True
            | ContractReceiveChannelWithdraw a \<Rightarrow> True
            | ContractReceiveChannelBatchUnlock a \<Rightarrow> True
            | _ \<Rightarrow> False)
         | _ \<Rightarrow> False))"

text \<open>The same token network and channel.\<close>

definition same_channel :: "canonical_identifier \<Rightarrow> canonical_identifier \<Rightarrow> bool" where
  "same_channel a b \<longleftrightarrow> ci_token_network_address a = ci_token_network_address b
     \<and> ci_channel_identifier a = ci_channel_identifier b"

definition batch_unlock_done ::
  "chain_state \<Rightarrow> contract_receive_batch_unlock \<Rightarrow> (chain_state \<times> bool) result" where
  "batch_unlock_done cs a =
     (let our = cs_our_address cs;
          partner = (if cru_receiver a = our then Some (cru_sender a)
            else if cru_sender a = our then Some (cru_receiver a) else None)
      in
      case partner of
        None \<Rightarrow> Inr (cs, False)
      | Some p \<Rightarrow>
          if p = [] then Inr (cs, False)
          else
            bind_result (get_channelstate_by_token_network_and_partner cs
              (ci_token_network_address (cru_canonical_identifier a)) p) (\<lambda>(cs', ch).
            Inr (cs', ch = None)))"

definition is_transaction_effect_satisfied ::
  "chain_state \<Rightarrow> event \<Rightarrow> node_state_change \<Rightarrow> (chain_state \<times> bool) result" where
  "is_transaction_effect_satisfied cs transaction nsc =
     (case nsc of
        Common (ToChannel (ContractReceiveUpdateTransfer a)) \<Rightarrow>
          (case transaction of
             ContractSendChannelUpdateTransfer h expiration bp \<Rightarrow>
               Inr (cs, same_channel (crt_canonical_identifier a) (bp_canonical_identifier bp)
                 \<and> crt_nonce a = bp_nonce bp)
           | _ \<Rightarrow> Inr (cs, False))
      | Common (ToChannel (ContractReceiveChannelClosed a)) \<Rightarrow>
          (case transaction of
             ContractSendChannelClose h ci bp \<Rightarrow> Inr (cs, same_channel (crc_canonical_identifier a) ci)
           | _ \<Rightarrow> Inr (cs, False))
      | Common (ToChannel (ContractReceiveChannelSettled a)) \<Rightarrow>
          (case transaction of
             ContractSendChannelSettle h ci \<Rightarrow> Inr (cs, same_channel (crs_canonical_identifier a) ci)
           | _ \<Rightarrow> Inr (cs, False))
      | Common (ContractReceiveSecretReveal r) \<Rightarrow>
          (case transaction of
             ContractSendSecretReveal h expiration secret \<Rightarrow> Inr (cs, crr_secret r = secret)
           | _ \<Rightarrow> Inr (cs, False))
      | Common (ToChannel (ContractReceiveChannelBatchUnlock a)) \<Rightarrow>
          (case transaction of
             ContractSendChannelBatchUnlock h ci sender \<Rightarrow> batch_unlock_done cs a
           | _ \<Rightarrow> Inr (cs, False))
      | _ \<Rightarrow> Inr (cs, False))"

definition is_transaction_invalidated :: "event \<Rightarrow> node_state_change \<Rightarrow> bool" where
  "is_transaction_invalidated transaction nsc \<longleftrightarrow>
     (case nsc of
        Common (ToChannel (ContractReceiveChannelSettled a)) \<Rightarrow>
          (case transaction of
             ContractSendChannelUpdateTransfer h expiration bp \<Rightarrow>
               same_channel (crs_canonical_identifier a) (bp_canonical_identifier bp)
           | _ \<Rightarrow> False)
      | Common (ToChannel (ContractReceiveChannelClosed a)) \<Rightarrow>
          (case transaction of
             ContractSendChannelWithdraw h ci amount expiration signature \<Rightarrow>
               same_channel (crc_canonical_identifier a) ci
           | _ \<Rightarrow> False)
      | _ \<Rightarrow> False)"

definition is_transaction_expired :: "event \<Rightarrow> int \<Rightarrow> bool" where
  "is_transaction_expired transaction block_number \<longleftrightarrow>
     (case transaction of
        ContractSendChannelUpdateTransfer h expiration bp \<Rightarrow> expiration < block_number
      | ContractSendSecretReveal h expiration secret \<Rightarrow> expiration < block_number
      | _ \<Rightarrow> False)"

definition is_transaction_pending ::
  "chain_state \<Rightarrow> event \<Rightarrow> node_state_change \<Rightarrow> (chain_state \<times> bool) result" where
  "is_transaction_pending cs transaction nsc =
     bind_result (is_transaction_effect_satisfied cs transaction nsc) (\<lambda>(cs', satisfied).
     Inr (cs', \<not> (satisfied \<or> is_transaction_invalidated transaction nsc
       \<or> is_transaction_expired transaction (cs_block_number cs))))"

fun filter_pending ::
  "node_state_change \<Rightarrow> event list \<Rightarrow> chain_state \<Rightarrow> (chain_state \<times> event list) result" where
  "filter_pending nsc [] cs = Inr (cs, [])"
| "filter_pending nsc (transaction # transactions) cs =
     bind_result (is_transaction_pending cs transaction nsc) (\<lambda>(cs1, pending).
     bind_result (filter_pending nsc transactions cs1) (\<lambda>(cs2, rest).
     Inr (cs2, if pending then transaction # rest else rest)))"

text \<open>\<open>setdefault\<close> and \<open>append\<close>.\<close>

definition enqueue_event :: "event \<Rightarrow> chain_state \<Rightarrow> chain_state" where
  "enqueue_event e cs =
     (let cs1 = (case message_header e of
            None \<Rightarrow> cs
          | Some h \<Rightarrow> cs\<lparr>cs_queues := AList.update (queue_identifier_of h)
              (defaultdict_get (queue_identifier_of h) (cs_queues cs) @ [e]) (cs_queues cs)\<rparr>)
      in if is_contract_send e
         then cs1\<lparr>cs_pending_transactions := cs_pending_transactions cs1 @ [e]\<rparr> else cs1)"

definition update_queues :: "chain_state \<Rightarrow> node_state_change \<Rightarrow> event list \<Rightarrow> chain_state result" where
  "update_queues cs nsc events =
     bind_result
       (if is_contract_receive nsc then
          bind_result (filter_pending nsc (cs_pending_transactions cs) cs) (\<lambda>(cs1, pending).
          Inr (cs1\<lparr>cs_pending_transactions := pending\<rparr>))
        else Inr cs)
       (\<lambda>cs1. Inr (fold enqueue_event events cs1))"

definition node_state_transition :: "platform \<Rightarrow> chain_state \<Rightarrow> node_state_change \<Rightarrow> node_transition" where
  "node_state_transition E cs nsc =
     bind_result (handle_state_change E cs nsc) (\<lambda>(cs1, events).
     bind_result (update_queues cs1 nsc events) (\<lambda>cs2.
     Inr (cs2, events)))"

end
