(* ===== verification/Node_Queues.thy ===== *)
theory Node_Queues
  imports Node
begin

text \<open>
  The two queues of a node: what becomes of the messages that wait for an acknowledgement and of the
  transactions that wait for their effect.
\<close>

subsection \<open>Deleting messages\<close>

lemma filter_not_remove1: "P x \<Longrightarrow> filter (\<lambda>y. \<not> P y) (remove1 x ys) = filter (\<lambda>y. \<not> P y) ys"
  by (induction ys) auto

lemma fold_remove1_filter:
  assumes "mset (filter P xs) = mset (filter P ys)"
  shows "fold (\<lambda>x ys. if P x then remove1 x ys else ys) xs ys = filter (\<lambda>y. \<not> P y) ys"
  using assms
proof (induction xs arbitrary: ys)
  case Nil
  then have "\<forall>y\<in>set ys. \<not> P y" by (simp add: filter_empty_conv)
  then show ?case by (simp add: filter_id_conv)
next
  case (Cons x xs)
  show ?case
  proof (cases "P x")
    case True
    have "filter P (remove1 x ys) = remove1 x (filter P ys)" using True by (simp add: filter_remove1)
    then have "mset (filter P xs) = mset (filter P (remove1 x ys))"
      using Cons.prems True by (metis add_mset_remove_trivial filter.simps(2) mset.simps(2) mset_remove1)
    from Cons.IH [OF this] True show ?thesis by (simp add: filter_not_remove1)
  next
    case False
    with Cons show ?thesis by simp
  qed
qed

lemma inplace_delete_message_filter:
  "inplace_delete_message queue ack = filter (\<lambda>m. \<not> message_found ack m) queue"
  unfolding inplace_delete_message_def by (rule fold_remove1_filter) simp

abbreviation queue_of :: "chain_state \<Rightarrow> queue_identifier \<Rightarrow> event list" where
  "queue_of cs q \<equiv> defaultdict_get q (cs_queues cs)"

lemma queue_of_delete: "queue_of (inplace_delete_message_queue cs ack q) q'
    = (if q' = q then filter (\<lambda>m. \<not> message_found ack m) (queue_of cs q) else queue_of cs q')"
  by (cases "map_of (cs_queues cs) q")
    (auto simp: inplace_delete_message_queue_def defaultdict_get_def inplace_delete_message_filter Let_def
      delete_conv' update_conv')

lemma fold_delete_queues:
  "queue_of (fold (\<lambda>queueid cs. inplace_delete_message_queue cs ack queueid) qs cs) q
    = (if q \<in> set qs then filter (\<lambda>m. \<not> message_found ack m) (queue_of cs q) else queue_of cs q)"
  by (induction qs arbitrary: cs) (auto simp: queue_of_delete)

lemma queue_of_delete_all:
  "queue_of (delete_from_all_queues cs ack) q = filter (\<lambda>m. \<not> message_found ack m) (queue_of cs q)"
proof (cases "q \<in> set (map fst (cs_queues cs))")
  case False
  then have "map_of (cs_queues cs) q = None" by (simp add: map_of_eq_None_iff)
  then have "queue_of cs q = []" by (simp add: defaultdict_get_def)
  then show ?thesis by (simp add: delete_from_all_queues_def fold_delete_queues)
qed (simp add: delete_from_all_queues_def fold_delete_queues)

subsection \<open>What the handlers do to the queues\<close>

text \<open>A handler that leaves both queues alone.\<close>

definition same_queues :: "chain_state \<Rightarrow> chain_state \<Rightarrow> bool" where
  "same_queues cs cs' \<longleftrightarrow> cs_queues cs' = cs_queues cs
     \<and> cs_pending_transactions cs' = cs_pending_transactions cs \<and> cs_our_address cs' = cs_our_address cs"

definition quiet_handler :: "chain_state \<Rightarrow> node_transition \<Rightarrow> bool" where
  "quiet_handler cs m \<longleftrightarrow> (case m of Inl e \<Rightarrow> True | Inr (cs', evs) \<Rightarrow>
     same_queues cs cs' \<and> cs_block_number cs' = cs_block_number cs)"

lemma same_queues_refl [simp]: "same_queues cs cs"
  by (simp add: same_queues_def)

lemma same_queues_trans: "same_queues cs cs' \<Longrightarrow> same_queues cs' cs'' \<Longrightarrow> same_queues cs cs''"
  by (simp add: same_queues_def)

lemma put_fields [simp]:
  "same_queues cs (put_token_network a tn cs)" "cs_block_number (put_token_network a tn cs) = cs_block_number cs"
  "same_queues cs (put_channel r ch cs)" "cs_block_number (put_channel r ch cs) = cs_block_number cs"
  "same_queues cs (write_channels S cs)" "cs_block_number (write_channels S cs) = cs_block_number cs"
  "same_queues cs (set_task sh t cs)" "cs_block_number (set_task sh t cs) = cs_block_number cs"
  "same_queues cs (cs'\<lparr>cs_prng := g\<rparr>) = same_queues cs cs'"
  "same_queues (cs\<lparr>cs_prng := g\<rparr>) cs' = same_queues cs cs'"
  "same_queues cs (set_task sh t cs') = same_queues cs cs'"
  by (simp_all add: same_queues_def put_token_network_def put_channel_def write_channels_def set_task_def
      split: option.split)

lemma quiet_handlerI: "(\<And>cs' evs. m = Inr (cs', evs) \<Longrightarrow> same_queues cs cs' \<and> cs_block_number cs' = cs_block_number cs)
    \<Longrightarrow> quiet_handler cs m"
  by (cases m) (auto simp: quiet_handler_def)

lemma quiet_handlerD: "quiet_handler cs m \<Longrightarrow> m = Inr (cs', evs) \<Longrightarrow>
    same_queues cs cs' \<and> cs_block_number cs' = cs_block_number cs"
  by (simp add: quiet_handler_def)

lemma quiet_idle [simp]: "quiet_handler cs (Inr (cs, evs))"
  by (simp add: quiet_handler_def)

lemma quiet_finish_task [simp]: "quiet_handler cs (finish_task sh task cs m)"
  by (rule quiet_handlerI) (auto simp: finish_task_def bind_result_eq_Inr)

lemma quiet_runs [simp]:
  "quiet_handler cs (run_initiator E cs sc tn sh p)" "quiet_handler cs (run_mediator E cs sc tn sh m)"
  "quiet_handler cs (run_target E cs sc r ci ch sh t)"
  by (simp_all add: run_initiator_def run_mediator_def)
    (rule quiet_handlerI, auto simp: run_target_def bind_result_eq_Inr)

lemma quiet_subdispatch [simp]:
  "quiet_handler cs (subdispatch_to_paymenttask E cs sc sh)"
  "quiet_handler cs (subdispatch_initiatortask E cs sc tn sh)"
  "quiet_handler cs (subdispatch_mediatortask E cs sc tn sh)"
  "quiet_handler cs (subdispatch_targettask E cs sc tn cid sh)"
  by (auto simp: subdispatch_to_paymenttask_def subdispatch_initiatortask_def subdispatch_mediatortask_def
      subdispatch_targettask_def Let_def split: option.split transfer_task.split)

lemma quiet_tasks:
  "subdispatch_to_tasks E sc shs cs = Inr (cs', evs) \<Longrightarrow> same_queues cs cs' \<and> cs_block_number cs' = cs_block_number cs"
proof (induction shs arbitrary: cs evs)
  case (Cons sh shs)
  from Cons.prems obtain cs1 evs1 evs2 where 1: "subdispatch_to_paymenttask E cs sc sh = Inr (cs1, evs1)"
    and 2: "subdispatch_to_tasks E sc shs cs1 = Inr (cs', evs2)" by (auto simp: bind_result_eq_Inr)
  from quiet_handlerD [OF quiet_subdispatch(1) 1] Cons.IH [OF 2] show ?case by (auto intro: same_queues_trans)
qed simp

lemma quiet_block_channels:
  "block_channels E sc n h rs cs = Inr (cs', evs) \<Longrightarrow> same_queues cs cs' \<and> cs_block_number cs' = cs_block_number cs"
proof (induction rs arbitrary: cs evs)
  case (Cons r rs)
  show ?case
  proof (cases "lookup_channel cs r")
    case None
    with Cons show ?thesis by simp
  next
    case (Some ch)
    with Cons.prems obtain st g evs1 evs2 where
      "block_channels E sc n h rs ((case st of None \<Rightarrow> cs | Some ch' \<Rightarrow> put_channel r ch' cs)\<lparr>cs_prng := g\<rparr>) = Inr (cs', evs2)"
      by (auto simp: bind_result_eq_Inr Let_def)
    from Cons.IH [OF this] show ?thesis
      by (auto split: option.splits intro: same_queues_trans [OF put_fields(3)])
  qed
qed simp

lemma quiet_token_network [simp]:
  "quiet_handler cs (subdispatch_to_token_network E cs sc a)"
  "quiet_handler cs (subdispatch_by_canonical_id E cs sc ci)"
  "quiet_handler cs (handle_token_network_action E cs sc a)"
  by (rule quiet_handlerI; auto simp: subdispatch_to_token_network_def subdispatch_by_canonical_id_def
      handle_token_network_action_def bind_result_eq_Inr split: option.splits)+

subsection \<open>The message queues\<close>

text \<open>The acknowledgement that a state change carries, and the queues that it reaches.\<close>

definition acknowledges :: "node_state_change \<Rightarrow> queue_identifier \<Rightarrow> acknowledgement option" where
  "acknowledges nsc q =
     (case nsc of
        Common (ReceiveDelivered r) \<Rightarrow>
          if q = \<lparr>qi_recipient = rak_sender r, qi_canonical_identifier = CANONICAL_IDENTIFIER_UNORDERED_QUEUE\<rparr>
          then Some \<lparr>ack_sender = rak_sender r, ack_message_identifier = rak_message_identifier r,
            ack_is_withdraw_confirmation = False\<rparr> else None
      | Common (ReceiveProcessed r) \<Rightarrow> Some \<lparr>ack_sender = rak_sender r,
          ack_message_identifier = rak_message_identifier r, ack_is_withdraw_confirmation = False\<rparr>
      | Common (ToChannel (ReceiveWithdrawConfirmation r)) \<Rightarrow> Some \<lparr>ack_sender = rw_sender r,
          ack_message_identifier = rw_message_identifier r, ack_is_withdraw_confirmation = True\<rparr>
      | _ \<Rightarrow> None)"

text \<open>The queue of a channel that is closed on-chain.\<close>

definition closes_queue :: "chain_state \<Rightarrow> node_state_change \<Rightarrow> queue_identifier \<Rightarrow> bool" where
  "closes_queue cs nsc q \<longleftrightarrow>
     (case nsc of
        Common (ToChannel (ContractReceiveChannelClosed a)) \<Rightarrow>
          let ci = (crc_canonical_identifier a)\<lparr>ci_chain_identifier := cs_chain_id cs\<rparr> in
          (case get_channelstate_by_canonical_identifier cs ci of
             None \<Rightarrow> False
           | Some ch \<Rightarrow> q = \<lparr>qi_recipient = es_address (ch_partner_state ch), qi_canonical_identifier = ci\<rparr>)
      | _ \<Rightarrow> False)"

text \<open>The state changes after which a message is out of its queue.\<close>

definition cleared :: "chain_state \<Rightarrow> node_state_change \<Rightarrow> queue_identifier \<Rightarrow> event \<Rightarrow> bool" where
  "cleared cs nsc q m \<longleftrightarrow> closes_queue cs nsc q \<or>
     (case message_header m of
        None \<Rightarrow> False
      | Some h \<Rightarrow>
        (case nsc of
           Common (ReceiveDelivered r) \<Rightarrow>
             q = \<lparr>qi_recipient = rak_sender r, qi_canonical_identifier = CANONICAL_IDENTIFIER_UNORDERED_QUEUE\<rparr>
             \<and> rak_sender r = mh_recipient h \<and> rak_message_identifier r = mh_message_identifier h
             \<and> \<not> is_withdraw_request m
         | Common (ReceiveProcessed r) \<Rightarrow>
             rak_sender r = mh_recipient h \<and> rak_message_identifier r = mh_message_identifier h
             \<and> \<not> is_withdraw_request m
         | Common (ToChannel (ReceiveWithdrawConfirmation r)) \<Rightarrow>
             rw_sender r = mh_recipient h \<and> rw_message_identifier r = mh_message_identifier h
         | _ \<Rightarrow> False))"

lemma cleared_acknowledged:
  "cleared cs nsc q m \<longleftrightarrow> closes_queue cs nsc q
     \<or> (case acknowledges nsc q of None \<Rightarrow> False | Some ack \<Rightarrow> message_found ack m)"
  by (auto simp: cleared_def acknowledges_def message_found_def
      split: node_state_change.splits state_change.splits channel_state_change.splits option.splits)

definition goes_to :: "queue_identifier \<Rightarrow> event \<Rightarrow> bool" where
  "goes_to q e \<longleftrightarrow> (case message_header e of None \<Rightarrow> False | Some h \<Rightarrow> queue_identifier_of h = q)"

lemma enqueue_event_queue: "queue_of (enqueue_event e cs) q = queue_of cs q @ (if goes_to q e then [e] else [])"
  by (auto simp: enqueue_event_def goes_to_def defaultdict_get_def Let_def update_conv' split: option.split)

lemma enqueue_events_queue: "queue_of (fold enqueue_event evs cs) q = queue_of cs q @ filter (goes_to q) evs"
  by (induction evs arbitrary: cs) (auto simp: enqueue_event_queue)

lemma enqueue_events_pending:
  "cs_pending_transactions (fold enqueue_event evs cs) = cs_pending_transactions cs @ filter is_contract_send evs"
  by (induction evs arbitrary: cs) (auto simp: enqueue_event_def Let_def split: option.split)

lemma get_channelstate_same_queues:
  "get_channelstate_by_token_network_and_partner cs a p = Inr (cs', ch) \<Longrightarrow>
     same_queues cs cs' \<and> cs_block_number cs' = cs_block_number cs"
  by (auto simp: get_channelstate_by_token_network_and_partner_def bind_result_eq_Inr split: option.splits)

lemma batch_unlock_done_same_queues:
  "batch_unlock_done cs a = Inr (cs', b) \<Longrightarrow> same_queues cs cs' \<and> cs_block_number cs' = cs_block_number cs"
  by (auto simp: batch_unlock_done_def Let_def bind_result_eq_Inr split: if_splits
      dest: get_channelstate_same_queues)

lemma is_transaction_pending_same_queues:
  assumes "is_transaction_pending cs t nsc = Inr (cs', b)"
  shows "same_queues cs cs' \<and> cs_block_number cs' = cs_block_number cs"
proof -
  from assms obtain b' where "is_transaction_effect_satisfied cs t nsc = Inr (cs', b')"
    by (auto simp: is_transaction_pending_def bind_result_eq_Inr)
  then show ?thesis
    by (auto simp: is_transaction_effect_satisfied_def dest: batch_unlock_done_same_queues
        split: node_state_change.splits state_change.splits channel_state_change.splits event.splits)
qed

lemma filter_pending_same_queues:
  "filter_pending nsc ts cs = Inr (cs', ts') \<Longrightarrow> same_queues cs cs' \<and> cs_block_number cs' = cs_block_number cs"
proof (induction ts arbitrary: cs ts')
  case (Cons t ts)
  from Cons.prems obtain cs1 b ts1 where 1: "is_transaction_pending cs t nsc = Inr (cs1, b)"
    and 2: "filter_pending nsc ts cs1 = Inr (cs', ts1)" by (auto simp: bind_result_eq_Inr)
  from is_transaction_pending_same_queues [OF 1] Cons.IH [OF 2] show ?case by (auto intro: same_queues_trans)
qed simp

lemma update_queues_queue:
  assumes "update_queues cs nsc evs = Inr cs'"
  shows "queue_of cs' q = queue_of cs q @ filter (goes_to q) evs"
  using assms
  by (auto simp: update_queues_def bind_result_eq_Inr enqueue_events_queue split: if_splits
      dest!: filter_pending_same_queues) (auto simp: same_queues_def)

lemma update_queues_pending:
  assumes "update_queues cs nsc evs = Inr cs'"
  obtains cs1 ts where "if is_contract_receive nsc then filter_pending nsc (cs_pending_transactions cs) cs = Inr (cs1, ts)
      else ts = cs_pending_transactions cs"
    and "cs_pending_transactions cs' = ts @ filter is_contract_send evs"
  using assms
  by (auto simp: update_queues_def bind_result_eq_Inr enqueue_events_pending split: if_splits)

text \<open>What a handler does to the queues.\<close>

definition clears ::
  "chain_state \<Rightarrow> node_state_change \<Rightarrow> chain_state \<Rightarrow> bool" where
  "clears cs nsc cs' \<longleftrightarrow>
     (\<forall>q. queue_of cs' q = filter (\<lambda>m. \<not> cleared cs nsc q m) (queue_of cs q))
     \<and> cs_pending_transactions cs' = cs_pending_transactions cs \<and> cs_our_address cs' = cs_our_address cs
     \<and> (case nsc of Common (ToChannel (Block b)) \<Rightarrow> True | _ \<Rightarrow> cs_block_number cs' = cs_block_number cs)"

lemma quiet_clears:
  assumes "quiet_handler cs m" and "m = Inr (cs', evs)" and "\<And>q. acknowledges nsc q = None" and "\<And>q. \<not> closes_queue cs nsc q"
  shows "clears cs nsc cs'"
  using quiet_handlerD [OF assms(1,2)] assms(3,4)
  by (auto simp: clears_def same_queues_def cleared_acknowledged
      split: node_state_change.split state_change.split channel_state_change.split)

lemma delete_queue_fields:
  "cs_pending_transactions (inplace_delete_message_queue cs ack q) = cs_pending_transactions cs"
  "cs_our_address (inplace_delete_message_queue cs ack q) = cs_our_address cs"
  "cs_block_number (inplace_delete_message_queue cs ack q) = cs_block_number cs"
  by (simp_all add: inplace_delete_message_queue_def Let_def split: option.split)

lemma delete_all_fields:
  "cs_pending_transactions (delete_from_all_queues cs ack) = cs_pending_transactions cs"
  "cs_our_address (delete_from_all_queues cs ack) = cs_our_address cs"
  "cs_block_number (delete_from_all_queues cs ack) = cs_block_number cs"
proof -
  have "cs_pending_transactions (fold (\<lambda>q cs. inplace_delete_message_queue cs ack q) qs cs) = cs_pending_transactions cs
    \<and> cs_our_address (fold (\<lambda>q cs. inplace_delete_message_queue cs ack q) qs cs) = cs_our_address cs
    \<and> cs_block_number (fold (\<lambda>q cs. inplace_delete_message_queue cs ack q) qs cs) = cs_block_number cs" for qs
    by (induction qs arbitrary: cs) (simp_all add: delete_queue_fields)
  then show "cs_pending_transactions (delete_from_all_queues cs ack) = cs_pending_transactions cs"
    "cs_our_address (delete_from_all_queues cs ack) = cs_our_address cs"
    "cs_block_number (delete_from_all_queues cs ack) = cs_block_number cs"
    by (simp_all add: delete_from_all_queues_def)
qed

lemma handle_block_clears:
  assumes "node_handle_block E cs b = Inr (cs', evs)"
  shows "clears cs (Common (BlockChange b)) cs'"
proof -
  let ?cs = "cs\<lparr>cs_block_number := blk_block_number b, cs_block_hash := blk_block_hash b\<rparr>"
  from assms obtain cs1 evs1 evs2 where
    1: "block_channels E (Block b) (blk_block_number b) (blk_block_hash b) (all_channel_refs ?cs) ?cs = Inr (cs1, evs1)"
    and 2: "subdispatch_to_tasks E (BlockChange b) (map fst (cs_payment_mapping cs1)) cs1 = Inr (cs', evs2)"
    by (auto simp: node_handle_block_def Let_def bind_result_eq_Inr subdispatch_to_all_channels_def
        subdispatch_to_all_lockedtransfers_def)
  from quiet_block_channels [OF 1] quiet_tasks [OF 2] show ?thesis
    by (auto simp: clears_def same_queues_def cleared_acknowledged acknowledges_def closes_queue_def)
qed

lemma handle_closed_clears:
  assumes "handle_contract_receive_channel_closed E cs a = Inr (cs', evs)"
  shows "clears cs (Common (ToChannel (ContractReceiveChannelClosed a))) cs'"
proof -
  let ?ci = "(crc_canonical_identifier a)\<lparr>ci_chain_identifier := cs_chain_id cs\<rparr>"
  have ci: "\<lparr>ci_chain_identifier = cs_chain_id cs,
      ci_token_network_address = ci_token_network_address (crc_canonical_identifier a),
      ci_channel_identifier = ci_channel_identifier (crc_canonical_identifier a)\<rparr> = ?ci" by simp
  define cs1 where "cs1 = (case get_channelstate_by_canonical_identifier cs ?ci of
      None \<Rightarrow> cs
    | Some ch \<Rightarrow> cs\<lparr>cs_queues := AList.delete
        \<lparr>qi_recipient = es_address (ch_partner_state ch), qi_canonical_identifier = ?ci\<rparr> (cs_queues cs)\<rparr>)"
  have "handle_token_network_action E cs1 (ToChannel (ContractReceiveChannelClosed a))
      (ci_token_network_address (crc_canonical_identifier a)) = Inr (cs', evs)"
    using assms unfolding handle_contract_receive_channel_closed_def Let_def ci cs1_def .
  from quiet_handlerD [OF quiet_token_network(3) this] show ?thesis
    by (auto simp: clears_def same_queues_def cleared_acknowledged acknowledges_def closes_queue_def cs1_def Let_def
        defaultdict_get_def delete_conv' split: option.split)
qed

lemma handle_acknowledged_clears:
  "handle_receive_delivered cs r = Inr (cs', evs) \<Longrightarrow> clears cs (Common (ReceiveDelivered r)) cs'"
  "handle_receive_processed cs r = Inr (cs', evs) \<Longrightarrow> clears cs (Common (ReceiveProcessed r)) cs'"
  "node_handle_receive_withdraw_confirmation E cs w = Inr (cs', evs) \<Longrightarrow>
     clears cs (Common (ToChannel (ReceiveWithdrawConfirmation w))) cs'"
  by (auto simp: handle_receive_delivered_def handle_receive_processed_def node_handle_receive_withdraw_confirmation_def
      clears_def cleared_acknowledged acknowledges_def closes_queue_def queue_of_delete queue_of_delete_all delete_queue_fields
      delete_all_fields bind_result_eq_Inr dest!: quiet_handlerD [OF quiet_token_network(2)])
    (auto simp: same_queues_def)

lemma handle_channel_state_change_clears:
  assumes "handle_channel_state_change E cs sc = Inr (cs', evs)"
  shows "clears cs (Common (ToChannel sc)) cs'"
proof (cases "(\<exists>b. sc = Block b) \<or> (\<exists>a. sc = ContractReceiveChannelClosed a) \<or> (\<exists>w. sc = ReceiveWithdrawConfirmation w)")
  case True
  with assms handle_block_clears handle_closed_clears handle_acknowledged_clears(3) show ?thesis
    by (auto simp: handle_channel_state_change_def)
next
  case False
  then have "quiet_handler cs (handle_channel_state_change E cs sc)"
    by (cases sc) (auto simp: handle_channel_state_change_def)
  from quiet_clears [OF this assms] False show ?thesis
    by (cases sc) (auto simp: acknowledges_def closes_queue_def)
qed

lemma put_token_networks_fields:
  "same_queues cs (put_token_networks tns cs) \<and> cs_block_number (put_token_networks tns cs) = cs_block_number cs"
proof (induction tns arbitrary: cs)
  case (Cons tn tns)
  from Cons.IH [of "put_token_network (tn_address tn) tn cs"] show ?case
    by (auto simp: put_token_networks_def intro: same_queues_trans [OF put_fields(1)])
qed (simp add: put_token_networks_def)

lemma quiet_registries:
  "quiet_handler cs (handle_contract_receive_new_token_network_registry cs a)"
  "quiet_handler cs (handle_contract_receive_new_token_network cs b)"
  using put_token_networks_fields [of cs "cnr_token_networks a"]
  by (auto simp: quiet_handler_def handle_contract_receive_new_token_network_registry_def
      handle_contract_receive_new_token_network_def maybe_add_tokennetwork_def same_queues_def
      put_token_network_def Let_def split: prod.split)

lemma quiet_reroute: "quiet_handler cs (handle_action_transfer_reroute E cs a)"
proof (rule quiet_handlerI)
  fix cs' evs
  assume "handle_action_transfer_reroute E cs a = Inr (cs', evs)"
  then obtain task where
    "subdispatch_to_paymenttask E (set_task (atr_secrethash a) (Some task) cs) (ActionTransferReroute a)
      (atr_secrethash a) = Inr (cs', evs)"
    by (auto simp: handle_action_transfer_reroute_def split: option.splits)
  from quiet_handlerD [OF quiet_subdispatch(1) this]
  show "same_queues cs cs' \<and> cs_block_number cs' = cs_block_number cs"
    by (auto intro: same_queues_trans [OF put_fields(7)])
qed

lemma handle_state_change_clears:
  assumes "handle_state_change E cs nsc = Inr (cs', evs)"
  shows "clears cs nsc cs'"
proof (cases "(\<exists>c. nsc = Common (ToChannel c)) \<or> (\<exists>r. nsc = Common (ReceiveDelivered r)) \<or> (\<exists>r. nsc = Common (ReceiveProcessed r))")
  case True
  with assms handle_channel_state_change_clears handle_acknowledged_clears(1,2) show ?thesis
    by (auto simp: handle_state_change_def)
next
  case False
  then have "quiet_handler cs (handle_state_change E cs nsc)"
    using quiet_registries quiet_reroute
    by (auto simp: handle_state_change_def handle_action_init_initiator_def handle_action_init_mediator_def
        handle_action_init_target_def Let_def split: node_state_change.split state_change.split)
  from quiet_clears [OF this assms] False show ?thesis
    by (auto simp: acknowledges_def closes_queue_def split: node_state_change.splits state_change.splits)
qed

lemma node_queue:
  assumes "node_state_transition E cs nsc = Inr (cs', evs)"
  shows "queue_of cs' q = filter (\<lambda>m. \<not> cleared cs nsc q m) (queue_of cs q) @ filter (goes_to q) evs"
proof -
  from assms obtain cs1 where h: "handle_state_change E cs nsc = Inr (cs1, evs)"
    and u: "update_queues cs1 nsc evs = Inr cs'"
    by (auto simp: node_state_transition_def bind_result_eq_Inr)
  from handle_state_change_clears [OF h] update_queues_queue [OF u] show ?thesis by (simp add: clears_def)
qed

subsection \<open>Pending transactions\<close>

text \<open>Two states that the queries of pending transactions do not tell apart.\<close>

definition same_index :: "token_network \<Rightarrow> token_network \<Rightarrow> bool" where
  "same_index tn tn' \<longleftrightarrow> tn_channels tn' = tn_channels tn
     \<and> (\<forall>p. defaultdict_get p (tn_partner_channels tn') = defaultdict_get p (tn_partner_channels tn))"

definition same_answers :: "chain_state \<Rightarrow> chain_state \<Rightarrow> bool" where
  "same_answers cs cs' \<longleftrightarrow> cs_registries cs' = cs_registries cs \<and> cs_our_address cs' = cs_our_address cs
     \<and> cs_block_number cs' = cs_block_number cs
     \<and> (\<forall>a. rel_option same_index (map_of (cs_token_networks cs) a) (map_of (cs_token_networks cs') a))"

lemma same_index_refl [simp]: "same_index tn tn"
  by (simp add: same_index_def)

lemma same_answers_refl [simp]: "same_answers cs cs"
  by (simp add: same_answers_def option.rel_refl)

lemma same_answers_trans: "same_answers cs cs' \<Longrightarrow> same_answers cs' cs'' \<Longrightarrow> same_answers cs cs''"
  unfolding same_answers_def
  by (auto intro!: option.rel_mono_strong [of "same_index OO same_index" _ _ same_index]
      simp: option.rel_compp same_index_def) blast

lemma defaultdict_get_touch [simp]: "defaultdict_get p (defaultdict_touch q d) = defaultdict_get p d"
  by (auto simp: defaultdict_get_def defaultdict_touch_def dict_mem_def update_conv' split: option.split)

lemma find_token_network_same:
  assumes "same_answers cs cs'"
  shows "rel_option same_index (find_token_network cs regs a) (find_token_network cs' regs a)"
proof (induction regs)
  case (Cons reg regs)
  from assms have "rel_option same_index (registry_get cs reg a) (registry_get cs' reg a)"
    by (simp add: registry_get_def same_answers_def)
  with Cons show ?case by (cases "registry_get cs reg a"; cases "registry_get cs' reg a") auto
qed simp

lemma find_token_network_object: "find_token_network cs regs a = Some tn \<Longrightarrow> map_of (cs_token_networks cs) a = Some tn"
  by (induction regs) (auto simp: registry_get_def split: option.splits if_splits)

text \<open>The answer of a query, without the state that it leaves.\<close>

fun answer :: "('s \<times> 'a) result \<Rightarrow> 'a result" where
  "answer (Inl e) = Inl e"
| "answer (Inr (s, x)) = Inr x"

lemma partner_channels_same:
  assumes "same_index tn tn'"
  shows "answer (partner_channels tn' p) = answer (partner_channels tn p)"
    and "partner_channels tn p = Inr (tn1, ch) \<Longrightarrow> same_index tn tn1"
  using assms by (auto simp: partner_channels_def same_index_def Let_def bind_result_def split: sum.splits)

lemma get_channelstate_same:
  assumes "same_answers cs cs'"
  shows "answer (get_channelstate_by_token_network_and_partner cs' a p)
      = answer (get_channelstate_by_token_network_and_partner cs a p)"
proof -
  have "cs_registries cs' = cs_registries cs" using assms by (simp add: same_answers_def)
  with find_token_network_same [OF assms, of "map snd (cs_registries cs)" a]
  have "rel_option same_index (views_get_token_network_by_address cs a) (views_get_token_network_by_address cs' a)"
    by (simp add: views_get_token_network_by_address_def)
  then show ?thesis
  proof cases
    case None
    then show ?thesis by (simp add: get_channelstate_by_token_network_and_partner_def)
  next
    case (Some tn tn')
    from partner_channels_same(1) [OF Some(3), of p] show ?thesis
      by (cases "partner_channels tn p"; cases "partner_channels tn' p")
        (auto simp: get_channelstate_by_token_network_and_partner_def Some(1,2))
  qed
qed

lemma get_channelstate_keeps:
  assumes "get_channelstate_by_token_network_and_partner cs a p = Inr (cs', ch)"
  shows "same_answers cs cs'"
proof (cases "views_get_token_network_by_address cs a")
  case None
  with assms show ?thesis by (simp add: get_channelstate_by_token_network_and_partner_def)
next
  case (Some tn)
  with assms obtain tn' where p: "partner_channels tn p = Inr (tn', ch)" and cs': "cs' = put_token_network a tn' cs"
    by (auto simp: get_channelstate_by_token_network_and_partner_def bind_result_eq_Inr)
  from Some have "map_of (cs_token_networks cs) a = Some tn"
    by (auto simp: views_get_token_network_by_address_def dest: find_token_network_object)
  with partner_channels_same(2) [OF same_index_refl p] show ?thesis
    by (auto simp: cs' same_answers_def put_token_network_def update_conv' option.rel_refl)
qed

lemma batch_unlock_done_same:
  assumes "same_answers cs cs'"
  shows "answer (batch_unlock_done cs' a) = answer (batch_unlock_done cs a)"
proof -
  have our: "cs_our_address cs' = cs_our_address cs" using assms by (simp add: same_answers_def)
  have *: "answer (bind_result m' (\<lambda>(cs', ch). Inr (cs', ch = None))) = answer (bind_result m (\<lambda>(cs', ch). Inr (cs', ch = None)))"
    if "answer m' = answer m" for m m' :: "(chain_state \<times> channel option) result"
    using that by (cases m; cases m') auto
  show ?thesis
    by (auto simp: batch_unlock_done_def our Let_def intro!: * get_channelstate_same [OF assms] split: option.split)
qed

lemma batch_unlock_done_keeps: "batch_unlock_done cs a = Inr (cs', b) \<Longrightarrow> same_answers cs cs'"
  by (auto simp: batch_unlock_done_def Let_def bind_result_eq_Inr split: if_splits dest: get_channelstate_keeps)

lemmas change_splits = node_state_change.splits state_change.splits channel_state_change.splits event.splits

lemma is_transaction_pending_same:
  assumes "same_answers cs cs'"
  shows "answer (is_transaction_pending cs' t nsc) = answer (is_transaction_pending cs t nsc)"
proof -
  have n: "cs_block_number cs' = cs_block_number cs" using assms by (simp add: same_answers_def)
  have "answer (is_transaction_effect_satisfied cs' t nsc) = answer (is_transaction_effect_satisfied cs t nsc)"
    using batch_unlock_done_same [OF assms]
    by (auto simp: is_transaction_effect_satisfied_def split: change_splits)
  then show ?thesis
    by (cases "is_transaction_effect_satisfied cs t nsc"; cases "is_transaction_effect_satisfied cs' t nsc")
      (auto simp: is_transaction_pending_def n)
qed

lemma is_transaction_pending_keeps:
  assumes "is_transaction_pending cs t nsc = Inr (cs', b)"
  shows "same_answers cs cs'"
proof -
  from assms obtain b' where "is_transaction_effect_satisfied cs t nsc = Inr (cs', b')"
    by (auto simp: is_transaction_pending_def bind_result_eq_Inr)
  then show ?thesis
    by (auto simp: is_transaction_effect_satisfied_def dest: batch_unlock_done_keeps split: change_splits)
qed

lemma filter_pending_eq:
  assumes "filter_pending nsc ts cs = Inr (cs', ts')"
  shows "same_answers cs cs' \<and> ts' = filter (\<lambda>t. answer (is_transaction_pending cs t nsc) = Inr True) ts
    \<and> (\<forall>t\<in>set ts. \<not> isl (is_transaction_pending cs t nsc))"
  using assms
proof (induction ts arbitrary: cs ts')
  case (Cons t ts)
  from Cons.prems obtain cs1 b ts1 where 1: "is_transaction_pending cs t nsc = Inr (cs1, b)"
    and 2: "filter_pending nsc ts cs1 = Inr (cs', ts1)" and ts': "ts' = (if b then t # ts1 else ts1)"
    by (auto simp: bind_result_eq_Inr)
  note k = is_transaction_pending_keeps [OF 1]
  note eq = is_transaction_pending_same [OF k]
  have isl: "isl (is_transaction_pending cs1 u nsc) = isl (is_transaction_pending cs u nsc)" for u
    using eq [of u nsc] by (cases "is_transaction_pending cs1 u nsc"; cases "is_transaction_pending cs u nsc") auto
  from Cons.IH [OF 2] k 1 show ?case
    by (auto simp: ts' eq isl intro: same_answers_trans)
qed simp

text \<open>The contract events that resolve a pending transaction.\<close>

definition partner_gone :: "chain_state \<Rightarrow> contract_receive_batch_unlock \<Rightarrow> bool" where
  "partner_gone cs a \<longleftrightarrow>
     (let our = cs_our_address cs; partner = (if cru_receiver a = our then cru_sender a else cru_receiver a) in
      (cru_receiver a = our \<or> cru_sender a = our) \<and> partner \<noteq> []
      \<and> answer (get_channelstate_by_token_network_and_partner cs
          (ci_token_network_address (cru_canonical_identifier a)) partner) = Inr None)"

lemma batch_unlock_done_iff: "answer (batch_unlock_done cs a) = Inr True \<longleftrightarrow> partner_gone cs a"
proof -
  have *: "answer (bind_result m (\<lambda>(cs', ch). Inr (cs', ch = None))) = Inr True \<longleftrightarrow> answer m = Inr None"
    for m :: "(chain_state \<times> channel option) result"
    by (cases m) auto
  show ?thesis by (simp add: batch_unlock_done_def partner_gone_def Let_def *)
qed

definition resolved :: "chain_state \<Rightarrow> node_state_change \<Rightarrow> event \<Rightarrow> bool" where
  "resolved cs nsc t \<longleftrightarrow>
     (case t of
        ContractSendChannelClose h ci bp \<Rightarrow>
          (case nsc of Common (ToChannel (ContractReceiveChannelClosed a)) \<Rightarrow>
             same_channel (crc_canonical_identifier a) ci | _ \<Rightarrow> False)
      | ContractSendChannelWithdraw h ci amount expiration signature \<Rightarrow>
          (case nsc of Common (ToChannel (ContractReceiveChannelClosed a)) \<Rightarrow>
             same_channel (crc_canonical_identifier a) ci | _ \<Rightarrow> False)
      | ContractSendChannelSettle h ci \<Rightarrow>
          (case nsc of Common (ToChannel (ContractReceiveChannelSettled a)) \<Rightarrow>
             same_channel (crs_canonical_identifier a) ci | _ \<Rightarrow> False)
      | ContractSendChannelUpdateTransfer h expiration bp \<Rightarrow> expiration < cs_block_number cs \<or>
          (case nsc of
             Common (ToChannel (ContractReceiveChannelSettled a)) \<Rightarrow>
               same_channel (crs_canonical_identifier a) (bp_canonical_identifier bp)
           | Common (ToChannel (ContractReceiveUpdateTransfer a)) \<Rightarrow>
               same_channel (crt_canonical_identifier a) (bp_canonical_identifier bp) \<and> crt_nonce a = bp_nonce bp
           | _ \<Rightarrow> False)
      | ContractSendSecretReveal h expiration secret \<Rightarrow> expiration < cs_block_number cs \<or>
          (case nsc of Common (ContractReceiveSecretReveal r) \<Rightarrow> crr_secret r = secret | _ \<Rightarrow> False)
      | ContractSendChannelBatchUnlock h ci sender \<Rightarrow>
          (case nsc of Common (ToChannel (ContractReceiveChannelBatchUnlock a)) \<Rightarrow> partner_gone cs a | _ \<Rightarrow> False)
      | _ \<Rightarrow> False)"

lemma pending_resolved:
  assumes "\<not> isl (is_transaction_pending cs t nsc)"
  shows "answer (is_transaction_pending cs t nsc) = Inr True \<longleftrightarrow> \<not> resolved cs nsc t"
proof -
  from assms obtain cs1 b where
    s: "is_transaction_effect_satisfied cs t nsc = Inr (cs1, b)"
    by (cases "is_transaction_effect_satisfied cs t nsc") (auto simp: is_transaction_pending_def)
  then have p: "is_transaction_pending cs t nsc = Inr (cs1, \<not> (b \<or> is_transaction_invalidated t nsc
      \<or> is_transaction_expired t (cs_block_number cs)))" by (simp add: is_transaction_pending_def)
  from s show ?thesis
    unfolding p
    by (cases t) (auto simp: resolved_def is_transaction_effect_satisfied_def is_transaction_invalidated_def
        is_transaction_expired_def batch_unlock_done_iff [symmetric] split: node_state_change.splits state_change.splits channel_state_change.splits)
qed

lemma resolved_same:
  assumes "same_answers cs cs'"
  shows "resolved cs' nsc t = resolved cs nsc t"
proof -
  have n: "cs_block_number cs' = cs_block_number cs" using assms by (simp add: same_answers_def)
  have g: "partner_gone cs' = partner_gone cs"
    by (simp add: fun_eq_iff batch_unlock_done_iff [symmetric] batch_unlock_done_same [OF assms])
  show ?thesis unfolding resolved_def n g ..
qed

lemma enqueue_same_answers: "same_answers cs cs1 \<Longrightarrow> same_answers cs (fold enqueue_event evs (cs1\<lparr>cs_pending_transactions := ts\<rparr>))"
proof -
  have "same_answers cs (fold enqueue_event evs cs2)" if "same_answers cs cs2" for cs2
    using that
    by (induction evs arbitrary: cs2) (auto simp: enqueue_event_def same_answers_def Let_def split: option.split)
  moreover assume "same_answers cs cs1"
  ultimately show ?thesis by (simp add: same_answers_def)
qed

lemma node_pending:
  assumes "node_state_transition E cs nsc = Inr (cs', evs)"
  shows "cs_pending_transactions cs' =
    filter (\<lambda>t. \<not> (is_contract_receive nsc \<and> resolved cs' nsc t)) (cs_pending_transactions cs) @ filter is_contract_send evs"
proof -
  from assms obtain cs1 where h: "handle_state_change E cs nsc = Inr (cs1, evs)"
    and u: "update_queues cs1 nsc evs = Inr cs'"
    by (auto simp: node_state_transition_def bind_result_eq_Inr)
  from handle_state_change_clears [OF h] have p: "cs_pending_transactions cs1 = cs_pending_transactions cs"
    by (simp add: clears_def)
  show ?thesis
  proof (cases "is_contract_receive nsc")
    case False
    with u p show ?thesis by (auto simp: update_queues_def enqueue_events_pending)
  next
    case True
    with u obtain cs2 ts where f: "filter_pending nsc (cs_pending_transactions cs1) cs1 = Inr (cs2, ts)"
      and cs': "cs' = fold enqueue_event evs (cs2\<lparr>cs_pending_transactions := ts\<rparr>)"
      by (auto simp: update_queues_def bind_result_eq_Inr)
    from filter_pending_eq [OF f] have k: "same_answers cs1 cs2"
      and ts: "ts = filter (\<lambda>t. answer (is_transaction_pending cs1 t nsc) = Inr True) (cs_pending_transactions cs)"
      and ok: "\<forall>t\<in>set (cs_pending_transactions cs). \<not> isl (is_transaction_pending cs1 t nsc)"
      by (simp_all add: p)
    have "ts = filter (\<lambda>t. \<not> resolved cs' nsc t) (cs_pending_transactions cs)"
      unfolding ts using ok resolved_same [OF enqueue_same_answers [OF k, of evs ts]] pending_resolved
      by (intro filter_cong) (auto simp: cs')
    with True show ?thesis by (simp add: cs' enqueue_events_pending)
  qed
qed

end
