(* ===== verification/Mediation_Amount_Laws.thy ===== *)
theory Mediation_Amount_Laws
  imports Mediation_Amount Mediation_Fee_Laws
begin

text \<open>
  The search for the amount after fees is exact: \<open>find_intersection\<close> returns the point where the
  piecewise linear fee function meets the line, and \<open>None\<close> only when they do not meet. With capped fees
  a mediator never forwards more than it receives.
\<close>

subsection \<open>The search\<close>

lemma py_nth_nat [simp]: "py_nth xs (int i) = nth_result xs i"
  by (simp add: py_nth_def)

lemma py_nth_0 [simp]: "py_nth xs 0 = nth_result xs 0"
  by (simp add: py_nth_def)

lemma py_nth_last: "xs \<noteq> [] \<Longrightarrow> py_nth xs (- 1) = Inr (last xs)"
  by (cases xs) (auto simp: py_nth_def last_conv_nth)

lemma py_nth_pred [simp]: "py_nth xs (int (Suc i) - 1) = nth_result xs i"
  by (simp add: py_nth_def)

text \<open>The distance of the fee function from the line at a point.\<close>

definition gap :: "rat list \<Rightarrow> rat list \<Rightarrow> int \<Rightarrow> nat \<Rightarrow> rat" where
  "gap xs ys amount i = ys ! i - (of_int amount - xs ! i)"

lemma amount_line_nat:
  "i < length (ip_x_list f) \<Longrightarrow> amount_line f amount (int i) = Inr (of_int amount - ip_x_list f ! i)"
  by (simp add: amount_line_def nth_result_def)

lemma find_section_total:
  assumes f: "ip_x_list f = xs" "ip_y_list f = ys" "length ys = length xs" and "i < length xs"
    and line: "\<And>j. j < length xs \<Longrightarrow> h (int j) = Inr (l j)"
  shows "\<exists>r. find_section cmp f h i (ys ! i) = Inr r
    \<and> (case r of
         None \<Rightarrow> \<forall>j. i \<le> j \<and> j < length xs \<longrightarrow> cmp (ys ! j) (l j)
       | Some n \<Rightarrow> i \<le> n \<and> n < length xs \<and> \<not> cmp (ys ! n) (l n) \<and> (\<forall>j. i \<le> j \<and> j < n \<longrightarrow> cmp (ys ! j) (l j)))"
  using \<open>i < length xs\<close>
proof (induction "length xs - i" arbitrary: i rule: less_induct)
  case less
  note unfold = find_section.simps [of cmp f h i]
  show ?case
  proof (cases "cmp (ys ! i) (l i)")
    case False
    then show ?thesis using less.prems line f by (auto simp: unfold)
  next
    case True
    show ?thesis
    proof (cases "Suc i = length xs")
      case last: True
      then have only: "i \<le> j \<and> j < length xs \<longleftrightarrow> j = i" for j by auto
      have "find_section cmp f h i (ys ! i) = Inr None"
        using True last line [OF less.prems] f by (subst unfold) simp
      with True show ?thesis unfolding only by simp
    next
      case False
      with less.prems have s: "Suc i < length xs" by simp
      then obtain r where r: "find_section cmp f h (Suc i) (ys ! Suc i) = Inr r" and
        spec: "case r of
         None \<Rightarrow> \<forall>j. Suc i \<le> j \<and> j < length xs \<longrightarrow> cmp (ys ! j) (l j)
       | Some n \<Rightarrow> Suc i \<le> n \<and> n < length xs \<and> \<not> cmp (ys ! n) (l n)
           \<and> (\<forall>j. Suc i \<le> j \<and> j < n \<longrightarrow> cmp (ys ! j) (l j))"
        using less.hyps [of "Suc i"] less.prems by fastforce
      have step: "i \<le> j \<longleftrightarrow> j = i \<or> Suc i \<le> j" for j by auto
      have "find_section cmp f h i (ys ! i) = Inr r"
        using True s r line [of i] less.prems f by (subst unfold) simp
      with spec True show ?thesis by (auto simp: step split: option.splits)
    qed
  qed
qed

text \<open>Between a point where the gap has one sign and a point where it has not, the secant meets zero.\<close>

lemma secant_meets_line:
  fixes x1 x2 d1 d2 c y1 :: rat
  assumes "x1 < x2" and "d1 < 0 \<and> 0 \<le> d2 \<or> 0 < d1 \<and> d2 \<le> 0"
    and "y1 = d1 + (c - x1)" and "y2 = d2 + (c - x2)"
  defines "x \<equiv> (- d1) * (x2 - x1) / (d2 - d1) + x1"
  shows "x1 \<le> x" and "x \<le> x2" and "y1 + (y2 - y1) / (x2 - x1) * (x - x1) = c - x"
proof -
  have ne: "d2 - d1 \<noteq> 0" "x2 - x1 \<noteq> 0" using assms(1,2) by auto
  define q where "q = - d1 / (d2 - d1)"
  have q: "0 \<le> q" "q \<le> 1"
    using assms(2) ne unfolding q_def by (auto simp: field_simps divide_le_eq zero_le_divide_iff)
  have x: "x = x1 + q * (x2 - x1)" by (simp add: x_def q_def)
  have le: "0 \<le> x2 - x1" using assms(1) by simp
  show "x1 \<le> x" using q(1) le by (simp add: x)
  show "x \<le> x2" using mult_right_mono [OF q(2) le] by (simp add: x)
  have "(y2 - y1) / (x2 - x1) * (x - x1) = (y2 - y1) * q" using ne by (simp add: x)
  also have "\<dots> = (d2 - d1) * q - (x2 - x1) * q" by (simp add: assms(3,4) algebra_simps)
  also have "(d2 - d1) * q = - d1" using ne by (simp add: q_def)
  finally show "y1 + (y2 - y1) / (x2 - x1) * (x - x1) = c - x" by (simp add: x assms(3) algebra_simps)
qed

lemma find_intersection_exact:
  assumes f: "Interpolate xs ys = Inr f" and len: "length ys = length xs" and ne: "xs \<noteq> []"
  shows "case find_intersection f (amount_line f c) of
      Inl e \<Rightarrow> e = ZeroDivisionError \<and> gap xs ys c 0 = 0 \<and> gap xs ys c (length xs - 1) = 0
    | Inr None \<Rightarrow> (\<forall>i < length xs. gap xs ys c i < 0) \<or> (\<forall>i < length xs. 0 < gap xs ys c i)
    | Inr (Some x) \<Rightarrow> hd xs \<le> x \<and> x \<le> last xs \<and> interpolate_call f x = Inr (of_int c - x)"
proof -
  from f have asc: "ascending xs" and f': "ip_x_list f = xs" "ip_y_list f = ys"
    by (auto simp: Interpolate_eq_Inr)
  let ?l = "\<lambda>j. of_int c - xs ! j"
  have line: "amount_line f c (int j) = Inr (?l j)" if "j < length xs" for j
    using amount_line_nat [of j f c] that f' by simp
  have line0: "amount_line f c 0 = Inr (?l 0)" using line [of 0] ne by simp
  define cmp :: "rat \<Rightarrow> rat \<Rightarrow> bool" where "cmp = (if ys ! 0 < ?l 0 then (<) else (>))"
  have "0 < length xs" using ne by simp
  then have "\<exists>r. find_section cmp f (amount_line f c) 0 (ys ! 0) = Inr r
    \<and> (case r of
         None \<Rightarrow> \<forall>j. 0 \<le> j \<and> j < length xs \<longrightarrow> cmp (ys ! j) (?l j)
       | Some n \<Rightarrow> 0 \<le> n \<and> n < length xs \<and> \<not> cmp (ys ! n) (?l n) \<and> (\<forall>j. 0 \<le> j \<and> j < n \<longrightarrow> cmp (ys ! j) (?l j)))"
    by (rule find_section_total [OF f' len]) (rule line)
  then obtain r where r: "find_section cmp f (amount_line f c) 0 (ys ! 0) = Inr r" and
    spec: "case r of
       None \<Rightarrow> \<forall>j < length xs. cmp (ys ! j) (?l j)
     | Some n \<Rightarrow> n < length xs \<and> \<not> cmp (ys ! n) (?l n) \<and> (\<forall>j < n. cmp (ys ! j) (?l j))"
    by (auto split: option.splits)
  note run = find_intersection_def [of f "amount_line f c"]
  have y0: "nth_result ys 0 = Inr (ys ! 0)" using ne len by (simp add: nth_result_def)
  show ?thesis
  proof (cases r)
    case None
    then have "find_intersection f (amount_line f c) = Inr None"
      using r y0 line0 by (simp add: run f' cmp_def Let_def)
    moreover from None spec have "(\<forall>i < length xs. gap xs ys c i < 0) \<or> (\<forall>i < length xs. 0 < gap xs ys c i)"
      by (auto simp: cmp_def gap_def split: if_splits)
    ultimately show ?thesis by simp
  next
    case (Some n)
    show ?thesis
    proof (cases n)
      case 0
      with Some spec have g0: "gap xs ys c 0 = 0" by (auto simp: cmp_def gap_def split: if_splits)
      have ll: "amount_line f c (- 1) = Inr (of_int c - last xs)"
        using ne by (simp add: amount_line_def f' py_nth_last)
      have lasts: "py_nth xs (- 1) = Inr (last xs)" "py_nth ys (- 1) = Inr (last ys)"
        using ne len by (auto intro!: py_nth_last)
      have x0: "nth_result xs 0 = Inr (xs ! 0)" using ne by (simp add: nth_result_def)
      have gl: "gap xs ys c (length xs - 1) = last ys - (of_int c - last xs)"
      proof -
        from ne len have "ys \<noteq> []" by auto
        then show ?thesis by (simp add: gap_def last_conv_nth len ne)
      qed
      let ?d = "(ys ! 0 - last ys) - (?l 0 - (of_int c - last xs))"
      have d: "?d = - gap xs ys c (length xs - 1)" using g0 gl unfolding gap_def [of _ _ _ 0] by simp
      have res: "find_intersection f (amount_line f c)
        = raise_if (?d = 0) ZeroDivisionError (Inr (Some
            ((of_int c - last xs - last ys) * (xs ! 0 - last xs) / ?d + last xs)))"
        using r y0 line0 Some 0 lasts ll x0 by (simp add: run f' cmp_def Let_def)
      show ?thesis
      proof (cases "gap xs ys c (length xs - 1) = 0")
        case True
        then show ?thesis using d g0 by (simp add: res)
      next
        case False
        then have "?d \<noteq> 0" using d by simp
        moreover have "(of_int c - last xs - last ys) * (xs ! 0 - last xs) / ?d + last xs = xs ! 0"
          using False unfolding d gl by (simp add: field_simps)
        ultimately have "find_intersection f (amount_line f c) = Inr (Some (xs ! 0))"
          unfolding res by (simp add: raise_if_def)
        moreover have "ys ! 0 = of_int c - xs ! 0" using g0 by (simp add: gap_def)
        ultimately show ?thesis
          using interpolate_call_point [OF f len, of 0] ne ascending_last [OF asc, of 0]
          by (simp add: hd_conv_nth)
      qed
    next
      case (Suc m)
      with Some spec have n: "Suc m < length xs" by auto
      let ?d1 = "gap xs ys c m" and ?d2 = "gap xs ys c (Suc m)"
      have sgn: "?d1 < 0 \<and> 0 \<le> ?d2 \<or> 0 < ?d1 \<and> ?d2 \<le> 0"
        using spec Some Suc by (auto simp: cmp_def gap_def split: if_splits)
      have vals: "nth_result xs m = Inr (xs ! m)" "nth_result xs (Suc m) = Inr (xs ! Suc m)"
        "nth_result ys m = Inr (ys ! m)" "nth_result ys (Suc m) = Inr (ys ! Suc m)"
        using n len by (simp_all add: nth_result_def)
      let ?x = "(- ?d1) * (xs ! Suc m - xs ! m) / (?d2 - ?d1) + xs ! m"
      have dd: "(ys ! Suc m - ys ! m) - (?l (Suc m) - ?l m) = ?d2 - ?d1" "?l m - ys ! m = - ?d1"
        by (simp_all add: gap_def)
      have idx: "int (Suc m) - 1 = int m" by simp
      have "find_intersection f (amount_line f c)
        = raise_if ((ys ! Suc m - ys ! m) - (?l (Suc m) - ?l m) = 0) ZeroDivisionError (Inr (Some
            ((?l m - ys ! m) * (xs ! Suc m - xs ! m) / ((ys ! Suc m - ys ! m) - (?l (Suc m) - ?l m)) + xs ! m)))"
        using r y0 line0 Some Suc vals line [of m] line [of "Suc m"] n
        by (simp add: run f' cmp_def [symmetric] Let_def idx del: of_nat_Suc)
      then have "find_intersection f (amount_line f c) = Inr (Some ?x)"
        unfolding dd using sgn by (auto simp: raise_if_def)
      moreover have lt: "xs ! m < xs ! Suc m" using ascending_nth [OF asc, of m "Suc m"] n by simp
      note sec = secant_meets_line [OF lt sgn, where c = "of_int c" and ?y1.0 = "ys ! m" and ?y2.0 = "ys ! Suc m"]
      have "xs ! m \<le> ?x" "?x \<le> xs ! Suc m" "line xs ys m ?x = of_int c - ?x"
        using sec by (simp_all add: gap_def line_def)
      moreover from this have "interpolate_call f ?x = Inr (of_int c - ?x)"
        using interpolate_call_between [OF f len n] by simp
      moreover have "hd xs \<le> xs ! m" "xs ! Suc m \<le> last xs"
        using ascending_nth_le [OF asc, of 0 m] ascending_last [OF asc n] n ne by (simp_all add: hd_conv_nth)
      ultimately show ?thesis by simp
    qed
  qed
qed

lemma line_affine:
  assumes "xs ! i < xs ! Suc i" and "xs ! i \<le> x" and "x \<le> xs ! Suc i"
  shows "\<exists>q. 0 \<le> q \<and> q \<le> 1 \<and> x = xs ! i + q * (xs ! Suc i - xs ! i)
    \<and> line xs ys i x = (1 - q) * ys ! i + q * ys ! Suc i"
proof -
  define q where "q = (x - xs ! i) / (xs ! Suc i - xs ! i)"
  have "0 \<le> q" "q \<le> 1" "x = xs ! i + q * (xs ! Suc i - xs ! i)"
    using assms unfolding q_def by (simp_all add: divide_le_eq)
  moreover have "line xs ys i x = ys ! i + (ys ! Suc i - ys ! i) * q" by (simp add: line_def q_def)
  ultimately show ?thesis by (intro exI [of _ q]) (simp add: algebra_simps)
qed

text \<open>A property of all points that is closed under convex combination holds of all values.\<close>

lemma interpolate_call_convex:
  assumes f: "Interpolate xs ys = Inr f" and len: "length ys = length xs" and v: "interpolate_call f x = Inr v"
    and points: "\<And>i. i < length xs \<Longrightarrow> P (xs ! i) (ys ! i)"
    and convex: "\<And>q x1 y1 x2 y2. 0 \<le> q \<Longrightarrow> q \<le> 1 \<Longrightarrow> P x1 y1 \<Longrightarrow> P x2 y2 \<Longrightarrow>
      P (x1 + q * (x2 - x1)) ((1 - q) * y1 + q * y2)"
  shows "P x v"
proof -
  from f have asc: "ascending xs" and f': "ip_x_list f = xs" by (auto simp: Interpolate_eq_Inr)
  have ne: "xs \<noteq> []" using v by (auto simp: interpolate_call_def f' nth_result_def)
  have dom: "hd xs \<le> x \<and> x \<le> last xs"
    using interpolate_call_outside [OF f ne, of x] v by (cases "hd xs \<le> x \<and> x \<le> last xs") (auto simp: not_le)
  show ?thesis
  proof (cases "2 \<le> length xs")
    case True
    with dom ascending_interval [OF asc ne] obtain i where i: "Suc i < length xs" "xs ! i \<le> x" "x \<le> xs ! Suc i"
      by blast
    have lt: "xs ! i < xs ! Suc i" using ascending_nth [OF asc, of i "Suc i"] i by simp
    from line_affine [OF lt i(2,3), of ys] interpolate_call_between [OF f len i] v convex points i(1)
    show ?thesis by (metis Inr_inject Suc_lessD)
  next
    case False
    then obtain z where z: "xs = [z]" using ne by (cases xs) (auto simp: Suc_le_eq)
    with dom have "x = z" by simp
    with z interpolate_call_point [OF f len, of 0] v points [of 0] show ?thesis by simp
  qed
qed

lemma interpolate_call_nonneg:
  assumes "Interpolate xs ys = Inr f" and "length ys = length xs" and "interpolate_call f x = Inr v"
    and "\<And>y. y \<in> set ys \<Longrightarrow> 0 \<le> y"
  shows "0 \<le> v"
  by (rule interpolate_call_convex [OF assms(1-3), where P = "\<lambda>x y. 0 \<le> y"]) (use assms(2,4) in auto)

text \<open>
  \<open>find_intersection\<close> solves the equation of the mediation exactly. For a fee function built from
  ascending points and an amount: if it returns a point, the point lies in the domain and the fee there is
  the amount minus the point; if it returns \<open>None\<close>, there is no such point; it raises only
  \<open>ZeroDivisionError\<close>, and only when both the first and the last point are solutions.
\<close>

theorem find_intersection_solves:
  assumes "Interpolate xs ys = Inr f" and "length ys = length xs" and "xs \<noteq> []"
  shows "case find_intersection f (amount_line f amount) of
      Inl e \<Rightarrow> e = ZeroDivisionError \<and> interpolate_call f (hd xs) = Inr (of_int amount - hd xs)
        \<and> interpolate_call f (last xs) = Inr (of_int amount - last xs)
    | Inr None \<Rightarrow> \<forall>x. interpolate_call f x \<noteq> Inr (of_int amount - x)
    | Inr (Some x) \<Rightarrow> hd xs \<le> x \<and> x \<le> last xs \<and> interpolate_call f x = Inr (of_int amount - x)"
proof -
  have ends: "gap xs ys amount 0 = 0 \<Longrightarrow> interpolate_call f (hd xs) = Inr (of_int amount - hd xs)"
    "gap xs ys amount (length xs - 1) = 0 \<Longrightarrow> interpolate_call f (last xs) = Inr (of_int amount - last xs)"
    using interpolate_call_point [OF assms(1,2), of 0] interpolate_call_point [OF assms(1,2), of "length xs - 1"]
      assms(3) by (auto simp: gap_def hd_conv_nth last_conv_nth)
  have none: "interpolate_call f x \<noteq> Inr (of_int amount - x)"
    if "(\<forall>i < length xs. gap xs ys amount i < 0) \<or> (\<forall>i < length xs. 0 < gap xs ys amount i)" for x
  proof
    assume v: "interpolate_call f x = Inr (of_int amount - x)"
    let ?g = "\<lambda>x y. y - (of_int amount - x)"
    have g: "?g (x1 + q * (x2 - x1)) ((1 - q) * y1 + q * y2) = (1 - q) * ?g x1 y1 + q * ?g x2 y2" for q x1 y1 x2 y2
      by (simp add: algebra_simps)
    have lt: "(1 - q) * a + q * b < 0" if "0 \<le> q" "q \<le> 1" "a < 0" "b < 0" for q a b :: rat
      using that convex_bound_lt [of a 0 b "1 - q" q] by simp
    have gt: "0 < (1 - q) * a + q * b" if "0 \<le> q" "q \<le> 1" "0 < a" "0 < b" for q a b :: rat
      using lt [of q "- a" "- b"] that by simp
    from that show False
    proof
      assume n: "\<forall>i < length xs. gap xs ys amount i < 0"
      have "?g x (of_int amount - x) < 0"
        by (rule interpolate_call_convex [OF assms(1,2) v, where P = "\<lambda>x y. ?g x y < 0"])
           (use n in \<open>simp_all add: gap_def g lt\<close>)
      then show False by simp
    next
      assume p: "\<forall>i < length xs. 0 < gap xs ys amount i"
      have "0 < ?g x (of_int amount - x)"
        by (rule interpolate_call_convex [OF assms(1,2) v, where P = "\<lambda>x y. 0 < ?g x y"])
           (use p in \<open>simp_all add: gap_def g gt\<close>)
      then show False by simp
    qed
  qed
  from find_intersection_exact [OF assms, of amount] ends none show ?thesis
    by (simp split: sum.splits option.splits)
qed

theorem find_intersection_solves_witness:
  "\<exists>f x. Interpolate [0, 10, 20] [1, 3, 2] = Inr f \<and> find_intersection f (amount_line f 9) = Inr (Some x)
    \<and> interpolate_call f x = Inr (9 - x)"
proof -
  let ?m = "Interpolate [0, 10, 20] [1, 3, 2]"
  have "case ?m of Inl e \<Rightarrow> False
    | Inr f \<Rightarrow> find_intersection f (amount_line f 9) = Inr (Some (20 / 3))" by code_simp
  then obtain f where f: "?m = Inr f" and r: "find_intersection f (amount_line f 9) = Inr (Some (20 / 3))"
    by (auto split: sum.splits)
  from find_intersection_solves [OF f, of 9] r have "interpolate_call f (20 / 3) = Inr (9 - 20 / 3)" by simp
  with f r show ?thesis by blast
qed

subsection \<open>The forwarded amount\<close>

lemma value_error_to_undefined_fee_eq_Inr:
  "value_error_to_undefined_fee m = Inr y \<longleftrightarrow> m = Inr y"
  by (simp add: value_error_to_undefined_fee_def split: sum.splits py_error.splits)

lemma mediation_fee_func_impl_points:
  assumes "mediation_fee_func_impl si so bi bo r a a' cap = Inr f"
  shows "\<exists>xs ys. Interpolate xs ys = Inr f \<and> length ys = length xs \<and> (cap \<longrightarrow> (\<forall>y\<in>set ys. 0 \<le> y))"
proof -
  from assms obtain fi fo F ys where ys: "map_result F (collect_x_values fi fo bi bo (if a = None then r else bo)) = Inr ys"
    and res: "(let (xs', ys') = (if cap then cap_fees (collect_x_values fi fo bi bo (if a = None then r else bo)) ys
        else (collect_x_values fi fo bi bo (if a = None then r else bo), ys)) in Interpolate xs' ys') = Inr f"
    unfolding mediation_fee_func_impl_def Let_def py_assert_eq_Inr raise_if_eq_Inr bind_result_eq_Inr
      value_error_to_undefined_fee_eq_Inr case_prod_beta by blast
  define xs where "xs = collect_x_values fi fo bi bo (if a = None then r else bo)"
  have asc: "ascending xs" unfolding xs_def by (rule collect_x_values_ascending)
  have len: "length ys = length xs" unfolding xs_def by (rule map_result_length [OF ys])
  obtain xs' ys' where c: "cap_fees xs ys = (xs', ys')" by (cases "cap_fees xs ys")
  from res [folded xs_def] len capped_points_ascending [OF asc len c] show ?thesis
    by (cases cap) (auto simp: c)
qed

lemma round_half_even_le:
  assumes "q \<le> of_int n"
  shows "round_half_even q \<le> n"
proof (cases "q = of_int n")
  case True
  then show ?thesis by (simp add: round_half_even_def)
next
  case False
  with assms have "\<lfloor>q\<rfloor> < n" by (simp add: floor_less_iff)
  then show ?thesis by (auto simp: round_half_even_def Let_def)
qed

lemma round_half_even_ge:
  assumes "of_int n \<le> q"
  shows "n \<le> round_half_even q"
proof -
  from assms have "n \<le> \<lfloor>q\<rfloor>" by (simp add: le_floor_iff)
  then show ?thesis by (auto simp: round_half_even_def Let_def)
qed

lemma get_amount_without_fees_bounds:
  assumes "get_amount_without_fees amount channel_in channel_out = Inr (Some n)"
    and "fs_cap_fees (ch_fee_schedule channel_in)"
  shows "0 \<le> n \<and> n \<le> amount"
proof -
  from assms(1) obtain f x si so bi bo r where
    f: "mediation_fee_func si so bi bo r amount True = Inr f"
    and x: "find_intersection f (amount_line f amount) = Inr (Some x)" "0 < x" and n: "n = round_half_even x"
    by (auto simp: get_amount_without_fees_def result_simps Let_def py_assert_def assms(2)
        split: if_split_asm sum.splits option.splits)
  from mediation_fee_func_impl_points [OF f [unfolded mediation_fee_func_def]] obtain xs ys where
    p: "Interpolate xs ys = Inr f" "length ys = length xs" and pos: "\<And>y. y \<in> set ys \<Longrightarrow> 0 \<le> y" by auto
  have "xs \<noteq> []"
    using x(1) p by (auto simp: find_intersection_def Interpolate_eq_Inr result_simps nth_result_def)
  from find_intersection_exact [OF p this, of amount] x(1)
  have v: "interpolate_call f x = Inr (of_int amount - x)" by simp
  have "0 \<le> of_int amount - x" by (rule interpolate_call_nonneg [OF p v pos])
  then show ?thesis unfolding n using x(2) by (simp add: round_half_even_le round_half_even_ge)
qed

end
