(* ===== verification/Mediator_Laws.thy ===== *)
theory Mediator_Laws
  imports Mediator Mediation_Amount_Laws Initiator_Laws
begin

text \<open>
  What a mediator guarantees: the pairs of transfers that it holds never pay out more than they bring in
  and never outlive the incoming lock, and the outgoing lock is unlocked only while the incoming one can
  still be claimed. The states that break the mediator are at the end.
\<close>

subsection \<open>The pairs of a mediator\<close>

text \<open>The two transfers of a pair never change, only its states do.\<close>

definition same_pair :: "mediation_pair \<Rightarrow> mediation_pair \<Rightarrow> bool" where
  "same_pair p p' \<longleftrightarrow> mp_payer_transfer p' = mp_payer_transfer p
     \<and> mp_payee_transfer p' = mp_payee_transfer p \<and> mp_payee_address p' = mp_payee_address p"

abbreviation same_pairs :: "mediation_pair list \<Rightarrow> mediation_pair list \<Rightarrow> bool" where
  "same_pairs \<equiv> list_all2 same_pair"

text \<open>The outgoing transfer is covered by the incoming one.\<close>

definition covered_pair :: "secrethash \<Rightarrow> mediation_pair \<Rightarrow> bool" where
  "covered_pair sh pair \<longleftrightarrow>
     (let incoming = lt_lock (mp_payer_transfer pair); outgoing = lt_lock (mp_payee_transfer pair) in
      0 < lk_amount outgoing \<and> lk_amount outgoing \<le> lk_amount incoming
      \<and> lk_expiration outgoing = lk_expiration incoming
      \<and> lk_secrethash outgoing = sh \<and> lk_secrethash incoming = sh)"

definition mediator_inv :: "mediator_transfer \<Rightarrow> bool" where
  "mediator_inv st \<longleftrightarrow>
     list_all (covered_pair (mt_secrethash st)) (mt_transfers_pair st)
     \<and> (case mt_waiting_transfer st of None \<Rightarrow> True
        | Some w \<Rightarrow> lk_secrethash (lt_lock (wt_transfer w)) = mt_secrethash st)"

lemma same_pair_simps [simp]:
  "same_pair p p" "same_pair p (p\<lparr>mp_payer_state := a\<rparr>)" "same_pair p (p\<lparr>mp_payee_state := b\<rparr>)"
  by (simp_all add: same_pair_def)

lemma same_pairs_refl [simp]: "same_pairs ps ps"
  by (simp add: list_all2_refl)

lemma same_pairs_trans: "same_pairs ps qs \<Longrightarrow> same_pairs qs rs \<Longrightarrow> same_pairs ps rs"
  by (rule list_all2_trans [of same_pair same_pair same_pair]) (auto simp: same_pair_def)

lemma same_pairs_covered:
  "same_pairs ps qs \<Longrightarrow> list_all (covered_pair sh) ps \<Longrightarrow> list_all (covered_pair sh) qs"
  by (induction rule: list_all2_induct) (auto simp: same_pair_def covered_pair_def)

lemma same_pairs_channel:
  "same_pair p p' \<Longrightarrow> get_payer_channel S tn p' = get_payer_channel S tn p"
  "same_pair p p' \<Longrightarrow> get_payee_channel S tn p' = get_payee_channel S tn p"
  by (simp_all add: same_pair_def get_payer_channel_def get_payee_channel_def payer_channel_id_def
      payee_channel_id_def)

lemma same_pairs_updates [simp]:
  "same_pairs ps (set_offchain_reveal_state ps a)"
  "same_pairs ps (map fst (map (expire_pair S tn n) ps))"
  by (auto simp: set_offchain_reveal_state_def list_all2_map2 expire_pair_def list.rel_refl_strong
      split: option.splits)

lemma events_for_secretreveal_pairs:
  "events_for_secretreveal E ps secret g = (ps', g', evs) \<Longrightarrow> same_pairs ps ps'"
  by (induction ps arbitrary: ps' g' evs) (auto simp: Let_def split: prod.splits if_splits)

lemma dangerzone_loop_pairs:
  "dangerzone_loop S tn n h sent ps = Inr (ps', evs) \<Longrightarrow> same_pairs ps ps'"
  by (induction S tn n h sent ps arbitrary: ps' evs rule: dangerzone_loop.induct)
    (auto simp: Let_def result_simps split: option.splits if_splits)

lemma closed_loop_pairs:
  "closed_loop S tn secret sh h sent ps = (ps', evs) \<Longrightarrow> same_pairs ps ps'"
  by (induction S tn secret sh h sent ps arbitrary: ps' evs rule: closed_loop.induct)
    (auto simp: Let_def split: option.splits if_splits prod.splits)

text \<open>An iteration of \<open>events_for_balanceproof\<close> leaves the pair alone or unlocks the outgoing lock.\<close>

definition unlocks_pair ::
  "platform \<Rightarrow> address \<Rightarrow> int \<Rightarrow> secret \<Rightarrow> secrethash \<Rightarrow> mediation_pair \<Rightarrow> chan_store \<Rightarrow> channel \<Rightarrow>
   send_unlock_event \<Rightarrow> bool" where
  "unlocks_pair E tn n secret sh p S ch' u \<longleftrightarrow>
     (\<exists>payer payee mid md. get_payer_channel S tn p = Some payer \<and> get_payee_channel S tn p = Some payee
        \<and> n + ch_reveal_timeout payer < lk_expiration (lt_lock (mp_payer_transfer p))
        \<and> payee_secret_known (mp_payee_state p) \<and> \<not> payee_transfer_paid (mp_payee_state p)
        \<and> send_unlock E payee mid (lt_payment_identifier (mp_payee_transfer p)) secret sh n md = Inr (ch', u))"

lemma is_safe_to_wait_ok:
  "is_safe_to_wait e r n = Inr s \<Longrightarrow> soe_ok s \<longleftrightarrow> n + r < e"
  by (auto simp: is_safe_to_wait_def result_simps Let_def split: if_splits)

lemma events_for_balanceproof_Cons:
  assumes "events_for_balanceproof E tn (p # ps) n secret sh S g = Inr (qs, S', g', evs)"
  obtains ps' S1 g1 evs1 where "events_for_balanceproof E tn ps n secret sh S g = Inr (ps', S1, g1, evs1)"
    and "qs = p # ps' \<and> S' = S1 \<and> g' = g1 \<and> evs = evs1
      \<or> (\<exists>ch' u. unlocks_pair E tn n secret sh p S1 ch' u
          \<and> qs = p\<lparr>mp_payee_state := PAYEE_BALANCE_PROOF\<rparr> # ps' \<and> S' = set_channel tn (payee_channel_id p) ch' S1
          \<and> evs = evs1 @ [SendUnlock u, EventUnlockSuccess (lt_payment_identifier (mp_payer_transfer p))
              (lk_secrethash (lt_lock (mp_payer_transfer p)))])"
proof -
  from assms obtain ps' S1 g1 evs1 where
    r: "events_for_balanceproof E tn ps n secret sh S g = Inr (ps', S1, g1, evs1)"
    by (auto simp: result_simps)
  obtain mid g2 where mid: "message_identifier_from_prng g1 = (mid, g2)"
    by (cases "message_identifier_from_prng g1")
  let ?P = "qs = p # ps' \<and> S' = S1 \<and> g' = g1 \<and> evs = evs1
      \<or> (\<exists>ch' u. unlocks_pair E tn n secret sh p S1 ch' u
          \<and> qs = p\<lparr>mp_payee_state := PAYEE_BALANCE_PROOF\<rparr> # ps' \<and> S' = set_channel tn (payee_channel_id p) ch' S1
          \<and> evs = evs1 @ [SendUnlock u, EventUnlockSuccess (lt_payment_identifier (mp_payer_transfer p))
              (lk_secrethash (lt_lock (mp_payer_transfer p)))])"
  show thesis
  proof (rule that [OF r], cases "get_payee_channel S1 tn p")
    case None
    with assms show ?P by (auto simp: r result_simps Let_def)
  next
    case (Some payee)
    show ?P
    proof (cases "get_payer_channel S1 tn p")
      case None
      with assms Some show ?thesis by (auto simp: r result_simps Let_def)
    next
      case (Some payer)
      with assms obtain safe where
        "is_safe_to_wait (lk_expiration (lt_lock (mp_payer_transfer p))) (ch_reveal_timeout payer) n = Inr safe"
        by (auto simp: r result_simps Let_def)
      from this is_safe_to_wait_ok [OF this] assms Some \<open>get_payee_channel S1 tn p = Some payee\<close>
      show ?thesis
        by (auto simp: r result_simps Let_def mid unlocks_pair_def split: if_splits)
    qed
  qed
qed

lemma events_for_balanceproof_pairs:
  "events_for_balanceproof E tn ps n secret sh S g = Inr (ps', S', g', evs) \<Longrightarrow> same_pairs ps ps'"
proof (induction ps arbitrary: ps' S' g' evs)
  case (Cons p ps)
  from Cons.prems show ?case
    by (rule events_for_balanceproof_Cons) (auto dest: Cons.IH)
qed simp

lemma remove_expired_lock_pair:
  "remove_expired_lock E tn sh routes n p S g = Inr (p', S', g', evs) \<Longrightarrow> same_pair p p'"
  by (auto simp: remove_expired_lock_def Let_def result_simps split: option.splits if_splits)

lemma remove_expired_locks_pairs:
  "remove_expired_locks E tn sh routes n ps S g = Inr (ps', S', g', evs) \<Longrightarrow> same_pairs ps ps'"
  by (induction ps arbitrary: ps' S g S' g' evs)
    (auto simp: result_simps dest: remove_expired_lock_pair)

lemma unlock_pairs_pairs:
  "unlock_pairs E u tn routes ps S = Inr (ps', S', evs) \<Longrightarrow> same_pairs ps ps'"
  by (induction ps arbitrary: ps' S S' evs) (auto simp: Let_def result_simps split: option.splits if_splits)

lemma lock_expired_pairs_pairs:
  "lock_expired_pairs E r tn n routes sh ps S = Inr (ps', S', evs) \<Longrightarrow> same_pairs ps ps'"
  by (induction ps arbitrary: ps' S S' evs) (auto simp: Let_def result_simps split: option.splits if_splits)

subsection \<open>Forwarding\<close>

lemma forward_transfer_pair_covered:
  assumes "forward_transfer_pair E t ch r ch' S g n = Inr (Some p, S', g', evs)"
    and "fs_cap_fees (ch_fee_schedule ch)"
  shows "covered_pair (lk_secrethash (lt_lock t)) p \<and> mp_payer_transfer p = t
    \<and> mp_payee_state p = PAYEE_PENDING \<and> mp_payer_state p = PAYER_PENDING
    \<and> (\<exists>e. evs = [SendLockedTransfer e] \<and> slt_transfer e = mp_payee_transfer p)"
proof -
  obtain mid g1 where mid: "message_identifier_from_prng g = (mid, g1)"
    by (cases "message_identifier_from_prng g")
  from assms(1) obtain amount md ch'' e where
    a: "get_amount_without_fees (lk_amount (lt_lock t)) ch ch' = Inr (Some amount)" "amount \<noteq> 0"
    and s: "send_lockedtransfer E ch' (lt_initiator t) (lt_target t) amount mid (lt_payment_identifier t)
        (lk_expiration (lt_lock t)) (lt_secret t) (lk_secrethash (lt_lock t)) (lt_route_states t) md
        (lt_metadata t) = Inr (ch'', e)"
    and p: "p = mk_mediation_pair t (es_address (ch_partner_state ch'')) (slt_transfer e)"
      "evs = [SendLockedTransfer e]"
    by (auto simp: forward_transfer_pair_def mid Let_def result_simps split: option.splits if_splits)
  from s have l: "lt_lock (slt_transfer e)
      = \<lparr>lk_amount = amount, lk_expiration = lk_expiration (lt_lock t), lk_secrethash = lk_secrethash (lt_lock t)\<rparr>"
    by (rule send_lockedtransferE) simp
  from get_amount_without_fees_bounds [OF a(1) assms(2)] a(2) l show ?thesis
    by (simp add: p mk_mediation_pair_def covered_pair_def)
qed

lemma forward_transfer_pair_None:
  assumes "forward_transfer_pair E t ch r ch' S g n = Inr (None, S', g', evs)"
  shows "S' = S \<and> g' = g \<and> evs = []"
proof -
  obtain mid g1 where mid: "message_identifier_from_prng g = (mid, g1)"
    by (cases "message_identifier_from_prng g")
  from assms obtain a where a: "get_amount_without_fees (lk_amount (lt_lock t)) ch ch' = Inr a"
    by (auto simp: forward_transfer_pair_def bind_result_eq_Inr)
  show ?thesis
  proof (cases a)
    case None
    with assms a show ?thesis by (simp add: forward_transfer_pair_def)
  next
    case (Some amount)
    show ?thesis
    proof (cases "amount = 0 \<or> \<not> is_channel_usable_for_mediation E ch' amount (lk_expiration (lt_lock t) - n)")
      case True
      with assms a Some show ?thesis by (simp add: forward_transfer_pair_def Let_def split: if_splits)
    next
      case False
      with assms a Some show ?thesis
        by (auto simp: forward_transfer_pair_def Let_def mid result_simps)
    qed
  qed
qed

lemma mediate_routes_covered:
  assumes "mediate_routes E ch A t n routes S g = Inr (p, S', g', evs)"
    and fees: "fs_cap_fees (ch_fee_schedule ch)"
  shows "case p of None \<Rightarrow> S' = S \<and> g' = g \<and> evs = []
    | Some pair \<Rightarrow> covered_pair (lk_secrethash (lt_lock t)) pair \<and> mp_payer_transfer pair = t
        \<and> mp_payee_state pair = PAYEE_PENDING \<and> mp_payer_state pair = PAYER_PENDING
        \<and> (\<exists>e. evs = [SendLockedTransfer e] \<and> slt_transfer e = mp_payee_transfer pair)"
  using assms(1)
proof (induction routes)
  case (Cons route routes)
  let ?next = "next_hop route (es_address (ch_our_state ch))"
    and ?tn = "case map_of (rs_swaps route) (es_address (ch_our_state ch)) of
      None \<Rightarrow> ch_token_network_address ch | Some t \<Rightarrow> t"
  show ?case
  proof (cases "\<exists>a r ch'. ?next = Some a \<and> channel_by_partner A S ?tn a = Some (r, ch')")
    case False
    then have "mediate_routes E ch A t n (route # routes) S g = mediate_routes E ch A t n routes S g"
      by (cases ?next; cases "channel_by_partner A S ?tn (the ?next)") (auto simp: Let_def)
    with Cons show ?thesis by (simp only:)
  next
    case True
    then obtain a r ch' where hop: "?next = Some a" "channel_by_partner A S ?tn a = Some (r, ch')" by blast
    with Cons.prems obtain q S1 g1 evs1 where
      f: "forward_transfer_pair E t ch r ch' S g n = Inr (q, S1, g1, evs1)"
      by (auto simp: result_simps Let_def)
    show ?thesis
    proof (cases q)
      case None
      from forward_transfer_pair_None [OF f [unfolded None]] Cons f None hop show ?thesis by (simp add: Let_def)
    next
      case (Some pair)
      from forward_transfer_pair_covered [OF f [unfolded Some] fees] Cons.prems f Some hop show ?thesis
        by (auto simp: Let_def)
    qed
  qed
qed simp

lemma mediate_transfer_inv:
  assumes m: "mediate_transfer E st ch A S g t n = Inr (st', S', g', evs)"
    and fees: "fs_cap_fees (ch_fee_schedule ch)"
    and inv: "mediator_inv st" and sh: "lk_secrethash (lt_lock t) = mt_secrethash st"
  shows "mediator_inv st' \<and> mt_secrethash st' = mt_secrethash st
    \<and> ((\<exists>e. evs = [SendLockedTransfer e] \<and> lk_secrethash (lt_lock (slt_transfer e)) = mt_secrethash st)
       \<or> evs = [] \<and> mt_transfers_pair st' = mt_transfers_pair st \<and> S' = S
         \<and> mt_waiting_transfer st' = Some \<lparr>wt_transfer = t, wt_state = WAITING\<rparr>)"
proof -
  from m obtain p evs' where
    r: "mediate_routes E ch A t n (filter_acceptable_routes (mt_routes st) (mt_refunded_channels st)
         A S (ch_token_network_address ch) (es_address (ch_our_state ch))) S g = Inr (p, S', g', evs')"
    and st': "(case p of Some q \<Rightarrow> (st\<lparr>mt_transfers_pair := mt_transfers_pair st @ [q]\<rparr>, evs')
      | None \<Rightarrow> (st\<lparr>mt_waiting_transfer := Some \<lparr>wt_transfer = t, wt_state = WAITING\<rparr>\<rparr>, [])) = (st', evs)"
    by (auto simp: mediate_transfer_def Let_def result_simps split: option.splits)
  from mediate_routes_covered [OF r fees] st' inv sh show ?thesis
    by (cases p) (auto simp: mediator_inv_def covered_pair_def Let_def split: option.splits)
qed

subsection \<open>Unlocking\<close>

text \<open>The channel knows the secret of the lock that its partner has for the secrethash, unless that lock
  expired before the block \<open>n\<close>.\<close>

definition knows_secret :: "int \<Rightarrow> secrethash \<Rightarrow> channel \<Rightarrow> bool" where
  "knows_secret n sh ch \<longleftrightarrow>
     (case get_lock (ch_partner_state ch) sh of
        None \<Rightarrow> True
      | Some l \<Rightarrow> n \<le> lk_expiration l \<longrightarrow> is_secret_known (ch_partner_state ch) sh)"

text \<open>The incoming lock of a pair can be claimed: it is more than a reveal timeout from its expiration, and
  the channel that holds it knows the secret.\<close>

definition claimable :: "chan_store \<Rightarrow> address \<Rightarrow> int \<Rightarrow> secrethash \<Rightarrow> mediation_pair \<Rightarrow> bool" where
  "claimable S tn n sh p \<longleftrightarrow>
     (case get_payer_channel S tn p of
        None \<Rightarrow> False
      | Some ch \<Rightarrow> n + ch_reveal_timeout ch < lk_expiration (lt_lock (mp_payer_transfer p)) \<and> knows_secret n sh ch)"

definition knows_at :: "chan_store \<Rightarrow> address \<Rightarrow> int \<Rightarrow> secrethash \<Rightarrow> int \<Rightarrow> bool" where
  "knows_at S tn n sh cid \<longleftrightarrow>
     (case channel_by_id S tn cid of None \<Rightarrow> True | Some ch \<Rightarrow> knows_secret n sh ch)"

lemma set_channel_lookup [simp]:
  "channel_by_id (set_channel tn cid ch S) tn cid' = (if cid' = cid then Some ch else channel_by_id S tn cid')"
  by (simp add: channel_by_id_def set_channel_def update_conv')

lemma register_offchain_knows: "knows_secret n sh (register_offchain_secret ch secret sh)"
  by (auto simp: knows_secret_def register_offchain_secret_def register_secret_endstate_def get_lock_def
      is_secret_known_def dict_mem_def chan_simps end_simps delete_conv' update_conv' split: option.splits)

lemma register_onchain_knows:
  assumes "register_onchain_secret ch secret sh n True = Inr ch'"
  shows "knows_secret n sh ch'"
proof -
  from assms obtain es where
    r: "register_onchain_secret_endstate secret sh n True (ch_partner_state ch) = Inr es"
    and p: "ch_partner_state ch' = es" by (auto simp: register_onchain_secret_def result_simps)
  from r show ?thesis
    by (auto simp: knows_secret_def p register_onchain_secret_endstate_def get_lock_def is_secret_known_def
        dict_mem_def result_simps update_conv' end_simps split: option.splits if_splits)
qed

lemma at_channel_knows:
  assumes "at_channel tn cid f S = Inr S'" and "\<And>ch ch'. f ch = Inr ch' \<Longrightarrow> knows_secret n sh ch'"
  shows "knows_at S' tn n sh cid \<and> (\<forall>cid'. knows_at S tn n sh cid' \<longrightarrow> knows_at S' tn n sh cid')"
  using assms by (auto simp: at_channel_def knows_at_def result_simps split: option.splits if_splits)

lemma at_pair_channels_knows:
  assumes "at_pair_channels tn f ps S = Inr S'" and f: "\<And>ch ch'. f ch = Inr ch' \<Longrightarrow> knows_secret n sh ch'"
  shows "(\<forall>p\<in>set ps. knows_at S' tn n sh (payer_channel_id p))
    \<and> (\<forall>cid. knows_at S tn n sh cid \<longrightarrow> knows_at S' tn n sh cid)"
  using assms(1)
proof (induction ps arbitrary: S)
  case (Cons p ps)
  then obtain S1 S2 where s: "at_channel tn (payer_channel_id p) f S = Inr S1"
      "at_channel tn (payee_channel_id p) f S1 = Inr S2" "at_pair_channels tn f ps S2 = Inr S'"
    by (auto simp: result_simps)
  from at_channel_knows [OF s(1) f] at_channel_knows [OF s(2) f] Cons.IH [OF s(3)] show ?case by auto
qed simp

lemma set_secret_knows:
  assumes "set_secret st S tn f secret sh = Inr (st', S', evs)"
    and f: "\<And>ch ch'. f ch = Inr ch' \<Longrightarrow> knows_secret n sh ch'"
  shows "(\<forall>p\<in>set (mt_transfers_pair st). knows_at S' tn n sh (payer_channel_id p))
    \<and> st' = st\<lparr>mt_secret := Some secret\<rparr> \<and> list_all (\<lambda>e. \<not> is_unlock e) evs"
proof -
  from assms(1) obtain S1 where s1: "at_pair_channels tn f (mt_transfers_pair st) S = Inr S1"
    by (auto simp: set_secret_def result_simps)
  note k = at_pair_channels_knows [OF s1 f]
  show ?thesis
  proof (cases "mt_waiting_transfer st")
    case None
    with assms(1) s1 k show ?thesis by (auto simp: set_secret_def Let_def)
  next
    case (Some w)
    with assms(1) s1 obtain cid where s2: "at_channel tn cid f S1 = Inr S'"
      "st' = st\<lparr>mt_secret := Some secret\<rparr>" "list_all (\<lambda>e. \<not> is_unlock e) evs"
      by (auto simp: set_secret_def Let_def result_simps is_unlock_def)
    from at_channel_knows [OF s2(1) f] s2(2,3) k show ?thesis by auto
  qed
qed

text \<open>What a mediator reads of its incoming channels does not change while it unlocks.\<close>

definition payer_view :: "channel \<Rightarrow> end_state \<times> int" where
  "payer_view ch = (ch_partner_state ch, ch_reveal_timeout ch)"

definition views_kept :: "address \<Rightarrow> chan_store \<Rightarrow> chan_store \<Rightarrow> bool" where
  "views_kept tn S S' \<longleftrightarrow>
     (\<forall>cid. map_option payer_view (channel_by_id S' tn cid) = map_option payer_view (channel_by_id S tn cid))"

lemma knows_secret_view: "payer_view ch' = payer_view ch \<Longrightarrow> knows_secret n sh ch' = knows_secret n sh ch"
  by (simp add: knows_secret_def payer_view_def split: option.splits)

lemma claimable_view:
  assumes "views_kept tn S S'"
  shows "claimable S' tn n sh p = claimable S tn n sh p"
proof -
  from assms have "map_option payer_view (get_payer_channel S' tn p) = map_option payer_view (get_payer_channel S tn p)"
    by (simp add: views_kept_def get_payer_channel_def)
  then consider "get_payer_channel S' tn p = None" "get_payer_channel S tn p = None"
    | ch ch' where "get_payer_channel S tn p = Some ch" "get_payer_channel S' tn p = Some ch'"
        "payer_view ch' = payer_view ch"
    by (cases "get_payer_channel S tn p"; cases "get_payer_channel S' tn p") auto
  then show ?thesis
  proof cases
    case 2
    from knows_secret_view [OF 2(3)] 2 show ?thesis by (simp add: claimable_def payer_view_def)
  qed (simp add: claimable_def)
qed

lemma unlocks_pair_view:
  assumes "unlocks_pair E tn n secret sh p S ch' u"
  shows "views_kept tn S (set_channel tn (payee_channel_id p) ch' S) \<and> su_secret u = secret"
proof -
  from assms obtain ch mid pid md where ch: "channel_by_id S tn (payee_channel_id p) = Some ch"
    and s: "send_unlock E ch mid pid secret sh n md = Inr (ch', u)"
    by (auto simp: unlocks_pair_def get_payee_channel_def)
  from s have "payer_view ch' = payer_view ch \<and> su_secret u = secret"
    by (rule send_unlockE) (simp add: payer_view_def)
  with ch show ?thesis by (simp add: views_kept_def)
qed

lemma events_for_balanceproof_claimable:
  assumes "events_for_balanceproof E tn ps n secret sh S g = Inr (ps', S', g', evs)"
    and "\<forall>p\<in>set ps. knows_at S tn n sh (payer_channel_id p)"
  shows "views_kept tn S S'
    \<and> (\<forall>u. SendUnlock u \<in> set evs \<longrightarrow> su_secret u = secret \<and> (\<exists>p\<in>set ps. claimable S tn n sh p))"
  using assms
proof (induction ps arbitrary: ps' S' g' evs)
  case Nil
  then show ?case by (simp add: views_kept_def)
next
  case (Cons p ps)
  from Cons.prems(1) obtain ps1 S1 g1 evs1 where
    r: "events_for_balanceproof E tn ps n secret sh S g = Inr (ps1, S1, g1, evs1)"
    and c: "ps' = p # ps1 \<and> S' = S1 \<and> g' = g1 \<and> evs = evs1
      \<or> (\<exists>ch' u. unlocks_pair E tn n secret sh p S1 ch' u
          \<and> ps' = p\<lparr>mp_payee_state := PAYEE_BALANCE_PROOF\<rparr> # ps1 \<and> S' = set_channel tn (payee_channel_id p) ch' S1
          \<and> evs = evs1 @ [SendUnlock u, EventUnlockSuccess (lt_payment_identifier (mp_payer_transfer p))
              (lk_secrethash (lt_lock (mp_payer_transfer p)))])"
    by (rule events_for_balanceproof_Cons)
  from Cons.IH [OF r] Cons.prems(2) have
    ih: "views_kept tn S S1"
      "\<And>u. SendUnlock u \<in> set evs1 \<Longrightarrow> su_secret u = secret \<and> (\<exists>p\<in>set ps. claimable S tn n sh p)" by auto
  from c show ?case
  proof
    assume "ps' = p # ps1 \<and> S' = S1 \<and> g' = g1 \<and> evs = evs1"
    with ih show ?thesis by auto
  next
    assume "\<exists>ch' u. unlocks_pair E tn n secret sh p S1 ch' u
          \<and> ps' = p\<lparr>mp_payee_state := PAYEE_BALANCE_PROOF\<rparr> # ps1 \<and> S' = set_channel tn (payee_channel_id p) ch' S1
          \<and> evs = evs1 @ [SendUnlock u, EventUnlockSuccess (lt_payment_identifier (mp_payer_transfer p))
              (lk_secrethash (lt_lock (mp_payer_transfer p)))]"
    then obtain ch' u where u: "unlocks_pair E tn n secret sh p S1 ch' u"
      and S': "S' = set_channel tn (payee_channel_id p) ch' S1"
      and e: "evs = evs1 @ [SendUnlock u, EventUnlockSuccess (lt_payment_identifier (mp_payer_transfer p))
          (lk_secrethash (lt_lock (mp_payer_transfer p)))]" by blast
    have evs: "SendUnlock v \<in> set evs \<longleftrightarrow> SendUnlock v \<in> set evs1 \<or> v = u" for v by (auto simp: e)
    note v = unlocks_pair_view [OF u]
    have kept: "views_kept tn S S'" using ih(1) v by (simp add: views_kept_def S')
    from u obtain payer where payer: "get_payer_channel S1 tn p = Some payer"
      "n + ch_reveal_timeout payer < lk_expiration (lt_lock (mp_payer_transfer p))"
      by (auto simp: unlocks_pair_def)
    moreover from this(1) ih(1) obtain ch where "get_payer_channel S tn p = Some ch" "payer_view ch = payer_view payer"
      by (cases "get_payer_channel S tn p")
        (auto simp: views_kept_def get_payer_channel_def dest!: spec [of _ "payer_channel_id p"])
    ultimately have "claimable S tn n sh p"
      using Cons.prems(2) by (auto simp: claimable_def knows_at_def payer_view_def get_payer_channel_def)
    with kept ih(2) v evs show ?thesis by auto
  qed
qed

subsection \<open>Transitions\<close>

definition caps_fees :: "chan_store \<Rightarrow> bool" where
  "caps_fees S \<longleftrightarrow> list_all (\<lambda>(r, ch). fs_cap_fees (ch_fee_schedule ch)) S"

lemma caps_fees_lookup: "caps_fees S \<Longrightarrow> channel_by_id S tn cid = Some ch \<Longrightarrow> fs_cap_fees (ch_fee_schedule ch)"
  by (auto simp: caps_fees_def channel_by_id_def list_all_iff dest!: map_of_SomeD)

abbreviation no_unlocks :: "event list \<Rightarrow> bool" where
  "no_unlocks evs \<equiv> list_all (\<lambda>e. \<not> is_unlock e) evs"

lemma quiet_events [simp]:
  "\<not> is_unlock (SendProcessed h)" "\<not> is_unlock (SendLockedTransfer e)"
  "\<not> is_unlock (EventInvalidReceivedLockedTransfer a b)" "\<not> is_unlock (EventInvalidReceivedTransferRefund a b)"
  "\<not> is_unlock (EventInvalidReceivedUnlock sh b)" "\<not> is_unlock (EventInvalidReceivedLockExpired sh b)"
  "\<not> is_unlock (EventUnlockClaimFailed a sh c)" "\<not> is_unlock (EventUnlockClaimSuccess a sh)"
  "\<not> is_unlock (ContractSendSecretReveal x y z)" "\<not> is_unlock (EventUnexpectedSecretReveal sh c)"
  by (simp_all add: is_unlock_def)

lemma channel_replies:
  "handle_receive_lockedtransfer E ch t md = Inr (ch', ok, evs, m) \<Longrightarrow>
     ch_fee_schedule ch' = ch_fee_schedule ch \<and> no_unlocks evs"
  "handle_refundtransfer E received ch refund = Inr (ch', ok, evs, m) \<Longrightarrow>
     ch_fee_schedule ch' = ch_fee_schedule ch \<and> no_unlocks evs"
  "handle_unlock E ch u md = Inr (ch', ok, evs, m) \<Longrightarrow> no_unlocks evs"
  "handle_receive_lock_expired E ch rle bn md = Inr (ch', evs) \<Longrightarrow> no_unlocks evs"
  by (auto simp: handle_receive_lockedtransfer_def handle_refundtransfer_def handle_unlock_def
        handle_receive_lock_expired_def with_error_text_def processed_def
        result_simps Let_def split: option.splits if_splits)

text \<open>The outcome of a transition that does not unlock anything.\<close>

definition quiet_step :: "mediator_transfer \<Rightarrow> mediator_transfer \<Rightarrow> event list \<Rightarrow> bool" where
  "quiet_step st st' evs \<longleftrightarrow> mediator_inv st' \<and> mt_secrethash st' = mt_secrethash st \<and> no_unlocks evs"

lemma mediator_inv_same:
  assumes "mediator_inv st" and "same_pairs (mt_transfers_pair st) ps"
  shows "mediator_inv (st\<lparr>mt_transfers_pair := ps\<rparr>)"
  using assms(1) same_pairs_covered [OF assms(2)] by (auto simp: mediator_inv_def split: option.splits)

lemma mediate_transfer_quiet:
  assumes "mediate_transfer E st ch A S g t n = Inr (st', S', g', evs)" and "fs_cap_fees (ch_fee_schedule ch)"
    and "mediator_inv st" and "lk_secrethash (lt_lock t) = mt_secrethash st"
  shows "quiet_step st st' evs"
  using mediate_transfer_inv [OF assms] by (auto simp: quiet_step_def)

lemma mediator_handle_init_ok:
  assumes "mediator_handle_init E a tn A S g n = Inr (st, S', g', evs)" and caps: "caps_fees S"
  shows "(case st of None \<Rightarrow> True | Some s \<Rightarrow> mediator_inv s) \<and> no_unlocks evs"
proof (cases "channel_by_id S tn (hop_channel_identifier (aim_from_hop a))")
  case None
  with assms show ?thesis by (auto simp: mediator_handle_init_def Let_def)
next
  case (Some ch)
  with assms obtain ch' ok evs1 m where
    r: "handle_receive_lockedtransfer E ch (aim_from_transfer a) (payer_address_metadata (aim_from_transfer a))
      = Inr (ch', ok, evs1, m)"
    by (auto simp: mediator_handle_init_def Let_def result_simps)
  note rep = channel_replies(1) [OF r]
  have fees: "fs_cap_fees (ch_fee_schedule ch')" using rep caps_fees_lookup [OF caps Some] by simp
  show ?thesis
  proof (cases ok)
    case False
    with assms Some r rep show ?thesis by (auto simp: mediator_handle_init_def Let_def)
  next
    case True
    define st0 where "st0 = \<lparr>mt_secrethash = lk_secrethash (lt_lock (aim_from_transfer a)),
        mt_routes = aim_candidate_route_states a, mt_refunded_channels = [], mt_secret = None,
        mt_transfers_pair = [], mt_waiting_transfer = None\<rparr>"
    have st0: "mt_secrethash st0 = lk_secrethash (lt_lock (aim_from_transfer a))" "mediator_inv st0"
      by (simp_all add: st0_def mediator_inv_def)
    from True assms Some r obtain s evs2 where
      m: "mediate_transfer E st0 ch' A (set_channel tn (hop_channel_identifier (aim_from_hop a)) ch' S) g
        (aim_from_transfer a) n = Inr (s, S', g', evs2)"
      and e: "st = Some s" "evs = evs1 @ evs2"
      by (auto simp: mediator_handle_init_def Let_def result_simps st0_def)
    from mediate_transfer_quiet [OF m fees st0(2)] st0 rep show ?thesis by (simp add: e quiet_step_def)
  qed
qed

lemma retry_waiting_transfer_ok:
  assumes "retry_waiting_transfer E st tn A S g n = Inr (st', S', g', evs)" and "caps_fees S" and "mediator_inv st"
  shows "quiet_step st st' evs"
proof (cases "\<exists>w ch. mt_waiting_transfer st = Some w \<and> waiting_channel S tn w = Some ch")
  case True
  then obtain w ch where w: "mt_waiting_transfer st = Some w" "waiting_channel S tn w = Some ch" by blast
  with assms(1) obtain s where m: "mediate_transfer E st ch A S g (wt_transfer w) n = Inr (s, S', g', evs)"
    and st': "st' = s \<or> st' = s\<lparr>mt_waiting_transfer := None\<rparr>"
    by (auto simp: retry_waiting_transfer_def Let_def result_simps)
  have fees: "fs_cap_fees (ch_fee_schedule ch)"
    using w(2) by (auto simp: waiting_channel_def intro: caps_fees_lookup [OF assms(2)])
  have sh: "lk_secrethash (lt_lock (wt_transfer w)) = mt_secrethash st"
    using assms(3) w(1) by (simp add: mediator_inv_def)
  from mediate_transfer_quiet [OF m fees assms(3) sh] st' show ?thesis
    by (auto simp: quiet_step_def mediator_inv_def)
next
  case False
  with assms show ?thesis
    by (cases "mt_waiting_transfer st"; cases "waiting_channel S tn (the (mt_waiting_transfer st))")
      (auto simp: retry_waiting_transfer_def quiet_step_def)
qed

lemma remove_expired_lock_quiet:
  assumes "remove_expired_lock E tn sh routes n p S g = Inr (p', S', g', evs)"
  shows "no_unlocks evs"
proof (cases "get_payee_channel S tn p")
  case (Some ch)
  with assms obtain l where
    "(if dict_mem sh (es_lockedlocks (ch_our_state ch)) then
        py_assert (\<not> dict_mem sh (es_unlockedlocks (ch_our_state ch)))
          (Inr (map_of (es_lockedlocks (ch_our_state ch)) sh))
      else Inr (map_option up_lock (map_of (es_unlockedlocks (ch_our_state ch)) sh))) = Inr l"
    by (auto simp: remove_expired_lock_def Let_def bind_result_eq_Inr)
  with assms Some show ?thesis
    by (cases l) (auto simp: remove_expired_lock_def Let_def bind_result_eq_Inr list_all_iff split: if_split_asm)
qed (use assms in \<open>simp add: remove_expired_lock_def\<close>)

lemma remove_expired_locks_quiet:
  "remove_expired_locks E tn sh routes n ps S g = Inr (ps', S', g', evs) \<Longrightarrow> no_unlocks evs"
  by (induction ps arbitrary: ps' S g S' g' evs)
    (auto simp: bind_result_eq_Inr dest: remove_expired_lock_quiet)

lemma dangerzone_loop_quiet:
  "dangerzone_loop S tn n h sent ps = Inr (ps', evs) \<Longrightarrow> no_unlocks evs"
  by (induction S tn n h sent ps arbitrary: ps' evs rule: dangerzone_loop.induct)
    (auto simp: Let_def result_simps secret_registry_events_for_onchain_secretreveal_def
      split: option.splits if_splits)

lemma expire_pair_quiet: "no_unlocks (snd (expire_pair S tn n p))"
  by (simp add: expire_pair_def split: option.split)

lemma events_for_expired_pairs_waiting:
  "events_for_expired_pairs S tn ps wt n = (ps', w, evs) \<Longrightarrow> map_option wt_transfer w = map_option wt_transfer wt"
  by (cases wt) (auto simp: events_for_expired_pairs_def Let_def expire_waiting_def split: if_splits)

lemma mediator_handle_block_ok:
  assumes "mediator_handle_block E st b tn A S g = Inr (st', S', g', evs)" and "caps_fees S" and "mediator_inv st"
  shows "quiet_step st st' evs"
proof -
  from assms(1) obtain st1 S1 g1 evs1 st2 S2 g2 evs2 ps3 evs3 where
    1: "retry_waiting_transfer E st tn A S g (blk_block_number b) = Inr (st1, S1, g1, evs1)"
    and 2: "events_to_remove_expired_locks E st1 tn (blk_block_number b) S1 g1 = Inr (st2, S2, g2, evs2)"
    and 3: "dangerzone_loop S2 tn (blk_block_number b) (blk_block_hash b)
      (has_secret_registration_started (payer_channels S2 tn (mt_transfers_pair st2)) (mt_transfers_pair st2)
        (mt_secrethash st2)) (mt_transfers_pair st2) = Inr (ps3, evs3)"
    by (auto simp: mediator_handle_block_def bind_result_eq_Inr events_for_onchain_secretreveal_if_dangerzone_def)
  obtain ps4 w evs4 where e: "events_for_expired_pairs S2 tn ps3 (mt_waiting_transfer st2) (blk_block_number b)
      = (ps4, w, evs4)" by (cases "events_for_expired_pairs S2 tn ps3 (mt_waiting_transfer st2) (blk_block_number b)")
  have 4: "st' = st2\<lparr>mt_transfers_pair := ps4, mt_waiting_transfer := w\<rparr>" "evs = evs1 @ evs4 @ evs3 @ evs2"
    using assms(1) 1 2 3 e
    by (auto simp: mediator_handle_block_def events_for_onchain_secretreveal_if_dangerzone_def)
  note q1 = retry_waiting_transfer_ok [OF 1 assms(2,3)]
  from 2 obtain ps2 where q2: "same_pairs (mt_transfers_pair st1) ps2"
      "st2 = st1\<lparr>mt_transfers_pair := ps2\<rparr>" "no_unlocks evs2"
    by (auto simp: events_to_remove_expired_locks_def bind_result_eq_Inr split: list.splits
        simp del: remove_expired_locks.simps dest: remove_expired_locks_pairs remove_expired_locks_quiet)
  have st2: "mediator_inv st2" "mt_secrethash st2 = mt_secrethash st"
    using mediator_inv_same [OF _ q2(1)] q1 by (simp_all add: q2(2) quiet_step_def)
  note q3 = dangerzone_loop_pairs [OF 3] dangerzone_loop_quiet [OF 3]
  have evs4: "no_unlocks evs4"
    using e expire_pair_quiet [of S2 tn "blk_block_number b"]
    by (auto simp: events_for_expired_pairs_def Let_def expire_waiting_def list_all_iff
        split: option.splits if_splits)
  have ps4: "same_pairs ps3 ps4"
    using e same_pairs_updates(2) [of ps3 S2 tn "blk_block_number b"]
    by (auto simp: events_for_expired_pairs_def Let_def split: option.splits prod.splits)
  have w: "map_option wt_transfer w = map_option wt_transfer (mt_waiting_transfer st2)"
    by (rule events_for_expired_pairs_waiting [OF e])
  from same_pairs_covered [OF same_pairs_trans [OF q3(1) ps4]] st2 4 e w evs4 q1 q2(3) q3(2) show ?thesis
    by (auto simp: quiet_step_def mediator_inv_def split: option.splits)
qed

lemma py_nth_set: "py_nth xs i = Inr x \<Longrightarrow> x \<in> set xs"
  by (auto simp: py_nth_def nth_result_def split: if_splits)

lemma handle_refundtransfer_secrethash:
  "handle_refundtransfer E received ch refund = Inr (ch', True, evs, m) \<Longrightarrow>
     lk_secrethash (lt_lock (rtr_transfer refund)) = lk_secrethash (lt_lock received)"
  by (auto simp: handle_refundtransfer_def is_valid_refund_def refund_transfer_matches_transfer_def
      with_error_text_def result_simps invalid_pending_def Let_def split: option.splits if_splits)

lemma mediator_handle_refundtransfer_ok:
  assumes "mediator_handle_refundtransfer E st r tn A S g n = Inr (st', S', g', evs)"
    and "caps_fees S" and inv: "mediator_inv st"
  shows "quiet_step st st' evs"
proof (cases "mt_secret st = None \<and> channel_by_id S tn (ci_channel_identifier (bp_canonical_identifier
    (lts_balance_proof (rtr_transfer r)))) \<noteq> None")
  case False
  with assms show ?thesis
    by (auto simp: mediator_handle_refundtransfer_def bind_result_eq_Inr Let_def quiet_step_def split: if_splits)
next
  case True
  let ?cid = "ci_channel_identifier (bp_canonical_identifier (lts_balance_proof (rtr_transfer r)))"
  from True obtain ch where none: "mt_secret st = None" and ch: "channel_by_id S tn ?cid = Some ch" by blast
  from assms(1) none obtain p where p: "py_nth (mt_transfers_pair st) (- 1) = Inr p"
    by (auto simp: mediator_handle_refundtransfer_def bind_result_eq_Inr)
  with assms(1) none ch obtain ch' ok evs1 m where
    r: "handle_refundtransfer E (mp_payee_transfer p) ch r = Inr (ch', ok, evs1, m)"
    by (auto simp: mediator_handle_refundtransfer_def bind_result_eq_Inr Let_def)
  note rep = channel_replies(2) [OF r]
  show ?thesis
  proof (cases ok)
    case False
    with assms none ch p r rep show ?thesis
      by (auto simp: mediator_handle_refundtransfer_def Let_def quiet_step_def)
  next
    case True
    have "covered_pair (mt_secrethash st) p"
      using py_nth_set [OF p] inv by (auto simp: mediator_inv_def list_all_iff)
    then have sh: "lk_secrethash (lt_lock (rtr_transfer r)) = mt_secrethash st"
      using handle_refundtransfer_secrethash r True by (simp add: covered_pair_def Let_def)
    define st0 where "st0 = st\<lparr>mt_refunded_channels := mt_refunded_channels st @ [channel_identifier ch']\<rparr>"
    have st0: "mediator_inv st0" "mt_secrethash st0 = mt_secrethash st"
      using inv by (auto simp: st0_def mediator_inv_def split: option.splits)
    from True assms(1) none ch p r obtain evs2 where
      m: "mediate_transfer E st0 ch' A (set_channel tn ?cid ch' S) g (rtr_transfer r) n = Inr (st', S', g', evs2)"
      and e: "evs = evs1 @ evs2"
      by (auto simp: mediator_handle_refundtransfer_def Let_def bind_result_eq_Inr st0_def)
    from mediate_transfer_quiet [OF m _ st0(1)] rep caps_fees_lookup [OF assms(2) ch] sh st0(2) show ?thesis
      by (simp add: e quiet_step_def)
  qed
qed

lemma unlock_pairs_quiet: "unlock_pairs E u tn routes ps S = Inr (ps', S', evs) \<Longrightarrow> no_unlocks evs"
  by (induction ps arbitrary: ps' S S' evs)
    (auto simp: Let_def bind_result_eq_Inr dest: channel_replies split: option.splits if_splits)

lemma mediator_handle_unlock_ok:
  assumes "mediator_handle_unlock E st u tn S g = Inr (st', S', g', evs)" and "mediator_inv st"
  shows "quiet_step st st' evs"
  using assms(1) mediator_inv_same [OF assms(2)]
  by (auto simp: mediator_handle_unlock_def bind_result_eq_Inr quiet_step_def
      dest: unlock_pairs_pairs unlock_pairs_quiet)

lemma lock_expired_pairs_quiet:
  "lock_expired_pairs E r tn n routes sh ps S = Inr (ps', S', Some evs) \<Longrightarrow> no_unlocks evs"
  by (induction ps arbitrary: ps' S S' evs)
    (auto simp: Let_def bind_result_eq_Inr dest!: channel_replies split: option.splits)

lemma mediator_handle_lock_expired_ok:
  assumes "mediator_handle_lock_expired E st r tn S g n = Inr (st', S', g', evs)" and "mediator_inv st"
  shows "quiet_step st st' evs"
proof -
  from assms(1) obtain ps S1 es where l: "lock_expired_pairs E r tn n (mt_routes st) (mt_secrethash st)
      (mt_transfers_pair st) S = Inr (ps, S1, es)"
    by (auto simp: mediator_handle_lock_expired_def bind_result_eq_Inr)
  note inv = mediator_inv_same [OF assms(2) lock_expired_pairs_pairs [OF l]]
  have q: "es = Some evs1 \<Longrightarrow> no_unlocks evs1" for evs1 using lock_expired_pairs_quiet l by blast
  have "st' = st\<lparr>mt_transfers_pair := ps\<rparr>"
    using assms(1) l by (auto simp: mediator_handle_lock_expired_def bind_result_eq_Inr Let_def split: option.splits)
  moreover have "no_unlocks evs"
    using assms(1) l q
    by (auto simp: mediator_handle_lock_expired_def bind_result_eq_Inr Let_def dest!: channel_replies
        split: option.splits)
  ultimately show ?thesis using inv by (simp add: quiet_step_def)
qed

text \<open>The outcome of a transition that reveals the secret: an unlock is sent for a pair of the mediator
  whose incoming lock can be claimed.\<close>

definition paying_step ::
  "mediator_transfer \<Rightarrow> chan_store \<Rightarrow> address \<Rightarrow> int \<Rightarrow> secret \<Rightarrow> mediator_transfer \<Rightarrow> event list \<Rightarrow> bool" where
  "paying_step st S' tn n secret st' evs \<longleftrightarrow>
     mediator_inv st' \<and> mt_secrethash st' = mt_secrethash st
     \<and> (\<forall>u. SendUnlock u \<in> set evs \<longrightarrow> su_secret u = secret
          \<and> (\<exists>p\<in>set (mt_transfers_pair st). claimable S' tn n (mt_secrethash st) p))"

lemma quiet_step_pays: "quiet_step st st' evs \<Longrightarrow> paying_step st S' tn n secret st' evs"
  by (auto simp: quiet_step_def paying_step_def list_all_iff)

lemma same_pair_claimable: "same_pair p q \<Longrightarrow> claimable S tn n sh q = claimable S tn n sh p"
  by (simp add: claimable_def same_pair_def get_payer_channel_def payer_channel_id_def split: option.split)

lemma same_pairs_Bex:
  assumes "same_pairs ps qs" and "\<And>p q. same_pair p q \<Longrightarrow> P q = P p"
  shows "(\<exists>q\<in>set qs. P q) = (\<exists>p\<in>set ps. P p)"
  using assms(1) by (induction rule: list_all2_induct) (auto simp: assms(2))

lemma events_for_secretreveal_quiet:
  "events_for_secretreveal E ps secret g = (ps', g', evs) \<Longrightarrow> no_unlocks evs"
  by (induction ps arbitrary: ps' g' evs)
    (auto simp: Let_def mk_send_secret_reveal_def split: prod.splits if_splits)

lemma closed_loop_quiet: "closed_loop S tn secret sh h sent ps = (ps', evs) \<Longrightarrow> no_unlocks evs"
  by (induction S tn secret sh h sent ps arbitrary: ps' evs rule: closed_loop.induct)
    (auto simp: Let_def secret_registry_events_for_onchain_secretreveal_def
      split: option.splits if_splits prod.splits)

lemma set_secret_pairs:
  "set_secret st S tn f secret sh = Inr (st', S', evs) \<Longrightarrow> mt_transfers_pair st' = mt_transfers_pair st"
  by (auto simp: set_secret_def Let_def bind_result_eq_Inr split: option.splits)

text \<open>The common part of the two reveals.\<close>

lemma balanceproof_pays:
  assumes inv: "mediator_inv st" and set: "set_secret st S tn f secret (mt_secrethash st) = Inr (st1, S1, evs1)"
    and f: "\<And>ch ch'. f ch = Inr ch' \<Longrightarrow> knows_secret n (mt_secrethash st) ch'"
    and same: "same_pairs (mt_transfers_pair st) ps"
    and pays: "events_for_balanceproof E tn ps n secret (mt_secrethash st) S1 g = Inr (ps', S', g', evs)"
  shows "paying_step st S' tn n secret (st1\<lparr>mt_transfers_pair := ps'\<rparr>) evs \<and> no_unlocks evs1"
proof -
  have k: "(\<forall>p\<in>set (mt_transfers_pair st). knows_at S1 tn n (mt_secrethash st) (payer_channel_id p))
    \<and> st1 = st\<lparr>mt_secret := Some secret\<rparr> \<and> no_unlocks evs1"
    by (rule set_secret_knows [OF set f])
  have st1: "st1 = st\<lparr>mt_secret := Some secret\<rparr>" "no_unlocks evs1" using k by simp_all
  have "(\<exists>q\<in>set ps. \<not> knows_at S1 tn n (mt_secrethash st) (payer_channel_id q))
      = (\<exists>p\<in>set (mt_transfers_pair st). \<not> knows_at S1 tn n (mt_secrethash st) (payer_channel_id p))"
    by (rule same_pairs_Bex [OF same]) (simp add: same_pair_def payer_channel_id_def)
  with k have known: "\<forall>q\<in>set ps. knows_at S1 tn n (mt_secrethash st) (payer_channel_id q)" by blast
  note c = events_for_balanceproof_claimable [OF pays known]
  have ex: "(\<exists>q\<in>set ps. claimable S1 tn n (mt_secrethash st) q)
      = (\<exists>p\<in>set (mt_transfers_pair st). claimable S1 tn n (mt_secrethash st) p)"
    by (rule same_pairs_Bex [OF same same_pair_claimable])
  have "same_pairs (mt_transfers_pair st1) ps'"
    using same_pairs_trans [OF same events_for_balanceproof_pairs [OF pays]] by (simp add: st1)
  moreover have "mediator_inv st1"
    using inv by (auto simp: st1(1) mediator_inv_def split: option.splits)
  ultimately have "mediator_inv (st1\<lparr>mt_transfers_pair := ps'\<rparr>)" by (intro mediator_inv_same)
  then show ?thesis
    using c ex by (auto simp: paying_step_def st1 claimable_view [OF conjunct1 [OF c]])
qed

lemma secret_learned_ok:
  assumes "secret_learned E st tn S g n h secret (mt_secrethash st) a = Inr (st', S', g', evs)" and "mediator_inv st"
  shows "paying_step st S' tn n secret st' evs"
proof -
  from assms(1) obtain st1 S1 evs1 where
    1: "set_offchain_secret st S tn secret (mt_secrethash st) = Inr (st1, S1, evs1)"
    by (auto simp: secret_learned_def bind_result_eq_Inr)
  define ps1 where "ps1 = set_offchain_reveal_state (mt_transfers_pair st1) a"
  obtain ps2 evs2 where 2: "closed_loop S1 tn secret (mt_secrethash st) h
      (has_secret_registration_started (payer_channels S1 tn ps1) ps1 (mt_secrethash st)) ps1 = (ps2, evs2)"
    by (cases "closed_loop S1 tn secret (mt_secrethash st) h
      (has_secret_registration_started (payer_channels S1 tn ps1) ps1 (mt_secrethash st)) ps1")
  obtain ps3 g1 evs3 where 3: "events_for_secretreveal E ps2 secret g = (ps3, g1, evs3)"
    by (cases "events_for_secretreveal E ps2 secret g")
  from assms(1) 1 2 3 obtain ps4 evs4 where
    4: "events_for_balanceproof E tn ps3 n secret (mt_secrethash st) S1 g1 = Inr (ps4, S', g', evs4)"
    and e: "st' = st1\<lparr>mt_transfers_pair := ps4\<rparr>" "evs = evs1 @ evs3 @ evs4 @ evs2"
    by (auto simp: secret_learned_def bind_result_eq_Inr Let_def ps1_def
        events_for_onchain_secretreveal_if_closed_def)
  have "same_pairs (mt_transfers_pair st) ps1"
    using set_secret_pairs [OF 1 [unfolded set_offchain_secret_def]] by (simp add: ps1_def)
  then have same: "same_pairs (mt_transfers_pair st) ps3"
    using closed_loop_pairs [OF 2] events_for_secretreveal_pairs [OF 3] same_pairs_trans by blast
  have "paying_step st S' tn n secret st' evs4 \<and> no_unlocks evs1"
    unfolding e(1)
    by (rule balanceproof_pays [OF assms(2) 1 [unfolded set_offchain_secret_def] _ same 4])
      (auto simp: register_offchain_knows)
  then show ?thesis
    using events_for_secretreveal_quiet [OF 3] closed_loop_quiet [OF 2]
    by (auto simp: paying_step_def e(2) list_all_iff)
qed

lemma mediator_handle_onchain_secretreveal_ok:
  assumes "mediator_handle_onchain_secretreveal E st r tn S g = Inr (st', S', g', evs)" and "mediator_inv st"
  shows "quiet_step st st' evs \<or> crr_secrethash r = mt_secrethash st
    \<and> paying_step st S' tn (cr_block_number r) (crr_secret r) st' evs"
proof (cases "crr_secrethash r = mt_secrethash st")
  case False
  with assms show ?thesis
    by (auto simp: mediator_handle_onchain_secretreveal_def is_valid_secret_reveal_def quiet_step_def)
next
  case True
  with assms(1) obtain st1 S1 evs1 ps evs2 where
    1: "set_onchain_secret st S tn (crr_secret r) (mt_secrethash st) (cr_block_number r) = Inr (st1, S1, evs1)"
    and 2: "events_for_balanceproof E tn (mt_transfers_pair st1) (cr_block_number r) (crr_secret r)
      (mt_secrethash st) S1 g = Inr (ps, S', g', evs2)"
    and e: "st' = st1\<lparr>mt_transfers_pair := ps\<rparr>" "evs = evs1 @ evs2"
    by (auto simp: mediator_handle_onchain_secretreveal_def is_valid_secret_reveal_def bind_result_eq_Inr)
  note set = 1 [unfolded set_onchain_secret_def]
  have same: "same_pairs (mt_transfers_pair st) (mt_transfers_pair st1)"
    using set_secret_pairs [OF set] by simp
  have "paying_step st S' tn (cr_block_number r) (crr_secret r) st' evs2 \<and> no_unlocks evs1"
    unfolding e(1) by (rule balanceproof_pays [OF assms(2) set _ same 2]) (rule register_onchain_knows)
  with True show ?thesis by (auto simp: e(2) paying_step_def list_all_iff)
qed

text \<open>The block that counts for an unlock, and the secret that it uses.\<close>

definition reveals :: "state_change \<Rightarrow> int \<Rightarrow> secrethash \<Rightarrow> (int \<times> secret) option" where
  "reveals sc n sh =
     (case sc of
        ReceiveSecretReveal r \<Rightarrow> if rsr_secrethash r = sh then Some (n, rsr_secret r) else None
      | ContractReceiveSecretReveal r \<Rightarrow>
          if crr_secrethash r = sh then Some (cr_block_number r, crr_secret r) else None
      | _ \<Rightarrow> None)"

definition mediator_step_ok ::
  "mediator_transfer \<Rightarrow> state_change \<Rightarrow> address \<Rightarrow> int \<Rightarrow> mediator_transfer \<Rightarrow> chan_store \<Rightarrow> event list \<Rightarrow> bool" where
  "mediator_step_ok st sc tn n st' S' evs \<longleftrightarrow>
     quiet_step st st' evs
     \<or> (case reveals sc n (mt_secrethash st) of None \<Rightarrow> False
        | Some (b, secret) \<Rightarrow> paying_step st S' tn b secret st' evs)"

lemma mediator_handle_offchain_secretreveal_ok:
  assumes "mediator_handle_offchain_secretreveal E st r tn S g n h = Inr (st', S', g', evs)" and "mediator_inv st"
  shows "mediator_step_ok st (ReceiveSecretReveal r) tn n st' S' evs"
proof -
  have idle: ?thesis if "st' = st" "evs = []"
    using that assms(2) by (simp add: mediator_step_ok_def quiet_step_def)
  show ?thesis
  proof (cases "rsr_secrethash r = mt_secrethash st")
    case True
    with assms(1) idle secret_learned_ok [OF _ assms(2)] show ?thesis
      by (auto simp: mediator_handle_offchain_secretreveal_def Let_def mediator_step_ok_def reveals_def
          split: if_splits option.splits)
  next
    case False
    with assms(1) have "st' = st \<and> evs = []"
      by (auto simp: mediator_handle_offchain_secretreveal_def Let_def is_valid_secret_reveal_def
          split: if_splits option.splits)
    with idle show ?thesis by blast
  qed
qed

lemma mediator_step_onchain:
  assumes "mediator_handle_onchain_secretreveal E st r tn S g = Inr (st', S', g', evs)" and "mediator_inv st"
  shows "mediator_step_ok st (ContractReceiveSecretReveal r) tn n st' S' evs"
  using mediator_handle_onchain_secretreveal_ok [OF assms] by (auto simp: mediator_step_ok_def reveals_def)

lemma quiet_mediator_step: "quiet_step st st' evs \<Longrightarrow> mediator_step_ok st sc tn n st' S' evs"
  by (simp add: mediator_step_ok_def)

lemmas mediator_handlers_ok = mediator_handle_offchain_secretreveal_ok mediator_step_onchain
  quiet_mediator_step [OF mediator_handle_block_ok] quiet_mediator_step [OF mediator_handle_refundtransfer_ok]
  quiet_mediator_step [OF mediator_handle_unlock_ok] quiet_mediator_step [OF mediator_handle_lock_expired_ok]

lemma mediator_dispatch_ok:
  assumes "mediator_dispatch E (Some st) sc tn A S g n h = Inr (st', S', g', evs)"
    and "caps_fees S" and "mediator_inv st"
  shows "\<exists>s. st' = Some s \<and> mediator_step_ok st sc tn n s S' evs"
proof -
  have idle: "mediator_step_ok st sc tn n st S []" using assms(3) by (simp add: mediator_step_ok_def quiet_step_def)
  have run: "\<exists>s. st' = Some s \<and> mediator_step_ok st sc tn n s S' evs"
    if "with_mediator (Some st) k = Inr (st', S', g', evs)"
      and "\<And>s. k st = Inr (s, S', g', evs) \<Longrightarrow> mediator_step_ok st sc tn n s S' evs" for k
    using that by (auto simp: with_mediator_def bind_result_eq_Inr)
  show ?thesis
  proof (cases sc)
    case (ToChannel c)
    then show ?thesis
      using assms idle run mediator_handlers_ok(3) [OF _ assms(2,3)]
      by (cases c) (auto simp: mediator_dispatch_def)
  qed (use assms idle run mediator_handlers_ok(1,2,5,6) [OF _ assms(3)] mediator_handlers_ok(4) [OF _ assms(2,3)]
      in \<open>auto simp: mediator_dispatch_def\<close>)
qed

lemma mediator_state_transition_ok:
  assumes "mediator_state_transition E (Some st) sc tn A S g n h = Inr (st', S', g', evs)"
    and "caps_fees S" and "mediator_inv st"
  shows "\<exists>s. (st' = None \<or> st' = Some s) \<and> mediator_step_ok st sc tn n s S' evs"
proof -
  from assms(1) obtain s where d: "mediator_dispatch E (Some st) sc tn A S g n h = Inr (s, S', g', evs)"
    and st': "st' = None \<or> st' = s"
    by (auto simp: mediator_state_transition_def mediator_clear_if_finalized_def bind_result_eq_Inr
        split: option.splits if_splits)
  from mediator_dispatch_ok [OF d assms(2,3)] st' show ?thesis by blast
qed

lemma mediator_created_ok:
  assumes "mediator_state_transition E None (ActionInitMediator a) tn A S g n h = Inr (Some st, S', g', evs)"
    and "caps_fees S"
  shows "mediator_inv st"
proof -
  from assms(1) have "mediator_handle_init E a tn A S g n = Inr (Some st, S', g', evs)"
    by (auto simp: mediator_state_transition_def mediator_clear_if_finalized_def mediator_dispatch_def
        bind_result_eq_Inr split: option.splits if_splits)
  from mediator_handle_init_ok [OF this assms(2)] show ?thesis by simp
qed

text \<open>The states of a mediator whose channels cap the fees. Between two transitions the channels may change
  in any way.\<close>

inductive mediator_reach :: "platform \<Rightarrow> mediator_transfer \<Rightarrow> bool" for E where
  created: "caps_fees S \<Longrightarrow>
    mediator_state_transition E None (ActionInitMediator a) tn A S g n h = Inr (Some st, S', g', evs) \<Longrightarrow>
    mediator_reach E st"
| continued: "mediator_reach E st \<Longrightarrow> caps_fees S \<Longrightarrow>
    mediator_state_transition E (Some st) sc tn A S g n h = Inr (Some st', S', g', evs) \<Longrightarrow>
    mediator_reach E st'"

lemma mediator_reach_inv: "mediator_reach E st \<Longrightarrow> mediator_inv st"
proof (induction rule: mediator_reach.induct)
  case created
  from created(2,1) show ?case by (rule mediator_created_ok)
next
  case continued
  from mediator_state_transition_ok [OF continued(3,2) continued.IH] show ?case
    by (auto simp: mediator_step_ok_def quiet_step_def paying_step_def split: option.splits)
qed

end
