(* ===== verification/Message_Types.thy ===== *)
theory Message_Types
  imports Mediator_Laws Initiator_Manager Target Channel_Safety
begin

text \<open>
  The types of the messages that leave a node. A balance proof is signed and checked by the contract, so
  its fields must be in the ranges of their on-chain types. Every component that emits events is shown to
  emit well-typed ones only.
\<close>

subsection \<open>Well-typed messages\<close>

definition typed_balance_proof :: "('a) balance_proof_scheme \<Rightarrow> bool" where
  "typed_balance_proof bp \<longleftrightarrow>
     0 < bp_nonce bp \<and> bp_nonce bp \<le> UINT64_MAX
     \<and> is_uint256 (bp_transferred_amount bp) \<and> is_uint256 (bp_locked_amount bp)
     \<and> length (bp_locksroot bp) = 32 \<and> ci_valid (bp_canonical_identifier bp)"

definition typed_event :: "platform \<Rightarrow> event \<Rightarrow> bool" where
  "typed_event E e \<longleftrightarrow>
     (case e of
        SendLockedTransfer s \<Rightarrow> typed_balance_proof (ltu_balance_proof (slt_transfer s))
          \<and> valid_lock (lt_lock (slt_transfer s))
      | SendLockExpired s \<Rightarrow> typed_balance_proof (sle_balance_proof s)
      | SendUnlock s \<Rightarrow> typed_balance_proof (su_balance_proof s) \<and> su_secrethash s = sha256 E (su_secret s)
      | _ \<Rightarrow> True)"

text \<open>Events without a balance proof of the node.\<close>

definition plain :: "event \<Rightarrow> bool" where
  "plain e \<longleftrightarrow> (case e of SendLockedTransfer s \<Rightarrow> False | SendLockExpired s \<Rightarrow> False | SendUnlock s \<Rightarrow> False | _ \<Rightarrow> True)"

lemma plain_typed: "plain e \<Longrightarrow> typed_event E e"
  by (cases e) (auto simp: plain_def typed_event_def)

lemma plain_events [simp]:
  "plain (SendSecretReveal h s sh)" "plain (SendSecretRequest h i1 i2 i3 sh)" "plain (SendProcessed h)"
  "plain (SendWithdrawRequest h i1 a i2 i3 b)" "plain (SendWithdrawConfirmation h i1 a i2 i3)"
  "plain (SendWithdrawExpired h i1 a i2 i3)" "plain (ContractSendChannelWithdraw bh ci i1 i2 sg)"
  "plain (ContractSendChannelCoopSettle bh ci i1 i2 i3 sg sg')" "plain (ContractSendChannelClose bh ci bp)"
  "plain (ContractSendChannelSettle bh ci)" "plain (ContractSendChannelUpdateTransfer bh i1 sbp)"
  "plain (ContractSendChannelBatchUnlock bh ci a)" "plain (ContractSendSecretReveal bh i1 s)"
  "plain (EventPaymentReceivedSuccess a a' i1 i2 a'')" "plain (EventPaymentSentSuccess a a' i1 i2 a'' s r)"
  "plain (EventPaymentSentFailed a a' i1 a'' m)" "plain (EventRouteFailed sh r a)" "plain (EventUnlockSuccess i1 sh)"
  "plain (EventUnlockFailed i1 sh m)" "plain (EventInvalidSecretRequest i1 i2 i3)"
  "plain (EventUnexpectedSecretReveal sh m)" "plain (UpdateServicesAddresses a i1)"
  "plain (EventUnlockClaimSuccess i1 sh)" "plain (EventUnlockClaimFailed i1 sh m)"
  "plain (EventInvalidReceivedTransferRefund i1 m)" "plain (EventInvalidReceivedLockExpired sh m)"
  "plain (EventInvalidReceivedLockedTransfer i1 m)" "plain (EventInvalidReceivedUnlock sh m)"
  "plain (EventInvalidReceivedWithdrawRequest i1 m)" "plain (EventInvalidReceivedWithdraw i1 m)"
  "plain (EventInvalidReceivedWithdrawExpired i1 m)" "plain (EventInvalidActionWithdraw i1 m)"
  "plain (EventInvalidActionCoopSettle i1 m)" "plain (EventInvalidActionSetRevealTimeout i1 m)"
  by (simp_all add: plain_def)

lemma to_bytes_eq_Inr: "to_bytes 32 n = Inr b \<Longrightarrow> is_uint256 n"
  by (auto simp: to_bytes_def UINT256_MAX_def split: if_splits)

lemma hash_balance_data_types:
  assumes "hash_balance_data E t k r = Inr h"
  shows "is_uint256 t \<and> is_uint256 k"
proof (cases "t = 0 \<and> k = 0")
  case False
  with assms show ?thesis
    by (auto simp: hash_balance_data_def result_simps dest: to_bytes_eq_Inr)
qed simp

lemma mk_balance_proof_typed: "mk_balance_proof_unsigned E n t k r ci = Inr bp \<Longrightarrow> typed_balance_proof bp"
  by (auto simp: mk_balance_proof_unsigned_eq_Inr typed_balance_proof_def dest: hash_balance_data_types)

lemma sent_typed:
  "send_lockedtransfer E ch initiator target amount mid pid expiration secret' sh routes md pmd = Inr (ch', slt) \<Longrightarrow>
     typed_event E (SendLockedTransfer slt)"
  "send_unlock E ch mid pid secret sh bn md = Inr (ch', su) \<Longrightarrow> typed_event E (SendUnlock su)"
  "send_lock_expired E ch l g md = Inr (ch', g', sles) \<Longrightarrow> list_all (typed_event E) (map SendLockExpired sles)"
proof -
  show "typed_event E (SendLockedTransfer slt)"
    if "send_lockedtransfer E ch initiator target amount mid pid expiration secret' sh routes md pmd = Inr (ch', slt)"
    using that by (rule send_lockedtransferE) (auto simp: typed_event_def dest: mk_balance_proof_typed)
  show "typed_event E (SendUnlock su)" if "send_unlock E ch mid pid secret sh bn md = Inr (ch', su)"
    using that by (rule send_unlockE) (auto simp: typed_event_def dest: mk_balance_proof_typed)
  show "list_all (typed_event E) (map SendLockExpired sles)" if s: "send_lock_expired E ch l g md = Inr (ch', g', sles)"
  proof (cases "sles = []")
    case False
    with send_lock_expired_cases [OF s] obtain ev where "sles = [ev]" by auto
    moreover from this s have "send_lock_expired E ch l g md = Inr (ch', g', [ev])" by simp
    then have "typed_event E (SendLockExpired ev)"
      by (rule send_lock_expiredE) (auto simp: typed_event_def dest: mk_balance_proof_typed)
    ultimately show ?thesis by simp
  qed simp
qed

subsection \<open>Channels\<close>

lemma send_withdraw_request_plain:
  "send_withdraw_request ch t x g md b = (ch', g', evs) \<Longrightarrow> list_all plain evs"
  by (auto simp: send_withdraw_request_def Let_def split: if_splits prod.splits)

lemma expire_withdraws_plain: "expire_withdraws n ws ch g = Inr (ch', g', evs) \<Longrightarrow> list_all plain evs"
  by (induction n ws ch g arbitrary: ch' g' evs rule: expire_withdraws.induct)
    (auto simp: expire_withdraw_def Let_def result_simps split: if_splits prod.splits)

lemma events_for_coop_settle_plain: "events_for_coop_settle ch c n h = Inr (ch', evs) \<Longrightarrow> list_all plain evs"
  by (auto simp: events_for_coop_settle_def split: option.splits if_splits)

lemma events_for_close_plain: "events_for_close ch n h = Inr (ch', evs) \<Longrightarrow> list_all plain evs"
  by (auto simp: events_for_close_def Let_def result_simps split: if_splits)

lemma user_action_plain:
  "handle_action_close ci ch n h g = Inr (st, g', evs) \<Longrightarrow> list_all plain evs"
  "handle_action_coop_settle a ch n g = Inr (st, g', evs) \<Longrightarrow> list_all plain evs"
  "handle_action_withdraw w ch n g = Inr (st, g', evs) \<Longrightarrow> list_all plain evs"
  "handle_action_set_reveal_timeout r ch g = Inr (st, g', evs) \<Longrightarrow> list_all plain evs"
  by (auto simp: handle_action_close_def handle_action_coop_settle_def handle_action_withdraw_def
      handle_action_set_reveal_timeout_def with_error_text_def Let_def result_simps
      dest: send_withdraw_request_plain events_for_close_plain split: if_splits prod.splits)

lemma withdraw_request_coop_settle_plain:
  "withdraw_request_coop_settle a ch n h g = Inr (WithdrawRequestContinue ch' g' evs) \<Longrightarrow> list_all plain evs"
  by (auto simp: withdraw_request_coop_settle_def Let_def result_simps
      dest: send_withdraw_request_plain events_for_coop_settle_plain split: if_splits option.splits prod.splits)

lemma accept_withdraw_request_plain:
  assumes "accept_withdraw_request a ch n h g = Inr (st, g', evs)"
  shows "list_all plain evs"
proof -
  from assms obtain ch1 step where
    w: "withdraw_request_coop_settle a ch1 n h g = Inr step"
    and r: "(case step of
        WithdrawRequestInvalid ch2 m \<Rightarrow>
          with_error_text (Some m) (\<lambda>m.
          Inr (Some ch2, g, [EventInvalidReceivedWithdrawRequest (rw_total_withdraw a) m]))
      | WithdrawRequestContinue ch2 g2 events \<Rightarrow>
          let nonce = get_next_nonce (ch_our_state ch2);
              ch3 = map_our_state (\<lambda>our. our\<lparr>es_nonce := nonce\<rparr>) ch2
          in Inr (Some ch3, g2, events @ [SendWithdrawConfirmation
                (header (es_address (ch_partner_state ch3)) (rwr_sender_metadata a)
                   (ch_canonical_identifier ch3) (rw_message_identifier a))
                (rw_total_withdraw a) (es_address (ch_partner_state ch3)) (rw_expiration a) nonce]))
      = Inr (st, g', evs)"
    unfolding accept_withdraw_request_def Let_def bind_result_eq_Inr by blast
  show ?thesis
  proof (cases step)
    case (WithdrawRequestContinue ch2 g2 events)
    with r withdraw_request_coop_settle_plain w show ?thesis by (auto simp: Let_def)
  qed (use r in \<open>auto simp: with_error_text_def result_simps\<close>)
qed

lemma withdraw_message_plain:
  "handle_receive_withdraw_request E a ch n h g = Inr (st, g', evs) \<Longrightarrow> list_all plain evs"
  "handle_receive_withdraw_confirmation E w ch n h g = Inr (st, g', evs) \<Longrightarrow> list_all plain evs"
  "handle_receive_withdraw_expired x ch n g = Inr (st, g', evs) \<Longrightarrow> list_all plain evs"
  by (auto simp: handle_receive_withdraw_request_def
      handle_receive_withdraw_confirmation_def handle_receive_withdraw_expired_def with_error_text_def
      processed_def Let_def result_simps
      dest: accept_withdraw_request_plain events_for_coop_settle_plain
      split: if_splits option.splits)

lemma handle_block_plain: "handle_block b ch n g = Inr (st, g', evs) \<Longrightarrow> list_all plain evs"
  by (auto simp: handle_block_def events_for_expired_withdraws_def Let_def result_simps
      dest: expire_withdraws_plain split: if_splits option.splits)

lemma contract_event_plain:
  "handle_channel_closed c ch g = Inr (st, g', evs) \<Longrightarrow> list_all plain evs"
  "handle_channel_updated_transfer u ch n g = Inr (st, g', evs) \<Longrightarrow> list_all plain evs"
  "handle_channel_settled E s ch g = Inr (st, g', evs) \<Longrightarrow> list_all plain evs"
  "handle_channel_deposit E d ch g = Inr (st, g', evs) \<Longrightarrow> list_all plain evs"
  "handle_channel_withdraw E w ch g = Inr (st, g', evs) \<Longrightarrow> list_all plain evs"
  "handle_channel_batch_unlock E k ch g = Inr (st, g', evs) \<Longrightarrow> list_all plain evs"
  by (auto simp: handle_channel_closed_def handle_channel_updated_transfer_def handle_channel_settled_def
      handle_channel_deposit_def handle_channel_withdraw_def handle_channel_batch_unlock_def Let_def result_simps
      split: if_splits option.splits prod.splits)

lemma channel_plain: "state_transition E ch sc n h g = Inr (st, g', evs) \<Longrightarrow> list_all plain evs"
  by (cases sc) (auto simp: state_transition_def handle_state_transitions_def result_simps split: option.splits
      dest: user_action_plain withdraw_message_plain handle_block_plain contract_event_plain)

lemma channel_answers_plain:
  "handle_receive_lockedtransfer E ch t md = Inr (ch', ok, evs, m) \<Longrightarrow> list_all plain evs"
  "handle_refundtransfer E received ch refund = Inr (ch', ok, evs, m) \<Longrightarrow> list_all plain evs"
  "handle_unlock E ch u md = Inr (ch', ok, evs, m) \<Longrightarrow> list_all plain evs"
  "handle_receive_lock_expired E ch rle bn md = Inr (ch', evs) \<Longrightarrow> list_all plain evs"
  by (auto simp: handle_receive_lockedtransfer_def handle_refundtransfer_def handle_unlock_def
      handle_receive_lock_expired_def with_error_text_def processed_def result_simps Let_def
      split: option.splits if_splits)

lemma plain_list: "list_all plain evs \<Longrightarrow> list_all (typed_event E) evs"
  by (auto simp: list_all_iff intro: plain_typed)

lemma typed_simps [simp]:
  "typed_event E (EventPaymentSentFailed a a' i1 a'' m)" "typed_event E (EventRouteFailed sh r a)"
  "typed_event E (EventUnlockFailed i1 sh m)" "typed_event E (EventUnlockSuccess i1 sh)"
  "typed_event E (EventPaymentSentSuccess a a' i1 i2 a'' s r)" "typed_event E (EventUnlockClaimFailed i1 sh m)"
  "typed_event E (EventUnlockClaimSuccess i1 sh)" "typed_event E (EventUnexpectedSecretReveal sh m)"
  "typed_event E (EventInvalidSecretRequest i1 i2 i3)"
  "typed_event E (mk_send_secret_reveal E' h s)" "typed_event E (ContractSendSecretReveal bh i1 s)"
  by (simp_all add: typed_event_def mk_send_secret_reveal_def)

lemmas answers_typed = channel_answers_plain [THEN plain_list]

subsection \<open>Payments of an initiator\<close>

lemma events_for_unlock_lock_typed:
  "events_for_unlock_lock E it ch s sh g n = Inr (ch', g', evs) \<Longrightarrow> list_all (typed_event E) evs"
  by (auto simp: events_for_unlock_lock_def Let_def result_simps dest: sent_typed split: prod.splits)

lemma initiator_typed:
  assumes "initiator_state_transition E it sc ch g n = Inr (it', ch', g', evs)"
  shows "list_all (typed_event E) evs"
proof -
  have "list_all (typed_event E) evs" if "initiator_handle_block E it b ch g = Inr (it', ch', g', evs)" for b
    using that by (auto simp: initiator_handle_block_def Let_def result_simps dest: sent_typed(3)
        split: option.splits if_splits)
  moreover have "list_all (typed_event E) evs"
    if "initiator_handle_secretrequest E it r ch g = Inr (it', ch', g', evs)" for r
    using that by (auto simp: initiator_handle_secretrequest_def Let_def
        split: option.splits if_splits prod.splits)
  moreover have "list_all (typed_event E) evs"
    if "initiator_handle_offchain_secretreveal E it r ch g n = Inr (it', ch', g', evs)" for r
    using that by (auto simp: initiator_handle_offchain_secretreveal_def Let_def result_simps
        dest: events_for_unlock_lock_typed split: if_splits)
  moreover have "list_all (typed_event E) evs"
    if "initiator_handle_onchain_secretreveal E it r ch g n = Inr (it', ch', g', evs)" for r
    using that by (auto simp: initiator_handle_onchain_secretreveal_def Let_def result_simps
        dest: events_for_unlock_lock_typed split: if_split_asm)
  ultimately show ?thesis
    using assms by (auto simp: initiator_state_transition_def split: state_change.splits channel_state_change.splits)
qed

lemma subdispatch_to_initiatortransfer_typed:
  "subdispatch_to_initiatortransfer E p key it sc tn S g n = Inr (p', S', g', evs) \<Longrightarrow> list_all (typed_event E) evs"
  by (auto simp: subdispatch_to_initiatortransfer_def Let_def result_simps dest: initiator_typed
      split: option.splits)

lemma subdispatch_to_keys_typed:
  "subdispatch_to_keys E p keys sc tn S g n = Inr (p', S', g', evs) \<Longrightarrow> list_all (typed_event E) evs"
  by (induction keys arbitrary: p S g p' S' g' evs)
    (auto simp: result_simps dest: subdispatch_to_initiatortransfer_typed split: option.splits)

lemma try_new_route_typed:
  assumes "try_new_route E A S routes td g n = Inr (it, S', g', evs)"
  shows "list_all (typed_event E) evs"
proof -
  obtain mid g1 where mid: "message_identifier_from_prng g = (mid, g1)"
    by (cases "message_identifier_from_prng g")
  from assms show ?thesis
    by (auto simp: try_new_route_def initiator_send_lockedtransfer_def Let_def mid result_simps
        dest!: sent_typed(1) split: option.splits)
qed

lemma cancel_transfers_typed: "cancel_transfers p keys tn S = Inr (p', evs) \<Longrightarrow> list_all (typed_event E) evs"
  by (induction keys arbitrary: p p' evs)
    (auto simp: cancel_current_route_def events_for_cancel_current_route_def Let_def result_simps
      split: option.splits if_splits)

lemma manager_handlers_typed:
  "manager_handle_init E st a A S g n = Inr (st', S', g', evs) \<Longrightarrow> list_all (typed_event E) evs"
  "handle_failroute p r = Inr (p', evs) \<Longrightarrow> list_all (typed_event E) evs"
  "handle_transferreroute E p t tn A S g n = Inr (p', S', g', evs) \<Longrightarrow> list_all (typed_event E) evs"
  "manager_handle_lock_expired E p l tn S g n = Inr (p', S', g', evs) \<Longrightarrow> list_all (typed_event E) evs"
  "manager_handle_reveal E p sh sc tn S g n = Inr (p', S', g', evs) \<Longrightarrow> list_all (typed_event E) evs"
  "manager_handle_secretrequest E p q tn S g n = Inr (p', S', g', evs) \<Longrightarrow> list_all (typed_event E) evs"
  by (auto simp: manager_handle_init_def handle_failroute_def cancel_current_route_def
      events_for_cancel_current_route_def handle_transferreroute_def manager_handle_lock_expired_def
      manager_handle_reveal_def manager_handle_secretrequest_def Let_def result_simps
      dest!: try_new_route_typed answers_typed(1,4) [where E = E] subdispatch_to_initiatortransfer_typed
      split: option.splits if_split_asm)

lemma manager_typed:
  assumes "manager_state_transition E p sc tn A S g n = Inr (p', S', g', evs)"
  shows "list_all (typed_event E) evs"
proof -
  from assms obtain p1 where "manager_dispatch E p sc tn A S g n = Inr (p1, S', g', evs)"
    by (auto simp: manager_state_transition_def manager_clear_if_finalized_def result_simps
        split: option.splits if_splits)
  then show ?thesis
    by (auto simp: manager_dispatch_def with_payment_def keep_channels_def result_simps
        manager_handle_block_def subdispatch_to_all_initiatortransfer_def handle_cancelpayment_def
        manager_handle_offchain_secretreveal_def manager_handle_onchain_secretreveal_def
        dest: manager_handlers_typed subdispatch_to_keys_typed cancel_transfers_typed
        split: state_change.splits channel_state_change.splits option.splits)
qed

subsection \<open>Targets\<close>

lemma target_typed:
  assumes "target_state_transition E t sc ch g n = Inr (t', ch', g', evs)"
  shows "list_all (typed_event E) evs"
proof -
  have "list_all (typed_event E) evs" if "handle_inittarget E a ch g n = Inr (t', ch', g', evs)" for a
    using that by (auto simp: handle_inittarget_def with_error_text_def Let_def result_simps
        dest: answers_typed(1) [where E = E] simp: typed_event_def split: option.splits if_splits prod.splits)
  moreover have "list_all (typed_event E) evs"
    if "target_handle_offchain_secretreveal E u r ch g n = Inr (t', ch', g', evs)" for u r
    using that by (auto simp: target_handle_offchain_secretreveal_def Let_def split: if_splits prod.splits)
  moreover have "list_all (typed_event E) evs"
    if "target_handle_onchain_secretreveal u r ch g = Inr (t', ch', g', evs)" for u r
    using that by (auto simp: target_handle_onchain_secretreveal_def result_simps split: if_splits)
  moreover have "list_all (typed_event E) evs" if "target_handle_unlock E u r ch g = Inr (t', ch', g', evs)" for u r
    using that by (auto simp: target_handle_unlock_def mk_payment_received_success_def Let_def result_simps
        dest: answers_typed(3) [where E = E] simp: typed_event_def [of E "EventPaymentReceivedSuccess _ _ _ _ _"]
        split: if_splits)
  moreover have "list_all (typed_event E) evs" if "target_handle_block u ch i h g = Inr (t', ch', g', evs)" for u i h
    using that by (auto simp: target_handle_block_def target_events_for_onchain_secretreveal_def
        secret_registry_events_for_onchain_secretreveal_def Let_def result_simps split: option.splits if_splits)
  moreover have "list_all (typed_event E) evs"
    if "target_handle_lock_expired E u r ch i g = Inr (t', ch', g', evs)" for u r i
    using that by (auto simp: target_handle_lock_expired_def Let_def result_simps
        dest: answers_typed(4) [where E = E] split: if_splits)
  moreover from assms have "target_dispatch E t sc ch g n = Inr (t', ch', g', evs)"
    by (auto simp: target_state_transition_def result_simps)
  ultimately show ?thesis
    by (auto simp: target_dispatch_def with_task_def result_simps
        split: state_change.splits channel_state_change.splits option.splits if_splits)
qed

subsection \<open>Mediators\<close>

lemma forward_transfer_pair_typed:
  assumes "forward_transfer_pair E t ch r ch' S g n = Inr (p, S', g', evs)"
  shows "list_all (typed_event E) evs"
proof -
  obtain mid g1 where mid: "message_identifier_from_prng g = (mid, g1)"
    by (cases "message_identifier_from_prng g")
  from assms obtain a where a: "get_amount_without_fees (lk_amount (lt_lock t)) ch ch' = Inr a"
    by (auto simp: forward_transfer_pair_def bind_result_eq_Inr)
  show ?thesis
  proof (cases a)
    case None
    with assms a show ?thesis by (simp add: forward_transfer_pair_def)
  next
    case (Some amount)
    show ?thesis
    proof (cases "amount = 0 \<or> \<not> is_channel_usable_for_mediation E ch' amount (lk_expiration (lt_lock t) - n)")
      case True
      with assms a Some show ?thesis by (simp add: forward_transfer_pair_def Let_def split: if_splits)
    next
      case False
      with assms a Some show ?thesis
        by (auto simp: forward_transfer_pair_def Let_def mid result_simps dest: sent_typed(1))
    qed
  qed
qed

lemma mediate_routes_typed:
  "mediate_routes E ch A t n routes S g = Inr (p, S', g', evs) \<Longrightarrow> list_all (typed_event E) evs"
proof (induction routes arbitrary: S g)
  case (Cons route routes)
  let ?next = "next_hop route (es_address (ch_our_state ch))"
    and ?tn = "case map_of (rs_swaps route) (es_address (ch_our_state ch)) of
      None \<Rightarrow> ch_token_network_address ch | Some t \<Rightarrow> t"
  show ?case
  proof (cases "\<exists>a r ch'. ?next = Some a \<and> channel_by_partner A S ?tn a = Some (r, ch')")
    case False
    then have "mediate_routes E ch A t n (route # routes) S g = mediate_routes E ch A t n routes S g"
      by (cases ?next; cases "channel_by_partner A S ?tn (the ?next)") (auto simp: Let_def)
    with Cons show ?thesis by (simp only:)
  next
    case True
    then obtain a r ch' where hop: "?next = Some a" "channel_by_partner A S ?tn a = Some (r, ch')" by blast
    with Cons.prems obtain q S1 g1 evs1 where
      f: "forward_transfer_pair E t ch r ch' S g n = Inr (q, S1, g1, evs1)"
      by (auto simp: result_simps Let_def)
    with Cons hop forward_transfer_pair_typed [OF f] show ?thesis by (cases q) (auto simp: Let_def)
  qed
qed simp

lemma mediate_transfer_typed:
  "mediate_transfer E st ch A S g t n = Inr (st', S', g', evs) \<Longrightarrow> list_all (typed_event E) evs"
  by (auto simp: mediate_transfer_def Let_def result_simps dest: mediate_routes_typed split: option.splits)

lemma events_for_secretreveal_typed:
  "events_for_secretreveal E ps s g = (ps', g', evs) \<Longrightarrow> list_all (typed_event E') evs"
  by (induction ps arbitrary: ps' g' evs) (auto simp: Let_def split: prod.splits if_splits)

lemma events_for_balanceproof_typed:
  "events_for_balanceproof E tn ps n s sh S g = Inr (ps', S', g', evs) \<Longrightarrow> list_all (typed_event E) evs"
proof (induction ps arbitrary: ps' S' g' evs)
  case (Cons p ps)
  from Cons.prems show ?case
    by (rule events_for_balanceproof_Cons)
      (auto simp: unlocks_pair_def dest!: Cons.IH dest: sent_typed(2))
qed simp

lemma remove_expired_lock_typed:
  assumes "remove_expired_lock E tn sh routes n p S g = Inr (p', S', g', evs)"
  shows "list_all (typed_event E) evs"
proof (cases "get_payee_channel S tn p")
  case (Some ch)
  with assms obtain l where
    "(if dict_mem sh (es_lockedlocks (ch_our_state ch)) then
        py_assert (\<not> dict_mem sh (es_unlockedlocks (ch_our_state ch)))
          (Inr (map_of (es_lockedlocks (ch_our_state ch)) sh))
      else Inr (map_option up_lock (map_of (es_unlockedlocks (ch_our_state ch)) sh))) = Inr l"
    by (auto simp: remove_expired_lock_def Let_def bind_result_eq_Inr)
  with assms Some show ?thesis
    by (cases l) (auto simp: remove_expired_lock_def Let_def bind_result_eq_Inr dest: sent_typed(3)
        split: if_split_asm)
qed (use assms in \<open>simp add: remove_expired_lock_def\<close>)

lemma remove_expired_locks_typed:
  "remove_expired_locks E tn sh routes n ps S g = Inr (ps', S', g', evs) \<Longrightarrow> list_all (typed_event E) evs"
  by (induction ps arbitrary: ps' S g S' g' evs)
    (auto simp: bind_result_eq_Inr dest: remove_expired_lock_typed)

lemma onchain_reveals_typed:
  "dangerzone_loop S tn n h sent ps = Inr (ps', evs) \<Longrightarrow> list_all (typed_event E) evs"
  "closed_loop S tn s sh h sent ps = (ps', evs) \<Longrightarrow> list_all (typed_event E) evs"
proof -
  show "dangerzone_loop S tn n h sent ps = Inr (ps', evs) \<Longrightarrow> list_all (typed_event E) evs"
    by (induction S tn n h sent ps arbitrary: ps' evs rule: dangerzone_loop.induct)
      (auto simp: Let_def result_simps secret_registry_events_for_onchain_secretreveal_def
        split: option.splits if_splits)
  show "closed_loop S tn s sh h sent ps = (ps', evs) \<Longrightarrow> list_all (typed_event E) evs"
    by (induction ps arbitrary: sent ps' evs)
      (auto simp: Let_def secret_registry_events_for_onchain_secretreveal_def
        split: option.splits if_splits prod.splits)
qed

lemma events_for_expired_pairs_typed:
  assumes "events_for_expired_pairs S tn ps wt n = (ps', w, evs)"
  shows "list_all (typed_event E) evs"
proof -
  have "list_all (typed_event E) (snd (expire_pair S tn n p))" for p
    by (simp add: expire_pair_def split: option.split)
  then have "list_all (typed_event E) (concat (map (\<lambda>x. snd (expire_pair S tn n x)) ps))"
    by (auto simp: list_all_iff)
  with assms show ?thesis
    by (cases wt) (auto simp: events_for_expired_pairs_def Let_def expire_waiting_def comp_def split: if_splits)
qed

lemma received_pairs_typed:
  "unlock_pairs E u tn routes ps S = Inr (ps', S', evs) \<Longrightarrow> list_all (typed_event E') evs"
  "lock_expired_pairs E r tn n routes sh ps S = Inr (ps', S', Some evs) \<Longrightarrow> list_all (typed_event E') evs"
proof -
  show "unlock_pairs E u tn routes ps S = Inr (ps', S', evs) \<Longrightarrow> list_all (typed_event E') evs"
    by (induction ps arbitrary: ps' S S' evs)
      (auto simp: Let_def bind_result_eq_Inr dest: answers_typed(3) [where E = E'] split: option.splits if_splits)
  show "lock_expired_pairs E r tn n routes sh ps S = Inr (ps', S', Some evs) \<Longrightarrow> list_all (typed_event E') evs"
    by (induction ps arbitrary: ps' S S' evs)
      (auto simp: Let_def bind_result_eq_Inr dest!: answers_typed(4) [where E = E'] split: option.splits)
qed

lemma set_secret_typed: "set_secret st S tn f s sh = Inr (st', S', evs) \<Longrightarrow> list_all (typed_event E) evs"
  by (auto simp: set_secret_def Let_def result_simps split: option.splits)

lemma mediator_handlers_typed:
  "mediator_handle_init E a tn A S g n = Inr (st', S', g', evs) \<Longrightarrow> list_all (typed_event E) evs"
  "retry_waiting_transfer E st tn A S g n = Inr (st1, S', g', evs) \<Longrightarrow> list_all (typed_event E) evs"
  "mediator_handle_refundtransfer E st r tn A S g n = Inr (st1, S', g', evs) \<Longrightarrow> list_all (typed_event E) evs"
  "mediator_handle_unlock E st u tn S g = Inr (st1, S', g', evs) \<Longrightarrow> list_all (typed_event E) evs"
  by (auto simp: mediator_handle_init_def retry_waiting_transfer_def mediator_handle_refundtransfer_def
      mediator_handle_unlock_def Let_def bind_result_eq_Inr
      dest!: mediate_transfer_typed answers_typed(1,2) [where E = E] received_pairs_typed [where E' = E]
      split: option.splits if_split_asm)

lemma mediator_handle_lock_expired_typed:
  assumes "mediator_handle_lock_expired E st l tn S g n = Inr (st', S', g', evs)"
  shows "list_all (typed_event E) evs"
proof -
  from assms obtain ps S1 es where l: "lock_expired_pairs E l tn n (mt_routes st) (mt_secrethash st)
      (mt_transfers_pair st) S = Inr (ps, S1, es)"
    by (auto simp: mediator_handle_lock_expired_def bind_result_eq_Inr)
  have q: "es = Some evs1 \<Longrightarrow> list_all (typed_event E) evs1" for evs1 using received_pairs_typed(2) l by blast
  from assms l q show ?thesis
    by (auto simp: mediator_handle_lock_expired_def bind_result_eq_Inr Let_def
        dest!: answers_typed(4) [where E = E] split: option.splits)
qed

lemma mediator_handle_block_typed:
  assumes "mediator_handle_block E st b tn A S g = Inr (st', S', g', evs)"
  shows "list_all (typed_event E) evs"
proof -
  have "list_all (typed_event E) evs1" if "events_to_remove_expired_locks E st1 tn n S1 g1 = Inr (st2, S2, g2, evs1)"
    for st1 n S1 g1 st2 S2 g2 evs1
    using that by (auto simp: events_to_remove_expired_locks_def Let_def result_simps
        dest!: remove_expired_locks_typed remove_expired_lock_typed split: if_splits list.splits option.splits)
  moreover have "list_all (typed_event E) (snd (snd (events_for_expired_pairs S1 tn ps wt n)))" for S1 ps wt n
    using events_for_expired_pairs_typed by (metis prod.collapse)
  ultimately show ?thesis
    using assms by (auto simp: mediator_handle_block_def bind_result_eq_Inr case_prod_unfold
        events_for_onchain_secretreveal_if_dangerzone_def Let_def dest: mediator_handlers_typed onchain_reveals_typed)
qed

lemma mediator_reveals_typed:
  "mediator_handle_offchain_secretreveal E st r tn S g n h = Inr (st', S', g', evs) \<Longrightarrow> list_all (typed_event E) evs"
  "mediator_handle_onchain_secretreveal E st c tn S g = Inr (st', S', g', evs) \<Longrightarrow> list_all (typed_event E) evs"
proof -
  have "list_all (typed_event E) evs"
    if l: "secret_learned E st tn S g n h s sh a = Inr (st', S', g', evs)" for s sh a
  proof -
    from l obtain st1 S1 evs1 where
      s: "set_secret st S tn (\<lambda>ch. Inr (register_offchain_secret ch s sh)) s sh = Inr (st1, S1, evs1)"
      by (auto simp: secret_learned_def set_offchain_secret_def bind_result_eq_Inr)
    define ps where "ps = set_offchain_reveal_state (mt_transfers_pair st1) a"
    obtain ps2 evs2 where c: "events_for_onchain_secretreveal_if_closed S1 tn ps s sh h = (ps2, evs2)" by fastforce
    obtain ps3 g1 evs3 where r: "events_for_secretreveal E ps2 s g = (ps3, g1, evs3)"
      by (cases "events_for_secretreveal E ps2 s g")
    have "list_all (typed_event E) evs2"
      using c by (auto simp: events_for_onchain_secretreveal_if_closed_def Let_def dest: onchain_reveals_typed(2))
    with l s c r show ?thesis
      by (auto simp: secret_learned_def set_offchain_secret_def ps_def [symmetric] Let_def bind_result_eq_Inr
          dest!: set_secret_typed [where E = E] events_for_secretreveal_typed [where E' = E]
            events_for_balanceproof_typed)
  qed
  then show "mediator_handle_offchain_secretreveal E st r tn S g n h = Inr (st', S', g', evs) \<Longrightarrow>
      list_all (typed_event E) evs"
    by (auto simp: mediator_handle_offchain_secretreveal_def Let_def split: option.splits if_split_asm)
  show "mediator_handle_onchain_secretreveal E st c tn S g = Inr (st', S', g', evs) \<Longrightarrow> list_all (typed_event E) evs"
    by (auto simp: mediator_handle_onchain_secretreveal_def set_onchain_secret_def bind_result_eq_Inr
        dest: set_secret_typed events_for_balanceproof_typed split: if_split_asm)
qed

lemma mediator_typed:
  assumes "mediator_state_transition E m sc tn A S g n h = Inr (m', S', g', evs)"
  shows "list_all (typed_event E) evs"
proof -
  from assms obtain m1 S1 where "mediator_dispatch E m sc tn A S g n h = Inr (m1, S1, g', evs)"
    by (auto simp: mediator_state_transition_def mediator_clear_if_finalized_def bind_result_eq_Inr
        split: option.splits)
  then show ?thesis
    by (auto simp: mediator_dispatch_def with_mediator_def bind_result_eq_Inr
        dest: mediator_handlers_typed mediator_handle_block_typed mediator_reveals_typed
          mediator_handle_lock_expired_typed
        split: state_change.splits channel_state_change.splits option.splits)
qed

end
