(* ===== verification/Node_Events.thy ===== *)
theory Node_Events
  imports Node_Queues Message_Types
begin

text \<open>
  What a node emits. The node is a client of four components; the locale \<open>event_law\<close> states what it needs
  of them to give a law for every event of a node and for everything that waits in its queues. It is
  interpreted with the types of the messages.
\<close>

subsection \<open>A law of the node's events\<close>

locale event_law =
  fixes E :: platform and P :: "event \<Rightarrow> bool"
  assumes channel_law: "state_transition E ch sc n h g = Inr (st, g', evs) \<Longrightarrow> list_all P evs"
    and payment_law: "manager_state_transition E p sc' tn A S g n = Inr (p', S', g', evs) \<Longrightarrow> list_all P evs"
    and mediator_law: "mediator_state_transition E m sc' tn A S g n h = Inr (m', S', g', evs) \<Longrightarrow> list_all P evs"
    and target_law: "target_state_transition E t sc' ch g n = Inr (t', ch', g', evs) \<Longrightarrow> list_all P evs"
    and services_law: "P (UpdateServicesAddresses a v)"
begin

definition lawful :: "node_transition \<Rightarrow> bool" where
  "lawful m \<longleftrightarrow> (case m of Inl e \<Rightarrow> True | Inr (cs, evs) \<Rightarrow> list_all P evs)"

lemma lawfulI: "(\<And>cs evs. m = Inr (cs, evs) \<Longrightarrow> list_all P evs) \<Longrightarrow> lawful m"
  by (cases m) (auto simp: lawful_def)

lemma lawfulD: "lawful m \<Longrightarrow> m = Inr (cs, evs) \<Longrightarrow> list_all P evs"
  by (simp add: lawful_def)

lemma lawful_idle [simp]: "lawful (Inr (cs, []))" "lawful (Inl e)"
  by (simp_all add: lawful_def)

lemma lawful_runs [simp]:
  "lawful (run_initiator E cs sc' tn sh p)" "lawful (run_mediator E cs sc' tn sh m)"
  "lawful (run_target E cs sc' r ci ch sh t)"
  by (rule lawfulI; auto simp: run_initiator_def run_mediator_def run_target_def finish_task_def bind_result_eq_Inr
      intro: payment_law mediator_law target_law)+

lemma lawful_subdispatch [simp]:
  "lawful (subdispatch_to_paymenttask E cs sc' sh)" "lawful (subdispatch_initiatortask E cs sc' tn sh)"
  "lawful (subdispatch_mediatortask E cs sc' tn sh)" "lawful (subdispatch_targettask E cs sc' tn cid sh)"
  by (auto simp: subdispatch_to_paymenttask_def subdispatch_initiatortask_def subdispatch_mediatortask_def
      subdispatch_targettask_def Let_def split: option.split transfer_task.split)

lemma lawful_tasks: "subdispatch_to_tasks E sc' shs cs = Inr (cs', evs) \<Longrightarrow> list_all P evs"
  by (induction shs arbitrary: cs evs) (auto simp: bind_result_eq_Inr dest: lawfulD [OF lawful_subdispatch(1)])

lemma lawful_block_channels: "block_channels E sc n h rs cs = Inr (cs', evs) \<Longrightarrow> list_all P evs"
proof (induction rs arbitrary: cs evs)
  case (Cons r rs)
  then show ?case
    by (cases "lookup_channel cs r") (auto simp: bind_result_eq_Inr Let_def dest!: channel_law)
qed simp

lemma token_network_law: "tn_state_transition E tn sc' n h g = Inr (tn', g', evs) \<Longrightarrow> list_all P evs"
proof -
  have sub: "list_all P evs" if "subdispatch_to_channel_by_id E tn sc n h g = Inr (tn', g', evs)" for sc
    using that by (auto simp: subdispatch_to_channel_by_id_def Let_def bind_result_eq_Inr split: option.splits
        intro: channel_law)
  have batch: "list_all P evs" if "tn_handle_batch_unlock E tn a n h g = Inr (tn', g', evs)" for a
    using that by (auto simp: tn_handle_batch_unlock_def Let_def bind_result_eq_Inr split: option.splits
        intro: channel_law)
  note handlers = tn_handle_channel_close_def tn_handle_channel_withdraw_def tn_handle_channel_coop_settle_def
    tn_handle_channel_set_reveal_timeout_def tn_handle_balance_def tn_handle_withdraw_def tn_handle_closed_def
    tn_handle_settled_def tn_handle_updated_transfer_def tn_handle_receive_channel_withdraw_request_def
    tn_handle_receive_channel_withdraw_def tn_handle_receive_channel_withdraw_expired_def
  assume t: "tn_state_transition E tn sc' n h g = Inr (tn', g', evs)"
  show ?thesis
  proof (cases sc')
    case (ToChannel c)
    with t have "tn_channel_transition E tn c n h g = Inr (tn', g', evs)" by (simp add: tn_state_transition_def)
    then show ?thesis by (cases c) (auto simp: tn_channel_transition_def handlers intro: sub batch)
  qed (use t in \<open>auto simp: tn_state_transition_def handle_channelnew_def Let_def split: if_splits\<close>)
qed

lemma lawful_token_network [simp]:
  "lawful (subdispatch_to_token_network E cs sc' a)" "lawful (subdispatch_by_canonical_id E cs sc' ci)"
  "lawful (handle_token_network_action E cs sc' a)"
  by (rule lawfulI; auto simp: subdispatch_to_token_network_def subdispatch_by_canonical_id_def
      handle_token_network_action_def bind_result_eq_Inr split: option.splits dest: token_network_law)+

lemma lawful_channel_state_change: "lawful (handle_channel_state_change E cs sc)"
proof -
  have "lawful (node_handle_block E cs b)" for b
    by (rule lawfulI) (auto simp: node_handle_block_def Let_def bind_result_eq_Inr subdispatch_to_all_channels_def
        subdispatch_to_all_lockedtransfers_def dest: lawful_block_channels lawful_tasks)
  moreover have "lawful (node_handle_receive_withdraw_confirmation E cs w)" for w
    by (rule lawfulI) (auto simp: node_handle_receive_withdraw_confirmation_def bind_result_eq_Inr
        dest: lawfulD [OF lawful_token_network(2)])
  ultimately show ?thesis
    by (auto simp: handle_channel_state_change_def handle_contract_receive_channel_closed_def Let_def
        split: channel_state_change.split)
qed

lemma lawful_state_change: "lawful (handle_state_change E cs nsc)"
  using lawful_channel_state_change
  by (auto simp: handle_state_change_def handle_action_init_initiator_def handle_action_init_mediator_def
      handle_action_init_target_def handle_action_transfer_reroute_def handle_receive_delivered_def
      handle_receive_processed_def handle_contract_receive_new_token_network_registry_def
      handle_contract_receive_new_token_network_def Let_def services_law lawful_def [of "Inr (_, [_])"]
      split: node_state_change.split state_change.split option.split)

lemma node_law:
  assumes "node_state_transition E cs nsc = Inr (cs', evs)"
  shows "list_all P evs"
  using assms lawfulD [OF lawful_state_change] by (auto simp: node_state_transition_def bind_result_eq_Inr)

text \<open>Everything that waits in a queue obeys the law.\<close>

definition queues_lawful :: "chain_state \<Rightarrow> bool" where
  "queues_lawful cs \<longleftrightarrow> (\<forall>q. list_all P (queue_of cs q)) \<and> list_all P (cs_pending_transactions cs)"

lemma node_queues_law:
  assumes "queues_lawful cs" and "node_state_transition E cs nsc = Inr (cs', evs)"
  shows "queues_lawful cs'"
  using assms(1) node_law [OF assms(2)] node_queue [OF assms(2)] node_pending [OF assms(2)]
  by (auto simp: queues_lawful_def list_all_iff)

end

subsection \<open>The node sends well-typed messages\<close>

interpretation typed_messages: event_law E "typed_event E" for E
  by unfold_locales
    (auto intro: channel_plain [THEN plain_list] manager_typed mediator_typed target_typed simp: typed_event_def)

end
