(* ===== verification/Mediation.thy ===== *)
theory Mediation
  imports Mediator_Laws
begin

text \<open>
  The properties of a mediator, on top of \<open>Mediator_Laws\<close>, with an example: Bob forwards a transfer of
  Alice to Carol.
\<close>

subsection \<open>An example mediation\<close>

definition ex_carol :: address where "ex_carol = replicate 20 6"

definition ex_tn :: address where "ex_tn = ci_token_network_address ex_ci"

definition ex_outgoing :: channel where
  "ex_outgoing = (ex_channel ex_bob ex_carol)\<lparr>ch_canonical_identifier := ex_ci\<lparr>ci_channel_identifier := 2\<rparr>\<rparr>"

definition ex_long_route :: route_state where
  "ex_long_route = ex_route\<lparr>rs_route := [ex_alice, ex_bob, ex_carol]\<rparr>"

definition ex_incoming :: locked_transfer_signed where
  "ex_incoming = ex_transfer\<lparr>lt_target := ex_carol, lt_route_states := [ex_long_route]\<rparr>"

definition ex_mediator_store :: chan_store where
  "ex_mediator_store = [((ex_tn, 1), ex_channel ex_bob ex_alice), ((ex_tn, 2), ex_outgoing)]"

definition ex_mediator_index :: partner_index where
  "ex_mediator_index = [((ex_tn, ex_alice), (ex_tn, 1)), ((ex_tn, ex_carol), (ex_tn, 2))]"

definition ex_init_mediator :: "route_state list \<Rightarrow> action_init_mediator" where
  "ex_init_mediator routes = \<lparr>aim_sender = ex_alice, aim_balance_proof = lts_balance_proof ex_incoming,
     aim_from_hop = \<lparr>hop_node_address = ex_alice, hop_channel_identifier = 1\<rparr>,
     aim_candidate_route_states = routes, aim_from_transfer = ex_incoming\<rparr>"

definition ex_mediation :: mediator_transition where
  "ex_mediation = mediator_state_transition ex_platform None (ActionInitMediator (ex_init_mediator [ex_long_route]))
     ex_tn ex_mediator_index ex_mediator_store ex_prng 3 (replicate 32 8)"


text \<open>A transition that leaves a state of the mediator, of which something holds.\<close>

definition returns_some ::
  "mediator_transition \<Rightarrow> (mediator_transfer \<Rightarrow> chan_store \<Rightarrow> prng \<Rightarrow> event list \<Rightarrow> bool) \<Rightarrow> bool" where
  "returns_some m P \<longleftrightarrow> (case m of Inl e \<Rightarrow> False
     | Inr (st, S, g, evs) \<Rightarrow> (case st of None \<Rightarrow> False | Some s \<Rightarrow> P s S g evs))"

lemma returns_someE:
  assumes "returns_some m P"
  obtains s S g evs where "m = Inr (Some s, S, g, evs)" and "P s S g evs"
  using assms by (cases m) (auto simp: returns_some_def split: option.splits)

text \<open>Carol reveals the secret at block 10.\<close>

definition ex_learn :: "mediator_transfer \<Rightarrow> chan_store \<Rightarrow> prng \<Rightarrow> mediator_transition" where
  "ex_learn st S g = mediator_state_transition ex_platform (Some st)
     (ReceiveSecretReveal (mk_receive_secret_reveal ex_platform ex_carol ex_secret)) ex_tn ex_mediator_index S g 10
     (replicate 32 8)"

lemma is_unlock_cases: "is_unlock e \<Longrightarrow> \<exists>u. e = SendUnlock u"
  by (cases e) (auto simp: is_unlock_def)

lemma ex_mediator_caps: "caps_fees ex_mediator_store"
  by code_simp

lemma ex_mediation_ok:
  "\<exists>st S g evs p st2 S2 g2 evs2 u. ex_mediation = Inr (Some st, S, g, evs) \<and> caps_fees S
    \<and> mt_secrethash st = ex_secrethash \<and> mt_transfers_pair st = [p]
    \<and> ex_learn st S g = Inr (Some st2, S2, g2, evs2) \<and> SendUnlock u \<in> set evs2"
proof -
  have "returns_some ex_mediation (\<lambda>st S g evs. caps_fees S \<and> mt_secrethash st = ex_secrethash
      \<and> length (mt_transfers_pair st) = 1 \<and> returns_some (ex_learn st S g) (\<lambda>st2 S2 g2 evs2. list_ex is_unlock evs2))"
    by code_simp
  then obtain st S g evs st2 S2 g2 evs2 p where
    1: "ex_mediation = Inr (Some st, S, g, evs)" "caps_fees S" "mt_secrethash st = ex_secrethash"
      "mt_transfers_pair st = [p]" "ex_learn st S g = Inr (Some st2, S2, g2, evs2)" "list_ex is_unlock evs2"
    by (auto simp: length_Suc_conv elim!: returns_someE)
  from 1(6) obtain u where "SendUnlock u \<in> set evs2"
    by (auto simp: list_ex_iff dest: is_unlock_cases)
  with 1 show ?thesis by blast
qed

lemma ex_mediator_reach:
  "ex_mediation = Inr (Some st, S, g, evs) \<Longrightarrow> mediator_reach ex_platform st"
  unfolding ex_mediation_def by (rule mediator_reach.created [OF ex_mediator_caps])

subsection \<open>The mediator never pays more than it receives\<close>

text \<open>
  C12. When the channels cap the fees, a mediator never forwards more than it was sent: in every state that
  it reaches, whatever happens to the channels between its transitions, the outgoing lock of every pair
  has a positive amount that is at most the amount of the incoming lock, the same expiration and the
  secrethash of the payment.
\<close>

theorem mediator_forwards_at_most_what_it_gets:
  assumes "mediator_reach E st"
  shows "list_all (covered_pair (mt_secrethash st)) (mt_transfers_pair st)"
  using mediator_reach_inv [OF assms] by (simp add: mediator_inv_def)

theorem mediator_forwards_at_most_what_it_gets_witness:
  "\<exists>st S g evs p. ex_mediation = Inr (Some st, S, g, evs) \<and> mt_transfers_pair st = [p] \<and> covered_pair ex_secrethash p"
proof -
  from ex_mediation_ok obtain st S g evs p where
    1: "ex_mediation = Inr (Some st, S, g, evs)" "mt_secrethash st = ex_secrethash" "mt_transfers_pair st = [p]"
    by blast
  from mediator_forwards_at_most_what_it_gets [OF ex_mediator_reach [OF 1(1)]] 1 show ?thesis by auto
qed



subsection \<open>Messages that break the mediator\<close>

text \<open>
  An unlock that the payer sends before the mediator learned the secret makes the transition fail: the
  channel accepts the unlock, the pair becomes paid, but the handler does not take the secret from the
  message, so the check that a paid mediator knows the secret raises an \<open>AssertionError\<close>.
\<close>

theorem early_unlock_raises:
  assumes "mt_secret st = None" and "mt_transfers_pair st = [pair]"
    and "payer_address (mp_payer_transfer pair) = bp_sender (ru_balance_proof u)"
    and "channel_by_id S tn (ci_channel_identifier (bp_canonical_identifier (ru_balance_proof u))) = Some ch"
    and "handle_unlock E ch u (get_address_metadata (bp_sender (ru_balance_proof u)) (mt_routes st))
      = Inr (ch', True, evs, m)"
  shows "mediator_state_transition E (Some st) (ReceiveUnlock u) tn A S g n h = Inl AssertionError"
  using assms
  by (simp add: mediator_state_transition_def mediator_clear_if_finalized_def mediator_dispatch_def
      with_mediator_def mediator_handle_unlock_def mediator_sanity_check_def Let_def py_assert_def
      payer_transfer_paid_def)

text \<open>A mediator that holds the transfer which \<open>ex_unlock_message\<close> unlocks.\<close>

definition ex_unlearned :: mediator_transfer where
  "ex_unlearned = \<lparr>mt_secrethash = ex_secrethash, mt_routes = [], mt_refunded_channels = [], mt_secret = None,
     mt_transfers_pair = [mk_mediation_pair ex_incoming ex_carol (slt_transfer (snd (projr ex_send)))],
     mt_waiting_transfer = None\<rparr>"

theorem early_unlock_raises_witness:
  "mediator_state_transition ex_platform (Some ex_unlearned) (ReceiveUnlock ex_unlock_message) ex_tn
     ex_mediator_index [((ex_tn, 1), ex_bob_locked)] ex_prng 10 [] = Inl AssertionError"
proof -
  let ?pair = "mk_mediation_pair ex_incoming ex_carol (slt_transfer (snd (projr ex_send)))"
  have 1: "payer_address (mp_payer_transfer ?pair) = bp_sender (ru_balance_proof ex_unlock_message)"
    "ci_channel_identifier (bp_canonical_identifier (ru_balance_proof ex_unlock_message)) = 1"
    "get_address_metadata (bp_sender (ru_balance_proof ex_unlock_message)) [] = None" by code_simp+
  from ex_receive_unlock_ok obtain evs where
    2: "handle_unlock ex_platform ex_bob_locked ex_unlock_message None = Inr (ex_bob_unlocked, True, evs, None)"
    by (auto simp: ex_receive_unlock_def)
  show ?thesis
    by (rule early_unlock_raises [where pair = ?pair and ch = ex_bob_locked and ch' = ex_bob_unlocked and m = None])
      (use 1 2 in \<open>simp_all add: ex_unlearned_def channel_by_id_def\<close>)
qed

text \<open>
  A refund for a payment that the mediator has not forwarded yet makes the transition fail: the handler
  takes the last pair of an empty list, which raises an \<open>IndexError\<close>. A mediator is in such a state
  when no route was usable and the transfer waits.
\<close>

theorem refund_before_forwarding_raises:
  assumes "mt_secret st = None" and "mt_transfers_pair st = []"
  shows "mediator_state_transition E (Some st) (ReceiveTransferRefund r) tn A S g n h = Inl IndexError"
  using assms
  by (simp add: mediator_state_transition_def mediator_clear_if_finalized_def mediator_dispatch_def
      with_mediator_def mediator_handle_refundtransfer_def py_nth_def)

definition ex_waiting :: mediator_transition where
  "ex_waiting = mediator_state_transition ex_platform None (ActionInitMediator (ex_init_mediator []))
     ex_tn ex_mediator_index ex_mediator_store ex_prng 3 (replicate 32 8)"

theorem refund_before_forwarding_raises_witness:
  "\<exists>st S g evs. ex_waiting = Inr (Some st, S, g, evs) \<and> mediator_reach ex_platform st
    \<and> (\<forall>r. mediator_state_transition ex_platform (Some st) (ReceiveTransferRefund r) ex_tn ex_mediator_index S g
          4 [] = Inl IndexError)"
proof -
  have "returns_some ex_waiting (\<lambda>st S g evs. mt_secret st = None \<and> mt_transfers_pair st = [])" by code_simp
  then obtain st S g evs where
    1: "ex_waiting = Inr (Some st, S, g, evs)" "mt_secret st = None" "mt_transfers_pair st = []"
    by (auto elim: returns_someE)
  have "mediator_reach ex_platform st"
    by (rule mediator_reach.created [OF ex_mediator_caps 1(1) [unfolded ex_waiting_def]])
  with 1 refund_before_forwarding_raises [OF 1(2,3)] show ?thesis by blast
qed

end
