(* ===== verification/Node_Laws.thy ===== *)
theory Node_Laws
  imports Node_Events Mediation
begin

text \<open>
  What a node promises: its messages wait for their acknowledgement and are well typed, its transactions
  wait for their effect, and a payment keeps the role that this node has in it.
\<close>

subsection \<open>An example\<close>

text \<open>Bob between Alice and Carol, who is asked to mediate a payment.\<close>

definition ex_chain :: chain_state where
  "ex_chain = \<lparr>cs_prng = ex_prng, cs_block_number = 3, cs_block_hash = replicate 32 8, cs_our_address = ex_bob,
     cs_chain_id = ci_chain_identifier ex_ci,
     cs_registries = [(replicate 20 7, \<lparr>trs_address = replicate 20 7, trs_token_network_list = [ex_tn],
       trs_token_networks = [ex_tn], trs_token_addresses = [(replicate 20 4, ex_tn)]\<rparr>)],
     cs_token_networks = [(ex_tn, \<lparr>tn_address = ex_tn, tn_token_address = replicate 20 4,
       tn_channels = [(1, ex_channel ex_bob ex_alice), (2, ex_outgoing)],
       tn_partner_channels = [(ex_alice, [1]), (ex_carol, [2])]\<rparr>)],
     cs_payment_mapping = [], cs_pending_transactions = [], cs_queues = [],
     cs_tn_to_registry = [(ex_tn, replicate 20 7)]\<rparr>"

definition ex_node_mediates :: node_transition where
  "ex_node_mediates = node_state_transition ex_platform ex_chain
     (Common (ActionInitMediator (ex_init_mediator [ex_long_route])))"

definition ex_to_carol :: queue_identifier where
  "ex_to_carol = \<lparr>qi_recipient = ex_carol, qi_canonical_identifier = ch_canonical_identifier ex_outgoing\<rparr>"

text \<open>A transition that returns a state and events of which something holds.\<close>

definition node_returns :: "node_transition \<Rightarrow> (chain_state \<Rightarrow> event list \<Rightarrow> bool) \<Rightarrow> bool" where
  "node_returns m P \<longleftrightarrow> (case m of Inl e \<Rightarrow> False | Inr (cs, evs) \<Rightarrow> P cs evs)"

lemma node_returns_Inr: "node_returns (Inr (cs, evs)) P \<longleftrightarrow> P cs evs"
  by (simp add: node_returns_def)

lemma node_returnsE:
  assumes "node_returns m P"
  obtains cs evs where "m = Inr (cs, evs)" and "P cs evs"
  using assms by (cases m) (auto simp: node_returns_def)

definition is_locked_transfer :: "event \<Rightarrow> bool" where
  "is_locked_transfer e \<longleftrightarrow> (case e of SendLockedTransfer t \<Rightarrow> True | _ \<Rightarrow> False)"

lemma is_locked_transferE: "is_locked_transfer e \<Longrightarrow> \<exists>t. e = SendLockedTransfer t"
  by (cases e) (simp_all add: is_locked_transfer_def)

lemma ex_node_mediates_ok:
  "\<exists>cs evs t. ex_node_mediates = Inr (cs, evs) \<and> queue_of cs ex_to_carol = [SendLockedTransfer t]"
proof -
  have "node_returns ex_node_mediates (\<lambda>cs evs. length (queue_of cs ex_to_carol) = 1
      \<and> list_all is_locked_transfer (queue_of cs ex_to_carol))"
    by code_simp
  then show ?thesis by (auto simp: length_Suc_conv elim!: node_returnsE dest!: is_locked_transferE)
qed

subsection \<open>Messages\<close>

text \<open>
  C4. A message waits in its queue until it is acknowledged. After any transition of the node a queue holds,
  in the same order, the messages that it held before without those that the state change clears, followed
  by the new messages for that recipient and channel. A message is cleared only by a \<open>Delivered\<close> for the
  queue without a channel, by a \<open>Processed\<close> or by a withdraw confirmation, from the recipient of the message
  and with its identifier, where a withdraw request needs the confirmation, or when the channel of the
  queue is closed on-chain.
\<close>

theorem messages_wait_for_acknowledgement:
  assumes "node_state_transition E cs nsc = Inr (cs', evs)"
  shows "queue_of cs' q = filter (\<lambda>m. \<not> cleared cs nsc q m) (queue_of cs q) @ filter (goes_to q) evs"
  using assms by (rule node_queue)

text \<open>The transfer to Carol is acknowledged: her queue is empty again.\<close>

definition ex_processed :: "chain_state \<Rightarrow> node_state_change" where
  "ex_processed cs = Common (ReceiveProcessed \<lparr>rak_sender = ex_carol, rak_message_identifier =
     (case queue_of cs ex_to_carol of
        m # ms \<Rightarrow> (case message_header m of None \<Rightarrow> 0 | Some h \<Rightarrow> mh_message_identifier h)
      | [] \<Rightarrow> 0)\<rparr>)"

theorem messages_wait_for_acknowledgement_witness:
  "\<exists>cs evs t cs'. ex_node_mediates = Inr (cs, evs) \<and> queue_of cs ex_to_carol = [SendLockedTransfer t]
    \<and> node_state_transition ex_platform cs (ex_processed cs) = Inr (cs', []) \<and> queue_of cs' ex_to_carol = []"
proof -
  from ex_node_mediates_ok obtain cs evs t where
    1: "ex_node_mediates = Inr (cs, evs)" "queue_of cs ex_to_carol = [SendLockedTransfer t]" by blast
  have "node_returns ex_node_mediates (\<lambda>cs evs. node_returns (node_state_transition ex_platform cs (ex_processed cs))
      (\<lambda>cs' evs'. evs' = [] \<and> list_all (cleared cs (ex_processed cs) ex_to_carol) (queue_of cs ex_to_carol)))"
    by code_simp
  from this [unfolded 1(1) node_returns_Inr] 1(2) obtain cs' where
    2: "node_state_transition ex_platform cs (ex_processed cs) = Inr (cs', [])"
      "cleared cs (ex_processed cs) ex_to_carol (SendLockedTransfer t)"
    by (auto elim!: node_returnsE)
  from messages_wait_for_acknowledgement [OF 2(1), of ex_to_carol] 1 2 show ?thesis by auto
qed

text \<open>The states that a node reaches, starting with empty queues, whatever its channels and payments are.\<close>

inductive node_reach :: "platform \<Rightarrow> chain_state \<Rightarrow> bool" for E where
  start: "cs_queues cs = [] \<Longrightarrow> cs_pending_transactions cs = [] \<Longrightarrow> node_reach E cs"
| step: "node_reach E cs \<Longrightarrow> node_state_transition E cs nsc = Inr (cs', evs) \<Longrightarrow> node_reach E cs'"

lemma node_reach_typed: "node_reach E cs \<Longrightarrow> typed_messages.queues_lawful E cs"
proof (induction rule: node_reach.induct)
  case (step cs nsc cs' evs)
  from typed_messages.node_queues_law [OF step.IH step.hyps(2)] show ?case .
qed (simp add: typed_messages.queues_lawful_def defaultdict_get_def)

lemma node_reach_queued:
  "node_reach E cs \<Longrightarrow> (\<forall>q. list_all (goes_to q) (queue_of cs q)) \<and> list_all is_contract_send (cs_pending_transactions cs)"
proof (induction rule: node_reach.induct)
  case (step cs nsc cs' evs)
  from step.IH show ?case unfolding node_queue [OF step.hyps(2)] node_pending [OF step.hyps(2)] by (auto simp: list_all_iff)
qed (simp add: defaultdict_get_def)

text \<open>
  C5. Everything that waits in a queue of a reachable node is well typed: the message is for the recipient
  and the channel of its queue, and its balance proof, if it has one, has a positive 64 bit nonce, 256 bit
  amounts, a locksroot of 32 bytes and a valid canonical identifier; the lock of a transfer is valid, and
  the secrethash of an unlock is the hash of its secret. The pending transactions are transactions.
\<close>

theorem queued_messages_are_well_typed:
  assumes "node_reach E cs"
  shows "(\<forall>q. list_all (\<lambda>m. goes_to q m \<and> typed_event E m) (queue_of cs q))
    \<and> list_all is_contract_send (cs_pending_transactions cs)"
  using node_reach_typed [OF assms] node_reach_queued [OF assms]
  by (auto simp: typed_messages.queues_lawful_def list_all_iff)

theorem queued_messages_are_well_typed_witness:
  "\<exists>cs evs t. ex_node_mediates = Inr (cs, evs) \<and> queue_of cs ex_to_carol = [SendLockedTransfer t]
    \<and> typed_event ex_platform (SendLockedTransfer t)"
proof -
  from ex_node_mediates_ok obtain cs evs t where
    1: "ex_node_mediates = Inr (cs, evs)" "queue_of cs ex_to_carol = [SendLockedTransfer t]" by blast
  have "node_reach ex_platform ex_chain" by (rule node_reach.start) (simp_all add: ex_chain_def)
  then have "node_reach ex_platform cs" by (rule node_reach.step) (rule 1(1) [unfolded ex_node_mediates_def])
  from queued_messages_are_well_typed [OF this] 1 show ?thesis by (metis list.pred_inject(2))
qed

subsection \<open>Transactions\<close>

text \<open>
  C21. A transaction is pending until its effect is seen on-chain. After any transition of the node the
  pending transactions are, in the same order, those from before that the state change does not resolve,
  followed by the new ones. Only a state change that comes from the blockchain resolves transactions, namely
  those that are past their expiration block and those that the event confirms or makes impossible.
\<close>

theorem transactions_wait_for_their_effect:
  assumes "node_state_transition E cs nsc = Inr (cs', evs)"
  shows "cs_pending_transactions cs' =
    filter (\<lambda>t. \<not> (is_contract_receive nsc \<and> resolved cs' nsc t)) (cs_pending_transactions cs)
    @ filter is_contract_send evs"
  using assms by (rule node_pending)

definition ex_close_sent :: event where
  "ex_close_sent = ContractSendChannelClose (replicate 32 8) ex_ci None"

definition ex_closing_chain :: chain_state where
  "ex_closing_chain = ex_chain\<lparr>cs_pending_transactions := [ex_close_sent,
     ContractSendChannelClose (replicate 32 8) (ch_canonical_identifier ex_outgoing) None]\<rparr>"

definition ex_chain_closed :: node_state_change where
  "ex_chain_closed = Common (ToChannel (ContractReceiveChannelClosed \<lparr>cr_transaction_hash = [], cr_block_number = 3,
     cr_block_hash = replicate 32 8, crc_transaction_from = ex_bob, crc_canonical_identifier = ex_ci\<rparr>))"

theorem transactions_wait_for_their_effect_witness:
  "\<exists>cs evs. node_state_transition ex_platform ex_closing_chain ex_chain_closed = Inr (cs, evs)
    \<and> ex_close_sent \<in> set (cs_pending_transactions ex_closing_chain)
    \<and> ContractSendChannelClose (replicate 32 8) (ch_canonical_identifier ex_outgoing) None \<in> set (cs_pending_transactions cs)"
proof -
  let ?t = "ContractSendChannelClose (replicate 32 8) (ch_canonical_identifier ex_outgoing) None"
  have "node_returns (node_state_transition ex_platform ex_closing_chain ex_chain_closed)
      (\<lambda>cs evs. \<not> resolved cs ex_chain_closed ?t)" by code_simp
  then obtain cs evs where
    1: "node_state_transition ex_platform ex_closing_chain ex_chain_closed = Inr (cs, evs)"
      "\<not> resolved cs ex_chain_closed ?t" by (auto elim!: node_returnsE)
  from transactions_wait_for_their_effect [OF 1(1)] 1 show ?thesis by (auto simp: ex_closing_chain_def)
qed

definition is_batch_unlock :: "event \<Rightarrow> bool" where
  "is_batch_unlock e \<longleftrightarrow> (case e of ContractSendChannelBatchUnlock h ci a \<Rightarrow> True | _ \<Rightarrow> False)"

text \<open>
  C36. The batch unlock of one channel resolves those of all channels. When a batch unlock is seen on-chain
  and no channel with that partner is left in the token network, every batch unlock that was pending, of
  whatever channel, token network and partner, is dropped from the pending transactions: the code does not
  compare the channels.
\<close>

theorem batch_unlock_resolves_all_channels:
  assumes "node_state_transition E cs (Common (ToChannel (ContractReceiveChannelBatchUnlock a))) = Inr (cs', evs)"
    and "partner_gone cs' a"
  shows "filter is_batch_unlock (cs_pending_transactions cs') = filter is_batch_unlock (filter is_contract_send evs)"
proof -
  have "resolved cs' (Common (ToChannel (ContractReceiveChannelBatchUnlock a))) t" if "is_batch_unlock t" for t
    using that assms(2) by (cases t) (simp_all add: is_batch_unlock_def resolved_def)
  then show ?thesis
    unfolding node_pending [OF assms(1)] by (auto simp: is_contract_receive_def filter_empty_conv)
qed

text \<open>Two batch unlocks are pending, for channels with Alice and with Carol; one with Alice is seen, in a network
  where she has no channel any more.\<close>

definition ex_unlocking_chain :: chain_state where
  "ex_unlocking_chain = ex_chain\<lparr>
     cs_token_networks := [(ex_tn, \<lparr>tn_address = ex_tn, tn_token_address = replicate 20 4,
       tn_channels = [(2, ex_outgoing)], tn_partner_channels = [(ex_alice, []), (ex_carol, [2])]\<rparr>)],
     cs_pending_transactions := [ContractSendChannelBatchUnlock (replicate 32 8) ex_ci ex_alice,
       ContractSendChannelBatchUnlock (replicate 32 8) (ch_canonical_identifier ex_outgoing) ex_carol]\<rparr>"

definition ex_batch_unlock :: contract_receive_batch_unlock where
  "ex_batch_unlock = \<lparr>cr_transaction_hash = [], cr_block_number = 3, cr_block_hash = replicate 32 8,
     cru_canonical_identifier = ex_ci, cru_receiver = ex_bob, cru_sender = ex_alice,
     cru_locksroot = replicate 32 0, cru_unlocked_amount = 0, cru_returned_tokens = 0\<rparr>"

theorem batch_unlock_resolves_all_channels_witness:
  "\<exists>cs. node_state_transition ex_platform ex_unlocking_chain
      (Common (ToChannel (ContractReceiveChannelBatchUnlock ex_batch_unlock))) = Inr (cs, [])
    \<and> filter is_batch_unlock (cs_pending_transactions ex_unlocking_chain) \<noteq> []
    \<and> filter is_batch_unlock (cs_pending_transactions cs) = []"
proof -
  have "node_returns (node_state_transition ex_platform ex_unlocking_chain
      (Common (ToChannel (ContractReceiveChannelBatchUnlock ex_batch_unlock))))
      (\<lambda>cs evs. evs = [] \<and> partner_gone cs ex_batch_unlock)" by code_simp
  then obtain cs where
    1: "node_state_transition ex_platform ex_unlocking_chain
      (Common (ToChannel (ContractReceiveChannelBatchUnlock ex_batch_unlock))) = Inr (cs, [])"
      "partner_gone cs ex_batch_unlock" by (auto elim!: node_returnsE)
  from batch_unlock_resolves_all_channels [OF 1] 1(1) show ?thesis
    by (simp add: ex_unlocking_chain_def is_batch_unlock_def)
qed

subsection \<open>Roles\<close>

text \<open>What a task keeps while its payment goes on: the role, and the token network of an initiator or a mediator.\<close>

fun same_task :: "transfer_task \<Rightarrow> transfer_task \<Rightarrow> bool" where
  "same_task (InitiatorTask tn p) (InitiatorTask tn' p') = (tn = tn')"
| "same_task (MediatorTask tn m) (MediatorTask tn' m') = (tn = tn')"
| "same_task (TargetTask ci t) (TargetTask ci' t') = True"
| "same_task t t' = False"

lemma same_task_refl [simp]: "same_task t t"
  by (cases t) auto

lemma same_task_trans: "same_task t u \<Longrightarrow> same_task u v \<Longrightarrow> same_task t v"
  by (cases t; cases u; cases v) auto

lemma same_task_role: "same_task t u \<Longrightarrow> task_role u = task_role t"
  by (cases t; cases u) auto

text \<open>The tasks after a step: those from before, and new ones for the given secrethashes and roles.\<close>

definition tasks_kept :: "(secrethash \<Rightarrow> transfer_role \<Rightarrow> bool) \<Rightarrow> chain_state \<Rightarrow> chain_state \<Rightarrow> bool" where
  "tasks_kept new cs cs' \<longleftrightarrow> (\<forall>sh t'. map_of (cs_payment_mapping cs') sh = Some t' \<longrightarrow>
     (case map_of (cs_payment_mapping cs) sh of None \<Rightarrow> new sh (task_role t') | Some t \<Rightarrow> same_task t t'))"

lemma tasks_kept_same: "cs_payment_mapping cs' = cs_payment_mapping cs \<Longrightarrow> tasks_kept new cs cs'"
  by (simp add: tasks_kept_def split: option.split)

lemma tasks_kept_trans:
  assumes "tasks_kept new cs cs1" and "tasks_kept (\<lambda>sh r. False) cs1 cs2"
  shows "tasks_kept new cs cs2"
  unfolding tasks_kept_def
proof (intro allI impI)
  fix sh t2 assume "map_of (cs_payment_mapping cs2) sh = Some t2"
  with assms(2) obtain t1 where 1: "map_of (cs_payment_mapping cs1) sh = Some t1" "same_task t1 t2"
    by (auto simp: tasks_kept_def split: option.splits)
  from assms(1) 1(1)
  have "case map_of (cs_payment_mapping cs) sh of None \<Rightarrow> new sh (task_role t1) | Some t \<Rightarrow> same_task t t1"
    by (simp add: tasks_kept_def)
  with 1(2) same_task_role [OF 1(2)]
  show "case map_of (cs_payment_mapping cs) sh of None \<Rightarrow> new sh (task_role t2) | Some t \<Rightarrow> same_task t t2"
    by (auto split: option.splits intro: same_task_trans)
qed

lemma tasks_kept_set:
  assumes "cs_payment_mapping cs1 = cs_payment_mapping cs"
    and "\<And>x. case map_of (cs_payment_mapping cs) sh of None \<Rightarrow> new sh (task_role (task x)) | Some t \<Rightarrow> same_task t (task x)"
  shows "tasks_kept new cs (set_task sh (map_option task st) cs1)"
  using assms by (cases st) (auto simp: tasks_kept_def set_task_def update_conv' delete_conv' split: option.splits)

definition keeps_tasks :: "(secrethash \<Rightarrow> transfer_role \<Rightarrow> bool) \<Rightarrow> chain_state \<Rightarrow> node_transition \<Rightarrow> bool" where
  "keeps_tasks new cs m \<longleftrightarrow> (case m of Inl e \<Rightarrow> True | Inr (cs', evs) \<Rightarrow> tasks_kept new cs cs')"

lemma keeps_tasksI: "(\<And>cs' evs. m = Inr (cs', evs) \<Longrightarrow> tasks_kept new cs cs') \<Longrightarrow> keeps_tasks new cs m"
  by (cases m) (auto simp: keeps_tasks_def)

lemma keeps_tasksD: "keeps_tasks new cs m \<Longrightarrow> m = Inr (cs', evs) \<Longrightarrow> tasks_kept new cs cs'"
  by (simp add: keeps_tasks_def)

lemma keeps_tasks_idle [simp]: "keeps_tasks new cs (Inr (cs, evs))" "keeps_tasks new cs (Inl e)"
  by (simp_all add: keeps_tasks_def tasks_kept_same)

lemma put_payments [simp]:
  "cs_payment_mapping (put_token_network a tn cs) = cs_payment_mapping cs"
  "cs_payment_mapping (put_channel r ch cs) = cs_payment_mapping cs"
  "cs_payment_mapping (write_channels S cs) = cs_payment_mapping cs"
  by (simp_all add: put_token_network_def put_channel_def write_channels_def split: option.split)

lemma run_keeps_tasks:
  "case map_of (cs_payment_mapping cs) sh of None \<Rightarrow> new sh INITIATOR | Some t \<Rightarrow> \<forall>p. same_task t (InitiatorTask tn p) \<Longrightarrow>
     keeps_tasks new cs (run_initiator E cs sc tn sh p)"
  "case map_of (cs_payment_mapping cs) sh of None \<Rightarrow> new sh MEDIATOR | Some t \<Rightarrow> \<forall>m. same_task t (MediatorTask tn m) \<Longrightarrow>
     keeps_tasks new cs (run_mediator E cs sc tn sh m)"
  "case map_of (cs_payment_mapping cs) sh of None \<Rightarrow> new sh TARGET | Some t \<Rightarrow> \<forall>u. same_task t (TargetTask ci u) \<Longrightarrow>
     keeps_tasks new cs (run_target E cs sc r ci ch sh t')"
  by (rule keeps_tasksI; auto simp: run_initiator_def run_mediator_def run_target_def finish_task_def
      bind_result_eq_Inr intro!: tasks_kept_set split: option.splits)+

lemma paymenttask_keeps_tasks: "keeps_tasks new cs (subdispatch_to_paymenttask E cs sc sh)"
  by (auto simp: subdispatch_to_paymenttask_def split: option.split transfer_task.split intro!: run_keeps_tasks)

lemma starting_keeps_tasks:
  "new sh INITIATOR \<Longrightarrow> keeps_tasks new cs (subdispatch_initiatortask E cs sc tn sh)"
  "new sh MEDIATOR \<Longrightarrow> keeps_tasks new cs (subdispatch_mediatortask E cs sc tn sh)"
  "new sh TARGET \<Longrightarrow> keeps_tasks new cs (subdispatch_targettask E cs sc tn cid sh)"
  by (auto simp: subdispatch_initiatortask_def subdispatch_mediatortask_def subdispatch_targettask_def Let_def
      split: option.split transfer_task.split intro!: run_keeps_tasks)

lemma tasks_keep_tasks: "subdispatch_to_tasks E sc shs cs = Inr (cs', evs) \<Longrightarrow> tasks_kept new cs cs'"
proof (induction shs arbitrary: new cs evs)
  case (Cons sh shs)
  from Cons.prems obtain cs1 evs1 evs2 where 1: "subdispatch_to_paymenttask E cs sc sh = Inr (cs1, evs1)"
    and 2: "subdispatch_to_tasks E sc shs cs1 = Inr (cs', evs2)" by (auto simp: bind_result_eq_Inr)
  from keeps_tasksD [OF paymenttask_keeps_tasks 1] Cons.IH [OF 2] show ?case by (rule tasks_kept_trans)
qed (simp add: tasks_kept_same)

lemma block_channels_payments:
  "block_channels E sc n h rs cs = Inr (cs', evs) \<Longrightarrow> cs_payment_mapping cs' = cs_payment_mapping cs"
proof (induction rs arbitrary: cs evs)
  case (Cons r rs)
  show ?case
  proof (cases "lookup_channel cs r")
    case (Some ch)
    with Cons.prems obtain st g evs1 evs2 where
      "block_channels E sc n h rs ((case st of None \<Rightarrow> cs | Some ch' \<Rightarrow> put_channel r ch' cs)\<lparr>cs_prng := g\<rparr>) = Inr (cs', evs2)"
      by (auto simp: bind_result_eq_Inr Let_def)
    from Cons.IH [OF this] show ?thesis by (auto split: option.splits)
  qed (use Cons in simp)
qed simp

lemma block_keeps_tasks: "keeps_tasks new cs (node_handle_block E cs b)"
proof (rule keeps_tasksI)
  let ?cs = "cs\<lparr>cs_block_number := blk_block_number b, cs_block_hash := blk_block_hash b\<rparr>"
  fix cs' evs assume "node_handle_block E cs b = Inr (cs', evs)"
  then obtain cs1 evs1 evs2 where
    1: "block_channels E (Block b) (blk_block_number b) (blk_block_hash b) (all_channel_refs ?cs) ?cs = Inr (cs1, evs1)"
    and 2: "subdispatch_to_tasks E (BlockChange b) (map fst (cs_payment_mapping cs1)) cs1 = Inr (cs', evs2)"
    by (auto simp: node_handle_block_def Let_def bind_result_eq_Inr subdispatch_to_all_channels_def
        subdispatch_to_all_lockedtransfers_def)
  have "tasks_kept new cs cs1" using block_channels_payments [OF 1] by (simp add: tasks_kept_same)
  from this tasks_keep_tasks [OF 2] show "tasks_kept new cs cs'" by (rule tasks_kept_trans)
qed

lemma network_payments:
  "subdispatch_to_token_network E cs sc a = Inr (cs', evs) \<Longrightarrow> cs_payment_mapping cs' = cs_payment_mapping cs"
  by (auto simp: subdispatch_to_token_network_def bind_result_eq_Inr split: option.splits)

lemma network_keeps_tasks:
  "cs_payment_mapping cs1 = cs_payment_mapping cs \<Longrightarrow> keeps_tasks new cs (handle_token_network_action E cs1 sc a)"
  "keeps_tasks new cs (subdispatch_by_canonical_id E cs sc ci)"
  by (rule keeps_tasksI; auto simp: handle_token_network_action_def subdispatch_by_canonical_id_def
      dest!: network_payments intro: tasks_kept_same)+

lemma delete_payments [simp]:
  "cs_payment_mapping (inplace_delete_message_queue cs ack q) = cs_payment_mapping cs"
  "cs_payment_mapping (delete_from_all_queues cs ack) = cs_payment_mapping cs"
proof -
  show q: "cs_payment_mapping (inplace_delete_message_queue cs ack q) = cs_payment_mapping cs" for cs q
    by (simp add: inplace_delete_message_queue_def Let_def split: option.split)
  have "cs_payment_mapping (fold (\<lambda>q cs. inplace_delete_message_queue cs ack q) qs cs) = cs_payment_mapping cs" for qs
    by (induction qs arbitrary: cs) (simp_all add: q)
  then show "cs_payment_mapping (delete_from_all_queues cs ack) = cs_payment_mapping cs"
    by (simp add: delete_from_all_queues_def)
qed

lemma registry_payments [simp]:
  "cs_payment_mapping (put_token_networks tns cs) = cs_payment_mapping cs"
  "cs_payment_mapping (maybe_add_tokennetwork cs a tn) = cs_payment_mapping cs"
proof -
  show "cs_payment_mapping (put_token_networks tns cs) = cs_payment_mapping cs"
    unfolding put_token_networks_def by (induction tns arbitrary: cs) simp_all
  show "cs_payment_mapping (maybe_add_tokennetwork cs a tn) = cs_payment_mapping cs"
    by (simp add: maybe_add_tokennetwork_def Let_def case_prod_unfold)
qed

lemma channel_change_keeps_tasks: "keeps_tasks new cs (handle_channel_state_change E cs sc)"
proof -
  have "keeps_tasks new cs (node_handle_receive_withdraw_confirmation E cs w)" for w
    by (rule keeps_tasksI) (auto simp: node_handle_receive_withdraw_confirmation_def bind_result_eq_Inr
        subdispatch_by_canonical_id_def dest!: network_payments intro!: tasks_kept_same)
  moreover have "keeps_tasks new cs (handle_contract_receive_channel_closed E cs c)" for c
    by (auto simp: handle_contract_receive_channel_closed_def Let_def intro!: network_keeps_tasks split: option.split)
  ultimately show ?thesis
    by (auto simp: handle_channel_state_change_def block_keeps_tasks network_keeps_tasks
        split: channel_state_change.split)
qed

text \<open>The state changes that start a payment.\<close>

definition starts_payment :: "node_state_change \<Rightarrow> secrethash \<Rightarrow> transfer_role \<Rightarrow> bool" where
  "starts_payment nsc sh r \<longleftrightarrow>
     (case nsc of
        Common (ActionInitInitiator a) \<Rightarrow> sh = td_secrethash (aii_transfer a) \<and> r = INITIATOR
      | Common (ActionInitMediator a) \<Rightarrow> sh = lk_secrethash (lt_lock (aim_from_transfer a)) \<and> r = MEDIATOR
      | Common (ActionInitTarget a) \<Rightarrow> sh = lk_secrethash (lt_lock (ait_transfer a)) \<and> r = TARGET
      | _ \<Rightarrow> False)"

definition reroutes :: "node_state_change \<Rightarrow> bool" where
  "reroutes nsc \<longleftrightarrow> (case nsc of Common (ActionTransferReroute a) \<Rightarrow> True | _ \<Rightarrow> False)"

lemma state_change_keeps_tasks:
  assumes "\<not> reroutes nsc"
  shows "keeps_tasks (starts_payment nsc) cs (handle_state_change E cs nsc)"
proof (cases nsc)
  case (Common sc)
  have new: "starts_payment nsc = starts_payment (Common sc)" by (simp add: Common)
  show ?thesis
    using assms unfolding new
    by (cases sc) (simp_all add: Common handle_state_change_def channel_change_keeps_tasks network_keeps_tasks
        paymenttask_keeps_tasks handle_action_init_initiator_def handle_action_init_mediator_def
        handle_action_init_target_def handle_receive_delivered_def handle_receive_processed_def Let_def
        starting_keeps_tasks starts_payment_def reroutes_def keeps_tasks_def [of _ _ "Inr _"] tasks_kept_same)
qed (simp_all add: handle_state_change_def handle_contract_receive_new_token_network_registry_def
    handle_contract_receive_new_token_network_def keeps_tasks_def tasks_kept_same)

lemma filter_pending_payments:
  "filter_pending nsc ts cs = Inr (cs', ts') \<Longrightarrow> cs_payment_mapping cs' = cs_payment_mapping cs"
proof (induction ts arbitrary: cs ts')
  case (Cons t ts)
  have b: "batch_unlock_done cs a = Inr (cs', b) \<Longrightarrow> cs_payment_mapping cs' = cs_payment_mapping cs" for cs a cs' b
    by (auto simp: batch_unlock_done_def get_channelstate_by_token_network_and_partner_def Let_def
        bind_result_eq_Inr split: if_splits option.splits)
  from Cons.prems obtain cs1 p ts1 where 1: "is_transaction_pending cs t nsc = Inr (cs1, p)"
    and 2: "filter_pending nsc ts cs1 = Inr (cs', ts1)" by (auto simp: bind_result_eq_Inr)
  from 1 obtain p' where "is_transaction_effect_satisfied cs t nsc = Inr (cs1, p')"
    by (auto simp: is_transaction_pending_def bind_result_eq_Inr)
  then have "cs_payment_mapping cs1 = cs_payment_mapping cs"
    by (auto simp: is_transaction_effect_satisfied_def split: change_splits dest: b)
  with Cons.IH [OF 2] show ?case by simp
qed simp

lemma update_queues_payments:
  assumes "update_queues cs nsc evs = Inr cs'"
  shows "cs_payment_mapping cs' = cs_payment_mapping cs"
proof -
  have "cs_payment_mapping (fold enqueue_event evs cs1) = cs_payment_mapping cs1" for cs1
    by (induction evs arbitrary: cs1) (simp_all add: enqueue_event_def Let_def split: option.split)
  with assms show ?thesis
    by (auto simp: update_queues_def bind_result_eq_Inr dest: filter_pending_payments split: if_splits)
qed

text \<open>
  C14. A payment keeps the role of this node. Whatever state change a node processes, but for the reroute of a
  refunded payment, a task that is there before and after is of the same kind, as an initiator or a mediator
  in the same token network, and a task that appears was started by the action for its secrethash and its
  role. In particular a node that mediates or receives a payment is never made its initiator by a second
  action with the same secrethash.
\<close>

theorem payment_keeps_its_role:
  assumes "node_state_transition E cs nsc = Inr (cs', evs)" and "\<not> reroutes nsc"
    and "map_of (cs_payment_mapping cs') sh = Some t'"
  shows "case map_of (cs_payment_mapping cs) sh of
      None \<Rightarrow> starts_payment nsc sh (task_role t')
    | Some t \<Rightarrow> same_task t t'"
proof -
  from assms(1) obtain cs1 where 1: "handle_state_change E cs nsc = Inr (cs1, evs)" "update_queues cs1 nsc evs = Inr cs'"
    by (auto simp: node_state_transition_def bind_result_eq_Inr)
  from keeps_tasksD [OF state_change_keeps_tasks [OF assms(2)] 1(1)] update_queues_payments [OF 1(2)] assms(3)
  show ?thesis by (simp add: tasks_kept_def)
qed

theorem payment_keeps_its_role_witness:
  "\<exists>cs evs t. ex_node_mediates = Inr (cs, evs) \<and> map_of (cs_payment_mapping cs) ex_secrethash = Some t
    \<and> task_role t = MEDIATOR"
proof -
  have "node_returns ex_node_mediates (\<lambda>cs evs. map_of (cs_payment_mapping cs) ex_secrethash \<noteq> None)" by code_simp
  then obtain cs evs t where 1: "ex_node_mediates = Inr (cs, evs)" "map_of (cs_payment_mapping cs) ex_secrethash = Some t"
    by (auto elim!: node_returnsE)
  from payment_keeps_its_role [OF 1(1) [unfolded ex_node_mediates_def] _ 1(2)] 1 show ?thesis
    by (auto simp: reroutes_def starts_payment_def ex_chain_def)
qed

end
