(* ===== verification/Storage.thy ===== *)
theory Storage
  imports Prelude
begin

text \<open>
  The database of a node: model of \<open>storage/sqlite.py\<close> as far as the write-ahead log uses it. A table is the
  list of its rows in the order of insertion. Rows hold the values themselves: serialisation is assumed to be
  faithful. The identifiers are ULIDs of the package \<open>ulid\<close>, whose monotonic factory is the parameter \<open>new\<close>:
  it gets the identifiers that the table has.
\<close>

type_synonym ulid = int

abbreviation LOW_STATECHANGE_ULID :: ulid where "LOW_STATECHANGE_ULID \<equiv> 0"
abbreviation HIGH_STATECHANGE_ULID :: ulid where "HIGH_STATECHANGE_ULID \<equiv> 2 ^ 128 - 1"

record 's snapshot_record =
  sn_identifier :: ulid
  sn_state_change_qty :: int
  sn_state_change_identifier :: "ulid option"
  sn_data :: 's

record ('s, 'c, 'e) storage =
  sto_state_changes :: "(ulid \<times> 'c) list"
  sto_events :: "(ulid \<times> ulid \<times> 'e) list"
  sto_snapshots :: "'s snapshot_record list"

definition empty_storage :: "('s, 'c, 'e) storage" where
  "empty_storage = \<lparr>sto_state_changes = [], sto_events = [], sto_snapshots = []\<rparr>"

definition write_state_change ::
  "(ulid list \<Rightarrow> ulid) \<Rightarrow> 'c \<Rightarrow> ('s, 'c, 'e) storage \<Rightarrow> ('s, 'c, 'e) storage \<times> ulid" where
  "write_state_change new state_change sto =
     (let new_id = new (map fst (sto_state_changes sto)) in
      (sto\<lparr>sto_state_changes := sto_state_changes sto @ [(new_id, state_change)]\<rparr>, new_id))"

fun write_events ::
  "(ulid list \<Rightarrow> ulid) \<Rightarrow> (ulid \<times> 'e) list \<Rightarrow> ('s, 'c, 'e) storage \<Rightarrow> ('s, 'c, 'e) storage" where
  "write_events new [] sto = sto"
| "write_events new ((source, e) # events) sto =
     write_events new events (sto\<lparr>sto_events := sto_events sto @ [(new (map fst (sto_events sto)), source, e)]\<rparr>)"

definition count_state_changes :: "('s, 'c, 'e) storage \<Rightarrow> int" where
  "count_state_changes sto = int (length (sto_state_changes sto))"

definition has_snapshot :: "('s, 'c, 'e) storage \<Rightarrow> bool" where
  "has_snapshot sto \<longleftrightarrow> sto_snapshots sto \<noteq> []"

definition write_first_state_snapshot ::
  "(ulid list \<Rightarrow> ulid) \<Rightarrow> 's \<Rightarrow> ('s, 'c, 'e) storage \<Rightarrow> ('s, 'c, 'e) storage result" where
  "write_first_state_snapshot new state sto =
     (if has_snapshot sto then Inl RuntimeError
      else Inr (sto\<lparr>sto_snapshots := sto_snapshots sto @
        [\<lparr>sn_identifier = new (map sn_identifier (sto_snapshots sto)), sn_state_change_qty = 0,
          sn_state_change_identifier = None, sn_data = state\<rparr>]\<rparr>))"

definition write_state_snapshot ::
  "(ulid list \<Rightarrow> ulid) \<Rightarrow> 's \<Rightarrow> ulid \<Rightarrow> int \<Rightarrow> ('s, 'c, 'e) storage \<Rightarrow> ('s, 'c, 'e) storage" where
  "write_state_snapshot new state statechange_id statechange_qty sto =
     sto\<lparr>sto_snapshots := sto_snapshots sto @
       [\<lparr>sn_identifier = new (map sn_identifier (sto_snapshots sto)), sn_state_change_qty = statechange_qty,
         sn_state_change_identifier = Some statechange_id, sn_data = state\<rparr>]\<rparr>"

text \<open>\<open>WHERE statechange_id <= ? OR statechange_id IS NULL ORDER BY identifier DESC LIMIT 1\<close>.\<close>

definition get_snapshot_before_state_change ::
  "ulid \<Rightarrow> ('s, 'c, 'e) storage \<Rightarrow> 's snapshot_record option" where
  "get_snapshot_before_state_change state_change_identifier sto =
     (let rows = filter (\<lambda>sn. case sn_state_change_identifier sn of None \<Rightarrow> True
            | Some i \<Rightarrow> i \<le> state_change_identifier) (sto_snapshots sto)
      in if rows = [] then None else Some (last (sort_key sn_identifier rows)))"

text \<open>The constructor of \<open>Range\<close>, and \<open>WHERE identifier BETWEEN ? AND ? ORDER BY identifier ASC\<close>.\<close>

definition get_statechanges_by_range ::
  "ulid \<Rightarrow> ulid \<Rightarrow> ('s, 'c, 'e) storage \<Rightarrow> 'c list result" where
  "get_statechanges_by_range first last_id sto =
     raise_if (first > last_id) ValueError (
     Inr (map snd (sort_key fst (filter (\<lambda>(i, c). first \<le> i \<and> i \<le> last_id) (sto_state_changes sto)))))"

end
