(* ===== verification/Wal.thy ===== *)
theory Wal
  imports Storage
begin

text \<open>
  The write-ahead log: model of \<open>storage/wal.py\<close> and of the parts of \<open>raiden_service.py\<close> that open and feed it.
  The transition function \<open>transition\<close> is the one of the node; it mutates the state that it gets and returns
  it, so that the copy made by \<open>process_state_change_atomically\<close> is the state after the batch. A batch that
  raises is rolled back: the log is returned unchanged, with the exception.
\<close>

type_synonym ('s, 'c, 'e) transition = "'s \<Rightarrow> 'c \<Rightarrow> ('s \<times> 'e list) result"

record ('s, 'c, 'e) write_ahead_log =
  wal_storage :: "('s, 'c, 'e) storage"
  wal_state :: 's
  wal_saved_state :: "(ulid \<times> 's) option"

subsection \<open>Restoring\<close>

definition restore_or_init_snapshot ::
  "(ulid list \<Rightarrow> ulid) \<Rightarrow> 's \<Rightarrow> ('s, 'c, 'e) storage \<Rightarrow> ('s \<times> ulid \<times> int \<times> ('s, 'c, 'e) storage) result" where
  "restore_or_init_snapshot new initial_state sto =
     (case get_snapshot_before_state_change HIGH_STATECHANGE_ULID sto of
        Some sn \<Rightarrow>
          Inr (sn_data sn,
            (case sn_state_change_identifier sn of None \<Rightarrow> LOW_STATECHANGE_ULID | Some i \<Rightarrow> i),
            sn_state_change_qty sn, sto)
      | None \<Rightarrow>
          bind_result (write_first_state_snapshot new initial_state sto) (\<lambda>sto'.
          Inr (initial_state, LOW_STATECHANGE_ULID, 0, sto')))"

definition wal_dispatch :: "'s \<Rightarrow> ('s, 'c, 'e) transition \<Rightarrow> 'c \<Rightarrow> ('s \<times> 'e list) result" where
  "wal_dispatch state transition state_change = transition state state_change"

fun replay :: "('s, 'c, 'e) transition \<Rightarrow> 's \<Rightarrow> 'c list \<Rightarrow> 's result" where
  "replay transition state [] = Inr state"
| "replay transition state (state_change # state_changes) =
     bind_result (wal_dispatch state transition state_change) (\<lambda>(state', _).
     replay transition state' state_changes)"

definition replay_state_changes ::
  "('s, 'c, 'e) transition \<Rightarrow> 's \<Rightarrow> ulid \<Rightarrow> ulid \<Rightarrow> ('s, 'c, 'e) storage \<Rightarrow> ('s \<times> int) result" where
  "replay_state_changes transition state first last_id sto =
     bind_result (get_statechanges_by_range first last_id sto) (\<lambda>unapplied_state_changes.
     bind_result (replay transition state unapplied_state_changes) (\<lambda>state'.
     Inr (state', int (length unapplied_state_changes))))"

definition restore_state ::
  "('s, 'c, 'e) transition \<Rightarrow> ulid \<Rightarrow> ('s, 'c, 'e) storage \<Rightarrow> 's option result" where
  "restore_state transition state_change_identifier sto =
     (case get_snapshot_before_state_change state_change_identifier sto of
        None \<Rightarrow> Inr None
      | Some sn \<Rightarrow>
          bind_result (replay_state_changes transition (sn_data sn)
              (case sn_state_change_identifier sn of None \<Rightarrow> LOW_STATECHANGE_ULID | Some i \<Rightarrow> i)
              state_change_identifier sto) (\<lambda>(state, _).
          Inr (Some state)))"

subsection \<open>Logging\<close>

definition write_state_change_and_events ::
  "(ulid list \<Rightarrow> ulid) \<Rightarrow> 'c \<Rightarrow> 'e list \<Rightarrow> ('s, 'c, 'e) storage \<Rightarrow> ('s, 'c, 'e) storage \<times> ulid" where
  "write_state_change_and_events new state_change events sto =
     (let (sto1, state_change_id) = write_state_change new state_change sto
      in (write_events new (map (Pair state_change_id) events) sto1, state_change_id))"

text \<open>The body of the \<open>with\<close> statement: every state change is dispatched and written.\<close>

fun dispatch_all ::
  "(ulid list \<Rightarrow> ulid) \<Rightarrow> ('s, 'c, 'e) transition \<Rightarrow> 'c list \<Rightarrow> 's \<Rightarrow> ('s, 'c, 'e) storage \<Rightarrow> ulid option \<Rightarrow>
   ('s \<times> ('s, 'c, 'e) storage \<times> ulid option \<times> 'e list) result" where
  "dispatch_all new transition [] state sto last_id = Inr (state, sto, last_id, [])"
| "dispatch_all new transition (state_change # state_changes) state sto last_id =
     bind_result (wal_dispatch state transition state_change) (\<lambda>(state1, events).
     let (sto1, state_change_id) = write_state_change_and_events new state_change events sto in
     bind_result (dispatch_all new transition state_changes state1 sto1 (Some state_change_id))
       (\<lambda>(state2, sto2, last_id', events').
     Inr (state2, sto2, last_id', events @ events')))"

definition process_state_change_atomically ::
  "(ulid list \<Rightarrow> ulid) \<Rightarrow> ('s, 'c, 'e) transition \<Rightarrow> 'c list \<Rightarrow> ('s, 'c, 'e) write_ahead_log \<Rightarrow>
   ('s, 'c, 'e) write_ahead_log \<times> 'e list result" where
  "process_state_change_atomically new transition state_changes w =
     (case dispatch_all new transition state_changes (wal_state w) (wal_storage w) None of
        Inl e \<Rightarrow> (w, Inl e)
      | Inr (state, sto, last_id, events) \<Rightarrow>
          (w\<lparr>wal_storage := sto, wal_state := state,
             wal_saved_state := (case last_id of None \<Rightarrow> wal_saved_state w | Some i \<Rightarrow> Some (i, state))\<rparr>,
           Inr events))"

text \<open>The attribute \<open>saved_state\<close> does not exist before the first state change.\<close>

definition wal_snapshot ::
  "(ulid list \<Rightarrow> ulid) \<Rightarrow> int \<Rightarrow> ('s, 'c, 'e) write_ahead_log \<Rightarrow> ('s, 'c, 'e) write_ahead_log result" where
  "wal_snapshot new statechange_qty w =
     (case wal_saved_state w of
        None \<Rightarrow> Inl AttributeError
      | Some (state_change_id, _) \<Rightarrow>
          Inr (w\<lparr>wal_storage := write_state_snapshot new (wal_state w) state_change_id statechange_qty
            (wal_storage w)\<rparr>))"

subsection \<open>The service\<close>

record ('s, 'c, 'e) service =
  sv_wal :: "('s, 'c, 'e) write_ahead_log"
  sv_state_change_qty :: int
  sv_state_change_qty_snapshot :: int

abbreviation SNAPSHOT_STATE_CHANGES_COUNT :: int where "SNAPSHOT_STATE_CHANGES_COUNT \<equiv> 500"

definition initialize_wal ::
  "(ulid list \<Rightarrow> ulid) \<Rightarrow> ('s, 'c, 'e) transition \<Rightarrow> 's \<Rightarrow> ('s, 'c, 'e) storage \<Rightarrow> ('s, 'c, 'e) service result" where
  "initialize_wal new transition initial_state sto =
     bind_result (restore_or_init_snapshot new initial_state sto)
       (\<lambda>(state_snapshot, state_change_start, state_change_qty_snapshot, sto1).
     bind_result (replay_state_changes transition state_snapshot state_change_start HIGH_STATECHANGE_ULID sto1)
       (\<lambda>(state, state_change_qty_unapplied).
     Inr \<lparr>sv_wal = \<lparr>wal_storage = sto1, wal_state = state, wal_saved_state = None\<rparr>,
          sv_state_change_qty = state_change_qty_snapshot + state_change_qty_unapplied,
          sv_state_change_qty_snapshot = state_change_qty_snapshot\<rparr>))"

definition maybe_snapshot ::
  "(ulid list \<Rightarrow> ulid) \<Rightarrow> ('s, 'c, 'e) service \<Rightarrow> ('s, 'c, 'e) service result" where
  "maybe_snapshot new sv =
     (if sv_state_change_qty sv > sv_state_change_qty_snapshot sv + SNAPSHOT_STATE_CHANGES_COUNT then
        bind_result (wal_snapshot new (sv_state_change_qty sv) (sv_wal sv)) (\<lambda>w.
        Inr (sv\<lparr>sv_wal := w, sv_state_change_qty_snapshot := sv_state_change_qty sv\<rparr>))
      else Inr sv)"

text \<open>The log, the counter and the snapshot of \<open>handle_state_changes\<close>, without the effects on other services.\<close>

definition handle_state_changes ::
  "(ulid list \<Rightarrow> ulid) \<Rightarrow> ('s, 'c, 'e) transition \<Rightarrow> 'c list \<Rightarrow> ('s, 'c, 'e) service \<Rightarrow>
   ('s, 'c, 'e) service \<times> 'e list result" where
  "handle_state_changes new transition state_changes sv =
     (let (w, r) = process_state_change_atomically new transition state_changes (sv_wal sv);
          sv1 = sv\<lparr>sv_wal := w\<rparr>
      in
      case r of
        Inl e \<Rightarrow> (sv1, Inl e)
      | Inr events \<Rightarrow>
          let sv2 = sv1\<lparr>sv_state_change_qty := sv_state_change_qty sv1 + int (length state_changes)\<rparr> in
          (case maybe_snapshot new sv2 of Inl e \<Rightarrow> (sv2, Inl e) | Inr sv3 \<Rightarrow> (sv3, Inr events)))"

end
