(* ===== verification/Wal_Laws.thy ===== *)
theory Wal_Laws
  imports Wal
begin

text \<open>
  What the write-ahead log guarantees. The state of the node is always the result of replaying the logged state
  changes, also after batches that raised, and a snapshot is the result of replaying a prefix. A restart
  replays from the newest snapshot; the range of the replay includes the state change that is already in the
  snapshot.
\<close>

text \<open>The documented property of the monotonic ULID factory.\<close>

definition monotonic_ids :: "(ulid list \<Rightarrow> ulid) \<Rightarrow> bool" where
  "monotonic_ids new \<longleftrightarrow> (\<forall>ids. LOW_STATECHANGE_ULID < new ids \<and> (\<forall>i\<in>set ids. i < new ids))"

text \<open>The logs of a node that was started with an empty database.\<close>

inductive wal_reach ::
  "(ulid list \<Rightarrow> ulid) \<Rightarrow> ('s, 'c, 'e) transition \<Rightarrow> 's \<Rightarrow> ('s, 'c, 'e) write_ahead_log \<Rightarrow> bool"
  for new transition initial_state where
  opened: "initialize_wal new transition initial_state empty_storage = Inr sv \<Longrightarrow>
    wal_reach new transition initial_state (sv_wal sv)"
| batch: "wal_reach new transition initial_state w \<Longrightarrow>
    process_state_change_atomically new transition state_changes w = (w', r) \<Longrightarrow>
    wal_reach new transition initial_state w'"
| snap: "wal_reach new transition initial_state w \<Longrightarrow> wal_snapshot new qty w = Inr w' \<Longrightarrow>
    wal_reach new transition initial_state w'"

subsection \<open>The invariant\<close>

definition snapshot_ok :: "('s, 'c, 'e) transition \<Rightarrow> 's \<Rightarrow> (ulid \<times> 'c) list \<Rightarrow> 's snapshot_record \<Rightarrow> bool" where
  "snapshot_ok transition initial_state log sn \<longleftrightarrow>
     (case sn_state_change_identifier sn of
        None \<Rightarrow> sn_data sn = initial_state
      | Some i \<Rightarrow> i \<in> fst ` set log
          \<and> replay transition initial_state (map snd (filter (\<lambda>(j, c). j \<le> i) log)) = Inr (sn_data sn))"

definition log_ok :: "('s, 'c, 'e) transition \<Rightarrow> 's \<Rightarrow> ('s, 'c, 'e) storage \<Rightarrow> 's \<Rightarrow> bool" where
  "log_ok transition initial_state sto state \<longleftrightarrow>
     sorted_wrt (<) (LOW_STATECHANGE_ULID # map fst (sto_state_changes sto))
     \<and> replay transition initial_state (map snd (sto_state_changes sto)) = Inr state
     \<and> sto_snapshots sto \<noteq> [] \<and> sorted_wrt (<) (map sn_identifier (sto_snapshots sto))
     \<and> list_all (snapshot_ok transition initial_state (sto_state_changes sto)) (sto_snapshots sto)"

definition wal_inv :: "('s, 'c, 'e) transition \<Rightarrow> 's \<Rightarrow> ('s, 'c, 'e) write_ahead_log \<Rightarrow> bool" where
  "wal_inv transition initial_state w \<longleftrightarrow> log_ok transition initial_state (wal_storage w) (wal_state w)
     \<and> (case wal_saved_state w of None \<Rightarrow> True | Some (i, s) \<Rightarrow>
          sto_state_changes (wal_storage w) \<noteq> [] \<and> i = fst (last (sto_state_changes (wal_storage w)))
          \<and> s = wal_state w)"

lemma replay_append:
  "replay transition s (xs @ ys) = bind_result (replay transition s xs) (\<lambda>s'. replay transition s' ys)"
proof (induction xs arbitrary: s)
  case (Cons x xs)
  then show ?case by (cases "transition s x") (auto simp: wal_dispatch_def)
qed simp

lemma write_events_fields [simp]:
  "sto_state_changes (write_events new evs sto) = sto_state_changes sto"
  "sto_snapshots (write_events new evs sto) = sto_snapshots sto"
  by (induction new evs sto rule: write_events.induct) simp_all

lemma snapshot_ok_append:
  assumes "snapshot_ok transition s0 log sn" and "\<forall>j\<in>fst ` set log. j < i"
  shows "snapshot_ok transition s0 (log @ [(i, c)]) sn"
  using assms by (auto simp: snapshot_ok_def split: option.splits)

lemma log_ok_write:
  assumes inv: "log_ok transition s0 sto s" and step: "transition s c = Inr (s', evs)" and new: "monotonic_ids new"
    and w: "write_state_change_and_events new c evs sto = (sto', i)"
  shows "log_ok transition s0 sto' s'" "sto_state_changes sto' = sto_state_changes sto @ [(i, c)]"
proof -
  have i: "i = new (map fst (sto_state_changes sto))"
    and sto': "sto_state_changes sto' = sto_state_changes sto @ [(i, c)]" "sto_snapshots sto' = sto_snapshots sto"
    using w by (auto simp: write_state_change_and_events_def write_state_change_def Let_def)
  have lt: "\<forall>j\<in>fst ` set (sto_state_changes sto). j < i" "LOW_STATECHANGE_ULID < i"
    using new by (auto simp: monotonic_ids_def i)
  show "sto_state_changes sto' = sto_state_changes sto @ [(i, c)]" by (rule sto'(1))
  have "list_all (snapshot_ok transition s0 (sto_state_changes sto')) (sto_snapshots sto')"
    using inv lt(1) by (auto simp: log_ok_def sto' list_all_iff intro: snapshot_ok_append)
  then show "log_ok transition s0 sto' s'"
    using inv lt step by (auto simp: log_ok_def sto' sorted_wrt_append replay_append wal_dispatch_def)
qed

lemma dispatch_all_last:
  "dispatch_all new transition cs s sto l = Inr (s', sto', l', evs) \<Longrightarrow> l \<noteq> None \<Longrightarrow> l' \<noteq> None"
proof (induction cs arbitrary: s sto l evs)
  case (Cons c cs)
  then obtain s1 evs1 where 1: "transition s c = Inr (s1, evs1)"
    by (auto simp: bind_result_eq_Inr wal_dispatch_def)
  obtain sto1 i where 2: "write_state_change_and_events new c evs1 sto = (sto1, i)" by fastforce
  from Cons.prems(1) 1 2 obtain evs2 where
    "dispatch_all new transition cs s1 sto1 (Some i) = Inr (s', sto', l', evs2)"
    by (auto simp: bind_result_eq_Inr wal_dispatch_def)
  from Cons.IH [OF this] show ?case by simp
qed simp

lemma dispatch_all_ok:
  assumes "log_ok transition s0 sto s" and "monotonic_ids new"
    and "dispatch_all new transition cs s sto l = Inr (s', sto', l', evs)"
    and "case l of None \<Rightarrow> True | Some i \<Rightarrow> sto_state_changes sto \<noteq> [] \<and> i = fst (last (sto_state_changes sto))"
  shows "log_ok transition s0 sto' s' \<and>
    (case l' of None \<Rightarrow> cs = [] \<and> sto' = sto \<and> s' = s
     | Some i \<Rightarrow> sto_state_changes sto' \<noteq> [] \<and> i = fst (last (sto_state_changes sto')))"
  using assms(1,3,4)
proof (induction cs arbitrary: s sto l evs)
  case (Cons c cs)
  from Cons.prems(2) obtain s1 evs1 where 1: "transition s c = Inr (s1, evs1)"
    by (auto simp: bind_result_eq_Inr wal_dispatch_def)
  obtain sto1 i where 2: "write_state_change_and_events new c evs1 sto = (sto1, i)" by fastforce
  from Cons.prems(2) 1 2 obtain evs2 where
    3: "dispatch_all new transition cs s1 sto1 (Some i) = Inr (s', sto', l', evs2)"
    by (auto simp: bind_result_eq_Inr wal_dispatch_def)
  note w = log_ok_write [OF Cons.prems(1) 1 assms(2) 2]
  from Cons.IH [OF w(1) 3] w(2) have "log_ok transition s0 sto' s'"
    "case l' of None \<Rightarrow> cs = [] \<and> sto' = sto1 \<and> s' = s1
      | Some i \<Rightarrow> sto_state_changes sto' \<noteq> [] \<and> i = fst (last (sto_state_changes sto'))" by auto
  moreover have "l' \<noteq> None" using dispatch_all_last [OF 3] by simp
  ultimately show ?case by (auto split: option.splits)
qed (auto split: option.splits)

lemma process_keeps:
  assumes "wal_inv transition s0 w" and "monotonic_ids new"
    and "process_state_change_atomically new transition cs w = (w', r)"
  shows "wal_inv transition s0 w'"
proof (cases "dispatch_all new transition cs (wal_state w) (wal_storage w) None")
  case (Inl e)
  with assms show ?thesis by (simp add: process_state_change_atomically_def)
next
  case (Inr x)
  obtain s sto l evs where x: "x = (s, sto, l, evs)" by (cases x)
  from dispatch_all_ok [OF _ assms(2) Inr [unfolded x]] assms(1)
  have "log_ok transition s0 sto s \<and> (case l of None \<Rightarrow> cs = [] \<and> sto = wal_storage w \<and> s = wal_state w
     | Some i \<Rightarrow> sto_state_changes sto \<noteq> [] \<and> i = fst (last (sto_state_changes sto)))"
    by (auto simp: wal_inv_def)
  with assms Inr x show ?thesis
    by (auto simp: process_state_change_atomically_def wal_inv_def split: option.splits)
qed

lemma filter_upto_last:
  assumes "sorted_wrt (<) (map fst log)" and "log \<noteq> []"
  shows "filter (\<lambda>(j, c). j \<le> fst (last log)) log = (log :: (ulid \<times> 'c) list)"
proof -
  have "\<forall>x\<in>set log. fst x \<le> fst (last log)"
    using assms by (induction log rule: rev_induct) (auto simp: sorted_wrt_append)
  then show ?thesis by (auto simp: filter_id_conv)
qed

lemma snapshot_keeps:
  assumes inv: "wal_inv transition s0 w" and "monotonic_ids new" and "wal_snapshot new qty w = Inr w'"
  shows "wal_inv transition s0 w'"
proof -
  let ?sto = "wal_storage w" and ?log = "sto_state_changes (wal_storage w)"
  from assms(3) obtain s where saved: "wal_saved_state w = Some (fst (last ?log), s)" and ne: "?log \<noteq> []"
    and w': "w' = w\<lparr>wal_storage := write_state_snapshot new (wal_state w) (fst (last ?log)) qty ?sto\<rparr>"
    using inv by (auto simp: wal_snapshot_def wal_inv_def split: option.splits)
  have ok: "log_ok transition s0 ?sto (wal_state w)" using inv by (simp add: wal_inv_def)
  have "filter (\<lambda>(j, c). j \<le> fst (last ?log)) ?log = ?log"
    using ok ne by (intro filter_upto_last) (auto simp: log_ok_def)
  then have "snapshot_ok transition s0 ?log \<lparr>sn_identifier = new (map sn_identifier (sto_snapshots ?sto)),
      sn_state_change_qty = qty, sn_state_change_identifier = Some (fst (last ?log)), sn_data = wal_state w\<rparr>"
    using ok ne by (auto simp: snapshot_ok_def log_ok_def)
  moreover have "\<forall>j\<in>set (map sn_identifier (sto_snapshots ?sto)). j < new (map sn_identifier (sto_snapshots ?sto))"
    using assms(2) by (auto simp: monotonic_ids_def)
  ultimately have "log_ok transition s0 (wal_storage w') (wal_state w')"
    using ok by (auto simp: log_ok_def w' write_state_snapshot_def sorted_wrt_append)
  with inv saved show ?thesis by (auto simp: wal_inv_def w' write_state_snapshot_def)
qed

lemma open_empty:
  assumes "initialize_wal new transition s0 empty_storage = Inr sv"
  shows "wal_inv transition s0 (sv_wal sv)"
  using assms
  by (auto simp: initialize_wal_def restore_or_init_snapshot_def get_snapshot_before_state_change_def
      write_first_state_snapshot_def has_snapshot_def empty_storage_def replay_state_changes_def
      get_statechanges_by_range_def raise_if_def wal_inv_def log_ok_def snapshot_ok_def split: if_splits)

lemma wal_reach_inv:
  assumes "wal_reach new transition s0 w" and "monotonic_ids new"
  shows "wal_inv transition s0 w"
  using assms by (induction rule: wal_reach.induct) (blast intro: open_empty process_keeps snapshot_keeps)+

subsection \<open>Restarting\<close>

lemma restart_eq:
  assumes "wal_inv transition s0 w"
    and fits: "list_all (\<lambda>(i, c). i \<le> HIGH_STATECHANGE_ULID) (sto_state_changes (wal_storage w))"
    and sn: "sn = last (sto_snapshots (wal_storage w))"
  shows "bind_result (initialize_wal new transition s1 (wal_storage w)) (\<lambda>sv. Inr (wal_state (sv_wal sv)))
    = replay transition (sn_data sn) (map snd (filter (\<lambda>(i, c).
        (case sn_state_change_identifier sn of None \<Rightarrow> LOW_STATECHANGE_ULID | Some i \<Rightarrow> i) \<le> i)
        (sto_state_changes (wal_storage w))))"
proof -
  let ?sto = "wal_storage w" and ?log = "sto_state_changes (wal_storage w)"
  let ?start = "case sn_state_change_identifier sn of None \<Rightarrow> LOW_STATECHANGE_ULID | Some i \<Rightarrow> i"
  have ok: "log_ok transition s0 ?sto (wal_state w)" using assms(1) by (simp add: wal_inv_def)
  have le: "\<forall>(i, c)\<in>set ?log. i \<le> HIGH_STATECHANGE_ULID" using fits by (auto simp: list_all_iff)
  have "sn \<in> set (sto_snapshots ?sto)" using ok by (simp add: log_ok_def sn)
  then have "snapshot_ok transition s0 ?log sn" using ok by (auto simp: log_ok_def list_all_iff)
  with le have start: "?start \<le> HIGH_STATECHANGE_ULID" by (auto simp: snapshot_ok_def split: option.splits)
  have rows: "filter (\<lambda>sn. case sn_state_change_identifier sn of None \<Rightarrow> True | Some i \<Rightarrow> i \<le> HIGH_STATECHANGE_ULID)
      (sto_snapshots ?sto) = sto_snapshots ?sto"
    using ok le by (auto simp: filter_id_conv log_ok_def list_all_iff snapshot_ok_def split: option.splits) fastforce
  have "sorted (map sn_identifier (sto_snapshots ?sto))"
    using ok strict_sorted_imp_sorted by (auto simp: log_ok_def)
  then have get: "get_snapshot_before_state_change HIGH_STATECHANGE_ULID ?sto = Some sn"
    unfolding get_snapshot_before_state_change_def Let_def rows
    using ok by (simp add: sn sort_key_id_if_sorted log_ok_def)
  have "filter (\<lambda>(i, c). ?start \<le> i \<and> i \<le> HIGH_STATECHANGE_ULID) ?log = filter (\<lambda>(i, c). ?start \<le> i) ?log"
    using le by (intro filter_cong) auto
  moreover have "sorted (map fst (filter (\<lambda>(i, c). ?start \<le> i) ?log))"
    using ok strict_sorted_imp_sorted by (auto simp: log_ok_def intro: sorted_filter)
  ultimately have "get_statechanges_by_range ?start HIGH_STATECHANGE_ULID ?sto
      = Inr (map snd (filter (\<lambda>(i, c). ?start \<le> i) ?log))"
    using start by (simp add: get_statechanges_by_range_def raise_if_def sort_key_id_if_sorted)
  then show ?thesis
    unfolding initialize_wal_def restore_or_init_snapshot_def get
    by (cases "replay transition (sn_data sn) (map snd (filter (\<lambda>(i, c). ?start \<le> i) ?log))")
      (simp_all add: replay_state_changes_def)
qed

lemma split_at_id:
  assumes "sorted_wrt (<) (map fst log)" and "i \<in> fst ` set log"
  obtains c earlier later where "log = earlier @ (i, c) # later"
    and "filter (\<lambda>(j, c). j \<le> i) log = earlier @ [(i, c)]" and "filter (\<lambda>(j, c). i \<le> j) log = (i :: ulid, c) # later"
proof -
  from assms(2) obtain c where "(i, c) \<in> set log" by auto
  then obtain earlier later where log: "log = earlier @ (i, c) # later" by (auto simp: in_set_conv_decomp)
  with assms(1) have e: "\<forall>x\<in>set earlier. fst x < i" and l: "\<forall>x\<in>set later. i < fst x"
    by (auto simp: sorted_wrt_append)
  have "filter (\<lambda>(j, c). j \<le> i) earlier = earlier" "filter (\<lambda>(j, c). j \<le> i) later = []"
    "filter (\<lambda>(j, c). i \<le> j) earlier = []" "filter (\<lambda>(j, c). i \<le> j) later = later"
    using e l by (auto simp: filter_id_conv filter_empty_conv)
  with log show thesis by (intro that) auto
qed

lemma restart_from_first:
  assumes "wal_inv transition s0 w"
    and "list_all (\<lambda>(i, c). i \<le> HIGH_STATECHANGE_ULID) (sto_state_changes (wal_storage w))"
    and "sn_state_change_identifier (last (sto_snapshots (wal_storage w))) = None"
  shows "bind_result (initialize_wal new transition s1 (wal_storage w)) (\<lambda>sv. Inr (wal_state (sv_wal sv)))
    = Inr (wal_state w)"
proof -
  let ?log = "sto_state_changes (wal_storage w)" and ?sn = "last (sto_snapshots (wal_storage w))"
  have ok: "log_ok transition s0 (wal_storage w) (wal_state w)" using assms(1) by (simp add: wal_inv_def)
  then have "snapshot_ok transition s0 ?log ?sn" by (simp add: log_ok_def list_all_iff)
  with assms(3) have "sn_data ?sn = s0" by (simp add: snapshot_ok_def)
  moreover have "filter (\<lambda>(i, c). LOW_STATECHANGE_ULID \<le> i) ?log = ?log"
    using ok by (auto simp: filter_id_conv log_ok_def)
  ultimately show ?thesis
    using restart_eq [OF assms(1,2) refl] ok by (simp add: assms(3) log_ok_def)
qed

lemma restart_from_later:
  assumes "wal_inv transition s0 w"
    and "list_all (\<lambda>(i, c). i \<le> HIGH_STATECHANGE_ULID) (sto_state_changes (wal_storage w))"
    and sn: "sn = last (sto_snapshots (wal_storage w))" and i: "sn_state_change_identifier sn = Some i"
  obtains c earlier later where "sto_state_changes (wal_storage w) = earlier @ (i, c) # later"
    and "replay transition s0 (map snd earlier @ [c]) = Inr (sn_data sn)"
    and "replay transition (sn_data sn) (map snd later) = Inr (wal_state w)"
    and "bind_result (initialize_wal new transition s1 (wal_storage w)) (\<lambda>sv. Inr (wal_state (sv_wal sv)))
      = replay transition (sn_data sn) (c # map snd later)"
proof -
  let ?log = "sto_state_changes (wal_storage w)"
  have ok: "log_ok transition s0 (wal_storage w) (wal_state w)" using assms(1) by (simp add: wal_inv_def)
  then have "sn \<in> set (sto_snapshots (wal_storage w))" by (simp add: log_ok_def sn)
  with ok i have s: "i \<in> fst ` set ?log"
    "replay transition s0 (map snd (filter (\<lambda>(j, c). j \<le> i) ?log)) = Inr (sn_data sn)"
    by (auto simp: log_ok_def list_all_iff snapshot_ok_def split: option.splits)
  have "sorted_wrt (<) (map fst ?log)" using ok by (simp add: log_ok_def)
  then obtain c earlier later where log: "?log = earlier @ (i, c) # later"
    and f: "filter (\<lambda>(j, c). j \<le> i) ?log = earlier @ [(i, c)]" "filter (\<lambda>(j, c). i \<le> j) ?log = (i, c) # later"
    using s(1) by (rule split_at_id)
  have r: "replay transition s0 (map snd earlier @ [c]) = Inr (sn_data sn)" using s(2) by (simp add: f)
  have "replay transition s0 ((map snd earlier @ [c]) @ map snd later) = Inr (wal_state w)"
    using ok by (simp add: log_ok_def log)
  then have l: "replay transition (sn_data sn) (map snd later) = Inr (wal_state w)"
    by (simp only: replay_append [of _ _ "map snd earlier @ [c]"] r bind_result_Inr)
  show thesis
    using restart_eq [OF assms(1-3), of new s1] by (intro that [OF log r l]) (simp add: i f)
qed

end
