(* ===== verification/Node_Wal.thy ===== *)
theory Node_Wal
  imports Wal_Laws Node_Laws
begin

text \<open>
  The write-ahead log of a node: the log of \<open>Wal\<close> with the transition function of \<open>Node\<close>. The state that
  is logged explains the state in memory, and a restart is characterised, including the state change that it
  applies twice.
\<close>

abbreviation node_wal_reach ::
  "platform \<Rightarrow> (ulid list \<Rightarrow> ulid) \<Rightarrow> chain_state \<Rightarrow> (chain_state, node_state_change, event) write_ahead_log \<Rightarrow> bool" where
  "node_wal_reach E new \<equiv> wal_reach new (node_state_transition E)"

text \<open>The state that the node has after it was stopped and started again.\<close>

definition restarted ::
  "platform \<Rightarrow> (ulid list \<Rightarrow> ulid) \<Rightarrow> chain_state \<Rightarrow> (chain_state, node_state_change, event) storage \<Rightarrow>
   chain_state result" where
  "restarted E new initial_state sto =
     bind_result (initialize_wal new (node_state_transition E) initial_state sto) (\<lambda>sv. Inr (wal_state (sv_wal sv)))"

subsection \<open>An example\<close>

text \<open>
  Bob is the target of a payment by Alice. He receives the transfer and the secret, which he reveals to
  Alice, and takes a snapshot.
\<close>

definition ex_next_id :: "ulid list \<Rightarrow> ulid" where
  "ex_next_id ids = fold max ids 0 + 1"

lemma fold_max_ge: "x \<le> fold max xs x" "i \<in> set xs \<Longrightarrow> i \<le> fold max xs (x :: int)"
proof -
  have *: "x \<le> fold max xs x" for x :: int and xs
    by (induction xs arbitrary: x) (auto intro: order_trans [OF max.cobounded2])
  show "x \<le> fold max xs x" by (rule *)
  show "i \<le> fold max xs x" if "i \<in> set xs"
    using that
  proof (induction xs arbitrary: x)
    case (Cons y ys)
    show ?case
    proof (cases "i = y")
      case True
      have "y \<le> fold max ys (max y x)" using * [of "max y x" ys] by simp
      with True show ?thesis by simp
    qed (use Cons in simp)
  qed simp
qed

lemma ex_next_id_monotonic: "monotonic_ids ex_next_id"
  using fold_max_ge(1) [of 0] fold_max_ge(2) [of _ _ 0]
  by (simp add: monotonic_ids_def ex_next_id_def)

definition ex_payment_to_bob :: "node_state_change list" where
  "ex_payment_to_bob = [
     Common (ActionInitTarget \<lparr>ait_sender = ex_alice, ait_balance_proof = lts_balance_proof ex_transfer,
       ait_from_hop = \<lparr>hop_node_address = ex_alice, hop_channel_identifier = 1\<rparr>, ait_transfer = ex_transfer,
       ait_received_valid_secret = False\<rparr>),
     Common (ReceiveSecretReveal (mk_receive_secret_reveal ex_platform ex_alice ex_secret))]"

definition ex_opened :: "(chain_state, node_state_change, event) write_ahead_log" where
  "ex_opened = \<lparr>wal_storage = empty_storage\<lparr>sto_snapshots := [\<lparr>sn_identifier = 1, sn_state_change_qty = 0,
     sn_state_change_identifier = None, sn_data = ex_chain\<rparr>]\<rparr>, wal_state = ex_chain, wal_saved_state = None\<rparr>"

definition ex_logged :: "(chain_state, node_state_change, event) write_ahead_log" where
  "ex_logged = fst (process_state_change_atomically ex_next_id (node_state_transition ex_platform) ex_payment_to_bob
     ex_opened)"

definition ex_snapshotted :: "(chain_state, node_state_change, event) write_ahead_log result" where
  "ex_snapshotted = wal_snapshot ex_next_id 2 ex_logged"

definition reveals_to :: "address \<Rightarrow> chain_state \<Rightarrow> nat" where
  "reveals_to a cs = length (filter (\<lambda>e. case e of SendSecretReveal h s sh \<Rightarrow> mh_recipient h = a | _ \<Rightarrow> False)
     (concat (map snd (cs_queues cs))))"

lemma ex_opened_reach: "node_wal_reach ex_platform ex_next_id ex_chain ex_opened"
proof -
  have "initialize_wal ex_next_id (node_state_transition ex_platform) ex_chain empty_storage
      = Inr \<lparr>sv_wal = ex_opened, sv_state_change_qty = 0, sv_state_change_qty_snapshot = 0\<rparr>"
    by (simp add: initialize_wal_def restore_or_init_snapshot_def get_snapshot_before_state_change_def
        write_first_state_snapshot_def has_snapshot_def empty_storage_def replay_state_changes_def
        get_statechanges_by_range_def raise_if_def ex_opened_def ex_next_id_def)
  from wal_reach.opened [OF this] show ?thesis by simp
qed

lemma ex_logged_reach: "node_wal_reach ex_platform ex_next_id ex_chain ex_logged"
  by (rule wal_reach.batch [OF ex_opened_reach]) (simp add: ex_logged_def prod_eq_iff)

lemma ex_snapshotted_ok:
  "\<exists>w cs. ex_snapshotted = Inr w \<and> wal_snapshot ex_next_id 2 ex_logged = Inr w
    \<and> restarted ex_platform ex_next_id ex_chain (wal_storage w) = Inr cs
    \<and> sn_state_change_identifier (last (sto_snapshots (wal_storage w))) = Some 2
    \<and> list_all (\<lambda>(i, c). i \<le> HIGH_STATECHANGE_ULID) (sto_state_changes (wal_storage w))
    \<and> reveals_to ex_alice (wal_state w) = 1 \<and> reveals_to ex_alice cs = 2"
proof -
  have "case ex_snapshotted of Inl e \<Rightarrow> False | Inr w \<Rightarrow>
      (case restarted ex_platform ex_next_id ex_chain (wal_storage w) of Inl e \<Rightarrow> False | Inr cs \<Rightarrow>
        sn_state_change_identifier (last (sto_snapshots (wal_storage w))) = Some 2
        \<and> list_all (\<lambda>(i, c). i \<le> HIGH_STATECHANGE_ULID) (sto_state_changes (wal_storage w))
        \<and> reveals_to ex_alice (wal_state w) = 1 \<and> reveals_to ex_alice cs = 2)" by code_simp
  then show ?thesis by (auto simp: ex_snapshotted_def split: sum.splits)
qed

lemma ex_snapshotted_reach: "ex_snapshotted = Inr w \<Longrightarrow> node_wal_reach ex_platform ex_next_id ex_chain w"
  unfolding ex_snapshotted_def by (rule wal_reach.snap [OF ex_logged_reach])

subsection \<open>Properties\<close>

text \<open>
  C8. The log explains the state. Whatever batches of state changes a node has processed or rejected and
  whatever snapshots it has taken since its database was created, replaying the logged state changes from
  the initial state gives the state in memory, the identifiers of the log increase strictly, and every
  snapshot is the result of replaying the log up to the state change that the snapshot names.
\<close>

theorem log_explains_state:
  assumes "node_wal_reach E new initial_state w" and "monotonic_ids new"
  shows "replay (node_state_transition E) initial_state (map snd (sto_state_changes (wal_storage w))) = Inr (wal_state w)
    \<and> sorted_wrt (<) (map fst (sto_state_changes (wal_storage w)))
    \<and> list_all (snapshot_ok (node_state_transition E) initial_state (sto_state_changes (wal_storage w)))
        (sto_snapshots (wal_storage w))"
  using wal_reach_inv [OF assms] by (simp add: wal_inv_def log_ok_def)

theorem log_explains_state_witness:
  "replay (node_state_transition ex_platform) ex_chain (map snd (sto_state_changes (wal_storage ex_logged)))
    = Inr (wal_state ex_logged) \<and> wal_saved_state ex_logged \<noteq> None"
proof -
  have "wal_saved_state ex_logged \<noteq> None" by code_simp
  with log_explains_state [OF ex_logged_reach ex_next_id_monotonic] show ?thesis by simp
qed




end
