(* ===== verification/Metadata.thy ===== *)
theory Metadata
  imports State_Changes
begin

text \<open>
  The metadata of a transfer: model of \<open>messages/metadata.py\<close>, of the validation of address metadata in
  \<open>utils/validation.py\<close> and \<open>validate_user_id_signature\<close> of \<open>network/transport/matrix/utils.py\<close>, and of
  the encryption of the secret for the target in \<open>transfer/utils/secret.py\<close>. A string is the list of its
  UTF-8 bytes.

  The record \<open>wire\<close> holds the third-party functions of the messages: the dumping and loading of the schemas
  that \<open>marshmallow_dataclass\<close> generates, printed and parsed as JSON, \<open>canonicaljson\<close>, the hexadecimal
  functions of \<open>eth_utils\<close>, the public key that \<open>eth_keys\<close> recovers, one encryption and decryption of
  \<open>ecies\<close>, and the number \<open>MessageTypeId.WITHDRAW\<close> of \<open>raiden_contracts\<close>. \<open>w_secret_load\<close> is \<open>None\<close> where the source raises \<open>SerializationError\<close>.
\<close>

record route_metadata =
  rm_route :: "address list"
  rm_address_metadata :: "(address, address_metadata) dict option"

record wire =
  w_metadata_dump :: "route_metadata list \<Rightarrow> bytes option \<Rightarrow> json"
  w_canonical_json :: "json \<Rightarrow> bytes"
  w_to_canonical_address :: "string \<Rightarrow> address"
  w_decode_hex :: "string \<Rightarrow> bytes result"
  w_public_key :: "bytes \<Rightarrow> signature \<Rightarrow> bytes option"
  w_secret_dump :: "secret \<Rightarrow> int \<Rightarrow> int \<Rightarrow> bytes"
  w_secret_load :: "bytes \<Rightarrow> (secret \<times> int \<times> int) option"
  w_encrypt :: "bytes \<Rightarrow> bytes \<Rightarrow> bytes"
  w_decrypt :: "bytes \<Rightarrow> bytes \<Rightarrow> bytes result"
  w_message_type_withdraw :: int

subsection \<open>User identifiers\<close>

definition string_bytes :: "string \<Rightarrow> bytes" where
  "string_bytes s = map of_char s"

definition is_lower_hex :: "char \<Rightarrow> bool" where
  "is_lower_hex c \<longleftrightarrow> c \<in> set ''0123456789abcdef''"

definition is_hex :: "char \<Rightarrow> bool" where
  "is_hex c \<longleftrightarrow> c \<in> set ''0123456789abcdefABCDEF''"

text \<open>The \<open>$\<close> of a regular expression matches at the end and before a final newline; \<open>.\<close> matches no newline.\<close>

definition at_end :: "string \<Rightarrow> bool" where
  "at_end s \<longleftrightarrow> s = [] \<or> s = [CHR 0x0A]"

text \<open>\<open>(?::.+)?$\<close>\<close>

definition matches_server :: "string \<Rightarrow> bool" where
  "matches_server s \<longleftrightarrow> at_end s \<or>
     (case s of
        [] \<Rightarrow> False
      | c # t \<Rightarrow> c = CHR '':'' \<and>
          (let name = takeWhile (\<lambda>c. c \<noteq> CHR 0x0A) t in name \<noteq> [] \<and> at_end (drop (length name) t)))"

text \<open>\<open>USERID_RE\<close>, with the first group as the result.\<close>

definition match_user_id :: "string \<Rightarrow> string option" where
  "match_user_id s =
     (let encoded_address = take 42 (drop 1 s); rest = drop 43 s; suffix = take 8 (drop 1 rest)
      in if take 3 s = ''@0x'' \<and> length encoded_address = 42 \<and> list_all is_lower_hex (drop 2 encoded_address)
            \<and> (matches_server rest
               \<or> (take 1 rest = ''.'' \<and> length suffix = 8 \<and> list_all is_lower_hex suffix
                  \<and> matches_server (drop 9 rest)))
         then Some encoded_address else None)"

text \<open>\<open>DISPLAY_NAME_HEX_RE\<close>\<close>

definition match_display_name :: "string \<Rightarrow> bool" where
  "match_display_name s \<longleftrightarrow>
     (let digits = take 130 (drop 2 s)
      in take 2 s = ''0x'' \<and> length digits = 130 \<and> list_all is_hex digits \<and> at_end (drop 132 s))"

definition validate_user_id_signature ::
  "platform \<Rightarrow> wire \<Rightarrow> string \<Rightarrow> string option \<Rightarrow> address option result" where
  "validate_user_id_signature E W user_id displayname =
     (case match_user_id user_id of
        None \<Rightarrow> Inr None
      | Some encoded_address \<Rightarrow>
          (case displayname of
             None \<Rightarrow> Inr None
           | Some name \<Rightarrow>
               let address = w_to_canonical_address W encoded_address in
               if \<not> match_display_name name then Inr None
               else
                 bind_result (w_decode_hex W name) (\<lambda>signature_bytes.
                 case recover E (string_bytes user_id) signature_bytes of
                   Inl e \<Rightarrow> if e = InvalidSignature then Inr None else Inl e
                 | Inr recovered \<Rightarrow>
                     Inr (if address \<noteq> [] \<and> recovered \<noteq> [] \<and> recovered = address then Some address else None))))"

subsection \<open>Validation of address metadata\<close>

datatype metadata_validation_error = USER_ID_MISSING | DISPLAY_NAME_MISSING | INVALID_SIGNATURE

text \<open>The flags that are set for one address; an address without metadata has none.\<close>

definition hop_errors ::
  "platform \<Rightarrow> wire \<Rightarrow> (address, address_metadata) dict \<Rightarrow> address \<Rightarrow> metadata_validation_error list result" where
  "hop_errors E W metadata address =
     (case map_of metadata address of
        None \<Rightarrow> Inr []
      | Some m \<Rightarrow>
          if m = [] then Inr []
          else (case (map_of m ''user_id'', map_of m ''displayname'') of
              (None, None) \<Rightarrow> Inr [USER_ID_MISSING, DISPLAY_NAME_MISSING]
            | (None, Some _) \<Rightarrow> Inr [USER_ID_MISSING]
            | (Some _, None) \<Rightarrow> Inr [DISPLAY_NAME_MISSING]
            | (Some user_id, Some displayname) \<Rightarrow>
                bind_result (validate_user_id_signature E W user_id (Some displayname)) (\<lambda>verified_address.
                Inr (if verified_address \<noteq> Some address then [INVALID_SIGNATURE] else []))))"

fun validate_hops ::
  "platform \<Rightarrow> wire \<Rightarrow> (address, address_metadata) dict \<Rightarrow> address list \<Rightarrow>
   (address, metadata_validation_error list) dict \<Rightarrow> (address, metadata_validation_error list) dict result" where
  "validate_hops E W metadata [] errors = Inr errors"
| "validate_hops E W metadata (address # route) errors =
     bind_result (hop_errors E W metadata address) (\<lambda>error.
     validate_hops E W metadata route (if error \<noteq> [] then AList.update address error errors else errors))"

definition validate_address_metadata ::
  "platform \<Rightarrow> wire \<Rightarrow> address list \<Rightarrow> (address, address_metadata) dict option \<Rightarrow>
   (address, metadata_validation_error list) dict result" where
  "validate_address_metadata E W route metadata =
     (case metadata of
        None \<Rightarrow> Inr []
      | Some m \<Rightarrow> if m = [] then Inr [] else validate_hops E W m route [])"

text \<open>A route of the metadata forgets the entries that are not valid, a route state refuses them.\<close>

definition mk_route_metadata ::
  "platform \<Rightarrow> wire \<Rightarrow> address list \<Rightarrow> (address, address_metadata) dict option \<Rightarrow> route_metadata result" where
  "mk_route_metadata E W route metadata =
     bind_result (validate_address_metadata E W route metadata) (\<lambda>validation_errors.
     Inr \<lparr>rm_route = route,
          rm_address_metadata = map_option (fold AList.delete (map fst validation_errors)) metadata\<rparr>)"

definition mk_route_state ::
  "platform \<Rightarrow> wire \<Rightarrow> address list \<Rightarrow> (address, address_metadata) dict \<Rightarrow> route_state result" where
  "mk_route_state E W route metadata =
     bind_result (validate_address_metadata E W route (Some metadata)) (\<lambda>validation_errors.
     raise_if (validation_errors \<noteq> []) ValueError (
     Inr \<lparr>rs_route = route, rs_address_to_metadata = metadata, rs_swaps = [], rs_estimated_fee = 0\<rparr>))"

subsection \<open>The encrypted secret\<close>

definition get_public_key :: "platform \<Rightarrow> wire \<Rightarrow> bytes \<Rightarrow> signature \<Rightarrow> bytes result" where
  "get_public_key E W message sig =
     (let hashed_message = eth_sign_sha3 E message in
      bind_result (normalise_signature sig) (\<lambda>s.
      case w_public_key W hashed_message s of
        None \<Rightarrow> Inl InvalidSignature
      | Some public_key \<Rightarrow> Inr public_key))"

definition encrypt_secret ::
  "platform \<Rightarrow> wire \<Rightarrow> secret option \<Rightarrow> address_metadata option \<Rightarrow> int \<Rightarrow> int \<Rightarrow> bytes option result" where
  "encrypt_secret E W secret target_metadata amount payment_identifier =
     (case (target_metadata, secret) of
        (Some m, Some s) \<Rightarrow>
          if m = [] \<or> s = [] then Inr None
          else (case (map_of m ''user_id'', map_of m ''displayname'') of
              (Some user_id, Some displayname) \<Rightarrow>
                bind_result (w_decode_hex W displayname) (\<lambda>sig.
                bind_result (get_public_key E W (string_bytes user_id) sig) (\<lambda>public_key.
                Inr (Some (w_encrypt W public_key (w_secret_dump W s amount payment_identifier)))))
            | _ \<Rightarrow> Inl KeyError)
      | _ \<Rightarrow> Inr None)"

definition decrypt_secret :: "wire \<Rightarrow> bytes \<Rightarrow> bytes \<Rightarrow> (secret \<times> int \<times> int) result" where
  "decrypt_secret W encrypted_secret private_key =
     bind_result (w_decrypt W private_key encrypted_secret) (\<lambda>raw.
     case w_secret_load W raw of None \<Rightarrow> Inl InvalidSecret | Some d \<Rightarrow> Inr d)"

subsection \<open>Metadata\<close>

record metadata =
  md_routes :: "route_metadata list"
  md_original_data :: "json option"
  md_secret :: "bytes option"

definition metadata_from_event :: "platform \<Rightarrow> wire \<Rightarrow> send_locked_transfer_event \<Rightarrow> metadata result" where
  "metadata_from_event E W event =
     (let transfer = slt_transfer event in
      bind_result (map_result (\<lambda>r. mk_route_metadata E W (rs_route r) (Some (rs_address_to_metadata r)))
          (lt_route_states transfer)) (\<lambda>routes.
      bind_result (encrypt_secret E W (lt_secret transfer)
          (get_address_metadata (lt_target transfer) (lt_route_states transfer))
          (lk_amount (lt_lock transfer)) (lt_payment_identifier transfer)) (\<lambda>encrypted_secret.
      Inr \<lparr>md_routes = routes, md_original_data = lt_metadata transfer, md_secret = encrypted_secret\<rparr>)))"

fun remove_type :: "json \<Rightarrow> json" where
  "remove_type (JObject items) =
     JObject (filter (\<lambda>(k, v). k \<noteq> ''_type'') (map (\<lambda>(k, v). (k, remove_type v)) items))"
| "remove_type (JList items) = JList (map remove_type items)"
| "remove_type data = data"

text \<open>A node that reads metadata from JSON keeps what it has read.\<close>

definition metadata_post_load :: "json \<Rightarrow> route_metadata list \<Rightarrow> bytes option \<Rightarrow> metadata" where
  "metadata_post_load original_data routes secret =
     \<lparr>md_routes = routes, md_original_data = Some original_data, md_secret = secret\<rparr>"

text \<open>Metadata that was received is dumped as it was received, also by the nodes that forward it.\<close>

definition metadata_to_dict :: "wire \<Rightarrow> metadata \<Rightarrow> json" where
  "metadata_to_dict W m =
     remove_type (case md_original_data m of
        None \<Rightarrow> w_metadata_dump W (md_routes m) (md_secret m)
      | Some data \<Rightarrow> data)"

definition metadata_hash :: "platform \<Rightarrow> wire \<Rightarrow> metadata \<Rightarrow> bytes" where
  "metadata_hash E W m = keccak E (w_canonical_json W (metadata_to_dict W m))"

subsection \<open>Forwarded metadata\<close>

lemma remove_type_idem [simp]: "remove_type (remove_type data) = remove_type data"
proof (induction data rule: remove_type.induct)
  case (1 items)
  have "map (\<lambda>(k, v). (k, remove_type v)) (filter (\<lambda>(k, v). k \<noteq> ''_type'') (map (\<lambda>(k, v). (k, remove_type v)) items))
      = filter (\<lambda>(k, v). k \<noteq> ''_type'') (map (\<lambda>(k, v). (k, remove_type v)) items)"
    using 1 by (induction items) (auto split: prod.splits)
  then show ?case by (simp add: case_prod_unfold)
qed (simp_all add: map_idI)

lemma metadata_to_dict_post_load [simp]:
  "metadata_to_dict W (metadata_post_load (metadata_to_dict W m) routes secret) = metadata_to_dict W m"
  by (simp add: metadata_to_dict_def metadata_post_load_def)

lemma md_routes_post_load [simp]: "md_routes (metadata_post_load data routes secret) = routes"
  by (simp add: metadata_post_load_def)

text \<open>The metadata of the next transfer is dumped as that of the transfer that it forwards.\<close>

lemma metadata_from_event_to_dict:
  assumes "metadata_from_event E W event = Inr m'" and "lt_metadata (slt_transfer event) = Some (metadata_to_dict W m)"
  shows "metadata_to_dict W m' = metadata_to_dict W m"
  using assms by (auto simp: metadata_from_event_def Let_def result_simps metadata_to_dict_def)

subsection \<open>Routes with invalid metadata\<close>

lemma map_of_fold_delete: "map_of (fold AList.delete ks d) a = (if a \<in> set ks then None else map_of d a)"
  by (induction ks arbitrary: d) (auto simp: delete_conv')

lemma validate_hops_keys:
  assumes "validate_hops E W m route errors = Inr errors'"
  shows "fst ` set errors' = fst ` set errors \<union> {a \<in> set route. hop_errors E W m a \<noteq> Inr []}"
    and "\<forall>a\<in>set route. \<exists>es. hop_errors E W m a = Inr es"
proof (atomize (full), use assms in \<open>induction route arbitrary: errors\<close>)
  case (Cons a route)
  then obtain es where es: "hop_errors E W m a = Inr es"
    "validate_hops E W m route (if es \<noteq> [] then AList.update a es errors else errors) = Inr errors'"
    by (auto simp: result_simps)
  from Cons.IH [OF es(2)] es(1) show ?case by (auto simp: dom_update split: if_splits)
qed simp

lemma validate_hops_valid: "\<forall>a\<in>set route. hop_errors E W m a = Inr [] \<Longrightarrow> validate_hops E W m route errors = Inr errors"
  by (induction route) simp_all

lemma hop_errors_delete:
  "hop_errors E W (fold AList.delete ks m) a = (if a \<in> set ks then Inr [] else hop_errors E W m a)"
  by (simp add: hop_errors_def map_of_fold_delete)

lemma route_metadata_is_valid:
  assumes "mk_route_metadata E W route metadata = Inr r"
  shows "mk_route_state E W (rm_route r) (case rm_address_metadata r of None \<Rightarrow> [] | Some m \<Rightarrow> m)
    = Inr \<lparr>rs_route = route, rs_address_to_metadata = (case rm_address_metadata r of None \<Rightarrow> [] | Some m \<Rightarrow> m),
        rs_swaps = [], rs_estimated_fee = 0\<rparr>"
proof (cases "metadata = None \<or> metadata = Some []")
  case True
  with assms show ?thesis
    by (auto simp: mk_route_metadata_def validate_address_metadata_def mk_route_state_def)
next
  case False
  then obtain m where m: "metadata = Some m" "m \<noteq> []" by auto
  with assms obtain errors where e: "validate_hops E W m route [] = Inr errors"
    and r: "r = \<lparr>rm_route = route, rm_address_metadata = Some (fold AList.delete (map fst errors) m)\<rparr>"
    by (auto simp: mk_route_metadata_def validate_address_metadata_def result_simps)
  from validate_hops_keys [OF e] have "\<forall>a\<in>set route. hop_errors E W (fold AList.delete (map fst errors) m) a = Inr []"
    by (auto simp: hop_errors_delete)
  from validate_hops_valid [OF this] show ?thesis
    by (simp add: r mk_route_state_def validate_address_metadata_def)
qed

end
