(* ===== verification/Messages.thy ===== *)
theory Messages
  imports Metadata Channel_Validation
begin

text \<open>
  The messages between nodes: model of \<open>messages/abstract.py\<close>, \<open>messages/transfers.py\<close>,
  \<open>messages/withdraw.py\<close>, \<open>messages/synchronization.py\<close> and \<open>messages/encode.py\<close>, and of \<open>LocalSigner\<close> in
  \<open>utils/signer.py\<close>. A message class is a record, the classes are the constructors of \<open>message\<close>; the
  constructors of the classes that check their arguments are the functions \<open>mk_...\<close>.
\<close>

subsection \<open>Message classes\<close>

definition EMPTY_SIGNATURE :: signature where
  "EMPTY_SIGNATURE = replicate 65 0"

datatype cmd_id = PROCESSED | PING | PONG | SECRETREQUEST | UNLOCK | LOCKEDTRANSFER | REFUNDTRANSFER | REVEALSECRET
  | DELIVERED | LOCKEXPIRED | WITHDRAW_REQUEST | WITHDRAW_CONFIRMATION | WITHDRAW_EXPIRED

fun cmdid_value :: "cmd_id \<Rightarrow> byte" where
  "cmdid_value PROCESSED = 0"
| "cmdid_value PING = 1"
| "cmdid_value PONG = 2"
| "cmdid_value SECRETREQUEST = 3"
| "cmdid_value UNLOCK = 4"
| "cmdid_value LOCKEDTRANSFER = 7"
| "cmdid_value REFUNDTRANSFER = 8"
| "cmdid_value REVEALSECRET = 11"
| "cmdid_value DELIVERED = 12"
| "cmdid_value LOCKEXPIRED = 13"
| "cmdid_value WITHDRAW_REQUEST = 15"
| "cmdid_value WITHDRAW_CONFIRMATION = 16"
| "cmdid_value WITHDRAW_EXPIRED = 17"

record signed_message =
  sm_signature :: signature
  sm_message_identifier :: int

record envelope_message = signed_message +
  em_chain_id :: int
  em_nonce :: int
  em_transferred_amount :: int
  em_locked_amount :: int
  em_locksroot :: locksroot
  em_channel_identifier :: int
  em_token_network_address :: address

record secret_request_message = signed_message +
  sqm_payment_identifier :: int
  sqm_secrethash :: secrethash
  sqm_amount :: int
  sqm_expiration :: int

record reveal_secret_message = signed_message +
  rsm_secret :: secret

record unlock_message = envelope_message +
  um_payment_identifier :: int
  um_secret :: secret

record locked_transfer_message = envelope_message +
  lm_payment_identifier :: int
  lm_token :: address
  lm_recipient :: address
  lm_lock :: lock
  lm_target :: address
  lm_initiator :: address
  lm_metadata :: metadata

record lock_expired_message = envelope_message +
  xm_recipient :: address
  xm_secrethash :: secrethash

record withdraw_message = signed_message +
  wm_chain_id :: int
  wm_token_network_address :: address
  wm_channel_identifier :: int
  wm_participant :: address
  wm_total_withdraw :: int
  wm_nonce :: int
  wm_expiration :: int

record withdraw_request_message = withdraw_message +
  wm_coop_settle :: bool

text \<open>The identifier of \<open>Delivered\<close> is its field \<open>delivered_message_identifier\<close>.\<close>

datatype message =
    SecretRequest secret_request_message
  | RevealSecret reveal_secret_message
  | Unlock unlock_message
  | LockedTransfer locked_transfer_message
  | RefundTransfer locked_transfer_message
  | LockExpired lock_expired_message
  | WithdrawRequest withdraw_request_message
  | WithdrawConfirmation withdraw_message
  | WithdrawExpired withdraw_message
  | Processed signed_message
  | Delivered signed_message

definition message_cmdid :: "message \<Rightarrow> cmd_id" where
  "message_cmdid m =
     (case m of
        SecretRequest _ \<Rightarrow> SECRETREQUEST | RevealSecret _ \<Rightarrow> REVEALSECRET | Unlock _ \<Rightarrow> UNLOCK
      | LockedTransfer _ \<Rightarrow> LOCKEDTRANSFER | RefundTransfer _ \<Rightarrow> REFUNDTRANSFER | LockExpired _ \<Rightarrow> LOCKEXPIRED
      | WithdrawRequest _ \<Rightarrow> WITHDRAW_REQUEST | WithdrawConfirmation _ \<Rightarrow> WITHDRAW_CONFIRMATION
      | WithdrawExpired _ \<Rightarrow> WITHDRAW_EXPIRED | Processed _ \<Rightarrow> PROCESSED | Delivered _ \<Rightarrow> DELIVERED)"

subsection \<open>Checks of the constructors\<close>

definition assert_envelope_values :: "('a) envelope_message_scheme \<Rightarrow> 'b result \<Rightarrow> 'b result" where
  "assert_envelope_values m k =
     raise_if (em_nonce m \<le> 0) ValueError (
     raise_if (em_nonce m > UINT64_MAX) ValueError (
     raise_if (em_channel_identifier m \<le> 0) ValueError (
     raise_if (em_channel_identifier m > UINT256_MAX) ValueError (
     raise_if (em_transferred_amount m < 0) ValueError (
     raise_if (em_transferred_amount m > UINT256_MAX) ValueError (
     raise_if (em_locked_amount m < 0) ValueError (
     raise_if (em_locked_amount m > UINT256_MAX) ValueError (
     raise_if (length (em_locksroot m) \<noteq> 32) ValueError k))))))))"

definition assert_transfer_values :: "int \<Rightarrow> address \<Rightarrow> address \<Rightarrow> 'b result \<Rightarrow> 'b result" where
  "assert_transfer_values payment_identifier token recipient k =
     raise_if (payment_identifier < 0) ValueError (
     raise_if (payment_identifier > UINT64_MAX) ValueError (
     raise_if (length token \<noteq> 20) ValueError (
     raise_if (length recipient \<noteq> 20) ValueError k)))"

definition mk_unlock :: "unlock_message \<Rightarrow> message result" where
  "mk_unlock m =
     assert_envelope_values m (
     raise_if (um_payment_identifier m < 0) ValueError (
     raise_if (um_payment_identifier m > UINT64_MAX) ValueError (
     raise_if (length (um_secret m) \<noteq> 32) ValueError (
     Inr (Unlock m)))))"

definition mk_locked_transfer :: "locked_transfer_message \<Rightarrow> message result" where
  "mk_locked_transfer m =
     assert_envelope_values m (
     assert_transfer_values (lm_payment_identifier m) (lm_token m) (lm_recipient m) (
     raise_if (length (lm_target m) \<noteq> 20) ValueError (
     raise_if (length (lm_initiator m) \<noteq> 20) ValueError (
     Inr (LockedTransfer m)))))"

definition mk_lock_expired :: "lock_expired_message \<Rightarrow> message result" where
  "mk_lock_expired m = assert_envelope_values m (Inr (LockExpired m))"

subsection \<open>The data that is signed\<close>

definition cmdid_prefix :: "cmd_id \<Rightarrow> bytes" where
  "cmdid_prefix c = [cmdid_value c, 0, 0, 0]"

definition pack_locked_transfer_data :: "cmd_id \<Rightarrow> locked_transfer_message \<Rightarrow> bytes result" where
  "pack_locked_transfer_data cmdid m =
     bind_result (to_bytes 8 (sm_message_identifier m)) (\<lambda>mid.
     bind_result (to_bytes 8 (lm_payment_identifier m)) (\<lambda>pid.
     bind_result (to_bytes 32 (lk_expiration (lm_lock m))) (\<lambda>expiration.
     bind_result (to_bytes 32 (lk_amount (lm_lock m))) (\<lambda>amount.
     Inr ([cmdid_value cmdid] @ mid @ pid @ expiration @ lm_token m @ lm_recipient m @ lm_target m
       @ lm_initiator m @ lk_secrethash (lm_lock m) @ amount)))))"

definition locked_transfer_hash :: "platform \<Rightarrow> wire \<Rightarrow> locked_transfer_message \<Rightarrow> bytes result" where
  "locked_transfer_hash E W m =
     bind_result (pack_locked_transfer_data LOCKEDTRANSFER m) (\<lambda>packed.
     Inr (keccak E (packed @ metadata_hash E W (lm_metadata m))))"

definition refund_transfer_hash :: "platform \<Rightarrow> locked_transfer_message \<Rightarrow> bytes result" where
  "refund_transfer_hash E m =
     bind_result (pack_locked_transfer_data REFUNDTRANSFER m) (\<lambda>packed. Inr (keccak E packed))"

definition unlock_hash :: "platform \<Rightarrow> unlock_message \<Rightarrow> bytes result" where
  "unlock_hash E m =
     bind_result (to_bytes 8 (sm_message_identifier m)) (\<lambda>mid.
     bind_result (to_bytes 8 (um_payment_identifier m)) (\<lambda>pid.
     Inr (keccak E ([cmdid_value UNLOCK] @ mid @ pid @ um_secret m))))"

definition lock_expired_hash :: "platform \<Rightarrow> lock_expired_message \<Rightarrow> bytes result" where
  "lock_expired_hash E m =
     bind_result (to_bytes 8 (sm_message_identifier m)) (\<lambda>mid.
     Inr (keccak E ([cmdid_value LOCKEXPIRED] @ mid @ xm_recipient m @ xm_secrethash m)))"

definition em_canonical_identifier :: "('a) envelope_message_scheme \<Rightarrow> canonical_identifier" where
  "em_canonical_identifier m =
     \<lparr>ci_chain_identifier = em_chain_id m, ci_token_network_address = em_token_network_address m,
      ci_channel_identifier = em_channel_identifier m\<rparr>"

definition envelope_data_to_sign ::
  "platform \<Rightarrow> ('a) envelope_message_scheme \<Rightarrow> bytes result \<Rightarrow> bytes result" where
  "envelope_data_to_sign E m message_hash =
     bind_result (hash_balance_data E (em_transferred_amount m) (em_locked_amount m) (em_locksroot m))
       (\<lambda>balance_hash.
     bind_result message_hash (\<lambda>additional_hash.
     Inr (pack_balance_proof E (em_nonce m) balance_hash additional_hash (em_canonical_identifier m))))"

definition withdraw_data :: "wire \<Rightarrow> ('a) withdraw_message_scheme \<Rightarrow> bytes result" where
  "withdraw_data W m =
     bind_result (to_bytes 32 (wm_chain_id m)) (\<lambda>chain_id.
     bind_result (to_bytes 32 (w_message_type_withdraw W)) (\<lambda>message_type.
     bind_result (to_bytes 32 (wm_channel_identifier m)) (\<lambda>channel_identifier.
     bind_result (to_bytes 32 (wm_total_withdraw m)) (\<lambda>amount.
     bind_result (to_bytes 32 (wm_expiration m)) (\<lambda>expiration.
     Inr (wm_token_network_address m @ chain_id @ message_type @ channel_identifier @ wm_participant m
       @ amount @ expiration))))))"

definition secret_request_data :: "secret_request_message \<Rightarrow> bytes result" where
  "secret_request_data m =
     bind_result (to_bytes 8 (sm_message_identifier m)) (\<lambda>mid.
     bind_result (to_bytes 8 (sqm_payment_identifier m)) (\<lambda>pid.
     bind_result (to_bytes 32 (sqm_amount m)) (\<lambda>amount.
     bind_result (to_bytes 32 (sqm_expiration m)) (\<lambda>expiration.
     Inr (cmdid_prefix SECRETREQUEST @ mid @ pid @ sqm_secrethash m @ amount @ expiration)))))"

definition reveal_secret_data :: "reveal_secret_message \<Rightarrow> bytes result" where
  "reveal_secret_data m =
     bind_result (to_bytes 8 (sm_message_identifier m)) (\<lambda>mid.
     Inr (cmdid_prefix REVEALSECRET @ mid @ rsm_secret m))"

definition withdraw_expired_data :: "wire \<Rightarrow> withdraw_message \<Rightarrow> bytes result" where
  "withdraw_expired_data W m =
     bind_result (to_bytes 32 (wm_nonce m)) (\<lambda>nonce.
     bind_result (to_bytes 8 (sm_message_identifier m)) (\<lambda>mid.
     bind_result (withdraw_data W m) (\<lambda>data.
     Inr (cmdid_prefix WITHDRAW_EXPIRED @ nonce @ mid @ data))))"

definition processed_data :: "signed_message \<Rightarrow> bytes result" where
  "processed_data m =
     bind_result (to_bytes 8 (sm_message_identifier m)) (\<lambda>mid. Inr (cmdid_prefix PROCESSED @ mid))"

definition delivered_data :: "signed_message \<Rightarrow> bytes result" where
  "delivered_data m =
     bind_result (to_bytes 8 (sm_message_identifier m)) (\<lambda>mid. Inr (cmdid_prefix DELIVERED @ mid))"

lemmas message_data_defs [simp] = secret_request_data_def reveal_secret_data_def withdraw_expired_data_def
  processed_data_def delivered_data_def

fun data_to_sign :: "platform \<Rightarrow> wire \<Rightarrow> message \<Rightarrow> bytes result" where
  "data_to_sign E W (SecretRequest m) = secret_request_data m"
| "data_to_sign E W (RevealSecret m) = reveal_secret_data m"
| "data_to_sign E W (Unlock m) = envelope_data_to_sign E m (unlock_hash E m)"
| "data_to_sign E W (LockedTransfer m) = envelope_data_to_sign E m (locked_transfer_hash E W m)"
| "data_to_sign E W (RefundTransfer m) = envelope_data_to_sign E m (refund_transfer_hash E m)"
| "data_to_sign E W (LockExpired m) = envelope_data_to_sign E m (lock_expired_hash E m)"
| "data_to_sign E W (WithdrawRequest m) = withdraw_data W m"
| "data_to_sign E W (WithdrawConfirmation m) = withdraw_data W m"
| "data_to_sign E W (WithdrawExpired m) = withdraw_expired_data W m"
| "data_to_sign E W (Processed m) = processed_data m"
| "data_to_sign E W (Delivered m) = delivered_data m"

subsection \<open>Signing\<close>

fun message_signature :: "message \<Rightarrow> signature" where
  "message_signature (SecretRequest m) = sm_signature m"
| "message_signature (RevealSecret m) = sm_signature m"
| "message_signature (Unlock m) = sm_signature m"
| "message_signature (LockedTransfer m) = sm_signature m"
| "message_signature (RefundTransfer m) = sm_signature m"
| "message_signature (LockExpired m) = sm_signature m"
| "message_signature (WithdrawRequest m) = sm_signature m"
| "message_signature (WithdrawConfirmation m) = sm_signature m"
| "message_signature (WithdrawExpired m) = sm_signature m"
| "message_signature (Processed m) = sm_signature m"
| "message_signature (Delivered m) = sm_signature m"

fun set_signature :: "signature \<Rightarrow> message \<Rightarrow> message" where
  "set_signature s (SecretRequest m) = SecretRequest (m\<lparr>sm_signature := s\<rparr>)"
| "set_signature s (RevealSecret m) = RevealSecret (m\<lparr>sm_signature := s\<rparr>)"
| "set_signature s (Unlock m) = Unlock (m\<lparr>sm_signature := s\<rparr>)"
| "set_signature s (LockedTransfer m) = LockedTransfer (m\<lparr>sm_signature := s\<rparr>)"
| "set_signature s (RefundTransfer m) = RefundTransfer (m\<lparr>sm_signature := s\<rparr>)"
| "set_signature s (LockExpired m) = LockExpired (m\<lparr>sm_signature := s\<rparr>)"
| "set_signature s (WithdrawRequest m) = WithdrawRequest (m\<lparr>sm_signature := s\<rparr>)"
| "set_signature s (WithdrawConfirmation m) = WithdrawConfirmation (m\<lparr>sm_signature := s\<rparr>)"
| "set_signature s (WithdrawExpired m) = WithdrawExpired (m\<lparr>sm_signature := s\<rparr>)"
| "set_signature s (Processed m) = Processed (m\<lparr>sm_signature := s\<rparr>)"
| "set_signature s (Delivered m) = Delivered (m\<lparr>sm_signature := s\<rparr>)"

text \<open>
  \<open>LocalSigner\<close>: \<open>sk_sign_hash\<close> is \<open>private_key.sign_msg_hash\<close> of \<open>eth_keys\<close>, whose last byte is 0 or 1.
\<close>

record local_signer =
  sk_address :: address
  sk_sign_hash :: "bytes \<Rightarrow> signature"

definition local_sign :: "platform \<Rightarrow> local_signer \<Rightarrow> bytes \<Rightarrow> signature" where
  "local_sign E signer data =
     (let sig_bytes = sk_sign_hash signer (eth_sign_sha3 E data)
      in butlast sig_bytes @ [last sig_bytes + 27])"

definition sign_message :: "platform \<Rightarrow> wire \<Rightarrow> local_signer \<Rightarrow> message \<Rightarrow> message result" where
  "sign_message E W signer m =
     bind_result (data_to_sign E W m) (\<lambda>message_data. Inr (set_signature (local_sign E signer message_data) m))"

definition message_sender :: "platform \<Rightarrow> wire \<Rightarrow> message \<Rightarrow> address option result" where
  "message_sender E W m =
     (if message_signature m = [] then Inr None
      else
        bind_result (data_to_sign E W m) (\<lambda>data_that_was_signed.
        case recover E data_that_was_signed (message_signature m) of
          Inl e \<Rightarrow> if e = InvalidSignature then Inr None else Inl e
        | Inr address \<Rightarrow> Inr (Some address)))"

text \<open>
  The transfer that the receiver of a message has read from JSON: all fields are the same, except that the
  metadata keeps the data that was read, with the routes and the secret that the schema made of it.
\<close>

definition read_transfer ::
  "wire \<Rightarrow> route_metadata list \<Rightarrow> bytes option \<Rightarrow> locked_transfer_message \<Rightarrow> locked_transfer_message" where
  "read_transfer W routes secret m =
     m\<lparr>lm_metadata := metadata_post_load (metadata_to_dict W (lm_metadata m)) routes secret\<rparr>"

lemma read_transfer_fields [simp]:
  "sm_signature (read_transfer W routes secret m) = sm_signature m"
  "sm_message_identifier (read_transfer W routes secret m) = sm_message_identifier m"
  "em_chain_id (read_transfer W routes secret m) = em_chain_id m"
  "em_nonce (read_transfer W routes secret m) = em_nonce m"
  "em_transferred_amount (read_transfer W routes secret m) = em_transferred_amount m"
  "em_locked_amount (read_transfer W routes secret m) = em_locked_amount m"
  "em_locksroot (read_transfer W routes secret m) = em_locksroot m"
  "em_channel_identifier (read_transfer W routes secret m) = em_channel_identifier m"
  "em_token_network_address (read_transfer W routes secret m) = em_token_network_address m"
  "lm_payment_identifier (read_transfer W routes secret m) = lm_payment_identifier m"
  "lm_token (read_transfer W routes secret m) = lm_token m"
  "lm_recipient (read_transfer W routes secret m) = lm_recipient m"
  "lm_lock (read_transfer W routes secret m) = lm_lock m"
  "lm_target (read_transfer W routes secret m) = lm_target m"
  "lm_initiator (read_transfer W routes secret m) = lm_initiator m"
  "lm_metadata (read_transfer W routes secret m) = metadata_post_load (metadata_to_dict W (lm_metadata m)) routes secret"
  by (simp_all add: read_transfer_def)

subsection \<open>Messages of events\<close>

definition unlock_from_event :: "send_unlock_event \<Rightarrow> message result" where
  "unlock_from_event event =
     (let bp = su_balance_proof event; ci = bp_canonical_identifier bp in
      mk_unlock \<lparr>sm_signature = EMPTY_SIGNATURE, sm_message_identifier = mh_message_identifier (su_header event),
        em_chain_id = ci_chain_identifier ci, em_nonce = bp_nonce bp,
        em_transferred_amount = bp_transferred_amount bp, em_locked_amount = bp_locked_amount bp,
        em_locksroot = bp_locksroot bp, em_channel_identifier = ci_channel_identifier ci,
        em_token_network_address = ci_token_network_address ci,
        um_payment_identifier = su_payment_identifier event, um_secret = su_secret event\<rparr>)"

definition locked_transfer_from_event ::
  "platform \<Rightarrow> wire \<Rightarrow> send_locked_transfer_event \<Rightarrow> message result" where
  "locked_transfer_from_event E W event =
     (let transfer = slt_transfer event; bp = ltu_balance_proof transfer; ci = bp_canonical_identifier bp in
      bind_result (mk_lock (lk_amount (lt_lock transfer)) (lk_expiration (lt_lock transfer))
          (lk_secrethash (lt_lock transfer))) (\<lambda>lock.
      bind_result (metadata_from_event E W event) (\<lambda>metadata.
      mk_locked_transfer \<lparr>sm_signature = EMPTY_SIGNATURE,
        sm_message_identifier = mh_message_identifier (slt_header event),
        em_chain_id = ci_chain_identifier ci, em_nonce = bp_nonce bp,
        em_transferred_amount = bp_transferred_amount bp, em_locked_amount = bp_locked_amount bp,
        em_locksroot = bp_locksroot bp, em_channel_identifier = ci_channel_identifier ci,
        em_token_network_address = ci_token_network_address ci,
        lm_payment_identifier = lt_payment_identifier transfer, lm_token = lt_token transfer,
        lm_recipient = mh_recipient (slt_header event), lm_lock = lock, lm_target = lt_target transfer,
        lm_initiator = lt_initiator transfer, lm_metadata = metadata\<rparr>)))"

definition lock_expired_from_event :: "send_lock_expired_event \<Rightarrow> message result" where
  "lock_expired_from_event event =
     (let bp = sle_balance_proof event; ci = bp_canonical_identifier bp in
      mk_lock_expired \<lparr>sm_signature = EMPTY_SIGNATURE,
        sm_message_identifier = mh_message_identifier (sle_header event),
        em_chain_id = ci_chain_identifier ci, em_nonce = bp_nonce bp,
        em_transferred_amount = bp_transferred_amount bp, em_locked_amount = bp_locked_amount bp,
        em_locksroot = bp_locksroot bp, em_channel_identifier = ci_channel_identifier ci,
        em_token_network_address = ci_token_network_address ci,
        xm_recipient = mh_recipient (sle_header event), xm_secrethash = sle_secrethash event\<rparr>)"

definition withdraw_from_event :: "msg_header \<Rightarrow> int \<Rightarrow> address \<Rightarrow> int \<Rightarrow> int \<Rightarrow> withdraw_message" where
  "withdraw_from_event h amount participant nonce expiration =
     (let ci = mh_canonical_identifier h in
      \<lparr>sm_signature = EMPTY_SIGNATURE, sm_message_identifier = mh_message_identifier h,
       wm_chain_id = ci_chain_identifier ci, wm_token_network_address = ci_token_network_address ci,
       wm_channel_identifier = ci_channel_identifier ci, wm_participant = participant,
       wm_total_withdraw = amount, wm_nonce = nonce, wm_expiration = expiration\<rparr>)"

definition withdraw_request_from_event ::
  "msg_header \<Rightarrow> int \<Rightarrow> address \<Rightarrow> int \<Rightarrow> int \<Rightarrow> bool \<Rightarrow> withdraw_request_message" where
  "withdraw_request_from_event h amount participant nonce expiration coop_settle =
     withdraw_message.extend (withdraw_from_event h amount participant nonce expiration)
       (withdraw_request_message.fields coop_settle)"

definition processed_from_event :: "msg_header \<Rightarrow> signed_message" where
  "processed_from_event h = \<lparr>sm_signature = EMPTY_SIGNATURE, sm_message_identifier = mh_message_identifier h\<rparr>"

definition secret_request_from_event ::
  "msg_header \<Rightarrow> int \<Rightarrow> int \<Rightarrow> int \<Rightarrow> secrethash \<Rightarrow> secret_request_message" where
  "secret_request_from_event h payment_identifier amount expiration secrethash =
     \<lparr>sm_signature = EMPTY_SIGNATURE, sm_message_identifier = mh_message_identifier h,
      sqm_payment_identifier = payment_identifier, sqm_secrethash = secrethash, sqm_amount = amount,
      sqm_expiration = expiration\<rparr>"

definition reveal_secret_from_event :: "msg_header \<Rightarrow> secret \<Rightarrow> reveal_secret_message" where
  "reveal_secret_from_event h secret =
     \<lparr>sm_signature = EMPTY_SIGNATURE, sm_message_identifier = mh_message_identifier h, rsm_secret = secret\<rparr>"

lemmas plain_from_event_defs [simp] = withdraw_request_from_event_def processed_from_event_def
  secret_request_from_event_def reveal_secret_from_event_def

fun message_from_sendevent :: "platform \<Rightarrow> wire \<Rightarrow> event \<Rightarrow> message result" where
  "message_from_sendevent E W (SendLockExpired e) = lock_expired_from_event e"
| "message_from_sendevent E W (SendLockedTransfer e) = locked_transfer_from_event E W e"
| "message_from_sendevent E W (SendProcessed h) = Inr (Processed (processed_from_event h))"
| "message_from_sendevent E W (SendSecretRequest h payment_identifier amount expiration secrethash) =
     Inr (SecretRequest (secret_request_from_event h payment_identifier amount expiration secrethash))"
| "message_from_sendevent E W (SendSecretReveal h secret secrethash) =
     Inr (RevealSecret (reveal_secret_from_event h secret))"
| "message_from_sendevent E W (SendUnlock e) = unlock_from_event e"
| "message_from_sendevent E W (SendWithdrawConfirmation h amount participant expiration nonce) =
     Inr (WithdrawConfirmation (withdraw_from_event h amount participant nonce expiration))"
| "message_from_sendevent E W (SendWithdrawExpired h amount participant nonce expiration) =
     Inr (WithdrawExpired (withdraw_from_event h amount participant nonce expiration))"
| "message_from_sendevent E W (SendWithdrawRequest h amount participant expiration nonce coop_settle) =
     Inr (WithdrawRequest (withdraw_request_from_event h amount participant nonce expiration coop_settle))"
| "message_from_sendevent E W e = Inl ValueError"

end
