(* ===== verification/Message_Handler.thy ===== *)
theory Message_Handler
  imports Messages Views Wal Node "HOL-Library.Product_Lexorder"
begin

text \<open>
  From messages to state changes: model of \<open>messages/decode.py\<close> and \<open>message_handler.py\<close>. The handlers read
  the state of the node, the secret registry, the path finding service and a source of random secrets, which
  are the fields of the record \<open>raiden\<close>; the query of a channel by its partner may add an entry to a
  \<open>defaultdict\<close> of the state, so that the handlers return the state.
\<close>

record raiden =
  rd_address :: address
  rd_privkey :: bytes
  rd_is_secret_registered :: "secrethash \<Rightarrow> bool"
  rd_query_address_metadata :: "address \<Rightarrow> address_metadata option"
  rd_random_secret :: secret

subsection \<open>Decoding\<close>

text \<open>\<open>assert message.sender\<close>: the sender is the value of the property \<open>sender\<close> of the message.\<close>

definition signed_by :: "address option result \<Rightarrow> (address \<Rightarrow> 'b result) \<Rightarrow> 'b result" where
  "signed_by sender k =
     bind_result sender (\<lambda>s. case s of None \<Rightarrow> Inl AssertionError | Some a \<Rightarrow> py_assert (a \<noteq> []) (k a))"

definition balanceproof_from_envelope ::
  "platform \<Rightarrow> address option result \<Rightarrow> bytes result \<Rightarrow> ('a) envelope_message_scheme \<Rightarrow>
   signed_balance_proof result" where
  "balanceproof_from_envelope E sender message_hash m =
     signed_by sender (\<lambda>a.
     bind_result message_hash (\<lambda>h.
     mk_balance_proof_signed E (em_nonce m) (em_transferred_amount m) (em_locked_amount m) (em_locksroot m)
       h (sm_signature m) a (em_canonical_identifier m)))"

text \<open>A route whose metadata is not valid is dropped.\<close>

fun received_route_states :: "platform \<Rightarrow> wire \<Rightarrow> route_metadata list \<Rightarrow> route_state list result" where
  "received_route_states E W [] = Inr []"
| "received_route_states E W (r # rs) =
     (case mk_route_state E W (rm_route r) (case rm_address_metadata r of None \<Rightarrow> [] | Some m \<Rightarrow> m) of
        Inl e \<Rightarrow> if e = ValueError then received_route_states E W rs else Inl e
      | Inr route_state \<Rightarrow>
          bind_result (received_route_states E W rs) (\<lambda>route_states. Inr (route_state # route_states)))"

definition lockedtransfersigned_from_message ::
  "platform \<Rightarrow> wire \<Rightarrow> address option result \<Rightarrow> bytes result \<Rightarrow> locked_transfer_message \<Rightarrow> locked_transfer_signed result" where
  "lockedtransfersigned_from_message E W sender message_hash m =
     bind_result (balanceproof_from_envelope E sender message_hash m) (\<lambda>balance_proof.
     bind_result (mk_hash_time_lock (lk_amount (lm_lock m)) (lk_expiration (lm_lock m)) (lk_secrethash (lm_lock m)))
       (\<lambda>lock.
     bind_result (received_route_states E W (md_routes (lm_metadata m))) (\<lambda>route_states.
     mk_locked_transfer_signed E (lm_payment_identifier m) (lm_token m) lock (lm_initiator m) (lm_target m)
       route_states (Some (metadata_to_dict W (lm_metadata m))) None (sm_message_identifier m) balance_proof)))"

subsection \<open>Handlers\<close>

type_synonym handled = "(chain_state \<times> state_change list) result"

definition withdraw_canonical_identifier :: "('a) withdraw_message_scheme \<Rightarrow> canonical_identifier" where
  "withdraw_canonical_identifier m =
     \<lparr>ci_chain_identifier = wm_chain_id m, ci_token_network_address = wm_token_network_address m,
      ci_channel_identifier = wm_channel_identifier m\<rparr>"

definition handle_message_withdrawrequest ::
  "raiden \<Rightarrow> chain_state \<Rightarrow> address option result \<Rightarrow> withdraw_request_message \<Rightarrow> handled" where
  "handle_message_withdrawrequest R cs sender m =
     signed_by sender (\<lambda>a.
     Inr (cs, [ToChannel (ReceiveWithdrawRequest
       \<lparr>rw_sender = a, rw_message_identifier = sm_message_identifier m,
        rw_canonical_identifier = withdraw_canonical_identifier m, rw_total_withdraw = wm_total_withdraw m,
        rw_nonce = wm_nonce m, rw_expiration = wm_expiration m, rw_signature = sm_signature m,
        rw_participant = wm_participant m, rwr_coop_settle = wm_coop_settle m,
        rwr_sender_metadata = rd_query_address_metadata R a\<rparr>)]))"

definition handle_message_withdraw_confirmation ::
  "chain_state \<Rightarrow> address option result \<Rightarrow> withdraw_message \<Rightarrow> handled" where
  "handle_message_withdraw_confirmation cs sender m =
     signed_by sender (\<lambda>a.
     Inr (cs, [ToChannel (ReceiveWithdrawConfirmation
       \<lparr>rw_sender = a, rw_message_identifier = sm_message_identifier m,
        rw_canonical_identifier = withdraw_canonical_identifier m, rw_total_withdraw = wm_total_withdraw m,
        rw_nonce = wm_nonce m, rw_expiration = wm_expiration m, rw_signature = sm_signature m,
        rw_participant = wm_participant m\<rparr>)]))"

definition handle_message_withdraw_expired ::
  "chain_state \<Rightarrow> address option result \<Rightarrow> withdraw_message \<Rightarrow> handled" where
  "handle_message_withdraw_expired cs sender m =
     signed_by sender (\<lambda>a.
     Inr (cs, [ToChannel (ReceiveWithdrawExpired
       \<lparr>rwe_sender = a, rwe_message_identifier = sm_message_identifier m,
        rwe_canonical_identifier = withdraw_canonical_identifier m, rwe_total_withdraw = wm_total_withdraw m,
        rwe_expiration = wm_expiration m, rwe_nonce = wm_nonce m, rwe_participant = wm_participant m\<rparr>)]))"

definition handle_message_secretrequest ::
  "chain_state \<Rightarrow> address option result \<Rightarrow> secret_request_message \<Rightarrow> handled" where
  "handle_message_secretrequest cs sender m =
     signed_by sender (\<lambda>a.
     Inr (cs, [ReceiveSecretRequest \<lparr>rsq_sender = a, rsq_payment_identifier = sqm_payment_identifier m,
       rsq_amount = sqm_amount m, rsq_expiration = sqm_expiration m, rsq_secrethash = sqm_secrethash m\<rparr>]))"

definition handle_message_revealsecret ::
  "platform \<Rightarrow> chain_state \<Rightarrow> address option result \<Rightarrow> reveal_secret_message \<Rightarrow> handled" where
  "handle_message_revealsecret E cs sender m =
     signed_by sender (\<lambda>a. Inr (cs, [ReceiveSecretReveal (mk_receive_secret_reveal E a (rsm_secret m))]))"

definition handle_message_unlock ::
  "platform \<Rightarrow> chain_state \<Rightarrow> address option result \<Rightarrow> unlock_message \<Rightarrow> handled" where
  "handle_message_unlock E cs sender m =
     bind_result (balanceproof_from_envelope E sender (unlock_hash E m) m) (\<lambda>balance_proof.
     Inr (cs, [ReceiveUnlock (mk_receive_unlock E (bp_sender balance_proof) balance_proof
       (sm_message_identifier m) (um_secret m))]))"

definition handle_message_lockexpired ::
  "platform \<Rightarrow> chain_state \<Rightarrow> address option result \<Rightarrow> lock_expired_message \<Rightarrow> handled" where
  "handle_message_lockexpired E cs sender m =
     bind_result (balanceproof_from_envelope E sender (lock_expired_hash E m) m) (\<lambda>balance_proof.
     Inr (cs, [ReceiveLockExpired \<lparr>rle_sender = bp_sender balance_proof, rle_balance_proof = balance_proof,
       rle_secrethash = xm_secrethash m, rle_message_identifier = sm_message_identifier m\<rparr>]))"

definition handle_message_refundtransfer ::
  "platform \<Rightarrow> wire \<Rightarrow> raiden \<Rightarrow> chain_state \<Rightarrow> address option result \<Rightarrow> locked_transfer_message \<Rightarrow> handled" where
  "handle_message_refundtransfer E W R cs sender m =
     bind_result (lockedtransfersigned_from_message E W sender (refund_transfer_hash E m) m) (\<lambda>from_transfer.
     let secrethash = lk_secrethash (lt_lock from_transfer); bp = lts_balance_proof from_transfer in
     if get_transfer_role cs secrethash = Some INITIATOR then
       bind_result (get_transfer_secret cs secrethash) (\<lambda>old_secret.
       let is_secret_known = (case old_secret of None \<Rightarrow> False | Some s \<Rightarrow> s \<noteq> ABSENT_SECRET) in
       Inr (cs, [ReceiveTransferCancelRoute
           \<lparr>rcr_sender = bp_sender bp, rcr_balance_proof = bp, rcr_transfer = from_transfer\<rparr>]
         @ (if is_secret_known
            then [ActionTransferReroute
              (mk_action_transfer_reroute E (bp_sender bp) bp from_transfer (rd_random_secret R))]
            else [])))
     else
       Inr (cs, [ReceiveTransferRefund
         \<lparr>rtr_sender = bp_sender bp, rtr_balance_proof = bp, rtr_transfer = from_transfer\<rparr>]))"

text \<open>The routes of a transfer on which this node has a channel with the next hop.\<close>

fun filtered_route_states ::
  "address \<Rightarrow> address \<Rightarrow> chain_state \<Rightarrow> route_state list \<Rightarrow> (chain_state \<times> route_state list) result" where
  "filtered_route_states our_address token_network_address cs [] = Inr (cs, [])"
| "filtered_route_states our_address token_network_address cs (r # rs) =
     (case hop_after r our_address of
        None \<Rightarrow> filtered_route_states our_address token_network_address cs rs
      | Some next_hop_address \<Rightarrow>
          if next_hop_address = [] then filtered_route_states our_address token_network_address cs rs
          else
            bind_result (get_channelstate_by_token_network_and_partner cs token_network_address next_hop_address)
              (\<lambda>(cs1, channel_state).
            bind_result (filtered_route_states our_address token_network_address cs1 rs) (\<lambda>(cs2, routes).
            Inr (cs2, case channel_state of None \<Rightarrow> routes | Some ch \<Rightarrow> r # routes))))"

text \<open>The secret that the initiator encrypted for the target, if it fits the transfer.\<close>

definition usable_secret ::
  "wire \<Rightarrow> bytes \<Rightarrow> bytes \<Rightarrow> locked_transfer_signed \<Rightarrow> secret result" where
  "usable_secret W privkey encrypted_secret from_transfer =
     bind_result (decrypt_secret W encrypted_secret privkey) (\<lambda>(secret, amount, payment_identifier).
     raise_if (lk_amount (lt_lock from_transfer) < amount
         \<or> lt_payment_identifier from_transfer \<noteq> payment_identifier) InvalidSecret (
     Inr secret))"

definition handle_message_lockedtransfer ::
  "platform \<Rightarrow> wire \<Rightarrow> raiden \<Rightarrow> chain_state \<Rightarrow> address option result \<Rightarrow> locked_transfer_message \<Rightarrow> handled" where
  "handle_message_lockedtransfer E W R cs sender m =
     (if rd_is_secret_registered R (lk_secrethash (lm_lock m)) then Inr (cs, [])
      else
        signed_by sender (\<lambda>a.
        bind_result (lockedtransfersigned_from_message E W sender (locked_transfer_hash E W m) m) (\<lambda>from_transfer.
        if md_routes (lm_metadata m) = [] then Inr (cs, [])
        else
          let bp = lts_balance_proof from_transfer;
              from_hop = \<lparr>hop_node_address = a,
                hop_channel_identifier = ci_channel_identifier (bp_canonical_identifier bp)\<rparr>;
              init_target = (\<lambda>received_valid_secret. ActionInitTarget
                \<lparr>ait_sender = bp_sender bp, ait_balance_proof = bp, ait_from_hop = from_hop,
                 ait_transfer = from_transfer, ait_received_valid_secret = received_valid_secret\<rparr>)
          in
          if lm_target m = rd_address R then
            (case md_secret (lm_metadata m) of
               None \<Rightarrow> Inr (cs, [init_target False])
             | Some encrypted_secret \<Rightarrow>
                 (case usable_secret W (rd_privkey R) encrypted_secret from_transfer of
                    Inl e \<Rightarrow> if e = InvalidSecret then Inr (cs, [init_target False]) else Inl e
                  | Inr secret \<Rightarrow>
                      Inr (cs, [init_target True, ReceiveSecretReveal (mk_receive_secret_reveal E a secret)])))
          else
            bind_result (filtered_route_states (rd_address R)
                (ci_token_network_address (bp_canonical_identifier bp)) cs (lt_route_states from_transfer))
              (\<lambda>(cs', routes).
            Inr (cs', [ActionInitMediator
              \<lparr>aim_sender = bp_sender bp, aim_balance_proof = bp, aim_from_hop = from_hop,
               aim_candidate_route_states = routes, aim_from_transfer = from_transfer\<rparr>])))))"

definition handle_message_processed :: "chain_state \<Rightarrow> address option result \<Rightarrow> signed_message \<Rightarrow> handled" where
  "handle_message_processed cs sender m =
     signed_by sender (\<lambda>a.
     Inr (cs, [ReceiveProcessed \<lparr>rak_sender = a, rak_message_identifier = sm_message_identifier m\<rparr>]))"

definition handle_message_delivered :: "chain_state \<Rightarrow> address option result \<Rightarrow> signed_message \<Rightarrow> handled" where
  "handle_message_delivered cs sender m =
     signed_by sender (\<lambda>a.
     Inr (cs, [ReceiveDelivered \<lparr>rak_sender = a, rak_message_identifier = sm_message_identifier m\<rparr>]))"

definition handle_message :: "platform \<Rightarrow> wire \<Rightarrow> raiden \<Rightarrow> chain_state \<Rightarrow> message \<Rightarrow> handled" where
  "handle_message E W R cs m =
     (let sender = message_sender E W m in
     case m of
       SecretRequest x \<Rightarrow> handle_message_secretrequest cs sender x
     | RevealSecret x \<Rightarrow> handle_message_revealsecret E cs sender x
     | Unlock x \<Rightarrow> handle_message_unlock E cs sender x
     | LockExpired x \<Rightarrow> handle_message_lockexpired E cs sender x
     | RefundTransfer x \<Rightarrow> handle_message_refundtransfer E W R cs sender x
     | LockedTransfer x \<Rightarrow> handle_message_lockedtransfer E W R cs sender x
     | WithdrawRequest x \<Rightarrow> handle_message_withdrawrequest R cs sender x
     | WithdrawConfirmation x \<Rightarrow> handle_message_withdraw_confirmation cs sender x
     | WithdrawExpired x \<Rightarrow> handle_message_withdraw_expired cs sender x
     | Delivered x \<Rightarrow> handle_message_delivered cs sender x
     | Processed x \<Rightarrow> handle_message_processed cs sender x)"

subsection \<open>Batches of messages\<close>

text \<open>Two messages are equal if they are of the same class and have the same signed data and signature.\<close>

definition message_eq :: "platform \<Rightarrow> wire \<Rightarrow> message \<Rightarrow> message \<Rightarrow> bool" where
  "message_eq E W m m' \<longleftrightarrow> message_cmdid m = message_cmdid m' \<and> data_to_sign E W m = data_to_sign E W m'
     \<and> message_signature m = message_signature m'"

text \<open>\<open>set(messages)\<close>: the first of equal messages stays; hashing a message packs it, which may raise.\<close>

fun unique_messages :: "platform \<Rightarrow> wire \<Rightarrow> message list \<Rightarrow> message list \<Rightarrow> message list result" where
  "unique_messages E W seen [] = Inr (rev seen)"
| "unique_messages E W seen (m # ms) =
     bind_result (data_to_sign E W m) (\<lambda>_.
     unique_messages E W (if list_ex (message_eq E W m) seen then seen else m # seen) ms)"

fun handle_messages ::
  "platform \<Rightarrow> wire \<Rightarrow> raiden \<Rightarrow> chain_state \<Rightarrow> message list \<Rightarrow> handled" where
  "handle_messages E W R cs [] = Inr (cs, [])"
| "handle_messages E W R cs (m # ms) =
     bind_result (handle_message E W R cs m) (\<lambda>(cs1, state_changes).
     bind_result (handle_messages E W R cs1 ms) (\<lambda>(cs2, all_state_changes).
     Inr (cs2, state_changes @ all_state_changes)))"

text \<open>\<open>isinstance(state_change, BalanceProofStateChange)\<close>\<close>

fun balance_proof_of :: "state_change \<Rightarrow> signed_balance_proof option" where
  "balance_proof_of (ActionInitMediator sc) = Some (aim_balance_proof sc)"
| "balance_proof_of (ActionInitTarget sc) = Some (ait_balance_proof sc)"
| "balance_proof_of (ActionTransferReroute sc) = Some (atr_balance_proof sc)"
| "balance_proof_of (ReceiveTransferCancelRoute sc) = Some (rcr_balance_proof sc)"
| "balance_proof_of (ReceiveTransferRefund sc) = Some (rtr_balance_proof sc)"
| "balance_proof_of (ReceiveUnlock sc) = Some (ru_balance_proof sc)"
| "balance_proof_of (ReceiveLockExpired sc) = Some (rle_balance_proof sc)"
| "balance_proof_of sc = None"

text \<open>The first component is 1 for the key \<open>(inf, inf)\<close> and 0 for a pair of integers.\<close>

definition by_canonical_identifier :: "state_change \<Rightarrow> int \<times> int \<times> int" where
  "by_canonical_identifier sc =
     (case balance_proof_of sc of
        Some bp \<Rightarrow> (0, ci_channel_identifier (bp_canonical_identifier bp), bp_nonce bp)
      | None \<Rightarrow> (case sc of ReceiveSecretReveal _ \<Rightarrow> (1, 0, 0) | _ \<Rightarrow> (0, 0, 0)))"

text \<open>
  The order in which a set iterates and in which the greenlets finish is not specified: the permutation
  \<open>arrange\<close> stands for it. The result is what is passed to \<open>handle_and_track_state_changes\<close>.
\<close>

definition on_messages ::
  "platform \<Rightarrow> wire \<Rightarrow> raiden \<Rightarrow> (message list \<Rightarrow> message list) \<Rightarrow> chain_state \<Rightarrow> message list \<Rightarrow> handled" where
  "on_messages E W R arrange cs messages =
     bind_result (unique_messages E W [] messages) (\<lambda>unique.
     bind_result (handle_messages E W R cs (arrange unique)) (\<lambda>(cs', all_state_changes).
     Inr (cs', sort_key by_canonical_identifier all_state_changes)))"

end
