(* ===== verification/Message_Laws.thy ===== *)
theory Message_Laws
  imports Message_Handler Message_Types
begin

text \<open>
  What the messages promise: an event that leaves a node arrives at its partner as the state change with the
  same content, authenticated by the signature; a signature belongs to one message; the state changes of a
  batch are ordered; and a batch is handled as a whole.
\<close>

subsection \<open>Signatures\<close>

text \<open>
  The documented behaviour of the signing key: a signature has 65 bytes, its last byte is 0 or 1, and the
  address of the key is recovered from it.
\<close>

definition signer_ok :: "platform \<Rightarrow> local_signer \<Rightarrow> bool" where
  "signer_ok E signer \<longleftrightarrow> sk_address signer \<noteq> [] \<and>
     (\<forall>h. length (sk_sign_hash signer h) = 65 \<and> last (sk_sign_hash signer h) \<le> 1
        \<and> ecdsa_recover E h (sk_sign_hash signer h) = Some (sk_address signer))"

lemma byte_plus_27: "(b :: byte) \<le> 1 \<Longrightarrow> 27 \<le> b + 27"
  by (simp add: word_le_nat_alt unat_plus_if')

lemma local_sign_length: "signer_ok E k \<Longrightarrow> length (local_sign E k data) = 65"
  by (simp add: signer_ok_def local_sign_def Let_def)

lemma local_sign_nonempty: "local_sign E k data \<noteq> []"
  by (simp add: local_sign_def Let_def)

lemma recover_local_sign:
  assumes "signer_ok E k"
  shows "recover E data (local_sign E k data) = Inr (sk_address k)"
proof -
  let ?s = "sk_sign_hash k (eth_sign_sha3 E data)"
  have s: "length ?s = 65" "last ?s \<le> 1" "ecdsa_recover E (eth_sign_sha3 E data) ?s = Some (sk_address k)"
    using assms by (simp_all add: signer_ok_def)
  then have "?s \<noteq> []" by auto
  with s(2) have "normalise_signature (local_sign E k data) = Inr ?s"
    by (simp add: normalise_signature_def local_sign_def Let_def byte_plus_27)
  with s(3) show ?thesis by (simp add: recover_def Let_def)
qed

lemma data_to_sign_set_signature [simp]: "data_to_sign E W (set_signature s m) = data_to_sign E W m"
  by (cases m) (simp_all add: unlock_hash_def locked_transfer_hash_def refund_transfer_hash_def
      lock_expired_hash_def pack_locked_transfer_data_def envelope_data_to_sign_def em_canonical_identifier_def
      withdraw_data_def)

lemma message_signature_set_signature [simp]: "message_signature (set_signature s m) = s"
  by (cases m) simp_all

lemma message_cmdid_set_signature [simp]: "message_cmdid (set_signature s m) = message_cmdid m"
  by (cases m) (simp_all add: message_cmdid_def)

lemma signed_sender:
  assumes "signer_ok E k" and "sign_message E W k m = Inr m'"
  shows "message_sender E W m' = Inr (Some (sk_address k))"
  using assms recover_local_sign [OF assms(1)]
  by (auto simp: sign_message_def message_sender_def result_simps local_sign_nonempty)

lemma signed_by_signer [simp]: "signer_ok E k \<Longrightarrow> signed_by (Inr (Some (sk_address k))) f = f (sk_address k)"
  by (simp add: signed_by_def signer_ok_def)

subsection \<open>Delivery\<close>

text \<open>The signed balance proof of the receiver has the content of the balance proof of the sender.\<close>

definition same_proof :: "platform \<Rightarrow> address \<Rightarrow> balance_proof \<Rightarrow> signed_balance_proof \<Rightarrow> bool" where
  "same_proof E sender bp s \<longleftrightarrow>
     bp_nonce s = bp_nonce bp \<and> bp_transferred_amount s = bp_transferred_amount bp
     \<and> bp_locked_amount s = bp_locked_amount bp \<and> bp_locksroot s = bp_locksroot bp
     \<and> bp_canonical_identifier s = bp_canonical_identifier bp \<and> bp_sender s = sender
     \<and> is_valid_balanceproof_signature E s sender = Inr []"

text \<open>What the partner of \<open>sender\<close> is told by an event.\<close>

definition carries :: "platform \<Rightarrow> address \<Rightarrow> event \<Rightarrow> state_change \<Rightarrow> bool" where
  "carries E sender e sc \<longleftrightarrow>
     (case e of
        SendUnlock u \<Rightarrow> (\<exists>r. sc = ReceiveUnlock r \<and> ru_sender r = sender
          \<and> ru_message_identifier r = mh_message_identifier (su_header u) \<and> ru_secret r = su_secret u
          \<and> ru_secrethash r = su_secrethash u \<and> same_proof E sender (su_balance_proof u) (ru_balance_proof r))
      | SendLockExpired x \<Rightarrow> (\<exists>r. sc = ReceiveLockExpired r \<and> rle_sender r = sender
          \<and> rle_message_identifier r = mh_message_identifier (sle_header x) \<and> rle_secrethash r = sle_secrethash x
          \<and> same_proof E sender (sle_balance_proof x) (rle_balance_proof r))
      | SendSecretReveal h secret secrethash \<Rightarrow>
          sc = ReceiveSecretReveal \<lparr>rsr_sender = sender, rsr_secret = secret, rsr_secrethash = sha256 E secret\<rparr>
      | SendSecretRequest h payment_identifier amount expiration secrethash \<Rightarrow>
          sc = ReceiveSecretRequest \<lparr>rsq_sender = sender, rsq_payment_identifier = payment_identifier,
            rsq_amount = amount, rsq_expiration = expiration, rsq_secrethash = secrethash\<rparr>
      | SendProcessed h \<Rightarrow>
          sc = ReceiveProcessed \<lparr>rak_sender = sender, rak_message_identifier = mh_message_identifier h\<rparr>
      | SendWithdrawRequest h amount participant expiration nonce coop_settle \<Rightarrow>
          (\<exists>r. sc = ToChannel (ReceiveWithdrawRequest r) \<and> rw_sender r = sender
            \<and> rw_message_identifier r = mh_message_identifier h \<and> rw_canonical_identifier r = mh_canonical_identifier h
            \<and> rw_total_withdraw r = amount \<and> rw_nonce r = nonce \<and> rw_expiration r = expiration
            \<and> rw_participant r = participant \<and> rwr_coop_settle r = coop_settle)
      | SendWithdrawConfirmation h amount participant expiration nonce \<Rightarrow>
          (\<exists>r. sc = ToChannel (ReceiveWithdrawConfirmation r) \<and> rw_sender r = sender
            \<and> rw_message_identifier r = mh_message_identifier h \<and> rw_canonical_identifier r = mh_canonical_identifier h
            \<and> rw_total_withdraw r = amount \<and> rw_nonce r = nonce \<and> rw_expiration r = expiration
            \<and> rw_participant r = participant)
      | SendWithdrawExpired h amount participant nonce expiration \<Rightarrow>
          sc = ToChannel (ReceiveWithdrawExpired \<lparr>rwe_sender = sender,
            rwe_message_identifier = mh_message_identifier h, rwe_canonical_identifier = mh_canonical_identifier h,
            rwe_total_withdraw = amount, rwe_expiration = expiration, rwe_nonce = nonce,
            rwe_participant = participant\<rparr>)
      | _ \<Rightarrow> False)"

text \<open>The ranges of the fields that the encoding needs besides those of a well-typed event.\<close>

abbreviation is_uint64 :: "int \<Rightarrow> bool" where
  "is_uint64 i \<equiv> 0 \<le> i \<and> i \<le> UINT64_MAX"

lemma to_bytes_uint64: "is_uint64 i \<Longrightarrow> to_bytes 8 i = Inr (be_bytes 8 i)"
  by (simp add: to_bytes_def UINT64_MAX_def)

definition withdraw_fits :: "wire \<Rightarrow> msg_header \<Rightarrow> int \<Rightarrow> int \<Rightarrow> bool" where
  "withdraw_fits W h amount expiration \<longleftrightarrow>
     is_uint256 (ci_chain_identifier (mh_canonical_identifier h)) \<and> is_uint256 (w_message_type_withdraw W)
     \<and> is_uint256 (ci_channel_identifier (mh_canonical_identifier h)) \<and> is_uint256 amount \<and> is_uint256 expiration"

definition fits_the_wire :: "wire \<Rightarrow> event \<Rightarrow> bool" where
  "fits_the_wire W e \<longleftrightarrow>
     (case e of
        SendUnlock u \<Rightarrow> is_uint64 (mh_message_identifier (su_header u)) \<and> is_uint64 (su_payment_identifier u)
          \<and> length (su_secret u) = 32 \<and> 0 < ci_channel_identifier (bp_canonical_identifier (su_balance_proof u))
      | SendLockExpired x \<Rightarrow> is_uint64 (mh_message_identifier (sle_header x))
          \<and> 0 < ci_channel_identifier (bp_canonical_identifier (sle_balance_proof x))
      | SendSecretReveal h secret secrethash \<Rightarrow> is_uint64 (mh_message_identifier h)
      | SendSecretRequest h payment_identifier amount expiration secrethash \<Rightarrow> is_uint64 (mh_message_identifier h)
          \<and> is_uint64 payment_identifier \<and> is_uint256 amount \<and> is_uint256 expiration
      | SendProcessed h \<Rightarrow> is_uint64 (mh_message_identifier h)
      | SendWithdrawRequest h amount participant expiration nonce coop_settle \<Rightarrow> withdraw_fits W h amount expiration
      | SendWithdrawConfirmation h amount participant expiration nonce \<Rightarrow> withdraw_fits W h amount expiration
      | SendWithdrawExpired h amount participant nonce expiration \<Rightarrow> withdraw_fits W h amount expiration
          \<and> is_uint64 (mh_message_identifier h) \<and> is_uint256 nonce
      | _ \<Rightarrow> False)"

text \<open>The envelope of a message and the balance proof that it was made of.\<close>

definition has_proof :: "balance_proof \<Rightarrow> ('a) envelope_message_scheme \<Rightarrow> bool" where
  "has_proof bp m \<longleftrightarrow>
     em_nonce m = bp_nonce bp \<and> em_transferred_amount m = bp_transferred_amount bp
     \<and> em_locked_amount m = bp_locked_amount bp \<and> em_locksroot m = bp_locksroot bp
     \<and> em_canonical_identifier m = bp_canonical_identifier bp"

definition sendable_proof :: "balance_proof \<Rightarrow> bool" where
  "sendable_proof bp \<longleftrightarrow> typed_balance_proof bp \<and> 0 < ci_channel_identifier (bp_canonical_identifier bp)"

lemmas sendable_defs = has_proof_def sendable_proof_def typed_balance_proof_def assert_envelope_values_def raise_if_def
  ci_valid_def em_canonical_identifier_def Let_def

lemma envelope_arrives:
  fixes m :: "('a) envelope_message_scheme"
  assumes k: "signer_ok E k" and "length h = 32" and bp: "sendable_proof bp" and m: "has_proof bp m"
  obtains d s where "envelope_data_to_sign E m (Inr h) = Inr d"
    and "balanceproof_from_envelope E (Inr (Some (sk_address k))) (Inr h) (m\<lparr>sm_signature := local_sign E k d\<rparr>) = Inr s"
    and "same_proof E (sk_address k) bp s"
proof -
  let ?ci = "bp_canonical_identifier bp"
  have t: "is_uint256 (bp_transferred_amount bp)" and l: "is_uint256 (bp_locked_amount bp)"
    and r: "length (bp_locksroot bp) = 32" and v: "ci_valid ?ci" and n: "0 < bp_nonce bp" "bp_nonce bp \<le> UINT64_MAX"
    using bp by (simp_all add: sendable_proof_def typed_balance_proof_def)
  obtain b where b: "hash_balance_data E (bp_transferred_amount bp) (bp_locked_amount bp) (bp_locksroot bp) = Inr b"
    using hash_balance_data_ok [OF r t l] by blast
  let ?d = "pack_balance_proof E (bp_nonce bp) b h ?ci"
  have d: "envelope_data_to_sign E m (Inr h) = Inr ?d" using m by (simp add: envelope_data_to_sign_def b has_proof_def)
  have c: "em_canonical_identifier (m\<lparr>sm_signature := x\<rparr>) = ?ci" for x
    using m by (simp add: em_canonical_identifier_def has_proof_def)
  have "\<exists>s. balanceproof_from_envelope E (Inr (Some (sk_address k))) (Inr h) (m\<lparr>sm_signature := local_sign E k ?d\<rparr>) = Inr s
      \<and> same_proof E (sk_address k) bp s"
    using assms(2) k m t l r v n
    by (simp add: balanceproof_from_envelope_def mk_balance_proof_signed_def b c local_sign_length has_proof_def
        same_proof_def is_valid_balanceproof_signature_def is_valid_signature_def recover_local_sign)
  with that [OF d] show thesis by blast
qed

text \<open>The event arrives at a node that handles the signed message.\<close>

definition arrives ::
  "platform \<Rightarrow> wire \<Rightarrow> local_signer \<Rightarrow> raiden \<Rightarrow> chain_state \<Rightarrow> event \<Rightarrow> bool" where
  "arrives E W k R cs e \<longleftrightarrow>
     (\<exists>m m' sc. message_from_sendevent E W e = Inr m \<and> sign_message E W k m = Inr m'
        \<and> handle_message E W R cs m' = Inr (cs, [sc]) \<and> carries E (sk_address k) e sc)"

lemma arrivesI:
  assumes "signer_ok E k" and "message_from_sendevent E W e = Inr m" and "data_to_sign E W m = Inr d"
    and "message_sender E W (set_signature (local_sign E k d) m) = Inr (Some (sk_address k)) \<Longrightarrow>
      \<exists>sc. handle_message E W R cs (set_signature (local_sign E k d) m) = Inr (cs, [sc])
        \<and> carries E (sk_address k) e sc"
  shows "arrives E W k R cs e"
proof -
  have s: "sign_message E W k m = Inr (set_signature (local_sign E k d) m)" by (simp add: sign_message_def assms(3))
  from assms(4) [OF signed_sender [OF assms(1) s]] assms(2) s show ?thesis by (auto simp: arrives_def)
qed

lemma unlock_arrives:
  assumes k: "signer_ok E k" and "digests_ok E" and "typed_event E (SendUnlock u)" and "fits_the_wire W (SendUnlock u)"
  shows "arrives E W k R cs (SendUnlock u)"
proof -
  have bp: "sendable_proof (su_balance_proof u)"
    using assms by (simp add: typed_event_def fits_the_wire_def sendable_proof_def)
  obtain m where m: "unlock_from_event u = Inr (Unlock m)" "has_proof (su_balance_proof u) m"
    and f: "sm_message_identifier m = mh_message_identifier (su_header u)"
      "um_payment_identifier m = su_payment_identifier u" "um_secret m = su_secret u"
    using assms(4) bp by (simp add: unlock_from_event_def mk_unlock_def fits_the_wire_def sendable_defs)
  obtain h where h: "unlock_hash E m = Inr h" "length h = 32"
    using assms by (simp add: unlock_hash_def f fits_the_wire_def to_bytes_uint64)
  from envelope_arrives [OF k h(2) bp m(2)] obtain d s where d: "envelope_data_to_sign E m (Inr h) = Inr d"
    and s: "balanceproof_from_envelope E (Inr (Some (sk_address k))) (Inr h) (m\<lparr>sm_signature := local_sign E k d\<rparr>) = Inr s"
    and p: "same_proof E (sk_address k) (su_balance_proof u) s" .
  have "unlock_hash E (m\<lparr>sm_signature := x\<rparr>) = Inr h" for x using h(1) by (simp add: unlock_hash_def)
  with s p assms(3) show ?thesis
    by (intro arrivesI [OF k, of W _ "Unlock m" d])
      (auto simp: m h(1) d handle_message_def handle_message_unlock_def mk_receive_unlock_def carries_def f
        typed_event_def same_proof_def)
qed

lemma lock_expired_arrives:
  assumes k: "signer_ok E k" and "digests_ok E" and "typed_event E (SendLockExpired x)"
    and "fits_the_wire W (SendLockExpired x)"
  shows "arrives E W k R cs (SendLockExpired x)"
proof -
  have bp: "sendable_proof (sle_balance_proof x)"
    using assms by (simp add: typed_event_def fits_the_wire_def sendable_proof_def)
  obtain m where m: "lock_expired_from_event x = Inr (LockExpired m)" "has_proof (sle_balance_proof x) m"
    and f: "sm_message_identifier m = mh_message_identifier (sle_header x)" "xm_secrethash m = sle_secrethash x"
    using bp by (simp add: lock_expired_from_event_def mk_lock_expired_def sendable_defs)
  obtain h where h: "lock_expired_hash E m = Inr h" "length h = 32"
    using assms by (simp add: lock_expired_hash_def f fits_the_wire_def to_bytes_uint64)
  from envelope_arrives [OF k h(2) bp m(2)] obtain d s where d: "envelope_data_to_sign E m (Inr h) = Inr d"
    and s: "balanceproof_from_envelope E (Inr (Some (sk_address k))) (Inr h) (m\<lparr>sm_signature := local_sign E k d\<rparr>) = Inr s"
    and p: "same_proof E (sk_address k) (sle_balance_proof x) s" .
  have "lock_expired_hash E (m\<lparr>sm_signature := x\<rparr>) = Inr h" for x using h(1) by (simp add: lock_expired_hash_def)
  with s p show ?thesis
    by (intro arrivesI [OF k, of W _ "LockExpired m" d])
      (auto simp: m h(1) d handle_message_def handle_message_lockexpired_def carries_def f same_proof_def)
qed

lemma withdraw_data_fits:
  assumes "withdraw_fits W h amount expiration"
  shows "\<exists>d. withdraw_data W (withdraw_from_event h amount participant nonce expiration) = Inr d"
  using assms by (simp add: withdraw_fits_def withdraw_data_def withdraw_from_event_def Let_def to_bytes_uint256)

lemma withdraw_ci [simp]:
  "withdraw_canonical_identifier (withdraw_from_event h amount participant nonce expiration)
    = mh_canonical_identifier h"
  by (simp add: withdraw_canonical_identifier_def withdraw_from_event_def Let_def)

lemma plain_arrives:
  assumes k: "signer_ok E k" and "plain e" and "fits_the_wire W e"
  shows "arrives E W k R cs e"
proof (cases e)
  case (SendSecretReveal h secret secrethash)
  with assms show ?thesis
    by (intro arrivesI [OF k, of W _ _ "cmdid_prefix REVEALSECRET @ be_bytes 8 (mh_message_identifier h) @ secret"])
      (auto simp: fits_the_wire_def to_bytes_uint64 handle_message_def handle_message_revealsecret_def carries_def
        mk_receive_secret_reveal_def)
next
  case (SendSecretRequest h pid amount expiration secrethash)
  with assms show ?thesis
    by (intro arrivesI [OF k, of W _ _ "cmdid_prefix SECRETREQUEST @ be_bytes 8 (mh_message_identifier h)
          @ be_bytes 8 pid @ secrethash @ be_bytes 32 amount @ be_bytes 32 expiration"])
      (auto simp: fits_the_wire_def to_bytes_uint64 to_bytes_uint256 handle_message_def
        handle_message_secretrequest_def carries_def)
next
  case (SendProcessed h)
  with assms show ?thesis
    by (intro arrivesI [OF k, of W _ _ "cmdid_prefix PROCESSED @ be_bytes 8 (mh_message_identifier h)"])
      (auto simp: fits_the_wire_def to_bytes_uint64 handle_message_def handle_message_processed_def carries_def)
next
  case (SendWithdrawRequest h amount participant expiration nonce coop_settle)
  let ?m = "withdraw_message.extend (withdraw_from_event h amount participant nonce expiration)
    (withdraw_request_message.fields coop_settle)"
  have "withdraw_data W ?m = withdraw_data W (withdraw_from_event h amount participant nonce expiration)"
    by (simp add: withdraw_data_def withdraw_message.extend_def withdraw_request_message.fields_def)
  with withdraw_data_fits [of W h amount expiration participant nonce] assms SendWithdrawRequest
  obtain d where "withdraw_data W ?m = Inr d" by (auto simp: fits_the_wire_def)
  with SendWithdrawRequest k show ?thesis
    by (intro arrivesI [OF k, of W _ "WithdrawRequest ?m" d])
      (auto simp: handle_message_def handle_message_withdrawrequest_def carries_def withdraw_message.extend_def
        withdraw_request_message.fields_def withdraw_canonical_identifier_def withdraw_from_event_def Let_def)
next
  case (SendWithdrawConfirmation h amount participant expiration nonce)
  with withdraw_data_fits [of W h amount expiration participant nonce] assms
  obtain d where "withdraw_data W (withdraw_from_event h amount participant nonce expiration) = Inr d"
    by (auto simp: fits_the_wire_def)
  with SendWithdrawConfirmation k show ?thesis
    by (intro arrivesI [OF k, of W _ "WithdrawConfirmation (withdraw_from_event h amount participant nonce expiration)" d])
      (auto simp: handle_message_def handle_message_withdraw_confirmation_def carries_def
        withdraw_canonical_identifier_def withdraw_from_event_def Let_def)
next
  case (SendWithdrawExpired h amount participant nonce expiration)
  let ?m = "withdraw_from_event h amount participant nonce expiration"
  from withdraw_data_fits [of W h amount expiration participant nonce] assms SendWithdrawExpired
  obtain d where "withdraw_data W ?m = Inr d" by (auto simp: fits_the_wire_def)
  with SendWithdrawExpired assms(3) have "data_to_sign E W (WithdrawExpired ?m)
      = Inr (cmdid_prefix WITHDRAW_EXPIRED @ be_bytes 32 nonce @ be_bytes 8 (mh_message_identifier h) @ d)"
    by (simp add: fits_the_wire_def to_bytes_uint64 to_bytes_uint256 withdraw_from_event_def Let_def)
  with SendWithdrawExpired k show ?thesis
    by (intro arrivesI [OF k, of W _ "WithdrawExpired ?m"])
      (auto simp: handle_message_def handle_message_withdraw_expired_def carries_def
        withdraw_canonical_identifier_def withdraw_from_event_def Let_def)
qed (use assms in \<open>simp_all add: fits_the_wire_def plain_def\<close>)

subsection \<open>Delivery of transfers\<close>

text \<open>The fields of a transfer that the encoding needs besides those of a well-typed event.\<close>

definition transfer_fits :: "platform \<Rightarrow> send_locked_transfer_event \<Rightarrow> bool" where
  "transfer_fits E e \<longleftrightarrow>
     (let t = slt_transfer e in
      is_uint64 (mh_message_identifier (slt_header e)) \<and> is_uint64 (lt_payment_identifier t)
      \<and> length (lt_token t) = 20 \<and> length (mh_recipient (slt_header e)) = 20 \<and> length (lt_target t) = 20
      \<and> length (lt_initiator t) = 20 \<and> 0 < ci_channel_identifier (bp_canonical_identifier (ltu_balance_proof t))
      \<and> bp_locksroot (ltu_balance_proof t) \<noteq> LOCKSROOT_OF_NO_LOCKS E)"

text \<open>What the partner reads from a transfer, where \<open>m\<close> is the metadata of the message.\<close>

definition carries_transfer ::
  "platform \<Rightarrow> wire \<Rightarrow> address \<Rightarrow> metadata \<Rightarrow> send_locked_transfer_event \<Rightarrow> locked_transfer_signed \<Rightarrow> bool" where
  "carries_transfer E W sender m e r \<longleftrightarrow>
     (let t = slt_transfer e in
      lt_payment_identifier r = lt_payment_identifier t \<and> lt_token r = lt_token t \<and> lt_lock r = lt_lock t
      \<and> lt_initiator r = lt_initiator t \<and> lt_target r = lt_target t
      \<and> lt_metadata r = Some (metadata_to_dict W m) \<and> lts_message_identifier r = mh_message_identifier (slt_header e)
      \<and> same_proof E sender (ltu_balance_proof t) (lts_balance_proof r))"

lemma received_routes:
  assumes "list_all (\<lambda>r. \<exists>route md. mk_route_metadata E W route md = Inr r) rs"
  shows "received_route_states E W rs = Inr (map (\<lambda>r. \<lparr>rs_route = rm_route r,
    rs_address_to_metadata = (case rm_address_metadata r of None \<Rightarrow> [] | Some m \<Rightarrow> m), rs_swaps = [],
    rs_estimated_fee = 0\<rparr>) rs)"
  using assms
proof (induction rs)
  case (Cons r rs)
  then obtain route md where r: "mk_route_metadata E W route md = Inr r" by auto
  then have "rm_route r = route" by (auto simp: mk_route_metadata_def result_simps)
  with route_metadata_is_valid [OF r] Cons show ?case by simp
qed simp

lemma transfer_message:
  assumes "typed_event E (SendLockedTransfer e)" and "transfer_fits E e" and "metadata_from_event E W e = Inr md"
  obtains m where "message_from_sendevent E W (SendLockedTransfer e) = Inr (LockedTransfer m)"
    and "has_proof (ltu_balance_proof (slt_transfer e)) m"
    and "sm_message_identifier m = mh_message_identifier (slt_header e)"
    and "lm_payment_identifier m = lt_payment_identifier (slt_transfer e)" and "lm_token m = lt_token (slt_transfer e)"
    and "lm_recipient m = mh_recipient (slt_header e)" and "lm_lock m = lt_lock (slt_transfer e)"
    and "lm_target m = lt_target (slt_transfer e)" and "lm_initiator m = lt_initiator (slt_transfer e)"
    and "lm_metadata m = md"
  using assms by (simp add: locked_transfer_from_event_def mk_locked_transfer_def assert_transfer_values_def
      transfer_fits_def typed_event_def mk_lock_valid sendable_defs)

lemma transfer_hash:
  assumes "digests_ok E" and "is_uint64 (sm_message_identifier m)" and "is_uint64 (lm_payment_identifier m)"
    and "valid_lock (lm_lock m)"
  obtains h where "locked_transfer_hash E W m = Inr h" and "length h = 32"
  using assms by (simp add: locked_transfer_hash_def pack_locked_transfer_data_def to_bytes_uint64 to_bytes_uint256
      valid_lock_def)

lemma transfer_arrives:
  assumes k: "signer_ok E k" and "digests_ok E" and typed: "typed_event E (SendLockedTransfer e)"
    and fits: "transfer_fits E e" and md: "metadata_from_event E W e = Inr md"
    and routes: "received_route_states E W routes = Inr rss"
  obtains m m' t where "message_from_sendevent E W (SendLockedTransfer e) = Inr (LockedTransfer m)"
    and "sign_message E W k (LockedTransfer m) = Inr (LockedTransfer m')" and "lm_metadata m' = md"
    and "message_sender E W (LockedTransfer (read_transfer W routes secret m')) = Inr (Some (sk_address k))"
    and "lockedtransfersigned_from_message E W (Inr (Some (sk_address k)))
        (locked_transfer_hash E W (read_transfer W routes secret m')) (read_transfer W routes secret m') = Inr t"
    and "carries_transfer E W (sk_address k) md e t" and "lt_route_states t = rss"
proof -
  let ?bp = "ltu_balance_proof (slt_transfer e)"
  from transfer_message [OF typed fits md] obtain m where
    m: "message_from_sendevent E W (SendLockedTransfer e) = Inr (LockedTransfer m)" "has_proof ?bp m"
    and f: "sm_message_identifier m = mh_message_identifier (slt_header e)"
      "lm_payment_identifier m = lt_payment_identifier (slt_transfer e)" "lm_token m = lt_token (slt_transfer e)"
      "lm_lock m = lt_lock (slt_transfer e)" "lm_target m = lt_target (slt_transfer e)"
      "lm_initiator m = lt_initiator (slt_transfer e)" "lm_metadata m = md" .
  have v: "valid_lock (lt_lock (slt_transfer e))" using typed by (simp add: typed_event_def)
  obtain h where h: "locked_transfer_hash E W m = Inr h" "length h = 32"
    by (rule transfer_hash [OF assms(2), of m W]) (use fits v in \<open>simp_all add: f transfer_fits_def Let_def\<close>)
  have bp: "sendable_proof ?bp" using typed fits by (simp add: typed_event_def transfer_fits_def sendable_proof_def Let_def)
  from envelope_arrives [OF k h(2) bp m(2)] obtain d s where d: "envelope_data_to_sign E m (Inr h) = Inr d"
    and s: "balanceproof_from_envelope E (Inr (Some (sk_address k))) (Inr h) (m\<lparr>sm_signature := local_sign E k d\<rparr>) = Inr s"
    and p: "same_proof E (sk_address k) ?bp s" .
  let ?m' = "m\<lparr>sm_signature := local_sign E k d\<rparr>" and ?r = "read_transfer W routes secret (m\<lparr>sm_signature := local_sign E k d\<rparr>)"
  have sgn: "sign_message E W k (LockedTransfer m) = Inr (LockedTransfer ?m')" by (simp add: sign_message_def h(1) d)
  have hr: "locked_transfer_hash E W ?r = Inr h"
    using h(1) by (simp add: locked_transfer_hash_def pack_locked_transfer_data_def metadata_hash_def read_transfer_def f)
  have "data_to_sign E W (LockedTransfer ?r) = Inr d"
    using d hr by (simp add: envelope_data_to_sign_def em_canonical_identifier_def)
  then have snd: "message_sender E W (LockedTransfer ?r) = Inr (Some (sk_address k))"
    by (simp add: message_sender_def read_transfer_def local_sign_nonempty recover_local_sign [OF k])
  have sr: "balanceproof_from_envelope E (Inr (Some (sk_address k))) (Inr h) ?r = Inr s"
    using s by (simp add: balanceproof_from_envelope_def em_canonical_identifier_def read_transfer_def)
  have fr: "lm_lock ?r = lm_lock m" "lm_payment_identifier ?r = lm_payment_identifier m" "lm_token ?r = lm_token m"
    "lm_initiator ?r = lm_initiator m" "lm_target ?r = lm_target m" "sm_message_identifier ?r = sm_message_identifier m"
    "md_routes (lm_metadata ?r) = routes" "metadata_to_dict W (lm_metadata ?r) = metadata_to_dict W md"
    by (simp_all add: read_transfer_def f)
  obtain t where t: "lockedtransfersigned_from_message E W (Inr (Some (sk_address k)))
      (locked_transfer_hash E W ?r) ?r = Inr t"
    and tt: "carries_transfer E W (sk_address k) md e t" "lt_route_states t = rss"
    using fits p v routes mk_lock_valid [OF v] unfolding hr
    by (simp add: lockedtransfersigned_from_message_def sr fr f mk_hash_time_lock_def as_bytes_valid
        mk_locked_transfer_signed_def carries_transfer_def same_proof_def transfer_fits_def Let_def raise_if_def)
  show thesis by (rule that [OF m(1) sgn _ snd t tt]) (simp add: f(7))
qed

subsection \<open>What a signature covers\<close>

lemma to_bytes_Inr: "to_bytes n i = Inr b \<longleftrightarrow> 0 \<le> i \<and> i < 256 ^ n \<and> b = be_bytes n i"
  by (auto simp: to_bytes_def)

lemma be_bytes_eq_iff:
  "0 \<le> i \<Longrightarrow> i < 256 ^ n \<Longrightarrow> 0 \<le> j \<Longrightarrow> j < 256 ^ n \<Longrightarrow> be_bytes n i = be_bytes n j \<longleftrightarrow> i = j"
  by (metis from_be_bytes mod_pos_pos_trivial)

lemma cmdid_value_inj [simp]: "cmdid_value c = cmdid_value c' \<longleftrightarrow> c = c'"
  by (cases c; cases c') simp_all

text \<open>
  The messages whose signed data starts with the identifier of their class, with fields of the lengths that
  they are sent with.
\<close>

definition tagged_message :: "message \<Rightarrow> bool" where
  "tagged_message m \<longleftrightarrow>
     (case m of
        SecretRequest x \<Rightarrow> length (sqm_secrethash x) = 32
      | RevealSecret x \<Rightarrow> True
      | WithdrawExpired x \<Rightarrow> length (wm_token_network_address x) = 20 \<and> length (wm_participant x) = 20
      | Processed x \<Rightarrow> True
      | Delivered x \<Rightarrow> True
      | _ \<Rightarrow> False)"

lemma tagged_hd:
  "tagged_message m \<Longrightarrow> data_to_sign E W m = Inr d \<Longrightarrow> hd d = cmdid_value (message_cmdid m)"
  by (cases m) (auto simp: tagged_message_def message_cmdid_def cmdid_prefix_def result_simps)

lemma withdraw_data_inj:
  assumes "withdraw_data W x = Inr d" and "withdraw_data W y = Inr d"
    and "length (wm_token_network_address x) = 20" "length (wm_participant x) = 20"
    and "length (wm_token_network_address y) = 20" "length (wm_participant y) = 20"
  shows "wm_token_network_address x = wm_token_network_address y \<and> wm_chain_id x = wm_chain_id y
    \<and> wm_channel_identifier x = wm_channel_identifier y \<and> wm_participant x = wm_participant y
    \<and> wm_total_withdraw x = wm_total_withdraw y \<and> wm_expiration x = wm_expiration y"
  using assms by (auto simp: withdraw_data_def result_simps to_bytes_Inr be_bytes_eq_iff simp del: power_numeral)

lemma signed_data_inj:
  assumes "tagged_message m" and "tagged_message m'"
    and "data_to_sign E W m = Inr d" and "data_to_sign E W m' = Inr d"
  shows "set_signature s m = set_signature s m'"
proof -
  have c: "message_cmdid m = message_cmdid m'" using tagged_hd assms by (metis cmdid_value_inj)
  show ?thesis
  proof (cases m)
    case (SecretRequest x)
    with c assms(2) obtain y where y: "m' = SecretRequest y" by (cases m') (auto simp: message_cmdid_def tagged_message_def)
    with SecretRequest assms show ?thesis
      by (cases x, cases y)
        (auto simp: result_simps to_bytes_Inr be_bytes_eq_iff tagged_message_def simp del: power_numeral)
  next
    case (RevealSecret x)
    with c assms(2) obtain y where y: "m' = RevealSecret y" by (cases m') (auto simp: message_cmdid_def tagged_message_def)
    with RevealSecret assms show ?thesis
      by (cases x, cases y) (auto simp: result_simps to_bytes_Inr be_bytes_eq_iff simp del: power_numeral)
  next
    case (WithdrawExpired x)
    with c assms(2) obtain y where y: "m' = WithdrawExpired y" by (cases m') (auto simp: message_cmdid_def tagged_message_def)
    with WithdrawExpired assms obtain d' where "withdraw_data W x = Inr d'" "withdraw_data W y = Inr d'"
      and "wm_nonce x = wm_nonce y" "sm_message_identifier x = sm_message_identifier y"
      by (auto simp: result_simps to_bytes_Inr be_bytes_eq_iff simp del: power_numeral)
    moreover from this(1,2) assms(1,2) WithdrawExpired y have "wm_token_network_address x = wm_token_network_address y
        \<and> wm_chain_id x = wm_chain_id y \<and> wm_channel_identifier x = wm_channel_identifier y
        \<and> wm_participant x = wm_participant y \<and> wm_total_withdraw x = wm_total_withdraw y
        \<and> wm_expiration x = wm_expiration y"
      by (intro withdraw_data_inj) (auto simp: tagged_message_def)
    ultimately show ?thesis using WithdrawExpired y by (cases x, cases y) simp
  next
    case (Processed x)
    with c assms(2) obtain y where y: "m' = Processed y" by (cases m') (auto simp: message_cmdid_def tagged_message_def)
    with Processed assms show ?thesis
      by (cases x, cases y) (auto simp: result_simps to_bytes_Inr be_bytes_eq_iff simp del: power_numeral)
  next
    case (Delivered x)
    with c assms(2) obtain y where y: "m' = Delivered y" by (cases m') (auto simp: message_cmdid_def tagged_message_def)
    with Delivered assms show ?thesis
      by (cases x, cases y) (auto simp: result_simps to_bytes_Inr be_bytes_eq_iff simp del: power_numeral)
  qed (use assms(1) in \<open>simp_all add: tagged_message_def\<close>)
qed

subsection \<open>Batches\<close>

text \<open>What a batch has to process first: smaller nonces of a channel, and everything before the secrets.\<close>

definition is_secret_reveal :: "state_change \<Rightarrow> bool" where
  "is_secret_reveal sc \<longleftrightarrow> (case sc of ReceiveSecretReveal r \<Rightarrow> True | _ \<Rightarrow> False)"

definition goes_first :: "state_change \<Rightarrow> state_change \<Rightarrow> bool" where
  "goes_first a b \<longleftrightarrow>
     (is_secret_reveal b \<and> \<not> is_secret_reveal a)
     \<or> (\<exists>p q. balance_proof_of a = Some p \<and> balance_proof_of b = Some q
          \<and> ci_channel_identifier (bp_canonical_identifier p) = ci_channel_identifier (bp_canonical_identifier q)
          \<and> bp_nonce p < bp_nonce q)"

lemma goes_first_key: "goes_first a b \<Longrightarrow> by_canonical_identifier a < by_canonical_identifier b"
  by (cases a; cases b)
    (auto simp: goes_first_def is_secret_reveal_def by_canonical_identifier_def less_prod_def' split: option.splits)

lemma sorted_goes_first:
  "sorted_wrt (\<lambda>a b. \<not> goes_first b a) (sort_key by_canonical_identifier scs)"
proof -
  have "sorted (map by_canonical_identifier (sort_key by_canonical_identifier scs))" by simp
  then have "sorted_wrt (\<lambda>a b. by_canonical_identifier a \<le> by_canonical_identifier b)
      (sort_key by_canonical_identifier scs)" by (simp add: sorted_wrt_map)
  then show ?thesis by (rule sorted_wrt_mono_rel [rotated]) (auto dest!: goes_first_key)
qed

lemma handle_messages_raises:
  assumes "m \<in> set ms" and "\<And>cs. \<exists>e. handle_message E W R cs m = Inl e"
  shows "\<exists>e. handle_messages E W R cs ms = Inl e"
  using assms(1)
proof (induction ms arbitrary: cs)
  case (Cons x ms)
  show ?case
  proof (cases "handle_message E W R cs x")
    case (Inr r)
    then obtain cs1 scs where r: "handle_message E W R cs x = Inr (cs1, scs)" by (cases r) auto
    with assms(2) Cons.prems have "m \<in> set ms" by (metis Inl_Inr_False set_ConsD)
    from Cons.IH [OF this, of cs1] r show ?thesis by auto
  qed simp
qed simp

end
