(* ===== verification/Node_Messages.thy ===== *)
theory Node_Messages
  imports Message_Laws Node_Laws
begin

text \<open>
  The messages of a node: what its state machine puts into the queues is what the message handler of the
  partner takes out of the messages.
\<close>

subsection \<open>An example\<close>

text \<open>Stand-ins for the third-party functions of the messages, and Alice's key.\<close>

definition ex_wire :: wire where
  "ex_wire = \<lparr>w_metadata_dump = (\<lambda>routes secret. JNull), w_canonical_json = (\<lambda>j. [1]),
     w_to_canonical_address = (\<lambda>s. replicate 20 1), w_decode_hex = (\<lambda>s. Inr (replicate 65 1)),
     w_public_key = (\<lambda>h s. Some [4]), w_secret_dump = (\<lambda>secret amount ident. secret),
     w_secret_load = (\<lambda>raw. None), w_encrypt = (\<lambda>key raw. raw), w_decrypt = (\<lambda>key raw. Inl ValueError),
     w_message_type_withdraw = 3\<rparr>"

definition ex_signer :: local_signer where
  "ex_signer = \<lparr>sk_address = ex_alice, sk_sign_hash = (\<lambda>h. replicate 64 1 @ [0])\<rparr>"

definition ex_raiden :: raiden where
  "ex_raiden = \<lparr>rd_address = ex_bob, rd_privkey = [], rd_is_secret_registered = (\<lambda>s. False),
     rd_query_address_metadata = (\<lambda>a. None), rd_random_secret = ex_secret\<rparr>"

lemma ex_signer_ok: "signer_ok ex_platform ex_signer"
proof -
  have "hd (replicate 64 1 @ [0 :: byte]) = 1" by (simp add: numeral_eq_Suc)
  then show ?thesis by (simp add: signer_ok_def ex_signer_def ex_platform_def ex_alice_def)
qed

lemma ex_digests: "digests_ok ex_platform"
  by (simp add: digests_ok_def ex_platform_def)

subsection \<open>Properties\<close>

text \<open>
  C6. What a node sends arrives. Every message event, other than a locked transfer, that waits in a queue of a
  reachable node and whose fields are in the ranges of the encoding becomes a message; signed with a key and
  handled by any node, the message gives exactly one state change, without a change of the state of the
  receiver. The state change has the content of the event, the address of the key is its sender, and the
  balance proof that it carries passes the check of the signature in the channel.
\<close>

theorem queued_messages_arrive:
  assumes "node_reach E cs" and "e \<in> set (queue_of cs q)"
    and "signer_ok E k" and "digests_ok E" and "fits_the_wire W e"
  shows "\<exists>m m' sc. message_from_sendevent E W e = Inr m \<and> sign_message E W k m = Inr m'
    \<and> handle_message E W R cs' m' = Inr (cs', [sc]) \<and> carries E (sk_address k) e sc"
proof -
  have typed: "typed_event E e"
    using node_reach_typed [OF assms(1)] assms(2) by (auto simp: typed_messages.queues_lawful_def list_all_iff)
  have "arrives E W k R cs' e"
  proof (cases "plain e")
    case True
    with assms show ?thesis by (intro plain_arrives)
  next
    case False
    with assms typed show ?thesis
      by (cases e) (auto simp: plain_def fits_the_wire_def intro: unlock_arrives lock_expired_arrives)
  qed
  then show ?thesis by (simp add: arrives_def)
qed

definition ex_to_alice :: queue_identifier where
  "ex_to_alice = \<lparr>qi_recipient = ex_alice, qi_canonical_identifier = CANONICAL_IDENTIFIER_UNORDERED_QUEUE\<rparr>"

lemma ex_node_reach: "ex_node_mediates = Inr (cs, evs) \<Longrightarrow> node_reach ex_platform cs"
  unfolding ex_node_mediates_def
  by (rule node_reach.step [OF node_reach.start]) (simp_all add: ex_chain_def)

theorem queued_messages_arrive_witness:
  "\<exists>cs evs e m m' sc. ex_node_mediates = Inr (cs, evs) \<and> e \<in> set (queue_of cs ex_to_alice)
    \<and> message_from_sendevent ex_platform ex_wire e = Inr m \<and> sign_message ex_platform ex_wire ex_signer m = Inr m'
    \<and> handle_message ex_platform ex_wire ex_raiden ex_chain m' = Inr (ex_chain, [sc])
    \<and> carries ex_platform ex_alice e sc"
proof -
  have "node_returns ex_node_mediates (\<lambda>cs evs. queue_of cs ex_to_alice \<noteq> []
      \<and> list_all (fits_the_wire ex_wire) (queue_of cs ex_to_alice))" by code_simp
  then obtain cs evs where 1: "ex_node_mediates = Inr (cs, evs)" "queue_of cs ex_to_alice \<noteq> []"
    "list_all (fits_the_wire ex_wire) (queue_of cs ex_to_alice)" by (auto elim!: node_returnsE)
  then obtain e where e: "e \<in> set (queue_of cs ex_to_alice)" "fits_the_wire ex_wire e"
    by (cases "queue_of cs ex_to_alice") auto
  from queued_messages_arrive [OF ex_node_reach [OF 1(1)] e(1) ex_signer_ok ex_digests e(2), of ex_raiden ex_chain] 1(1) e(1)
  show ?thesis by (simp add: ex_signer_def) blast
qed

text \<open>The route that a received route of the metadata stands for.\<close>

definition route_of :: "route_metadata \<Rightarrow> route_state" where
  "route_of r = \<lparr>rs_route = rm_route r,
     rs_address_to_metadata = (case rm_address_metadata r of None \<Rightarrow> [] | Some m \<Rightarrow> m),
     rs_swaps = [], rs_estimated_fee = 0\<rparr>"



text \<open>
  C23. A signature belongs to one message. Two messages of the classes \<open>SecretRequest\<close>, \<open>RevealSecret\<close>,
  \<open>WithdrawExpired\<close>, \<open>Processed\<close> and \<open>Delivered\<close>, whose hashes and addresses have their lengths, with the same
  signed data are the same message up to the signature: the signed data loses no field and no boundary between
  fields, and no message of one class can be taken for a message of another.
\<close>

theorem signed_data_identifies_message:
  assumes "tagged_message m" and "tagged_message m'"
    and "data_to_sign E W m = Inr d" and "data_to_sign E W m' = Inr d"
  shows "message_cmdid m = message_cmdid m' \<and> set_signature s m = set_signature s m'"
  using signed_data_inj [OF assms] message_cmdid_set_signature by metis

theorem signed_data_identifies_message_witness:
  "\<exists>d. data_to_sign ex_platform ex_wire (Processed \<lparr>sm_signature = [1], sm_message_identifier = 5\<rparr>) = Inr d
    \<and> data_to_sign ex_platform ex_wire (Processed \<lparr>sm_signature = [2], sm_message_identifier = 5\<rparr>) = Inr d
    \<and> set_signature [] (Processed \<lparr>sm_signature = [1], sm_message_identifier = 5\<rparr>)
      = set_signature [] (Processed \<lparr>sm_signature = [2], sm_message_identifier = 5\<rparr>)"
proof -
  let ?m = "\<lambda>s. Processed \<lparr>sm_signature = s, sm_message_identifier = 5\<rparr>"
  have t: "tagged_message (?m s)" for s by (simp add: tagged_message_def)
  obtain d where d: "data_to_sign ex_platform ex_wire (?m s) = Inr d" for s by (simp add: to_bytes_def)
  from signed_data_identifies_message [OF t t d d, of "[1]" "[2]" "[]"] d show ?thesis by blast
qed

text \<open>
  The signature of a withdraw request does not cover its nonce, its message identifier and the flag for a
  cooperative settlement: whoever changes these fields of a signed request gets a message that counts as the
  same message, has the same sender, and makes the state change with the changed fields.
\<close>

theorem withdraw_signature_is_partial:
  assumes "handle_message E W R cs (WithdrawRequest m) = Inr (cs', [ToChannel (ReceiveWithdrawRequest r)])"
  shows "message_eq E W (WithdrawRequest m)
      (WithdrawRequest (m\<lparr>wm_nonce := n, sm_message_identifier := i, wm_coop_settle := b\<rparr>))
    \<and> handle_message E W R cs (WithdrawRequest (m\<lparr>wm_nonce := n, sm_message_identifier := i, wm_coop_settle := b\<rparr>))
      = Inr (cs', [ToChannel (ReceiveWithdrawRequest
          (r\<lparr>rw_nonce := n, rw_message_identifier := i, rwr_coop_settle := b\<rparr>))])"
proof -
  let ?m = "m\<lparr>wm_nonce := n, sm_message_identifier := i, wm_coop_settle := b\<rparr>"
  have "withdraw_data W ?m = withdraw_data W m" by (simp add: withdraw_data_def)
  then have "message_sender E W (WithdrawRequest ?m) = message_sender E W (WithdrawRequest m)"
    and "message_eq E W (WithdrawRequest m) (WithdrawRequest ?m)"
    by (simp_all add: message_sender_def message_eq_def message_cmdid_def)
  moreover from assms obtain a where "message_sender E W (WithdrawRequest m) = Inr (Some a)" "a \<noteq> []"
    by (auto simp: handle_message_def handle_message_withdrawrequest_def signed_by_def result_simps split: option.splits)
  ultimately show ?thesis
    using assms by (auto simp: handle_message_def handle_message_withdrawrequest_def signed_by_def
        withdraw_canonical_identifier_def)
qed

definition ex_withdraw_request :: withdraw_request_message where
  "ex_withdraw_request = \<lparr>sm_signature = replicate 64 1 @ [27], sm_message_identifier = 5, wm_chain_id = 1,
     wm_token_network_address = replicate 20 3, wm_channel_identifier = 1, wm_participant = ex_alice,
     wm_total_withdraw = 3, wm_nonce = 1, wm_expiration = 50, wm_coop_settle = False\<rparr>"

theorem withdraw_signature_is_partial_witness:
  "\<exists>r. handle_message ex_platform ex_wire ex_raiden ex_chain (WithdrawRequest
      (ex_withdraw_request\<lparr>wm_nonce := 7, sm_message_identifier := 8, wm_coop_settle := True\<rparr>))
    = Inr (ex_chain, [ToChannel (ReceiveWithdrawRequest r)]) \<and> rw_nonce r = 7 \<and> rwr_coop_settle r"
proof -
  have "message_sender ex_platform ex_wire (WithdrawRequest ex_withdraw_request) = Inr (Some ex_alice)" by code_simp
  then obtain r where "handle_message ex_platform ex_wire ex_raiden ex_chain (WithdrawRequest ex_withdraw_request)
      = Inr (ex_chain, [ToChannel (ReceiveWithdrawRequest r)])"
    by (simp add: handle_message_def handle_message_withdrawrequest_def signed_by_def ex_alice_def)
  from withdraw_signature_is_partial [OF this, where n = 7 and i = 8 and b = True] show ?thesis by auto
qed

text \<open>
  C24. The state changes of a batch of messages are in the order that the channels need. They are those of the
  handlers for the messages without duplicates, in some order: balance proofs of a channel by their nonces,
  and the revealed secrets after everything else.
\<close>

theorem messages_are_handled_in_order:
  assumes "on_messages E W R arrange cs messages = Inr (cs', state_changes)"
  shows "(\<exists>unique all. unique_messages E W [] messages = Inr unique
      \<and> handle_messages E W R cs (arrange unique) = Inr (cs', all) \<and> mset state_changes = mset all)
    \<and> sorted_wrt (\<lambda>a b. \<not> goes_first b a) state_changes"
proof -
  from assms obtain unique all where "unique_messages E W [] messages = Inr unique"
    "handle_messages E W R cs (arrange unique) = Inr (cs', all)"
    and s: "state_changes = sort_key by_canonical_identifier all"
    by (auto simp: on_messages_def result_simps)
  then show ?thesis using sorted_goes_first [of all] by auto
qed

text \<open>Two messages of which the second is handled first.\<close>

definition ex_reveal_message :: message where
  "ex_reveal_message = RevealSecret \<lparr>sm_signature = replicate 64 1 @ [27], sm_message_identifier = 6,
     rsm_secret = ex_secret\<rparr>"

definition ex_processed_message :: message where
  "ex_processed_message = Processed \<lparr>sm_signature = replicate 64 1 @ [27], sm_message_identifier = 5\<rparr>"

theorem messages_are_handled_in_order_witness:
  "\<exists>scs. on_messages ex_platform ex_wire ex_raiden rev ex_chain [ex_processed_message, ex_reveal_message]
      = Inr (ex_chain, scs) \<and> sorted_wrt (\<lambda>a b. \<not> goes_first b a) scs \<and> map is_secret_reveal scs = [False, True]"
proof -
  have "case on_messages ex_platform ex_wire ex_raiden rev ex_chain [ex_processed_message, ex_reveal_message] of
      Inl e \<Rightarrow> False | Inr (cs, scs) \<Rightarrow> map is_secret_reveal scs = [False, True]" by code_simp
  then obtain cs scs where 1: "on_messages ex_platform ex_wire ex_raiden rev ex_chain
      [ex_processed_message, ex_reveal_message] = Inr (cs, scs)" "map is_secret_reveal scs = [False, True]"
    by (auto split: sum.splits)
  have "cs = ex_chain"
    using 1(1) by (auto simp: on_messages_def result_simps ex_processed_message_def ex_reveal_message_def
        message_eq_def message_cmdid_def handle_message_def handle_message_processed_def
        handle_message_revealsecret_def signed_by_def split: option.splits)
  with 1 messages_are_handled_in_order [OF 1(1)] show ?thesis by auto
qed

text \<open>
  C39. A transfer with a secret that cannot be decrypted stops the batch. If the decryption of the secret in a
  transfer for this node raises anything but \<open>InvalidSecret\<close>, then \<open>on_messages\<close> raises, and no message of the
  batch is processed, whoever sent it.
\<close>

theorem undecryptable_secret_stops_batch:
  assumes "unique_messages E W [] messages = Inr unique" and "LockedTransfer m \<in> set (arrange unique)"
    and "\<not> rd_is_secret_registered R (lk_secrethash (lm_lock m))"
    and "lockedtransfersigned_from_message E W (message_sender E W (LockedTransfer m)) (locked_transfer_hash E W m) m = Inr t"
    and "md_routes (lm_metadata m) \<noteq> []" and "lm_target m = rd_address R"
    and "md_secret (lm_metadata m) = Some c" and "w_decrypt W (rd_privkey R) c = Inl e" and "e \<noteq> InvalidSecret"
  shows "\<exists>e'. on_messages E W R arrange cs messages = Inl e'"
proof -
  obtain a where "message_sender E W (LockedTransfer m) = Inr (Some a)" "a \<noteq> []"
    using assms(4) by (auto simp: lockedtransfersigned_from_message_def balanceproof_from_envelope_def signed_by_def
        result_simps split: option.splits)
  then have "handle_message E W R cs0 (LockedTransfer m) = Inl e" for cs0
    using assms(3-9) by (auto simp: handle_message_def handle_message_lockedtransfer_def usable_secret_def
        decrypt_secret_def signed_by_def Let_def)
  then have "\<exists>e. handle_messages E W R cs (arrange unique) = Inl e"
    by (intro handle_messages_raises [OF assms(2)]) blast
  with assms(1) show ?thesis by (auto simp: on_messages_def)
qed

text \<open>Alice sends a transfer with an unreadable secret to Bob, together with an acknowledgement.\<close>

definition ex_bad_transfer :: locked_transfer_message where
  "ex_bad_transfer = \<lparr>sm_signature = replicate 64 1 @ [27], sm_message_identifier = 77, em_chain_id = 1, em_nonce = 1,
     em_transferred_amount = 0, em_locked_amount = 4, em_locksroot = replicate 32 1, em_channel_identifier = 1,
     em_token_network_address = replicate 20 3, lm_payment_identifier = 5, lm_token = replicate 20 4,
     lm_recipient = ex_bob, lm_lock = ex_lock, lm_target = ex_bob, lm_initiator = ex_alice,
     lm_metadata = \<lparr>md_routes = [\<lparr>rm_route = [ex_alice, ex_bob], rm_address_metadata = None\<rparr>],
       md_original_data = Some JNull, md_secret = Some [0]\<rparr>\<rparr>"

theorem undecryptable_secret_stops_batch_witness:
  "\<exists>e. on_messages ex_platform ex_wire ex_raiden id ex_chain [LockedTransfer ex_bad_transfer, ex_processed_message] = Inl e"
proof -
  let ?m = "ex_bad_transfer" and ?ms = "[LockedTransfer ex_bad_transfer, ex_processed_message]"
  have u: "unique_messages ex_platform ex_wire [] ?ms = Inr ?ms" by code_simp
  have "\<not> isl (lockedtransfersigned_from_message ex_platform ex_wire
      (message_sender ex_platform ex_wire (LockedTransfer ?m)) (locked_transfer_hash ex_platform ex_wire ?m) ?m)"
    by code_simp
  then obtain t where t: "lockedtransfersigned_from_message ex_platform ex_wire
      (message_sender ex_platform ex_wire (LockedTransfer ?m)) (locked_transfer_hash ex_platform ex_wire ?m) ?m = Inr t"
    by (metis isl_def sum.exhaust_sel)
  have "LockedTransfer ?m \<in> set (id ?ms)" "\<not> rd_is_secret_registered ex_raiden (lk_secrethash (lm_lock ?m))"
    "md_routes (lm_metadata ?m) \<noteq> []" "lm_target ?m = rd_address ex_raiden" "md_secret (lm_metadata ?m) = Some [0]"
    "w_decrypt ex_wire (rd_privkey ex_raiden) [0] = Inl ValueError" "ValueError \<noteq> InvalidSecret"
    by (simp_all add: ex_bad_transfer_def ex_raiden_def ex_wire_def)
  from undecryptable_secret_stops_batch [where arrange = id, OF u this(1,2) t this(3-7)] show ?thesis .
qed

end
