(* ===== verification/Spec2Isabelle.thy ===== *)
theory Spec2Isabelle
  imports Channel_Network Channel_Payments Channel_Status Channel_Closing Mediation_Fee_Laws Target_Laws
    Token_Network_Laws Payment_Laws
    Views Node_Laws Node_Wal Node_Messages
begin

text \<open>
  Verification of the Raiden node state machine (\<open>src/raiden_common/\<close>).

  \<^bold>\<open>The program.\<close> A Raiden node holds payment channels with other nodes. Inside it is a state machine: a
  function from a state and a state change (a message, a user action, a block, an event of a smart contract)
  to a new state and a list of events (messages to send, transactions to make, results for the user). The
  function is \<open>transfer/node.py\<close>. It dispatches to token networks (\<open>transfer/token_network.py\<close>), which own
  channels (\<open>transfer/channel.py\<close>), and to payment tasks, one per payment: the initiator
  (\<open>initiator_manager.py\<close>, \<open>initiator.py\<close>), the mediator (\<open>mediator.py\<close>) or the target (\<open>target.py\<close>), all in
  \<open>transfer/mediated_transfer/\<close>, which operate on the channels. The events go to message queues and to the
  list of pending transactions. Around the function, events become signed messages (\<open>messages/\<close>), the messages
  of other nodes become state changes (\<open>message_handler.py\<close>), and a write-ahead log (\<open>storage/wal.py\<close>) records
  the state changes, so that a node that is restarted replays them. This development models the function, its
  components, and these three parts.

  \<^bold>\<open>Conventions.\<close> A data class is a record whose fields carry a prefix for the class, an \<open>Enum\<close> or a union is a
  datatype, a Python \<open>int\<close> is \<open>int\<close>, a \<open>Fraction\<close> is \<open>rat\<close>, a byte string is a list of 8-bit words, a
  dictionary is an association list in insertion order. Objects are mutated in place in Python; here every
  operation returns the new value, and the random generator that draws message identifiers is threaded. A
  raised exception or a failed assertion is a value of the left of the sum type \<open>result\<close>; what was mutated
  before it is dropped. Error texts are values of a datatype that carries what the text interpolates. Floats
  occur in fee computations only: a double is its rational value and \<open>fl\<close> rounds to 53 bits. The hash
  functions, elliptic curve recovery, the packing functions of \<open>raiden_contracts\<close> and floating point powers
  are not part of the source: they are the fields of the record \<open>platform\<close>, an argument of every definition
  that needs one; the record \<open>wire\<close> has those of the messages (JSON schemas, canonical JSON, encryption). Logging
  and tracing are left out.

  \<^bold>\<open>The theories.\<close>
  \<^item> \<open>Prelude\<close>: results, dictionaries with their interface locale \<open>dict_ops\<close>, byte strings, the collections of
    simplification rules.
  \<^item> \<open>Encoding\<close>: \<open>messages/transfers.py\<close> (\<open>Lock\<close>), \<open>utils/signer.py\<close>, \<open>transfer/utils\<close>: bytes of locks, locksroot,
    balance hash, signature recovery. The locales \<open>codec\<close> and \<open>fixed_codec\<close> carry the round trips.
  \<^item> \<open>Channel_State\<close>, \<open>Transfer_State\<close>, \<open>Events\<close>, \<open>State_Changes\<close>: the data classes of \<open>transfer/state.py\<close>,
    \<open>transfer/architecture.py\<close>, \<open>transfer/events.py\<close>, \<open>transfer/state_change.py\<close> and of their namesakes in
    \<open>transfer/mediated_transfer\<close>, with the checks of their constructors.
  \<^item> \<open>Mediation_Fee\<close>, \<open>Mediation_Fee_Laws\<close>: \<open>mediation_fee.py\<close>, fee schedules and fee functions.
  \<^item> \<open>Channel_Queries\<close>, \<open>Channel_Validation\<close>, \<open>Channel_Send\<close>, \<open>Channel_Handlers\<close>: all of \<open>transfer/channel.py\<close>.
  \<^item> \<open>Channel_Locks\<close>, \<open>Channel_Ledger\<close>, \<open>Channel_Invariant\<close>, \<open>Channel_Safety\<close>, \<open>Channel_Runs\<close>: the locks of one
    side as one finite map, the effect of a message on its side as a step of an abstract ledger, the
    invariant of a channel, its preservation by every operation, reachable channels.
  \<^item> \<open>Channel_Nonce\<close> (replay, locale \<open>nonce_gate\<close>), \<open>Channel_Status\<close> (life cycle), \<open>Channel_Payments\<close>,
    \<open>Channel_Closing\<close>: what the operations of a channel achieve.
  \<^item> \<open>Channel_Network\<close>: two nodes that share a channel and exchange messages asynchronously.
  \<^item> \<open>Channel_Effects\<close>, \<open>Payment_Task\<close>: what a payment task relies on when it calls a channel, and the contract of a
    task (locale \<open>payment_task\<close>), of which target and initiator are interpretations.
  \<^item> \<open>Secret_Reveal\<close>, \<open>Target\<close>, \<open>Target_Laws\<close>: \<open>target.py\<close>, \<open>secret_registry.py\<close>.
  \<^item> \<open>Routes\<close>, \<open>Initiator\<close>, \<open>Initiator_Manager\<close>, \<open>Initiator_Laws\<close>, \<open>Payment_Laws\<close>: \<open>routes.py\<close>, \<open>initiator.py\<close>,
    \<open>initiator_manager.py\<close>. Two dictionaries share the channels there, so that the channels are in a store
    under references.
  \<^item> \<open>Mediation_Amount\<close>, \<open>Mediation_Amount_Laws\<close>, \<open>Mediator\<close>, \<open>Mediator_Laws\<close>, \<open>Mediation\<close>: \<open>mediator.py\<close>.
  \<^item> \<open>Token_Network\<close>, \<open>Token_Network_Laws\<close>: \<open>token_network.py\<close>.
  \<^item> \<open>Chain_State\<close>, \<open>Views\<close>, \<open>Node\<close>: \<open>ChainState\<close> and its registries, \<open>tasks.py\<close>, \<open>views.py\<close>, \<open>node.py\<close>.
  \<^item> \<open>Message_Types\<close>, \<open>Node_Queues\<close>, \<open>Node_Events\<close>, \<open>Node_Laws\<close>: what the components emit, the two queues of a
    node, the locale \<open>event_law\<close> for everything that a node emits, the promises of a node.
  \<^item> \<open>Metadata\<close>, \<open>Messages\<close>, \<open>Message_Handler\<close>: \<open>messages/\<close> (the messages between nodes), \<open>utils/validation.py\<close>,
    \<open>transfer/utils/secret.py\<close>, \<open>LocalSigner\<close>, \<open>message_handler.py\<close>. \<open>Message_Laws\<close>, \<open>Node_Messages\<close>: the way of an
    event to the state change of the partner, what signatures cover, the order of a batch.
  \<^item> \<open>Storage\<close>, \<open>Wal\<close>: the tables of \<open>storage/sqlite.py\<close> that the log uses, \<open>storage/wal.py\<close>, and \<open>_initialize_wal\<close>,
    \<open>handle_state_changes\<close> and \<open>_maybe_snapshot\<close> of \<open>raiden_service.py\<close>, for any transition function. \<open>Wal_Laws\<close>,
    \<open>Node_Wal\<close>: reachable logs, their invariant, restarts, and the log of a node.
  \<^item> \<open>Examples\<close>: concrete channels and messages on which the theorems are applied.

  \<^bold>\<open>What is shown.\<close> For a channel: the assertions of \<open>sanity_check\<close> hold in every reachable state, the status never
  goes back, no message is accepted twice, an accepted transfer is covered by the sender's balance, an unlock
  pays exactly its lock, sending and receiving implement the same step of a ledger, the settlement window is
  respected, a secret registered in time protects its lock. For two nodes: messages in flight are always
  accepted, and the nodes agree when the queues are empty. For the target and the initiator: over the whole
  life of a task the balance changes by exactly what the events report; a payment is paid at most once; its
  secret goes at most once and only to the target; a route locks no more than the fee limit allows. For the
  mediator: it never forwards more than it receives, and it pays only while it can claim. For a token network:
  the two dictionaries agree, and only settled channels disappear. For a node: a message stays queued until
  its recipient acknowledges it, a transaction stays pending until its effect is seen, every queued message
  is well typed, and a payment keeps its role. For the messages: what waits in a queue arrives at the partner
  as the state change with the same content and a valid signature, which is what the network of two nodes
  takes for granted; the signed data of a message determines it; a batch is handled in the order of the nonces.
  For the log: it explains the state, and a restart is characterised exactly, including the state change that
  it applies twice. Several theorems record states in which the code raises or
  reports something wrong; they are marked as such in their texts.

  \<^bold>\<open>Assumptions.\<close> The step relation of a channel (\<open>Channel_Runs\<close>) has as guards what its callers and the smart
  contract guarantee: one task per secrethash, totals of deposits and withdraws that only grow, a withdraw
  that leaves the pending locks covered. Network theorems assume that messages between two nodes arrive in
  order, as the queues and retries of the transport provide. Injectivity of the hash is an explicit
  hypothesis where it is used. The fee property of the mediator assumes fee schedules with \<open>cap_fees\<close>, the
  default. Token networks and channels are identified by their contract addresses and identifiers. The
  identifiers of the log increase and fit into 128 bits, and the database returns the values that were
  written. A signature has 65 bytes, and its key is recovered from it.

  \<^bold>\<open>Termination.\<close> All definitions are total functions; loops are recursion over the list they iterate over, except
  for the search of \<open>find_intersection\<close> and \<open>bit_length\<close>, which have a measure. No fuel is used.

  \<^bold>\<open>Not modelled.\<close> The JSON schemas of messages and states and the migration of old databases
  (\<open>storage/serialization\<close>, \<open>utils/upgrades.py\<close>), the messages to monitoring and path finding services, the
  JSON-RPC access to the blockchain and the decoding of its logs (\<open>blockchain/\<close>, \<open>network/rpc\<close>,
  \<open>network/proxies\<close>), the Matrix and WebRTC transport and path finding (\<open>network/transport\<close>,
  \<open>network/pathfinding.py\<close>, \<open>routing.py\<close>), the greenlets, the REST API and the command line (the rest of
  \<open>raiden_service.py\<close>, \<open>api/\<close>, \<open>waiting.py\<close>, \<open>utils/\<close>): they are input and output around the parts modelled here.
\<close>

end
